(* ===== verification/Go_Prelude.thy ===== *)
theory Go_Prelude
  imports Main "HOL-Library.Sublist" "HOL-Library.Word" "HOL-Library.Char_ord"
    "HOL-Library.List_Lexorder"
begin

text \<open>
  The vocabulary every component of the development shares.

  \<^item> Go errors as values (\<open>errors.New\<close>, \<open>fmt.Errorf("%w")\<close>, \<open>errors.Join\<close>,
    \<open>errors.Is\<close>), and the two result shapes of the source: \<open>error\<close> alone is
    \<open>go_error option\<close> (\<open>None\<close> is \<open>nil\<close>), \<open>(T, error)\<close> is \<open>go_error + T\<close>.
  \<^item> The functions of package \<open>strings\<close> the source calls, on byte strings.
  \<^item> \<open>time.Time\<close> as an instant together with its location, \<open>time.Duration\<close> as
    nanoseconds.
\<close>

section \<open>Collections\<close>

named_theorems go_string \<open>unfolding rules for the string functions\<close>
named_theorems spec_intro \<open>rules of the postcondition calculus\<close>

section \<open>Errors\<close>

datatype go_error =
    NewErr string
  | NotExist
  | OSFailure
  | WrapErr go_error string
  | JoinErr go_error go_error

text \<open>\<open>errors.Is\<close> walks the tree of wrapped and joined errors.\<close>

primrec errors_Is :: "go_error \<Rightarrow> go_error \<Rightarrow> bool" where
  "errors_Is (NewErr m) t \<longleftrightarrow> NewErr m = t"
| "errors_Is NotExist t \<longleftrightarrow> NotExist = t"
| "errors_Is OSFailure t \<longleftrightarrow> OSFailure = t"
| "errors_Is (WrapErr e m) t \<longleftrightarrow> WrapErr e m = t \<or> errors_Is e t"
| "errors_Is (JoinErr a b) t \<longleftrightarrow> JoinErr a b = t \<or> errors_Is a t \<or> errors_Is b t"

lemma errors_Is_refl [simp]: "errors_Is e e"
  by (cases e) auto

type_synonym 'a result = "go_error + 'a"

abbreviation errNew :: "string \<Rightarrow> go_error option" where
  "errNew m \<equiv> Some (NewErr m)"

text \<open>A chain of guards with early returns succeeds if no guard fires.\<close>

lemma guard_None: "(if b then Some e else r) = None \<longleftrightarrow> \<not> b \<and> r = None"
  by simp

lemma case_None: "(case r of None \<Rightarrow> x | Some e \<Rightarrow> Some (f e)) = None \<longleftrightarrow> r = None \<and> x = None"
  by (simp split: option.split)

lemma guard_Inr: "(if b then Inl e else r) = Inr x \<longleftrightarrow> \<not> b \<and> r = Inr x"
  by simp

lemma case_Inr: "(case r of None \<Rightarrow> y | Some e \<Rightarrow> Inl (f e)) = Inr x \<longleftrightarrow> r = None \<and> y = Inr x"
  by (simp split: option.split)

lemmas guards = guard_None case_None guard_Inr case_Inr

section \<open>Machine integers\<close>

text \<open>\<open>int64\<close> addition wraps around; \<open>uint64\<close> values are \<open>64 word\<close>.\<close>

type_synonym u64 = "64 word"

definition wrap_int64 :: "int \<Rightarrow> int" where
  "wrap_int64 n = (n + 2 ^ 63) mod 2 ^ 64 - 2 ^ 63"

definition int64_range :: "int \<Rightarrow> bool" where
  "int64_range n \<longleftrightarrow> - (2 ^ 63) \<le> n \<and> n < 2 ^ 63"

lemma wrap_int64_id: "int64_range n \<Longrightarrow> wrap_int64 n = n"
  by (simp add: wrap_int64_def int64_range_def mod_pos_pos_trivial)

lemma wrap_int64_range: "int64_range (wrap_int64 n)"
proof -
  have "0 \<le> (n + 2 ^ 63) mod 2 ^ 64" "(n + 2 ^ 63) mod 2 ^ 64 < 2 ^ 64"
    by simp_all
  then show ?thesis
    by (simp add: wrap_int64_def int64_range_def)
qed

section \<open>Time\<close>

text \<open>
  A \<open>time.Time\<close> is an instant, in nanoseconds since the zero time, in a location: \<open>None\<close>
  is \<open>time.UTC\<close>, \<open>Some z\<close> any other location, \<open>z\<close> seconds east of UTC at that instant.
  \<open>Sub\<close> saturates at the range of a \<open>time.Duration\<close>.
\<close>

record gotime =
  instant :: int
  zone :: "int option"

abbreviation in_utc :: "gotime \<Rightarrow> bool" where "in_utc t \<equiv> zone t = None"

type_synonym duration = int

definition time_Second :: duration where "time_Second = 1000000000"
definition time_Minute :: duration where "time_Minute = 60 * time_Second"

definition zero_time :: gotime where "zero_time = \<lparr>instant = 0, zone = None\<rparr>"

definition IsZero :: "gotime \<Rightarrow> bool" where "IsZero t \<longleftrightarrow> instant t = 0"
definition time_UTC :: "gotime \<Rightarrow> gotime" where "time_UTC t = t\<lparr>zone := None\<rparr>"
definition time_Add :: "gotime \<Rightarrow> duration \<Rightarrow> gotime" where
  "time_Add t d = t\<lparr>instant := instant t + d\<rparr>"
definition time_Sub :: "gotime \<Rightarrow> gotime \<Rightarrow> duration" where
  "time_Sub a b = max (- 9223372036854775808) (min 9223372036854775807 (instant a - instant b))"
definition time_After :: "gotime \<Rightarrow> gotime \<Rightarrow> bool" where
  "time_After a b \<longleftrightarrow> instant b < instant a"
definition time_Before :: "gotime \<Rightarrow> gotime \<Rightarrow> bool" where
  "time_Before a b \<longleftrightarrow> instant a < instant b"
definition time_Equal :: "gotime \<Rightarrow> gotime \<Rightarrow> bool" where
  "time_Equal a b \<longleftrightarrow> instant a = instant b"

lemmas time_defs = time_Second_def time_Minute_def zero_time_def IsZero_def time_UTC_def
  time_Add_def time_Sub_def time_After_def time_Before_def time_Equal_def

lemma IsZero_zero_time [simp]: "IsZero zero_time"
  by (simp add: time_defs)

section \<open>Strings\<close>

text \<open>
  Go strings are byte strings. \<open>strings.TrimSpace\<close> cuts the UTF-8 encodings of the
  code points \<open>unicode.IsSpace\<close> accepts from both ends: the ASCII ones, U+0085, U+00A0,
  U+1680, U+2000 to U+200A, U+2028, U+2029, U+202F, U+205F and U+3000.
\<close>

definition bytes :: "nat list \<Rightarrow> string" where
  "bytes = map char_of"

definition space_encodings :: "string list" where
  "space_encodings = map bytes
     ([[9], [10], [11], [12], [13], [32], [194, 133], [194, 160], [225, 154, 128]]
      @ map (\<lambda>n. [226, 128, n]) [128..<139]
      @ [[226, 128, 168], [226, 128, 169], [226, 128, 175], [226, 129, 159], [227, 128, 128]])"

lemma space_encodings_nonempty: "p \<in> set space_encodings \<Longrightarrow> p \<noteq> []"
  by (auto simp: space_encodings_def bytes_def)

function trim_left :: "string list \<Rightarrow> string \<Rightarrow> string" where
  "trim_left ps s =
     (case find (\<lambda>p. p \<noteq> [] \<and> prefix p s) ps of
        None \<Rightarrow> s
      | Some p \<Rightarrow> trim_left ps (drop (length p) s))"
  by pat_completeness auto
termination
proof (relation "measure (\<lambda>(ps, s). length s)")
  show "wf (measure (\<lambda>(ps, s). length s))" by simp
next
  fix ps s p
  assume "find (\<lambda>p. p \<noteq> [] \<and> prefix p s) ps = Some p"
  then have "p \<noteq> []" and "prefix p s"
    by (auto simp: find_Some_iff)
  then have "0 < length p" and "length p \<le> length s"
    by (auto dest: prefix_length_le)
  then show "((ps, drop (length p) s), ps, s) \<in> measure (\<lambda>(ps, s). length s)"
    by (simp del: length_greater_0_conv)
qed

declare trim_left.simps [simp del]

definition TrimSpace :: "string \<Rightarrow> string" where
  "TrimSpace s =
     rev (trim_left (map rev space_encodings) (rev (trim_left space_encodings s)))"

definition HasPrefix :: "string \<Rightarrow> string \<Rightarrow> bool" where
  [go_string]: "HasPrefix s p \<longleftrightarrow> prefix p s"

definition HasSuffix :: "string \<Rightarrow> string \<Rightarrow> bool" where
  [go_string]: "HasSuffix s p \<longleftrightarrow> suffix p s"

definition TrimPrefix :: "string \<Rightarrow> string \<Rightarrow> string" where
  [go_string]: "TrimPrefix s p = (if prefix p s then drop (length p) s else s)"

definition TrimSuffix :: "string \<Rightarrow> string \<Rightarrow> string" where
  [go_string]: "TrimSuffix s p = (if suffix p s then take (length s - length p) s else s)"

definition lower_char :: "char \<Rightarrow> char" where
  "lower_char c = (if CHR ''A'' \<le> c \<and> c \<le> CHR ''Z'' then char_of (of_char c + 32 :: nat) else c)"

text \<open>\<open>strings.Split\<close> with a one-byte separator, and \<open>strings.Cut\<close>.\<close>

fun Split :: "string \<Rightarrow> char \<Rightarrow> string list" where
  "Split [] c = [[]]"
| "Split (x # xs) c =
     (if x = c then [] # Split xs c
      else (case Split xs c of [] \<Rightarrow> [[x]] | y # ys \<Rightarrow> (x # y) # ys))"

definition Cut :: "string \<Rightarrow> char \<Rightarrow> string \<times> string \<times> bool" where
  "Cut s c =
     (case dropWhile (\<lambda>x. x \<noteq> c) s of
        [] \<Rightarrow> (s, [], False)
      | _ # rest \<Rightarrow> (takeWhile (\<lambda>x. x \<noteq> c) s, rest, True))"

lemma trim_left_id: "(\<And>p. p \<in> set ps \<Longrightarrow> p \<noteq> [] \<Longrightarrow> \<not> prefix p s) \<Longrightarrow> trim_left ps s = s"
  by (subst trim_left.simps) (auto simp: find_Some_iff split: option.split)

lemma Split_nonempty [simp]: "Split s c \<noteq> []"
  by (induction s) (auto split: list.splits)

lemma Split_no_sep: "c \<notin> set s \<Longrightarrow> Split s c = [s]"
  by (induction s) auto

lemma Split_append_sep: "c \<notin> set s \<Longrightarrow> Split (s @ c # t) c = s # Split t c"
  by (induction s) auto

lemma Cut_no_sep: "c \<notin> set s \<Longrightarrow> Cut s c = (s, [], False)"
proof -
  assume "c \<notin> set s"
  then have "\<forall>x\<in>set s. x \<noteq> c"
    by auto
  then show ?thesis
    by (simp only: Cut_def dropWhile_eq_Nil_conv [THEN iffD2] list.case)
qed

lemma Cut_sep:
  assumes "c \<notin> set s"
  shows "Cut (s @ c # t) c = (s, t, True)"
proof -
  have "dropWhile (\<lambda>x. x \<noteq> c) (s @ c # t) = c # t"
    using assms by (subst dropWhile_append2) auto
  moreover have "takeWhile (\<lambda>x. x \<noteq> c) (s @ c # t) = s"
    using assms by (subst takeWhile_append2) auto
  ultimately show ?thesis
    by (simp add: Cut_def)
qed

lemma TrimPrefix_append [simp]: "TrimPrefix (p @ s) p = s"
  by (simp add: TrimPrefix_def)

text \<open>
  A string that starts and ends with a graphic ASCII character is not changed by
  \<open>TrimSpace\<close>: none of the encodings starts or ends with such a byte.
\<close>

definition graphic :: "char \<Rightarrow> bool" where
  "graphic c \<longleftrightarrow> CHR ''!'' \<le> c \<and> c \<le> CHR ''~''"

lemma space_encodings_ends:
  "\<forall>p\<in>set space_encodings. p \<noteq> [] \<and> \<not> graphic (hd p) \<and> \<not> graphic (last p)"
  by (simp add: space_encodings_def bytes_def graphic_def less_eq_char_def upt_conv_Cons
      flip: numeral_eq_Suc)

lemma TrimSpace_graphic:
  assumes "s \<noteq> []" "graphic (hd s)" "graphic (last s)"
  shows "TrimSpace s = s"
proof -
  have hd: "\<not> prefix p s" if "p \<in> set space_encodings" for p
    using space_encodings_ends that assms(1,2) by (cases s; cases p) auto
  have last: "\<not> prefix (rev p) (rev s)" if "p \<in> set space_encodings" for p
  proof
    assume "prefix (rev p) (rev s)"
    then obtain z where z: "rev s = rev p @ z"
      by (auto simp: prefix_def)
    from space_encodings_ends that have "p \<noteq> []" "\<not> graphic (last p)"
      by auto
    moreover from \<open>p \<noteq> []\<close> z have "last s = last p"
      by (metis hd_append2 hd_rev rev_is_Nil_conv)
    ultimately show False
      using assms(3) by simp
  qed
  have "trim_left space_encodings s = s"
    by (rule trim_left_id) (use hd in auto)
  moreover have "trim_left (map rev space_encodings) (rev s) = rev s"
    by (rule trim_left_id) (use last in auto)
  ultimately show ?thesis
    by (simp add: TrimSpace_def)
qed

lemma TrimSpace_Nil [simp]: "TrimSpace [] = []"
proof -
  have "trim_left ps [] = []" for ps
    by (rule trim_left_id) auto
  then show ?thesis
    by (simp add: TrimSpace_def)
qed

end
