(* ===== verification/Patterns.thy ===== *)
theory Patterns
  imports Go_Prelude
begin

text \<open>
  The regular expressions of the program, as data, with an executable matcher by
  derivatives and its correctness against the language of an expression. All patterns of
  the source are anchored with \<open>^\<close> and \<open>$\<close>, so \<open>MatchString\<close> is membership of the
  whole string in the language.
\<close>

section \<open>Regular expressions\<close>

datatype regex =
    Never
  | Eps
  | Class "char \<Rightarrow> bool"
  | Times "char \<Rightarrow> bool" nat nat
  | Seq regex regex
  | Alt regex regex
  | Star regex

inductive_set star :: "string set \<Rightarrow> string set" for A where
  star_Nil [intro]: "[] \<in> star A"
| star_step [intro]: "u \<in> A \<Longrightarrow> v \<in> star A \<Longrightarrow> u @ v \<in> star A"

primrec lang :: "regex \<Rightarrow> string set" where
  "lang Never = {}"
| "lang Eps = {[]}"
| "lang (Class P) = {[c] | c. P c}"
| "lang (Times P m n) = {s. list_all P s \<and> m \<le> length s \<and> length s \<le> n}"
| "lang (Seq r t) = {u @ v | u v. u \<in> lang r \<and> v \<in> lang t}"
| "lang (Alt r t) = lang r \<union> lang t"
| "lang (Star r) = star (lang r)"

primrec nullable :: "regex \<Rightarrow> bool" where
  "nullable Never = False"
| "nullable Eps = True"
| "nullable (Class P) = False"
| "nullable (Times P m n) = (m = 0)"
| "nullable (Seq r t) = (nullable r \<and> nullable t)"
| "nullable (Alt r t) = (nullable r \<or> nullable t)"
| "nullable (Star r) = True"

text \<open>Constructors that simplify, so that derivatives stay small.\<close>

fun seqR :: "regex \<Rightarrow> regex \<Rightarrow> regex" where
  "seqR Never t = Never"
| "seqR Eps t = t"
| "seqR r t = Seq r t"

fun altR :: "regex \<Rightarrow> regex \<Rightarrow> regex" where
  "altR Never t = t"
| "altR r Never = r"
| "altR r t = Alt r t"

primrec deriv :: "char \<Rightarrow> regex \<Rightarrow> regex" where
  "deriv c Never = Never"
| "deriv c Eps = Never"
| "deriv c (Class P) = (if P c then Eps else Never)"
| "deriv c (Times P m n) = (if P c \<and> 0 < n then Times P (m - 1) (n - 1) else Never)"
| "deriv c (Seq r t) =
     (if nullable r then altR (seqR (deriv c r) t) (deriv c t) else seqR (deriv c r) t)"
| "deriv c (Alt r t) = altR (deriv c r) (deriv c t)"
| "deriv c (Star r) = seqR (deriv c r) (Star r)"

primrec MatchString :: "regex \<Rightarrow> string \<Rightarrow> bool" where
  "MatchString r [] = nullable r"
| "MatchString r (c # s) = MatchString (deriv c r) s"

abbreviation lit :: "char \<Rightarrow> regex" where
  "lit c \<equiv> Class (\<lambda>d. d = c)"

abbreviation plusR :: "regex \<Rightarrow> regex" where
  "plusR r \<equiv> Seq r (Star r)"

abbreviation optR :: "regex \<Rightarrow> regex" where
  "optR r \<equiv> Alt Eps r"

section \<open>Character classes and the patterns of the source\<close>

definition is_digit :: "char \<Rightarrow> bool" where
  "is_digit c \<longleftrightarrow> CHR ''0'' \<le> c \<and> c \<le> CHR ''9''"

definition is_alpha :: "char \<Rightarrow> bool" where
  "is_alpha c \<longleftrightarrow> CHR ''A'' \<le> c \<and> c \<le> CHR ''Z'' \<or> CHR ''a'' \<le> c \<and> c \<le> CHR ''z''"

definition is_alnum :: "char \<Rightarrow> bool" where
  "is_alnum c \<longleftrightarrow> is_digit c \<or> is_alpha c"

definition is_lower_hex :: "char \<Rightarrow> bool" where
  "is_lower_hex c \<longleftrightarrow> is_digit c \<or> CHR ''a'' \<le> c \<and> c \<le> CHR ''f''"

definition is_ident_char :: "char \<Rightarrow> bool" where
  "is_ident_char c \<longleftrightarrow> is_alnum c \<or> c = CHR ''.'' \<or> c = CHR ''_'' \<or> c = CHR '':'' \<or> c = CHR ''-''"

lemmas class_defs = is_digit_def is_alpha_def is_alnum_def is_lower_hex_def is_ident_char_def

text \<open>\<open>^v[0-9]+\.[0-9]+\.[0-9]+(?:-[0-9A-Za-z]+(?:[.-][0-9A-Za-z]+)*)?$\<close>\<close>

definition versionPattern :: regex where
  "versionPattern =
     Seq (lit CHR ''v'')
     (Seq (plusR (Class is_digit))
     (Seq (lit CHR ''.'')
     (Seq (plusR (Class is_digit))
     (Seq (lit CHR ''.'')
     (Seq (plusR (Class is_digit))
     (optR (Seq (lit CHR ''-'')
       (Seq (plusR (Class is_alnum))
         (Star (Seq (Class (\<lambda>c. c = CHR ''.'' \<or> c = CHR ''-''))
                    (plusR (Class is_alnum))))))))))))"

text \<open>\<open>^sha256:[0-9a-f]{64}$\<close>\<close>

definition digestPattern :: regex where
  "digestPattern = foldr (\<lambda>c. Seq (lit c)) ''sha256:'' (Times is_lower_hex 64 64)"

text \<open>\<open>^[0-9a-f]{40}$\<close>, \<open>^[0-9a-f]{12}$\<close> and \<open>^[a-f0-9]{64}$\<close>\<close>

definition updaterReleaseCommitPattern :: regex where
  "updaterReleaseCommitPattern = Times is_lower_hex 40 40"

definition jobDirectoryPattern :: regex where
  "jobDirectoryPattern = Times is_lower_hex 12 12"

definition mutationPlanHashPattern :: regex where
  "mutationPlanHashPattern = Times is_lower_hex 64 64"

text \<open>\<open>^[A-Za-z0-9][A-Za-z0-9._:-]{15,127}$\<close> and \<open>^[A-Za-z0-9][A-Za-z0-9._:-]{0,127}$\<close>\<close>

definition mutationSessionPattern :: regex where
  "mutationSessionPattern = Seq (Class is_alnum) (Times is_ident_char 15 127)"

definition identifierPattern :: regex where
  "identifierPattern = Seq (Class is_alnum) (Times is_ident_char 0 127)"

section \<open>The matcher decides the language\<close>

lemma lang_seqR [simp]: "lang (seqR r t) = lang (Seq r t)"
  by (cases r) auto

lemma lang_altR [simp]: "lang (altR r t) = lang (Alt r t)"
  by (cases r; cases t) auto

lemma nullable_lang: "nullable r \<longleftrightarrow> [] \<in> lang r"
  by (induction r) auto

lemma star_Cons:
  assumes "c # s \<in> star A"
  shows "\<exists>u v. s = u @ v \<and> c # u \<in> A \<and> v \<in> star A"
proof -
  have "w \<in> star A \<Longrightarrow> w = c # s \<Longrightarrow> \<exists>u v. s = u @ v \<and> c # u \<in> A \<and> v \<in> star A" for w
    by (induction rule: star.induct) (auto simp: append_eq_Cons_conv)
  with assms show ?thesis by blast
qed

lemma deriv_lang: "s \<in> lang (deriv c r) \<longleftrightarrow> c # s \<in> lang r"
proof (induction r arbitrary: s)
  case (Seq r t)
  then show ?case
    by (auto simp: nullable_lang Cons_eq_append_conv)
next
  case (Star r)
  have "c # s \<in> star (lang r) \<longleftrightarrow> (\<exists>u v. s = u @ v \<and> c # u \<in> lang r \<and> v \<in> star (lang r))"
    by (metis append_Cons star_Cons star_step)
  with Star show ?case by auto
qed auto

lemma MatchString_lang: "MatchString r s \<longleftrightarrow> s \<in> lang r"
  by (induction s arbitrary: r) (auto simp: nullable_lang deriv_lang)

lemma MatchString_Times [simp]:
  "MatchString (Times P m n) s \<longleftrightarrow> list_all P s \<and> m \<le> length s \<and> length s \<le> n"
  by (simp add: MatchString_lang)

lemma MatchString_Never [simp]: "\<not> MatchString Never s"
  by (simp add: MatchString_lang)

lemma MatchString_Class_Seq:
  "MatchString (Seq (Class P) r) s \<longleftrightarrow> (\<exists>c t. s = c # t \<and> P c \<and> MatchString r t)"
  by (cases s) simp_all

section \<open>Strings that match are trimmed\<close>

primrec over :: "(char \<Rightarrow> bool) \<Rightarrow> regex \<Rightarrow> bool" where
  "over Q Never = True"
| "over Q Eps = True"
| "over Q (Class P) = (\<forall>c. P c \<longrightarrow> Q c)"
| "over Q (Times P m n) = (\<forall>c. P c \<longrightarrow> Q c)"
| "over Q (Seq r t) = (over Q r \<and> over Q t)"
| "over Q (Alt r t) = (over Q r \<and> over Q t)"
| "over Q (Star r) = over Q r"

lemma over_star: "s \<in> star A \<Longrightarrow> \<forall>u\<in>A. list_all Q u \<Longrightarrow> list_all Q s"
  by (induction rule: star.induct) auto

lemma over_lang: "over Q r \<Longrightarrow> s \<in> lang r \<Longrightarrow> list_all Q s"
proof (induction r arbitrary: s)
  case (Star r)
  then show ?case by (auto intro: over_star)
qed (auto simp: list_all_iff)

lemma TrimSpace_over:
  assumes "MatchString r s" "over graphic r" "\<not> nullable r"
  shows "TrimSpace s = s"
proof -
  have "s \<noteq> []"
    using assms(1,3) by auto
  moreover have "list_all graphic s"
    using assms(1,2) by (simp add: MatchString_lang over_lang)
  ultimately show ?thesis
    by (auto simp: list_all_iff intro: TrimSpace_graphic)
qed

lemma class_graphic:
  "is_digit c \<Longrightarrow> graphic c" "is_alpha c \<Longrightarrow> graphic c" "is_alnum c \<Longrightarrow> graphic c"
  "is_lower_hex c \<Longrightarrow> graphic c" "is_ident_char c \<Longrightarrow> graphic c"
  by (auto simp: class_defs graphic_def less_eq_char_def)

lemma graphic_literals [simp]:
  "graphic CHR ''v''" "graphic CHR ''.''" "graphic CHR ''-''" "graphic CHR ''s''"
  "graphic CHR ''h''" "graphic CHR ''a''" "graphic CHR ''2''" "graphic CHR ''5''"
  "graphic CHR ''6''" "graphic CHR '':''"
  by (simp_all add: graphic_def less_eq_char_def)

lemma TrimSpace_patterns:
  "MatchString versionPattern s \<Longrightarrow> TrimSpace s = s"
  "MatchString digestPattern s \<Longrightarrow> TrimSpace s = s"
  "MatchString updaterReleaseCommitPattern s \<Longrightarrow> TrimSpace s = s"
  "MatchString jobDirectoryPattern s \<Longrightarrow> TrimSpace s = s"
  "MatchString mutationPlanHashPattern s \<Longrightarrow> TrimSpace s = s"
  "MatchString mutationSessionPattern s \<Longrightarrow> TrimSpace s = s"
  "MatchString identifierPattern s \<Longrightarrow> TrimSpace s = s"
  by (erule TrimSpace_over; auto simp: versionPattern_def digestPattern_def
      updaterReleaseCommitPattern_def jobDirectoryPattern_def mutationPlanHashPattern_def
      mutationSessionPattern_def identifierPattern_def intro: class_graphic)+

lemma MatchString_digestPattern:
  "MatchString digestPattern s \<longleftrightarrow>
     (\<exists>h. s = ''sha256:'' @ h \<and> length h = 64 \<and> list_all is_lower_hex h)"
  by (auto simp: digestPattern_def MatchString_Class_Seq)

text \<open>Evaluation of the matcher on literals by \<open>simp\<close>.\<close>

declare MatchString.simps [simp del]

lemmas match_eval = MatchString.simps versionPattern_def digestPattern_def updaterReleaseCommitPattern_def
  jobDirectoryPattern_def mutationPlanHashPattern_def mutationSessionPattern_def
  identifierPattern_def class_defs less_eq_char_def

end
