(* ===== verification/Semver.thy ===== *)
theory Semver
  imports Patterns
begin

text \<open>
  \<open>semver.go\<close>: parsing and ordering of release versions. The order the source computes
  identifier by identifier is shown to be the precedence of semantic versioning, given here as
  a linear order on keys.
\<close>

section \<open>The model\<close>

record updaterReleaseSemver =
  core :: "u64 list"
  prerelease :: "string list"

definition decimalIdentifier :: "string \<Rightarrow> bool" where
  "decimalIdentifier value \<longleftrightarrow> value \<noteq> [] \<and> list_all is_digit value"

definition digit_value :: "char \<Rightarrow> nat" where
  "digit_value c = of_char c - 48"

definition decimal_value :: "string \<Rightarrow> nat" where
  "decimal_value s = foldl (\<lambda>n c. 10 * n + digit_value c) 0 s"

text \<open>\<open>strconv.ParseUint(s, 10, 64)\<close>: a syntax error or a range error is \<open>None\<close>.\<close>

definition ParseUint :: "string \<Rightarrow> u64 option" where
  "ParseUint s =
     (if decimalIdentifier s \<and> decimal_value s < 2 ^ 64
      then Some (word_of_nat (decimal_value s)) else None)"

fun parse_core :: "string list \<Rightarrow> u64 list option" where
  "parse_core [] = Some []"
| "parse_core (part # parts) =
     (if 1 < length part \<and> hd part = CHR ''0'' then None
      else case ParseUint part of
        None \<Rightarrow> None
      | Some number \<Rightarrow> map_option ((#) number) (parse_core parts))"

definition bad_identifier :: "string \<Rightarrow> bool" where
  "bad_identifier i \<longleftrightarrow>
     i = [] \<or> decimalIdentifier i \<and> 1 < length i \<and> hd i = CHR ''0''"

definition parseUpdaterReleaseSemver :: "string \<Rightarrow> updaterReleaseSemver option" where
  "parseUpdaterReleaseSemver value =
     (if \<not> MatchString versionPattern value then None
      else
        let value = TrimPrefix value ''v'';
            (core_part, prerelease_part, hasPrerelease) = Cut value CHR ''-'';
            coreParts = Split core_part CHR ''.''
        in if length coreParts \<noteq> 3 then None
           else case parse_core coreParts of
             None \<Rightarrow> None
           | Some numbers \<Rightarrow>
               if \<not> hasPrerelease then Some \<lparr>core = numbers, prerelease = []\<rparr>
               else
                 let identifiers = Split prerelease_part CHR ''.''
                 in if list_ex bad_identifier identifiers then None
                    else Some \<lparr>core = numbers, prerelease = identifiers\<rparr>)"

text \<open>The loop of the comparison, on the two lists from the current index on.\<close>

fun compare_identifiers :: "string list \<Rightarrow> string list \<Rightarrow> int" where
  "compare_identifiers (a # actual) (r # required) =
     (if a = r then compare_identifiers actual required
      else
        let actualNumeric = decimalIdentifier a; requiredNumeric = decimalIdentifier r
        in if actualNumeric \<and> requiredNumeric \<and> length a \<noteq> length r
           then (if length a > length r then 1 else - 1)
           else if actualNumeric \<and> \<not> requiredNumeric then - 1
           else if \<not> actualNumeric \<and> requiredNumeric then 1
           else if r < a then 1 else - 1)"
| "compare_identifiers (a # actual) [] = 1"
| "compare_identifiers [] (r # required) = - 1"
| "compare_identifiers [] [] = 0"

definition compareUpdaterReleasePrerelease :: "string list \<Rightarrow> string list \<Rightarrow> int" where
  "compareUpdaterReleasePrerelease actual required =
     (if actual = [] \<and> required = [] then 0
      else if actual = [] then 1
      else if required = [] then - 1
      else compare_identifiers actual required)"

fun core_decides :: "u64 list \<Rightarrow> u64 list \<Rightarrow> bool option" where
  "core_decides (a # as) (r # rs) =
     (if a \<noteq> r then Some (r < a) else core_decides as rs)"
| "core_decides _ _ = None"

definition updaterReleaseSemverAtLeast :: "string \<Rightarrow> string \<Rightarrow> bool" where
  "updaterReleaseSemverAtLeast current minimum =
     (case (parseUpdaterReleaseSemver current, parseUpdaterReleaseSemver minimum) of
        (Some actual, Some required) \<Rightarrow>
          (case core_decides (core actual) (core required) of
             Some b \<Rightarrow> b
           | None \<Rightarrow> 0 \<le> compareUpdaterReleasePrerelease (prerelease actual) (prerelease required))
      | _ \<Rightarrow> False)"

section \<open>The precedence of semantic versioning\<close>

text \<open>
  Numeric identifiers are ordered numerically and come before the others, which are ordered
  as byte strings; a release comes after each of its pre-releases.
\<close>

datatype ident = Num nat | Alpha string

instantiation ident :: linorder
begin

definition less_eq_ident :: "ident \<Rightarrow> ident \<Rightarrow> bool" where
  "less_eq_ident x y =
     (case (x, y) of
        (Num m, Num n) \<Rightarrow> m \<le> n
      | (Num m, Alpha t) \<Rightarrow> True
      | (Alpha s, Num n) \<Rightarrow> False
      | (Alpha s, Alpha t) \<Rightarrow> s \<le> t)"

definition less_ident :: "ident \<Rightarrow> ident \<Rightarrow> bool" where
  "less_ident x y = (x \<le> y \<and> \<not> y \<le> (x::ident))"

instance
  by standard (auto simp: less_eq_ident_def less_ident_def split: ident.splits)

end

datatype stage = Pre "ident list" | Release

instantiation stage :: linorder
begin

definition less_eq_stage :: "stage \<Rightarrow> stage \<Rightarrow> bool" where
  "less_eq_stage x y =
     (case (x, y) of
        (Pre a, Pre b) \<Rightarrow> a \<le> b
      | (Pre a, Release) \<Rightarrow> True
      | (Release, Pre b) \<Rightarrow> False
      | (Release, Release) \<Rightarrow> True)"

definition less_stage :: "stage \<Rightarrow> stage \<Rightarrow> bool" where
  "less_stage x y = (x \<le> y \<and> \<not> y \<le> (x::stage))"

instance
  by standard (auto simp: less_eq_stage_def less_stage_def split: stage.splits)

end

definition ident_key :: "string \<Rightarrow> ident" where
  "ident_key i = (if decimalIdentifier i then Num (decimal_value i) else Alpha i)"

definition stage_key :: "string list \<Rightarrow> stage" where
  "stage_key ids = (if ids = [] then Release else Pre (map ident_key ids))"

definition precedence_le :: "updaterReleaseSemver \<Rightarrow> updaterReleaseSemver \<Rightarrow> bool" where
  "precedence_le x y \<longleftrightarrow>
     core x < core y \<or> core x = core y \<and> stage_key (prerelease x) \<le> stage_key (prerelease y)"

section \<open>Decimal strings\<close>

lemma foldl_decimal:
  "foldl (\<lambda>n c. 10 * n + digit_value c) k s =
   k * 10 ^ length s + foldl (\<lambda>n c. 10 * n + digit_value c) 0 s"
proof (induction s arbitrary: k)
  case (Cons c s)
  from Cons [of "10 * k + digit_value c"] Cons [of "digit_value c"] show ?case
    by (simp add: algebra_simps)
qed simp

lemma decimal_value_simps [simp]:
  "decimal_value [] = 0"
  "decimal_value (c # s) = digit_value c * 10 ^ length s + decimal_value s"
  using foldl_decimal [of "digit_value c" s] by (simp_all add: decimal_value_def)

lemma digit_value_less [simp]: "is_digit c \<Longrightarrow> digit_value c < 10"
  by (auto simp: class_defs digit_value_def less_eq_char_def)

lemma digit_value_mono: "is_digit a \<Longrightarrow> is_digit b \<Longrightarrow> digit_value a < digit_value b \<longleftrightarrow> a < b"
  by (auto simp: class_defs digit_value_def less_eq_char_def less_char_def)

lemma digit_value_pos: "is_digit c \<Longrightarrow> c \<noteq> CHR ''0'' \<Longrightarrow> 0 < digit_value c"
proof -
  assume "is_digit c" "c \<noteq> CHR ''0''"
  then have "CHR ''0'' < c"
    by (auto simp: class_defs order_less_le)
  then show ?thesis
    by (simp add: digit_value_def less_char_def)
qed

lemma decimal_value_bound: "list_all is_digit s \<Longrightarrow> decimal_value s < 10 ^ length s"
proof (induction s)
  case (Cons c s)
  then have "digit_value c \<le> 9" "decimal_value s < 10 ^ length s"
    using digit_value_less [of c] by (auto simp del: digit_value_less)
  then have "digit_value c * 10 ^ length s + decimal_value s < 9 * 10 ^ length s + 10 ^ length s"
    by (meson add_le_less_mono mult_le_mono1)
  then show ?case by simp
qed simp

lemma decimal_value_lex:
  "list_all is_digit a \<Longrightarrow> list_all is_digit b \<Longrightarrow> length a = length b \<Longrightarrow>
   a < b \<longleftrightarrow> decimal_value a < decimal_value b"
proof (induction a arbitrary: b)
  case (Cons x a)
  then obtain y b' where b: "b = y # b'" "length b' = length a" "is_digit x" "is_digit y"
    "list_all is_digit a" "list_all is_digit b'"
    by (cases b) auto
  note bounds = decimal_value_bound [OF b(5)] decimal_value_bound [OF b(6)]
  have step: "p * 10 ^ n + u < q * 10 ^ n + v" if "p < q" "u < 10 ^ n" for p q u v n :: nat
  proof -
    have "p * 10 ^ n + u < Suc p * 10 ^ n"
      using that by simp
    also have "\<dots> \<le> q * 10 ^ n"
      using that by (intro mult_le_mono1) simp
    finally show ?thesis by simp
  qed
  consider "x < y" | "x = y" | "y < x"
    by (metis linorder_neqE)
  then show ?case
  proof cases
    case 1
    with b bounds step show ?thesis
      by (simp add: digit_value_mono [symmetric])
  next
    case 2
    with b Cons.IH [of b'] show ?thesis by simp
  next
    case 3
    then have "\<not> x < y" "x \<noteq> y" by auto
    moreover have "digit_value y * 10 ^ length a + decimal_value b'
        < digit_value x * 10 ^ length a + decimal_value a"
      using 3 b bounds step by (simp add: digit_value_mono [symmetric])
    ultimately show ?thesis
      using b by simp
  qed
qed simp

text \<open>Without a leading zero the longer of two decimal strings is the larger number.\<close>

lemma decimal_value_length:
  assumes "decimalIdentifier a" "decimalIdentifier b" "\<not> bad_identifier b" "length a < length b"
  shows "decimal_value a < decimal_value b"
proof -
  obtain c s where b: "b = c # s" "is_digit c"
    using assms(2) by (cases b) (auto simp: decimalIdentifier_def)
  have "s \<noteq> []"
    using assms(1,4) b by (auto simp: decimalIdentifier_def)
  then have "c \<noteq> CHR ''0''"
    using assms(2,3) b by (auto simp: bad_identifier_def)
  then have "1 * 10 ^ length s \<le> digit_value c * 10 ^ length s"
    using b(2) by (intro mult_le_mono1) (simp add: digit_value_pos Suc_leI)
  moreover have "decimal_value a < 10 ^ length a"
    using assms(1) by (simp add: decimalIdentifier_def decimal_value_bound)
  moreover have "(10::nat) ^ length a \<le> 10 ^ length s"
    using assms(4) b by (intro power_increasing) auto
  ultimately show ?thesis
    unfolding b(1) decimal_value_simps by linarith
qed

lemma ident_key_less:
  assumes "\<not> bad_identifier a" "\<not> bad_identifier r" "a \<noteq> r"
  shows "ident_key r < ident_key a \<longleftrightarrow> compare_identifiers [a] [r] = 1"
    and "ident_key a \<noteq> ident_key r"
proof -
  have num: "decimal_value r < decimal_value a \<longleftrightarrow>
      (if length a \<noteq> length r then length r < length a else r < a)"
    "decimal_value r \<noteq> decimal_value a" if "decimalIdentifier a" "decimalIdentifier r"
    using that assms decimal_value_length [of r a] decimal_value_length [of a r]
      decimal_value_lex [of r a] decimal_value_lex [of a r]
    by (cases "length a" "length r" rule: linorder_cases;
        auto simp: decimalIdentifier_def neq_iff)+
  with assms(3) show "ident_key r < ident_key a \<longleftrightarrow> compare_identifiers [a] [r] = 1"
    by (auto simp: ident_key_def less_eq_ident_def less_ident_def Let_def)
  from num assms(3) show "ident_key a \<noteq> ident_key r"
    by (auto simp: ident_key_def)
qed

section \<open>Comparison and precedence\<close>

lemma compare_identifiers_range: "compare_identifiers a r \<in> {- 1, 0, 1}"
  by (induction a r rule: compare_identifiers.induct) (auto simp: Let_def)

lemma compare_identifiers_differ:
  "a \<noteq> r \<Longrightarrow> compare_identifiers (a # as) (r # rs) = compare_identifiers [a] [r]"
  by (simp add: Let_def)

lemma compare_identifiers_single:
  "a \<noteq> r \<Longrightarrow> compare_identifiers [a] [r] = 1 \<or> compare_identifiers [a] [r] = - 1"
  by (simp add: Let_def)

lemma compare_identifiers_key:
  "\<not> list_ex bad_identifier actual \<Longrightarrow> \<not> list_ex bad_identifier required \<Longrightarrow>
   0 \<le> compare_identifiers actual required \<longleftrightarrow> map ident_key required \<le> map ident_key actual"
proof (induction actual required rule: compare_identifiers.induct)
  case (1 a as r rs)
  show ?case
  proof (cases "a = r")
    case True
    with 1 show ?thesis by simp
  next
    case False
    have good: "\<not> bad_identifier a" "\<not> bad_identifier r"
      using 1(2,3) by simp_all
    note key = ident_key_less [OF good False]
    have "0 \<le> compare_identifiers (a # as) (r # rs) \<longleftrightarrow> compare_identifiers [a] [r] = 1"
      using compare_identifiers_differ [OF False, of as rs] compare_identifiers_single [OF False]
      by linarith
    also have "\<dots> \<longleftrightarrow> ident_key r < ident_key a"
      by (simp only: key(1))
    also have "\<dots> \<longleftrightarrow> map ident_key (r # rs) \<le> map ident_key (a # as)"
      using key(2) [symmetric] by (simp only: list.map Cons_le_Cons simp_thms)
    finally show ?thesis .
  qed
qed simp_all

lemma compare_prerelease_key:
  assumes "\<not> list_ex bad_identifier actual" "\<not> list_ex bad_identifier required"
  shows "0 \<le> compareUpdaterReleasePrerelease actual required \<longleftrightarrow>
    stage_key required \<le> stage_key actual"
  using assms compare_identifiers_key [OF assms]
  by (auto simp: compareUpdaterReleasePrerelease_def stage_key_def less_eq_stage_def)

lemma core_decides_less:
  "length a = length r \<Longrightarrow>
   core_decides a r = (if a = r then None else Some (r < a))"
  by (induction a r rule: core_decides.induct) auto

section \<open>What parsing guarantees\<close>

definition semver_wf :: "updaterReleaseSemver \<Rightarrow> bool" where
  "semver_wf v \<longleftrightarrow> length (core v) = 3 \<and> \<not> list_ex bad_identifier (prerelease v)"

lemma parse_core_length: "parse_core parts = Some ns \<Longrightarrow> length ns = length parts"
  by (induction parts arbitrary: ns) (auto split: if_splits option.splits)

lemma parse_wf: "parseUpdaterReleaseSemver s = Some v \<Longrightarrow> semver_wf v"
  by (auto simp: parseUpdaterReleaseSemver_def Let_def semver_wf_def
      dest: parse_core_length split: if_splits option.splits prod.splits)

lemma AtLeast_parsed:
  assumes "parseUpdaterReleaseSemver a = Some x" "parseUpdaterReleaseSemver b = Some y"
  shows "updaterReleaseSemverAtLeast a b \<longleftrightarrow> precedence_le y x"
proof -
  have "semver_wf x" "semver_wf y"
    using assms parse_wf by blast+
  then show ?thesis
    using assms by (auto simp: updaterReleaseSemverAtLeast_def precedence_le_def semver_wf_def
        core_decides_less compare_prerelease_key)
qed

lemma updaterReleaseSemverAtLeast_iff:
  "updaterReleaseSemverAtLeast current minimum \<longleftrightarrow>
     (\<exists>x y. parseUpdaterReleaseSemver current = Some x \<and>
            parseUpdaterReleaseSemver minimum = Some y \<and> precedence_le y x)"
proof -
  have "updaterReleaseSemverAtLeast current minimum \<Longrightarrow>
      parseUpdaterReleaseSemver current \<noteq> None \<and> parseUpdaterReleaseSemver minimum \<noteq> None"
    by (auto simp: updaterReleaseSemverAtLeast_def split: option.splits)
  then show ?thesis
    by (auto simp: AtLeast_parsed)
qed

text \<open>
  C20: \<open>updaterReleaseSemverAtLeast\<close> is the precedence of semantic versioning: it holds
  exactly if both strings parse and the required version is not above the current one, where
  the core numbers decide first, a release is above its pre-releases, and pre-release
  identifiers are compared one by one, numerically if both are numbers, bytewise if both are
  not, and with numbers below the others.
\<close>

theorem updaterReleaseSemverAtLeast_precedence:
  "updaterReleaseSemverAtLeast current minimum \<longleftrightarrow>
     (\<exists>x y. parseUpdaterReleaseSemver current = Some x \<and>
            parseUpdaterReleaseSemver minimum = Some y \<and> precedence_le y x)"
  by (rule updaterReleaseSemverAtLeast_iff)

text \<open>Hence it is reflexive and total on the versions that parse, and transitive.\<close>

lemma precedence_trans: "precedence_le x y \<Longrightarrow> precedence_le y z \<Longrightarrow> precedence_le x z"
  by (auto simp: precedence_le_def)

lemma AtLeast_trans:
  "updaterReleaseSemverAtLeast a b \<Longrightarrow> updaterReleaseSemverAtLeast b c \<Longrightarrow>
   updaterReleaseSemverAtLeast a c"
  unfolding updaterReleaseSemverAtLeast_iff using precedence_trans by fastforce

lemma AtLeast_total:
  "parseUpdaterReleaseSemver a \<noteq> None \<Longrightarrow> parseUpdaterReleaseSemver b \<noteq> None \<Longrightarrow>
   updaterReleaseSemverAtLeast a b \<or> updaterReleaseSemverAtLeast b a"
  by (auto simp: AtLeast_parsed precedence_le_def)

lemma AtLeast_refl: "parseUpdaterReleaseSemver a \<noteq> None \<Longrightarrow> updaterReleaseSemverAtLeast a a"
  using AtLeast_total by blast

section \<open>Printing\<close>

fun decimal_string :: "nat \<Rightarrow> string" where
  "decimal_string n =
     (if n < 10 then [char_of (48 + n)]
      else decimal_string (n div 10) @ [char_of (48 + n mod 10)])"

declare decimal_string.simps [simp del]

primrec join_with :: "char \<Rightarrow> string list \<Rightarrow> string" where
  "join_with c [] = []"
| "join_with c (s # ss) = (if ss = [] then s else s @ c # join_with c ss)"

definition formatUpdaterReleaseSemver :: "updaterReleaseSemver \<Rightarrow> string" where
  "formatUpdaterReleaseSemver v =
     ''v'' @ join_with CHR ''.'' (map (decimal_string \<circ> unat) (core v)) @
     (if prerelease v = [] then [] else CHR ''-'' # join_with CHR ''.'' (prerelease v))"

lemma join_Split: "join_with c (Split s c) = s"
  by (induction s) (auto split: list.splits)

lemma decimal_value_append:
  "decimal_value (s @ [c]) = 10 * decimal_value s + digit_value c"
  by (simp add: decimal_value_def)

lemma digit_char: "is_digit c \<Longrightarrow> char_of (48 + digit_value c) = c"
proof -
  assume "is_digit c"
  then have "48 + digit_value c = of_char c"
    by (simp add: class_defs digit_value_def less_eq_char_def)
  then show ?thesis by simp
qed

lemma decimal_string_value:
  "decimalIdentifier s \<Longrightarrow> \<not> bad_identifier s \<Longrightarrow> decimal_string (decimal_value s) = s"
proof (induction s rule: rev_induct)
  case (snoc c s)
  have c: "is_digit c" and s: "list_all is_digit s"
    using snoc.prems by (auto simp: decimalIdentifier_def)
  show ?case
  proof (cases "s = []")
    case True
    with c show ?thesis
      by (simp add: decimal_string.simps digit_char)
  next
    case False
    then have dec: "decimalIdentifier s"
      using s by (simp add: decimalIdentifier_def)
    have "hd s \<noteq> CHR ''0''"
      using snoc.prems False by (auto simp: bad_identifier_def)
    then have good: "\<not> bad_identifier s"
      using False by (simp add: bad_identifier_def)
    obtain d t where "s = d # t" "is_digit d" "d \<noteq> CHR ''0''"
      using False s \<open>hd s \<noteq> CHR ''0''\<close> by (cases s) auto
    then have "0 < decimal_value s"
      by (simp add: digit_value_pos)
    then show ?thesis
      using snoc.IH [OF dec good] c
      by (subst decimal_string.simps) (simp add: decimal_value_append digit_char)
  qed
qed (simp add: decimalIdentifier_def)

lemma parse_core_format:
  "parse_core parts = Some ns \<Longrightarrow> map (decimal_string \<circ> unat) ns = parts"
proof (induction parts arbitrary: ns)
  case (Cons part parts)
  then obtain n ns' where ns: "ns = n # ns'" "parse_core parts = Some ns'"
    "ParseUint part = Some n" "\<not> (1 < length part \<and> hd part = CHR ''0'')"
    by (auto split: if_splits option.splits)
  then have "decimalIdentifier part" "decimal_value part < 2 ^ 64" "n = word_of_nat (decimal_value part)"
    by (auto simp: ParseUint_def split: if_splits)
  moreover from this ns(4) have "\<not> bad_identifier part"
    by (auto simp: bad_identifier_def decimalIdentifier_def)
  ultimately show ?case
    using Cons.IH ns by (simp add: unat_of_nat decimal_string_value)
qed simp

lemma Cut_format:
  "Cut s c = (a, b, found) \<Longrightarrow> s = a @ (if found then c # b else []) \<and> (\<not> found \<longrightarrow> b = [])"
proof -
  assume cut: "Cut s c = (a, b, found)"
  show ?thesis
  proof (cases "c \<in> set s")
    case True
    then obtain u v where "s = u @ c # v" "c \<notin> set u"
      by (metis split_list_first)
    with cut show ?thesis by (auto simp: Cut_sep)
  next
    case False
    with cut show ?thesis by (auto simp: Cut_no_sep)
  qed
qed

lemma version_starts_v: "MatchString versionPattern s \<Longrightarrow> \<exists>t. s = CHR ''v'' # t"
  by (auto simp: versionPattern_def MatchString_Class_Seq)

lemmas semver_eval = match_eval parseUpdaterReleaseSemver_def TrimPrefix_def Let_def Cut_def
  ParseUint_def decimalIdentifier_def digit_value_def bad_identifier_def

text \<open>
  C22: parsing loses nothing: a version string that parses is exactly the text of the numbers
  and identifiers it was parsed to. In particular two strings with the same parse are equal,
  and no core number has wrapped around.
\<close>

theorem parse_format_roundtrip:
  assumes "parseUpdaterReleaseSemver s = Some v"
  shows "formatUpdaterReleaseSemver v = s"
proof -
  from assms obtain t where t: "s = CHR ''v'' # t"
    by (auto simp: parseUpdaterReleaseSemver_def dest: version_starts_v split: if_splits)
  then have trim: "TrimPrefix s ''v'' = t"
    by (simp add: go_string)
  obtain a b found where cut: "Cut t CHR ''-'' = (a, b, found)"
    by (metis prod_cases3)
  with assms trim have "parse_core (Split a CHR ''.'') = Some (core v)"
    "prerelease v = (if found then Split b CHR ''.'' else [])"
    by (auto simp: parseUpdaterReleaseSemver_def Let_def split: if_splits option.splits)
  then show ?thesis
    using t Cut_format [OF cut]
    by (auto simp: formatUpdaterReleaseSemver_def join_Split dest!: parse_core_format)
qed

theorem parse_format_roundtrip_witness:
  "formatUpdaterReleaseSemver \<lparr>core = [1, 20, 3], prerelease = [''rc'', ''7'']\<rparr> = ''v1.20.3-rc.7''"
  by (rule parse_format_roundtrip) (simp add: semver_eval)

end
