(* ===== verification/SelfUpdate_State.thy ===== *)
theory SelfUpdate_State
  imports Semver
begin

text \<open>
  \<open>host_self_update_state.go\<close>: the pure state machine of the A/B self-update of the host
  agent and the local executor. A state names the healthy slot, the slot and the release that
  are pending and the phase; every operation validates the state it is given. The theory shows
  that the operations keep validity, when each of them succeeds, that an update is committed
  only on matching proofs, and that the run of the machine always terminates in a stable state
  once proofs stop being missing.
\<close>

section \<open>Data\<close>

record HostLifecycleBlockers =
  ActiveJob :: bool
  MutationInProgress :: bool
  RecoveryPending :: bool
  TokenRotationPending :: bool
  SelfUpdatePending :: bool
  ConsumedMutationRollbackPending :: bool

definition mutationBlocked :: "HostLifecycleBlockers \<Rightarrow> bool" where
  "mutationBlocked b \<longleftrightarrow> ActiveJob b \<or> MutationInProgress b \<or> RecoveryPending b \<or>
     TokenRotationPending b \<or> SelfUpdatePending b"

definition hostSelfUpdateStateSchemaVersion :: int where
  "hostSelfUpdateStateSchemaVersion = 2"

definition HostSelfUpdateRecoveryProtocolVersion :: int where
  "HostSelfUpdateRecoveryProtocolVersion = 2"

definition defaultMaxArtifactBytes :: int where
  "defaultMaxArtifactBytes = 268435456"

record HostRuntimeCompatibility =
  cur_AgentVersion :: string
  cur_ExecutorVersion :: string
  cur_AgentProtocol :: int
  cur_ExecutorProtocol :: int
  cur_MutationProtocol :: int
  cur_RecoveryProtocol :: int

record HostRuntimeRequirement =
  min_AgentVersion :: string
  min_ExecutorVersion :: string
  min_AgentProtocol :: int
  min_ExecutorProtocol :: int
  min_MutationProtocol :: int
  min_RecoveryProtocol :: int

definition requirement_validate :: "HostRuntimeRequirement \<Rightarrow> go_error option" where
  "requirement_validate r =
     (if \<not> MatchString versionPattern (TrimSpace (min_AgentVersion r)) \<or>
         \<not> MatchString versionPattern (TrimSpace (min_ExecutorVersion r)) \<or>
         min_AgentVersion r \<noteq> TrimSpace (min_AgentVersion r) \<or>
         min_ExecutorVersion r \<noteq> TrimSpace (min_ExecutorVersion r) \<or>
         min_AgentProtocol r < 1 \<or> min_ExecutorProtocol r < 1 \<or> min_MutationProtocol r < 1 \<or>
         min_RecoveryProtocol r \<noteq> HostSelfUpdateRecoveryProtocolVersion
      then errNew ''host runtime requirement is invalid''
      else None)"

definition ValidateHostRuntimeCompatibility ::
  "HostRuntimeCompatibility \<Rightarrow> HostRuntimeRequirement \<Rightarrow> go_error option" where
  "ValidateHostRuntimeCompatibility current requirement =
     (case requirement_validate requirement of
        Some err \<Rightarrow> Some err
      | None \<Rightarrow>
          if \<not> MatchString versionPattern (TrimSpace (cur_AgentVersion current)) \<or>
             \<not> MatchString versionPattern (TrimSpace (cur_ExecutorVersion current)) \<or>
             \<not> MatchString versionPattern (TrimSpace (min_AgentVersion requirement)) \<or>
             \<not> MatchString versionPattern (TrimSpace (min_ExecutorVersion requirement))
          then errNew ''host runtime version compatibility is invalid''
          else if \<not> updaterReleaseSemverAtLeast (cur_AgentVersion current) (min_AgentVersion requirement)
          then errNew (''host agent '' @ cur_AgentVersion current @ '' is older than required '' @
                 min_AgentVersion requirement)
          else if \<not> updaterReleaseSemverAtLeast (cur_ExecutorVersion current) (min_ExecutorVersion requirement)
          then errNew (''local executor '' @ cur_ExecutorVersion current @ '' is older than required '' @
                 min_ExecutorVersion requirement)
          else if min_AgentProtocol requirement < 1 \<or> min_ExecutorProtocol requirement < 1 \<or>
             min_MutationProtocol requirement < 1 \<or>
             min_RecoveryProtocol requirement \<noteq> HostSelfUpdateRecoveryProtocolVersion \<or>
             cur_AgentProtocol current \<noteq> min_AgentProtocol requirement \<or>
             cur_ExecutorProtocol current \<noteq> min_ExecutorProtocol requirement \<or>
             cur_MutationProtocol current \<noteq> min_MutationProtocol requirement \<or>
             cur_RecoveryProtocol current \<noteq> min_RecoveryProtocol requirement
          then errNew ''host runtime protocol compatibility is not satisfied''
          else None)"

subsection \<open>The release identity\<close>

record HostSelfUpdateReleaseIdentity =
  rel_Tag :: string
  rel_Commit :: string
  rel_PublishedAt :: gotime
  rel_ManifestAssetID :: int
  rel_ManifestAssetName :: string
  rel_ManifestSHA256 :: string
  rel_ManifestChecksumAssetID :: int
  rel_ManifestChecksumSHA256 :: string
  rel_ArchiveAssetID :: int
  rel_ArchiveAssetName :: string
  rel_ArchiveSize :: int
  rel_ArchiveSHA256 :: string
  rel_ArchiveChecksumAssetID :: int
  rel_ArchiveChecksumSHA256 :: string
  rel_Arch :: string
  rel_AgentProtocol :: int
  rel_ExecutorProtocol :: int
  rel_MutationProtocol :: int
  rel_RecoveryProtocol :: int
  rel_MinimumPanelVersion :: string

definition zero_release :: HostSelfUpdateReleaseIdentity where
  "zero_release = \<lparr>rel_Tag = [], rel_Commit = [], rel_PublishedAt = zero_time,
     rel_ManifestAssetID = 0, rel_ManifestAssetName = [], rel_ManifestSHA256 = [],
     rel_ManifestChecksumAssetID = 0, rel_ManifestChecksumSHA256 = [],
     rel_ArchiveAssetID = 0, rel_ArchiveAssetName = [], rel_ArchiveSize = 0,
     rel_ArchiveSHA256 = [], rel_ArchiveChecksumAssetID = 0, rel_ArchiveChecksumSHA256 = [],
     rel_Arch = [], rel_AgentProtocol = 0, rel_ExecutorProtocol = 0, rel_MutationProtocol = 0,
     rel_RecoveryProtocol = 0, rel_MinimumPanelVersion = []\<rparr>"

definition hostAgentManifestName :: string where
  "hostAgentManifestName = ''host-agent-manifest.json''"

definition hostAgentReleaseAssetName :: "string \<Rightarrow> string \<Rightarrow> string" where
  "hostAgentReleaseAssetName version arch =
     ''autostream-host-agent'' @ ''_'' @ version @ ''_linux_'' @ arch @ ''.tar.gz''"

fun check_asset_ids :: "int list \<Rightarrow> int set \<Rightarrow> go_error option" where
  "check_asset_ids [] seen = None"
| "check_asset_ids (i # ids) seen =
     (if i < 1 then errNew ''host self-update release asset identity is invalid''
      else if i \<in> seen then errNew ''host self-update release asset identity is duplicated''
      else check_asset_ids ids (insert i seen))"

definition release_validate :: "HostSelfUpdateReleaseIdentity \<Rightarrow> go_error option" where
  "release_validate r =
     (case check_asset_ids [rel_ManifestAssetID r, rel_ManifestChecksumAssetID r,
        rel_ArchiveAssetID r, rel_ArchiveChecksumAssetID r] {} of
        Some err \<Rightarrow> Some err
      | None \<Rightarrow>
          if \<not> MatchString versionPattern (rel_Tag r) \<or>
             \<not> MatchString updaterReleaseCommitPattern (rel_Commit r) \<or>
             IsZero (rel_PublishedAt r) \<or>
             \<not> in_utc (rel_PublishedAt r) \<or>
             rel_ManifestAssetName r \<noteq> hostAgentManifestName \<or>
             rel_ArchiveAssetName r \<noteq> hostAgentReleaseAssetName (rel_Tag r) (rel_Arch r) \<or>
             \<not> MatchString mutationPlanHashPattern (rel_ManifestSHA256 r) \<or>
             \<not> MatchString mutationPlanHashPattern (rel_ManifestChecksumSHA256 r) \<or>
             rel_ArchiveSize r < 1 \<or>
             rel_ArchiveSize r > defaultMaxArtifactBytes \<or>
             \<not> MatchString mutationPlanHashPattern (rel_ArchiveSHA256 r) \<or>
             \<not> MatchString mutationPlanHashPattern (rel_ArchiveChecksumSHA256 r) \<or>
             (rel_Arch r \<noteq> ''amd64'' \<and> rel_Arch r \<noteq> ''arm64'') \<or>
             rel_AgentProtocol r < 1 \<or>
             rel_ExecutorProtocol r < 1 \<or>
             rel_MutationProtocol r < 1 \<or>
             rel_RecoveryProtocol r \<noteq> HostSelfUpdateRecoveryProtocolVersion \<or>
             \<not> MatchString versionPattern (rel_MinimumPanelVersion r)
          then errNew ''host self-update release identity is invalid''
          else None)"

record HostSelfUpdateRequest =
  req_Generation :: string
  req_AgentVersion :: string
  req_ExecutorVersion :: string
  req_Commit :: string
  req_ArtifactSHA256 :: string
  req_AgentProtocol :: int
  req_ExecutorProtocol :: int
  req_MutationProtocol :: int
  req_RecoveryProtocol :: int
  req_Release :: HostSelfUpdateReleaseIdentity

definition matchesRequest ::
  "HostSelfUpdateReleaseIdentity \<Rightarrow> HostSelfUpdateRequest \<Rightarrow> bool" where
  "matchesRequest r request \<longleftrightarrow>
     rel_Tag r = req_AgentVersion request \<and>
     rel_Commit r = req_Commit request \<and>
     rel_ArchiveSHA256 r = TrimPrefix (req_ArtifactSHA256 request) ''sha256:'' \<and>
     rel_AgentProtocol r = req_AgentProtocol request \<and>
     rel_ExecutorProtocol r = req_ExecutorProtocol request \<and>
     rel_MutationProtocol r = req_MutationProtocol request \<and>
     rel_RecoveryProtocol r = req_RecoveryProtocol request"

definition sameHostSelfUpdateReleaseIdentity ::
  "HostSelfUpdateReleaseIdentity \<Rightarrow> HostSelfUpdateReleaseIdentity \<Rightarrow> bool" where
  "sameHostSelfUpdateReleaseIdentity left right \<longleftrightarrow>
     rel_Tag left = rel_Tag right \<and>
     rel_Commit left = rel_Commit right \<and>
     time_Equal (rel_PublishedAt left) (rel_PublishedAt right) \<and>
     rel_ManifestAssetID left = rel_ManifestAssetID right \<and>
     rel_ManifestAssetName left = rel_ManifestAssetName right \<and>
     rel_ManifestSHA256 left = rel_ManifestSHA256 right \<and>
     rel_ManifestChecksumAssetID left = rel_ManifestChecksumAssetID right \<and>
     rel_ManifestChecksumSHA256 left = rel_ManifestChecksumSHA256 right \<and>
     rel_ArchiveAssetID left = rel_ArchiveAssetID right \<and>
     rel_ArchiveAssetName left = rel_ArchiveAssetName right \<and>
     rel_ArchiveSize left = rel_ArchiveSize right \<and>
     rel_ArchiveSHA256 left = rel_ArchiveSHA256 right \<and>
     rel_ArchiveChecksumAssetID left = rel_ArchiveChecksumAssetID right \<and>
     rel_ArchiveChecksumSHA256 left = rel_ArchiveChecksumSHA256 right \<and>
     rel_Arch left = rel_Arch right \<and>
     rel_AgentProtocol left = rel_AgentProtocol right \<and>
     rel_ExecutorProtocol left = rel_ExecutorProtocol right \<and>
     rel_MutationProtocol left = rel_MutationProtocol right \<and>
     rel_RecoveryProtocol left = rel_RecoveryProtocol right \<and>
     rel_MinimumPanelVersion left = rel_MinimumPanelVersion right"

definition request_validate :: "HostSelfUpdateRequest \<Rightarrow> go_error option" where
  "request_validate r =
     (if \<not> MatchString identifierPattern (TrimSpace (req_Generation r)) \<or>
         \<not> MatchString versionPattern (TrimSpace (req_AgentVersion r)) \<or>
         \<not> MatchString versionPattern (TrimSpace (req_ExecutorVersion r)) \<or>
         \<not> MatchString updaterReleaseCommitPattern (TrimSpace (req_Commit r)) \<or>
         \<not> MatchString digestPattern (TrimSpace (req_ArtifactSHA256 r)) \<or>
         req_AgentProtocol r < 1 \<or>
         req_ExecutorProtocol r < 1 \<or>
         req_MutationProtocol r < 1 \<or>
         req_RecoveryProtocol r \<noteq> HostSelfUpdateRecoveryProtocolVersion \<or>
         release_validate (req_Release r) \<noteq> None \<or>
         \<not> matchesRequest (req_Release r) r
      then errNew ''host self-update request is invalid''
      else if req_Generation r \<noteq> TrimSpace (req_Generation r) \<or>
         req_AgentVersion r \<noteq> TrimSpace (req_AgentVersion r) \<or>
         req_ExecutorVersion r \<noteq> TrimSpace (req_ExecutorVersion r) \<or>
         req_Commit r \<noteq> TrimSpace (req_Commit r) \<or>
         req_ArtifactSHA256 r \<noteq> TrimSpace (req_ArtifactSHA256 r)
      then errNew ''host self-update request is not canonical''
      else None)"

subsection \<open>The state\<close>

record HostSelfUpdateState =
  su_SchemaVersion :: int
  su_RecoveryProtocolVersion :: int
  su_Phase :: string
  su_ActiveSlot :: string
  su_HealthySlot :: string
  su_RollbackSlot :: string
  su_ActiveAgentVersion :: string
  su_ActiveExecutorVersion :: string
  su_RollbackAgentVersion :: string
  su_RollbackExecutorVersion :: string
  su_FailedGeneration :: string
  su_PendingSlot :: string
  su_PendingGeneration :: string
  su_PendingAgentVersion :: string
  su_PendingExecutorVersion :: string
  su_PendingCommit :: string
  su_PendingArtifactSHA256 :: string
  su_PendingAgentSHA256 :: string
  su_PendingExecutorSHA256 :: string
  su_PendingAgentProtocol :: int
  su_PendingExecutorProtocol :: int
  su_PendingMutationProtocol :: int
  su_PendingRecoveryProtocol :: int
  su_PendingRelease :: HostSelfUpdateReleaseIdentity
  su_ActivationStartedAt :: gotime
  su_ActivationDeadline :: gotime

abbreviation "SlotA \<equiv> ''a''"
abbreviation "SlotB \<equiv> ''b''"
abbreviation "PhaseStable \<equiv> ''stable''"
abbreviation "PhaseStaged \<equiv> ''staged''"
abbreviation "PhaseActivating \<equiv> ''activating''"
abbreviation "PhaseVerifying \<equiv> ''verifying''"
abbreviation "PhaseRollingBack \<equiv> ''rolling_back''"

abbreviation "ActionNone \<equiv> ''none''"
abbreviation "ActionSwitchCurrent \<equiv> ''switch_current''"
abbreviation "ActionRestartAgent \<equiv> ''restart_agent''"
abbreviation "ActionAwaitProof \<equiv> ''await_proof''"
abbreviation "ActionProbeExecutor \<equiv> ''probe_executor''"
abbreviation "ActionCommit \<equiv> ''commit''"
abbreviation "ActionRestoreHealthy \<equiv> ''restore_healthy''"
abbreviation "ActionRestartHealthy \<equiv> ''restart_healthy''"
abbreviation "ActionRollbackComplete \<equiv> ''rollback_complete''"

definition validHostSelfUpdateSlot :: "string \<Rightarrow> bool" where
  "validHostSelfUpdateSlot slot \<longleftrightarrow> slot = SlotA \<or> slot = SlotB"

definition otherHostSelfUpdateSlot :: "string \<Rightarrow> string" where
  "otherHostSelfUpdateSlot slot =
     (if slot = SlotA then SlotB else if slot = SlotB then SlotA else [])"

definition isCanonicalBareSHA256 :: "string \<Rightarrow> bool" where
  "isCanonicalBareSHA256 value \<longleftrightarrow> length value = 64 \<and> list_all is_lower_hex value"

record hostSelfUpdateSlotDigests =
  dig_AgentSHA256 :: string
  dig_ExecutorSHA256 :: string

definition digests_validate :: "hostSelfUpdateSlotDigests \<Rightarrow> go_error option" where
  "digests_validate d =
     (if \<not> isCanonicalBareSHA256 (dig_AgentSHA256 d) \<or> \<not> isCanonicalBareSHA256 (dig_ExecutorSHA256 d)
      then errNew ''host self-update slot digests are invalid'' else None)"

record HostSelfUpdateObservation =
  obs_CurrentSlot :: string
  obs_RunningAgentVersion :: string
  obs_PanelHeartbeatVersion :: string
  obs_HeartbeatGeneration :: string
  obs_ExecutorVersion :: string
  obs_ExecutorProtocol :: int
  obs_ExecutorHealthy :: bool
  obs_ExecutorProbeGeneration :: string
  obs_ExecutorFailureCode :: string

definition pending_request :: "HostSelfUpdateState \<Rightarrow> HostSelfUpdateRequest" where
  "pending_request s =
     \<lparr>req_Generation = su_PendingGeneration s,
      req_AgentVersion = su_PendingAgentVersion s,
      req_ExecutorVersion = su_PendingExecutorVersion s,
      req_Commit = su_PendingCommit s,
      req_ArtifactSHA256 = su_PendingArtifactSHA256 s,
      req_AgentProtocol = su_PendingAgentProtocol s,
      req_ExecutorProtocol = su_PendingExecutorProtocol s,
      req_MutationProtocol = su_PendingMutationProtocol s,
      req_RecoveryProtocol = su_PendingRecoveryProtocol s,
      req_Release = su_PendingRelease s\<rparr>"

definition pending_digests :: "HostSelfUpdateState \<Rightarrow> hostSelfUpdateSlotDigests" where
  "pending_digests s =
     \<lparr>dig_AgentSHA256 = su_PendingAgentSHA256 s, dig_ExecutorSHA256 = su_PendingExecutorSHA256 s\<rparr>"

definition state_validate :: "HostSelfUpdateState \<Rightarrow> go_error option" where
  "state_validate s =
     (if su_SchemaVersion s \<noteq> hostSelfUpdateStateSchemaVersion \<or>
         su_RecoveryProtocolVersion s \<noteq> HostSelfUpdateRecoveryProtocolVersion \<or>
         \<not> validHostSelfUpdateSlot (su_ActiveSlot s) \<or>
         \<not> validHostSelfUpdateSlot (su_HealthySlot s) \<or>
         \<not> MatchString versionPattern (su_ActiveAgentVersion s) \<or>
         \<not> MatchString versionPattern (su_ActiveExecutorVersion s)
      then errNew ''host self-update state is invalid''
      else if su_FailedGeneration s \<noteq> [] \<and>
         (\<not> MatchString identifierPattern (su_FailedGeneration s) \<or>
          su_FailedGeneration s \<noteq> TrimSpace (su_FailedGeneration s))
      then errNew ''host self-update failed generation is invalid''
      else if su_Phase s = PhaseStable
      then
        (if su_ActiveSlot s \<noteq> su_HealthySlot s \<or> su_PendingSlot s \<noteq> [] \<or>
            su_PendingAgentSHA256 s \<noteq> [] \<or>
            su_PendingExecutorSHA256 s \<noteq> [] \<or>
            \<not> IsZero (su_ActivationStartedAt s) \<or>
            \<not> IsZero (su_ActivationDeadline s)
         then errNew ''stable host self-update state is inconsistent''
         else None)
      else if su_Phase s \<noteq> PhaseStaged \<and> su_Phase s \<noteq> PhaseActivating \<and>
         su_Phase s \<noteq> PhaseVerifying \<and> su_Phase s \<noteq> PhaseRollingBack
      then errNew ''host self-update state phase is invalid''
      else if request_validate (pending_request s) \<noteq> None \<or>
         digests_validate (pending_digests s) \<noteq> None \<or>
         \<not> validHostSelfUpdateSlot (su_PendingSlot s) \<or>
         su_PendingSlot s = su_HealthySlot s
      then errNew ''pending host self-update state is invalid''
      else if su_Phase s = PhaseStaged
      then
        (if \<not> IsZero (su_ActivationStartedAt s) \<or> \<not> IsZero (su_ActivationDeadline s)
         then errNew ''staged host self-update activation clock is inconsistent''
         else None)
      else if IsZero (su_ActivationStartedAt s) \<or>
         IsZero (su_ActivationDeadline s) \<or>
         \<not> in_utc (su_ActivationStartedAt s) \<or>
         \<not> in_utc (su_ActivationDeadline s) \<or>
         \<not> time_After (su_ActivationDeadline s) (su_ActivationStartedAt s)
      then errNew ''active host self-update deadline is invalid''
      else
        let verificationTimeout = time_Sub (su_ActivationDeadline s) (su_ActivationStartedAt s)
        in if verificationTimeout < 30 * time_Second \<or> verificationTimeout > 30 * time_Minute
           then errNew ''active host self-update deadline is outside the fixed bounds''
           else None)"

section \<open>Operations\<close>

definition zero_state :: HostSelfUpdateState where
  "zero_state =
     \<lparr>su_SchemaVersion = 0, su_RecoveryProtocolVersion = 0, su_Phase = [], su_ActiveSlot = [],
      su_HealthySlot = [], su_RollbackSlot = [], su_ActiveAgentVersion = [],
      su_ActiveExecutorVersion = [], su_RollbackAgentVersion = [], su_RollbackExecutorVersion = [],
      su_FailedGeneration = [], su_PendingSlot = [], su_PendingGeneration = [],
      su_PendingAgentVersion = [], su_PendingExecutorVersion = [], su_PendingCommit = [],
      su_PendingArtifactSHA256 = [], su_PendingAgentSHA256 = [], su_PendingExecutorSHA256 = [],
      su_PendingAgentProtocol = 0, su_PendingExecutorProtocol = 0, su_PendingMutationProtocol = 0,
      su_PendingRecoveryProtocol = 0, su_PendingRelease = zero_release,
      su_ActivationStartedAt = zero_time, su_ActivationDeadline = zero_time\<rparr>"

definition NewHostSelfUpdateState :: "string \<Rightarrow> string \<Rightarrow> HostSelfUpdateState result" where
  "NewHostSelfUpdateState agentVersion executorVersion =
     (if \<not> MatchString versionPattern (TrimSpace agentVersion) \<or>
         \<not> MatchString versionPattern (TrimSpace executorVersion)
      then Inl (NewErr ''initial host runtime versions are invalid'')
      else Inr (zero_state
        \<lparr>su_SchemaVersion := hostSelfUpdateStateSchemaVersion,
         su_RecoveryProtocolVersion := HostSelfUpdateRecoveryProtocolVersion,
         su_Phase := PhaseStable,
         su_ActiveSlot := SlotA,
         su_HealthySlot := SlotA,
         su_ActiveAgentVersion := TrimSpace agentVersion,
         su_ActiveExecutorVersion := TrimSpace executorVersion\<rparr>))"

definition StageHostSelfUpdate ::
  "HostSelfUpdateState \<Rightarrow> HostSelfUpdateRequest \<Rightarrow> HostLifecycleBlockers \<Rightarrow>
   hostSelfUpdateSlotDigests \<Rightarrow> HostSelfUpdateState result" where
  "StageHostSelfUpdate state request blockers slotDigests =
     (case state_validate state of Some err \<Rightarrow> Inl err | None \<Rightarrow>
      if su_Phase state \<noteq> PhaseStable \<or> mutationBlocked blockers
      then Inl (NewErr ''host lifecycle mutation is active'')
      else case request_validate request of Some err \<Rightarrow> Inl err | None \<Rightarrow>
      case digests_validate slotDigests of Some err \<Rightarrow> Inl err | None \<Rightarrow>
      if req_AgentVersion request = su_ActiveAgentVersion state \<and>
         req_ExecutorVersion request = su_ActiveExecutorVersion state
      then Inl (NewErr ''host self-update target is already active'')
      else if req_Generation request = su_FailedGeneration state
      then Inl (NewErr ''host self-update generation previously failed and cannot be replayed'')
      else Inr (state
        \<lparr>su_Phase := PhaseStaged,
         su_PendingSlot := otherHostSelfUpdateSlot (su_HealthySlot state),
         su_PendingGeneration := req_Generation request,
         su_PendingAgentVersion := req_AgentVersion request,
         su_PendingExecutorVersion := req_ExecutorVersion request,
         su_PendingCommit := req_Commit request,
         su_PendingArtifactSHA256 := req_ArtifactSHA256 request,
         su_PendingAgentSHA256 := dig_AgentSHA256 slotDigests,
         su_PendingExecutorSHA256 := dig_ExecutorSHA256 slotDigests,
         su_PendingAgentProtocol := req_AgentProtocol request,
         su_PendingExecutorProtocol := req_ExecutorProtocol request,
         su_PendingMutationProtocol := req_MutationProtocol request,
         su_PendingRecoveryProtocol := req_RecoveryProtocol request,
         su_PendingRelease := req_Release request,
         su_ActivationStartedAt := zero_time,
         su_ActivationDeadline := zero_time\<rparr>))"

definition BeginHostSelfUpdateActivation ::
  "HostSelfUpdateState \<Rightarrow> gotime \<Rightarrow> duration \<Rightarrow> HostSelfUpdateState result" where
  "BeginHostSelfUpdateActivation state startedAt verificationTimeout =
     (case state_validate state of Some err \<Rightarrow> Inl err | None \<Rightarrow>
      if su_Phase state \<noteq> PhaseStaged
      then Inl (NewErr ''host self-update is not staged'')
      else if IsZero startedAt \<or> verificationTimeout < 30 * time_Second \<or>
         verificationTimeout > 30 * time_Minute
      then Inl (NewErr ''host self-update activation clock is invalid'')
      else Inr (state
        \<lparr>su_Phase := PhaseActivating,
         su_ActivationStartedAt := time_UTC startedAt,
         su_ActivationDeadline := time_Add (time_UTC startedAt) verificationTimeout\<rparr>))"

definition beginHostSelfUpdateRollback :: "HostSelfUpdateState \<Rightarrow> HostSelfUpdateState" where
  "beginHostSelfUpdateRollback state =
     state\<lparr>su_Phase := PhaseRollingBack, su_FailedGeneration := su_PendingGeneration state\<rparr>"

definition clearPendingHostSelfUpdate :: "HostSelfUpdateState \<Rightarrow> HostSelfUpdateState" where
  "clearPendingHostSelfUpdate state = state
     \<lparr>su_PendingSlot := [], su_PendingGeneration := [], su_PendingAgentVersion := [],
      su_PendingExecutorVersion := [], su_PendingCommit := [], su_PendingArtifactSHA256 := [],
      su_PendingAgentSHA256 := [], su_PendingExecutorSHA256 := [], su_PendingAgentProtocol := 0,
      su_PendingExecutorProtocol := 0, su_PendingMutationProtocol := 0,
      su_PendingRecoveryProtocol := 0, su_PendingRelease := zero_release,
      su_ActivationStartedAt := zero_time, su_ActivationDeadline := zero_time\<rparr>"

definition commitHostSelfUpdate :: "HostSelfUpdateState \<Rightarrow> HostSelfUpdateState" where
  "commitHostSelfUpdate state = clearPendingHostSelfUpdate (state
     \<lparr>su_Phase := PhaseStable,
      su_ActiveSlot := su_PendingSlot state,
      su_HealthySlot := su_PendingSlot state,
      su_RollbackSlot := su_HealthySlot state,
      su_ActiveAgentVersion := su_PendingAgentVersion state,
      su_ActiveExecutorVersion := su_PendingExecutorVersion state,
      su_RollbackAgentVersion := su_ActiveAgentVersion state,
      su_RollbackExecutorVersion := su_ActiveExecutorVersion state\<rparr>)"

definition clearRolledBackHostSelfUpdate :: "HostSelfUpdateState \<Rightarrow> HostSelfUpdateState" where
  "clearRolledBackHostSelfUpdate state = clearPendingHostSelfUpdate (state
     \<lparr>su_FailedGeneration := su_PendingGeneration state,
      su_Phase := PhaseStable,
      su_ActiveSlot := su_HealthySlot state,
      su_RollbackSlot := [],
      su_RollbackAgentVersion := [],
      su_RollbackExecutorVersion := []\<rparr>)"

definition reconcileHostSelfUpdateVerification ::
  "HostSelfUpdateState \<Rightarrow> HostSelfUpdateObservation \<Rightarrow> (HostSelfUpdateState \<times> string) result" where
  "reconcileHostSelfUpdateVerification state observation =
     (if obs_CurrentSlot observation \<noteq> su_PendingSlot state
      then Inr (beginHostSelfUpdateRollback state, ActionRestoreHealthy)
      else if obs_RunningAgentVersion observation \<noteq> [] \<and>
         obs_RunningAgentVersion observation \<noteq> su_PendingAgentVersion state
      then Inr (beginHostSelfUpdateRollback state, ActionRestoreHealthy)
      else
        let heartbeatPresent = obs_HeartbeatGeneration observation \<noteq> [] \<or>
              obs_PanelHeartbeatVersion observation \<noteq> [];
            heartbeatValid = obs_HeartbeatGeneration observation = su_PendingGeneration state \<and>
              obs_PanelHeartbeatVersion observation = su_PendingAgentVersion state
        in if heartbeatPresent \<and> \<not> heartbeatValid
           then Inr (beginHostSelfUpdateRollback state, ActionRestoreHealthy)
           else
             let probePresent = obs_ExecutorProbeGeneration observation \<noteq> [] \<or>
                   obs_ExecutorFailureCode observation \<noteq> [];
                 probeValid = obs_ExecutorProbeGeneration observation = su_PendingGeneration state \<and>
                   obs_ExecutorHealthy observation \<and>
                   obs_ExecutorVersion observation = su_PendingExecutorVersion state \<and>
                   obs_ExecutorProtocol observation = su_PendingExecutorProtocol state
             in if probePresent \<and> \<not> probeValid
                then Inr (beginHostSelfUpdateRollback state, ActionRestoreHealthy)
                else if \<not> heartbeatValid then Inr (state, ActionAwaitProof)
                else if \<not> probeValid then Inr (state, ActionProbeExecutor)
                else Inr (commitHostSelfUpdate state, ActionCommit))"

definition ReconcileHostSelfUpdate ::
  "HostSelfUpdateState \<Rightarrow> HostSelfUpdateObservation \<Rightarrow> (HostSelfUpdateState \<times> string) result" where
  "ReconcileHostSelfUpdate state observation =
     (case state_validate state of Some err \<Rightarrow> Inl err | None \<Rightarrow>
      if \<not> validHostSelfUpdateSlot (obs_CurrentSlot observation)
      then Inl (NewErr ''observed current host slot is invalid'')
      else if su_Phase state = PhaseStable
      then
        (if obs_CurrentSlot observation \<noteq> su_ActiveSlot state
         then Inr (state, ActionRestoreHealthy)
         else Inr (state, ActionNone))
      else if su_Phase state = PhaseStaged then Inr (state, ActionNone)
      else if su_Phase state = PhaseActivating
      then
        (if obs_ExecutorFailureCode observation \<noteq> []
         then
           let state = beginHostSelfUpdateRollback state
           in if obs_CurrentSlot observation = su_PendingSlot state
              then Inr (state, ActionRestoreHealthy)
              else if obs_CurrentSlot observation = su_HealthySlot state
              then Inr (state, ActionRestartHealthy)
              else Inl (NewErr ''current slot is outside the failed activation transition'')
         else if obs_CurrentSlot observation = su_HealthySlot state
         then Inr (state, ActionSwitchCurrent)
         else if obs_CurrentSlot observation = su_PendingSlot state
         then
           let state = state\<lparr>su_Phase := PhaseVerifying\<rparr>
           in if obs_RunningAgentVersion observation = []
              then Inr (state, ActionRestartAgent)
              else reconcileHostSelfUpdateVerification state observation
         else Inl (NewErr ''current slot is outside the staged A/B transition''))
      else if su_Phase state = PhaseVerifying
      then reconcileHostSelfUpdateVerification state observation
      else if su_Phase state = PhaseRollingBack
      then
        (if obs_CurrentSlot observation = su_PendingSlot state
         then Inr (state, ActionRestoreHealthy)
         else if obs_CurrentSlot observation \<noteq> su_HealthySlot state
         then Inl (NewErr ''current slot is outside the rollback transition'')
         else if obs_RunningAgentVersion observation = []
         then Inr (state, ActionRestartHealthy)
         else if obs_RunningAgentVersion observation \<noteq> su_ActiveAgentVersion state \<or>
            \<not> obs_ExecutorHealthy observation \<or>
            obs_ExecutorVersion observation \<noteq> su_ActiveExecutorVersion state
         then Inr (state, ActionRestartHealthy)
         else Inr (clearRolledBackHostSelfUpdate state, ActionRollbackComplete))
      else Inl (NewErr ''host self-update phase is invalid''))"

section \<open>Validity\<close>

text \<open>Trimming never rescues a value: it is accepted exactly if it matches as it stands.\<close>

lemma trimmed_match:
  "MatchString versionPattern (TrimSpace s) \<and> s = TrimSpace s \<longleftrightarrow> MatchString versionPattern s"
  "MatchString identifierPattern (TrimSpace s) \<and> s = TrimSpace s \<longleftrightarrow> MatchString identifierPattern s"
  "MatchString updaterReleaseCommitPattern (TrimSpace s) \<and> s = TrimSpace s \<longleftrightarrow>
   MatchString updaterReleaseCommitPattern s"
  "MatchString digestPattern (TrimSpace s) \<and> s = TrimSpace s \<longleftrightarrow> MatchString digestPattern s"
  using TrimSpace_patterns [of s] by metis+

lemma pattern_nonempty:
  "\<not> MatchString versionPattern []" "\<not> MatchString identifierPattern []"
  "\<not> MatchString digestPattern []"
  by (simp_all add: match_eval)

lemma request_validate_iff:
  "request_validate r = None \<longleftrightarrow>
     MatchString identifierPattern (req_Generation r) \<and>
     MatchString versionPattern (req_AgentVersion r) \<and>
     MatchString versionPattern (req_ExecutorVersion r) \<and>
     MatchString updaterReleaseCommitPattern (req_Commit r) \<and>
     MatchString digestPattern (req_ArtifactSHA256 r) \<and>
     1 \<le> req_AgentProtocol r \<and> 1 \<le> req_ExecutorProtocol r \<and> 1 \<le> req_MutationProtocol r \<and>
     req_RecoveryProtocol r = HostSelfUpdateRecoveryProtocolVersion \<and>
     release_validate (req_Release r) = None \<and> matchesRequest (req_Release r) r"
proof -
  have chain: "(if \<not> a1 \<or> \<not> a2 \<or> \<not> a3 \<or> \<not> a4 \<or> \<not> a5 \<or> rest then Some e
      else if g1 \<noteq> h1 \<or> g2 \<noteq> h2 \<or> g3 \<noteq> h3 \<or> g4 \<noteq> h4 \<or> g5 \<noteq> h5 then Some e' else None) = None \<longleftrightarrow>
      (a1 \<and> g1 = h1) \<and> (a2 \<and> g2 = h2) \<and> (a3 \<and> g3 = h3) \<and> (a4 \<and> g4 = h4) \<and> (a5 \<and> g5 = h5) \<and>
      \<not> rest"
    for a1 a2 a3 a4 a5 rest and g1 g2 g3 g4 g5 h1 h2 h3 h4 h5 :: string and e e' :: go_error
    by auto
  show ?thesis
    unfolding request_validate_def chain trimmed_match by auto
qed

definition base_ok :: "HostSelfUpdateState \<Rightarrow> bool" where
  "base_ok s \<longleftrightarrow>
     su_SchemaVersion s = hostSelfUpdateStateSchemaVersion \<and>
     su_RecoveryProtocolVersion s = HostSelfUpdateRecoveryProtocolVersion \<and>
     validHostSelfUpdateSlot (su_ActiveSlot s) \<and>
     validHostSelfUpdateSlot (su_HealthySlot s) \<and>
     MatchString versionPattern (su_ActiveAgentVersion s) \<and>
     MatchString versionPattern (su_ActiveExecutorVersion s) \<and>
     (su_FailedGeneration s = [] \<or> MatchString identifierPattern (su_FailedGeneration s))"

definition idle_ok :: "HostSelfUpdateState \<Rightarrow> bool" where
  "idle_ok s \<longleftrightarrow> su_ActiveSlot s = su_HealthySlot s \<and> su_PendingSlot s = [] \<and>
     su_PendingAgentSHA256 s = [] \<and> su_PendingExecutorSHA256 s = [] \<and>
     IsZero (su_ActivationStartedAt s) \<and> IsZero (su_ActivationDeadline s)"

definition pending_ok :: "HostSelfUpdateState \<Rightarrow> bool" where
  "pending_ok s \<longleftrightarrow> request_validate (pending_request s) = None \<and>
     digests_validate (pending_digests s) = None \<and>
     validHostSelfUpdateSlot (su_PendingSlot s) \<and> su_PendingSlot s \<noteq> su_HealthySlot s"

definition clock_ok :: "HostSelfUpdateState \<Rightarrow> bool" where
  "clock_ok s \<longleftrightarrow>
     instant (su_ActivationStartedAt s) \<noteq> 0 \<and> instant (su_ActivationDeadline s) \<noteq> 0 \<and>
     in_utc (su_ActivationStartedAt s) \<and> in_utc (su_ActivationDeadline s) \<and>
     30 * time_Second \<le> instant (su_ActivationDeadline s) - instant (su_ActivationStartedAt s) \<and>
     instant (su_ActivationDeadline s) - instant (su_ActivationStartedAt s) \<le> 30 * time_Minute"

abbreviation running_phase :: "string \<Rightarrow> bool" where
  "running_phase p \<equiv> p \<in> {PhaseActivating, PhaseVerifying, PhaseRollingBack}"

abbreviation valid_state :: "HostSelfUpdateState \<Rightarrow> bool" where
  "valid_state s \<equiv> state_validate s = None"

lemma state_validate_iff:
  "valid_state s \<longleftrightarrow> base_ok s \<and>
     (su_Phase s = PhaseStable \<and> idle_ok s \<or>
      su_Phase s = PhaseStaged \<and> pending_ok s \<and> IsZero (su_ActivationStartedAt s) \<and>
        IsZero (su_ActivationDeadline s) \<or>
      running_phase (su_Phase s) \<and> pending_ok s \<and> clock_ok s)"
proof -
  have failed: "su_FailedGeneration s \<noteq> [] \<and>
      (\<not> MatchString identifierPattern (su_FailedGeneration s) \<or>
       su_FailedGeneration s \<noteq> TrimSpace (su_FailedGeneration s)) \<longleftrightarrow>
      \<not> (su_FailedGeneration s = [] \<or> MatchString identifierPattern (su_FailedGeneration s))"
    using TrimSpace_patterns(7) [of "su_FailedGeneration s"] by auto
  have pos: "0 < 30 * time_Second" "30 * time_Second \<le> 30 * time_Minute"
    by (simp_all add: time_defs)
  have big: "30 * time_Minute < 9223372036854775807"
    by (simp add: time_defs)
  have clock: "\<not> (IsZero (su_ActivationStartedAt s) \<or> IsZero (su_ActivationDeadline s) \<or>
       \<not> in_utc (su_ActivationStartedAt s) \<or> \<not> in_utc (su_ActivationDeadline s) \<or>
       \<not> time_After (su_ActivationDeadline s) (su_ActivationStartedAt s)) \<and>
     \<not> (time_Sub (su_ActivationDeadline s) (su_ActivationStartedAt s) < 30 * time_Second \<or>
        30 * time_Minute < time_Sub (su_ActivationDeadline s) (su_ActivationStartedAt s)) \<longleftrightarrow>
     clock_ok s"
    using pos big unfolding clock_ok_def IsZero_def time_After_def time_Sub_def by linarith
  have base: "\<not> (su_SchemaVersion s \<noteq> hostSelfUpdateStateSchemaVersion \<or>
      su_RecoveryProtocolVersion s \<noteq> HostSelfUpdateRecoveryProtocolVersion \<or>
      \<not> validHostSelfUpdateSlot (su_ActiveSlot s) \<or> \<not> validHostSelfUpdateSlot (su_HealthySlot s) \<or>
      \<not> MatchString versionPattern (su_ActiveAgentVersion s) \<or>
      \<not> MatchString versionPattern (su_ActiveExecutorVersion s)) \<and>
      \<not> \<not> (su_FailedGeneration s = [] \<or> MatchString identifierPattern (su_FailedGeneration s)) \<longleftrightarrow>
      base_ok s"
    unfolding base_ok_def by blast
  have pending: "\<not> (request_validate (pending_request s) \<noteq> None \<or>
      digests_validate (pending_digests s) \<noteq> None \<or>
      \<not> validHostSelfUpdateSlot (su_PendingSlot s) \<or> su_PendingSlot s = su_HealthySlot s) \<longleftrightarrow>
      pending_ok s"
    unfolding pending_ok_def by auto
  have idle: "\<not> (su_ActiveSlot s \<noteq> su_HealthySlot s \<or> su_PendingSlot s \<noteq> [] \<or>
      su_PendingAgentSHA256 s \<noteq> [] \<or> su_PendingExecutorSHA256 s \<noteq> [] \<or>
      \<not> IsZero (su_ActivationStartedAt s) \<or> \<not> IsZero (su_ActivationDeadline s)) \<longleftrightarrow> idle_ok s"
    unfolding idle_ok_def by blast
  have chain: "(if nb then Some e1 else if nf then Some e2
      else if st then (if ni then Some e3 else None)
      else if np then Some e4 else if nq then Some e5
      else if sg then (if nz then Some e6 else None)
      else if nc then Some e7 else if nd then Some e8 else None) = None \<longleftrightarrow>
      (\<not> nb \<and> \<not> nf) \<and> (st \<and> \<not> ni \<or> \<not> st \<and> \<not> np \<and> \<not> nq \<and> (sg \<and> \<not> nz \<or> \<not> sg \<and> \<not> nc \<and> \<not> nd))"
    for nb nf st ni np nq sg nz nc nd and e1 e2 e3 e4 e5 e6 e7 e8 :: go_error
    by (cases nb; cases nf; cases st; cases np; cases nq; cases sg; simp)
  show ?thesis
    unfolding state_validate_def failed Let_def chain base pending idle clock
    by (cases "su_Phase s = PhaseStable"; cases "su_Phase s = PhaseStaged"; simp)
qed

text \<open>The parts of validity depend on the fields they name only.\<close>

lemma pending_request_simps [simp]:
  "pending_request (s\<lparr>su_Phase := p\<rparr>) = pending_request s"
  "pending_request (s\<lparr>su_FailedGeneration := g\<rparr>) = pending_request s"
  "pending_request (s\<lparr>su_ActivationStartedAt := t\<rparr>) = pending_request s"
  "pending_request (s\<lparr>su_ActivationDeadline := t\<rparr>) = pending_request s"
  by (simp_all add: pending_request_def)

lemma pending_digests_simps [simp]:
  "pending_digests (s\<lparr>su_Phase := p\<rparr>) = pending_digests s"
  "pending_digests (s\<lparr>su_FailedGeneration := g\<rparr>) = pending_digests s"
  "pending_digests (s\<lparr>su_ActivationStartedAt := t\<rparr>) = pending_digests s"
  "pending_digests (s\<lparr>su_ActivationDeadline := t\<rparr>) = pending_digests s"
  by (simp_all add: pending_digests_def)

lemma pending_ok_phase [simp]: "pending_ok (s\<lparr>su_Phase := p\<rparr>) = pending_ok s"
  by (simp add: pending_ok_def)

lemma base_ok_phase [simp]: "base_ok (s\<lparr>su_Phase := p\<rparr>) = base_ok s"
  by (simp add: base_ok_def)

lemma clock_ok_phase [simp]: "clock_ok (s\<lparr>su_Phase := p\<rparr>) = clock_ok s"
  by (simp add: clock_ok_def)

lemma pending_okD:
  assumes "pending_ok s"
  shows "MatchString identifierPattern (su_PendingGeneration s)"
    "MatchString versionPattern (su_PendingAgentVersion s)"
    "MatchString versionPattern (su_PendingExecutorVersion s)"
    "validHostSelfUpdateSlot (su_PendingSlot s)" "su_PendingSlot s \<noteq> su_HealthySlot s"
    "su_PendingGeneration s \<noteq> []" "su_PendingAgentVersion s \<noteq> []" "su_PendingExecutorVersion s \<noteq> []"
  using assms pattern_nonempty
  by (auto simp: pending_ok_def request_validate_iff pending_request_def)

lemma otherHostSelfUpdateSlot_valid:
  "validHostSelfUpdateSlot slot \<Longrightarrow>
   validHostSelfUpdateSlot (otherHostSelfUpdateSlot slot) \<and> otherHostSelfUpdateSlot slot \<noteq> slot"
  by (auto simp: validHostSelfUpdateSlot_def otherHostSelfUpdateSlot_def)

lemma two_slots:
  "validHostSelfUpdateSlot a \<Longrightarrow> validHostSelfUpdateSlot b \<Longrightarrow> validHostSelfUpdateSlot c \<Longrightarrow>
   a \<noteq> b \<Longrightarrow> c = a \<or> c = b"
  by (auto simp: validHostSelfUpdateSlot_def)

lemma slot_other_iff:
  "validHostSelfUpdateSlot a \<Longrightarrow> validHostSelfUpdateSlot b \<Longrightarrow>
   b = otherHostSelfUpdateSlot a \<longleftrightarrow> b \<noteq> a"
  by (auto simp: validHostSelfUpdateSlot_def otherHostSelfUpdateSlot_def)

section \<open>Each operation keeps validity\<close>

lemma New_valid:
  assumes "NewHostSelfUpdateState a e = Inr s"
  shows "valid_state s" "su_Phase s = PhaseStable"
  using assms
  by (auto simp: NewHostSelfUpdateState_def zero_state_def state_validate_iff base_ok_def idle_ok_def
      validHostSelfUpdateSlot_def split: if_splits)

lemma Stage_iff:
  "StageHostSelfUpdate s r b d = Inr s' \<longleftrightarrow>
     valid_state s \<and> su_Phase s = PhaseStable \<and> \<not> mutationBlocked b \<and>
     request_validate r = None \<and> digests_validate d = None \<and>
     (req_AgentVersion r \<noteq> su_ActiveAgentVersion s \<or>
      req_ExecutorVersion r \<noteq> su_ActiveExecutorVersion s) \<and>
     req_Generation r \<noteq> su_FailedGeneration s \<and>
     s' = s\<lparr>su_Phase := PhaseStaged,
         su_PendingSlot := otherHostSelfUpdateSlot (su_HealthySlot s),
         su_PendingGeneration := req_Generation r,
         su_PendingAgentVersion := req_AgentVersion r,
         su_PendingExecutorVersion := req_ExecutorVersion r,
         su_PendingCommit := req_Commit r,
         su_PendingArtifactSHA256 := req_ArtifactSHA256 r,
         su_PendingAgentSHA256 := dig_AgentSHA256 d,
         su_PendingExecutorSHA256 := dig_ExecutorSHA256 d,
         su_PendingAgentProtocol := req_AgentProtocol r,
         su_PendingExecutorProtocol := req_ExecutorProtocol r,
         su_PendingMutationProtocol := req_MutationProtocol r,
         su_PendingRecoveryProtocol := req_RecoveryProtocol r,
         su_PendingRelease := req_Release r,
         su_ActivationStartedAt := zero_time,
         su_ActivationDeadline := zero_time\<rparr>"
  unfolding StageHostSelfUpdate_def guards by (simp add: eq_commute [of s'])

lemma Stage_effect:
  assumes "StageHostSelfUpdate s r b d = Inr s'"
  shows "pending_request s' = r" "pending_digests s' = d"
    "su_PendingSlot s' = otherHostSelfUpdateSlot (su_HealthySlot s)"
    "su_Phase s' = PhaseStaged" "su_HealthySlot s' = su_HealthySlot s"
    "su_ActiveSlot s' = su_ActiveSlot s" "su_FailedGeneration s' = su_FailedGeneration s"
    "su_ActiveAgentVersion s' = su_ActiveAgentVersion s"
    "su_ActiveExecutorVersion s' = su_ActiveExecutorVersion s"
    "su_RollbackSlot s' = su_RollbackSlot s"
  using assms unfolding Stage_iff by (auto simp: pending_request_def pending_digests_def)

lemma Stage_valid:
  assumes "StageHostSelfUpdate s r b d = Inr s'"
  shows "valid_state s'"
proof -
  have pre: "base_ok s" "request_validate r = None" "digests_validate d = None"
    using assms unfolding Stage_iff state_validate_iff by auto
  have "base_ok s'"
    using assms pre(1) unfolding Stage_iff by (auto simp: base_ok_def)
  moreover have "IsZero (su_ActivationStartedAt s')" "IsZero (su_ActivationDeadline s')"
    using assms unfolding Stage_iff by auto
  moreover have "pending_ok s'"
    using pre otherHostSelfUpdateSlot_valid [of "su_HealthySlot s"]
    by (auto simp: pending_ok_def Stage_effect [OF assms] base_ok_def)
  ultimately show ?thesis
    by (simp add: state_validate_iff Stage_effect [OF assms])
qed

lemma Begin_iff:
  "BeginHostSelfUpdateActivation s t d = Inr s' \<longleftrightarrow>
     valid_state s \<and> su_Phase s = PhaseStaged \<and> instant t \<noteq> 0 \<and>
     30 * time_Second \<le> d \<and> d \<le> 30 * time_Minute \<and>
     s' = s\<lparr>su_Phase := PhaseActivating, su_ActivationStartedAt := time_UTC t,
            su_ActivationDeadline := time_Add (time_UTC t) d\<rparr>"
  unfolding BeginHostSelfUpdateActivation_def guards
  by (auto simp: IsZero_def)

lemma Begin_valid:
  assumes "BeginHostSelfUpdateActivation s t d = Inr s'" "0 < instant t"
  shows "valid_state s'"
proof -
  have pre: "base_ok s" "pending_ok s" "30 * time_Second \<le> d" "d \<le> 30 * time_Minute"
    "s' = s\<lparr>su_Phase := PhaseActivating, su_ActivationStartedAt := time_UTC t,
            su_ActivationDeadline := time_Add (time_UTC t) d\<rparr>"
    using assms(1) unfolding Begin_iff state_validate_iff by auto
  then have "clock_ok s'"
    using assms(2) by (simp add: clock_ok_def time_defs)
  with pre show ?thesis
    by (simp add: state_validate_iff base_ok_def pending_ok_def)
qed

lemma rollback_valid:
  "valid_state s \<Longrightarrow> running_phase (su_Phase s) \<Longrightarrow> valid_state (beginHostSelfUpdateRollback s)"
  using pending_okD(1) [of s]
  by (auto simp: state_validate_iff beginHostSelfUpdateRollback_def base_ok_def pending_ok_def clock_ok_def)

lemma commit_valid:
  "valid_state s \<Longrightarrow> running_phase (su_Phase s) \<Longrightarrow> valid_state (commitHostSelfUpdate s)"
  using pending_okD [of s]
  by (auto simp: state_validate_iff commitHostSelfUpdate_def clearPendingHostSelfUpdate_def
      base_ok_def idle_ok_def)

lemma clearRolledBack_valid:
  "valid_state s \<Longrightarrow> running_phase (su_Phase s) \<Longrightarrow> valid_state (clearRolledBackHostSelfUpdate s)"
  using pending_okD [of s]
  by (auto simp: state_validate_iff clearRolledBackHostSelfUpdate_def clearPendingHostSelfUpdate_def
      base_ok_def idle_ok_def)

section \<open>Reconciliation\<close>

text \<open>The proofs a commit rests on: the panel has seen a heartbeat of the pending agent for the
  pending generation, and the pending executor has answered a probe for it.\<close>

definition heartbeat_proof :: "HostSelfUpdateState \<Rightarrow> HostSelfUpdateObservation \<Rightarrow> bool" where
  "heartbeat_proof s ob \<longleftrightarrow> obs_HeartbeatGeneration ob = su_PendingGeneration s \<and>
     obs_PanelHeartbeatVersion ob = su_PendingAgentVersion s"

definition probe_proof :: "HostSelfUpdateState \<Rightarrow> HostSelfUpdateObservation \<Rightarrow> bool" where
  "probe_proof s ob \<longleftrightarrow> obs_ExecutorProbeGeneration ob = su_PendingGeneration s \<and>
     obs_ExecutorHealthy ob \<and> obs_ExecutorVersion ob = su_PendingExecutorVersion s \<and>
     obs_ExecutorProtocol ob = su_PendingExecutorProtocol s"

lemma verification_cases:
  assumes "reconcileHostSelfUpdateVerification s ob = Inr (s', a)"
  shows "s' = beginHostSelfUpdateRollback s \<and> a = ActionRestoreHealthy \<or>
    s' = s \<and> (a = ActionAwaitProof \<or> a = ActionProbeExecutor) \<and> obs_CurrentSlot ob = su_PendingSlot s \<or>
    s' = commitHostSelfUpdate s \<and> a = ActionCommit"
  using assms by (auto simp: reconcileHostSelfUpdateVerification_def Let_def split: if_splits)

lemma verification_commit_iff:
  "reconcileHostSelfUpdateVerification s ob = Inr (s', ActionCommit) \<longleftrightarrow>
     s' = commitHostSelfUpdate s \<and> obs_CurrentSlot ob = su_PendingSlot s \<and>
     obs_RunningAgentVersion ob \<in> {[], su_PendingAgentVersion s} \<and>
     heartbeat_proof s ob \<and> probe_proof s ob"
  by (auto simp: reconcileHostSelfUpdateVerification_def Let_def heartbeat_proof_def probe_proof_def)

lemma commit_phase [simp]:
  "commitHostSelfUpdate (s\<lparr>su_Phase := p\<rparr>) = commitHostSelfUpdate s"
  by (simp add: commitHostSelfUpdate_def clearPendingHostSelfUpdate_def)

lemma rollback_phase [simp]:
  "beginHostSelfUpdateRollback (s\<lparr>su_Phase := p\<rparr>) = beginHostSelfUpdateRollback s"
  by (simp add: beginHostSelfUpdateRollback_def)

lemma rollback_fields [simp]:
  "su_PendingSlot (beginHostSelfUpdateRollback s) = su_PendingSlot s"
  "su_HealthySlot (beginHostSelfUpdateRollback s) = su_HealthySlot s"
  "su_ActiveSlot (beginHostSelfUpdateRollback s) = su_ActiveSlot s"
  "su_ActiveAgentVersion (beginHostSelfUpdateRollback s) = su_ActiveAgentVersion s"
  "su_ActiveExecutorVersion (beginHostSelfUpdateRollback s) = su_ActiveExecutorVersion s"
  "su_PendingGeneration (beginHostSelfUpdateRollback s) = su_PendingGeneration s"
  "su_PendingAgentVersion (beginHostSelfUpdateRollback s) = su_PendingAgentVersion s"
  "su_PendingExecutorVersion (beginHostSelfUpdateRollback s) = su_PendingExecutorVersion s"
  "su_FailedGeneration (beginHostSelfUpdateRollback s) = su_PendingGeneration s"
  "su_RollbackSlot (beginHostSelfUpdateRollback s) = su_RollbackSlot s"
  "su_Phase (beginHostSelfUpdateRollback s) = PhaseRollingBack"
  by (simp_all add: beginHostSelfUpdateRollback_def)

lemma commit_fields [simp]:
  "su_Phase (commitHostSelfUpdate s) = PhaseStable"
  "su_ActiveSlot (commitHostSelfUpdate s) = su_PendingSlot s"
  "su_HealthySlot (commitHostSelfUpdate s) = su_PendingSlot s"
  "su_RollbackSlot (commitHostSelfUpdate s) = su_HealthySlot s"
  "su_ActiveAgentVersion (commitHostSelfUpdate s) = su_PendingAgentVersion s"
  "su_ActiveExecutorVersion (commitHostSelfUpdate s) = su_PendingExecutorVersion s"
  "su_RollbackAgentVersion (commitHostSelfUpdate s) = su_ActiveAgentVersion s"
  "su_RollbackExecutorVersion (commitHostSelfUpdate s) = su_ActiveExecutorVersion s"
  "su_FailedGeneration (commitHostSelfUpdate s) = su_FailedGeneration s"
  "su_PendingSlot (commitHostSelfUpdate s) = []"
  "su_PendingGeneration (commitHostSelfUpdate s) = []"
  by (simp_all add: commitHostSelfUpdate_def clearPendingHostSelfUpdate_def)

lemma clearRolledBack_fields [simp]:
  "su_Phase (clearRolledBackHostSelfUpdate s) = PhaseStable"
  "su_ActiveSlot (clearRolledBackHostSelfUpdate s) = su_HealthySlot s"
  "su_HealthySlot (clearRolledBackHostSelfUpdate s) = su_HealthySlot s"
  "su_RollbackSlot (clearRolledBackHostSelfUpdate s) = []"
  "su_ActiveAgentVersion (clearRolledBackHostSelfUpdate s) = su_ActiveAgentVersion s"
  "su_ActiveExecutorVersion (clearRolledBackHostSelfUpdate s) = su_ActiveExecutorVersion s"
  "su_FailedGeneration (clearRolledBackHostSelfUpdate s) = su_PendingGeneration s"
  "su_PendingSlot (clearRolledBackHostSelfUpdate s) = []"
  "su_PendingGeneration (clearRolledBackHostSelfUpdate s) = []"
  by (simp_all add: clearRolledBackHostSelfUpdate_def clearPendingHostSelfUpdate_def)

lemma verification_total: "\<exists>s' a. reconcileHostSelfUpdateVerification s ob = Inr (s', a)"
  by (auto simp: reconcileHostSelfUpdateVerification_def Let_def)

text \<open>The transitions one reconciliation can make, with the action it asks for.\<close>

inductive reconciled ::
  "HostSelfUpdateState \<Rightarrow> string \<Rightarrow> HostSelfUpdateState \<Rightarrow> string \<Rightarrow> bool" where
  keep_stable: "su_Phase s = PhaseStable \<Longrightarrow>
     reconciled s slot s (if slot = su_ActiveSlot s then ActionNone else ActionRestoreHealthy)"
| keep_staged: "su_Phase s = PhaseStaged \<Longrightarrow> reconciled s slot s ActionNone"
| switch: "su_Phase s = PhaseActivating \<Longrightarrow> slot = su_HealthySlot s \<Longrightarrow>
     reconciled s slot s ActionSwitchCurrent"
| restart: "su_Phase s = PhaseActivating \<Longrightarrow> slot = su_PendingSlot s \<Longrightarrow>
     reconciled s slot (s\<lparr>su_Phase := PhaseVerifying\<rparr>) ActionRestartAgent"
| await: "su_Phase s \<in> {PhaseActivating, PhaseVerifying} \<Longrightarrow> slot = su_PendingSlot s \<Longrightarrow>
     a \<in> {ActionAwaitProof, ActionProbeExecutor} \<Longrightarrow>
     reconciled s slot (s\<lparr>su_Phase := PhaseVerifying\<rparr>) a"
| commit: "su_Phase s \<in> {PhaseActivating, PhaseVerifying} \<Longrightarrow> slot = su_PendingSlot s \<Longrightarrow>
     reconciled s slot (commitHostSelfUpdate s) ActionCommit"
| fail: "su_Phase s \<in> {PhaseActivating, PhaseVerifying} \<Longrightarrow>
     a = ActionRestoreHealthy \<or>
     a = ActionRestartHealthy \<and> su_Phase s = PhaseActivating \<and> slot = su_HealthySlot s \<Longrightarrow>
     reconciled s slot (beginHostSelfUpdateRollback s) a"
| rolling: "su_Phase s = PhaseRollingBack \<Longrightarrow>
     a = (if slot = su_PendingSlot s then ActionRestoreHealthy else ActionRestartHealthy) \<Longrightarrow>
     reconciled s slot s a"
| rolled_back: "su_Phase s = PhaseRollingBack \<Longrightarrow> slot = su_HealthySlot s \<Longrightarrow>
     reconciled s slot (clearRolledBackHostSelfUpdate s) ActionRollbackComplete"

lemma verification_reconciled:
  assumes "su_Phase s \<in> {PhaseActivating, PhaseVerifying}"
    and "reconcileHostSelfUpdateVerification (s\<lparr>su_Phase := PhaseVerifying\<rparr>) ob = Inr (s', a)"
  shows "reconciled s (obs_CurrentSlot ob) s' a"
proof -
  have slot: "obs_CurrentSlot ob = su_PendingSlot s" if "a = ActionCommit"
    using assms(2) that verification_commit_iff [of "s\<lparr>su_Phase := PhaseVerifying\<rparr>"] by simp
  from verification_cases [OF assms(2)] consider
      "s' = beginHostSelfUpdateRollback s" "a = ActionRestoreHealthy"
    | "s' = s\<lparr>su_Phase := PhaseVerifying\<rparr>" "a \<in> {ActionAwaitProof, ActionProbeExecutor}"
        "obs_CurrentSlot ob = su_PendingSlot s"
    | "s' = commitHostSelfUpdate s" "a = ActionCommit"
    by auto
  then show ?thesis
  proof cases
    case 1
    with assms(1) show ?thesis by (auto intro: reconciled.fail)
  next
    case 2
    with assms(1) show ?thesis by (auto intro: reconciled.await)
  next
    case 3
    with assms(1) slot show ?thesis by (auto intro: reconciled.commit)
  qed
qed

lemma phase_unchanged: "su_Phase s = p \<Longrightarrow> s\<lparr>su_Phase := p\<rparr> = s"
  by (cases s) simp

lemma Reconcile_total:
  assumes "valid_state s" "validHostSelfUpdateSlot (obs_CurrentSlot ob)"
  shows "\<exists>s' a. ReconcileHostSelfUpdate s ob = Inr (s', a) \<and> reconciled s (obs_CurrentSlot ob) s' a"
proof -
  let ?slot = "obs_CurrentSlot ob"
  have slots: "?slot = su_PendingSlot s \<or> ?slot = su_HealthySlot s" if "pending_ok s"
    using two_slots [of "su_PendingSlot s" "su_HealthySlot s" ?slot] assms that
    by (auto simp: pending_ok_def state_validate_iff base_ok_def)
  from assms(1) consider
      (stable) "su_Phase s = PhaseStable" | (staged) "su_Phase s = PhaseStaged"
    | (activating) "su_Phase s = PhaseActivating" "pending_ok s"
    | (verifying) "su_Phase s = PhaseVerifying" | (rolling) "su_Phase s = PhaseRollingBack" "pending_ok s"
    by (auto simp: state_validate_iff)
  then show ?thesis
  proof cases
    case stable
    with assms keep_stable [OF stable, of ?slot] show ?thesis
      by (auto simp: ReconcileHostSelfUpdate_def)
  next
    case staged
    with assms keep_staged [OF staged] show ?thesis
      by (auto simp: ReconcileHostSelfUpdate_def)
  next
    case activating
    note v = verification_reconciled [of s ob]
    obtain s' a where vt: "reconcileHostSelfUpdateVerification (s\<lparr>su_Phase := PhaseVerifying\<rparr>) ob = Inr (s', a)"
      using verification_total by blast
    from activating assms slots pending_okD(5) [of s] v [OF _ vt] vt
    show ?thesis
      by (auto simp: ReconcileHostSelfUpdate_def Let_def  intro: reconciled.intros)
  next
    case verifying
    obtain s' a where "reconcileHostSelfUpdateVerification s ob = Inr (s', a)"
      using verification_total by blast
    with verifying assms verification_reconciled [of s ob s' a] show ?thesis
      by (auto simp: ReconcileHostSelfUpdate_def phase_unchanged)
  next
    case rolling
    with assms slots pending_okD(5) [of s] show ?thesis
      by (auto simp: ReconcileHostSelfUpdate_def intro: reconciled.intros)
  qed
qed

lemma reconciled_valid:
  "reconciled s slot s' a \<Longrightarrow> valid_state s \<Longrightarrow> valid_state s'"
proof (induction rule: reconciled.induct)
  case (restart s slot)
  then show ?case by (simp add: state_validate_iff)
next
  case (await s slot a)
  then show ?case by (auto simp: state_validate_iff)
qed (auto intro: commit_valid rollback_valid clearRolledBack_valid)

lemma Reconcile_reconciled:
  assumes "ReconcileHostSelfUpdate s ob = Inr (s', a)"
  shows "valid_state s" "validHostSelfUpdateSlot (obs_CurrentSlot ob)"
    "reconciled s (obs_CurrentSlot ob) s' a"
proof -
  show pre: "valid_state s" "validHostSelfUpdateSlot (obs_CurrentSlot ob)"
    using assms by (auto simp: ReconcileHostSelfUpdate_def split: option.splits if_splits)
  from Reconcile_total [OF pre] assms show "reconciled s (obs_CurrentSlot ob) s' a"
    by auto
qed

lemma Reconcile_valid: "ReconcileHostSelfUpdate s ob = Inr (s', a) \<Longrightarrow> valid_state s'"
  using Reconcile_reconciled reconciled_valid by blast

text \<open>
  C17: reconciliation is total on the states the program can have written. For a valid state and
  one of the two slots it never reports an error, so the three branches for a slot outside the
  transition are dead code; it returns a valid state that is one transition of the phase graph
  away.
\<close>

theorem ReconcileHostSelfUpdate_total:
  assumes "state_validate s = None" "validHostSelfUpdateSlot (obs_CurrentSlot ob)"
  shows "\<exists>s' a. ReconcileHostSelfUpdate s ob = Inr (s', a) \<and> state_validate s' = None \<and>
    reconciled s (obs_CurrentSlot ob) s' a"
  using Reconcile_total [OF assms] reconciled_valid assms(1) by blast

text \<open>
  C16: an update is committed exactly if the state is valid and activating or verifying, the
  current link points to the pending slot, the agent that runs is not a different version, and
  both proofs for the pending generation are there: the heartbeat of the pending agent version
  and the healthy probe of the pending executor version and protocol. An activation is not
  committed while the executor reports a failure or before the agent has reported its version.
\<close>

theorem ReconcileHostSelfUpdate_commit_iff:
  "ReconcileHostSelfUpdate s ob = Inr (s', ActionCommit) \<longleftrightarrow>
     state_validate s = None \<and> obs_CurrentSlot ob = su_PendingSlot s \<and>
     (su_Phase s = PhaseVerifying \<and> obs_RunningAgentVersion ob \<in> {[], su_PendingAgentVersion s} \<or>
      su_Phase s = PhaseActivating \<and> obs_RunningAgentVersion ob = su_PendingAgentVersion s \<and>
        obs_ExecutorFailureCode ob = []) \<and>
     heartbeat_proof s ob \<and> probe_proof s ob \<and> s' = commitHostSelfUpdate s"
  (is "?lhs \<longleftrightarrow> ?rhs")
proof -
  have heartbeat: "heartbeat_proof (s\<lparr>su_Phase := p\<rparr>) ob = heartbeat_proof s ob"
    and probe: "probe_proof (s\<lparr>su_Phase := p\<rparr>) ob = probe_proof s ob" for p
    by (simp_all add: heartbeat_proof_def probe_proof_def)
  have valid: "validHostSelfUpdateSlot (su_PendingSlot s)" "su_PendingSlot s \<noteq> su_HealthySlot s"
      "su_PendingAgentVersion s \<noteq> []"
    if "state_validate s = None" "running_phase (su_Phase s)"
    using that pending_okD [of s] by (auto simp: state_validate_iff)
  show ?thesis
  proof
    assume l: ?lhs
    note r = Reconcile_reconciled [OF l]
    from r(3) have "su_Phase s \<in> {PhaseActivating, PhaseVerifying}" "obs_CurrentSlot ob = su_PendingSlot s"
      by (auto elim: reconciled.cases split: if_splits)
    with l r valid show ?rhs
      by (auto simp: ReconcileHostSelfUpdate_def Let_def verification_commit_iff heartbeat probe
          split: if_splits)
  next
    assume ?rhs
    with valid show ?lhs
      by (auto simp: ReconcileHostSelfUpdate_def Let_def verification_commit_iff heartbeat probe)
  qed
qed

section \<open>The machine and its runs\<close>

inductive su_step :: "HostSelfUpdateState \<Rightarrow> HostSelfUpdateState \<Rightarrow> bool" where
  stage: "StageHostSelfUpdate s r b d = Inr s' \<Longrightarrow> su_step s s'"
| activate: "BeginHostSelfUpdateActivation s t d = Inr s' \<Longrightarrow> 0 < instant t \<Longrightarrow> su_step s s'"
| reconcile: "ReconcileHostSelfUpdate s ob = Inr (s', a) \<Longrightarrow> su_step s s'"

inductive su_reachable :: "HostSelfUpdateState \<Rightarrow> bool" where
  new: "NewHostSelfUpdateState a e = Inr s \<Longrightarrow> su_reachable s"
| step: "su_reachable s \<Longrightarrow> su_step s s' \<Longrightarrow> su_reachable s'"

lemma su_step_valid: "su_step s s' \<Longrightarrow> valid_state s'"
  by (induction rule: su_step.induct)
    (use Stage_valid Begin_valid Reconcile_valid in blast)+

text \<open>
  What holds of every reachable state beyond validity: the active slot is the healthy one, the
  rollback slot is the other one, a rollback has recorded the generation that failed, and a
  generation that is being applied is not the one that failed last.
\<close>

definition su_inv :: "HostSelfUpdateState \<Rightarrow> bool" where
  "su_inv s \<longleftrightarrow> valid_state s \<and> su_ActiveSlot s = su_HealthySlot s \<and>
     su_RollbackSlot s \<in> {[], otherHostSelfUpdateSlot (su_HealthySlot s)} \<and>
     (su_Phase s = PhaseRollingBack \<longrightarrow> su_FailedGeneration s = su_PendingGeneration s) \<and>
     (su_Phase s \<in> {PhaseStaged, PhaseActivating, PhaseVerifying} \<longrightarrow>
        su_FailedGeneration s \<noteq> su_PendingGeneration s) \<and>
     (su_Phase s \<noteq> PhaseStable \<longrightarrow>
        (su_PendingAgentVersion s, su_PendingExecutorVersion s) \<noteq>
        (su_ActiveAgentVersion s, su_ActiveExecutorVersion s))"

lemma New_inv: "NewHostSelfUpdateState a e = Inr s \<Longrightarrow> su_inv s"
  using New_valid [of a e s]
  by (auto simp: su_inv_def NewHostSelfUpdateState_def zero_state_def split: if_splits)

lemma Stage_inv: "StageHostSelfUpdate s r b d = Inr s' \<Longrightarrow> su_inv s \<Longrightarrow> su_inv s'"
  using Stage_valid [of s r b d s'] by (auto simp: su_inv_def Stage_iff)

lemma Begin_inv:
  "BeginHostSelfUpdateActivation s t d = Inr s' \<Longrightarrow> 0 < instant t \<Longrightarrow> su_inv s \<Longrightarrow> su_inv s'"
  using Begin_valid [of s t d s'] by (auto simp: su_inv_def Begin_iff)

lemma commit_inv:
  assumes "su_inv s" "running_phase (su_Phase s)"
  shows "su_inv (commitHostSelfUpdate s)"
proof -
  have "otherHostSelfUpdateSlot (su_PendingSlot s) = su_HealthySlot s"
    using assms pending_okD(4,5) [of s] slot_other_iff [of "su_PendingSlot s" "su_HealthySlot s"]
    by (auto simp: su_inv_def state_validate_iff base_ok_def)
  moreover have "valid_state (commitHostSelfUpdate s)"
    using assms by (intro commit_valid) (simp_all add: su_inv_def)
  ultimately show ?thesis
    by (simp add: su_inv_def)
qed

lemma rollback_inv:
  assumes "su_inv s" "running_phase (su_Phase s)"
  shows "su_inv (beginHostSelfUpdateRollback s)" "su_inv (clearRolledBackHostSelfUpdate s)"
proof -
  have "valid_state (beginHostSelfUpdateRollback s)" "valid_state (clearRolledBackHostSelfUpdate s)"
    using assms rollback_valid clearRolledBack_valid by (simp_all add: su_inv_def)
  moreover have "su_Phase s \<noteq> PhaseStable"
    using assms(2) by auto
  ultimately show "su_inv (beginHostSelfUpdateRollback s)" "su_inv (clearRolledBackHostSelfUpdate s)"
    using assms(1) by (simp_all add: su_inv_def)
qed

lemma verifying_inv:
  assumes "su_inv s" "su_Phase s \<in> {PhaseActivating, PhaseVerifying}"
  shows "su_inv (s\<lparr>su_Phase := PhaseVerifying\<rparr>)"
proof -
  have "valid_state (s\<lparr>su_Phase := PhaseVerifying\<rparr>)"
    using assms by (auto simp: su_inv_def state_validate_iff)
  moreover have "su_Phase s \<noteq> PhaseStable"
    using assms(2) by auto
  moreover have "su_FailedGeneration s \<noteq> su_PendingGeneration s"
    using assms by (auto simp: su_inv_def)
  ultimately show ?thesis
    using assms(1) by (simp add: su_inv_def)
qed

lemma reconciled_inv: "reconciled s slot s' a \<Longrightarrow> su_inv s \<Longrightarrow> su_inv s'"
  by (induction rule: reconciled.induct) (auto intro: commit_inv rollback_inv verifying_inv)

lemma su_step_inv: "su_step s s' \<Longrightarrow> su_inv s \<Longrightarrow> su_inv s'"
  by (induction rule: su_step.induct)
    (use Stage_inv Begin_inv Reconcile_reconciled(3) reconciled_inv in blast)+

text \<open>
  C18: every state the machine reaches from a fresh installation, by any sequence of stagings,
  activations and reconciliations with any observations, satisfies the invariant.
\<close>

theorem su_reachable_inv:
  assumes "su_reachable s"
  shows "su_inv s"
  using assms by (induction rule: su_reachable.induct) (auto intro: New_inv su_step_inv)

subsection \<open>Atomicity\<close>

text \<open>
  The contract of a self-update: what is installed changes only as a whole, from the old
  version to the one that was staged, or not at all.
\<close>

type_synonym installation = "string \<times> string \<times> string"

datatype update_view = Idle installation | Updating installation installation

inductive update_step :: "update_view \<Rightarrow> update_view \<Rightarrow> bool" where
  stay: "update_step v v"
| start: "fst old \<noteq> fst new \<Longrightarrow> snd old \<noteq> snd new \<Longrightarrow> update_step (Idle old) (Updating old new)"
| finish: "update_step (Updating old new) (Idle new)"
| abort: "update_step (Updating old new) (Idle old)"

definition update_abs :: "HostSelfUpdateState \<Rightarrow> update_view" where
  "update_abs s =
     (let old = (su_HealthySlot s, su_ActiveAgentVersion s, su_ActiveExecutorVersion s)
      in if su_Phase s = PhaseStable then Idle old
         else Updating old
           (su_PendingSlot s, su_PendingAgentVersion s, su_PendingExecutorVersion s))"

lemma Stage_update_step:
  assumes "StageHostSelfUpdate s r b d = Inr s'"
  shows "update_step (update_abs s) (update_abs s')"
proof -
  have "validHostSelfUpdateSlot (su_HealthySlot s)"
    using assms by (auto simp: Stage_iff state_validate_iff base_ok_def)
  then have "su_HealthySlot s \<noteq> otherHostSelfUpdateSlot (su_HealthySlot s)"
    using otherHostSelfUpdateSlot_valid by metis
  then show ?thesis
    using assms by (auto simp: Stage_iff update_abs_def intro!: update_step.start)
qed

lemma Begin_update_step:
  "BeginHostSelfUpdateActivation s t d = Inr s' \<Longrightarrow> update_abs s' = update_abs s"
  by (auto simp: Begin_iff update_abs_def)

lemma reconciled_update_step:
  "reconciled s slot s' a \<Longrightarrow> update_step (update_abs s) (update_abs s')"
  by (cases rule: reconciled.cases; assumption?)
    (auto simp: update_abs_def intro: update_step.intros)

text \<open>
  C4: the detailed machine refines the contract: every step of it is a step of an update that
  starts from a version that is not installed and ends by installing it as a whole or by leaving
  the installed version.
\<close>

theorem su_step_refines:
  assumes "su_step s s'"
  shows "update_step (update_abs s) (update_abs s')"
  using assms
proof cases
  case stage
  then show ?thesis by (rule Stage_update_step)
next
  case activate
  then show ?thesis by (simp add: Begin_update_step update_step.stay)
next
  case reconcile
  then show ?thesis by (blast intro: reconciled_update_step Reconcile_reconciled(3))
qed

subsection \<open>Progress\<close>

text \<open>
  What the host reports while it runs the old release from the healthy slot again, and what it
  reports when the new executor fails.
\<close>

definition healthy_again :: "HostSelfUpdateState \<Rightarrow> HostSelfUpdateObservation \<Rightarrow> bool" where
  "healthy_again s ob \<longleftrightarrow> obs_CurrentSlot ob = su_HealthySlot s \<and>
     obs_RunningAgentVersion ob = su_ActiveAgentVersion s \<and> obs_ExecutorHealthy ob \<and>
     obs_ExecutorVersion ob = su_ActiveExecutorVersion s"

definition executor_failed :: "HostSelfUpdateObservation \<Rightarrow> bool" where
  "executor_failed ob \<longleftrightarrow> obs_ExecutorFailureCode ob \<noteq> [] \<and> \<not> obs_ExecutorHealthy ob \<and>
     validHostSelfUpdateSlot (obs_CurrentSlot ob)"

lemma running_slots:
  assumes "valid_state s" "running_phase (su_Phase s)"
  shows "validHostSelfUpdateSlot (su_PendingSlot s)" "validHostSelfUpdateSlot (su_HealthySlot s)"
    "su_PendingSlot s \<noteq> su_HealthySlot s" "su_ActiveAgentVersion s \<noteq> []"
  using assms pending_okD [of s] pattern_nonempty(1) by (auto simp: state_validate_iff base_ok_def)

lemma failed_verification:
  assumes "obs_ExecutorFailureCode ob \<noteq> []" "\<not> obs_ExecutorHealthy ob"
  shows "reconcileHostSelfUpdateVerification s ob =
    Inr (beginHostSelfUpdateRollback s, ActionRestoreHealthy)"
  using assms by (simp add: reconcileHostSelfUpdateVerification_def)

lemma failed_starts_rollback:
  assumes "valid_state s" "su_Phase s \<in> {PhaseActivating, PhaseVerifying}" "executor_failed ob"
  shows "\<exists>a. ReconcileHostSelfUpdate s ob = Inr (beginHostSelfUpdateRollback s, a)"
proof -
  have run: "running_phase (su_Phase s)"
    using assms(2) by auto
  note slots = running_slots [OF assms(1) run]
  have "obs_CurrentSlot ob = su_HealthySlot s \<longleftrightarrow> obs_CurrentSlot ob \<noteq> su_PendingSlot s"
    using two_slots [OF slots(1,2) _ slots(3)] assms(3) slots(3) by (auto simp: executor_failed_def)
  with assms(1,3) slots have "ReconcileHostSelfUpdate s ob = Inr (beginHostSelfUpdateRollback s,
      if obs_CurrentSlot ob = su_PendingSlot s then ActionRestoreHealthy else ActionRestartHealthy)"
    if "su_Phase s = PhaseActivating"
    using that by (simp add: ReconcileHostSelfUpdate_def executor_failed_def)
  moreover have "ReconcileHostSelfUpdate s ob = Inr (beginHostSelfUpdateRollback s, ActionRestoreHealthy)"
    if "su_Phase s = PhaseVerifying"
    using that assms(1,3)
    by (simp add: ReconcileHostSelfUpdate_def executor_failed_def failed_verification)
  ultimately show ?thesis
    using assms(2) by blast
qed

lemma healthy_completes_rollback:
  assumes "valid_state s" "su_Phase s = PhaseRollingBack" "healthy_again s ob"
  shows "ReconcileHostSelfUpdate s ob = Inr (clearRolledBackHostSelfUpdate s, ActionRollbackComplete)"
  using assms running_slots [of s]
  by (auto simp: ReconcileHostSelfUpdate_def healthy_again_def)

text \<open>
  C19: a failed update is rolled back in two reconciliations. From any valid activating or
  verifying state, a report that the executor failed starts the rollback, and a report that the
  healthy release runs again completes it: the machine is stable on the slot and the versions it
  had before, has recorded the generation as failed, and in this state refuses to stage that
  generation.
\<close>

theorem failed_update_rolls_back:
  assumes "state_validate s = None" "su_Phase s \<in> {PhaseActivating, PhaseVerifying}"
    and "executor_failed ob1" "healthy_again s ob2"
  shows "\<exists>s1 s2 a. ReconcileHostSelfUpdate s ob1 = Inr (s1, a) \<and>
    ReconcileHostSelfUpdate s1 ob2 = Inr (s2, ActionRollbackComplete) \<and>
    state_validate s2 = None \<and> update_abs s2 =
      Idle (su_HealthySlot s, su_ActiveAgentVersion s, su_ActiveExecutorVersion s) \<and>
    su_FailedGeneration s2 = su_PendingGeneration s \<and>
    (\<forall>r b d. req_Generation r = su_PendingGeneration s \<longrightarrow>
       (\<forall>s3. StageHostSelfUpdate s2 r b d \<noteq> Inr s3))"
proof -
  let ?s1 = "beginHostSelfUpdateRollback s" and ?s2 = "clearRolledBackHostSelfUpdate (beginHostSelfUpdateRollback s)"
  have "running_phase (su_Phase s)"
    using assms(2) by auto
  then have s1: "valid_state ?s1"
    using assms(1) by (intro rollback_valid)
  have "healthy_again ?s1 ob2"
    using assms(4) by (simp add: healthy_again_def)
  then have r2: "ReconcileHostSelfUpdate ?s1 ob2 = Inr (?s2, ActionRollbackComplete)"
    using s1 by (intro healthy_completes_rollback) simp_all
  obtain a where "ReconcileHostSelfUpdate s ob1 = Inr (?s1, a)"
    using failed_starts_rollback [OF assms(1-3)] by blast
  with r2 Reconcile_valid [OF r2] show ?thesis
    by (intro exI [of _ ?s1] exI [of _ ?s2] exI [of _ a]) (simp add: update_abs_def Stage_iff)
qed

section \<open>Runtime compatibility\<close>

text \<open>
  C21: the compatibility gate passes exactly if the requirement is well formed, both running
  versions are at least the required ones in the precedence of semantic versioning, and all four
  protocol generations are equal.
\<close>

theorem ValidateHostRuntimeCompatibility_iff:
  "ValidateHostRuntimeCompatibility c r = None \<longleftrightarrow>
     requirement_validate r = None \<and>
     updaterReleaseSemverAtLeast (cur_AgentVersion c) (min_AgentVersion r) \<and>
     updaterReleaseSemverAtLeast (cur_ExecutorVersion c) (min_ExecutorVersion r) \<and>
     cur_AgentProtocol c = min_AgentProtocol r \<and> cur_ExecutorProtocol c = min_ExecutorProtocol r \<and>
     cur_MutationProtocol c = min_MutationProtocol r \<and> cur_RecoveryProtocol c = min_RecoveryProtocol r"
proof -
  have version: "MatchString versionPattern a \<and> MatchString versionPattern b"
    if "updaterReleaseSemverAtLeast a b" for a b
    using that by (auto simp: updaterReleaseSemverAtLeast_def parseUpdaterReleaseSemver_def
        split: option.splits if_splits)
  then have trimmed: "TrimSpace a = a \<and> TrimSpace b = b" if "updaterReleaseSemverAtLeast a b" for a b
    using that TrimSpace_patterns(1) by blast
  have req: "1 \<le> min_AgentProtocol r \<and> 1 \<le> min_ExecutorProtocol r \<and> 1 \<le> min_MutationProtocol r \<and>
      min_RecoveryProtocol r = HostSelfUpdateRecoveryProtocolVersion"
    if "requirement_validate r = None"
    using that unfolding requirement_validate_def guard_None by linarith
  show ?thesis
    unfolding ValidateHostRuntimeCompatibility_def guards
    using version [of "cur_AgentVersion c" "min_AgentVersion r"]
      version [of "cur_ExecutorVersion c" "min_ExecutorVersion r"]
      trimmed [of "cur_AgentVersion c" "min_AgentVersion r"]
      trimmed [of "cur_ExecutorVersion c" "min_ExecutorVersion r"] req
    by auto
qed

section \<open>A concrete update\<close>

definition hex64 :: string where "hex64 = replicate 64 CHR ''a''"

definition hex40 :: string where "hex40 = replicate 40 CHR ''b''"

definition sample_release :: HostSelfUpdateReleaseIdentity where
  "sample_release = \<lparr>rel_Tag = ''v1.3.0'', rel_Commit = hex40,
     rel_PublishedAt = \<lparr>instant = 1000, zone = None\<rparr>,
     rel_ManifestAssetID = 1, rel_ManifestAssetName = ''host-agent-manifest.json'',
     rel_ManifestSHA256 = hex64, rel_ManifestChecksumAssetID = 2, rel_ManifestChecksumSHA256 = hex64,
     rel_ArchiveAssetID = 3, rel_ArchiveAssetName = ''autostream-host-agent_v1.3.0_linux_amd64.tar.gz'',
     rel_ArchiveSize = 4096, rel_ArchiveSHA256 = hex64, rel_ArchiveChecksumAssetID = 4,
     rel_ArchiveChecksumSHA256 = hex64, rel_Arch = ''amd64'', rel_AgentProtocol = 2,
     rel_ExecutorProtocol = 2, rel_MutationProtocol = 2, rel_RecoveryProtocol = 2,
     rel_MinimumPanelVersion = ''v1.0.0''\<rparr>"

definition sample_request :: HostSelfUpdateRequest where
  "sample_request = \<lparr>req_Generation = ''gen-7'', req_AgentVersion = ''v1.3.0'',
     req_ExecutorVersion = ''v1.3.0'', req_Commit = hex40,
     req_ArtifactSHA256 = ''sha256:'' @ hex64, req_AgentProtocol = 2, req_ExecutorProtocol = 2,
     req_MutationProtocol = 2, req_RecoveryProtocol = 2, req_Release = sample_release\<rparr>"

definition sample_digests :: hostSelfUpdateSlotDigests where
  "sample_digests = \<lparr>dig_AgentSHA256 = hex64, dig_ExecutorSHA256 = hex64\<rparr>"

definition no_blockers :: HostLifecycleBlockers where
  "no_blockers = \<lparr>ActiveJob = False, MutationInProgress = False, RecoveryPending = False,
     TokenRotationPending = False, SelfUpdatePending = False, ConsumedMutationRollbackPending = False\<rparr>"

definition stable_state :: HostSelfUpdateState where
  "stable_state = zero_state\<lparr>su_SchemaVersion := 2, su_RecoveryProtocolVersion := 2,
     su_Phase := PhaseStable, su_ActiveSlot := SlotA, su_HealthySlot := SlotA,
     su_ActiveAgentVersion := ''v1.2.0'', su_ActiveExecutorVersion := ''v1.2.0''\<rparr>"

definition staged_state :: HostSelfUpdateState where
  "staged_state = stable_state\<lparr>su_Phase := PhaseStaged, su_PendingSlot := SlotB,
     su_PendingGeneration := ''gen-7'', su_PendingAgentVersion := ''v1.3.0'',
     su_PendingExecutorVersion := ''v1.3.0'', su_PendingCommit := hex40,
     su_PendingArtifactSHA256 := ''sha256:'' @ hex64, su_PendingAgentSHA256 := hex64,
     su_PendingExecutorSHA256 := hex64, su_PendingAgentProtocol := 2, su_PendingExecutorProtocol := 2,
     su_PendingMutationProtocol := 2, su_PendingRecoveryProtocol := 2,
     su_PendingRelease := sample_release,
     su_ActivationStartedAt := zero_time, su_ActivationDeadline := zero_time\<rparr>"

definition sample_time :: gotime where
  "sample_time = \<lparr>instant = 63900000000000000000, zone = None\<rparr>"

definition activating_state :: HostSelfUpdateState where
  "activating_state = staged_state\<lparr>su_Phase := PhaseActivating,
     su_ActivationStartedAt := sample_time, su_ActivationDeadline := time_Add sample_time (5 * time_Minute)\<rparr>"

definition observation_of :: "string \<Rightarrow> HostSelfUpdateObservation" where
  "observation_of slot = \<lparr>obs_CurrentSlot = slot, obs_RunningAgentVersion = [],
     obs_PanelHeartbeatVersion = [], obs_HeartbeatGeneration = [], obs_ExecutorVersion = [],
     obs_ExecutorProtocol = 0, obs_ExecutorHealthy = False, obs_ExecutorProbeGeneration = [],
     obs_ExecutorFailureCode = []\<rparr>"

lemma version_samples [simp]:
  "MatchString versionPattern ''v1.2.0''" "MatchString versionPattern ''v1.3.0''"
  "MatchString versionPattern ''v1.0.0''"
  by (simp_all add: match_eval)

lemma hex64_samples [simp]:
  "MatchString mutationPlanHashPattern hex64" "isCanonicalBareSHA256 hex64"
  "MatchString digestPattern (CHR ''s'' # CHR ''h'' # CHR ''a'' # CHR ''2'' # CHR ''5'' # CHR ''6'' # CHR '':'' # hex64)"
  "MatchString updaterReleaseCommitPattern (hex40)"
  "MatchString identifierPattern ''gen-7''"
  by (simp_all add: hex64_def hex40_def match_eval isCanonicalBareSHA256_def list_all_iff MatchString_Class_Seq)

lemma sample_release_valid [simp]: "release_validate sample_release = None"
  by (simp add: release_validate_def sample_release_def hostAgentManifestName_def
      hostAgentReleaseAssetName_def defaultMaxArtifactBytes_def IsZero_def
      HostSelfUpdateRecoveryProtocolVersion_def)

lemma sample_request_valid [simp]: "request_validate sample_request = None"
  by (simp add: request_validate_iff sample_request_def matchesRequest_def go_string
      HostSelfUpdateRecoveryProtocolVersion_def)
    (simp add: sample_release_def)

lemma stable_state_new: "NewHostSelfUpdateState ''v1.2.0'' ''v1.2.0'' = Inr stable_state"
  using TrimSpace_patterns(1) [of "''v1.2.0''"]
  by (simp add: NewHostSelfUpdateState_def stable_state_def hostSelfUpdateStateSchemaVersion_def
      HostSelfUpdateRecoveryProtocolVersion_def)

lemma stable_state_valid [simp]: "state_validate stable_state = None"
  using New_valid [OF stable_state_new] by simp

lemma staged_state_staged: "StageHostSelfUpdate stable_state sample_request no_blockers sample_digests = Inr staged_state"
proof -
  have "su_Phase stable_state = PhaseStable" "su_HealthySlot stable_state = SlotA"
    "su_ActiveAgentVersion stable_state = ''v1.2.0''" "su_FailedGeneration stable_state = []"
    "\<not> mutationBlocked no_blockers" "digests_validate sample_digests = None"
    by (simp_all add: stable_state_def zero_state_def mutationBlocked_def no_blockers_def
        digests_validate_def sample_digests_def)
  then show ?thesis
    using sample_request_valid unfolding Stage_iff
    by (simp add: otherHostSelfUpdateSlot_def sample_request_def sample_digests_def staged_state_def)
qed

lemma activating_state_begun:
  "BeginHostSelfUpdateActivation staged_state sample_time (5 * time_Minute) = Inr activating_state"
  using Stage_valid [OF staged_state_staged]
  by (simp add: Begin_iff activating_state_def staged_state_def sample_time_def time_defs)

lemmas activating_state_valid = Begin_valid [OF activating_state_begun, simplified sample_time_def, simplified]

theorem ReconcileHostSelfUpdate_total_witness:
  "\<exists>s' a. ReconcileHostSelfUpdate activating_state (observation_of SlotB) = Inr (s', a) \<and>
    state_validate s' = None \<and> reconciled activating_state SlotB s' a"
  using ReconcileHostSelfUpdate_total [of activating_state "observation_of SlotB"] activating_state_valid
  by (simp add: observation_of_def validHostSelfUpdateSlot_def)

theorem su_reachable_inv_witness: "su_inv activating_state"
proof (rule su_reachable_inv)
  have "su_reachable stable_state"
    by (rule su_reachable.new [OF stable_state_new])
  then have "su_reachable staged_state"
    by (rule su_reachable.step) (rule su_step.stage [OF staged_state_staged])
  then show "su_reachable activating_state"
    by (rule su_reachable.step)
      (rule su_step.activate [OF activating_state_begun], simp add: sample_time_def)
qed

theorem su_step_refines_witness:
  "update_step (Idle (SlotA, ''v1.2.0'', ''v1.2.0''))
     (Updating (SlotA, ''v1.2.0'', ''v1.2.0'') (SlotB, ''v1.3.0'', ''v1.3.0''))"
  using su_step_refines [OF su_step.stage [OF staged_state_staged]]
  by (simp add: update_abs_def staged_state_def stable_state_def)

theorem failed_update_rolls_back_witness:
  "\<exists>s1 s2 a. ReconcileHostSelfUpdate activating_state
       ((observation_of SlotB)\<lparr>obs_ExecutorFailureCode := ''probe_timeout''\<rparr>) = Inr (s1, a) \<and>
    ReconcileHostSelfUpdate s1
       ((observation_of SlotA)\<lparr>obs_RunningAgentVersion := ''v1.2.0'', obs_ExecutorHealthy := True,
          obs_ExecutorVersion := ''v1.2.0''\<rparr>) = Inr (s2, ActionRollbackComplete) \<and>
    update_abs s2 = Idle (SlotA, ''v1.2.0'', ''v1.2.0'')"
proof -
  have fields: "su_Phase activating_state = PhaseActivating" "su_HealthySlot activating_state = SlotA"
    "su_ActiveAgentVersion activating_state = ''v1.2.0''"
    "su_ActiveExecutorVersion activating_state = ''v1.2.0''"
    by (simp_all add: activating_state_def staged_state_def stable_state_def)
  show ?thesis
    using failed_update_rolls_back [OF activating_state_valid,
        of "(observation_of SlotB)\<lparr>obs_ExecutorFailureCode := ''probe_timeout''\<rparr>"
          "(observation_of SlotA)\<lparr>obs_RunningAgentVersion := ''v1.2.0'', obs_ExecutorHealthy := True,
            obs_ExecutorVersion := ''v1.2.0''\<rparr>"]
    by (simp add: fields executor_failed_def healthy_again_def observation_of_def
        validHostSelfUpdateSlot_def) blast
qed

end
