(* ===== verification/Encoding.thy ===== *)
theory Encoding
  imports Semver
begin

text \<open>
  What the program uses of \<open>crypto/sha256\<close>, \<open>encoding/hex\<close> and \<open>encoding/json\<close>:
  the digest of a byte string, its lower-case hexadecimal form, and the text \<open>json.Marshal\<close>
  produces for strings, integers, times, arrays and objects. The digest is computed, not
  assumed; that it has no collisions is never a fact here but a hypothesis of the statements
  that need it.
\<close>

unbundle bit_operations_syntax

section \<open>SHA-256\<close>

type_synonym u32 = "32 word"

definition sha_k :: "u32 list" where
  "sha_k =
     [0x428A2F98, 0x71374491, 0xB5C0FBCF, 0xE9B5DBA5, 0x3956C25B, 0x59F111F1, 0x923F82A4, 0xAB1C5ED5,
      0xD807AA98, 0x12835B01, 0x243185BE, 0x550C7DC3, 0x72BE5D74, 0x80DEB1FE, 0x9BDC06A7, 0xC19BF174,
      0xE49B69C1, 0xEFBE4786, 0x0FC19DC6, 0x240CA1CC, 0x2DE92C6F, 0x4A7484AA, 0x5CB0A9DC, 0x76F988DA,
      0x983E5152, 0xA831C66D, 0xB00327C8, 0xBF597FC7, 0xC6E00BF3, 0xD5A79147, 0x06CA6351, 0x14292967,
      0x27B70A85, 0x2E1B2138, 0x4D2C6DFC, 0x53380D13, 0x650A7354, 0x766A0ABB, 0x81C2C92E, 0x92722C85,
      0xA2BFE8A1, 0xA81A664B, 0xC24B8B70, 0xC76C51A3, 0xD192E819, 0xD6990624, 0xF40E3585, 0x106AA070,
      0x19A4C116, 0x1E376C08, 0x2748774C, 0x34B0BCB5, 0x391C0CB3, 0x4ED8AA4A, 0x5B9CCA4F, 0x682E6FF3,
      0x748F82EE, 0x78A5636F, 0x84C87814, 0x8CC70208, 0x90BEFFFA, 0xA4506CEB, 0xBEF9A3F7, 0xC67178F2]"

definition sha_init :: "u32 list" where
  "sha_init =
     [0x6A09E667, 0xBB67AE85, 0x3C6EF372, 0xA54FF53A, 0x510E527F, 0x9B05688C, 0x1F83D9AB, 0x5BE0CD19]"

definition rotr :: "nat \<Rightarrow> u32 \<Rightarrow> u32" where
  "rotr n x = drop_bit n x OR push_bit (32 - n) x"

definition sha_big_endian :: "nat \<Rightarrow> nat \<Rightarrow> nat list" where
  "sha_big_endian width n = map (\<lambda>i. n div 256 ^ (width - 1 - i) mod 256) [0..<width]"

text \<open>The message, a byte \<open>0x80\<close>, zeros up to a multiple of 64 bytes less 8, the length in bits.\<close>

definition sha_pad :: "nat list \<Rightarrow> nat list" where
  "sha_pad m =
     m @ [128] @ replicate ((119 - length m mod 64) mod 64) 0 @ sha_big_endian 8 (8 * length m)"

primrec word_of_bytes :: "nat list \<Rightarrow> u32 \<Rightarrow> u32" where
  "word_of_bytes [] acc = acc"
| "word_of_bytes (b # bs) acc = word_of_bytes bs (push_bit 8 acc OR word_of_nat b)"

fun sha_words :: "nat list \<Rightarrow> u32 list" where
  "sha_words (a # b # c # d # rest) = word_of_bytes [a, b, c, d] 0 # sha_words rest"
| "sha_words _ = []"

definition sha_s0 :: "u32 \<Rightarrow> u32" where
  "sha_s0 x = rotr 7 x XOR rotr 18 x XOR drop_bit 3 x"

definition sha_s1 :: "u32 \<Rightarrow> u32" where
  "sha_s1 x = rotr 17 x XOR rotr 19 x XOR drop_bit 10 x"

text \<open>The message schedule, kept with its latest word first.\<close>

primrec sha_schedule :: "nat \<Rightarrow> u32 list \<Rightarrow> u32 list" where
  "sha_schedule 0 ws = rev ws"
| "sha_schedule (Suc n) ws =
     sha_schedule n ((sha_s1 (ws ! 1) + ws ! 6 + sha_s0 (ws ! 14) + ws ! 15) # ws)"

fun sha_round :: "u32 list \<Rightarrow> u32 \<times> u32 \<Rightarrow> u32 list" where
  "sha_round [a, b, c, d, e, f, g, h] (k, w) =
     (let s1 = rotr 6 e XOR rotr 11 e XOR rotr 25 e;
          ch = (e AND f) XOR (NOT e AND g);
          t1 = h + s1 + ch + k + w;
          s0 = rotr 2 a XOR rotr 13 a XOR rotr 22 a;
          maj = (a AND b) XOR (a AND c) XOR (b AND c);
          t2 = s0 + maj
      in [t1 + t2, a, b, c, d + t1, e, f, g])"
| "sha_round st _ = st"

definition sha_compress :: "u32 list \<Rightarrow> u32 list \<Rightarrow> u32 list" where
  "sha_compress st block =
     map2 (+) st (foldl sha_round st (zip sha_k (sha_schedule 48 (rev block))))"

function sha_blocks :: "u32 list \<Rightarrow> u32 list \<Rightarrow> u32 list" where
  "sha_blocks st ws =
     (if length ws < 16 then st else sha_blocks (sha_compress st (take 16 ws)) (drop 16 ws))"
  by pat_completeness auto
termination
  by (relation "measure (length \<circ> snd)") auto

declare sha_blocks.simps [simp del]

definition hex_digit :: "nat \<Rightarrow> char" where
  "hex_digit n = (if n < 10 then char_of (48 + n) else char_of (87 + n))"

definition hex_string :: "nat \<Rightarrow> nat \<Rightarrow> string" where
  "hex_string width n = map (\<lambda>i. hex_digit (n div 16 ^ (width - 1 - i) mod 16)) [0..<width]"

definition sha256_words :: "string \<Rightarrow> u32 list" where
  "sha256_words s = sha_blocks sha_init (sha_words (sha_pad (map of_char s)))"

text \<open>\<open>hex.EncodeToString\<close> of \<open>sha256.Sum256\<close>.\<close>

definition sha256_hex :: "string \<Rightarrow> string" where
  "sha256_hex s = concat (map (\<lambda>w. hex_string 8 (unat w)) (sha256_words s))"

definition sha256_digest :: "string \<Rightarrow> string" where
  "sha256_digest s = ''sha256:'' @ sha256_hex s"

lemma sha_round_length [simp]: "length (sha_round st kw) = length st"
  by (cases "(st, kw)" rule: sha_round.cases) (simp_all add: Let_def)

lemma foldl_sha_round_length [simp]: "length (foldl sha_round st kws) = length st"
  by (induction kws arbitrary: st) simp_all

lemma sha_compress_length [simp]: "length (sha_compress st block) = length st"
  by (simp add: sha_compress_def)

lemma sha_blocks_length: "length (sha_blocks st ws) = length st"
  by (induction st ws rule: sha_blocks.induct) (subst sha_blocks.simps, simp)

lemma hex_digit_hex: "n < 16 \<Longrightarrow> is_lower_hex (hex_digit n)"
  by (auto simp: hex_digit_def class_defs less_eq_char_def)

lemma hex_string_hex: "list_all is_lower_hex (hex_string width n)" "length (hex_string width n) = width"
  by (simp_all add: hex_string_def list_all_iff hex_digit_hex)

lemma sha256_hex_shape: "length (sha256_hex s) = 64" "list_all is_lower_hex (sha256_hex s)"
proof -
  have len: "length (sha256_words s) = 8"
    by (simp add: sha256_words_def sha_blocks_length sha_init_def)
  have "length (concat (map (\<lambda>w. hex_string 8 (unat w)) ws)) = 8 * length ws" for ws :: "u32 list"
    by (induction ws) (simp_all add: hex_string_hex)
  then show "length (sha256_hex s) = 64"
    by (simp add: sha256_hex_def len)
  show "list_all is_lower_hex (sha256_hex s)"
    using hex_string_hex(1) [of 8] by (auto simp: sha256_hex_def list_all_iff)
qed

lemma sha256_hex_pattern [simp]: "MatchString mutationPlanHashPattern (sha256_hex s)"
  by (simp add: mutationPlanHashPattern_def sha256_hex_shape)

lemma sha256_digest_pattern [simp]: "MatchString digestPattern (sha256_digest s)"
  by (auto simp: MatchString_digestPattern sha256_digest_def sha256_hex_shape)

section \<open>JSON text\<close>

datatype json = JNull | JBool bool | JInt int | JStr string | JArr "json list" | JObj "(string \<times> json) list"

definition byte_in :: "nat \<Rightarrow> nat \<Rightarrow> char \<Rightarrow> bool" where
  "byte_in lo hi c \<longleftrightarrow> lo \<le> of_char c \<and> of_char c \<le> hi"

text \<open>The number of bytes of the UTF-8 sequence a string of non-ASCII bytes starts with; 0 if it is none.\<close>

fun utf8_size :: "string \<Rightarrow> nat" where
  "utf8_size (a # b # c # d # s) =
     (if byte_in 194 223 a \<and> byte_in 128 191 b then 2
      else if (byte_in 224 224 a \<and> byte_in 160 191 b \<or> byte_in 225 236 a \<and> byte_in 128 191 b \<or>
               byte_in 237 237 a \<and> byte_in 128 159 b \<or> byte_in 238 239 a \<and> byte_in 128 191 b) \<and>
              byte_in 128 191 c then 3
      else if (byte_in 240 240 a \<and> byte_in 144 191 b \<or> byte_in 241 243 a \<and> byte_in 128 191 b \<or>
               byte_in 244 244 a \<and> byte_in 128 143 b) \<and> byte_in 128 191 c \<and> byte_in 128 191 d then 4
      else 0)"
| "utf8_size [a, b, c] =
     (if byte_in 194 223 a \<and> byte_in 128 191 b then 2
      else if (byte_in 224 224 a \<and> byte_in 160 191 b \<or> byte_in 225 236 a \<and> byte_in 128 191 b \<or>
               byte_in 237 237 a \<and> byte_in 128 159 b \<or> byte_in 238 239 a \<and> byte_in 128 191 b) \<and>
              byte_in 128 191 c then 3
      else 0)"
| "utf8_size [a, b] = (if byte_in 194 223 a \<and> byte_in 128 191 b then 2 else 0)"
| "utf8_size _ = 0"

definition json_plain :: "char \<Rightarrow> bool" where
  "json_plain c \<longleftrightarrow> byte_in 32 127 c \<and> c \<notin> set ''\"<>&'' \<and> c \<noteq> CHR 0x5C"

definition json_escape_ascii :: "char \<Rightarrow> string" where
  "json_escape_ascii c =
     (if json_plain c then [c]
      else if c = CHR 0x22 \<or> c = CHR 0x5C then [CHR 0x5C, c]
      else if c = CHR 0x08 then [CHR 0x5C, CHR ''b'']
      else if c = CHR 0x0C then [CHR 0x5C, CHR ''f'']
      else if c = CHR 0x0A then [CHR 0x5C, CHR ''n'']
      else if c = CHR 0x0D then [CHR 0x5C, CHR ''r'']
      else if c = CHR 0x09 then [CHR 0x5C, CHR ''t'']
      else [CHR 0x5C, CHR ''u'', CHR ''0'', CHR ''0''] @ hex_string 2 (of_char c))"

text \<open>The escaping of \<open>json.Marshal\<close>, which also escapes the characters special in HTML, the two
  line separators U+2028 and U+2029, and replaces bytes that are not UTF-8.\<close>

function json_escape :: "string \<Rightarrow> string" where
  "json_escape [] = []"
| "json_escape (c # s) =
     (if of_char c < (128 :: nat) then json_escape_ascii c @ json_escape s
      else if utf8_size (c # s) = 0 then [CHR 0x5C] @ ''ufffd'' @ json_escape s
      else
        let rune = take (utf8_size (c # s)) (c # s);
            rest = drop (utf8_size (c # s) - 1) s
        in if rune = bytes [226, 128, 168] then [CHR 0x5C] @ ''u2028'' @ json_escape rest
           else if rune = bytes [226, 128, 169] then [CHR 0x5C] @ ''u2029'' @ json_escape rest
           else rune @ json_escape rest)"
  by pat_completeness auto
termination
  by (relation "measure length") auto

declare json_escape.simps(2) [simp del]

definition json_quote :: "string \<Rightarrow> string" where
  "json_quote s = CHR 0x22 # json_escape s @ [CHR 0x22]"

definition int_string :: "int \<Rightarrow> string" where
  "int_string n = (if n < 0 then CHR ''-'' # decimal_string (nat (- n)) else decimal_string (nat n))"

primrec comma_list :: "string list \<Rightarrow> string" where
  "comma_list [] = []"
| "comma_list (x # xs) = (if xs = [] then x else x @ CHR '','' # comma_list xs)"

fun marshal :: "json \<Rightarrow> string" where
  "marshal JNull = ''null''"
| "marshal (JBool b) = (if b then ''true'' else ''false'')"
| "marshal (JInt n) = int_string n"
| "marshal (JStr s) = json_quote s"
| "marshal (JArr js) = ''['' @ comma_list (map marshal js) @ '']''"
| "marshal (JObj fs) =
     ''{'' @ comma_list (map (\<lambda>(k, j). json_quote k @ CHR '':'' # marshal j) fs) @ ''}''"

subsection \<open>The text determines the value\<close>

text \<open>
  On values whose strings need no escaping the text of \<open>json.Marshal\<close> is injective, even as a
  prefix in front of a delimiter.
\<close>

fun plain_json :: "json \<Rightarrow> bool" where
  "plain_json (JStr s) = list_all json_plain s"
| "plain_json (JArr js) = list_all plain_json js"
| "plain_json (JObj fs) = list_all (\<lambda>(k, j). list_all json_plain k \<and> plain_json j) fs"
| "plain_json _ = True"

definition delimited :: "string \<Rightarrow> bool" where
  "delimited x \<longleftrightarrow> x = [] \<or> hd x \<in> {CHR '','', CHR '']'', CHR ''}''}"

lemma delimited_simps [simp]:
  "delimited []" "delimited (CHR '','' # x)" "delimited (CHR '']'' # x)" "delimited (CHR ''}'' # x)"
  by (simp_all add: delimited_def)

lemma json_escape_plain: "list_all json_plain s \<Longrightarrow> json_escape s = s"
  by (induction s)
    (auto simp: json_escape.simps json_escape_ascii_def json_plain_def byte_in_def)

lemma quote_append_inj:
  assumes "list_all json_plain s" "list_all json_plain t"
    and "s @ CHR 0x22 # x = t @ CHR 0x22 # y"
  shows "s = t \<and> x = y"
proof -
  have "\<not> json_plain CHR 0x22"
    by (simp add: json_plain_def)
  with assms show ?thesis
    by (induction s arbitrary: t) (auto simp: Cons_eq_append_conv append_eq_Cons_conv)
qed

lemma json_quote_inj:
  assumes "list_all json_plain s" "list_all json_plain t"
    and "json_quote s @ x = json_quote t @ y"
  shows "s = t \<and> x = y"
  using assms quote_append_inj [of s t x y] by (simp add: json_quote_def json_escape_plain)

lemma decimal_string_digits: "list_all is_digit (decimal_string n)"
proof (induction n rule: decimal_string.induct)
  case (1 n)
  have "is_digit (char_of (48 + k))" if "k < 10" for k :: nat
    using that by (simp add: class_defs less_eq_char_def)
  with 1 show ?case
    by (subst decimal_string.simps) simp
qed

lemma decimal_string_decimal: "decimal_value (decimal_string n) = n"
proof (induction n rule: decimal_string.induct)
  case (1 n)
  have "digit_value (char_of (48 + k)) = k" if "k < 10" for k :: nat
    using that by (simp add: digit_value_def)
  with 1 show ?case
    by (subst decimal_string.simps) (simp add: decimal_value_append)
qed

lemma decimal_string_nonempty: "decimal_string n \<noteq> []"
  by (subst decimal_string.simps) simp

lemma digits_append_inj:
  assumes "list_all is_digit a" "list_all is_digit b" "a @ x = b @ y" "delimited x" "delimited y"
  shows "a = b \<and> x = y"
proof -
  have hd: "\<not> is_digit c" if "c \<in> {CHR '','', CHR '']'', CHR ''}''}" for c
    using that by (auto simp: class_defs less_eq_char_def)
  have "takeWhile is_digit (a @ x) = a" if "list_all is_digit a" "delimited x" for a x
    using that hd by (cases x) (auto simp: delimited_def list_all_iff)
  then show ?thesis
    using assms by (metis same_append_eq)
qed

lemma decimal_string_minus: "decimal_string k @ u \<noteq> CHR ''-'' # v"
proof -
  obtain c s where k: "decimal_string k = c # s"
    using decimal_string_nonempty [of k] by (cases "decimal_string k") auto
  then have "is_digit c"
    using decimal_string_digits [of k] by simp
  then have "c \<noteq> CHR ''-''"
    by (auto simp: class_defs less_eq_char_def)
  with k show ?thesis by simp
qed

lemma decimal_string_append_inj:
  assumes "decimal_string i @ x = decimal_string j @ y" "delimited x" "delimited y"
  shows "i = j \<and> x = y"
  using digits_append_inj [OF decimal_string_digits decimal_string_digits assms]
    decimal_string_decimal [of i] decimal_string_decimal [of j]
  by metis

lemma int_string_inj:
  assumes "int_string m @ x = int_string n @ y" "delimited x" "delimited y"
  shows "m = n \<and> x = y"
proof (cases "m < 0"; cases "n < 0")
  assume "m < 0" "n < 0"
  then show ?thesis
    using assms decimal_string_append_inj [of "nat (- m)" x "nat (- n)" y] by (auto simp: int_string_def)
next
  assume "m < 0" "\<not> n < 0"
  then show ?thesis
    using assms(1) decimal_string_minus [of "nat n" y] by (metis append_Cons int_string_def)
next
  assume "\<not> m < 0" "n < 0"
  then show ?thesis
    using assms(1) decimal_string_minus [of "nat m" x] by (metis append_Cons int_string_def)
next
  assume "\<not> m < 0" "\<not> n < 0"
  then show ?thesis
    using assms decimal_string_append_inj [of "nat m" x "nat n" y] by (auto simp: int_string_def)
qed

lemma comma_list_inj:
  assumes "\<And>a b u v. a \<in> set as \<Longrightarrow> b \<in> set bs \<Longrightarrow> f a @ u = f b @ v \<Longrightarrow> delimited u \<Longrightarrow>
      delimited v \<Longrightarrow> a = b \<and> u = v"
    and "\<And>a. a \<in> set as \<union> set bs \<Longrightarrow> \<not> delimited (f a)"
    and cl: "cl = CHR '']'' \<or> cl = CHR ''}''"
    and "comma_list (map f as) @ cl # x = comma_list (map f bs) @ cl # y"
  shows "as = bs \<and> x = y"
  using assms(1,2,4)
proof (induction as arbitrary: bs)
  case Nil
  show ?case
  proof (cases bs)
    case (Cons b bs')
    with Nil.prems(2) [of b] obtain c w where "f b = c # w" "c \<noteq> cl"
      using cl by (cases "f b") (auto simp: delimited_def)
    with Nil.prems(3) Cons show ?thesis by (simp split: if_splits)
  qed (use Nil in simp)
next
  case (Cons a as)
  show ?case
  proof (cases bs)
    case Nil
    with Cons.prems(2) [of a] obtain c w where "f a = c # w" "c \<noteq> cl"
      using cl by (cases "f a") (auto simp: delimited_def)
    with Cons.prems(3) Nil show ?thesis by (simp split: if_splits)
  next
    case bs: (Cons b bs')
    let ?u = "if as = [] then cl # x else CHR '','' # comma_list (map f as) @ cl # x"
    let ?v = "if bs' = [] then cl # y else CHR '','' # comma_list (map f bs') @ cl # y"
    have "f a @ ?u = f b @ ?v"
      using Cons.prems(3) bs by (simp split: if_splits)
    moreover have "delimited ?u" "delimited ?v"
      using cl by auto
    ultimately have ab: "a = b" "?u = ?v"
      using Cons.prems(1) [of a b ?u ?v] bs by auto
    from ab(2) have "as = [] \<longleftrightarrow> bs' = []"
      using cl by (auto split: if_splits)
    moreover have "as = bs' \<and> x = y" if "as \<noteq> []" "bs' \<noteq> []"
    proof (rule Cons.IH)
      show "comma_list (map f as) @ cl # x = comma_list (map f bs') @ cl # y"
        using ab(2) that by simp
    qed (use Cons.prems bs in auto)
    ultimately show ?thesis
      using ab bs by (auto split: if_splits)
  qed
qed

text \<open>The first character tells which kind of value it is.\<close>

fun json_start :: "json \<Rightarrow> char" where
  "json_start JNull = CHR ''n''"
| "json_start (JBool b) = (if b then CHR ''t'' else CHR ''f'')"
| "json_start (JInt n) = (if n < 0 then CHR ''-'' else CHR ''0'')"
| "json_start (JStr s) = CHR 0x22"
| "json_start (JArr js) = CHR ''[''"
| "json_start (JObj fs) = CHR ''{''"

lemma marshal_start:
  "\<exists>c w. marshal j = c # w \<and> (c = json_start j \<or> is_digit c \<and> (\<exists>n. j = JInt n \<and> 0 \<le> n))"
proof (cases j)
  case (JInt n)
  obtain d s where "decimal_string (nat n) = d # s" "is_digit d"
    using decimal_string_nonempty [of "nat n"] decimal_string_digits [of "nat n"]
    by (cases "decimal_string (nat n)") auto
  with JInt show ?thesis by (auto simp: int_string_def)
qed (auto simp: json_quote_def)

lemma digit_not_delimiter: "is_digit c \<Longrightarrow> c \<notin> {CHR '','', CHR '']'', CHR ''}''}"
  by (auto simp: class_defs less_eq_char_def)

lemma digit_not_start: "is_digit c \<Longrightarrow> (\<And>n. j \<noteq> JInt n) \<Longrightarrow> c \<noteq> json_start j"
  by (cases j) (auto simp: class_defs less_eq_char_def)

lemma marshal_not_delimited: "\<not> delimited (marshal j)"
proof -
  obtain c w where c: "marshal j = c # w" "c = json_start j \<or> is_digit c"
    using marshal_start by blast
  moreover have "json_start j \<notin> {CHR '','', CHR '']'', CHR ''}''}"
    by (cases j) auto
  ultimately have "c \<notin> {CHR '','', CHR '']'', CHR ''}''}"
    using digit_not_delimiter [of c] by metis
  then show ?thesis
    by (simp add: delimited_def c(1))
qed

lemma marshal_kind:
  assumes "marshal j @ x = marshal k @ y"
  shows "json_start j = json_start k \<or> (\<exists>m n. j = JInt m \<and> k = JInt n)"
proof -
  obtain c v where j: "marshal j = c # v" "c = json_start j \<or> is_digit c \<and> (\<exists>n. j = JInt n \<and> 0 \<le> n)"
    using marshal_start by blast
  obtain d w where k: "marshal k = d # w" "d = json_start k \<or> is_digit d \<and> (\<exists>n. k = JInt n \<and> 0 \<le> n)"
    using marshal_start by blast
  have "c = d"
    using assms j(1) k(1) by simp
  then show ?thesis
    using j(2) k(2) digit_not_start [of c j] digit_not_start [of c k] by blast
qed

lemma json_start_eq:
  assumes "json_start j = json_start k"
  shows "(\<exists>m n. j = JInt m \<and> k = JInt n) \<or> (\<exists>s t. j = JStr s \<and> k = JStr t) \<or>
    (\<exists>s t. j = JArr s \<and> k = JArr t) \<or> (\<exists>s t. j = JObj s \<and> k = JObj t) \<or>
    j = k \<and> (j = JNull \<or> (\<exists>b. j = JBool b))"
  using assms by (cases j; cases k) (auto split: if_splits)

lemma marshal_inj:
  assumes "plain_json j" "plain_json k" "marshal j @ x = marshal k @ y" "delimited x" "delimited y"
  shows "j = k \<and> x = y"
  using assms
proof (induction j arbitrary: k x y rule: marshal.induct)
  case (5 js)
  obtain ks where k: "k = JArr ks"
    using marshal_kind [OF 5(4)] json_start_eq [of "JArr js" k] by auto
  have "js = ks \<and> x = y"
  proof (rule comma_list_inj [of js ks marshal "CHR '']''"])
    show "comma_list (map marshal js) @ CHR '']'' # x = comma_list (map marshal ks) @ CHR '']'' # y"
      using 5(4) k by simp
    show "a = b \<and> u = v" if "a \<in> set js" "b \<in> set ks" "marshal a @ u = marshal b @ v"
      "delimited u" "delimited v" for a b u v
      using 5(1) [OF that(1) _ _ that(3-5)] 5(2,3) k that(1,2) by (simp add: list_all_iff)
  qed (simp_all add: marshal_not_delimited)
  with k show ?case by simp
next
  case (6 fs)
  obtain gs where k: "k = JObj gs"
    using marshal_kind [OF 6(4)] json_start_eq [of "JObj fs" k] by auto
  let ?f = "\<lambda>(n, j). json_quote n @ CHR '':'' # marshal j"
  have "fs = gs \<and> x = y"
  proof (rule comma_list_inj [of fs gs ?f "CHR ''}''"])
    show "comma_list (map ?f fs) @ CHR ''}'' # x = comma_list (map ?f gs) @ CHR ''}'' # y"
      using 6(4) k by simp
    show "a = b \<and> u = v" if mem: "a \<in> set fs" "b \<in> set gs" and eq: "?f a @ u = ?f b @ v"
      and del: "delimited u" "delimited v" for a b u v
    proof -
      obtain n i where a: "a = (n, i)" by (cases a)
      obtain m l where b: "b = (m, l)" by (cases b)
      have plain: "list_all json_plain n" "plain_json i" "list_all json_plain m" "plain_json l"
        using 6(2,3) k mem a b by (auto simp: list_all_iff)
      have "n = m \<and> CHR '':'' # marshal i @ u = CHR '':'' # marshal l @ v"
        using json_quote_inj [OF plain(1,3), of "CHR '':'' # marshal i @ u" "CHR '':'' # marshal l @ v"] eq a b
        by simp
      moreover have "i = l \<and> u = v"
        using 6(1) [of a n i l u v] mem(1) a plain calculation del by simp
      ultimately show ?thesis using a b by simp
    qed
  qed (auto simp: delimited_def json_quote_def)
  with k show ?case by simp
next
  case (3 n)
  obtain m where "k = JInt m"
    using marshal_kind [OF 3(3)] json_start_eq [of "JInt n" k] by auto
  with 3 show ?case
    using int_string_inj [of n x m y] by simp
next
  case (4 s)
  obtain t where "k = JStr t"
    using marshal_kind [OF 4(3)] json_start_eq [of "JStr s" k] by auto
  with 4 show ?case
    using json_quote_inj [of s t x y] by simp
next
  case 1
  have "k = JNull"
    using marshal_kind [OF 1(3)] json_start_eq [of JNull k] by auto
  with 1(3) show ?case by simp
next
  case (2 b)
  have "k = JBool b"
    using marshal_kind [OF 2(3)] json_start_eq [of "JBool b" k] by auto
  with 2(3) show ?case by simp
qed

text \<open>A digest is encoded as it is.\<close>

lemma digest_text: "json_escape (sha256_digest x) = sha256_digest x" "length (sha256_digest x) = 71"
proof -
  have hex: "is_lower_hex c \<Longrightarrow> json_plain c" for c
    by (auto simp: is_lower_hex_def is_digit_def json_plain_def byte_in_def less_eq_char_def)
  have "list_all json_plain (sha256_digest x)"
    using sha256_hex_shape(2) [of x] hex
    by (auto simp: sha256_digest_def list_all_iff json_plain_def byte_in_def)
  then show "json_escape (sha256_digest x) = sha256_digest x"
    by (rule json_escape_plain)
  show "length (sha256_digest x) = 71"
    by (simp add: sha256_digest_def sha256_hex_shape)
qed

section \<open>Times in JSON\<close>

text \<open>Days since 1 January of year 1 as a date of the proleptic Gregorian calendar.\<close>

definition civil_date :: "int \<Rightarrow> int \<times> int \<times> int" where
  "civil_date days =
     (let z = days + 306;
          era = z div 146097;
          doe = z mod 146097;
          yoe = (doe - doe div 1460 + doe div 36524 - doe div 146096) div 365;
          doy = doe - (365 * yoe + yoe div 4 - yoe div 100);
          mp = (5 * doy + 2) div 153;
          day = doy - (153 * mp + 2) div 5 + 1;
          month = (if mp < 10 then mp + 3 else mp - 9)
      in (yoe + era * 400 + (if month \<le> 2 then 1 else 0), month, day))"

definition pad_int :: "nat \<Rightarrow> int \<Rightarrow> string" where
  "pad_int width n =
     (let d = decimal_string (nat n) in replicate (width - length d) CHR ''0'' @ d)"

definition trim_zeros :: "string \<Rightarrow> string" where
  "trim_zeros s = rev (dropWhile (\<lambda>c. c = CHR ''0'') (rev s))"

definition rfc3339 :: "int \<Rightarrow> int \<Rightarrow> int \<Rightarrow> int \<Rightarrow> int \<Rightarrow> int \<Rightarrow> string" where
  "rfc3339 year month day sod nanos offset =
     pad_int 4 year @ ''-'' @ pad_int 2 month @ ''-'' @ pad_int 2 day @ ''T'' @
     pad_int 2 (sod div 3600) @ '':'' @ pad_int 2 (sod div 60 mod 60) @ '':'' @ pad_int 2 (sod mod 60) @
     (if nanos = 0 then [] else ''.'' @ trim_zeros (pad_int 9 nanos)) @
     (if offset = 0 then ''Z''
      else (if offset < 0 then ''-'' else ''+'') @ pad_int 2 (\<bar>offset\<bar> div 60 div 60) @ '':'' @
           pad_int 2 (\<bar>offset\<bar> div 60 mod 60))"

text \<open>\<open>Time.MarshalJSON\<close>: RFC 3339 with nanoseconds; \<open>None\<close> for a year outside 0 to 9999 or
  a zone of 24 hours or more.\<close>

definition time_json :: "gotime \<Rightarrow> json option" where
  "time_json t =
     (let offset = (case zone t of None \<Rightarrow> 0 | Some z \<Rightarrow> z);
          local = instant t + offset * time_Second;
          secs = local div time_Second;
          (year, month, day) = civil_date (secs div 86400)
      in if year < 0 \<or> year > 9999 \<or> \<bar>offset\<bar> div 60 div 60 \<ge> 24 then None
         else Some (JStr (rfc3339 year month day (secs mod 86400) (local mod time_Second) offset)))"

end
