(* ===== verification/Paths.thy ===== *)
theory Paths
  imports Encoding
begin

text \<open>
  What the program uses of \<open>path/filepath\<close> on Linux, of \<open>encoding/hex\<close> decoding and of
  \<open>net/netip\<close> for loopback addresses, and the path checks of \<open>target.go\<close> and
  \<open>artifact.go\<close> that are built on them.
\<close>

section \<open>Paths\<close>

definition IsAbs :: "string \<Rightarrow> bool" where
  "IsAbs p \<longleftrightarrow> HasPrefix p ''/''"

text \<open>The stack of path elements after one more element, latest first.\<close>

definition clean_step :: "bool \<Rightarrow> string list \<Rightarrow> string \<Rightarrow> string list" where
  "clean_step rooted out e =
     (if e = [] \<or> e = ''.'' then out
      else if e = ''..''
      then (case out of
          [] \<Rightarrow> if rooted then [] else [''..'']
        | x # xs \<Rightarrow> if x = ''..'' then ''..'' # out else xs)
      else e # out)"

definition clean_elements :: "string \<Rightarrow> string list" where
  "clean_elements p = rev (foldl (clean_step (IsAbs p)) [] (Split p CHR ''/''))"

definition Clean :: "string \<Rightarrow> string" where
  "Clean p =
     (let body = join_with CHR ''/'' (clean_elements p)
      in if p = [] then ''.''
         else if IsAbs p then CHR ''/'' # body
         else if body = [] then ''.'' else body)"

text \<open>\<open>filepath.Dir\<close>: the cleaned path up to the last slash.\<close>

definition path_Dir :: "string \<Rightarrow> string" where
  "path_Dir p = Clean (rev (dropWhile (\<lambda>c. c \<noteq> CHR ''/'') (rev p)))"

text \<open>\<open>filepath.Join\<close> of two elements: empty ones are ignored, the result is cleaned.\<close>

definition path_Join :: "string \<Rightarrow> string \<Rightarrow> string" where
  "path_Join a b =
     (if a = [] then (if b = [] then [] else Clean b)
      else if b = [] then Clean a else Clean (a @ ''/'' @ b))"

definition safeRelativePath :: "string \<Rightarrow> bool" where
  "safeRelativePath value \<longleftrightarrow>
     \<not> (value = [] \<or> IsAbs value \<or> CHR 0x5C \<in> set value \<or> CHR 0x00 \<in> set value) \<and>
     (let clean = Clean value
      in clean \<noteq> ''.'' \<and> clean \<noteq> ''..'' \<and> \<not> HasPrefix clean ''../'')"

definition deploymentAbsolutePath :: "string \<Rightarrow> bool" where
  "deploymentAbsolutePath path \<longleftrightarrow> IsAbs path \<or> HasPrefix (TrimSpace path) ''/''"

section \<open>Hexadecimal text\<close>

definition is_hex :: "char \<Rightarrow> bool" where
  "is_hex c \<longleftrightarrow> is_lower_hex c \<or> CHR ''A'' \<le> c \<and> c \<le> CHR ''F''"

text \<open>Whether \<open>hex.DecodeString\<close> accepts a string.\<close>

definition hex_decodes :: "string \<Rightarrow> bool" where
  "hex_decodes s \<longleftrightarrow> even (length s) \<and> list_all is_hex s"

definition ToLower :: "string \<Rightarrow> string" where
  "ToLower = map lower_char"

section \<open>Loopback addresses\<close>

definition canonical_octet :: "string \<Rightarrow> bool" where
  "canonical_octet s \<longleftrightarrow> decimalIdentifier s \<and> \<not> bad_identifier s \<and> decimal_value s \<le> 255"

definition loopback_v4 :: "string \<Rightarrow> bool" where
  "loopback_v4 s \<longleftrightarrow>
     (let parts = Split s CHR ''.''
      in length parts = 4 \<and> list_all canonical_octet parts \<and> hd parts = ''127'')"

text \<open>The texts \<open>netip.ParseAddr\<close> reads as an IPv6 loopback address, mapped IPv4 addresses
  included, and \<open>Addr.String\<close> prints unchanged.\<close>

definition loopback_v6 :: "string \<Rightarrow> bool" where
  "loopback_v6 s \<longleftrightarrow>
     (let (address, address_zone, zoned) = Cut s CHR ''%''
      in (zoned \<longrightarrow> address_zone \<noteq> []) \<and>
         (address = ''::1'' \<or>
          prefix ''::ffff:'' address \<and> loopback_v4 (drop (length ''::ffff:'') address)))"

definition validLocalExecutorLoopback :: "string \<Rightarrow> bool" where
  "validLocalExecutorLoopback value \<longleftrightarrow>
     value = TrimSpace value \<and> (loopback_v4 value \<or> loopback_v6 value)"

section \<open>Clean paths\<close>

text \<open>An element list of a clean path: \<open>..\<close> only at the front, and only in a relative path.\<close>

definition clean_stack :: "bool \<Rightarrow> string list \<Rightarrow> bool" where
  "clean_stack rooted out \<longleftrightarrow>
     (\<exists>ups names. out = names @ ups \<and> (\<forall>u\<in>set ups. u = ''..'') \<and> (rooted \<longrightarrow> ups = []) \<and>
        (\<forall>n\<in>set names. n \<notin> {[], ''.'', ''..''}))"

lemma clean_stackI:
  "\<forall>u\<in>set ups. u = ''..'' \<Longrightarrow> rooted \<longrightarrow> ups = [] \<Longrightarrow> \<forall>n\<in>set names. n \<notin> {[], ''.'', ''..''} \<Longrightarrow>
   clean_stack rooted (names @ ups)"
  unfolding clean_stack_def by blast

lemma clean_step_cases:
  "clean_step rooted out e = out \<and> (e = [] \<or> e = ''.'') \<or>
   clean_step rooted out e = e # out \<and> e \<notin> {[], ''.'', ''..''} \<or>
   e = ''..'' \<and> (out = [] \<and> clean_step rooted out e = (if rooted then [] else [''..'']) \<or>
     (\<exists>xs. out = ''..'' # xs \<and> clean_step rooted out e = ''..'' # out) \<or>
     (\<exists>x xs. out = x # xs \<and> x \<noteq> ''..'' \<and> clean_step rooted out e = xs))"
  by (cases out) (simp_all add: clean_step_def)

lemma clean_step_stack:
  assumes "clean_stack rooted out"
  shows "clean_stack rooted (clean_step rooted out e)"
proof -
  obtain ups names where out: "out = names @ ups" and ups: "\<forall>u\<in>set ups. u = ''..''" "rooted \<longrightarrow> ups = []"
    and names: "\<forall>n\<in>set names. n \<notin> {[], ''.'', ''..''}"
    using assms unfolding clean_stack_def by blast
  consider (skip) "clean_step rooted out e = out"
    | (name) "clean_step rooted out e = e # out" "e \<notin> {[], ''.'', ''..''}"
    | (top) "out = []" "clean_step rooted out e = (if rooted then [] else [''..''])"
    | (up) xs where "out = ''..'' # xs" "clean_step rooted out e = ''..'' # out"
    | (pop) x xs where "out = x # xs" "x \<noteq> ''..''" "clean_step rooted out e = xs"
    using clean_step_cases [of rooted out e] by blast
  then show ?thesis
  proof cases
    case skip
    with assms show ?thesis by simp
  next
    case name
    then show ?thesis
      using clean_stackI [of ups rooted "e # names"] out ups names by simp
  next
    case top
    then show ?thesis
      using clean_stackI [of "if rooted then [] else [''..'']" rooted "[]"] by simp
  next
    case up
    then have "names = []"
      using out names by (cases names) simp_all
    then have "clean_step rooted out e = ''..'' # ups" "\<not> rooted"
      using up out ups(2) by simp_all
    then show ?thesis
      using clean_stackI [of "''..'' # ups" rooted "[]"] ups(1) by simp
  next
    case pop
    then obtain n ns where "names = n # ns" "xs = ns @ ups"
      using out ups(1) by (cases names) auto
    then show ?thesis
      using clean_stackI [of ups rooted ns] ups names pop by simp
  qed
qed

lemma clean_elements_stack: "clean_stack (IsAbs p) (rev (clean_elements p))"
proof -
  have "clean_stack r out \<Longrightarrow> clean_stack r (foldl (clean_step r) out es)" for r out es
    by (induction es arbitrary: out) (auto intro: clean_step_stack)
  moreover have "clean_stack r []" for r
    by (simp add: clean_stack_def)
  ultimately show ?thesis
    by (simp add: clean_elements_def)
qed

lemma clean_elements_relative:
  "\<exists>k names. clean_elements p = replicate k ''..'' @ names \<and> (IsAbs p \<longrightarrow> k = 0) \<and>
     (\<forall>n\<in>set names. n \<notin> {[], ''.'', ''..''})"
proof -
  obtain ups names where o: "rev (clean_elements p) = names @ ups" "\<forall>u\<in>set ups. u = ''..''"
    "IsAbs p \<longrightarrow> ups = []" "\<forall>n\<in>set names. n \<notin> {[], ''.'', ''..''}"
    using clean_elements_stack [of p] by (auto simp: clean_stack_def)
  then have "clean_elements p = rev ups @ rev names"
    by (metis rev_append rev_rev_ident)
  moreover have "rev ups = replicate (length ups) ''..''"
    using o(2) by (metis replicate_length_same rev_replicate)
  ultimately show ?thesis
    using o(3,4) by (intro exI [of _ "length ups"] exI [of _ "rev names"]) auto
qed

text \<open>What a clean relative path without \<open>..\<close> adds to the elements of a rooted one.\<close>

lemma clean_step_keeps_up:
  "out \<noteq> [] \<Longrightarrow> last out = ''..'' \<Longrightarrow>
     clean_step False out e \<noteq> [] \<and> last (clean_step False out e) = ''..''"
  by (cases out) (auto simp: clean_step_def split: if_splits)

lemma foldl_keeps_up:
  "out \<noteq> [] \<Longrightarrow> last out = ''..'' \<Longrightarrow> ''..'' \<in> set (foldl (clean_step False) out es)"
proof (induction es arbitrary: out)
  case (Cons e es)
  then show ?case
    using clean_step_keeps_up [of out e] by simp
qed (metis foldl_Nil last_in_set)

lemma clean_step_under:
  assumes "''..'' \<notin> set out" "\<not> (e = ''..'' \<and> out = [])"
  shows "clean_step True (out @ base) e = clean_step False out e @ base \<and> ''..'' \<notin> set (clean_step False out e)"
  using assms by (cases out) (auto simp: clean_step_def)

lemma foldl_clean_under:
  "''..'' \<notin> set out \<Longrightarrow> ''..'' \<notin> set (foldl (clean_step False) out es) \<Longrightarrow>
     foldl (clean_step True) (out @ base) es = foldl (clean_step False) out es @ base"
proof (induction es arbitrary: out)
  case (Cons e es)
  have "\<not> (e = ''..'' \<and> out = [])"
  proof
    assume "e = ''..'' \<and> out = []"
    then have "clean_step False out e = [''..'']"
      by (simp add: clean_step_def)
    with Cons.prems(2) foldl_keeps_up [of "[''..'']" es] show False
      by simp
  qed
  from clean_step_under [OF Cons.prems(1) this, of base] Cons show ?case
    by simp
qed simp

lemma Split_join: "Split (s @ c # t) c = Split s c @ Split t c"
  by (induction s) (auto split: list.splits)

lemma clean_elements_join:
  assumes "IsAbs root" "\<not> IsAbs value" "''..'' \<notin> set (clean_elements value)"
  shows "clean_elements (root @ ''/'' @ value) = clean_elements root @ clean_elements value"
proof -
  let ?base = "foldl (clean_step True) [] (Split root CHR ''/'')" and ?es = "Split value CHR ''/''"
  have rooted: "IsAbs (root @ ''/'' @ value)"
    using assms(1) by (cases root) (auto simp: IsAbs_def HasPrefix_def)
  have "foldl (clean_step True) ?base ?es = foldl (clean_step False) [] ?es @ ?base"
    using foldl_clean_under [of "[]" ?es ?base] assms(2,3) by (simp add: clean_elements_def)
  with rooted assms(1,2) show ?thesis
    by (simp add: clean_elements_def Split_join)
qed

lemma join_with_append:
  "join_with c (xs @ ys) = (if xs = [] then join_with c ys else if ys = [] then join_with c xs
     else join_with c xs @ c # join_with c ys)"
  by (induction xs) auto

lemma safe_elements:
  assumes "safeRelativePath value"
  shows "\<not> IsAbs value" "value \<noteq> []" "clean_elements value \<noteq> []" "Clean value = join_with CHR ''/'' (clean_elements value)"
    "\<forall>e\<in>set (clean_elements value). e \<notin> {[], ''.'', ''..''}"
proof -
  let ?es = "clean_elements value"
  have v: "value \<noteq> []" "\<not> IsAbs value" "Clean value \<noteq> ''.''" "Clean value \<noteq> ''..''"
    "\<not> HasPrefix (Clean value) ''../''"
    using assms by (auto simp: safeRelativePath_def Let_def)
  then have clean: "Clean value = join_with CHR ''/'' ?es" "?es \<noteq> []"
    by (auto simp: Clean_def Let_def split: if_splits)
  obtain k names where es: "?es = replicate k ''..'' @ names"
    "\<forall>n\<in>set names. n \<notin> {[], ''.'', ''..''}"
    using clean_elements_relative by blast
  have "k = 0"
  proof (cases k)
    case (Suc k')
    then have "?es = ''..'' # (replicate k' ''..'' @ names)"
      using es by simp
    then have "Clean value = ''..'' \<or> HasPrefix (Clean value) ''../''"
      using clean(1) by (auto simp: HasPrefix_def)
    with v show ?thesis by simp
  qed simp
  with es clean v show "\<not> IsAbs value" "value \<noteq> []" "?es \<noteq> []" "Clean value = join_with CHR ''/'' ?es"
    "\<forall>e\<in>set ?es. e \<notin> {[], ''.'', ''..''}"
    by simp_all
qed

text \<open>
  C25: A path accepted as a safe relative path stays inside every absolute directory it is joined to:
  \<open>filepath.Join\<close> gives the cleaned directory, a slash, and the cleaned path, and this has at least
  one element, none of which is empty, \<open>.\<close> or \<open>..\<close>. The statement is about names: symbolic links
  are not followed.
\<close>

theorem safeRelativePath_inside:
  assumes "safeRelativePath value" "IsAbs root"
  shows "path_Join root value = (if Clean root = ''/'' then ''/'' else Clean root @ ''/'') @ Clean value \<and>
    Clean value = join_with CHR ''/'' (clean_elements value) \<and> clean_elements value \<noteq> [] \<and>
    (\<forall>e\<in>set (clean_elements value). e \<notin> {[], ''.'', ''..''})"
proof -
  note safe = safe_elements [OF assms(1)]
  have "root \<noteq> []"
    using assms(2) by (auto simp: IsAbs_def HasPrefix_def)
  then have rooted: "IsAbs (root @ ''/'' @ value)"
    using assms(2) by (cases root) (auto simp: IsAbs_def HasPrefix_def)
  have elements: "clean_elements (root @ ''/'' @ value) = clean_elements root @ clean_elements value"
    using clean_elements_join [OF assms(2) safe(1)] safe(5) by blast
  have "path_Join root value = Clean (root @ ''/'' @ value)"
    unfolding path_Join_def using \<open>root \<noteq> []\<close> safe(2) by (simp only: if_False)
  also have "\<dots> = CHR ''/'' # join_with CHR ''/'' (clean_elements root @ clean_elements value)"
    unfolding Clean_def Let_def elements using rooted \<open>root \<noteq> []\<close> by simp
  finally have join: "path_Join root value = CHR ''/'' # join_with CHR ''/'' (clean_elements root @ clean_elements value)" .
  have root: "Clean root = CHR ''/'' # join_with CHR ''/'' (clean_elements root)"
    unfolding Clean_def Let_def using assms(2) \<open>root \<noteq> []\<close> by simp
  have "\<forall>e\<in>set (clean_elements root). e \<noteq> []"
    using clean_elements_relative [of root] assms(2) by auto
  then have empty: "join_with CHR ''/'' (clean_elements root) = [] \<longleftrightarrow> clean_elements root = []"
    by (cases "clean_elements root") auto
  have "path_Join root value = (if Clean root = ''/'' then ''/'' else Clean root @ ''/'') @ Clean value"
    unfolding join root safe(4) join_with_append using safe(3) empty by simp
  with safe show ?thesis
    by blast
qed

theorem safeRelativePath_inside_witness:
  "path_Join ''/srv/releases/'' ''bin/../share/./data'' = ''/srv/releases/share/data'' \<and>
   Clean ''/srv/releases/'' = ''/srv/releases'' \<and> clean_elements ''bin/../share/./data'' = [''share'', ''data'']"
proof -
  have e: "clean_elements ''bin/../share/./data'' = [''share'', ''data'']" "clean_elements ''/srv/releases/'' = [''srv'', ''releases'']"
    by (simp_all add: clean_elements_def IsAbs_def HasPrefix_def clean_step_def)
  have "safeRelativePath ''bin/../share/./data''"
    by (simp add: safeRelativePath_def Clean_def e) (simp add: IsAbs_def HasPrefix_def)
  moreover have "IsAbs ''/srv/releases/''"
    by (simp add: IsAbs_def HasPrefix_def)
  moreover from this have "Clean ''/srv/releases/'' = ''/srv/releases''"
    by (simp add: Clean_def e)
  ultimately show ?thesis
    using safeRelativePath_inside [of "''bin/../share/./data''" "''/srv/releases/''"] e by simp
qed

end
