(* ===== verification/Executor_Policy.thy ===== *)
theory Executor_Policy
  imports Paths
begin

text \<open>
  \<open>local_executor_policy.go\<close>, \<open>systemd_profiles.go\<close> and the deployment profiles of
  \<open>target.go\<close>: the root-owned policy that fixes every unit, executable and path the executor
  may touch, its validation and its digest. What \<open>net/url\<close> and \<open>net\<close> parse is a
  parameter (\<open>netlib\<close>), about which nothing is assumed.
\<close>

section \<open>Patterns\<close>

definition is_unit_char :: "char \<Rightarrow> bool" where
  "is_unit_char c \<longleftrightarrow> is_alnum c \<or> c \<in> set ''_.@-''"

definition is_image_char :: "char \<Rightarrow> bool" where
  "is_image_char c \<longleftrightarrow> is_alnum c \<or> c \<in> set ''_.-''"

definition is_upper :: "char \<Rightarrow> bool" where
  "is_upper c \<longleftrightarrow> CHR ''A'' \<le> c \<and> c \<le> CHR ''Z''"

definition is_lower :: "char \<Rightarrow> bool" where
  "is_lower c \<longleftrightarrow> CHR ''a'' \<le> c \<and> c \<le> CHR ''z''"

abbreviation literal :: "string \<Rightarrow> regex \<Rightarrow> regex" where
  "literal s r \<equiv> foldr (\<lambda>c. Seq (lit c)) s r"

definition unitPattern :: regex where
  "unitPattern = Seq (plusR (Class is_unit_char)) (literal ''.service'' Eps)"

definition imagePattern :: regex where
  "imagePattern = literal ''ghcr.io/'' (Seq (plusR (Class is_image_char))
     (literal ''/'' (plusR (Class (\<lambda>c. is_image_char c \<or> c = CHR ''/'')))))"

definition envNamePattern :: regex where
  "envNamePattern = Seq (Class is_upper) (Star (Class (\<lambda>c. is_upper c \<or> is_digit c \<or> c = CHR ''_'')))"

definition smokeUserPattern :: regex where
  "smokeUserPattern = Seq (Class (\<lambda>c. is_lower c \<or> c = CHR ''_''))
     (Times (\<lambda>c. is_lower c \<or> is_digit c \<or> c = CHR ''_'' \<or> c = CHR ''-'') 0 31)"

definition databaseNamePattern :: regex where
  "databaseNamePattern = Seq (Class is_alnum)
     (Times (\<lambda>c. is_alnum c \<or> c = CHR ''_'' \<or> c = CHR ''-'') 0 63)"

section \<open>Deployment profiles\<close>

abbreviation "ModeSystemd \<equiv> ''systemd''"
abbreviation "ModeDocker \<equiv> ''docker''"

record SystemdTarget =
  sd_SystemctlPath :: string
  sd_RunuserPath :: string
  sd_SmokeUser :: string
  sd_Unit :: string
  sd_ReleaseRoot :: string
  sd_CurrentLink :: string
  sd_BinaryPath :: string
  sd_RequiredPaths :: "string list"

record DockerTarget =
  dk_DockerPath :: string
  dk_ComposeProject :: string
  dk_ProjectDir :: string
  dk_ComposeFiles :: "string list"
  dk_Service :: string
  dk_ImageRepo :: string
  dk_ImageVariable :: string
  dk_BaseEnvFile :: string
  dk_VersionEnvFile :: string
  dk_PortEnvFile :: string
  dk_ComposeConfigSHA256 :: string
  dk_PortComposePolicySHA256 :: string
  dk_PortComposeRevision :: int
  dk_CurrentVersion :: string
  dk_Channel :: string

definition SystemdTarget_Validate :: "SystemdTarget \<Rightarrow> go_error option" where
  "SystemdTarget_Validate t =
     (if \<not> deploymentAbsolutePath (sd_SystemctlPath t) \<or> \<not> deploymentAbsolutePath (sd_RunuserPath t) \<or>
         \<not> MatchString smokeUserPattern (sd_SmokeUser t) \<or>
         sd_SmokeUser t = ''root'' \<or> \<not> MatchString unitPattern (sd_Unit t)
      then errNew ''systemd target profile is invalid''
      else if list_ex (\<lambda>value. \<not> deploymentAbsolutePath value \<or> Clean value = ''/'')
          [sd_ReleaseRoot t, sd_CurrentLink t]
      then errNew ''systemd target path is invalid''
      else if Clean (sd_ReleaseRoot t) = Clean (sd_CurrentLink t)
      then errNew ''release_root and current_link must differ''
      else if list_ex (\<lambda>value. \<not> safeRelativePath value) (sd_BinaryPath t # sd_RequiredPaths t)
      then errNew ''systemd artifact path is unsafe''
      else None)"

definition portFields :: "DockerTarget \<Rightarrow> nat" where
  "portFields t = (if dk_PortEnvFile t \<noteq> [] then 1 else 0) +
     (if dk_PortComposePolicySHA256 t \<noteq> [] then 1 else 0) + (if dk_PortComposeRevision t \<noteq> 0 then 1 else 0)"

definition DockerTarget_Validate :: "DockerTarget \<Rightarrow> go_error option" where
  "DockerTarget_Validate t =
     (if \<not> deploymentAbsolutePath (dk_DockerPath t) \<or> \<not> MatchString identifierPattern (dk_ComposeProject t) \<or>
         \<not> MatchString identifierPattern (dk_Service t) \<or> \<not> deploymentAbsolutePath (dk_ProjectDir t) \<or>
         length (dk_ComposeFiles t) = 0 \<or> \<not> MatchString imagePattern (dk_ImageRepo t) \<or>
         \<not> MatchString envNamePattern (dk_ImageVariable t) \<or>
         dk_ImageVariable t \<noteq> ''AUTOSTREAM_DOCKER_VERSION''
      then errNew ''Docker target profile is invalid''
      else if list_ex (\<lambda>file. \<not> deploymentAbsolutePath file) (dk_ComposeFiles t)
      then errNew ''compose_files entries must be absolute''
      else if list_ex (\<lambda>file. file \<noteq> [] \<and> (\<not> deploymentAbsolutePath file \<or> Clean file = ''/''))
          [dk_BaseEnvFile t, dk_VersionEnvFile t]
      then errNew ''Docker environment file is invalid''
      else if portFields t \<noteq> 0 \<and>
         (portFields t \<noteq> 3 \<or> \<not> deploymentAbsolutePath (dk_PortEnvFile t) \<or>
          Clean (dk_PortEnvFile t) = ''/'' \<or> length (dk_PortComposePolicySHA256 t) \<noteq> 64 \<or>
          ToLower (dk_PortComposePolicySHA256 t) \<noteq> dk_PortComposePolicySHA256 t \<or>
          dk_PortComposeRevision t < 1)
      then errNew ''Docker port authority is invalid''
      else if portFields t \<noteq> 0 \<and> \<not> hex_decodes (dk_PortComposePolicySHA256 t)
      then errNew ''Docker port authority digest is invalid''
      else if dk_Channel t \<noteq> [] \<and> dk_Channel t \<noteq> ''docker''
      then errNew ''docker channel must be docker''
      else if \<not> MatchString versionPattern (TrimSpace (dk_CurrentVersion t)) \<or>
         length (dk_ComposeConfigSHA256 t) \<noteq> 64 \<or>
         ToLower (dk_ComposeConfigSHA256 t) \<noteq> dk_ComposeConfigSHA256 t
      then errNew ''Docker version or compose digest is invalid''
      else if \<not> hex_decodes (dk_ComposeConfigSHA256 t)
      then errNew ''compose_config_sha256 is invalid''
      else None)"

record standardSystemdProfile =
  pr_port :: int
  pr_unit :: string
  pr_releaseRoot :: string
  pr_currentLink :: string
  pr_binaryPath :: string
  pr_requiredPaths :: "string list"
  pr_backupExecutable :: string

definition standardSystemdProfileFor :: "string \<Rightarrow> standardSystemdProfile option" where
  "standardSystemdProfileFor serviceType =
     (if serviceType = ''control_panel'' then Some
        \<lparr>pr_port = 8080, pr_unit = ''autostream-control-panel.service'',
         pr_releaseRoot = ''/opt/autostream/control-panel/releases'',
         pr_currentLink = ''/opt/autostream/control-panel/current'',
         pr_binaryPath = ''bin/control-panel'', pr_requiredPaths = [''share/autostream-control-panel''],
         pr_backupExecutable = ''/usr/local/sbin/autostream-backup-control-panel''\<rparr>
      else if serviceType = ''encoder_recorder'' then Some
        \<lparr>pr_port = 8081, pr_unit = ''autostream-encoder-recorder.service'',
         pr_releaseRoot = ''/opt/autostream/encoder-recorder/releases'',
         pr_currentLink = ''/opt/autostream/encoder-recorder/current'',
         pr_binaryPath = ''bin/autostream-encoder-recorder'', pr_requiredPaths = [],
         pr_backupExecutable = []\<rparr>
      else if serviceType = ''observability'' then Some
        \<lparr>pr_port = 8082, pr_unit = ''autostream-observability.service'',
         pr_releaseRoot = ''/opt/autostream/observability/releases'',
         pr_currentLink = ''/opt/autostream/observability/current'',
         pr_binaryPath = ''bin/autostream-observability'', pr_requiredPaths = [],
         pr_backupExecutable = ''/usr/local/sbin/autostream-backup-observability''\<rparr>
      else if serviceType = ''discord_bot'' then Some
        \<lparr>pr_port = 8083, pr_unit = ''autostream-discord-bot.service'',
         pr_releaseRoot = ''/opt/autostream/discord-bot/releases'',
         pr_currentLink = ''/opt/autostream/discord-bot/current'',
         pr_binaryPath = ''bin/autostream-discord-bot'', pr_requiredPaths = [],
         pr_backupExecutable = []\<rparr>
      else if serviceType = ''worker'' then Some
        \<lparr>pr_port = 8084, pr_unit = ''autostream-worker.service'',
         pr_releaseRoot = ''/opt/autostream/worker/releases'',
         pr_currentLink = ''/opt/autostream/worker/current'',
         pr_binaryPath = ''bin/autostream-worker'', pr_requiredPaths = [],
         pr_backupExecutable = []\<rparr>
      else None)"

section \<open>The policy\<close>

record LocalExecutorEndpoint =
  ep_Host :: string
  ep_Port :: int

record LocalExecutorTarget =
  lt_ServiceID :: string
  lt_ServiceType :: string
  lt_DeploymentMode :: string
  lt_DatabaseName :: string
  lt_EndpointRevision :: int
  lt_ConfigRevision :: int
  lt_ConfigSHA256 :: string
  lt_LocalListen :: LocalExecutorEndpoint
  lt_Systemd :: "SystemdTarget option"
  lt_Docker :: "DockerTarget option"

text \<open>\<open>Mutation\<close> is the pointer to \<open>LocalExecutorMutationPolicy\<close>, whose only field is the panel URL.\<close>

record LocalExecutorPolicy =
  po_SchemaVersion :: int
  po_ProtocolVersion :: int
  po_HostID :: string
  po_AgentUID :: int
  po_AgentGID :: int
  po_SocketPath :: string
  po_SourcePolicyRevision :: int
  po_ProjectionRevision :: int
  po_PolicyRevision :: int
  po_Mutation :: "string option"
  po_Targets :: "LocalExecutorTarget list"

abbreviation (input) "LocalExecutorPolicySchemaVersion \<equiv> 1 :: int"
abbreviation (input) "LocalExecutorMutationPolicySchemaVersion \<equiv> 2 :: int"
abbreviation (input) "LocalExecutorProtocolVersion \<equiv> 1 :: int"
abbreviation (input) "LocalExecutorMutationProtocolVersion \<equiv> 2 :: int"

definition LocalExecutorSocketPath :: string where
  "LocalExecutorSocketPath = ''/run/autostream-local-executor/executor.sock''"

text \<open>What the sources use of a \<open>url.URL\<close>, and the two parsers.\<close>

record url =
  u_Scheme :: string
  u_Host :: string
  u_Hostname :: string
  u_HasUser :: bool
  u_RawQuery :: string
  u_Fragment :: string

record netlib =
  url_Parse :: "string \<Rightarrow> url option"
  ip_IsLoopback :: "string \<Rightarrow> bool"

text \<open>\<open>isLoopbackHost\<close> on the host name without brackets: \<open>ip_IsLoopback\<close> is \<open>net.ParseIP\<close>
  followed by \<open>IsLoopback\<close>.\<close>

definition trim_brackets :: "string \<Rightarrow> string" where
  "trim_brackets s = rev (dropWhile (\<lambda>c. c \<in> set ''[]'') (rev (dropWhile (\<lambda>c. c \<in> set ''[]'') s)))"

text \<open>\<open>strings.EqualFold\<close> against an ASCII word without \<open>k\<close>: besides the case of ASCII letters it
  identifies the long s (U+017F) with s.\<close>

fun fold_long_s :: "string \<Rightarrow> string" where
  "fold_long_s (a # b # s) =
     (if [a, b] = bytes [197, 191] then CHR ''s'' # fold_long_s s else a # fold_long_s (b # s))"
| "fold_long_s s = s"

definition isLoopbackHost :: "netlib \<Rightarrow> string \<Rightarrow> bool" where
  "isLoopbackHost net host \<longleftrightarrow>
     ToLower (fold_long_s (TrimSpace host)) = ''localhost'' \<or> ip_IsLoopback net (trim_brackets host)"

definition validatePanelURL :: "netlib \<Rightarrow> string \<Rightarrow> go_error option" where
  "validatePanelURL net raw =
     (case url_Parse net (TrimSpace raw) of
        None \<Rightarrow> errNew ''panel_url must be an absolute HTTP(S) URL''
      | Some u \<Rightarrow>
          if u_Host u = [] \<or> (u_Scheme u \<noteq> ''https'' \<and> u_Scheme u \<noteq> ''http'')
          then errNew ''panel_url must be an absolute HTTP(S) URL''
          else if u_HasUser u \<or> u_RawQuery u \<noteq> [] \<or> u_Fragment u \<noteq> []
          then errNew ''panel_url must not contain credentials, query, or fragment''
          else if u_Scheme u \<noteq> ''https'' \<and> \<not> isLoopbackHost net (u_Hostname u)
          then errNew ''remote panel_url must use HTTPS''
          else None)"

definition validLocalExecutorServiceType :: "string \<Rightarrow> bool" where
  "validLocalExecutorServiceType value \<longleftrightarrow>
     value \<in> {''control_panel'', ''worker'', ''encoder_recorder'', ''discord_bot'', ''observability''}"

record localExecutorDockerProfile =
  dp_service :: string
  dp_imageRepo :: string
  dp_versionEnvFile :: string
  dp_portEnvFile :: string

definition localExecutorDockerProfileFor :: "string \<Rightarrow> localExecutorDockerProfile option" where
  "localExecutorDockerProfileFor serviceType =
     (let profile = (\<lambda>service. Some
        \<lparr>dp_service = service,
         dp_imageRepo = ''ghcr.io/kome-lab/autostream-docker/'' @ service,
         dp_versionEnvFile = ''/opt/autostream/local-executor/docker/'' @ service @ ''.env'',
         dp_portEnvFile = ''/opt/autostream/local-executor/docker/ports/'' @ service @ ''.env''\<rparr>)
      in if serviceType = ''control_panel'' then profile ''control-panel''
         else if serviceType = ''encoder_recorder'' then profile ''encoder-recorder''
         else if serviceType = ''observability'' then profile ''observability''
         else if serviceType = ''discord_bot'' then profile ''discord-bot''
         else if serviceType = ''worker'' then profile ''worker''
         else None)"

definition matchesLocalExecutorDockerProfile :: "string \<Rightarrow> DockerTarget option \<Rightarrow> bool" where
  "matchesLocalExecutorDockerProfile serviceType docker =
     (case (localExecutorDockerProfileFor serviceType, docker) of
        (Some profile, Some d) \<Rightarrow>
          \<not> (dk_DockerPath d \<noteq> ''/usr/bin/docker'' \<or>
             dk_ComposeProject d \<noteq> ''autostream'' \<or>
             dk_ProjectDir d \<noteq> ''/opt/autostream'' \<or>
             dk_ComposeFiles d \<noteq> [''/opt/autostream/compose.yml''] \<or>
             dk_Service d \<noteq> dp_service profile \<or>
             dk_ImageRepo d \<noteq> dp_imageRepo profile \<or>
             dk_ImageVariable d \<noteq> ''AUTOSTREAM_DOCKER_VERSION'' \<or>
             dk_BaseEnvFile d \<noteq> ''/opt/autostream/.env'' \<or>
             dk_VersionEnvFile d \<noteq> dp_versionEnvFile profile \<or>
             dk_Channel d \<noteq> ''docker'') \<and>
          \<not> (dk_PortEnvFile d \<noteq> [] \<and> dk_PortEnvFile d \<noteq> dp_portEnvFile profile)
      | _ \<Rightarrow> False)"

definition validateLocalExecutorDockerTarget :: "LocalExecutorTarget \<Rightarrow> go_error option" where
  "validateLocalExecutorDockerTarget target =
     (if localExecutorDockerProfileFor (lt_ServiceType target) = None
      then errNew ''Docker target service_type is unsupported''
      else if \<not> matchesLocalExecutorDockerProfile (lt_ServiceType target) (lt_Docker target)
      then errNew ''Docker target does not match the fixed privileged service profile''
      else None)"

definition validateLocalExecutorSystemdTarget :: "LocalExecutorTarget \<Rightarrow> SystemdTarget \<Rightarrow> go_error option" where
  "validateLocalExecutorSystemdTarget target systemd =
     (case standardSystemdProfileFor (lt_ServiceType target) of
        None \<Rightarrow> errNew ''systemd target service_type is unsupported''
      | Some profile \<Rightarrow>
          if sd_SystemctlPath systemd \<noteq> ''/usr/bin/systemctl'' \<or>
             sd_RunuserPath systemd \<noteq> ''/usr/sbin/runuser'' \<or>
             sd_SmokeUser systemd \<noteq> ''autostream'' \<or>
             sd_Unit systemd \<noteq> pr_unit profile \<or>
             sd_ReleaseRoot systemd \<noteq> pr_releaseRoot profile \<or>
             sd_CurrentLink systemd \<noteq> pr_currentLink profile \<or>
             sd_BinaryPath systemd \<noteq> pr_binaryPath profile \<or>
             length (sd_RequiredPaths systemd) \<noteq> length (pr_requiredPaths profile)
          then errNew ''systemd target does not match the fixed privileged service profile''
          else if list_ex (\<lambda>i. sd_RequiredPaths systemd ! i \<noteq> pr_requiredPaths profile ! i)
              [0..<length (pr_requiredPaths profile)]
          then errNew ''systemd target does not match the fixed privileged service profile''
          else if pr_backupExecutable profile = []
          then (if lt_DatabaseName target \<noteq> []
                then errNew ''database_name is not allowed for this systemd service''
                else None)
          else if \<not> MatchString databaseNamePattern (lt_DatabaseName target)
          then errNew ''database_name is required for this systemd service''
          else None)"

definition target_validate :: "LocalExecutorTarget \<Rightarrow> go_error option" where
  "target_validate t =
     (if lt_ServiceID t \<noteq> TrimSpace (lt_ServiceID t) \<or> \<not> MatchString identifierPattern (lt_ServiceID t)
      then errNew ''service_id is invalid''
      else if lt_ServiceType t \<noteq> TrimSpace (lt_ServiceType t) \<or>
         \<not> validLocalExecutorServiceType (lt_ServiceType t)
      then errNew ''service_type is invalid''
      else if lt_ConfigRevision t < 1
      then errNew ''config_revision is required''
      else if lt_EndpointRevision t < 0 \<or>
         (lt_ConfigSHA256 t \<noteq> [] \<and> \<not> MatchString digestPattern (lt_ConfigSHA256 t))
      then errNew ''endpoint revision or config digest is invalid''
      else if \<not> validLocalExecutorLoopback (ep_Host (lt_LocalListen t)) \<or>
         ep_Port (lt_LocalListen t) < 1024 \<or> ep_Port (lt_LocalListen t) > 65535
      then errNew ''local_listen_endpoint must be a canonical loopback IP and unprivileged port''
      else if lt_DeploymentMode t = ModeSystemd
      then (case (lt_Systemd t, lt_Docker t) of
          (Some systemd, None) \<Rightarrow>
            (case SystemdTarget_Validate systemd of
               Some err \<Rightarrow> Some err
             | None \<Rightarrow> validateLocalExecutorSystemdTarget t systemd)
        | _ \<Rightarrow> errNew ''systemd target must define only systemd configuration'')
      else if lt_DeploymentMode t = ModeDocker
      then (case (lt_Docker t, lt_Systemd t) of
          (Some docker, None) \<Rightarrow>
            if lt_DatabaseName t \<noteq> []
            then errNew ''Docker target must define only Docker configuration''
            else (case DockerTarget_Validate docker of
               Some err \<Rightarrow> Some err
             | None \<Rightarrow> validateLocalExecutorDockerTarget t)
        | _ \<Rightarrow> errNew ''Docker target must define only Docker configuration'')
      else errNew ''deployment_mode is invalid'')"

definition privilegedKey :: "LocalExecutorTarget \<Rightarrow> string" where
  "privilegedKey t = lt_DeploymentMode t @ CHR 0x00 # lt_ServiceType t"

fun check_targets ::
  "LocalExecutorTarget list \<Rightarrow> nat \<Rightarrow> string set \<Rightarrow> string set \<Rightarrow> go_error option" where
  "check_targets [] index seen seenPrivileged = None"
| "check_targets (t # ts) index seen seenPrivileged =
     (case target_validate t of
        Some err \<Rightarrow> Some (WrapErr err (''targets['' @ decimal_string index @ '']''))
      | None \<Rightarrow>
          if lt_ServiceID t \<in> seen
          then errNew (''duplicate local executor service_id '' @ json_quote (lt_ServiceID t))
          else if privilegedKey t \<in> seenPrivileged
          then errNew (''duplicate local executor privileged target for '' @ lt_DeploymentMode t @ '' '' @
                 lt_ServiceType t)
          else check_targets ts (Suc index) (insert (lt_ServiceID t) seen)
                 (insert (privilegedKey t) seenPrivileged))"

definition policy_Validate :: "netlib \<Rightarrow> LocalExecutorPolicy \<Rightarrow> go_error option" where
  "policy_Validate net p =
     (if po_SchemaVersion p \<noteq> LocalExecutorPolicySchemaVersion \<and>
         po_SchemaVersion p \<noteq> LocalExecutorMutationPolicySchemaVersion
      then errNew ''unsupported local executor policy schema_version''
      else if po_SchemaVersion p = LocalExecutorPolicySchemaVersion \<and>
         (po_ProtocolVersion p \<noteq> LocalExecutorProtocolVersion \<or> po_Mutation p \<noteq> None)
      then errNew ''unsupported local executor policy protocol_version''
      else if po_SchemaVersion p = LocalExecutorMutationPolicySchemaVersion \<and>
         (po_ProtocolVersion p \<noteq> LocalExecutorMutationProtocolVersion \<or>
          (case po_Mutation p of
             None \<Rightarrow> True
           | Some panelURL \<Rightarrow> validatePanelURL net (TrimSpace panelURL) \<noteq> None \<or> panelURL \<noteq> TrimSpace panelURL))
      then errNew ''local executor mutation policy is invalid''
      else if po_HostID p \<noteq> TrimSpace (po_HostID p) \<or> \<not> MatchString identifierPattern (po_HostID p)
      then errNew ''local executor policy host_id is invalid''
      else if po_AgentUID p = 0 \<or> po_AgentGID p = 0
      then errNew ''local executor policy agent identity must be non-root''
      else if po_SocketPath p \<noteq> LocalExecutorSocketPath
      then errNew ''local executor policy socket_path must use the fixed executor socket''
      else if po_PolicyRevision p < 1 \<or> length (po_Targets p) = 0
      then errNew ''local executor policy revision and targets are required''
      else if (po_SourcePolicyRevision p \<noteq> 0 \<or> po_ProjectionRevision p \<noteq> 0) \<and>
         (po_SourcePolicyRevision p < 1 \<or> po_ProjectionRevision p < 1)
      then errNew ''local executor policy source and projection revisions must be complete''
      else check_targets (po_Targets p) 0 {} {})"

definition policy_Target :: "LocalExecutorPolicy \<Rightarrow> string \<Rightarrow> LocalExecutorTarget option" where
  "policy_Target p serviceID = find (\<lambda>t. lt_ServiceID t = serviceID) (po_Targets p)"

section \<open>The digest of a policy\<close>

text \<open>Fields with \<open>omitempty\<close> are left out at their zero value.\<close>

definition str_opt :: "string \<Rightarrow> string \<Rightarrow> (string \<times> json) list" where
  "str_opt k v = (if v = [] then [] else [(k, JStr v)])"

definition int_opt :: "string \<Rightarrow> int \<Rightarrow> (string \<times> json) list" where
  "int_opt k v = (if v = 0 then [] else [(k, JInt v)])"

definition strs_json :: "string list \<Rightarrow> json" where
  "strs_json xs = (if xs = [] then JNull else JArr (map JStr xs))"

definition systemd_json :: "SystemdTarget \<Rightarrow> json" where
  "systemd_json t = JObj
     ([(''systemctl_path'', JStr (sd_SystemctlPath t)), (''runuser_path'', JStr (sd_RunuserPath t)),
       (''smoke_user'', JStr (sd_SmokeUser t)), (''unit'', JStr (sd_Unit t)),
       (''release_root'', JStr (sd_ReleaseRoot t)), (''current_link'', JStr (sd_CurrentLink t)),
       (''binary_path'', JStr (sd_BinaryPath t))] @
      (if sd_RequiredPaths t = [] then [] else [(''required_paths'', strs_json (sd_RequiredPaths t))]))"

definition docker_json :: "DockerTarget \<Rightarrow> json" where
  "docker_json t = JObj
     ([(''docker_path'', JStr (dk_DockerPath t)), (''compose_project'', JStr (dk_ComposeProject t)),
       (''project_dir'', JStr (dk_ProjectDir t)), (''compose_files'', strs_json (dk_ComposeFiles t)),
       (''service'', JStr (dk_Service t)), (''image_repo'', JStr (dk_ImageRepo t)),
       (''image_variable'', JStr (dk_ImageVariable t))] @
      str_opt ''base_env_file'' (dk_BaseEnvFile t) @
      [(''version_env_file'', JStr (dk_VersionEnvFile t))] @
      str_opt ''port_env_file'' (dk_PortEnvFile t) @
      [(''compose_config_sha256'', JStr (dk_ComposeConfigSHA256 t))] @
      str_opt ''port_compose_policy_sha256'' (dk_PortComposePolicySHA256 t) @
      int_opt ''port_compose_revision'' (dk_PortComposeRevision t) @
      str_opt ''current_version'' (dk_CurrentVersion t) @
      str_opt ''channel'' (dk_Channel t))"

definition target_json :: "LocalExecutorTarget \<Rightarrow> json" where
  "target_json t = JObj
     ([(''service_id'', JStr (lt_ServiceID t)), (''service_type'', JStr (lt_ServiceType t)),
       (''deployment_mode'', JStr (lt_DeploymentMode t))] @
      str_opt ''database_name'' (lt_DatabaseName t) @
      int_opt ''endpoint_revision'' (lt_EndpointRevision t) @
      [(''config_revision'', JInt (lt_ConfigRevision t))] @
      str_opt ''config_sha256'' (lt_ConfigSHA256 t) @
      [(''local_listen_endpoint'', JObj [(''host'', JStr (ep_Host (lt_LocalListen t))),
          (''port'', JInt (ep_Port (lt_LocalListen t)))])] @
      (case lt_Systemd t of None \<Rightarrow> [] | Some s \<Rightarrow> [(''systemd'', systemd_json s)]) @
      (case lt_Docker t of None \<Rightarrow> [] | Some d \<Rightarrow> [(''docker'', docker_json d)]))"

definition policy_json :: "LocalExecutorPolicy \<Rightarrow> json" where
  "policy_json p = JObj
     ([(''schema_version'', JInt (po_SchemaVersion p)), (''protocol_version'', JInt (po_ProtocolVersion p)),
       (''host_id'', JStr (po_HostID p)), (''agent_uid'', JInt (po_AgentUID p)),
       (''agent_gid'', JInt (po_AgentGID p)), (''socket_path'', JStr (po_SocketPath p))] @
      int_opt ''source_policy_revision'' (po_SourcePolicyRevision p) @
      int_opt ''projection_revision'' (po_ProjectionRevision p) @
      [(''policy_revision'', JInt (po_PolicyRevision p))] @
      (case po_Mutation p of None \<Rightarrow> [] | Some u \<Rightarrow> [(''mutation'', JObj [(''panel_url'', JStr u)])]) @
      [(''targets'', if po_Targets p = [] then JNull else JArr (map target_json (po_Targets p)))])"

text \<open>Encoding this structure cannot fail, so neither can \<open>SHA256\<close>.\<close>

definition policy_SHA256 :: "LocalExecutorPolicy \<Rightarrow> string result" where
  "policy_SHA256 p = Inr (sha256_digest (marshal (policy_json p)))"

section \<open>What a valid policy guarantees\<close>

lemma check_targets_None:
  "check_targets ts i seen seenP = None \<Longrightarrow>
     (\<forall>t\<in>set ts. target_validate t = None) \<and>
     distinct (map lt_ServiceID ts) \<and> lt_ServiceID ` set ts \<inter> seen = {} \<and>
     distinct (map privilegedKey ts) \<and> privilegedKey ` set ts \<inter> seenP = {}"
  by (induction ts i seen seenP rule: check_targets.induct)
    (auto split: option.splits if_splits)

lemma policy_Validate_targets: "policy_Validate net p = None \<Longrightarrow> check_targets (po_Targets p) 0 {} {} = None"
  unfolding policy_Validate_def guards by blast

lemma target_validate_systemd:
  assumes "target_validate t = None" "lt_DeploymentMode t = ModeSystemd"
  shows "\<exists>sd pr. lt_Systemd t = Some sd \<and> lt_Docker t = None \<and>
    standardSystemdProfileFor (lt_ServiceType t) = Some pr \<and>
    sd_SystemctlPath sd = ''/usr/bin/systemctl'' \<and> sd_Unit sd = pr_unit pr \<and>
    sd_ReleaseRoot sd = pr_releaseRoot pr \<and> sd_CurrentLink sd = pr_currentLink pr \<and>
    sd_BinaryPath sd = pr_binaryPath pr \<and> sd_RequiredPaths sd = pr_requiredPaths pr"
proof -
  obtain sd where sd: "lt_Systemd t = Some sd" "lt_Docker t = None"
    "validateLocalExecutorSystemdTarget t sd = None"
    using assms unfolding target_validate_def guards by (auto split: option.splits)
  then obtain pr where pr: "standardSystemdProfileFor (lt_ServiceType t) = Some pr"
    "length (sd_RequiredPaths sd) = length (pr_requiredPaths pr)"
    "\<not> list_ex (\<lambda>i. sd_RequiredPaths sd ! i \<noteq> pr_requiredPaths pr ! i) [0..<length (pr_requiredPaths pr)]"
    "sd_SystemctlPath sd = ''/usr/bin/systemctl'' \<and> sd_Unit sd = pr_unit pr \<and>
     sd_ReleaseRoot sd = pr_releaseRoot pr \<and> sd_CurrentLink sd = pr_currentLink pr \<and>
     sd_BinaryPath sd = pr_binaryPath pr"
    unfolding validateLocalExecutorSystemdTarget_def by (auto simp: guards split: option.splits)
  then have "sd_RequiredPaths sd = pr_requiredPaths pr"
    by (auto simp: list_ex_iff intro: nth_equalityI)
  with sd pr show ?thesis by blast
qed

lemma target_validate_docker:
  assumes "target_validate t = None" "lt_DeploymentMode t = ModeDocker"
  shows "\<exists>d pr. lt_Docker t = Some d \<and> lt_Systemd t = None \<and>
    localExecutorDockerProfileFor (lt_ServiceType t) = Some pr \<and>
    dk_DockerPath d = ''/usr/bin/docker'' \<and> dk_ComposeFiles d = [''/opt/autostream/compose.yml''] \<and>
    dk_Service d = dp_service pr \<and> dk_ImageRepo d = dp_imageRepo pr \<and>
    dk_VersionEnvFile d = dp_versionEnvFile pr"
proof -
  obtain d where d: "lt_Docker t = Some d" "lt_Systemd t = None" "validateLocalExecutorDockerTarget t = None"
    using assms unfolding target_validate_def guards by (auto split: option.splits if_splits)
  then show ?thesis
    unfolding validateLocalExecutorDockerTarget_def
    by (auto simp: guards matchesLocalExecutorDockerProfile_def split: option.splits)
qed

lemma target_validate_kind:
  "target_validate t = None \<Longrightarrow>
   lt_DeploymentMode t \<in> {ModeSystemd, ModeDocker} \<and> validLocalExecutorServiceType (lt_ServiceType t)"
  unfolding target_validate_def guards by (auto split: if_splits)

definition service_types :: "string list" where
  "service_types = [''control_panel'', ''worker'', ''encoder_recorder'', ''discord_bot'', ''observability'']"

text \<open>
  C23: a valid policy grants nothing beyond the compiled profiles. Service identities are distinct,
  no deployment mode has two targets for one service type, so there are at most ten targets, and
  each target is either a systemd target whose unit, executable and directories are those of the
  standard profile of its service type, or a Docker target with the image, service and version
  file of its profile.
\<close>

theorem policy_Validate_authority:
  assumes "policy_Validate net p = None"
  shows "distinct (map lt_ServiceID (po_Targets p)) \<and>
    distinct (map (\<lambda>t. (lt_DeploymentMode t, lt_ServiceType t)) (po_Targets p)) \<and>
    length (po_Targets p) \<le> 10 \<and>
    (\<forall>t\<in>set (po_Targets p).
       (\<exists>sd pr. lt_DeploymentMode t = ModeSystemd \<and> lt_Systemd t = Some sd \<and> lt_Docker t = None \<and>
          standardSystemdProfileFor (lt_ServiceType t) = Some pr \<and>
          sd_SystemctlPath sd = ''/usr/bin/systemctl'' \<and> sd_Unit sd = pr_unit pr \<and>
          sd_ReleaseRoot sd = pr_releaseRoot pr \<and> sd_CurrentLink sd = pr_currentLink pr \<and>
          sd_BinaryPath sd = pr_binaryPath pr \<and> sd_RequiredPaths sd = pr_requiredPaths pr) \<or>
       (\<exists>d pr. lt_DeploymentMode t = ModeDocker \<and> lt_Docker t = Some d \<and> lt_Systemd t = None \<and>
          localExecutorDockerProfileFor (lt_ServiceType t) = Some pr \<and>
          dk_DockerPath d = ''/usr/bin/docker'' \<and> dk_ComposeFiles d = [''/opt/autostream/compose.yml''] \<and>
          dk_Service d = dp_service pr \<and> dk_ImageRepo d = dp_imageRepo pr \<and>
          dk_VersionEnvFile d = dp_versionEnvFile pr))"
  (is "_ \<and> _ \<and> _ \<and> (\<forall>t\<in>_. ?S t \<or> ?D t)")
proof -
  let ?ts = "po_Targets p" and ?k = "\<lambda>t. (lt_DeploymentMode t, lt_ServiceType t)"
  note checks = check_targets_None [OF policy_Validate_targets [OF assms]]
  then have valid: "target_validate t = None" if "t \<in> set ?ts" for t
    using that by blast
  have "map privilegedKey ?ts = map (\<lambda>(m, s). m @ CHR 0x00 # s) (map ?k ?ts)"
    by (simp add: privilegedKey_def)
  then have "distinct (map (\<lambda>(m, s). m @ CHR 0x00 # s) (map ?k ?ts))"
    using checks by metis
  then have dist: "distinct (map ?k ?ts)"
    by (simp only: distinct_map [of "\<lambda>(m, s). m @ CHR 0x00 # s"])
  have kind: "lt_DeploymentMode t = ModeSystemd \<or> lt_DeploymentMode t = ModeDocker"
    "lt_ServiceType t \<in> set service_types" if "t \<in> set ?ts" for t
    using target_validate_kind [OF valid [OF that]]
    by (simp_all add: validLocalExecutorServiceType_def service_types_def)
  then have "set (map ?k ?ts) \<subseteq> {ModeSystemd, ModeDocker} \<times> set service_types"
    by auto
  then have "card (set (map ?k ?ts)) \<le> card ({ModeSystemd, ModeDocker} \<times> set service_types)"
    by (intro card_mono) simp_all
  also have "\<dots> = 10"
    by (simp add: service_types_def card_cartesian_product)
  finally have len: "length ?ts \<le> 10"
    using distinct_card [OF dist] by simp
  show ?thesis
  proof (intro conjI ballI)
    fix t
    assume t: "t \<in> set ?ts"
    show "?S t \<or> ?D t"
      using kind(1) [OF t]
    proof
      assume "lt_DeploymentMode t = ModeSystemd"
      with target_validate_systemd [OF valid [OF t] this] show ?thesis by metis
    next
      assume "lt_DeploymentMode t = ModeDocker"
      with target_validate_docker [OF valid [OF t] this] show ?thesis by metis
    qed
  qed (use checks dist len in simp_all)
qed

definition sample_policy :: LocalExecutorPolicy where
  "sample_policy = \<lparr>po_SchemaVersion = 2, po_ProtocolVersion = 2, po_HostID = ''host-1'',
     po_AgentUID = 990, po_AgentGID = 990, po_SocketPath = LocalExecutorSocketPath,
     po_SourcePolicyRevision = 3, po_ProjectionRevision = 4, po_PolicyRevision = 5,
     po_Mutation = Some ''https://panel.example'',
     po_Targets = [\<lparr>lt_ServiceID = ''worker-1'', lt_ServiceType = ''worker'',
       lt_DeploymentMode = ModeSystemd, lt_DatabaseName = [], lt_EndpointRevision = 0,
       lt_ConfigRevision = 1, lt_ConfigSHA256 = [],
       lt_LocalListen = \<lparr>ep_Host = ''127.0.0.1'', ep_Port = 8084\<rparr>,
       lt_Systemd = Some \<lparr>sd_SystemctlPath = ''/usr/bin/systemctl'', sd_RunuserPath = ''/usr/sbin/runuser'',
         sd_SmokeUser = ''autostream'', sd_Unit = ''autostream-worker.service'',
         sd_ReleaseRoot = ''/opt/autostream/worker/releases'',
         sd_CurrentLink = ''/opt/autostream/worker/current'',
         sd_BinaryPath = ''bin/autostream-worker'', sd_RequiredPaths = []\<rparr>,
       lt_Docker = None\<rparr>]\<rparr>"

text \<open>A parser that knows the one address of the sample.\<close>

definition sample_net :: netlib where
  "sample_net = \<lparr>url_Parse = (\<lambda>s. if s = ''https://panel.example''
       then Some \<lparr>u_Scheme = ''https'', u_Host = ''panel.example'', u_Hostname = ''panel.example'',
         u_HasUser = False, u_RawQuery = [], u_Fragment = []\<rparr> else None),
     ip_IsLoopback = (\<lambda>s. s = ''127.0.0.1'')\<rparr>"

lemmas graphic_eval = graphic_def less_eq_char_def

lemma sample_trimmed [simp]:
  "TrimSpace ''https://panel.example'' = ''https://panel.example''" "TrimSpace ''host-1'' = ''host-1''"
  "TrimSpace ''worker-1'' = ''worker-1''" "TrimSpace ''worker'' = ''worker''" "TrimSpace ''127.0.0.1'' = ''127.0.0.1''"
  by (simp_all add: TrimSpace_graphic graphic_eval)

lemma sample_patterns [simp]:
  "MatchString identifierPattern ''host-1''" "MatchString identifierPattern ''worker-1''"
  "MatchString smokeUserPattern ''autostream''" "MatchString unitPattern ''autostream-worker.service''"
  by (simp_all add: match_eval smokeUserPattern_def unitPattern_def is_unit_char_def is_lower_def)

lemma sample_paths [simp]:
  "Clean ''/opt/autostream/worker/releases'' = ''/opt/autostream/worker/releases''"
  "Clean ''/opt/autostream/worker/current'' = ''/opt/autostream/worker/current''"
  "Clean ''bin/autostream-worker'' = ''bin/autostream-worker''"
  by (simp_all add: Clean_def clean_elements_def clean_step_def IsAbs_def HasPrefix_def)

lemma sample_policy_valid: "policy_Validate sample_net sample_policy = None"
proof -
  have "loopback_v4 ''127.0.0.1''"
    by (simp add: loopback_v4_def canonical_octet_def decimalIdentifier_def bad_identifier_def class_defs
        less_eq_char_def digit_value_def)
  then show ?thesis
    by (simp add: policy_Validate_def sample_policy_def sample_net_def validatePanelURL_def
        target_validate_def SystemdTarget_Validate_def validateLocalExecutorSystemdTarget_def
        standardSystemdProfileFor_def validLocalExecutorServiceType_def validLocalExecutorLoopback_def
        deploymentAbsolutePath_def IsAbs_def HasPrefix_def safeRelativePath_def)
qed

theorem policy_Validate_authority_witness:
  "length (po_Targets sample_policy) \<le> 10 \<and> distinct (map lt_ServiceID (po_Targets sample_policy))"
  using policy_Validate_authority [OF sample_policy_valid] by blast

end
