(* ===== verification/SelfUpdate_Grant.thy ===== *)
theory SelfUpdate_Grant
  imports SelfUpdate_State Executor_Policy
begin

text \<open>
  \<open>host_self_update_grant.go\<close>, the pure parts of \<open>host_self_update_grant_binding.go\<close> and
  \<open>host_self_update_grant_consume.go\<close>, and the agent's proof of
  \<open>host_self_update_runtime.go\<close>: the one-time grant of the control panel that authorises a
  staging or a reconciliation, how it is bound to policy, release and plan, and the record the
  executor keeps of it. The theory shows that the plan digest binds everything it covers.
\<close>

section \<open>The grant\<close>

record HostSelfUpdateGrantBinding =
  gb_ID :: string
  gb_SelfUpdateID :: string
  gb_AttemptGeneration :: string
  gb_Operation :: string
  gb_ExecutionHostID :: string
  gb_AgentServiceID :: string
  gb_ExpectedSelfUpdateRevision :: int
  gb_ExpectedOwnershipEpoch :: int
  gb_ExpectedSourcePolicyRevision :: int
  gb_ExpectedProjectionRevision :: int
  gb_ExpectedLocalExecutorPolicyRevision :: int
  gb_ExpectedLocalExecutorPolicySHA256 :: string
  gb_AgentVersion :: string
  gb_ExecutorVersion :: string
  gb_ReleaseCommit :: string
  gb_ArtifactSHA256 :: string
  gb_AgentProtocolVersion :: int
  gb_ExecutorProtocolVersion :: int
  gb_MutationProtocolVersion :: int
  gb_RecoveryProtocolVersion :: int
  gb_Release :: HostSelfUpdateReleaseIdentity
  gb_DirectiveIssuedAt :: gotime
  gb_PlanSHA256 :: string
  gb_SessionID :: string
  gb_Revision :: int
  gb_IssuedAt :: gotime
  gb_ExpiresAt :: gotime
  gb_ConsumedAt :: "gotime option"
  gb_StageClaimRevision :: int
  gb_StageClaimedAt :: "gotime option"
  gb_CreatedAt :: gotime
  gb_UpdatedAt :: gotime

record HostSelfUpdateGrantAuthorization =
  ga_Binding :: HostSelfUpdateGrantBinding
  ga_Token :: string

record HostSelfUpdateGrantConsumeResult =
  cr_Grant :: HostSelfUpdateGrantBinding
  cr_Consumed :: bool

definition grant_identity_ok :: "string \<Rightarrow> bool" where
  "grant_identity_ok value \<longleftrightarrow> MatchString identifierPattern value \<and> value = TrimSpace value"

definition binding_request :: "HostSelfUpdateGrantBinding \<Rightarrow> HostSelfUpdateRequest" where
  "binding_request b =
     \<lparr>req_Generation = [], req_AgentVersion = gb_AgentVersion b, req_ExecutorVersion = [],
      req_Commit = gb_ReleaseCommit b, req_ArtifactSHA256 = gb_ArtifactSHA256 b,
      req_AgentProtocol = gb_AgentProtocolVersion b, req_ExecutorProtocol = gb_ExecutorProtocolVersion b,
      req_MutationProtocol = gb_MutationProtocolVersion b,
      req_RecoveryProtocol = gb_RecoveryProtocolVersion b, req_Release = zero_release\<rparr>"

definition receipt_check :: "HostSelfUpdateGrantBinding \<Rightarrow> bool \<Rightarrow> go_error option" where
  "receipt_check b expectConsumed =
     (if expectConsumed
      then (case gb_ConsumedAt b of
          None \<Rightarrow> errNew ''host self-update grant receipt is invalid''
        | Some consumed \<Rightarrow>
            if IsZero consumed \<or> \<not> in_utc consumed \<or> time_Before consumed (gb_IssuedAt b)
            then errNew ''host self-update grant receipt is invalid''
            else if gb_Operation b = ''stage''
            then (if gb_StageClaimRevision b \<noteq> wrap_int64 (gb_ExpectedSelfUpdateRevision b + 1) \<or>
                     (case gb_StageClaimedAt b of
                        None \<Rightarrow> True
                      | Some claimed \<Rightarrow> \<not> time_Equal claimed consumed)
                  then errNew ''host self-update stage claim is invalid''
                  else None)
            else if gb_StageClaimRevision b \<noteq> 0 \<or> gb_StageClaimedAt b \<noteq> None
            then errNew ''reconcile grant contains a stage claim''
            else None)
      else if gb_ConsumedAt b \<noteq> None \<or> gb_StageClaimRevision b \<noteq> 0 \<or> gb_StageClaimedAt b \<noteq> None
      then errNew ''unconsumed host self-update grant contains a receipt''
      else None)"

definition binding_validate :: "HostSelfUpdateGrantBinding \<Rightarrow> bool \<Rightarrow> go_error option" where
  "binding_validate b expectConsumed =
     (if list_ex (\<lambda>value. \<not> grant_identity_ok value)
         [gb_ID b, gb_SelfUpdateID b, gb_AttemptGeneration b, gb_ExecutionHostID b,
          gb_AgentServiceID b, gb_SessionID b]
      then errNew ''host self-update grant identity is invalid''
      else if (gb_Operation b \<noteq> ''stage'' \<and> gb_Operation b \<noteq> ''reconcile'') \<or>
         gb_ExpectedSelfUpdateRevision b < 1 \<or>
         gb_ExpectedOwnershipEpoch b < 1 \<or>
         gb_ExpectedSourcePolicyRevision b < 1 \<or>
         gb_ExpectedProjectionRevision b < 1 \<or>
         gb_ExpectedLocalExecutorPolicyRevision b < 1
      then errNew ''host self-update grant operation fence is invalid''
      else if \<not> MatchString digestPattern (gb_ExpectedLocalExecutorPolicySHA256 b) \<or>
         \<not> MatchString versionPattern (gb_AgentVersion b) \<or>
         \<not> MatchString versionPattern (gb_ExecutorVersion b) \<or>
         \<not> MatchString updaterReleaseCommitPattern (gb_ReleaseCommit b) \<or>
         \<not> MatchString digestPattern (gb_ArtifactSHA256 b) \<or>
         gb_AgentProtocolVersion b < 1 \<or>
         gb_ExecutorProtocolVersion b < 1 \<or>
         gb_MutationProtocolVersion b < 1 \<or>
         gb_RecoveryProtocolVersion b \<noteq> HostSelfUpdateRecoveryProtocolVersion
      then errNew ''host self-update grant runtime identity is invalid''
      else (case release_validate (gb_Release b) of
          Some err \<Rightarrow> Some (WrapErr err ''host self-update grant release identity is invalid'')
        | None \<Rightarrow>
            if IsZero (gb_DirectiveIssuedAt b) \<or>
               \<not> in_utc (gb_DirectiveIssuedAt b) \<or>
               \<not> MatchString mutationPlanHashPattern (gb_PlanSHA256 b) \<or>
               gb_Revision b < 1 \<or>
               IsZero (gb_IssuedAt b) \<or>
               \<not> in_utc (gb_IssuedAt b) \<or>
               \<not> in_utc (gb_ExpiresAt b) \<or>
               \<not> time_After (gb_ExpiresAt b) (gb_IssuedAt b) \<or>
               time_Sub (gb_ExpiresAt b) (gb_IssuedAt b) > 5 * time_Minute
            then errNew ''host self-update grant time or plan binding is invalid''
            else if \<not> matchesRequest (gb_Release b) (binding_request b)
            then errNew ''host self-update grant release identity is inconsistent''
            else receipt_check b expectConsumed))"

definition validBoundedSecret :: "string \<Rightarrow> bool" where
  "validBoundedSecret value \<longleftrightarrow>
     \<not> (length value = 0 \<or> length value > 16384) \<and> list_all (\<lambda>c. CHR 0x21 \<le> c \<and> c \<le> CHR 0x7E) value"

definition authorization_validate :: "HostSelfUpdateGrantAuthorization \<Rightarrow> go_error option" where
  "authorization_validate a =
     (case binding_validate (ga_Binding a) False of
        Some err \<Rightarrow> Some err
      | None \<Rightarrow>
          if \<not> HasPrefix (ga_Token a) ''ast_hsug_'' \<or> \<not> validBoundedSecret (ga_Token a)
          then errNew ''host self-update grant token is invalid''
          else None)"

definition sameHostSelfUpdateGrantBinding ::
  "HostSelfUpdateGrantBinding \<Rightarrow> HostSelfUpdateGrantBinding \<Rightarrow> bool" where
  "sameHostSelfUpdateGrantBinding left right \<longleftrightarrow>
     gb_ID left = gb_ID right \<and>
     gb_SelfUpdateID left = gb_SelfUpdateID right \<and>
     gb_AttemptGeneration left = gb_AttemptGeneration right \<and>
     gb_Operation left = gb_Operation right \<and>
     gb_ExecutionHostID left = gb_ExecutionHostID right \<and>
     gb_AgentServiceID left = gb_AgentServiceID right \<and>
     gb_ExpectedSelfUpdateRevision left = gb_ExpectedSelfUpdateRevision right \<and>
     gb_ExpectedOwnershipEpoch left = gb_ExpectedOwnershipEpoch right \<and>
     gb_ExpectedSourcePolicyRevision left = gb_ExpectedSourcePolicyRevision right \<and>
     gb_ExpectedProjectionRevision left = gb_ExpectedProjectionRevision right \<and>
     gb_ExpectedLocalExecutorPolicyRevision left = gb_ExpectedLocalExecutorPolicyRevision right \<and>
     gb_ExpectedLocalExecutorPolicySHA256 left = gb_ExpectedLocalExecutorPolicySHA256 right \<and>
     gb_AgentVersion left = gb_AgentVersion right \<and>
     gb_ExecutorVersion left = gb_ExecutorVersion right \<and>
     gb_ReleaseCommit left = gb_ReleaseCommit right \<and>
     gb_ArtifactSHA256 left = gb_ArtifactSHA256 right \<and>
     gb_AgentProtocolVersion left = gb_AgentProtocolVersion right \<and>
     gb_ExecutorProtocolVersion left = gb_ExecutorProtocolVersion right \<and>
     gb_MutationProtocolVersion left = gb_MutationProtocolVersion right \<and>
     gb_RecoveryProtocolVersion left = gb_RecoveryProtocolVersion right \<and>
     sameHostSelfUpdateReleaseIdentity (gb_Release left) (gb_Release right) \<and>
     time_Equal (gb_DirectiveIssuedAt left) (gb_DirectiveIssuedAt right) \<and>
     gb_PlanSHA256 left = gb_PlanSHA256 right \<and>
     gb_SessionID left = gb_SessionID right \<and>
     gb_Revision left = gb_Revision right \<and>
     time_Equal (gb_IssuedAt left) (gb_IssuedAt right) \<and>
     time_Equal (gb_ExpiresAt left) (gb_ExpiresAt right)"

section \<open>The record of a grant\<close>

abbreviation "GrantPrepared \<equiv> ''prepared''"
abbreviation "GrantConsumed \<equiv> ''consumed''"
abbreviation "GrantApplied \<equiv> ''applied''"
abbreviation "GrantFailed \<equiv> ''failed''"

record hostSelfUpdateGrantState =
  gs_SchemaVersion :: int
  gs_Phase :: string
  gs_TokenSHA256 :: string
  gs_Binding :: HostSelfUpdateGrantBinding
  gs_Receipt :: "HostSelfUpdateGrantBinding option"

definition newHostSelfUpdateGrantState :: "HostSelfUpdateGrantAuthorization \<Rightarrow> hostSelfUpdateGrantState" where
  "newHostSelfUpdateGrantState a =
     \<lparr>gs_SchemaVersion = 1, gs_Phase = GrantPrepared, gs_TokenSHA256 = sha256_digest (ga_Token a),
      gs_Binding = ga_Binding a, gs_Receipt = None\<rparr>"

definition grant_state_validate :: "hostSelfUpdateGrantState \<Rightarrow> go_error option" where
  "grant_state_validate s =
     (if gs_SchemaVersion s \<noteq> 1 \<or>
         (gs_Phase s \<noteq> GrantPrepared \<and> gs_Phase s \<noteq> GrantConsumed \<and> gs_Phase s \<noteq> GrantApplied \<and>
          gs_Phase s \<noteq> GrantFailed) \<or>
         \<not> MatchString digestPattern (gs_TokenSHA256 s) \<or>
         binding_validate (gs_Binding s) False \<noteq> None
      then errNew ''host self-update grant state is invalid''
      else if gs_Phase s = GrantPrepared \<or> gs_Phase s = GrantFailed
      then (if gs_Receipt s \<noteq> None
            then errNew ''receipt-free host self-update grant phase contains a receipt''
            else None)
      else (case gs_Receipt s of
          None \<Rightarrow> errNew ''consumed host self-update grant receipt is invalid''
        | Some receipt \<Rightarrow>
            if binding_validate receipt True \<noteq> None \<or>
               \<not> sameHostSelfUpdateGrantBinding receipt (gs_Binding s)
            then errNew ''consumed host self-update grant receipt is invalid''
            else None))"

definition grant_matches :: "hostSelfUpdateGrantState \<Rightarrow> HostSelfUpdateGrantAuthorization \<Rightarrow> bool" where
  "grant_matches s a \<longleftrightarrow> sameHostSelfUpdateGrantBinding (gs_Binding s) (ga_Binding a) \<and>
     gs_TokenSHA256 s = sha256_digest (ga_Token a)"

section \<open>The plan digest\<close>

record LocalExecutorMutationFence =
  fe_SourcePolicyRevision :: int
  fe_OwnershipEpoch :: int
  fe_OwnershipPolicyRevision :: int
  fe_ExecutorPolicyRevision :: int

text \<open>The JSON objects of the hashed structures. \<open>published_at\<close> is the text of the publication time.\<close>

definition release_json :: "HostSelfUpdateReleaseIdentity \<Rightarrow> json \<Rightarrow> json" where
  "release_json r published_at = JObj
     [(''tag'', JStr (rel_Tag r)), (''commit'', JStr (rel_Commit r)), (''published_at'', published_at),
      (''manifest_asset_id'', JInt (rel_ManifestAssetID r)),
      (''manifest_asset_name'', JStr (rel_ManifestAssetName r)),
      (''manifest_sha256'', JStr (rel_ManifestSHA256 r)),
      (''manifest_checksum_asset_id'', JInt (rel_ManifestChecksumAssetID r)),
      (''manifest_checksum_sha256'', JStr (rel_ManifestChecksumSHA256 r)),
      (''archive_asset_id'', JInt (rel_ArchiveAssetID r)),
      (''archive_asset_name'', JStr (rel_ArchiveAssetName r)),
      (''archive_size'', JInt (rel_ArchiveSize r)), (''archive_sha256'', JStr (rel_ArchiveSHA256 r)),
      (''archive_checksum_asset_id'', JInt (rel_ArchiveChecksumAssetID r)),
      (''archive_checksum_sha256'', JStr (rel_ArchiveChecksumSHA256 r)), (''arch'', JStr (rel_Arch r)),
      (''agent_protocol_version'', JInt (rel_AgentProtocol r)),
      (''executor_protocol_version'', JInt (rel_ExecutorProtocol r)),
      (''mutation_protocol_version'', JInt (rel_MutationProtocol r)),
      (''recovery_protocol_version'', JInt (rel_RecoveryProtocol r)),
      (''minimum_panel_version'', JStr (rel_MinimumPanelVersion r))]"

definition request_json :: "HostSelfUpdateRequest \<Rightarrow> json \<Rightarrow> json" where
  "request_json r published_at = JObj
     [(''generation'', JStr (req_Generation r)), (''agent_version'', JStr (req_AgentVersion r)),
      (''executor_version'', JStr (req_ExecutorVersion r)), (''commit'', JStr (req_Commit r)),
      (''artifact_sha256'', JStr (req_ArtifactSHA256 r)),
      (''agent_protocol_version'', JInt (req_AgentProtocol r)),
      (''executor_protocol_version'', JInt (req_ExecutorProtocol r)),
      (''mutation_protocol_version'', JInt (req_MutationProtocol r)),
      (''recovery_protocol_version'', JInt (req_RecoveryProtocol r)),
      (''release'', release_json (req_Release r) published_at)]"

definition fence_json :: "LocalExecutorMutationFence \<Rightarrow> json" where
  "fence_json f = JObj
     [(''SourcePolicyRevision'', JInt (fe_SourcePolicyRevision f)),
      (''OwnershipEpoch'', JInt (fe_OwnershipEpoch f)),
      (''OwnershipPolicyRevision'', JInt (fe_OwnershipPolicyRevision f)),
      (''ExecutorPolicyRevision'', JInt (fe_ExecutorPolicyRevision f))]"

definition grant_plan_json ::
  "string \<Rightarrow> string \<Rightarrow> int \<Rightarrow> HostSelfUpdateRequest \<Rightarrow> LocalExecutorMutationFence \<Rightarrow> json option" where
  "grant_plan_json operation selfUpdateID selfUpdateRevision request fence =
     map_option (\<lambda>published_at. JObj
       [(''operation'', JStr operation), (''self_update_id'', JStr selfUpdateID),
        (''self_update_revision'', JInt selfUpdateRevision),
        (''request'', request_json request published_at), (''fence'', fence_json fence)])
     (time_json (rel_PublishedAt (req_Release request)))"

definition hostSelfUpdateGrantPlanSHA256 ::
  "string \<Rightarrow> string \<Rightarrow> int \<Rightarrow> HostSelfUpdateRequest \<Rightarrow> LocalExecutorMutationFence \<Rightarrow> string result" where
  "hostSelfUpdateGrantPlanSHA256 operation selfUpdateID selfUpdateRevision request fence =
     (case grant_plan_json operation selfUpdateID selfUpdateRevision request fence of
        None \<Rightarrow> Inl (NewErr ''encode host self-update grant plan'')
      | Some j \<Rightarrow> Inr (sha256_hex (marshal j)))"

section \<open>What a grant must be bound to\<close>

record HostSelfUpdateAgentProof =
  ap_RunningAgentVersion :: string
  ap_PanelHeartbeatVersion :: string
  ap_HeartbeatGeneration :: string
  ap_FailureCode :: string

definition proof_validate :: "HostSelfUpdateAgentProof \<Rightarrow> go_error option" where
  "proof_validate p =
     (if ap_RunningAgentVersion p \<noteq> [] \<and>
         (\<not> MatchString versionPattern (ap_RunningAgentVersion p) \<or>
          ap_RunningAgentVersion p \<noteq> TrimSpace (ap_RunningAgentVersion p))
      then errNew ''host self-update running agent version is invalid''
      else if ap_PanelHeartbeatVersion p \<noteq> [] \<and>
         (\<not> MatchString versionPattern (ap_PanelHeartbeatVersion p) \<or>
          ap_PanelHeartbeatVersion p \<noteq> TrimSpace (ap_PanelHeartbeatVersion p))
      then errNew ''host self-update heartbeat version is invalid''
      else if ap_HeartbeatGeneration p \<noteq> [] \<and>
         (\<not> MatchString identifierPattern (ap_HeartbeatGeneration p) \<or>
          ap_HeartbeatGeneration p \<noteq> TrimSpace (ap_HeartbeatGeneration p))
      then errNew ''host self-update heartbeat generation is invalid''
      else if ap_FailureCode p \<noteq> [] \<and> ap_FailureCode p \<noteq> ''verification_timeout'' \<and>
         ap_FailureCode p \<noteq> ''agent_restart_failed'' \<and> ap_FailureCode p \<noteq> ''executor_probe_failed''
      then errNew ''host self-update failure code is invalid''
      else if (ap_PanelHeartbeatVersion p = []) \<noteq> (ap_HeartbeatGeneration p = [])
      then errNew ''host self-update heartbeat proof is incomplete''
      else None)"

definition empty_proof :: HostSelfUpdateAgentProof where
  "empty_proof = \<lparr>ap_RunningAgentVersion = [], ap_PanelHeartbeatVersion = [],
     ap_HeartbeatGeneration = [], ap_FailureCode = []\<rparr>"

definition hostSelfUpdateRequestForGrantBinding :: "HostSelfUpdateGrantBinding \<Rightarrow> HostSelfUpdateRequest" where
  "hostSelfUpdateRequestForGrantBinding b =
     \<lparr>req_Generation = gb_AttemptGeneration b, req_AgentVersion = gb_AgentVersion b,
      req_ExecutorVersion = gb_ExecutorVersion b, req_Commit = gb_ReleaseCommit b,
      req_ArtifactSHA256 = gb_ArtifactSHA256 b, req_AgentProtocol = gb_AgentProtocolVersion b,
      req_ExecutorProtocol = gb_ExecutorProtocolVersion b,
      req_MutationProtocol = gb_MutationProtocolVersion b,
      req_RecoveryProtocol = gb_RecoveryProtocolVersion b, req_Release = gb_Release b\<rparr>"

definition sameHostSelfUpdateRequestIdentity ::
  "HostSelfUpdateRequest \<Rightarrow> HostSelfUpdateRequest \<Rightarrow> bool" where
  "sameHostSelfUpdateRequestIdentity left right \<longleftrightarrow>
     req_Generation left = req_Generation right \<and>
     req_AgentVersion left = req_AgentVersion right \<and>
     req_ExecutorVersion left = req_ExecutorVersion right \<and>
     req_Commit left = req_Commit right \<and>
     req_ArtifactSHA256 left = req_ArtifactSHA256 right \<and>
     req_AgentProtocol left = req_AgentProtocol right \<and>
     req_ExecutorProtocol left = req_ExecutorProtocol right \<and>
     req_MutationProtocol left = req_MutationProtocol right \<and>
     req_RecoveryProtocol left = req_RecoveryProtocol right \<and>
     sameHostSelfUpdateReleaseIdentity (req_Release left) (req_Release right)"

text \<open>The comparison with policy and fence both validations share.\<close>

definition policy_fence_mismatch ::
  "LocalExecutorPolicy \<Rightarrow> LocalExecutorMutationFence \<Rightarrow> string \<Rightarrow> HostSelfUpdateGrantBinding \<Rightarrow> bool" where
  "policy_fence_mismatch policy fence operation binding \<longleftrightarrow>
     gb_Operation binding \<noteq> operation \<or>
     gb_ExecutionHostID binding \<noteq> po_HostID policy \<or>
     gb_ExpectedOwnershipEpoch binding \<noteq> fe_OwnershipEpoch fence \<or>
     gb_ExpectedSourcePolicyRevision binding \<noteq> po_SourcePolicyRevision policy \<or>
     gb_ExpectedSourcePolicyRevision binding \<noteq> fe_SourcePolicyRevision fence \<or>
     gb_ExpectedProjectionRevision binding \<noteq> po_ProjectionRevision policy \<or>
     gb_ExpectedProjectionRevision binding \<noteq> fe_OwnershipPolicyRevision fence \<or>
     gb_ExpectedLocalExecutorPolicyRevision binding \<noteq> po_PolicyRevision policy \<or>
     gb_ExpectedLocalExecutorPolicyRevision binding \<noteq> fe_ExecutorPolicyRevision fence"

definition plan_mismatch ::
  "string \<Rightarrow> HostSelfUpdateGrantBinding \<Rightarrow> HostSelfUpdateRequest \<Rightarrow> LocalExecutorMutationFence \<Rightarrow> bool" where
  "plan_mismatch operation binding expected fence \<longleftrightarrow>
     hostSelfUpdateGrantPlanSHA256 operation (gb_SelfUpdateID binding)
       (gb_ExpectedSelfUpdateRevision binding) expected fence \<noteq> Inr (gb_PlanSHA256 binding)"

definition validateHostSelfUpdateGrantReplayBinding ::
  "LocalExecutorPolicy \<Rightarrow> LocalExecutorMutationFence \<Rightarrow> string \<Rightarrow> HostSelfUpdateRequest option \<Rightarrow>
   HostSelfUpdateAgentProof option \<Rightarrow> HostSelfUpdateGrantAuthorization \<Rightarrow> go_error option" where
  "validateHostSelfUpdateGrantReplayBinding policy fence operation request agentProof authorization =
     (case authorization_validate authorization of Some err \<Rightarrow> Some err | None \<Rightarrow>
      let binding = ga_Binding authorization;
          expected = hostSelfUpdateRequestForGrantBinding binding
      in if policy_fence_mismatch policy fence operation binding
         then errNew ''host self-update grant replay policy binding is invalid''
         else if policy_SHA256 policy \<noteq> Inr (gb_ExpectedLocalExecutorPolicySHA256 binding)
         then errNew ''host self-update grant replay policy digest is invalid''
         else if request_validate expected \<noteq> None
         then errNew ''host self-update grant replay release binding is invalid''
         else if plan_mismatch operation binding expected fence
         then errNew ''host self-update grant replay plan binding is invalid''
         else if operation = ''stage''
         then (case (request, agentProof) of
             (Some r, None) \<Rightarrow>
               if \<not> sameHostSelfUpdateRequestIdentity r expected
               then errNew ''host self-update stage replay binding is invalid''
               else None
           | _ \<Rightarrow> errNew ''host self-update stage replay binding is invalid'')
         else if operation = ''reconcile''
         then (case (request, agentProof) of
             (None, Some p) \<Rightarrow>
               if proof_validate p \<noteq> None
               then errNew ''host self-update reconcile replay binding is invalid''
               else if ap_HeartbeatGeneration p \<noteq> [] \<and> ap_HeartbeatGeneration p \<noteq> req_Generation expected
               then errNew ''host self-update reconcile generation is invalid''
               else if ap_PanelHeartbeatVersion p \<noteq> [] \<and> ap_PanelHeartbeatVersion p \<noteq> req_AgentVersion expected
               then errNew ''host self-update reconcile heartbeat version is invalid''
               else if ap_FailureCode p = [] \<and> ap_RunningAgentVersion p \<noteq> [] \<and>
                  ap_RunningAgentVersion p \<noteq> req_AgentVersion expected
               then errNew ''host self-update reconcile running version is invalid''
               else None
           | _ \<Rightarrow> errNew ''host self-update reconcile replay binding is invalid'')
         else errNew ''host self-update grant replay operation is invalid'')"

definition grant_release_mismatch :: "HostSelfUpdateGrantBinding \<Rightarrow> HostSelfUpdateRequest \<Rightarrow> bool" where
  "grant_release_mismatch binding expected \<longleftrightarrow>
     request_validate expected \<noteq> None \<or>
     gb_AttemptGeneration binding \<noteq> req_Generation expected \<or>
     gb_AgentVersion binding \<noteq> req_AgentVersion expected \<or>
     gb_ExecutorVersion binding \<noteq> req_ExecutorVersion expected \<or>
     gb_ReleaseCommit binding \<noteq> req_Commit expected \<or>
     gb_ArtifactSHA256 binding \<noteq> req_ArtifactSHA256 expected \<or>
     gb_AgentProtocolVersion binding \<noteq> req_AgentProtocol expected \<or>
     gb_ExecutorProtocolVersion binding \<noteq> req_ExecutorProtocol expected \<or>
     gb_MutationProtocolVersion binding \<noteq> req_MutationProtocol expected \<or>
     gb_RecoveryProtocolVersion binding \<noteq> req_RecoveryProtocol expected \<or>
     \<not> sameHostSelfUpdateReleaseIdentity (gb_Release binding) (req_Release expected)"

definition expected_request ::
  "string \<Rightarrow> HostSelfUpdateRequest option \<Rightarrow> HostSelfUpdateState \<Rightarrow> HostSelfUpdateRequest result" where
  "expected_request operation request state =
     (if operation = ''stage''
      then (case request of
          None \<Rightarrow> Inl (NewErr ''host self-update stage grant state is invalid'')
        | Some r \<Rightarrow>
            if su_Phase state \<noteq> PhaseStable \<or> req_Generation r = su_FailedGeneration state
            then Inl (NewErr ''host self-update stage grant state is invalid'')
            else Inr r)
      else if operation = ''reconcile''
      then (if request \<noteq> None \<or> su_Phase state = PhaseStable \<or> su_Phase state = PhaseStaged
            then Inl (NewErr ''host self-update reconcile grant state is invalid'')
            else Inr (pending_request state))
      else Inl (NewErr ''host self-update grant operation is invalid''))"

definition validateHostSelfUpdateGrantForOperation ::
  "LocalExecutorPolicy \<Rightarrow> LocalExecutorMutationFence \<Rightarrow> string \<Rightarrow> HostSelfUpdateRequest option \<Rightarrow>
   HostSelfUpdateState \<Rightarrow> HostSelfUpdateGrantAuthorization \<Rightarrow> go_error option" where
  "validateHostSelfUpdateGrantForOperation policy fence operation request state authorization =
     (case authorization_validate authorization of Some err \<Rightarrow> Some err | None \<Rightarrow>
      let binding = ga_Binding authorization
      in if policy_fence_mismatch policy fence operation binding
         then errNew ''host self-update grant policy binding is invalid''
         else if policy_SHA256 policy \<noteq> Inr (gb_ExpectedLocalExecutorPolicySHA256 binding)
         then errNew ''host self-update grant policy digest is invalid''
         else case expected_request operation request state of
             Inl err \<Rightarrow> Some err
           | Inr expected \<Rightarrow>
               if grant_release_mismatch binding expected
               then errNew ''host self-update grant release binding is invalid''
               else if plan_mismatch operation binding expected fence
               then errNew ''host self-update grant plan binding is invalid''
               else None)"

definition hostSelfUpdatePendingMatchesGrant ::
  "HostSelfUpdateState \<Rightarrow> HostSelfUpdateGrantBinding \<Rightarrow> bool" where
  "hostSelfUpdatePendingMatchesGrant state binding \<longleftrightarrow>
     su_PendingGeneration state = gb_AttemptGeneration binding \<and>
     su_PendingAgentVersion state = gb_AgentVersion binding \<and>
     su_PendingExecutorVersion state = gb_ExecutorVersion binding \<and>
     su_PendingCommit state = gb_ReleaseCommit binding \<and>
     su_PendingArtifactSHA256 state = gb_ArtifactSHA256 binding \<and>
     su_PendingAgentProtocol state = gb_AgentProtocolVersion binding \<and>
     su_PendingExecutorProtocol state = gb_ExecutorProtocolVersion binding \<and>
     su_PendingMutationProtocol state = gb_MutationProtocolVersion binding \<and>
     su_PendingRecoveryProtocol state = gb_RecoveryProtocolVersion binding \<and>
     sameHostSelfUpdateReleaseIdentity (su_PendingRelease state) (gb_Release binding)"

definition failedHostSelfUpdateStateMatchesStageGrant ::
  "HostSelfUpdateState \<Rightarrow> hostSelfUpdateGrantState option \<Rightarrow> bool" where
  "failedHostSelfUpdateStateMatchesStageGrant state grant =
     (case grant of
        None \<Rightarrow> False
      | Some g \<Rightarrow>
          su_Phase state = PhaseStable \<and>
          su_FailedGeneration state \<noteq> [] \<and>
          gb_Operation (gs_Binding g) = ''stage'' \<and>
          gb_AttemptGeneration (gs_Binding g) = su_FailedGeneration state \<and>
          (gs_Phase g = GrantPrepared \<or> gs_Phase g = GrantConsumed \<or> gs_Phase g = GrantApplied \<or>
           gs_Phase g = GrantFailed))"

section \<open>The record stays valid\<close>

lemma sameRelease_refl [simp]: "sameHostSelfUpdateReleaseIdentity r r"
  by (simp add: sameHostSelfUpdateReleaseIdentity_def time_Equal_def)

lemma sameBinding_refl [simp]: "sameHostSelfUpdateGrantBinding b b"
  by (simp add: sameHostSelfUpdateGrantBinding_def time_Equal_def)

lemma grant_state_validate_iff:
  "grant_state_validate s = None \<longleftrightarrow>
     gs_SchemaVersion s = 1 \<and> MatchString digestPattern (gs_TokenSHA256 s) \<and>
     binding_validate (gs_Binding s) False = None \<and>
     (gs_Phase s \<in> {GrantPrepared, GrantFailed} \<and> gs_Receipt s = None \<or>
      gs_Phase s \<in> {GrantConsumed, GrantApplied} \<and>
      (\<exists>r. gs_Receipt s = Some r \<and> binding_validate r True = None \<and>
         sameHostSelfUpdateGrantBinding r (gs_Binding s)))"
  unfolding grant_state_validate_def guard_None
  by (cases "gs_Receipt s"; cases "gs_Phase s = GrantPrepared"; cases "gs_Phase s = GrantFailed")
    (simp_all add: guard_None; blast)+

lemma newGrant_valid:
  assumes "authorization_validate a = None"
  shows "grant_state_validate (newHostSelfUpdateGrantState a) = None"
    "grant_matches (newHostSelfUpdateGrantState a) a"
  using assms
  by (simp_all add: authorization_validate_def case_None grant_state_validate_iff
      newHostSelfUpdateGrantState_def grant_matches_def)

section \<open>The plan digest binds the plan\<close>

lemma plain_over: "MatchString r s \<Longrightarrow> over json_plain r \<Longrightarrow> list_all json_plain s"
  by (simp add: MatchString_lang over_lang)

lemma class_plain:
  "is_digit c \<Longrightarrow> json_plain c" "is_alpha c \<Longrightarrow> json_plain c" "is_alnum c \<Longrightarrow> json_plain c"
  "is_lower_hex c \<Longrightarrow> json_plain c" "is_ident_char c \<Longrightarrow> json_plain c"
  by (auto simp: class_defs json_plain_def byte_in_def less_eq_char_def)

lemma plain_literals [simp]:
  "json_plain CHR ''v''" "json_plain CHR ''.''" "json_plain CHR ''-''" "json_plain CHR ''s''"
  "json_plain CHR ''h''" "json_plain CHR ''a''" "json_plain CHR ''2''" "json_plain CHR ''5''"
  "json_plain CHR ''6''" "json_plain CHR '':''" "json_plain CHR ''T''" "json_plain CHR ''Z''"
  "json_plain CHR ''+''" "json_plain CHR ''0''"
  by (simp_all add: json_plain_def byte_in_def)

lemma plain_patterns:
  "MatchString versionPattern s \<Longrightarrow> list_all json_plain s"
  "MatchString digestPattern s \<Longrightarrow> list_all json_plain s"
  "MatchString updaterReleaseCommitPattern s \<Longrightarrow> list_all json_plain s"
  "MatchString mutationPlanHashPattern s \<Longrightarrow> list_all json_plain s"
  "MatchString identifierPattern s \<Longrightarrow> list_all json_plain s"
  by (erule plain_over; auto simp: versionPattern_def digestPattern_def updaterReleaseCommitPattern_def
      mutationPlanHashPattern_def identifierPattern_def intro: class_plain)+

lemma plain_digits: "list_all is_digit s \<Longrightarrow> list_all json_plain s"
  by (auto simp: list_all_iff intro: class_plain)

lemma plain_pad_int: "list_all json_plain (pad_int w n)"
  using plain_digits [OF decimal_string_digits] by (auto simp: pad_int_def Let_def list_all_iff)

lemma plain_trim_zeros: "list_all json_plain s \<Longrightarrow> list_all json_plain (trim_zeros s)"
  by (auto simp: trim_zeros_def list_all_iff dest: set_dropWhileD)

lemma plain_rfc3339: "list_all json_plain (rfc3339 y m d sod nanos off)"
  by (simp add: rfc3339_def plain_pad_int plain_trim_zeros)

lemma plain_time_json: "time_json t = Some j \<Longrightarrow> plain_json j"
  unfolding time_json_def Let_def by (auto simp: plain_rfc3339 split: if_splits prod.splits)

lemma plain_append: "list_all json_plain s \<Longrightarrow> list_all json_plain t \<Longrightarrow> list_all json_plain (s @ t)"
  by simp

lemma plain_release_json:
  assumes "release_validate r = None" "plain_json p"
  shows "plain_json (release_json r p)"
proof -
  have r: "MatchString versionPattern (rel_Tag r)" "MatchString updaterReleaseCommitPattern (rel_Commit r)"
    "rel_ManifestAssetName r = hostAgentManifestName"
    "rel_ArchiveAssetName r = hostAgentReleaseAssetName (rel_Tag r) (rel_Arch r)"
    "MatchString mutationPlanHashPattern (rel_ManifestSHA256 r)"
    "MatchString mutationPlanHashPattern (rel_ManifestChecksumSHA256 r)"
    "MatchString mutationPlanHashPattern (rel_ArchiveSHA256 r)"
    "MatchString mutationPlanHashPattern (rel_ArchiveChecksumSHA256 r)"
    "rel_Arch r = ''amd64'' \<or> rel_Arch r = ''arm64''"
    "MatchString versionPattern (rel_MinimumPanelVersion r)"
    using assms(1) unfolding release_validate_def guards by blast+
  have "list_all json_plain (rel_Arch r)"
    using r(9) by (elim disjE) (simp_all add: json_plain_def byte_in_def)
  then have "list_all json_plain (rel_ArchiveAssetName r)"
    using plain_patterns(1) [OF r(1)]
    by (simp add: r(4) hostAgentReleaseAssetName_def) (simp add: json_plain_def byte_in_def)
  moreover have "list_all json_plain (rel_ManifestAssetName r)"
    by (simp add: r(3) hostAgentManifestName_def) (simp add: json_plain_def byte_in_def)
  ultimately show ?thesis
    using assms(2) r \<open>list_all json_plain (rel_Arch r)\<close> plain_patterns
    by (simp add: release_json_def) (simp add: json_plain_def byte_in_def)
qed

lemma plain_request_json:
  assumes "request_validate r = None" "plain_json p"
  shows "plain_json (request_json r p)"
  using assms plain_release_json [of "req_Release r" p] plain_patterns
  by (simp add: request_json_def request_validate_iff) (simp add: json_plain_def byte_in_def)

lemma plain_plan_json:
  assumes "grant_plan_json op i n r f = Some j" "request_validate r = None"
    and "MatchString identifierPattern i" "op = ''stage'' \<or> op = ''reconcile''"
  shows "plain_json j"
proof -
  obtain p where p: "time_json (rel_PublishedAt (req_Release r)) = Some p"
    and j: "j = JObj [(''operation'', JStr op), (''self_update_id'', JStr i),
        (''self_update_revision'', JInt n), (''request'', request_json r p), (''fence'', fence_json f)]"
    using assms(1) by (auto simp: grant_plan_json_def)
  have "list_all json_plain op" "plain_json (fence_json f)"
    using assms(4) by (auto simp: json_plain_def byte_in_def fence_json_def)
  then show ?thesis
    using plain_request_json [OF assms(2) plain_time_json [OF p]] plain_patterns(5) [OF assms(3)]
    by (simp add: j) (simp add: json_plain_def byte_in_def)
qed

lemma request_json_inj:
  "request_json r p = request_json r' p' \<Longrightarrow>
   time_json (rel_PublishedAt (req_Release r)) = Some p \<Longrightarrow>
   time_json (rel_PublishedAt (req_Release r')) = Some p' \<Longrightarrow>
   r\<lparr>req_Release := (req_Release r)\<lparr>rel_PublishedAt := zero_time\<rparr>\<rparr> =
   r'\<lparr>req_Release := (req_Release r')\<lparr>rel_PublishedAt := zero_time\<rparr>\<rparr> \<and> p = p'"
  by (cases r; cases r'; cases "req_Release r"; cases "req_Release r'")
    (simp add: request_json_def release_json_def)

lemma plan_json_inj:
  assumes "grant_plan_json op i n r f = Some j" "grant_plan_json op' i' n' r' f' = Some j"
  shows "op = op' \<and> i = i' \<and> n = n' \<and> f = f' \<and>
    r\<lparr>req_Release := (req_Release r)\<lparr>rel_PublishedAt := zero_time\<rparr>\<rparr> =
    r'\<lparr>req_Release := (req_Release r')\<lparr>rel_PublishedAt := zero_time\<rparr>\<rparr> \<and>
    time_json (rel_PublishedAt (req_Release r)) = time_json (rel_PublishedAt (req_Release r'))"
proof -
  obtain p p' where p: "time_json (rel_PublishedAt (req_Release r)) = Some p"
      "time_json (rel_PublishedAt (req_Release r')) = Some p'"
    and j: "j = JObj [(''operation'', JStr op), (''self_update_id'', JStr i),
        (''self_update_revision'', JInt n), (''request'', request_json r p), (''fence'', fence_json f)]"
      "j = JObj [(''operation'', JStr op'), (''self_update_id'', JStr i'),
        (''self_update_revision'', JInt n'), (''request'', request_json r' p'), (''fence'', fence_json f')]"
    using assms by (auto simp: grant_plan_json_def)
  have "fence_json f = fence_json f' \<Longrightarrow> f = f'"
    by (cases f; cases f') (simp add: fence_json_def)
  with j request_json_inj [of r p r' p'] p show ?thesis
    by simp
qed

text \<open>The accepted plan of an authorization, as the text that is hashed.\<close>

definition accepted_plan :: "HostSelfUpdateGrantAuthorization \<Rightarrow> LocalExecutorMutationFence \<Rightarrow> json option" where
  "accepted_plan a fence =
     grant_plan_json (gb_Operation (ga_Binding a)) (gb_SelfUpdateID (ga_Binding a))
       (gb_ExpectedSelfUpdateRevision (ga_Binding a))
       (hostSelfUpdateRequestForGrantBinding (ga_Binding a)) fence"

lemma replay_accepts:
  assumes "validateHostSelfUpdateGrantReplayBinding policy fence operation request agentProof a = None"
  shows "authorization_validate a = None" "gb_Operation (ga_Binding a) = operation"
    "request_validate (hostSelfUpdateRequestForGrantBinding (ga_Binding a)) = None"
    "operation = ''stage'' \<or> operation = ''reconcile''"
    "\<exists>j. accepted_plan a fence = Some j \<and> gb_PlanSHA256 (ga_Binding a) = sha256_hex (marshal j)"
    "MatchString identifierPattern (gb_SelfUpdateID (ga_Binding a))"
proof -
  let ?b = "ga_Binding a"
  have v: "authorization_validate a = None" "\<not> policy_fence_mismatch policy fence operation ?b"
    "request_validate (hostSelfUpdateRequestForGrantBinding ?b) = None"
    "\<not> plan_mismatch operation ?b (hostSelfUpdateRequestForGrantBinding ?b) fence"
    "operation = ''stage'' \<or> operation = ''reconcile''"
    using assms unfolding validateHostSelfUpdateGrantReplayBinding_def Let_def guards
    by (auto split: if_splits)
  then show "authorization_validate a = None"
    "request_validate (hostSelfUpdateRequestForGrantBinding ?b) = None"
    "operation = ''stage'' \<or> operation = ''reconcile''"
    by blast+
  show op: "gb_Operation ?b = operation"
    using v(2) by (simp add: policy_fence_mismatch_def)
  show "\<exists>j. accepted_plan a fence = Some j \<and> gb_PlanSHA256 ?b = sha256_hex (marshal j)"
    using v(4) by (auto simp: plan_mismatch_def hostSelfUpdateGrantPlanSHA256_def accepted_plan_def op
        split: option.splits)
  show "MatchString identifierPattern (gb_SelfUpdateID ?b)"
    using v(1) unfolding authorization_validate_def binding_validate_def guards
    by (simp add: grant_identity_ok_def)
qed

text \<open>
  C24: the plan digest binds the plan. If the executor accepts two grants with the same plan
  digest, and SHA-256 does not collide on the two plan texts, then both grants are for the same
  operation of the same self-update at the same revision, under the same policy fence and for
  release requests that agree in every field but the publication time, whose RFC 3339 text is
  the same.
\<close>

theorem grant_plan_digest_binds:
  assumes "validateHostSelfUpdateGrantReplayBinding p1 f1 op1 r1 pr1 a1 = None"
    and "validateHostSelfUpdateGrantReplayBinding p2 f2 op2 r2 pr2 a2 = None"
    and "gb_PlanSHA256 (ga_Binding a1) = gb_PlanSHA256 (ga_Binding a2)"
    and no_collision: "\<And>x y. accepted_plan a1 f1 = Some x \<Longrightarrow> accepted_plan a2 f2 = Some y \<Longrightarrow>
      sha256_hex (marshal x) = sha256_hex (marshal y) \<Longrightarrow> marshal x = marshal y"
  shows "op1 = op2 \<and> f1 = f2 \<and>
    gb_SelfUpdateID (ga_Binding a1) = gb_SelfUpdateID (ga_Binding a2) \<and>
    gb_ExpectedSelfUpdateRevision (ga_Binding a1) = gb_ExpectedSelfUpdateRevision (ga_Binding a2) \<and>
    (hostSelfUpdateRequestForGrantBinding (ga_Binding a1))
      \<lparr>req_Release := (gb_Release (ga_Binding a1))\<lparr>rel_PublishedAt := zero_time\<rparr>\<rparr> =
    (hostSelfUpdateRequestForGrantBinding (ga_Binding a2))
      \<lparr>req_Release := (gb_Release (ga_Binding a2))\<lparr>rel_PublishedAt := zero_time\<rparr>\<rparr> \<and>
    time_json (rel_PublishedAt (gb_Release (ga_Binding a1))) = time_json (rel_PublishedAt (gb_Release (ga_Binding a2)))"
proof -
  note v1 = replay_accepts [OF assms(1)] and v2 = replay_accepts [OF assms(2)]
  obtain x where x: "accepted_plan a1 f1 = Some x" "gb_PlanSHA256 (ga_Binding a1) = sha256_hex (marshal x)"
    using v1(5) by blast
  obtain y where y: "accepted_plan a2 f2 = Some y" "gb_PlanSHA256 (ga_Binding a2) = sha256_hex (marshal y)"
    using v2(5) by blast
  have "marshal x @ [] = marshal y @ []"
    using no_collision [OF x(1) y(1)] assms(3) x(2) y(2) by simp
  moreover have "plain_json x" "plain_json y"
    using plain_plan_json [OF x(1) [unfolded accepted_plan_def]] v1
      plain_plan_json [OF y(1) [unfolded accepted_plan_def]] v2 by auto
  ultimately have "x = y"
    using marshal_inj [of x y "[]" "[]"] by simp
  with x(1) y(1) v1(2) v2(2) show ?thesis
    using plan_json_inj [OF x(1) [unfolded accepted_plan_def], of "gb_Operation (ga_Binding a2)"
        "gb_SelfUpdateID (ga_Binding a2)" "gb_ExpectedSelfUpdateRevision (ga_Binding a2)"
        "hostSelfUpdateRequestForGrantBinding (ga_Binding a2)" f2]
    by (simp add: accepted_plan_def) (simp add: hostSelfUpdateRequestForGrantBinding_def)
qed

section \<open>A concrete grant\<close>

definition sample_fence :: LocalExecutorMutationFence where
  "sample_fence = \<lparr>fe_SourcePolicyRevision = 3, fe_OwnershipEpoch = 9, fe_OwnershipPolicyRevision = 4,
     fe_ExecutorPolicyRevision = 5\<rparr>"

definition sample_plan :: "string \<Rightarrow> json" where
  "sample_plan operation =
     the (grant_plan_json operation ''self-update-1'' 2 sample_request sample_fence)"

definition sample_binding :: "string \<Rightarrow> HostSelfUpdateGrantBinding" where
  "sample_binding operation = \<lparr>gb_ID = ''grant-1'', gb_SelfUpdateID = ''self-update-1'',
     gb_AttemptGeneration = ''gen-7'', gb_Operation = operation, gb_ExecutionHostID = ''host-1'',
     gb_AgentServiceID = ''agent-1'', gb_ExpectedSelfUpdateRevision = 2,
     gb_ExpectedOwnershipEpoch = 9, gb_ExpectedSourcePolicyRevision = 3,
     gb_ExpectedProjectionRevision = 4, gb_ExpectedLocalExecutorPolicyRevision = 5,
     gb_ExpectedLocalExecutorPolicySHA256 = sha256_digest (marshal (policy_json sample_policy)),
     gb_AgentVersion = ''v1.3.0'', gb_ExecutorVersion = ''v1.3.0'', gb_ReleaseCommit = hex40,
     gb_ArtifactSHA256 = ''sha256:'' @ hex64, gb_AgentProtocolVersion = 2,
     gb_ExecutorProtocolVersion = 2, gb_MutationProtocolVersion = 2, gb_RecoveryProtocolVersion = 2,
     gb_Release = sample_release, gb_DirectiveIssuedAt = sample_time,
     gb_PlanSHA256 = sha256_hex (marshal (sample_plan operation)), gb_SessionID = ''session-1'',
     gb_Revision = 1, gb_IssuedAt = sample_time, gb_ExpiresAt = time_Add sample_time (5 * time_Minute),
     gb_ConsumedAt = None, gb_StageClaimRevision = 0, gb_StageClaimedAt = None,
     gb_CreatedAt = zero_time, gb_UpdatedAt = zero_time\<rparr>"

definition sample_authorization :: "string \<Rightarrow> HostSelfUpdateGrantAuthorization" where
  "sample_authorization operation =
     \<lparr>ga_Binding = sample_binding operation, ga_Token = ''ast_hsug_0123456789''\<rparr>"

lemma identifier_samples [simp]:
  "grant_identity_ok ''grant-1''" "grant_identity_ok ''self-update-1''" "grant_identity_ok ''gen-7''"
  "grant_identity_ok ''host-1''" "grant_identity_ok ''agent-1''" "grant_identity_ok ''session-1''"
  by (simp_all add: grant_identity_ok_def match_eval TrimSpace_graphic graphic_eval)

lemma sample_request_of_binding: "hostSelfUpdateRequestForGrantBinding (sample_binding operation) = sample_request"
  by (simp add: hostSelfUpdateRequestForGrantBinding_def sample_binding_def sample_request_def)

lemma civil_date_zero: "civil_date 0 = (1, 1, 1)"
  by code_simp

lemma sample_published: "time_json \<lparr>instant = 1000, zone = None\<rparr> = Some (JStr (rfc3339 1 1 1 0 1000 0))"
  using civil_date_zero by (simp add: time_json_def time_Second_def)

lemma sample_plan_json:
  "grant_plan_json operation ''self-update-1'' 2 sample_request sample_fence = Some (sample_plan operation)"
proof -
  have "rel_PublishedAt (req_Release sample_request) = \<lparr>instant = 1000, zone = None\<rparr>"
    by (simp add: sample_request_def sample_release_def)
  then show ?thesis
    unfolding sample_plan_def grant_plan_json_def by (simp only: sample_published option.map option.sel)
qed

lemma sample_release_matches: "matchesRequest sample_release (binding_request (sample_binding operation))"
  by (simp add: matchesRequest_def binding_request_def sample_binding_def sample_release_def go_string)

lemma sample_authorization_valid:
  assumes "operation = ''stage'' \<or> operation = ''reconcile''"
  shows "authorization_validate (sample_authorization operation) = None"
proof -
  have "binding_validate (sample_binding operation) False = None"
    using assms sample_release_matches [of operation]
    unfolding binding_validate_def guards
    by (simp add: receipt_check_def) (auto simp: sample_binding_def sample_time_def time_defs
        HostSelfUpdateRecoveryProtocolVersion_def)
  then show ?thesis
    by (simp add: authorization_validate_def sample_authorization_def go_string validBoundedSecret_def
        less_eq_char_def)
qed

lemma sample_replay:
  "validateHostSelfUpdateGrantReplayBinding sample_policy sample_fence ''stage'' (Some sample_request) None
     (sample_authorization ''stage'') = None"
proof -
  have fields: "ga_Binding (sample_authorization ''stage'') = sample_binding ''stage''"
    by (simp add: sample_authorization_def)
  have fence: "\<not> policy_fence_mismatch sample_policy sample_fence ''stage'' (sample_binding ''stage'')"
    by (simp add: policy_fence_mismatch_def sample_binding_def sample_policy_def sample_fence_def)
  have digest: "policy_SHA256 sample_policy = Inr (gb_ExpectedLocalExecutorPolicySHA256 (sample_binding ''stage''))"
    by (simp add: policy_SHA256_def sample_binding_def)
  have "gb_SelfUpdateID (sample_binding ''stage'') = ''self-update-1''"
    "gb_ExpectedSelfUpdateRevision (sample_binding ''stage'') = 2"
    "gb_PlanSHA256 (sample_binding ''stage'') = sha256_hex (marshal (sample_plan ''stage''))"
    by (simp_all add: sample_binding_def)
  then have plan: "\<not> plan_mismatch ''stage'' (sample_binding ''stage'') sample_request sample_fence"
    by (simp add: plan_mismatch_def hostSelfUpdateGrantPlanSHA256_def sample_plan_json)
  show ?thesis
    using sample_authorization_valid [of "''stage''"]
    by (simp add: validateHostSelfUpdateGrantReplayBinding_def fields fence digest plan
        sample_request_of_binding sameHostSelfUpdateRequestIdentity_def)
qed

text \<open>A second grant for the same plan, with an identity, a session and a token of its own.\<close>

definition sample_reissued :: HostSelfUpdateGrantAuthorization where
  "sample_reissued = \<lparr>ga_Binding = (sample_binding ''stage'')\<lparr>gb_ID := ''grant-2'', gb_SessionID := ''session-2''\<rparr>,
     ga_Token = ''ast_hsug_9876543210''\<rparr>"

lemma sample_reissued_valid: "authorization_validate sample_reissued = None"
proof -
  let ?b = "(sample_binding ''stage'')\<lparr>gb_ID := ''grant-2'', gb_SessionID := ''session-2''\<rparr>"
  have ids: "grant_identity_ok ''grant-2''" "grant_identity_ok ''session-2''"
    by (simp_all add: grant_identity_ok_def match_eval TrimSpace_graphic graphic_eval)
  have "binding_request ?b = binding_request (sample_binding ''stage'')"
    by (simp add: binding_request_def)
  then have "matchesRequest sample_release (binding_request ?b)"
    using sample_release_matches by simp
  then have "binding_validate ?b False = None"
    unfolding binding_validate_def guards
    by (simp add: receipt_check_def ids) (auto simp: sample_binding_def sample_time_def time_defs
        HostSelfUpdateRecoveryProtocolVersion_def)
  then show ?thesis
    by (simp add: authorization_validate_def sample_reissued_def go_string validBoundedSecret_def less_eq_char_def)
qed

lemma sample_reissued_replay:
  "validateHostSelfUpdateGrantReplayBinding sample_policy sample_fence ''stage'' (Some sample_request) None sample_reissued = None"
proof -
  let ?b = "(sample_binding ''stage'')\<lparr>gb_ID := ''grant-2'', gb_SessionID := ''session-2''\<rparr>"
  have fields: "ga_Binding sample_reissued = ?b"
    by (simp add: sample_reissued_def)
  have fence: "\<not> policy_fence_mismatch sample_policy sample_fence ''stage'' ?b"
    by (simp add: policy_fence_mismatch_def sample_binding_def sample_policy_def sample_fence_def)
  have digest: "policy_SHA256 sample_policy = Inr (gb_ExpectedLocalExecutorPolicySHA256 ?b)"
    by (simp add: policy_SHA256_def sample_binding_def)
  have request: "hostSelfUpdateRequestForGrantBinding ?b = sample_request"
    using sample_request_of_binding [of "''stage''"] by (simp add: hostSelfUpdateRequestForGrantBinding_def)
  have "gb_SelfUpdateID ?b = ''self-update-1''" "gb_ExpectedSelfUpdateRevision ?b = 2"
    "gb_PlanSHA256 ?b = sha256_hex (marshal (sample_plan ''stage''))"
    by (simp_all add: sample_binding_def)
  then have plan: "\<not> plan_mismatch ''stage'' ?b sample_request sample_fence"
    by (simp add: plan_mismatch_def hostSelfUpdateGrantPlanSHA256_def sample_plan_json)
  show ?thesis
    using sample_reissued_valid
    by (simp add: validateHostSelfUpdateGrantReplayBinding_def fields fence digest plan request
        sameHostSelfUpdateRequestIdentity_def)
qed

theorem grant_plan_digest_binds_witness:
  "sample_authorization ''stage'' \<noteq> sample_reissued \<and>
   gb_SelfUpdateID (ga_Binding (sample_authorization ''stage'')) = gb_SelfUpdateID (ga_Binding sample_reissued) \<and>
   time_json (rel_PublishedAt (gb_Release (ga_Binding (sample_authorization ''stage'')))) =
   time_json (rel_PublishedAt (gb_Release (ga_Binding sample_reissued)))"
proof -
  have differ: "sample_authorization ''stage'' \<noteq> sample_reissued"
    by (simp add: sample_authorization_def sample_reissued_def)
  have digest: "gb_PlanSHA256 (ga_Binding (sample_authorization ''stage'')) = gb_PlanSHA256 (ga_Binding sample_reissued)"
    by (simp add: sample_authorization_def sample_reissued_def)
  have request: "hostSelfUpdateRequestForGrantBinding ((sample_binding ''stage'')\<lparr>gb_ID := i, gb_SessionID := n\<rparr>) =
      hostSelfUpdateRequestForGrantBinding (sample_binding ''stage'')" for i n
    by (simp add: hostSelfUpdateRequestForGrantBinding_def)
  have "accepted_plan (sample_authorization ''stage'') sample_fence = accepted_plan sample_reissued sample_fence"
    by (simp add: accepted_plan_def sample_authorization_def sample_reissued_def request)
  then have "marshal x = marshal y"
    if "accepted_plan (sample_authorization ''stage'') sample_fence = Some x" "accepted_plan sample_reissued sample_fence = Some y" for x y
    using that by simp
  from grant_plan_digest_binds [OF sample_replay sample_reissued_replay digest this] differ show ?thesis
    by blast
qed

end
