(* ===== verification/World.thy ===== *)
theory World
  imports Go_Prelude
begin

text \<open>
  Programs over an explicit world, the fault script every operating-system call consumes,
  regular files with the metadata the source checks, and the postcondition calculus.
\<close>

section \<open>Faults\<close>

text \<open>
  One entry per call. \<open>Fine\<close>: the call succeeds. \<open>Refused\<close>: it fails and changes
  nothing. \<open>Late\<close>: its effect is visible but it reports an error (for instance the
  directory \<open>fsync\<close> after a successful \<open>rename\<close>). \<open>Die\<close>, \<open>DieLate\<close>: the
  process stops before or after the effect. An empty script means that every further
  call succeeds.
\<close>

datatype fault = Fine | Refused | Late | Die | DieLate

record io_world =
  script :: "fault list"

datatype 'a outcome = Ok 'a | Err go_error | Crash

type_synonym ('w, 'a) prog = "'w \<Rightarrow> 'a outcome \<times> 'w"

definition returnP :: "'a \<Rightarrow> ('w, 'a) prog" where
  "returnP x w = (Ok x, w)"

definition failP :: "go_error \<Rightarrow> ('w, 'a) prog" where
  "failP e w = (Err e, w)"

definition bindP :: "('w, 'a) prog \<Rightarrow> ('a \<Rightarrow> ('w, 'b) prog) \<Rightarrow> ('w, 'b) prog" where
  "bindP m f w =
     (case m w of
        (Ok x, w') \<Rightarrow> f x w'
      | (Err e, w') \<Rightarrow> (Err e, w')
      | (Crash, w') \<Rightarrow> (Crash, w'))"

text \<open>\<open>tryP m h k\<close> is \<open>if x, err := m; err != nil { h err } else { k x }\<close>.\<close>

definition tryP ::
  "('w, 'a) prog \<Rightarrow> (go_error \<Rightarrow> ('w, 'b) prog) \<Rightarrow> ('a \<Rightarrow> ('w, 'b) prog) \<Rightarrow> ('w, 'b) prog" where
  "tryP m h k w =
     (case m w of
        (Ok x, w') \<Rightarrow> k x w'
      | (Err e, w') \<Rightarrow> h e w'
      | (Crash, w') \<Rightarrow> (Crash, w'))"

definition checkP :: "go_error option \<Rightarrow> ('w, unit) prog" where
  "checkP r = (case r of None \<Rightarrow> returnP () | Some e \<Rightarrow> failP e)"

definition resultP :: "'a result \<Rightarrow> ('w, 'a) prog" where
  "resultP r = (case r of Inl e \<Rightarrow> failP e | Inr x \<Rightarrow> returnP x)"

definition getP :: "('w \<Rightarrow> 'a) \<Rightarrow> ('w, 'a) prog" where
  "getP f w = (Ok (f w), w)"

definition thenP :: "('w, unit) prog \<Rightarrow> ('w, 'b) prog \<Rightarrow> ('w, 'b) prog" where
  "thenP m n = bindP m (\<lambda>_. n)"

text \<open>\<open>if err := m; err != nil { return f(err) }\<close>.\<close>

definition mapErrP :: "(go_error \<Rightarrow> go_error) \<Rightarrow> ('w, 'a) prog \<Rightarrow> ('w, 'a) prog" where
  "mapErrP f m = tryP m (\<lambda>e. failP (f e)) returnP"

text \<open>A deferred \<open>c\<close> that runs after \<open>m\<close> returned; if only \<open>c\<close> fails its error is returned.\<close>

definition finallyP :: "('w, 'a) prog \<Rightarrow> ('w, unit) prog \<Rightarrow> ('w, 'a) prog" where
  "finallyP m c = tryP m (\<lambda>e. tryP c (\<lambda>_. failP e) (\<lambda>_. failP e)) (\<lambda>x. bindP c (\<lambda>_. returnP x))"

text \<open>\<open>defer c\<close> where the error of \<open>c\<close> is dropped.\<close>

definition deferP :: "('w, 'a) prog \<Rightarrow> ('w, unit) prog \<Rightarrow> ('w, 'a) prog" where
  "deferP m c = tryP m (\<lambda>e. tryP c (\<lambda>_. failP e) (\<lambda>_. failP e)) (\<lambda>x. tryP c (\<lambda>_. returnP x) (\<lambda>_. returnP x))"

text \<open>An error that is ignored: \<open>_ = m\<close>.\<close>

definition ignoreP :: "('w, unit) prog \<Rightarrow> ('w, unit) prog" where
  "ignoreP m = tryP m (\<lambda>_. returnP ()) returnP"

primrec forP :: "'a list \<Rightarrow> ('a \<Rightarrow> ('w, unit) prog) \<Rightarrow> ('w, unit) prog" where
  "forP [] f = returnP ()"
| "forP (x # xs) f = thenP (f x) (forP xs f)"

text \<open>The two primitive calls: one that reads the world, one that changes it.\<close>

definition observeP :: "('r io_world_scheme \<Rightarrow> 'a) \<Rightarrow> ('r io_world_scheme, 'a) prog" where
  "observeP f w =
     (case script w of
        [] \<Rightarrow> (Ok (f w), w)
      | Fine # fs \<Rightarrow> (Ok (f w), w\<lparr>script := fs\<rparr>)
      | Refused # fs \<Rightarrow> (Err OSFailure, w\<lparr>script := fs\<rparr>)
      | Late # fs \<Rightarrow> (Err OSFailure, w\<lparr>script := fs\<rparr>)
      | Die # fs \<Rightarrow> (Crash, w\<lparr>script := fs\<rparr>)
      | DieLate # fs \<Rightarrow> (Crash, w\<lparr>script := fs\<rparr>))"

definition effectP ::
  "('r io_world_scheme \<Rightarrow> 'r io_world_scheme) \<Rightarrow> ('r io_world_scheme, unit) prog" where
  "effectP f w =
     (case script w of
        [] \<Rightarrow> (Ok (), f w)
      | Fine # fs \<Rightarrow> (Ok (), f (w\<lparr>script := fs\<rparr>))
      | Refused # fs \<Rightarrow> (Err OSFailure, w\<lparr>script := fs\<rparr>)
      | Late # fs \<Rightarrow> (Err OSFailure, f (w\<lparr>script := fs\<rparr>))
      | Die # fs \<Rightarrow> (Crash, w\<lparr>script := fs\<rparr>)
      | DieLate # fs \<Rightarrow> (Crash, f (w\<lparr>script := fs\<rparr>)))"

lemmas prog_defs = returnP_def failP_def bindP_def tryP_def checkP_def resultP_def getP_def
  observeP_def effectP_def

section \<open>Files\<close>

text \<open>
  What \<open>os.Lstat\<close> reports and the source checks, and what decoding the bytes of a file
  with a strict \<open>json.Decoder\<close> gives: a value, a value followed by further data, or an
  error.
\<close>

record file_meta =
  is_dir :: bool
  is_regular :: bool
  is_symlink :: bool
  perm :: nat
  size_bytes :: int
  root_owned :: bool

datatype 'a content = Decodes 'a | TrailingData 'a | Undecodable

datatype 'a disk_file = NoFile | DiskFile file_meta "'a content"

definition private_file :: "int \<Rightarrow> file_meta" where
  "private_file n = \<lparr>is_dir = False, is_regular = True, is_symlink = False, perm = 384,
     size_bytes = n, root_owned = True\<rparr>"

section \<open>Postconditions\<close>

text \<open>
  \<open>spec P m Q X\<close>: started in a world satisfying \<open>P\<close>, a normal return \<open>x\<close> ends
  in a world satisfying \<open>Q x\<close>, and an error or the death of the process ends in a world
  satisfying \<open>X\<close>.
\<close>

definition spec ::
  "('w \<Rightarrow> bool) \<Rightarrow> ('w, 'a) prog \<Rightarrow> ('a \<Rightarrow> 'w \<Rightarrow> bool) \<Rightarrow> ('w \<Rightarrow> bool) \<Rightarrow> bool" where
  "spec P m Q X \<longleftrightarrow>
     (\<forall>w. P w \<longrightarrow> (case m w of
        (Ok x, w') \<Rightarrow> Q x w'
      | (Err e, w') \<Rightarrow> X w'
      | (Crash, w') \<Rightarrow> X w'))"

definition keeps :: "('w \<Rightarrow> bool) \<Rightarrow> ('w, 'a) prog \<Rightarrow> bool" where
  "keeps I m \<longleftrightarrow> spec I m (\<lambda>_. I) I"

lemma specD_Ok: "spec P m Q X \<Longrightarrow> P w \<Longrightarrow> m w = (Ok x, w') \<Longrightarrow> Q x w'"
  by (force simp: spec_def)

lemma specD_Err: "spec P m Q X \<Longrightarrow> P w \<Longrightarrow> m w = (Err e, w') \<Longrightarrow> X w'"
  by (force simp: spec_def)

lemma specD_Crash: "spec P m Q X \<Longrightarrow> P w \<Longrightarrow> m w = (Crash, w') \<Longrightarrow> X w'"
  by (force simp: spec_def)

lemma spec_conseq:
  assumes "spec P' m Q' X'"
    and "\<And>w. P w \<Longrightarrow> P' w" "\<And>x w. Q' x w \<Longrightarrow> Q x w" "\<And>w. X' w \<Longrightarrow> X w"
  shows "spec P m Q X"
  using assms unfolding spec_def by (fastforce split: prod.splits outcome.splits)

lemma spec_return [spec_intro]: "(\<And>w. P w \<Longrightarrow> Q x w) \<Longrightarrow> spec P (returnP x) Q X"
  by (simp add: spec_def returnP_def)

lemma spec_fail [spec_intro]: "(\<And>w. P w \<Longrightarrow> X w) \<Longrightarrow> spec P (failP e) Q X"
  by (simp add: spec_def failP_def)

lemma spec_bind:
  assumes "spec P m R X" and "\<And>x. spec (R x) (f x) Q X"
  shows "spec P (bindP m f) Q X"
  using assms unfolding spec_def bindP_def
  by (fastforce split: prod.splits outcome.splits)

lemma spec_try:
  assumes "spec P m R Y" and "\<And>e. spec Y (h e) Q X" and "\<And>x. spec (R x) (k x) Q X"
    and "\<And>w. Y w \<Longrightarrow> X w"
  shows "spec P (tryP m h k) Q X"
  using assms unfolding spec_def tryP_def
  by (fastforce split: prod.splits outcome.splits)

lemma spec_check:
  "(\<And>w. P w \<Longrightarrow> r = None \<Longrightarrow> Q () w) \<Longrightarrow> (\<And>w. P w \<Longrightarrow> X w) \<Longrightarrow> spec P (checkP r) Q X"
  by (auto simp: spec_def checkP_def returnP_def failP_def split: option.splits)

lemma spec_result:
  "(\<And>x w. P w \<Longrightarrow> r = Inr x \<Longrightarrow> Q x w) \<Longrightarrow> (\<And>w. P w \<Longrightarrow> X w) \<Longrightarrow> spec P (resultP r) Q X"
  by (auto simp: spec_def resultP_def returnP_def failP_def split: sum.splits)

lemma spec_get [spec_intro]: "(\<And>w. P w \<Longrightarrow> Q (f w) w) \<Longrightarrow> spec P (getP f) Q X"
  by (simp add: spec_def getP_def)

lemma spec_if [spec_intro]:
  "(b \<Longrightarrow> spec P m Q X) \<Longrightarrow> (\<not> b \<Longrightarrow> spec P n Q X) \<Longrightarrow> spec P (if b then m else n) Q X"
  by simp

lemma spec_observe:
  assumes "\<And>w fs. P w \<Longrightarrow> P (w\<lparr>script := fs\<rparr>)"
    and "\<And>w. P w \<Longrightarrow> Q (f w) w" and "\<And>w fs. P w \<Longrightarrow> Q (f w) (w\<lparr>script := fs\<rparr>)"
    and "\<And>w. P w \<Longrightarrow> X w"
  shows "spec P (observeP f) Q X"
  using assms unfolding spec_def observeP_def
  by (fastforce split: list.splits fault.splits)

lemma spec_effect:
  assumes "\<And>w fs. P w \<Longrightarrow> P (w\<lparr>script := fs\<rparr>)"
    and "\<And>w. P w \<Longrightarrow> Q () (f w)" and "\<And>w. P w \<Longrightarrow> X w" and "\<And>w. P w \<Longrightarrow> X (f w)"
  shows "spec P (effectP f) Q X"
  using assms unfolding spec_def effectP_def
  by (fastforce split: list.splits fault.splits)

lemma keepsD: "keeps I m \<Longrightarrow> I w \<Longrightarrow> I (snd (m w))"
  unfolding keeps_def spec_def by (fastforce split: prod.splits outcome.splits)

lemma keepsI: "(\<And>w. I w \<Longrightarrow> I (snd (m w))) \<Longrightarrow> keeps I m"
  unfolding keeps_def spec_def by (fastforce split: prod.splits outcome.splits)

lemma keeps_return [simp, intro]: "keeps I (returnP x)"
  by (simp add: keeps_def spec_def returnP_def)

lemma keeps_fail [simp, intro]: "keeps I (failP e)"
  by (simp add: keeps_def spec_def failP_def)

lemma keeps_get [simp, intro]: "keeps I (getP f)"
  by (simp add: keeps_def spec_def getP_def)

lemma keeps_check [simp, intro]: "keeps I (checkP r)"
  by (simp add: checkP_def split: option.splits)

lemma keeps_result [simp, intro]: "keeps I (resultP r)"
  by (simp add: resultP_def split: sum.splits)

lemma keeps_bind [intro]: "keeps I m \<Longrightarrow> (\<And>x. keeps I (f x)) \<Longrightarrow> keeps I (bindP m f)"
  unfolding keeps_def by (rule spec_bind)

lemma keeps_try [intro]:
  "keeps I m \<Longrightarrow> (\<And>e. keeps I (h e)) \<Longrightarrow> (\<And>x. keeps I (k x)) \<Longrightarrow> keeps I (tryP m h k)"
  unfolding keeps_def by (rule spec_try)

lemma keeps_observe [intro]: "(\<And>w fs. I w \<Longrightarrow> I (w\<lparr>script := fs\<rparr>)) \<Longrightarrow> keeps I (observeP f)"
  unfolding keeps_def by (rule spec_observe) auto

lemma keeps_effect [intro]:
  "(\<And>w fs. I w \<Longrightarrow> I (w\<lparr>script := fs\<rparr>)) \<Longrightarrow> (\<And>w. I w \<Longrightarrow> I (f w)) \<Longrightarrow> keeps I (effectP f)"
  unfolding keeps_def by (rule spec_effect) auto

text \<open>A call whose only effect on the world is that it may fail, such as \<open>fsync\<close>.\<close>

definition syscallP :: "('r io_world_scheme, unit) prog" where
  "syscallP = observeP (\<lambda>_. ())"

text \<open>\<open>os.Lstat\<close> of a path \<open>f\<close> looks up.\<close>

definition lookupP :: "('r io_world_scheme \<Rightarrow> 'a option) \<Rightarrow> ('r io_world_scheme, 'a) prog" where
  "lookupP f = bindP (observeP f) (\<lambda>r. case r of None \<Rightarrow> failP NotExist | Some x \<Rightarrow> returnP x)"

section \<open>Rules with facts about values\<close>

lemma spec_pure: "(\<phi> \<Longrightarrow> spec P m Q X) \<Longrightarrow> spec (\<lambda>w. P w \<and> \<phi>) m Q X"
  by (auto simp: spec_def)

lemma spec_true: "spec P m Q X \<Longrightarrow> (\<And>x w. Q x w \<Longrightarrow> Q' x w) \<Longrightarrow> spec P m Q' X"
  by (rule spec_conseq)

lemma spec_pre: "spec P m Q X \<Longrightarrow> (\<And>w. P' w \<Longrightarrow> P w) \<Longrightarrow> spec P' m Q X"
  by (rule spec_conseq)

lemma spec_conj: "spec P m Q X \<Longrightarrow> spec P m R X \<Longrightarrow> spec P m (\<lambda>x w. Q x w \<and> R x w) X"
  unfolding spec_def by (fastforce split: prod.splits outcome.splits)

lemma keeps_spec: "keeps I m \<Longrightarrow> spec I m (\<lambda>_. I) I"
  by (simp add: keeps_def)

lemma keeps_then [intro]: "keeps I m \<Longrightarrow> keeps I n \<Longrightarrow> keeps I (thenP m n)"
  unfolding thenP_def by blast

lemma keeps_mapErr [intro]: "keeps I m \<Longrightarrow> keeps I (mapErrP f m)"
  unfolding mapErrP_def by blast

lemma keeps_finally [intro]: "keeps I m \<Longrightarrow> keeps I c \<Longrightarrow> keeps I (finallyP m c)"
  unfolding finallyP_def by blast

lemma keeps_defer [intro]: "keeps I m \<Longrightarrow> keeps I c \<Longrightarrow> keeps I (deferP m c)"
  unfolding deferP_def by blast

lemma keeps_ignore [intro]: "keeps I m \<Longrightarrow> keeps I (ignoreP m)"
  unfolding ignoreP_def by blast

lemma keeps_for [intro]: "(\<And>x. x \<in> set xs \<Longrightarrow> keeps I (f x)) \<Longrightarrow> keeps I (forP xs f)"
  by (induction xs) auto

lemma spec_then: "spec P m (\<lambda>_. R) X \<Longrightarrow> spec R n Q X \<Longrightarrow> spec P (thenP m n) Q X"
  unfolding thenP_def by (rule spec_bind)

lemma spec_mapErr: "spec P m Q X \<Longrightarrow> spec P (mapErrP f m) Q X"
  unfolding mapErrP_def
  by (rule spec_try [where R = Q and Y = X]) (auto intro: spec_fail spec_return)

section \<open>Frames\<close>

text \<open>
  \<open>preserves f m\<close>: whatever happens, \<open>m\<close> leaves the part \<open>f\<close> of the world as it
  found it.
\<close>

definition preserves :: "('w \<Rightarrow> 'v) \<Rightarrow> ('w, 'a) prog \<Rightarrow> bool" where
  "preserves f m \<longleftrightarrow> (\<forall>w. f (snd (m w)) = f w)"

definition script_free :: "('r io_world_scheme \<Rightarrow> 'v) \<Rightarrow> bool" where
  "script_free f \<longleftrightarrow> (\<forall>w fs. f (w\<lparr>script := fs\<rparr>) = f w)"

named_theorems frame \<open>which parts of the world a program leaves alone\<close>

lemma preservesD: "preserves f m \<Longrightarrow> f (snd (m w)) = f w"
  by (simp add: preserves_def)

lemma preserves_return [frame]: "preserves f (returnP x)"
  by (simp add: preserves_def returnP_def)

lemma preserves_fail [frame]: "preserves f (failP e)"
  by (simp add: preserves_def failP_def)

lemma preserves_get [frame]: "preserves f (getP g)"
  by (simp add: preserves_def getP_def)

lemma preserves_check [frame]: "preserves f (checkP r)"
  by (simp add: preserves_def checkP_def returnP_def failP_def split: option.splits)

lemma preserves_result [frame]: "preserves f (resultP r)"
  by (simp add: preserves_def resultP_def returnP_def failP_def split: sum.splits)

lemma preserves_observe [frame]: "script_free f \<Longrightarrow> preserves f (observeP g)"
  by (auto simp: preserves_def observeP_def script_free_def split: list.splits fault.splits)

lemma preserves_effect [frame]:
  "script_free f \<Longrightarrow> (\<And>w. f (g w) = f w) \<Longrightarrow> preserves f (effectP g)"
  by (auto simp: preserves_def effectP_def script_free_def split: list.splits fault.splits)

lemma preserves_bind [frame]:
  "preserves f m \<Longrightarrow> (\<And>x. preserves f (k x)) \<Longrightarrow> preserves f (bindP m k)"
  unfolding preserves_def bindP_def by (auto split: prod.splits outcome.splits) (metis snd_conv)+

lemma preserves_try [frame]:
  "preserves f m \<Longrightarrow> (\<And>e. preserves f (h e)) \<Longrightarrow> (\<And>x. preserves f (k x)) \<Longrightarrow>
     preserves f (tryP m h k)"
  unfolding preserves_def tryP_def by (auto split: prod.splits outcome.splits) (metis snd_conv)+

lemma preserves_then [frame]: "preserves f m \<Longrightarrow> preserves f n \<Longrightarrow> preserves f (thenP m n)"
  unfolding thenP_def by (intro frame)

lemma preserves_mapErr [frame]: "preserves f m \<Longrightarrow> preserves f (mapErrP g m)"
  unfolding mapErrP_def by (intro frame)

lemma preserves_finally [frame]: "preserves f m \<Longrightarrow> preserves f c \<Longrightarrow> preserves f (finallyP m c)"
  unfolding finallyP_def by (intro frame)

lemma preserves_defer [frame]: "preserves f m \<Longrightarrow> preserves f c \<Longrightarrow> preserves f (deferP m c)"
  unfolding deferP_def by (intro frame)

lemma preserves_ignore [frame]: "preserves f m \<Longrightarrow> preserves f (ignoreP m)"
  unfolding ignoreP_def by (intro frame)

lemma preserves_for [frame]: "(\<And>x. x \<in> set xs \<Longrightarrow> preserves f (g x)) \<Longrightarrow> preserves f (forP xs g)"
  by (induction xs) (auto intro: frame)

lemma preserves_syscall [frame]: "script_free f \<Longrightarrow> preserves f syscallP"
  unfolding syscallP_def by (intro frame)

lemma preserves_lookup [frame]: "script_free f \<Longrightarrow> preserves f (lookupP g)"
  unfolding lookupP_def by (auto intro!: frame split: option.split)

lemma preserves_if [frame]: "preserves f m \<Longrightarrow> preserves f n \<Longrightarrow> preserves f (if b then m else n)"
  by simp

lemma preserves_option [frame]:
  "preserves f m \<Longrightarrow> (\<And>x. preserves f (k x)) \<Longrightarrow> preserves f (case r of None \<Rightarrow> m | Some x \<Rightarrow> k x)"
  by (simp split: option.split)

lemma preserves_prod [frame]: "(\<And>x y. preserves f (k x y)) \<Longrightarrow> preserves f (case r of (x, y) \<Rightarrow> k x y)"
  by (simp split: prod.split)

lemma preserves_let [frame]: "preserves f (k x) \<Longrightarrow> preserves f (let y = x in k y)"
  by simp

lemma preserves_comp: "preserves f m \<Longrightarrow> preserves (\<lambda>w. g (f w)) m"
  by (simp add: preserves_def)

lemma preserves_keeps: "preserves f m \<Longrightarrow> (\<And>w w'. f w = f w' \<Longrightarrow> I w \<Longrightarrow> I w') \<Longrightarrow> keeps I m"
  by (rule keepsI) (metis preserves_def)

section \<open>Rules for invariants\<close>

named_theorems keep \<open>which predicates a program keeps\<close>

lemma keeps_if: "keeps I m \<Longrightarrow> keeps I n \<Longrightarrow> keeps I (if b then m else n)"
  by simp

lemma keeps_option:
  "keeps I m \<Longrightarrow> (\<And>x. keeps I (k x)) \<Longrightarrow> keeps I (case r of None \<Rightarrow> m | Some x \<Rightarrow> k x)"
  by (simp split: option.split)

lemma keeps_prod: "(\<And>x y. keeps I (k x y)) \<Longrightarrow> keeps I (case r of (x, y) \<Rightarrow> k x y)"
  by (simp split: prod.split)

lemmas [keep] = keeps_return keeps_fail keeps_get keeps_check keeps_result keeps_bind keeps_try
  keeps_then keeps_mapErr keeps_finally keeps_defer keeps_ignore keeps_for keeps_option keeps_prod

text \<open>The branches of a lookup with its three outcomes.\<close>

lemma spec_lookup:
  assumes "\<And>w fs. P w \<Longrightarrow> P (w\<lparr>script := fs\<rparr>)" "script_free f" "\<And>w. P w \<Longrightarrow> X w"
    and "\<And>x. spec (\<lambda>w. P w \<and> f w = Some x) (k x) Q X"
    and "spec (\<lambda>w. P w \<and> f w = None) (h NotExist) Q X"
    and "spec P (h OSFailure) Q X"
  shows "spec P (tryP (lookupP f) h k) Q X"
  unfolding spec_def
proof (intro allI impI)
  fix w assume P: "P w"
  have Pfs: "P (w\<lparr>script := fs\<rparr>)" and ffs: "f (w\<lparr>script := fs\<rparr>) = f w" for fs
    using assms(1,2) P by (auto simp: script_free_def)
  note ks = assms(4) [unfolded spec_def, rule_format]
    and hN = assms(5) [unfolded spec_def, rule_format] and hO = assms(6) [unfolded spec_def, rule_format]
  show "case tryP (lookupP f) h k w of (Ok x, w') \<Rightarrow> Q x w' | (Err e, w') \<Rightarrow> X w' | (Crash, w') \<Rightarrow> X w'"
    by (cases "f w"; cases "script w" rule: list.exhaust; (cases "hd (script w)")?)
      (use P Pfs ffs assms(3) in \<open>auto simp: tryP_def lookupP_def bindP_def observeP_def failP_def
         returnP_def intro!: ks hN hO\<close>)
qed

section \<open>Runs without faults\<close>

text \<open>Calls in a world where nothing fails.\<close>

named_theorems calm \<open>runs in a world without faults\<close>

lemma calm_calls [calm]:
  "script w = [] \<Longrightarrow> syscallP w = (Ok (), w)"
  "script w = [] \<Longrightarrow> effectP f w = (Ok (), f w)"
  "script w = [] \<Longrightarrow> observeP g w = (Ok (g w), w)"
  "script w = [] \<Longrightarrow> lookupP h w = (case h w of None \<Rightarrow> (Err NotExist, w) | Some x \<Rightarrow> (Ok x, w))"
  by (simp_all add: syscallP_def effectP_def observeP_def lookupP_def bindP_def failP_def returnP_def split: option.split)

lemmas [calm] = thenP_def bindP_def tryP_def mapErrP_def returnP_def failP_def getP_def checkP_def

end
