(* ===== verification/Durable.thy ===== *)
theory Durable
  imports World
begin

text \<open>
  The contract of a record kept in one private file: what a load reports is what the file
  holds, and a save leaves the old file or the new record, whatever call fails and wherever
  the process stops. The users of a record rely on these laws only.
\<close>

definition holds :: "'r \<Rightarrow> 'r disk_file \<Rightarrow> bool" where
  "holds r f \<longleftrightarrow> (\<exists>m. f = DiskFile m (Decodes r))"

section \<open>Reading and writing one file\<close>

definition timeless :: "'z io_world_scheme \<Rightarrow> 'z io_world_scheme" where
  "timeless w = w\<lparr>script := []\<rparr>"

lemma script_free_timeless [simp]: "script_free timeless"
  by (simp add: script_free_def timeless_def)

lemma timeless_reads: "preserves timeless m \<Longrightarrow> \<exists>fs. snd (m w) = w\<lparr>script := fs\<rparr>"
proof -
  assume "preserves timeless m"
  from preservesD [OF this, of w] have "(snd (m w))\<lparr>script := []\<rparr> = w\<lparr>script := []\<rparr>"
    by (simp add: timeless_def)
  then have "snd (m w) = w\<lparr>script := script (snd (m w))\<rparr>"
    by (cases w; cases "snd (m w)") simp
  then show ?thesis
    by blast
qed

text \<open>A write that is read back before it counts.\<close>

lemma spec_write:
  assumes "\<And>w fs. P w \<Longrightarrow> P (w\<lparr>script := fs\<rparr>)" "\<And>w fs. N w \<Longrightarrow> N (w\<lparr>script := fs\<rparr>)"
    and "\<And>w. P w \<Longrightarrow> X w" "\<And>w. N w \<Longrightarrow> X w" "\<And>w. P w \<Longrightarrow> N (f w)" "script_free g"
  shows "spec P (thenP (effectP f) (tryP (lookupP g) (\<lambda>_. failP e)
     (\<lambda>info. if c info then failP e' else returnP ()))) (\<lambda>_. N) X"
proof (rule spec_then)
  show "spec N (tryP (lookupP g) (\<lambda>_. failP e) (\<lambda>info. if c info then failP e' else returnP ())) (\<lambda>_. N) X"
    by (rule spec_lookup) (use assms in \<open>auto intro!: spec_fail spec_return\<close>)
  show "spec P (effectP f) (\<lambda>_. N) X"
    by (rule spec_effect) (use assms in auto)
qed

lemma write_atomic:
  assumes "\<And>w fs. put (w\<lparr>script := fs\<rparr>) = (put w)\<lparr>script := fs\<rparr>" "script_free g"
    and m: "m = thenP (effectP put) (tryP (lookupP g) (\<lambda>_. failP e)
      (\<lambda>info. if c info then failP e' else returnP ()))"
  shows "(\<exists>fs. snd (m w) = w\<lparr>script := fs\<rparr> \<and> fst (m w) \<noteq> Ok ()) \<or> (\<exists>fs. snd (m w) = put (w\<lparr>script := fs\<rparr>))"
proof -
  let ?P = "\<lambda>v. \<exists>fs. v = w\<lparr>script := fs\<rparr>" and ?N = "\<lambda>v. \<exists>fs. v = put (w\<lparr>script := fs\<rparr>)"
  have "spec ?P m (\<lambda>_. ?N) (\<lambda>v. ?P v \<or> ?N v)"
    unfolding m by (rule spec_write) (use assms(1,2) in auto)
  moreover have "?P w"
    by (rule exI [of _ "script w"]) simp
  ultimately show ?thesis
    unfolding spec_def by (cases "m w"; cases "fst (m w)") force+
qed

section \<open>The contract\<close>

text \<open>
  What the outcome of a load says about the file: nothing, that there is none, or the record
  it holds.
\<close>

primrec tells :: "'r option option \<Rightarrow> 'r disk_file \<Rightarrow> bool" where
  "tells None f = True"
| "tells (Some r) f = (case r of None \<Rightarrow> f = NoFile | Some r' \<Rightarrow> holds r' f)"

lemma holds_unique: "holds r f \<Longrightarrow> holds r' f \<Longrightarrow> r' = r" "\<not> holds r NoFile" "holds r (DiskFile m (Decodes r))"
  by (auto simp: holds_def)

locale durable_record =
  fixes file_of :: "'z io_world_scheme \<Rightarrow> 'r disk_file"
    and put :: "'r disk_file \<Rightarrow> 'z io_world_scheme \<Rightarrow> 'z io_world_scheme"
    and load :: "('z io_world_scheme, 'a) prog"
    and found :: "'a outcome \<Rightarrow> 'r option option"
    and save :: "'r \<Rightarrow> ('z io_world_scheme, unit) prog"
    and valid :: "'r \<Rightarrow> bool"
    and sealed :: "file_meta \<Rightarrow> bool"
  assumes file_put: "file_of (put f w) = f"
    and file_script: "file_of (w\<lparr>script := fs\<rparr>) = file_of w"
    and load_reads: "\<exists>fs. snd (load w) = w\<lparr>script := fs\<rparr>"
    and load_tells: "tells (found (fst (load w))) (file_of w)"
    and load_valid: "found (fst (load w)) = Some (Some r) \<Longrightarrow> valid r"
    and save_atomic: "(\<exists>fs. snd (save r w) = w\<lparr>script := fs\<rparr> \<and> fst (save r w) \<noteq> Ok ()) \<or>
      (\<exists>fs m. sealed m \<and> valid r \<and> snd (save r w) = put (DiskFile m (Decodes r)) (w\<lparr>script := fs\<rparr>))"
begin

lemma load_file: "file_of (snd (load w)) = file_of w"
  using load_reads [of w] by (auto simp: file_script)

lemma save_file:
  "file_of (snd (save r w)) = file_of w \<and> fst (save r w) \<noteq> Ok () \<or>
   valid r \<and> (\<exists>m. sealed m \<and> file_of (snd (save r w)) = DiskFile m (Decodes r))"
  using save_atomic [of r w] by (auto simp: file_put file_script)

lemma save_durable: "fst (save r w) = Ok () \<Longrightarrow> valid r \<and> holds r (file_of (snd (save r w)))"
  using save_file [of r w] by (auto simp: holds_def)

lemma load_after_save:
  assumes "fst (save r w) = Ok ()" "found (fst (load (snd (save r w)))) = Some x"
  shows "x = Some r"
  using save_durable [OF assms(1)] load_tells [of "snd (save r w)"] assms(2)
  by (auto simp: holds_unique split: option.splits dest: holds_unique(1))

lemma load_after_interrupted_save:
  assumes "found (fst (load (snd (save r w)))) = Some x"
  shows "x = Some r \<or> tells (Some x) (file_of w)"
  using save_file [of r w] load_tells [of "snd (save r w)"] assms
  by (auto simp: holds_def split: option.splits)

lemma invalid_not_saved: "\<not> valid r \<Longrightarrow> file_of (snd (save r w)) = file_of w \<and> fst (save r w) \<noteq> Ok ()"
  using save_file [of r w] by blast

lemma spec_load:
  assumes closed: "\<And>w fs. P w \<Longrightarrow> P (w\<lparr>script := fs\<rparr>)" and error: "\<And>w. P w \<Longrightarrow> X w"
    and ok: "\<And>x. spec (\<lambda>w. P w \<and> tells (found (Ok x)) (file_of w) \<and>
      (\<forall>r. found (Ok x) = Some (Some r) \<longrightarrow> valid r)) (k x) Q X"
    and bad: "\<And>e. spec (\<lambda>w. P w \<and> tells (found (Err e)) (file_of w)) (h e) Q X"
  shows "spec P (tryP load h k) Q X"
  unfolding spec_def
proof (intro allI impI)
  fix w assume P: "P w"
  obtain r w' where run: "load w = (r, w')"
    by fastforce
  have P': "P w'" and told: "tells (found r) (file_of w')" "\<And>s. found r = Some (Some s) \<Longrightarrow> valid s"
    using load_reads [of w] closed [OF P] load_tells [of w] load_valid [of w] run
    by (auto simp: file_script)
  show "case tryP load h k w of (Ok x, w') \<Rightarrow> Q x w' | (Err e, w') \<Rightarrow> X w' | (Crash, w') \<Rightarrow> X w'"
    using P' told ok bad error run by (cases r) (auto simp: spec_def tryP_def)
qed

lemma spec_save:
  assumes "\<And>w fs. P w \<Longrightarrow> P (w\<lparr>script := fs\<rparr>)" "\<And>w. P w \<Longrightarrow> X w" "\<And>w. N w \<Longrightarrow> X w"
    and "\<And>w m. P w \<Longrightarrow> valid r \<Longrightarrow> sealed m \<Longrightarrow> N (put (DiskFile m (Decodes r)) w)"
  shows "spec P (save r) (\<lambda>_. N) X"
  unfolding spec_def
proof (intro allI impI)
  fix w assume "P w"
  with save_atomic [of r w] assms
  have "P (snd (save r w)) \<and> fst (save r w) \<noteq> Ok () \<or> N (snd (save r w))"
    by auto
  with assms(2,3) show "case save r w of (Ok x, w') \<Rightarrow> N w' | (Err e, w') \<Rightarrow> X w' | (Crash, w') \<Rightarrow> X w'"
    by (auto split: prod.splits outcome.splits)
qed

end

end
