(* ===== verification/SelfUpdate_Disk.thy ===== *)
theory SelfUpdate_Disk
  imports SelfUpdate_Grant Durable "HOL-Library.AList"
begin

text \<open>
  The disk a self-update works on: the two private records (\<open>state.json\<close> and
  \<open>grant.json\<close>), the \<open>current\<close> link and the entries of the slots directory, with the
  operations of \<open>host_self_update_slot_state.go\<close>, \<open>host_self_update_slot_verification.go\<close>,
  \<open>host_self_update_slot_recovery.go\<close> and \<open>host_self_update_preparation.go\<close> and the load and
  save functions of \<open>host_self_update_grant_consume.go\<close>.

  The runtime is the production one on Linux: fixed paths, root ownership required, no test
  hooks. Entries of the slots directory are named by their last path element, so the checks
  that a path lies within its root hold by construction. A file replaced by
  \<open>writeAtomicFile\<close> changes in one step, the rename; the encoded bytes of a record are kept
  as the record and their number. Markers are visited in the order they are written down in;
  the source iterates over a Go map in an arbitrary order.
\<close>

section \<open>The runtime status\<close>

record HostSelfUpdateRuntimeStatus =
  st_State :: HostSelfUpdateState
  st_CurrentSlot :: string
  st_ExecutorVersion :: string
  st_ExecutorProtocolVersion :: int
  st_LastAction :: string
  st_RollbackRequested :: bool
  st_RestartRequested :: bool

definition status_validate :: "HostSelfUpdateRuntimeStatus \<Rightarrow> go_error option" where
  "status_validate s =
     (case state_validate (st_State s) of Some err \<Rightarrow> Some err | None \<Rightarrow>
      if \<not> validHostSelfUpdateSlot (st_CurrentSlot s) \<or>
         \<not> MatchString versionPattern (st_ExecutorVersion s) \<or>
         st_ExecutorProtocolVersion s < 1
      then errNew ''host self-update runtime status is invalid''
      else if st_LastAction s \<notin> {[], ActionNone, ActionSwitchCurrent, ActionRestartAgent,
         ActionAwaitProof, ActionProbeExecutor, ActionCommit, ActionRestoreHealthy,
         ActionRestartHealthy, ActionRollbackComplete}
      then errNew ''host self-update runtime action is invalid''
      else None)"

section \<open>The world\<close>

text \<open>
  \<open>current\<close> is absent, something that is not a symbolic link (a directory or not), or a
  link; the target of a link is an entry of the slots directory or something else. A slot
  entry that is a directory has the metadata of its \<open>bin\<close> directory and its files by
  relative path, each with metadata and bytes.
\<close>

datatype link = NoLink | NotLink bool | LinkTo bool "string option"

record slot_tree =
  tr_meta :: file_meta
  tr_bin :: "file_meta option"
  tr_files :: "(string \<times> file_meta \<times> string) list"

datatype slot_entry = Tree slot_tree | NonTree file_meta

primrec entry_meta :: "slot_entry \<Rightarrow> file_meta" where
  "entry_meta (Tree t) = tr_meta t"
| "entry_meta (NonTree m) = m"

text \<open>
  Besides the disk the world has the answers the process will be given: clock readings,
  the panel's answers to consume requests, what \<open>systemctl\<close> and \<open>/proc\<close> report about the
  executor and what its socket answers. Restarts are recorded.
\<close>

record su_world = io_world +
  w_state :: "HostSelfUpdateState disk_file"
  w_grant :: "hostSelfUpdateGrantState disk_file"
  w_current :: link
  w_slots :: "(string \<times> slot_entry) list"
  w_dirs :: "(string list \<times> file_meta) list"
  w_times :: "gotime list"
  w_panel :: "HostSelfUpdateGrantConsumeResult result list"
  w_probes :: "(string \<times> string) list"
  w_socket :: "HostSelfUpdateRuntimeStatus result list"
  w_restarts :: "string list"

type_synonym 'a su_prog = "(su_world, 'a) prog"

text \<open>The release a download yields, with the files of the unpacked archive.\<close>

record HostAgentRelease =
  hr_Request :: HostSelfUpdateRequest
  hr_PublishedAt :: gotime
  hr_MinimumPanelVersion :: string
  hr_Files :: "(string \<times> file_meta \<times> string) list"

text \<open>
  The runtime of the executor. The download of a release and the output of a binary run with
  \<open>--version\<close> are parameters: \<open>rt_download\<close> by version and architecture, \<open>rt_version_output\<close>
  by the bytes of the binary. \<open>rt_umask\<close> is what the process umask leaves of a mode, \<open>rt_net\<close> the parsers of the network
  libraries.
\<close>

record hostSelfUpdateExecutorRuntime =
  rt_arch :: string
  rt_executorVersion :: string
  rt_verificationTimeout :: int
  rt_download :: "string \<Rightarrow> string \<Rightarrow> HostAgentRelease result"
  rt_version_output :: "string \<Rightarrow> string result"
  rt_umask :: "nat \<Rightarrow> nat"
  rt_net :: netlib

definition shortID :: "string \<Rightarrow> string" where
  "shortID value = take 12 (sha256_hex value)"

definition dir_meta :: "nat \<Rightarrow> file_meta" where
  "dir_meta mode = \<lparr>is_dir = True, is_regular = False, is_symlink = False, perm = mode,
     size_bytes = 4096, root_owned = True\<rparr>"

definition regular_meta :: "nat \<Rightarrow> string \<Rightarrow> file_meta" where
  "regular_meta mode body = \<lparr>is_dir = False, is_regular = True, is_symlink = False, perm = mode,
     size_bytes = int (length body), root_owned = True\<rparr>"

text \<open>An answer of the environment; when none is left the call fails.\<close>

definition popP :: "(su_world \<Rightarrow> 'a list) \<Rightarrow> ('a list \<Rightarrow> su_world \<Rightarrow> su_world) \<Rightarrow> 'a su_prog" where
  "popP get put w =
     (case get w of [] \<Rightarrow> (Err OSFailure, w) | x # xs \<Rightarrow> (Ok x, put xs w))"

definition nowP :: "gotime su_prog" where
  "nowP w = (case w_times w of [] \<Rightarrow> (Ok zero_time, w) | t # ts \<Rightarrow> (Ok t, w\<lparr>w_times := ts\<rparr>))"

section \<open>The encoded records\<close>

definition state_json :: "HostSelfUpdateState \<Rightarrow> json \<Rightarrow> json \<Rightarrow> json \<Rightarrow> json" where
  "state_json s published started deadline = JObj (
     [(''schema_version'', JInt (su_SchemaVersion s)),
      (''recovery_protocol_version'', JInt (su_RecoveryProtocolVersion s)),
      (''phase'', JStr (su_Phase s)), (''active_slot'', JStr (su_ActiveSlot s)),
      (''healthy_slot'', JStr (su_HealthySlot s))] @
     str_opt ''rollback_slot'' (su_RollbackSlot s) @
     [(''active_agent_version'', JStr (su_ActiveAgentVersion s)),
      (''active_executor_version'', JStr (su_ActiveExecutorVersion s))] @
     str_opt ''rollback_agent_version'' (su_RollbackAgentVersion s) @
     str_opt ''rollback_executor_version'' (su_RollbackExecutorVersion s) @
     str_opt ''failed_generation'' (su_FailedGeneration s) @
     str_opt ''pending_slot'' (su_PendingSlot s) @
     str_opt ''pending_generation'' (su_PendingGeneration s) @
     str_opt ''pending_agent_version'' (su_PendingAgentVersion s) @
     str_opt ''pending_executor_version'' (su_PendingExecutorVersion s) @
     str_opt ''pending_commit'' (su_PendingCommit s) @
     str_opt ''pending_artifact_sha256'' (su_PendingArtifactSHA256 s) @
     str_opt ''pending_agent_sha256'' (su_PendingAgentSHA256 s) @
     str_opt ''pending_executor_sha256'' (su_PendingExecutorSHA256 s) @
     int_opt ''pending_agent_protocol'' (su_PendingAgentProtocol s) @
     int_opt ''pending_executor_protocol'' (su_PendingExecutorProtocol s) @
     int_opt ''pending_mutation_protocol'' (su_PendingMutationProtocol s) @
     int_opt ''pending_recovery_protocol'' (su_PendingRecoveryProtocol s) @
     [(''pending_release'', release_json (su_PendingRelease s) published),
      (''activation_started_at'', started), (''activation_deadline'', deadline)])"

definition state_payload :: "HostSelfUpdateState \<Rightarrow> string option" where
  "state_payload s =
     (case (time_json (rel_PublishedAt (su_PendingRelease s)), time_json (su_ActivationStartedAt s),
            time_json (su_ActivationDeadline s)) of
        (Some p, Some a, Some d) \<Rightarrow> Some (marshal (state_json s p a d))
      | _ \<Rightarrow> None)"

definition time_field :: "string \<Rightarrow> gotime \<Rightarrow> (string \<times> json) list option" where
  "time_field key t = map_option (\<lambda>j. [(key, j)]) (time_json t)"

definition time_opt_field :: "string \<Rightarrow> gotime option \<Rightarrow> (string \<times> json) list option" where
  "time_opt_field key t = (case t of None \<Rightarrow> Some [] | Some t' \<Rightarrow> time_field key t')"

text \<open>The fields of an object in order; a time that cannot be encoded makes the encoding fail.\<close>

primrec fields_json :: "(string \<times> json) list option list \<Rightarrow> (string \<times> json) list option" where
  "fields_json [] = Some []"
| "fields_json (f # fs) =
     (case f of None \<Rightarrow> None | Some xs \<Rightarrow> map_option ((@) xs) (fields_json fs))"

definition binding_json :: "HostSelfUpdateGrantBinding \<Rightarrow> json option" where
  "binding_json b = map_option JObj (fields_json
     [Some [(''id'', JStr (gb_ID b)), (''self_update_id'', JStr (gb_SelfUpdateID b)),
        (''attempt_generation'', JStr (gb_AttemptGeneration b)), (''operation'', JStr (gb_Operation b)),
        (''execution_host_id'', JStr (gb_ExecutionHostID b)),
        (''agent_service_id'', JStr (gb_AgentServiceID b)),
        (''expected_self_update_revision'', JInt (gb_ExpectedSelfUpdateRevision b)),
        (''expected_ownership_epoch'', JInt (gb_ExpectedOwnershipEpoch b)),
        (''expected_source_policy_revision'', JInt (gb_ExpectedSourcePolicyRevision b)),
        (''expected_projection_revision'', JInt (gb_ExpectedProjectionRevision b)),
        (''expected_local_executor_policy_revision'', JInt (gb_ExpectedLocalExecutorPolicyRevision b)),
        (''expected_local_executor_policy_sha256'', JStr (gb_ExpectedLocalExecutorPolicySHA256 b)),
        (''agent_version'', JStr (gb_AgentVersion b)), (''executor_version'', JStr (gb_ExecutorVersion b)),
        (''release_commit'', JStr (gb_ReleaseCommit b)), (''artifact_sha256'', JStr (gb_ArtifactSHA256 b)),
        (''agent_protocol_version'', JInt (gb_AgentProtocolVersion b)),
        (''executor_protocol_version'', JInt (gb_ExecutorProtocolVersion b)),
        (''mutation_protocol_version'', JInt (gb_MutationProtocolVersion b)),
        (''recovery_protocol_version'', JInt (gb_RecoveryProtocolVersion b))],
      map_option (\<lambda>p. [(''release'', release_json (gb_Release b) p)])
        (time_json (rel_PublishedAt (gb_Release b))),
      time_field ''directive_issued_at'' (gb_DirectiveIssuedAt b),
      Some [(''plan_sha256'', JStr (gb_PlanSHA256 b)), (''session_id'', JStr (gb_SessionID b)),
        (''revision'', JInt (gb_Revision b))],
      time_field ''issued_at'' (gb_IssuedAt b), time_field ''expires_at'' (gb_ExpiresAt b),
      time_opt_field ''consumed_at'' (gb_ConsumedAt b),
      Some (int_opt ''stage_claim_revision'' (gb_StageClaimRevision b)),
      time_opt_field ''stage_claimed_at'' (gb_StageClaimedAt b),
      time_field ''created_at'' (gb_CreatedAt b), time_field ''updated_at'' (gb_UpdatedAt b)])"

definition grant_payload :: "hostSelfUpdateGrantState \<Rightarrow> string option" where
  "grant_payload s = map_option (\<lambda>fs. marshal (JObj fs)) (fields_json
     [Some [(''schema_version'', JInt (gs_SchemaVersion s)), (''phase'', JStr (gs_Phase s)),
        (''token_sha256'', JStr (gs_TokenSHA256 s))],
      map_option (\<lambda>b. [(''binding'', b)]) (binding_json (gs_Binding s)),
      (case gs_Receipt s of None \<Rightarrow> Some []
       | Some r \<Rightarrow> map_option (\<lambda>b. [(''receipt'', b)]) (binding_json r))])"

section \<open>The private records\<close>

primrec file_meta_of :: "'a disk_file \<Rightarrow> file_meta option" where
  "file_meta_of NoFile = None"
| "file_meta_of (DiskFile m c) = Some m"

definition private_meta :: "file_meta \<Rightarrow> bool" where
  "private_meta info \<longleftrightarrow> is_regular info \<and> \<not> is_symlink info \<and> perm info = 384 \<and> root_owned info"

definition private_size :: "file_meta \<Rightarrow> bool" where
  "private_size info \<longleftrightarrow> 0 < size_bytes info \<and> size_bytes info \<le> 65536"

definition loadPersistedState :: "HostSelfUpdateState su_prog" where
  "loadPersistedState =
     tryP (lookupP (\<lambda>w. file_meta_of (w_state w)))
       (\<lambda>err. if errors_Is err NotExist then failP NotExist
              else failP (NewErr ''host self-update state is unsafe''))
       (\<lambda>info. if \<not> private_meta info \<or> \<not> private_size info
         then failP (NewErr ''host self-update state is unsafe'')
         else bindP (observeP w_state) (\<lambda>payload. case payload of
            NoFile \<Rightarrow> failP NotExist
          | DiskFile _ (Decodes state) \<Rightarrow> thenP (checkP (state_validate state)) (returnP state)
          | DiskFile _ (TrailingData _) \<Rightarrow> failP (NewErr ''host self-update state contains trailing data'')
          | DiskFile _ Undecodable \<Rightarrow> failP (NewErr ''decode host self-update state'')))"

definition saveState :: "HostSelfUpdateState \<Rightarrow> unit su_prog" where
  "saveState state =
     thenP (checkP (state_validate state))
     (case state_payload state of
        None \<Rightarrow> failP (NewErr ''encode host self-update state'')
      | Some payload \<Rightarrow>
          thenP (effectP (\<lambda>w. w\<lparr>w_state :=
            DiskFile (private_file (int (length payload) + 1)) (Decodes state)\<rparr>))
          (tryP (lookupP (\<lambda>w. file_meta_of (w_state w)))
             (\<lambda>_. failP (NewErr ''host self-update state security verification failed''))
             (\<lambda>info. if \<not> private_meta info
               then failP (NewErr ''host self-update state security verification failed'')
               else returnP ())))"

definition loadHostSelfUpdateGrantState :: "hostSelfUpdateGrantState option su_prog" where
  "loadHostSelfUpdateGrantState =
     tryP (lookupP (\<lambda>w. file_meta_of (w_grant w)))
       (\<lambda>err. if errors_Is err NotExist then returnP None
              else failP (NewErr ''host self-update grant state is unsafe''))
       (\<lambda>info. if \<not> private_meta info \<or> \<not> private_size info
         then failP (NewErr ''host self-update grant state is unsafe'')
         else tryP (observeP w_grant) (\<lambda>_. failP (NewErr ''read host self-update grant state''))
         (\<lambda>payload. case payload of
            NoFile \<Rightarrow> failP (NewErr ''read host self-update grant state'')
          | DiskFile _ (Decodes state) \<Rightarrow>
              thenP (checkP (grant_state_validate state)) (returnP (Some state))
          | DiskFile _ (TrailingData _) \<Rightarrow>
              failP (NewErr ''host self-update grant state contains trailing data'')
          | DiskFile _ Undecodable \<Rightarrow> failP (NewErr ''decode host self-update grant state'')))"

definition saveHostSelfUpdateGrantState :: "hostSelfUpdateGrantState \<Rightarrow> unit su_prog" where
  "saveHostSelfUpdateGrantState state =
     thenP (checkP (grant_state_validate state))
     (case grant_payload state of
        None \<Rightarrow> failP (NewErr ''encode host self-update grant state'')
      | Some payload \<Rightarrow>
          thenP (effectP (\<lambda>w. w\<lparr>w_grant :=
            DiskFile (private_file (int (length payload) + 1)) (Decodes state)\<rparr>))
          (tryP (lookupP (\<lambda>w. file_meta_of (w_grant w)))
             (\<lambda>_. failP (NewErr ''host self-update grant state security verification failed''))
             (\<lambda>info. if \<not> private_meta info
               then failP (NewErr ''host self-update grant state security verification failed'')
               else returnP ())))"

definition removeHostSelfUpdateGrantState :: "unit su_prog" where
  "removeHostSelfUpdateGrantState =
     thenP (tryP (bindP (observeP w_grant) (\<lambda>f. case f of
              NoFile \<Rightarrow> failP NotExist
            | DiskFile _ _ \<Rightarrow> effectP (\<lambda>w. w\<lparr>w_grant := NoFile\<rparr>)))
       (\<lambda>err. if errors_Is err NotExist then returnP ()
              else failP (NewErr ''remove failed host self-update grant state''))
       (\<lambda>_. returnP ()))
     (mapErrP (\<lambda>_. NewErr ''sync failed host self-update grant cleanup'') syscallP)"

section \<open>Slots and the current link\<close>

definition tree_of :: "string \<Rightarrow> su_world \<Rightarrow> slot_tree option" where
  "tree_of name w = (case map_of (w_slots w) name of Some (Tree t) \<Rightarrow> Some t | _ \<Rightarrow> None)"

definition file_in :: "string \<Rightarrow> string \<Rightarrow> su_world \<Rightarrow> (file_meta \<times> string) option" where
  "file_in name path w = Option.bind (tree_of name w) (\<lambda>t. map_of (tr_files t) path)"

definition lstatEntry :: "string \<Rightarrow> file_meta su_prog" where
  "lstatEntry name = lookupP (\<lambda>w. map_option entry_meta (map_of (w_slots w) name))"

definition lstatFile :: "string \<Rightarrow> string \<Rightarrow> file_meta su_prog" where
  "lstatFile name path = lookupP (\<lambda>w. map_option fst (file_in name path w))"

abbreviation "AgentBinary \<equiv> ''autostream-host-agent''"
abbreviation "ExecutorBinary \<equiv> ''autostream-local-executor''"

definition bin_path :: "string \<Rightarrow> string" where
  "bin_path binary = ''bin/'' @ binary"

definition validateHostSelfUpdateSlotDirectory :: "string \<Rightarrow> unit su_prog" where
  "validateHostSelfUpdateSlotDirectory slot =
     (if \<not> validHostSelfUpdateSlot slot then failP (NewErr ''host self-update target slot is invalid'')
      else tryP (lstatEntry slot)
        (\<lambda>_. failP (NewErr ''host self-update target slot is unavailable or unsafe''))
        (\<lambda>info. if \<not> is_dir info \<or> is_symlink info \<or> perm info \<noteq> 493
          then failP (NewErr ''host self-update target slot is unavailable or unsafe'')
          else if \<not> root_owned info
          then failP (NewErr ''host self-update target slot is not root-owned'')
          else returnP ()))"

definition validateHostSelfUpdateSlotBinary :: "string \<Rightarrow> string \<Rightarrow> unit su_prog" where
  "validateHostSelfUpdateSlotBinary root binary =
     tryP (lstatFile root (bin_path binary))
       (\<lambda>_. failP (NewErr ''host self-update slot binary is unsafe''))
       (\<lambda>info. if \<not> is_regular info \<or> is_symlink info \<or> perm info \<noteq> 493 \<or> \<not> root_owned info
         then failP (NewErr ''host self-update slot binary is unsafe'')
         else returnP ())"

definition dir_unsafe :: "file_meta \<Rightarrow> bool" where
  "dir_unsafe info \<longleftrightarrow> \<not> is_dir info \<or> is_symlink info \<or> perm info \<noteq> 493 \<or> \<not> root_owned info"

definition validateHostSelfUpdateSlotTreeRoot :: "string \<Rightarrow> unit su_prog" where
  "validateHostSelfUpdateSlotTreeRoot root =
     thenP (tryP (lstatEntry root)
        (\<lambda>_. failP (NewErr ''host self-update slot directory is unsafe''))
        (\<lambda>info. if dir_unsafe info
          then failP (NewErr ''host self-update slot directory is unsafe'') else returnP ()))
     (thenP (tryP (lookupP (\<lambda>w. Option.bind (tree_of root w) tr_bin))
        (\<lambda>_. failP (NewErr ''host self-update slot bin directory is unsafe''))
        (\<lambda>info. if dir_unsafe info
          then failP (NewErr ''host self-update slot bin directory is unsafe'') else returnP ()))
     (forP [AgentBinary, ExecutorBinary] (validateHostSelfUpdateSlotBinary root)))"

definition validateHostSelfUpdateSlotTree :: "string \<Rightarrow> unit su_prog" where
  "validateHostSelfUpdateSlotTree slot =
     thenP (validateHostSelfUpdateSlotDirectory slot) (validateHostSelfUpdateSlotTreeRoot slot)"

text \<open>\<open>os.Rename\<close> onto \<open>current\<close> replaces a file or a link but fails on a directory.\<close>

definition renameCurrent :: "string \<Rightarrow> unit su_prog" where
  "renameCurrent slot w =
     (if w_current w = NotLink True then (Err OSFailure, w)
      else effectP (\<lambda>w. w\<lparr>w_current := LinkTo True (Some slot)\<rparr>) w)"

definition is_link :: "link \<Rightarrow> bool" where
  "is_link l = (case l of LinkTo _ _ \<Rightarrow> True | _ \<Rightarrow> False)"

definition replaceCurrent :: "string \<Rightarrow> bool \<Rightarrow> unit su_prog" where
  "replaceCurrent slot replaceMalformed =
     (if \<not> validHostSelfUpdateSlot slot then failP (NewErr ''host self-update target slot is invalid'')
      else thenP (validateHostSelfUpdateSlotTree slot)
      (thenP (ignoreP syscallP)
      (thenP syscallP
      (thenP
        (tryP
          (thenP
            (if replaceMalformed then returnP ()
             else tryP (lookupP (\<lambda>w. if w_current w = NoLink then None else Some (w_current w)))
               (\<lambda>err. if errors_Is err NotExist then returnP () else failP err)
               (\<lambda>current. if \<not> is_link current
                 then failP (NewErr ''host self-update current path is not a symlink'')
                 else returnP ()))
            (renameCurrent slot))
          (\<lambda>err. thenP (ignoreP syscallP) (failP err))
          returnP)
        syscallP))))"

definition switchCurrent :: "string \<Rightarrow> unit su_prog" where
  "switchCurrent slot = replaceCurrent slot False"

definition reconstructCurrent :: "string \<Rightarrow> unit su_prog" where
  "reconstructCurrent slot = replaceCurrent slot True"

definition readCurrentSlot :: "string su_prog" where
  "readCurrentSlot =
     tryP (observeP w_current)
       (\<lambda>_. failP (NewErr ''host self-update current symlink is unavailable''))
       (\<lambda>info. case info of
          LinkTo owned _ \<Rightarrow>
            if \<not> owned then failP (NewErr ''host self-update current symlink is not root-owned'')
            else bindP (observeP w_current) (\<lambda>target. case target of
                LinkTo _ (Some slot) \<Rightarrow>
                  if validHostSelfUpdateSlot slot
                  then thenP (validateHostSelfUpdateSlotDirectory slot) (returnP slot)
                  else failP (NewErr ''host self-update current symlink points outside fixed slots'')
              | _ \<Rightarrow> failP (NewErr ''host self-update current symlink points outside fixed slots''))
        | _ \<Rightarrow> failP (NewErr ''host self-update current symlink is unavailable''))"

definition binding_markers :: "string list" where
  "binding_markers = [''.generation'', ''.agent-version'', ''.executor-version'', ''.commit'',
     ''.artifact-sha256'', ''.agent-protocol'', ''.executor-protocol'', ''.mutation-protocol'',
     ''.recovery-protocol'', ''.agent-sha256'', ''.local-executor-sha256'', ''.release-binding.json'']"

primrec has_any_file :: "string \<Rightarrow> string list \<Rightarrow> bool su_prog" where
  "has_any_file slot [] = returnP False"
| "has_any_file slot (name # names) =
     tryP (lstatFile slot name)
       (\<lambda>err. if errors_Is err NotExist then has_any_file slot names else failP err)
       (\<lambda>_. returnP True)"

definition hostSelfUpdateSlotHasBinding :: "string \<Rightarrow> bool su_prog" where
  "hostSelfUpdateSlotHasBinding slot =
     (if \<not> validHostSelfUpdateSlot slot then failP (NewErr ''host self-update slot is invalid'')
      else has_any_file slot binding_markers)"

definition loadState :: "hostSelfUpdateExecutorRuntime \<Rightarrow> string \<Rightarrow> HostSelfUpdateState su_prog" where
  "loadState rt currentSlot =
     tryP loadPersistedState
       (\<lambda>err. if \<not> errors_Is err NotExist then failP err
         else if currentSlot \<noteq> SlotA
         then failP (NewErr ''host self-update state is unavailable for a non-bootstrap slot'')
         else bindP (hostSelfUpdateSlotHasBinding currentSlot) (\<lambda>hasBinding.
           if hasBinding then failP (NewErr ''host self-update state is unavailable for a bound slot'')
           else bindP (resultP (NewHostSelfUpdateState (rt_executorVersion rt) (rt_executorVersion rt)))
             (\<lambda>state. let state = state\<lparr>su_ActiveSlot := currentSlot, su_HealthySlot := currentSlot\<rparr>
               in thenP (saveState state) (returnP state))))
       returnP"

section \<open>Verification of a slot\<close>

text \<open>The markers bind a slot to the request it was staged for.\<close>

definition release_markers :: "HostSelfUpdateRequest \<Rightarrow> string \<Rightarrow> (string \<times> string) list" where
  "release_markers request releaseJSON =
     [(''.generation'', req_Generation request @ [CHR 0x0A]),
      (''.agent-version'', req_AgentVersion request @ [CHR 0x0A]),
      (''.executor-version'', req_ExecutorVersion request @ [CHR 0x0A]),
      (''.commit'', req_Commit request @ [CHR 0x0A]),
      (''.artifact-sha256'', req_ArtifactSHA256 request @ [CHR 0x0A]),
      (''.agent-protocol'', int_string (req_AgentProtocol request) @ [CHR 0x0A]),
      (''.executor-protocol'', int_string (req_ExecutorProtocol request) @ [CHR 0x0A]),
      (''.mutation-protocol'', int_string (req_MutationProtocol request) @ [CHR 0x0A]),
      (''.recovery-protocol'', int_string (req_RecoveryProtocol request) @ [CHR 0x0A]),
      (''.release-binding.json'', releaseJSON @ [CHR 0x0A])]"

definition releaseJSON :: "HostSelfUpdateReleaseIdentity \<Rightarrow> string result" where
  "releaseJSON r =
     (case time_json (rel_PublishedAt r) of
        None \<Rightarrow> Inl (NewErr ''json: error calling MarshalJSON for type time.Time'')
      | Some p \<Rightarrow> Inr (marshal (release_json r p)))"

definition hostSelfUpdateSlotMarkers ::
  "HostSelfUpdateRequest \<Rightarrow> string \<Rightarrow> string \<Rightarrow> (string \<times> string) list result" where
  "hostSelfUpdateSlotMarkers request agentDigest executorDigest =
     (if request_validate request \<noteq> None \<or> \<not> isCanonicalBareSHA256 agentDigest \<or>
         \<not> isCanonicalBareSHA256 executorDigest
      then Inl (NewErr ''host self-update slot binding is invalid'')
      else case releaseJSON (req_Release request) of
        Inl err \<Rightarrow> Inl err
      | Inr j \<Rightarrow> Inr (release_markers request j @
          [(''.agent-sha256'', agentDigest @ [CHR 0x0A]),
           (''.local-executor-sha256'', executorDigest @ [CHR 0x0A])]))"

definition readHostSelfUpdateSlotMarker :: "string \<Rightarrow> string \<Rightarrow> string su_prog" where
  "readHostSelfUpdateSlotMarker root name =
     tryP (lstatFile root name)
       (\<lambda>_. failP (NewErr ''host self-update slot marker is unsafe''))
       (\<lambda>info. if \<not> is_regular info \<or> is_symlink info \<or> perm info \<noteq> 292 \<or> \<not> root_owned info
         then failP (NewErr ''host self-update slot marker is unsafe'')
         else thenP syscallP
           (tryP (observeP (file_in root name))
             (\<lambda>_. failP (NewErr ''host self-update slot marker is invalid''))
             (\<lambda>f. let body = take 4097 (case f of None \<Rightarrow> [] | Some (_, b) \<Rightarrow> b) in
               if body = [] \<or> length body > 4096 \<or> last body \<noteq> CHR 0x0A \<or>
                  CHR 0x0A \<in> set (butlast body)
               then failP (NewErr ''host self-update slot marker is invalid'')
               else returnP body)))"

definition hashFile :: "string \<Rightarrow> string \<Rightarrow> string su_prog" where
  "hashFile root path =
     thenP (bindP (lstatFile root path) (\<lambda>_. returnP ()))
     (bindP (observeP (file_in root path)) (\<lambda>f. case f of
        None \<Rightarrow> failP NotExist
      | Some (_, body) \<Rightarrow> returnP (sha256_hex body)))"

fun replace_crlf :: "string \<Rightarrow> string" where
  "replace_crlf [] = []"
| "replace_crlf [c] = [c]"
| "replace_crlf (c # d # cs) =
     (if c = CHR 0x0D \<and> d = CHR 0x0A then CHR 0x0A # replace_crlf cs else c # replace_crlf (d # cs))"

definition hostSelfUpdateVersionOutputHasLine :: "string \<Rightarrow> string \<Rightarrow> bool" where
  "hostSelfUpdateVersionOutputHasLine output want \<longleftrightarrow>
     want \<in> set (Split (replace_crlf output) (CHR 0x0A))"

definition runVersion :: "hostSelfUpdateExecutorRuntime \<Rightarrow> string \<Rightarrow> string \<Rightarrow> string su_prog" where
  "runVersion rt root binary =
     bindP (lookupP (file_in root (bin_path binary))) (\<lambda>(_, body). resultP (rt_version_output rt body))"

definition verifyHostSelfUpdateBinaryIdentity ::
  "hostSelfUpdateExecutorRuntime \<Rightarrow> string \<Rightarrow> string \<Rightarrow> string \<Rightarrow> HostSelfUpdateRequest \<Rightarrow> unit su_prog" where
  "verifyHostSelfUpdateBinaryIdentity rt root binary version request =
     thenP (mapErrP (\<lambda>_. NewErr (''staged '' @ binary @ '' is unsafe''))
       (validateHostSelfUpdateSlotBinary root binary))
     (tryP (runVersion rt root binary)
       (\<lambda>_. failP (NewErr (''staged '' @ binary @ '' did not report the trusted identity'')))
       (\<lambda>output.
         if \<not> hostSelfUpdateVersionOutputHasLine output (binary @ '' '' @ version) \<or>
            \<not> hostSelfUpdateVersionOutputHasLine output (''commit: '' @ req_Commit request)
         then failP (NewErr (''staged '' @ binary @ '' did not report the trusted identity''))
         else if binary = ExecutorBinary \<and>
            (\<not> hostSelfUpdateVersionOutputHasLine output
                 (''mutation_protocol: '' @ int_string (req_MutationProtocol request)) \<or>
             \<not> hostSelfUpdateVersionOutputHasLine output
                 (''recovery_protocol: '' @ int_string (req_RecoveryProtocol request)))
         then failP (NewErr ''staged autostream-local-executor protocol identity is invalid'')
         else returnP ()))"

definition verify_marker :: "string \<Rightarrow> string \<times> string \<Rightarrow> unit su_prog" where
  "verify_marker root marker =
     tryP (readHostSelfUpdateSlotMarker root (fst marker))
       (\<lambda>_. failP (NewErr (''host self-update slot marker '' @ fst marker @ '' is invalid'')))
       (\<lambda>got. if got \<noteq> snd marker
         then failP (NewErr (''host self-update slot marker '' @ fst marker @ '' is invalid''))
         else returnP ())"

definition verify_binary ::
  "hostSelfUpdateExecutorRuntime \<Rightarrow> string \<Rightarrow> HostSelfUpdateRequest \<Rightarrow>
   string \<times> string \<times> string \<times> string \<Rightarrow> unit su_prog" where
  "verify_binary rt root request item =
     (case item of (name, version, digestMarker, expectedDigest) \<Rightarrow>
      tryP (readHostSelfUpdateSlotMarker root digestMarker)
        (\<lambda>_. failP (NewErr (''host self-update slot digest '' @ digestMarker @ '' is invalid'')))
        (\<lambda>digestBytes. let digest = TrimSuffix digestBytes [CHR 0x0A] in
          if \<not> isCanonicalBareSHA256 digest
          then failP (NewErr (''host self-update slot digest '' @ digestMarker @ '' is invalid''))
          else tryP (hashFile root (bin_path name))
            (\<lambda>_. failP (NewErr (''host self-update slot binary '' @ name @ '' digest is invalid'')))
            (\<lambda>actualDigest.
              if actualDigest \<noteq> digest
              then failP (NewErr (''host self-update slot binary '' @ name @ '' digest is invalid''))
              else if digest \<noteq> expectedDigest
              then failP (NewErr (''host self-update slot binary '' @ name @
                     '' digest contradicts durable state''))
              else verifyHostSelfUpdateBinaryIdentity rt root name version request)))"

definition verifyHostSelfUpdateSlot ::
  "hostSelfUpdateExecutorRuntime \<Rightarrow> string \<Rightarrow> string \<Rightarrow> HostSelfUpdateRequest \<Rightarrow>
   hostSelfUpdateSlotDigests \<Rightarrow> unit su_prog" where
  "verifyHostSelfUpdateSlot rt slot root request slotDigests =
     (if \<not> validHostSelfUpdateSlot slot \<or> request_validate request \<noteq> None \<or>
         digests_validate slotDigests \<noteq> None
      then failP (NewErr ''host self-update slot verification identity is invalid'')
      else thenP (validateHostSelfUpdateSlotTreeRoot root)
        (bindP (resultP (releaseJSON (req_Release request))) (\<lambda>j.
          thenP (forP (release_markers request j) (verify_marker root))
            (forP
              [(AgentBinary, req_AgentVersion request, ''.agent-sha256'', dig_AgentSHA256 slotDigests),
               (ExecutorBinary, req_ExecutorVersion request, ''.local-executor-sha256'',
                dig_ExecutorSHA256 slotDigests)]
              (verify_binary rt root request)))))"

definition hostSelfUpdateSlotMarkerDigests :: "string \<Rightarrow> hostSelfUpdateSlotDigests su_prog" where
  "hostSelfUpdateSlotMarkerDigests slot =
     (if \<not> validHostSelfUpdateSlot slot then failP (NewErr ''host self-update grant slot is invalid'')
      else bindP (readHostSelfUpdateSlotMarker slot ''.agent-sha256'') (\<lambda>agent.
        bindP (readHostSelfUpdateSlotMarker slot ''.local-executor-sha256'') (\<lambda>executor.
          let digests = \<lparr>dig_AgentSHA256 = TrimSuffix agent [CHR 0x0A],
                         dig_ExecutorSHA256 = TrimSuffix executor [CHR 0x0A]\<rparr>
          in thenP (checkP (digests_validate digests)) (returnP digests))))"

definition verifyPendingHostSelfUpdateSlot ::
  "hostSelfUpdateExecutorRuntime \<Rightarrow> HostSelfUpdateState \<Rightarrow> unit su_prog" where
  "verifyPendingHostSelfUpdateSlot rt state =
     (if state_validate state \<noteq> None \<or> su_Phase state = PhaseStable
      then failP (NewErr ''pending host self-update state is invalid'')
      else verifyHostSelfUpdateSlot rt (su_PendingSlot state) (su_PendingSlot state)
        (pending_request state) (pending_digests state))"

definition verifyPendingHostSelfUpdateSlotForRecovery ::
  "hostSelfUpdateExecutorRuntime \<Rightarrow> HostSelfUpdateState \<Rightarrow> string \<Rightarrow> unit su_prog" where
  "verifyPendingHostSelfUpdateSlotForRecovery rt state root =
     (if su_Phase state = PhaseStable \<or> \<not> validHostSelfUpdateSlot (su_PendingSlot state)
      then failP (NewErr ''pending host self-update recovery state is invalid'')
      else verifyHostSelfUpdateSlot rt (su_PendingSlot state) root
        (pending_request state) (pending_digests state))"

section \<open>Changes of the slots directory\<close>

definition put_entry :: "string \<Rightarrow> slot_entry \<Rightarrow> su_world \<Rightarrow> su_world" where
  "put_entry name e w = w\<lparr>w_slots := AList.update name e (w_slots w)\<rparr>"

definition drop_entry :: "string \<Rightarrow> su_world \<Rightarrow> su_world" where
  "drop_entry name w = w\<lparr>w_slots := AList.delete name (w_slots w)\<rparr>"

definition update_tree :: "string \<Rightarrow> (slot_tree \<Rightarrow> slot_tree) \<Rightarrow> su_world \<Rightarrow> su_world" where
  "update_tree name f w = (case tree_of name w of None \<Rightarrow> w | Some t \<Rightarrow> put_entry name (Tree (f t)) w)"

primrec is_tree :: "slot_entry \<Rightarrow> bool" where
  "is_tree (Tree t) = True"
| "is_tree (NonTree m) = False"

text \<open>\<open>os.Rename\<close> of an entry; it does not replace a directory, and a directory replaces nothing.\<close>

definition renameEntry :: "string \<Rightarrow> string \<Rightarrow> unit su_prog" where
  "renameEntry source target w =
     (case map_of (w_slots w) source of
        None \<Rightarrow> (Err NotExist, w)
      | Some e \<Rightarrow>
          if is_tree e \<and> map_of (w_slots w) target \<noteq> None \<or>
             (case map_of (w_slots w) target of Some t \<Rightarrow> is_tree t | None \<Rightarrow> False)
          then (Err OSFailure, w)
          else effectP (\<lambda>w. put_entry target e (drop_entry source w)) w)"

text \<open>\<open>os.RemoveAll\<close> is not atomic: the files of a directory go before the directory itself.\<close>

definition removeAll :: "string \<Rightarrow> unit su_prog" where
  "removeAll name =
     thenP (effectP (update_tree name (\<lambda>t. t\<lparr>tr_files := [], tr_bin := None\<rparr>)))
       (effectP (drop_entry name))"

definition removeHostSelfUpdateSlotArtifact :: "string \<Rightarrow> unit su_prog" where
  "removeHostSelfUpdateSlotArtifact name =
     tryP (lstatEntry name)
       (\<lambda>err. if errors_Is err NotExist then returnP () else failP err)
       (\<lambda>_. thenP (removeAll name) syscallP)"

definition restoreHostSelfUpdateSlot :: "string \<Rightarrow> string \<Rightarrow> string \<Rightarrow> bool \<Rightarrow> unit su_prog" where
  "restoreHostSelfUpdateSlot slot temporary backup hadBackup =
     thenP
       (tryP (lstatEntry slot)
         (\<lambda>err. if errors_Is err NotExist then returnP () else failP err)
         (\<lambda>info. if \<not> is_dir info \<or> is_symlink info
           then failP (NewErr ''failed host self-update slot is unsafe'')
           else thenP
             (tryP (lstatEntry temporary)
               (\<lambda>err. if errors_Is err NotExist then returnP () else failP err)
               (\<lambda>_. removeAll temporary))
             (thenP (renameEntry slot temporary) syscallP)))
       (if hadBackup
        then tryP (lstatEntry backup)
          (\<lambda>_. failP (NewErr ''host self-update slot backup is unavailable''))
          (\<lambda>info. if \<not> is_dir info \<or> is_symlink info
            then failP (NewErr ''host self-update slot backup is unavailable'')
            else thenP (renameEntry backup slot) syscallP)
        else returnP ())"

definition restoreUncommittedHostSelfUpdateSlot :: "string \<Rightarrow> string \<Rightarrow> unit su_prog" where
  "restoreUncommittedHostSelfUpdateSlot slot backup =
     (if \<not> HasSuffix backup ''.old''
      then failP (NewErr ''host self-update recovery paths are invalid'')
      else let temporary = TrimSuffix backup ''.old'' @ ''.new'' in
        thenP
          (tryP (lstatEntry temporary)
            (\<lambda>err. if errors_Is err NotExist then returnP () else failP err)
            (\<lambda>_. failP (NewErr ''host self-update recovery quarantine already exists'')))
          (thenP (restoreHostSelfUpdateSlot slot temporary backup True)
            (removeHostSelfUpdateSlotArtifact temporary)))"

section \<open>Recovery of interrupted slot transactions\<close>

fun parse_suffix :: "string \<Rightarrow> string \<Rightarrow> string list \<Rightarrow> (string \<times> string) option" where
  "parse_suffix slot name [] = None"
| "parse_suffix slot name (sfx # sfxs) =
     (if \<not> HasSuffix name (''.'' @ sfx) then parse_suffix slot name sfxs
      else let digest = TrimSuffix (TrimPrefix name (''.'' @ slot @ ''-'')) (''.'' @ sfx) in
        if length digest \<noteq> 12 \<or> \<not> list_all is_lower_hex digest then None
        else Some (slot, sfx))"

definition parseHostSelfUpdateSlotArtifactName :: "string \<Rightarrow> (string \<times> string) option" where
  "parseHostSelfUpdateSlotArtifactName name =
     (if HasPrefix name (''.'' @ SlotA @ ''-'') then parse_suffix SlotA name [''new'', ''old'']
      else if HasPrefix name (''.'' @ SlotB @ ''-'') then parse_suffix SlotB name [''new'', ''old'']
      else None)"

definition looksLikeReservedHostSelfUpdateSlotArtifactName :: "string \<Rightarrow> bool" where
  "looksLikeReservedHostSelfUpdateSlotArtifactName name \<longleftrightarrow>
     (\<exists>slot\<in>{SlotA, SlotB}. HasPrefix name (''.'' @ slot @ ''-'') \<and>
        (HasSuffix name ''.new'' \<or> HasSuffix name ''.old''))"

definition others_write :: "file_meta \<Rightarrow> bool" where
  "others_write info \<longleftrightarrow> (perm info div 16) mod 2 = 1 \<or> (perm info div 2) mod 2 = 1"

definition slot_unsafe :: "file_meta \<Rightarrow> bool" where
  "slot_unsafe info \<longleftrightarrow> \<not> is_dir info \<or> is_symlink info \<or> others_write info \<or> \<not> root_owned info"

text \<open>The artifacts found: slot, suffix and name of each.\<close>

type_synonym artifacts = "(string \<times> string \<times> string) list"

primrec classify_entries :: "string list \<Rightarrow> artifacts su_prog" where
  "classify_entries [] = returnP []"
| "classify_entries (name # names) =
     (case parseHostSelfUpdateSlotArtifactName name of
        None \<Rightarrow>
          if looksLikeReservedHostSelfUpdateSlotArtifactName name
          then failP (NewErr ''host self-update slot artifact name is malformed'')
          else classify_entries names
      | Some (slot, sfx) \<Rightarrow>
          tryP (lstatEntry name)
            (\<lambda>_. failP (NewErr ''host self-update slot artifact is unsafe''))
            (\<lambda>info. if slot_unsafe info
              then failP (NewErr ''host self-update slot artifact is unsafe'')
              else bindP (classify_entries names) (\<lambda>arts. returnP ((slot, sfx, name) # arts))))"

definition paths_for :: "string \<Rightarrow> string \<Rightarrow> artifacts \<Rightarrow> string list" where
  "paths_for slot sfx arts = map (\<lambda>(_, _, name). name)
     (filter (\<lambda>(s, x, _). s = slot \<and> x = sfx) arts)"

definition loadRecoveryState :: "HostSelfUpdateState option option \<Rightarrow> HostSelfUpdateState option su_prog" where
  "loadRecoveryState memo =
     (case memo of
        Some state \<Rightarrow> returnP state
      | None \<Rightarrow>
          tryP loadPersistedState
            (\<lambda>err. if errors_Is err NotExist then returnP None
               else failP (WrapErr err ''load host self-update state for slot recovery''))
            (\<lambda>state. returnP (Some state)))"

definition pending_here :: "HostSelfUpdateState option \<Rightarrow> string \<Rightarrow> bool" where
  "pending_here state slot =
     (case state of None \<Rightarrow> False | Some s \<Rightarrow> su_Phase s \<noteq> PhaseStable \<and> slot = su_PendingSlot s)"

definition stage_name :: "string \<Rightarrow> string \<Rightarrow> string \<Rightarrow> string" where
  "stage_name slot generation sfx = ''.'' @ slot @ ''-'' @ shortID generation @ ''.'' @ sfx"

definition finish_slot ::
  "HostSelfUpdateState option option \<Rightarrow> string list \<Rightarrow> HostSelfUpdateState option option su_prog" where
  "finish_slot memo names = thenP (forP names removeHostSelfUpdateSlotArtifact) (returnP memo)"

text \<open>One round of the loop over the two slots; the loaded state is passed on.\<close>

definition recover_present ::
  "hostSelfUpdateExecutorRuntime \<Rightarrow> string \<Rightarrow> string list \<Rightarrow> string list \<Rightarrow>
   HostSelfUpdateState option \<Rightarrow> HostSelfUpdateState option option su_prog" where
  "recover_present rt slot newPaths oldPaths loaded =
     (if length oldPaths = 1
      then (case loaded of
          None \<Rightarrow> failP (NewErr ''host self-update slot backup requires durable state'')
        | Some state \<Rightarrow>
            if su_Phase state = PhaseStable \<and> slot \<noteq> su_ActiveSlot state
            then (if newPaths \<noteq> []
              then failP (NewErr ''ambiguous host self-update candidate recovery requires manual recovery'')
              else thenP (restoreUncommittedHostSelfUpdateSlot slot (hd oldPaths))
                (finish_slot (Some loaded) newPaths))
            else if su_Phase state \<noteq> PhaseStable \<and> slot = su_PendingSlot state
            then thenP (mapErrP (\<lambda>err. WrapErr err ''pending host self-update slot cannot release its backup'')
                   (verifyPendingHostSelfUpdateSlotForRecovery rt state slot))
                 (finish_slot (Some loaded) (newPaths @ oldPaths))
            else if slot = su_ActiveSlot state \<and> slot = su_HealthySlot state
            then finish_slot (Some loaded) (newPaths @ oldPaths)
            else failP (NewErr ''host self-update slot backup contradicts durable state''))
      else if pending_here loaded slot
      then thenP (mapErrP (\<lambda>err. WrapErr err ''pending host self-update slot is invalid'')
             (verifyPendingHostSelfUpdateSlotForRecovery rt (the loaded) slot))
           (finish_slot (Some loaded) (newPaths @ oldPaths))
      else finish_slot (Some loaded) (newPaths @ oldPaths))"

definition recover_absent ::
  "hostSelfUpdateExecutorRuntime \<Rightarrow> string \<Rightarrow> string list \<Rightarrow> string list \<Rightarrow>
   HostSelfUpdateState option \<Rightarrow> HostSelfUpdateState option option su_prog" where
  "recover_absent rt slot newPaths oldPaths loaded =
     (if pending_here loaded slot
      then (if length newPaths \<noteq> 1
        then failP (NewErr ''pending host self-update slot candidate is unavailable'')
        else let state = the loaded; temporary = stage_name slot (su_PendingGeneration state) ''new'' in
          if hd newPaths \<noteq> temporary
          then failP (NewErr ''pending host self-update slot candidate contradicts durable state'')
          else thenP (mapErrP (\<lambda>err. WrapErr err ''pending host self-update slot candidate is invalid'')
              (verifyPendingHostSelfUpdateSlotForRecovery rt state temporary))
            (thenP (renameEntry temporary slot)
            (thenP (mapErrP (\<lambda>err. WrapErr err ''sync promoted host self-update slot'') syscallP)
            (thenP (mapErrP (\<lambda>err. WrapErr err ''promoted host self-update slot is invalid'')
              (verifyPendingHostSelfUpdateSlotForRecovery rt state slot))
            (finish_slot (Some loaded) oldPaths)))))
      else finish_slot (Some loaded) (newPaths @ oldPaths))"

definition recover_slot ::
  "hostSelfUpdateExecutorRuntime \<Rightarrow> artifacts \<Rightarrow> string \<Rightarrow> HostSelfUpdateState option option \<Rightarrow>
   HostSelfUpdateState option option su_prog" where
  "recover_slot rt arts slot memo =
     (let newPaths = paths_for slot ''new'' arts; oldPaths = paths_for slot ''old'' arts in
      tryP (lstatEntry slot)
        (\<lambda>slotErr.
          if \<not> errors_Is slotErr NotExist then failP slotErr
          else if length oldPaths = 1
          then thenP (renameEntry (hd oldPaths) slot) (thenP syscallP (finish_slot memo newPaths))
          else bindP (loadRecoveryState memo) (recover_absent rt slot newPaths oldPaths))
        (\<lambda>info. if slot_unsafe info then failP (NewErr ''host self-update slot is unsafe'')
          else bindP (loadRecoveryState memo) (recover_present rt slot newPaths oldPaths)))"

definition recoverHostSelfUpdateSlotArtifacts :: "hostSelfUpdateExecutorRuntime \<Rightarrow> unit su_prog" where
  "recoverHostSelfUpdateSlotArtifacts rt =
     bindP (observeP (\<lambda>w. remdups (map fst (w_slots w)))) (\<lambda>entries.
     bindP (classify_entries entries) (\<lambda>arts.
       if \<exists>slot\<in>{SlotA, SlotB}. \<exists>sfx\<in>{''new'', ''old''}. length (paths_for slot sfx arts) > 1
       then failP (NewErr ''multiple host self-update slot artifacts require manual recovery'')
       else bindP (recover_slot rt arts SlotA None) (\<lambda>memo.
            bindP (recover_slot rt arts SlotB memo) (\<lambda>_. syscallP))))"

section \<open>Preparation\<close>

text \<open>A directory is named by the list of its path elements.\<close>

definition lstatDir :: "string list \<Rightarrow> file_meta su_prog" where
  "lstatDir path = lookupP (\<lambda>w. map_of (w_dirs w) path)"

function missingHostSelfUpdateDirectories :: "string list \<Rightarrow> string list list \<Rightarrow> string list list su_prog" where
  "missingHostSelfUpdateDirectories current missing =
     tryP (lstatDir current)
       (\<lambda>err. if \<not> errors_Is err NotExist then failP err
         else if current = [] then failP (NewErr ''host self-update directory has no durable ancestor'')
         else missingHostSelfUpdateDirectories (butlast current) (missing @ [current]))
       (\<lambda>info. if \<not> is_dir info \<or> is_symlink info
         then failP (NewErr ''host self-update directory ancestor is unsafe'')
         else returnP missing)"
  by pat_completeness auto

termination
  by (relation "measure (\<lambda>(current, _). length current)") auto

declare missingHostSelfUpdateDirectories.simps [simp del]

text \<open>\<open>os.MkdirAll\<close> creates the missing ancestors, outermost first.\<close>

definition mkdir :: "(nat \<Rightarrow> nat) \<Rightarrow> nat \<Rightarrow> string list \<Rightarrow> unit su_prog" where
  "mkdir umask mode path =
     bindP (observeP (\<lambda>w. map_of (w_dirs w) path)) (\<lambda>m. case m of
        None \<Rightarrow> effectP (\<lambda>w. w\<lparr>w_dirs := AList.update path (dir_meta (umask mode)) (w_dirs w)\<rparr>)
      | Some info \<Rightarrow> if is_dir info then returnP () else failP OSFailure)"

definition ancestors :: "string list \<Rightarrow> string list list" where
  "ancestors path = map (\<lambda>n. take n path) [0..<Suc (length path)]"

definition ensure_root :: "hostSelfUpdateExecutorRuntime \<Rightarrow> string list \<times> nat \<Rightarrow> unit su_prog" where
  "ensure_root rt directory =
     (case directory of (path, mode) \<Rightarrow>
      bindP (missingHostSelfUpdateDirectories path []) (\<lambda>_.
      thenP (forP (ancestors path) (mkdir (rt_umask rt) mode))
      (thenP (effectP (\<lambda>w. w\<lparr>w_dirs := AList.map_entry path (\<lambda>m. m\<lparr>perm := mode\<rparr>) (w_dirs w)\<rparr>))
      (thenP (tryP (lstatDir path)
          (\<lambda>_. failP (NewErr ''host self-update directory is unsafe''))
          (\<lambda>info. if \<not> is_dir info \<or> is_symlink info \<or> perm info \<noteq> mode
            then failP (NewErr ''host self-update directory is unsafe'')
            else if \<not> root_owned info
            then failP (NewErr ''host self-update directory is not root-owned'')
            else returnP ()))
      (forP (rev (ancestors path)) (\<lambda>_.
         mapErrP (\<lambda>err. WrapErr err ''sync host self-update directory'') syscallP))))))"

definition HostSelfUpdateInstallRoot :: "string list" where
  "HostSelfUpdateInstallRoot = [''opt'', ''autostream'', ''host-agent'']"

definition HostSelfUpdateStateRoot :: "string list" where
  "HostSelfUpdateStateRoot = [''var'', ''lib'', ''autostream-local-executor'', ''host-self-update'']"

definition ensureRoots :: "hostSelfUpdateExecutorRuntime \<Rightarrow> unit su_prog" where
  "ensureRoots rt = forP
     [(HostSelfUpdateInstallRoot, 493), (HostSelfUpdateInstallRoot @ [''slots''], 493),
      (HostSelfUpdateStateRoot, 448), (HostSelfUpdateStateRoot @ [''downloads''], 448)] (ensure_root rt)"

definition prepare :: "hostSelfUpdateExecutorRuntime \<Rightarrow> unit su_prog" where
  "prepare rt =
     (if rt_verificationTimeout rt < 30 * time_Second \<or> rt_verificationTimeout rt > 30 * time_Minute
      then failP (NewErr ''host self-update verification timeout is invalid'')
      else if rt_arch rt \<noteq> ''amd64'' \<and> rt_arch rt \<noteq> ''arm64''
      then failP (NewErr ''host self-update architecture is unsupported'')
      else if \<not> MatchString versionPattern (rt_executorVersion rt)
      then failP (NewErr ''host self-update executor version is invalid'')
      else thenP (ensureRoots rt) (recoverHostSelfUpdateSlotArtifacts rt))"

end
