(* ===== verification/SelfUpdate_Executor.thy ===== *)
theory SelfUpdate_Executor
  imports SelfUpdate_Disk
begin

text \<open>
  The operations of the privileged executor on a self-update: the grant record and its
  recovery (\<open>host_self_update_grant_authorization.go\<close>, \<open>host_self_update_grant_recovery.go\<close>),
  staging (\<open>host_self_update_staging.go\<close>), activation and reconciliation
  (\<open>host_self_update_activation.go\<close>) and the request handler (\<open>host_self_update_executor.go\<close>).
\<close>

abbreviation "errHostSelfUpdateBusy \<equiv> NewErr ''host self-update busy''"
abbreviation "errHostSelfUpdateStage \<equiv> NewErr ''host self-update stage failed''"
abbreviation "errHostSelfUpdateRollback \<equiv> NewErr ''host self-update rollback failed''"
abbreviation "errHostSelfUpdatePrecondition \<equiv> NewErr ''host self-update precondition failed''"
abbreviation "errHostSelfUpdateGrantUncertain \<equiv> NewErr ''host self-update grant consume result is uncertain''"

section \<open>Grants\<close>

definition consumeHostSelfUpdateGrant ::
  "hostSelfUpdateExecutorRuntime \<Rightarrow> string \<Rightarrow> HostSelfUpdateGrantAuthorization \<Rightarrow>
   HostSelfUpdateGrantConsumeResult su_prog" where
  "consumeHostSelfUpdateGrant rt panelURL authorization =
     (if validatePanelURL (rt_net rt) panelURL \<noteq> None
      then failP (NewErr ''root self-update grant panel URL is invalid'')
      else thenP (checkP (authorization_validate authorization))
        (bindP (popP w_panel (\<lambda>answers. w_panel_update (\<lambda>_. answers))) (\<lambda>answer.
         bindP (resultP answer) (\<lambda>result.
           if binding_validate (cr_Grant result) True \<noteq> None \<or>
              \<not> sameHostSelfUpdateGrantBinding (cr_Grant result) (ga_Binding authorization)
           then failP (NewErr ''host self-update grant receipt binding is invalid'')
           else returnP result))))"

definition grant_phase_done :: "string \<Rightarrow> bool" where
  "grant_phase_done phase \<longleftrightarrow> phase = GrantConsumed \<or> phase = GrantApplied \<or> phase = GrantFailed"

text \<open>
  The durable prepared record precedes the request to the panel, the durable consumed record
  precedes the return.
\<close>

definition consume_and_record ::
  "hostSelfUpdateExecutorRuntime \<Rightarrow> string \<Rightarrow> HostSelfUpdateGrantAuthorization \<Rightarrow>
   hostSelfUpdateGrantState \<Rightarrow> unit su_prog" where
  "consume_and_record rt panelURL authorization entry =
     thenP (saveHostSelfUpdateGrantState entry)
     (bindP
       (tryP (consumeHostSelfUpdateGrant rt panelURL authorization)
         (\<lambda>_. tryP syscallP (\<lambda>_. failP errHostSelfUpdateGrantUncertain)
            (\<lambda>_. mapErrP (\<lambda>_. errHostSelfUpdateGrantUncertain)
               (consumeHostSelfUpdateGrant rt panelURL authorization)))
         returnP)
       (\<lambda>result.
         if binding_validate (cr_Grant result) True \<noteq> None \<or>
            \<not> sameHostSelfUpdateGrantBinding (cr_Grant result) (ga_Binding authorization)
         then failP (NewErr ''host self-update grant consume receipt is invalid'')
         else saveHostSelfUpdateGrantState
           (entry\<lparr>gs_Phase := GrantConsumed, gs_Receipt := Some (cr_Grant result)\<rparr>)))"

definition authorizeHostSelfUpdate ::
  "hostSelfUpdateExecutorRuntime \<Rightarrow> string \<Rightarrow> HostSelfUpdateGrantAuthorization \<Rightarrow> unit su_prog" where
  "authorizeHostSelfUpdate rt panelURL authorization =
     bindP loadHostSelfUpdateGrantState (\<lambda>existing.
     case existing of
       None \<Rightarrow> consume_and_record rt panelURL authorization (newHostSelfUpdateGrantState authorization)
     | Some g \<Rightarrow>
         if grant_matches g authorization
         then (if grant_phase_done (gs_Phase g) then returnP ()
               else consume_and_record rt panelURL authorization g)
         else bindP
           (if gs_Phase g = GrantPrepared
            then bindP nowP (\<lambda>now. returnP (time_Before (time_UTC now) (gb_ExpiresAt (gs_Binding g))))
            else returnP False)
           (\<lambda>live.
             if live
             then failP (NewErr ''another host self-update grant consume result is uncertain'')
             else if gs_Phase g = GrantConsumed
             then failP (NewErr ''a consumed host self-update grant is not durably applied'')
             else consume_and_record rt panelURL authorization
               (newHostSelfUpdateGrantState authorization)))"

definition markHostSelfUpdateGrantApplied :: "HostSelfUpdateGrantAuthorization \<Rightarrow> unit su_prog" where
  "markHostSelfUpdateGrantApplied authorization =
     bindP loadHostSelfUpdateGrantState (\<lambda>loaded. case loaded of
       None \<Rightarrow> failP (NewErr ''host self-update grant apply fence is unavailable'')
     | Some state \<Rightarrow>
         if \<not> grant_matches state authorization
         then failP (NewErr ''host self-update grant apply fence is unavailable'')
         else if gs_Phase state = GrantApplied then returnP ()
         else if gs_Phase state \<noteq> GrantConsumed
         then failP (NewErr ''host self-update grant was not consumed'')
         else saveHostSelfUpdateGrantState (state\<lparr>gs_Phase := GrantApplied\<rparr>))"

definition hostSelfUpdateGrantPhase :: "HostSelfUpdateGrantAuthorization \<Rightarrow> (string \<times> bool) su_prog" where
  "hostSelfUpdateGrantPhase authorization =
     bindP loadHostSelfUpdateGrantState (\<lambda>loaded. case loaded of
       None \<Rightarrow> returnP ([], False)
     | Some state \<Rightarrow>
         if \<not> grant_matches state authorization then returnP ([], False)
         else returnP (gs_Phase state, True))"

definition hostSelfUpdateGrantApplied :: "HostSelfUpdateGrantAuthorization \<Rightarrow> bool su_prog" where
  "hostSelfUpdateGrantApplied authorization =
     bindP (hostSelfUpdateGrantPhase authorization)
       (\<lambda>(phase, matches). returnP (matches \<and> phase = GrantApplied))"

text \<open>Whether the effect of a grant is what the disk shows; any error counts as no.\<close>

definition hostSelfUpdateStateEffectMatchesGrant ::
  "hostSelfUpdateExecutorRuntime \<Rightarrow> HostSelfUpdateState \<Rightarrow> HostSelfUpdateGrantBinding \<Rightarrow> bool su_prog" where
  "hostSelfUpdateStateEffectMatchesGrant rt state binding =
     (let request = hostSelfUpdateRequestForGrantBinding binding in
      if su_Phase state = PhaseStable \<and> su_FailedGeneration state = gb_AttemptGeneration binding
      then returnP True
      else if request_validate request \<noteq> None then returnP False
      else if su_Phase state = PhaseStable
      then tryP readCurrentSlot (\<lambda>_. returnP False) (\<lambda>current.
        if current \<noteq> su_ActiveSlot state \<or> su_ActiveSlot state \<noteq> su_HealthySlot state \<or>
           su_ActiveAgentVersion state \<noteq> gb_AgentVersion binding \<or>
           su_ActiveExecutorVersion state \<noteq> gb_ExecutorVersion binding
        then returnP False
        else tryP (hostSelfUpdateSlotMarkerDigests (su_ActiveSlot state)) (\<lambda>_. returnP False)
          (\<lambda>digests. tryP (verifyHostSelfUpdateSlot rt (su_ActiveSlot state) (su_ActiveSlot state)
              request digests) (\<lambda>_. returnP False) (\<lambda>_. returnP True)))
      else if \<not> hostSelfUpdatePendingMatchesGrant state binding then returnP False
      else tryP (verifyHostSelfUpdateSlot rt (su_PendingSlot state) (su_PendingSlot state) request
          (pending_digests state)) (\<lambda>_. returnP False) (\<lambda>_. returnP True))"

definition cleanFailedHostSelfUpdateGrant :: "HostSelfUpdateState \<Rightarrow> unit su_prog" where
  "cleanFailedHostSelfUpdateGrant state =
     (if su_Phase state \<noteq> PhaseStable \<or> su_FailedGeneration state = [] then returnP ()
      else bindP loadHostSelfUpdateGrantState (\<lambda>loaded. case loaded of
        None \<Rightarrow> returnP ()
      | Some grant \<Rightarrow>
          if \<not> failedHostSelfUpdateStateMatchesStageGrant state (Some grant) then returnP ()
          else if gs_Phase grant = GrantFailed then returnP ()
          else saveHostSelfUpdateGrantState (grant\<lparr>gs_Phase := GrantFailed, gs_Receipt := None\<rparr>)))"

definition markDurableHostSelfUpdateGrantApplied :: "hostSelfUpdateGrantState \<Rightarrow> unit su_prog" where
  "markDurableHostSelfUpdateGrantApplied state =
     (if gs_Phase state \<noteq> GrantConsumed \<or> gs_Receipt state = None
      then failP (NewErr ''durable host self-update grant receipt is unavailable'')
      else saveHostSelfUpdateGrantState (state\<lparr>gs_Phase := GrantApplied\<rparr>))"

text \<open>What a consumed grant whose effect is on the disk is taken to.\<close>

definition recover_stage_grant ::
  "hostSelfUpdateExecutorRuntime \<Rightarrow> HostSelfUpdateState \<Rightarrow> hostSelfUpdateGrantState \<Rightarrow>
   HostSelfUpdateState su_prog" where
  "recover_stage_grant rt state grant =
     bindP (if gs_Phase grant = GrantConsumed
            then hostSelfUpdateStateEffectMatchesGrant rt state (gs_Binding grant) else returnP False)
       (\<lambda>effect.
         if effect
         then thenP (markDurableHostSelfUpdateGrantApplied grant) (returnP state)
         else if su_Phase state = PhaseStable
         then let failed = state\<lparr>su_FailedGeneration := gb_AttemptGeneration (gs_Binding grant)\<rparr> in
           thenP (if su_FailedGeneration state \<noteq> gb_AttemptGeneration (gs_Binding grant)
                  then saveState failed else returnP ())
           (thenP (cleanFailedHostSelfUpdateGrant failed) (returnP failed))
         else failP (NewErr ''durable host self-update grant contradicts runtime state''))"

definition recover_reconcile_grant ::
  "hostSelfUpdateExecutorRuntime \<Rightarrow> HostSelfUpdateState \<Rightarrow> hostSelfUpdateGrantState \<Rightarrow>
   HostSelfUpdateState su_prog" where
  "recover_reconcile_grant rt state grant =
     (if gs_Phase grant = GrantPrepared
      then thenP removeHostSelfUpdateGrantState (returnP state)
      else bindP (if gs_Phase grant = GrantConsumed
            then hostSelfUpdateStateEffectMatchesGrant rt state (gs_Binding grant) else returnP False)
       (\<lambda>effect.
         if effect then thenP (markDurableHostSelfUpdateGrantApplied grant) (returnP state)
         else failP (NewErr ''durable host self-update grant contradicts runtime state'')))"

definition recoverDurableHostSelfUpdateGrant ::
  "hostSelfUpdateExecutorRuntime \<Rightarrow> HostSelfUpdateState \<Rightarrow> HostSelfUpdateState su_prog" where
  "recoverDurableHostSelfUpdateGrant rt state =
     bindP loadHostSelfUpdateGrantState (\<lambda>loaded. case loaded of
       None \<Rightarrow> returnP state
     | Some grant \<Rightarrow>
         if failedHostSelfUpdateStateMatchesStageGrant state (Some grant)
         then thenP (cleanFailedHostSelfUpdateGrant state) (returnP state)
         else if gs_Phase grant = GrantApplied
         then bindP (hostSelfUpdateStateEffectMatchesGrant rt state (gs_Binding grant)) (\<lambda>effect.
           if effect then returnP state
           else failP (NewErr ''applied host self-update grant contradicts runtime state''))
         else if gb_Operation (gs_Binding grant) = ''stage'' then recover_stage_grant rt state grant
         else if gb_Operation (gs_Binding grant) = ''reconcile'' then recover_reconcile_grant rt state grant
         else failP (NewErr ''durable host self-update grant contradicts runtime state''))"

section \<open>Status\<close>

definition statusWithGrantRecovery ::
  "hostSelfUpdateExecutorRuntime \<Rightarrow> bool \<Rightarrow> HostSelfUpdateRuntimeStatus su_prog" where
  "statusWithGrantRecovery rt recoverGrant =
     bindP readCurrentSlot (\<lambda>currentSlot.
     bindP (loadState rt currentSlot) (\<lambda>loaded.
     bindP (if recoverGrant then recoverDurableHostSelfUpdateGrant rt loaded else returnP loaded) (\<lambda>state.
       let runtime = \<lparr>st_State = state, st_CurrentSlot = currentSlot,
              st_ExecutorVersion = rt_executorVersion rt,
              st_ExecutorProtocolVersion = LocalExecutorMutationProtocolVersion,
              st_LastAction = ActionNone, st_RollbackRequested = False, st_RestartRequested = False\<rparr>
       in thenP (checkP (status_validate runtime)) (returnP runtime))))"

definition status :: "hostSelfUpdateExecutorRuntime \<Rightarrow> HostSelfUpdateRuntimeStatus su_prog" where
  "status rt = statusWithGrantRecovery rt True"

definition mutationStatus :: "hostSelfUpdateExecutorRuntime \<Rightarrow> HostSelfUpdateRuntimeStatus su_prog" where
  "mutationStatus rt = statusWithGrantRecovery rt False"

section \<open>Staging\<close>

definition hostSelfUpdateReleaseMatchesRequest :: "HostAgentRelease \<Rightarrow> HostSelfUpdateRequest \<Rightarrow> bool" where
  "hostSelfUpdateReleaseMatchesRequest release request \<longleftrightarrow>
     (let rr = hr_Request release in
      request_validate rr = None \<and> request_validate request = None \<and>
      req_AgentVersion rr = req_AgentVersion request \<and>
      req_ExecutorVersion rr = req_ExecutorVersion request \<and>
      req_Commit rr = req_Commit request \<and>
      req_ArtifactSHA256 rr = req_ArtifactSHA256 request \<and>
      req_AgentProtocol rr = req_AgentProtocol request \<and>
      req_ExecutorProtocol rr = req_ExecutorProtocol request \<and>
      req_MutationProtocol rr = req_MutationProtocol request \<and>
      req_RecoveryProtocol rr = req_RecoveryProtocol request \<and>
      sameHostSelfUpdateReleaseIdentity (req_Release rr) (req_Release request) \<and>
      time_Equal (hr_PublishedAt release) (rel_PublishedAt (req_Release request)) \<and>
      hr_MinimumPanelVersion release = rel_MinimumPanelVersion (req_Release request))"

definition artifact_digest :: "HostAgentRelease \<Rightarrow> string \<Rightarrow> string su_prog" where
  "artifact_digest release binary =
     tryP (lookupP (\<lambda>_. map_of (hr_Files release) (bin_path binary)))
       (\<lambda>_. failP (NewErr (''host self-update artifact '' @ binary @ '' is unsafe'')))
       (\<lambda>(info, body). if \<not> is_regular info \<or> is_symlink info
         then failP (NewErr (''host self-update artifact '' @ binary @ '' is unsafe''))
         else tryP syscallP
           (\<lambda>_. failP (NewErr (''hash host self-update artifact '' @ binary)))
           (\<lambda>_. if \<not> isCanonicalBareSHA256 (sha256_hex body)
             then failP (NewErr (''hash host self-update artifact '' @ binary))
             else returnP (sha256_hex body)))"

definition hostSelfUpdateArtifactBinaryDigests :: "HostAgentRelease \<Rightarrow> hostSelfUpdateSlotDigests su_prog" where
  "hostSelfUpdateArtifactBinaryDigests release =
     bindP (artifact_digest release AgentBinary) (\<lambda>agent.
     bindP (artifact_digest release ExecutorBinary) (\<lambda>executor.
       let digests = \<lparr>dig_AgentSHA256 = agent, dig_ExecutorSHA256 = executor\<rparr>
       in thenP (checkP (digests_validate digests)) (returnP digests)))"

text \<open>
  A file of the candidate. \<open>writeAtomicFile\<close> replaces it; \<open>O_EXCL\<close> refuses an existing one.
\<close>

definition put_file :: "string \<Rightarrow> string \<Rightarrow> file_meta \<times> string \<Rightarrow> su_world \<Rightarrow> su_world" where
  "put_file root path f = update_tree root (\<lambda>t. t\<lparr>tr_files := AList.update path f (tr_files t)\<rparr>)"

definition drop_file :: "string \<Rightarrow> string \<Rightarrow> su_world \<Rightarrow> su_world" where
  "drop_file root path = update_tree root (\<lambda>t. t\<lparr>tr_files := AList.delete path (tr_files t)\<rparr>)"

definition copyHostSelfUpdateBinary ::
  "hostSelfUpdateExecutorRuntime \<Rightarrow> HostAgentRelease \<Rightarrow> string \<Rightarrow> string \<Rightarrow> unit su_prog" where
  "copyHostSelfUpdateBinary rt release root binary =
     (let destination = bin_path binary in
      tryP (lookupP (\<lambda>_. map_of (hr_Files release) (bin_path binary)))
        (\<lambda>_. failP (NewErr ''host self-update binary source is unsafe''))
        (\<lambda>(info, body). if \<not> is_regular info \<or> is_symlink info
          then failP (NewErr ''host self-update binary source is unsafe'')
          else thenP syscallP
            (bindP (observeP (file_in root destination)) (\<lambda>existing.
              if existing \<noteq> None then failP OSFailure
              else thenP (effectP (put_file root destination (regular_meta (rt_umask rt 493) [], [])))
                (tryP
                  (thenP (effectP (put_file root destination (regular_meta (rt_umask rt 493) body, body)))
                  (thenP (effectP (put_file root destination (regular_meta 493 body, body)))
                  (thenP syscallP syscallP)))
                  (\<lambda>err. thenP (ignoreP (effectP (drop_file root destination))) (failP err))
                  returnP)))))"

definition stage_binary ::
  "hostSelfUpdateExecutorRuntime \<Rightarrow> HostAgentRelease \<Rightarrow> string \<Rightarrow> HostSelfUpdateRequest \<Rightarrow>
   string \<times> string \<times> string \<Rightarrow> unit su_prog" where
  "stage_binary rt release temporary request item =
     (case item of (name, version, expectedDigest) \<Rightarrow>
      thenP (copyHostSelfUpdateBinary rt release temporary name)
      (thenP (verifyHostSelfUpdateBinaryIdentity rt temporary name version request)
      (tryP (hashFile temporary (bin_path name))
        (\<lambda>_. failP (NewErr (''hash staged '' @ name)))
        (\<lambda>digest. if \<not> isCanonicalBareSHA256 digest then failP (NewErr (''hash staged '' @ name))
          else if digest \<noteq> expectedDigest
          then failP (NewErr (''staged '' @ name @ '' digest changed during copy''))
          else returnP ()))))"

text \<open>The candidate directory: binaries, markers, verification.\<close>

definition build_candidate ::
  "hostSelfUpdateExecutorRuntime \<Rightarrow> HostAgentRelease \<Rightarrow> string \<Rightarrow> string \<Rightarrow> HostSelfUpdateRequest \<Rightarrow>
   hostSelfUpdateSlotDigests \<Rightarrow> unit su_prog" where
  "build_candidate rt release slot temporary request slotDigests =
     thenP (forP
         [(AgentBinary, req_AgentVersion request, dig_AgentSHA256 slotDigests),
          (ExecutorBinary, req_ExecutorVersion request, dig_ExecutorSHA256 slotDigests)]
         (stage_binary rt release temporary request))
     (bindP (resultP (hostSelfUpdateSlotMarkers request (dig_AgentSHA256 slotDigests)
          (dig_ExecutorSHA256 slotDigests))) (\<lambda>markers.
      thenP (forP markers (\<lambda>(name, value).
          effectP (put_file temporary name (regular_meta 292 value, value))))
      (thenP (mapErrP (\<lambda>err. WrapErr err ''sync staged host self-update binaries'') syscallP)
      (thenP (mapErrP (\<lambda>err. WrapErr err ''sync staged host self-update slot'') syscallP)
      (verifyHostSelfUpdateSlot rt slot temporary request slotDigests)))))"

text \<open>
  The swap of the candidate into the slot. Without an occupant the candidate stays reserved
  under its temporary name until the durable state names it; otherwise the occupant is kept as
  backup until then.
\<close>

definition undo_swap :: "string \<Rightarrow> string \<Rightarrow> string \<Rightarrow> go_error \<Rightarrow> unit su_prog" where
  "undo_swap slot temporary backup err =
     tryP (restoreHostSelfUpdateSlot slot temporary backup True)
       (\<lambda>restoreErr. failP (JoinErr err restoreErr)) (\<lambda>_. failP err)"

definition swap_candidate ::
  "hostSelfUpdateExecutorRuntime \<Rightarrow> string \<Rightarrow> string \<Rightarrow> string \<Rightarrow> HostSelfUpdateRequest \<Rightarrow>
   hostSelfUpdateSlotDigests \<Rightarrow> unit su_prog" where
  "swap_candidate rt slot temporary backup request slotDigests =
     tryP (lstatEntry slot)
       (\<lambda>err. if errors_Is err NotExist
         then mapErrP (\<lambda>err. WrapErr err ''sync reserved host self-update slot candidate'') syscallP
         else failP err)
       (\<lambda>info. if \<not> is_dir info \<or> is_symlink info
         then failP (NewErr ''inactive host self-update slot is unsafe'')
         else thenP (renameEntry slot backup)
           (tryP syscallP
             (\<lambda>err. undo_swap slot temporary backup (WrapErr err ''sync host self-update slot backup''))
             (\<lambda>_. tryP (renameEntry temporary slot) (undo_swap slot temporary backup)
               (\<lambda>_. tryP syscallP
                 (\<lambda>err. undo_swap slot temporary backup
                    (WrapErr err ''sync committed host self-update slot''))
                 (\<lambda>_. tryP (verifyHostSelfUpdateSlot rt slot slot request slotDigests)
                    (undo_swap slot temporary backup) returnP)))))"

definition stageSlot ::
  "hostSelfUpdateExecutorRuntime \<Rightarrow> string \<Rightarrow> HostAgentRelease \<Rightarrow> HostSelfUpdateRequest \<Rightarrow>
   hostSelfUpdateSlotDigests \<Rightarrow> unit su_prog" where
  "stageSlot rt slot release request slotDigests =
     (if \<not> validHostSelfUpdateSlot slot \<or> request_validate request \<noteq> None \<or>
         digests_validate slotDigests \<noteq> None
      then failP (NewErr ''host self-update stage identity is invalid'')
      else thenP (mapErrP (\<lambda>err. WrapErr err ''recover interrupted host self-update slot'')
          (recoverHostSelfUpdateSlotArtifacts rt))
        (let temporary = stage_name slot (req_Generation request) ''new'';
             backup = stage_name slot (req_Generation request) ''old'' in
         thenP (forP [temporary, backup] removeHostSelfUpdateSlotArtifact)
         (thenP (effectP (\<lambda>w. if map_of (w_slots w) temporary = None
            then put_entry temporary (Tree \<lparr>tr_meta = dir_meta (rt_umask rt 493), tr_bin = None,
                   tr_files = []\<rparr>) w
            else w))
         (thenP (effectP (update_tree temporary (\<lambda>t.
            if tr_bin t = None then t\<lparr>tr_bin := Some (dir_meta (rt_umask rt 493))\<rparr> else t)))
         (thenP (effectP (update_tree temporary (\<lambda>t. t\<lparr>tr_meta := (tr_meta t)\<lparr>perm := 493\<rparr>\<rparr>)))
         (thenP (effectP (update_tree temporary (\<lambda>t.
            t\<lparr>tr_bin := map_option (\<lambda>m. m\<lparr>perm := 493\<rparr>) (tr_bin t)\<rparr>)))
         (tryP
           (thenP (build_candidate rt release slot temporary request slotDigests)
              (swap_candidate rt slot temporary backup request slotDigests))
           (\<lambda>err. tryP (removeHostSelfUpdateSlotArtifact temporary) (\<lambda>_. failP err) (\<lambda>_. failP err))
           returnP)))))))"

definition empty_blockers :: HostLifecycleBlockers where
  "empty_blockers = \<lparr>ActiveJob = False, MutationInProgress = False, RecoveryPending = False,
     TokenRotationPending = False, SelfUpdatePending = False,
     ConsumedMutationRollbackPending = False\<rparr>"

text \<open>What follows a downloaded release, up to the durable staged state.\<close>

definition stage_release ::
  "hostSelfUpdateExecutorRuntime \<Rightarrow> HostSelfUpdateRuntimeStatus \<Rightarrow> HostSelfUpdateRequest \<Rightarrow>
   HostAgentRelease \<Rightarrow> HostSelfUpdateRuntimeStatus su_prog" where
  "stage_release rt current request release =
     (if \<not> hostSelfUpdateReleaseMatchesRequest release request
      then failP (WrapErr errHostSelfUpdatePrecondition ''release binding mismatch'')
      else bindP (mapErrP (\<lambda>_. WrapErr errHostSelfUpdateStage ''binary identity'')
          (hostSelfUpdateArtifactBinaryDigests release)) (\<lambda>slotDigests.
        bindP (mapErrP (\<lambda>_. WrapErr errHostSelfUpdatePrecondition ''stage'')
          (resultP (StageHostSelfUpdate (st_State current) request empty_blockers slotDigests))) (\<lambda>next.
        thenP (mapErrP (\<lambda>_. WrapErr errHostSelfUpdateStage ''slot'')
          (stageSlot rt (su_PendingSlot next) release request slotDigests))
        (thenP (saveState next)
        (thenP (mapErrP (\<lambda>err. WrapErr err ''finalize staged host self-update slot'')
          (recoverHostSelfUpdateSlotArtifacts rt))
        (returnP (current\<lparr>st_State := next, st_LastAction := ActionNone\<rparr>)))))))"

definition stage ::
  "hostSelfUpdateExecutorRuntime \<Rightarrow> HostSelfUpdateRequest \<Rightarrow> HostSelfUpdateRuntimeStatus su_prog" where
  "stage rt request =
     bindP (mutationStatus rt) (\<lambda>current.
     let state = st_State current in
     if su_Phase state \<noteq> PhaseStable then failP errHostSelfUpdateBusy
     else if st_CurrentSlot current \<noteq> su_ActiveSlot state \<or> st_CurrentSlot current \<noteq> su_HealthySlot state
     then failP (WrapErr errHostSelfUpdatePrecondition ''stable current slot drift must be reconciled'')
     else if req_Generation request = su_FailedGeneration state
     then failP (WrapErr errHostSelfUpdatePrecondition ''failed generation replay rejected'')
     else if \<not> updaterReleaseSemverAtLeast (req_AgentVersion request) (su_ActiveAgentVersion state) \<or>
        \<not> updaterReleaseSemverAtLeast (req_ExecutorVersion request) (su_ActiveExecutorVersion state)
     then failP (WrapErr errHostSelfUpdatePrecondition ''downgrade rejected'')
     else thenP (mapErrP (\<lambda>_. WrapErr errHostSelfUpdateStage ''clear download'') syscallP)
       (thenP (mapErrP (\<lambda>_. WrapErr errHostSelfUpdateStage ''create download'') syscallP)
       (deferP
         (bindP (mapErrP (\<lambda>_. WrapErr errHostSelfUpdateStage ''verify release'')
             (thenP syscallP (resultP (rt_download rt (req_AgentVersion request) (rt_arch rt)))))
           (stage_release rt current request))
         syscallP)))"

section \<open>Activation and reconciliation\<close>

definition restartHostAgent :: "unit su_prog" where
  "restartHostAgent =
     mapErrP (\<lambda>_. NewErr ''restart Host Agent'')
       (effectP (\<lambda>w. w\<lparr>w_restarts := w_restarts w @ [''autostream-host-agent.service'']\<rparr>))"

definition failStagedHostSelfUpdate :: "HostSelfUpdateState \<Rightarrow> HostSelfUpdateState su_prog" where
  "failStagedHostSelfUpdate state =
     (if state_validate state \<noteq> None \<or> su_Phase state \<noteq> PhaseStaged
      then failP (NewErr ''staged host self-update failure state is invalid'')
      else let failed = clearRolledBackHostSelfUpdate state in
        thenP (saveState failed)
        (thenP (cleanFailedHostSelfUpdateGrant failed) (returnP failed)))"

text \<open>The switch under a durable fence: a failure leaves a durable rollback fence.\<close>

definition switch_fenced :: "HostSelfUpdateState \<Rightarrow> unit su_prog" where
  "switch_fenced next =
     tryP (switchCurrent (su_PendingSlot next))
       (\<lambda>_. tryP (saveState (beginHostSelfUpdateRollback next))
          (\<lambda>_. failP (WrapErr errHostSelfUpdateRollback
             ''switch current failed and rollback fence could not be persisted''))
          (\<lambda>_. failP (WrapErr errHostSelfUpdateRollback ''switch current failed'')))
       returnP"

definition activate ::
  "hostSelfUpdateExecutorRuntime \<Rightarrow> string \<Rightarrow> HostSelfUpdateRuntimeStatus su_prog" where
  "activate rt generation =
     bindP (status rt) (\<lambda>current.
     let state = st_State current in
     if su_Phase state \<noteq> PhaseStaged \<or> su_PendingGeneration state \<noteq> generation
     then failP (WrapErr errHostSelfUpdatePrecondition ''generation is not staged'')
     else if st_CurrentSlot current \<noteq> su_HealthySlot state
     then failP (WrapErr errHostSelfUpdatePrecondition ''healthy rollback slot is not current'')
     else thenP (mapErrP (\<lambda>_. WrapErr errHostSelfUpdatePrecondition ''healthy rollback slot is unsafe'')
         (validateHostSelfUpdateSlotTree (su_HealthySlot state)))
       (tryP (verifyPendingHostSelfUpdateSlot rt state)
         (\<lambda>err. tryP (failStagedHostSelfUpdate state)
            (\<lambda>failErr. failP (JoinErr err failErr))
            (\<lambda>_. failP (WrapErr errHostSelfUpdatePrecondition ''staged slot verification failed'')))
         (\<lambda>_. bindP nowP (\<lambda>now.
          bindP (resultP (BeginHostSelfUpdateActivation state (time_UTC now) (rt_verificationTimeout rt)))
          (\<lambda>next.
            thenP (saveState next)
            (thenP (switch_fenced next)
            (thenP restartHostAgent
              (returnP (current\<lparr>st_State := next, st_CurrentSlot := su_PendingSlot next,
                 st_LastAction := ActionSwitchCurrent, st_RestartRequested := True\<rparr>)))))))))"

definition reconcile_observation ::
  "hostSelfUpdateExecutorRuntime \<Rightarrow> HostSelfUpdateRuntimeStatus \<Rightarrow> HostSelfUpdateAgentProof \<Rightarrow>
   HostSelfUpdateObservation" where
  "reconcile_observation rt current agentProof =
     (let state = st_State current;
          ob = \<lparr>obs_CurrentSlot = st_CurrentSlot current,
            obs_RunningAgentVersion = ap_RunningAgentVersion agentProof,
            obs_PanelHeartbeatVersion = ap_PanelHeartbeatVersion agentProof,
            obs_HeartbeatGeneration = ap_HeartbeatGeneration agentProof,
            obs_ExecutorVersion = rt_executorVersion rt,
            obs_ExecutorProtocol = LocalExecutorMutationProtocolVersion,
            obs_ExecutorHealthy = False, obs_ExecutorProbeGeneration = [],
            obs_ExecutorFailureCode = []\<rparr>;
          ob = (if su_Phase state \<noteq> PhaseStable \<and>
                  (su_Phase state = PhaseRollingBack \<or> st_CurrentSlot current = su_PendingSlot state)
                then let expectedExecutor = (if su_Phase state = PhaseRollingBack
                           then su_ActiveExecutorVersion state else su_PendingExecutorVersion state);
                         healthy = rt_executorVersion rt = expectedExecutor
                  in ob\<lparr>obs_ExecutorProbeGeneration := su_PendingGeneration state,
                        obs_ExecutorHealthy := healthy,
                        obs_ExecutorFailureCode := (if healthy then [] else ''executor_probe_failed'')\<rparr>
                else ob)
      in if ap_FailureCode agentProof \<noteq> []
         then ob\<lparr>obs_ExecutorHealthy := False, obs_ExecutorFailureCode := ap_FailureCode agentProof\<rparr>
         else ob)"

definition expire_observation ::
  "HostSelfUpdateState \<Rightarrow> HostSelfUpdateObservation \<Rightarrow> HostSelfUpdateObservation su_prog" where
  "expire_observation state ob =
     (if su_Phase state = PhaseActivating \<or> su_Phase state = PhaseVerifying
      then bindP nowP (\<lambda>now. returnP
        (if \<not> time_Before (time_UTC now) (su_ActivationDeadline state)
         then ob\<lparr>obs_ExecutorHealthy := False, obs_ExecutorFailureCode := ''verification_timeout''\<rparr>
         else ob))
      else returnP ob)"

text \<open>A pending slot that no longer verifies is fenced for rollback before anything else happens.\<close>

definition verify_or_fence ::
  "hostSelfUpdateExecutorRuntime \<Rightarrow> HostSelfUpdateState \<Rightarrow> string \<Rightarrow> unit su_prog" where
  "verify_or_fence rt next message =
     tryP (verifyPendingHostSelfUpdateSlot rt next)
       (\<lambda>_. tryP (saveState (beginHostSelfUpdateRollback next))
          (\<lambda>saveErr. failP (JoinErr (WrapErr errHostSelfUpdateRollback message) saveErr))
          (\<lambda>_. failP (WrapErr errHostSelfUpdateRollback message)))
       returnP"

definition perform_action ::
  "hostSelfUpdateExecutorRuntime \<Rightarrow> HostSelfUpdateRuntimeStatus \<Rightarrow> HostSelfUpdateState \<Rightarrow> string \<Rightarrow>
   HostSelfUpdateRuntimeStatus su_prog" where
  "perform_action rt current next action =
     (let runtime = current\<lparr>st_State := next, st_LastAction := action\<rparr> in
      if action = ActionSwitchCurrent
      then thenP (verify_or_fence rt next ''resumed staged slot verification failed'')
        (thenP (saveState next)
        (thenP (switch_fenced next)
        (thenP restartHostAgent
          (returnP (runtime\<lparr>st_CurrentSlot := su_PendingSlot next, st_RestartRequested := True\<rparr>)))))
      else if action = ActionRestoreHealthy
      then thenP (saveState next)
        (thenP (mapErrP (\<lambda>_. WrapErr errHostSelfUpdateRollback ''restore current slot'')
           (switchCurrent (su_HealthySlot next)))
        (thenP (mapErrP (\<lambda>_. WrapErr errHostSelfUpdateRollback ''restart healthy agent'') restartHostAgent)
          (returnP (runtime\<lparr>st_CurrentSlot := su_HealthySlot next, st_RollbackRequested := True,
             st_RestartRequested := True\<rparr>))))
      else if action = ActionRestartAgent
      then thenP (verify_or_fence rt next ''resumed pending slot verification failed'')
        (thenP (saveState next)
        (thenP restartHostAgent (returnP (runtime\<lparr>st_RestartRequested := True\<rparr>))))
      else if action = ActionRestartHealthy
      then thenP (saveState next)
        (thenP restartHostAgent (returnP (runtime\<lparr>st_RestartRequested := True\<rparr>)))
      else thenP (saveState next) (returnP runtime))"

definition reconcile ::
  "hostSelfUpdateExecutorRuntime \<Rightarrow> HostSelfUpdateAgentProof \<Rightarrow> HostSelfUpdateRuntimeStatus su_prog" where
  "reconcile rt agentProof =
     bindP (mutationStatus rt) (\<lambda>current.
     bindP (expire_observation (st_State current) (reconcile_observation rt current agentProof)) (\<lambda>observation.
     bindP (resultP (ReconcileHostSelfUpdate (st_State current) observation))
       (\<lambda>(next, action). perform_action rt current next action)))"

section \<open>Failed stages\<close>

definition uncertain_binding_mismatch ::
  "HostSelfUpdateRuntimeStatus \<Rightarrow> HostSelfUpdateRequest \<Rightarrow> HostSelfUpdateGrantAuthorization \<Rightarrow> bool" where
  "uncertain_binding_mismatch current request authorization \<longleftrightarrow>
     (let state = st_State current; b = ga_Binding authorization in
      status_validate current \<noteq> None \<or>
      su_Phase state \<noteq> PhaseStable \<or>
      st_CurrentSlot current \<noteq> su_ActiveSlot state \<or>
      su_ActiveSlot state \<noteq> su_HealthySlot state \<or>
      request_validate request \<noteq> None \<or>
      authorization_validate authorization \<noteq> None \<or>
      gb_Operation b \<noteq> ''stage'' \<or>
      gb_AttemptGeneration b \<noteq> req_Generation request \<or>
      gb_AgentVersion b \<noteq> req_AgentVersion request \<or>
      gb_ExecutorVersion b \<noteq> req_ExecutorVersion request \<or>
      gb_ReleaseCommit b \<noteq> req_Commit request \<or>
      gb_ArtifactSHA256 b \<noteq> req_ArtifactSHA256 request \<or>
      gb_AgentProtocolVersion b \<noteq> req_AgentProtocol request \<or>
      gb_ExecutorProtocolVersion b \<noteq> req_ExecutorProtocol request \<or>
      gb_MutationProtocolVersion b \<noteq> req_MutationProtocol request \<or>
      gb_RecoveryProtocolVersion b \<noteq> req_RecoveryProtocol request \<or>
      \<not> sameHostSelfUpdateReleaseIdentity (gb_Release b) (req_Release request))"

definition failClosedUncertainStage ::
  "HostSelfUpdateRuntimeStatus \<Rightarrow> HostSelfUpdateRequest \<Rightarrow> HostSelfUpdateGrantAuthorization \<Rightarrow>
   HostSelfUpdateRuntimeStatus su_prog" where
  "failClosedUncertainStage current request authorization =
     (if uncertain_binding_mismatch current request authorization
      then failP (NewErr ''uncertain host self-update stage binding is invalid'')
      else tryP loadHostSelfUpdateGrantState
        (\<lambda>_. failP (NewErr ''uncertain host self-update stage fence is unavailable''))
        (\<lambda>loaded.
          if (case loaded of None \<Rightarrow> True
              | Some grant \<Rightarrow> gs_Phase grant \<noteq> GrantPrepared \<or> \<not> grant_matches grant authorization)
          then failP (NewErr ''uncertain host self-update stage fence is unavailable'')
          else let failed = (st_State current)\<lparr>su_FailedGeneration := req_Generation request\<rparr> in
            thenP (saveState failed)
            (thenP (cleanFailedHostSelfUpdateGrant failed)
              (returnP (current\<lparr>st_State := failed, st_LastAction := ActionNone\<rparr>)))))"

definition convergeHostSelfUpdateStageAfterError ::
  "hostSelfUpdateExecutorRuntime \<Rightarrow> HostSelfUpdateRequest \<Rightarrow> HostSelfUpdateGrantAuthorization \<Rightarrow>
   (HostSelfUpdateRuntimeStatus \<times> bool) su_prog" where
  "convergeHostSelfUpdateStageAfterError rt request authorization =
     thenP (mapErrP (\<lambda>err. WrapErr err ''prepare host self-update stage error recovery'') (prepare rt))
     (bindP (mapErrP (\<lambda>err. WrapErr err ''recover host self-update stage error'') (status rt)) (\<lambda>current.
      bindP (hostSelfUpdateGrantPhase authorization) (\<lambda>(phase, matches).
      bindP (if matches \<and> phase = GrantApplied
             then hostSelfUpdateStateEffectMatchesGrant rt (st_State current) (ga_Binding authorization)
             else returnP False) (\<lambda>effect.
        if effect then returnP (current, True)
        else if matches \<and> phase = GrantFailed \<and> su_Phase (st_State current) = PhaseStable \<and>
           su_FailedGeneration (st_State current) = req_Generation request
        then returnP (current, False)
        else failP (NewErr ''host self-update stage error did not durably converge'')))))"

section \<open>The request handler\<close>

text \<open>
  A self-update request of the local executor protocol: the fields of \<open>LocalExecutorRequest\<close>
  that the handler reads, and whether any field that belongs to another operation (a software
  or port plan, a runtime credential, a claim inspection, a mutation grant or its binding) is
  present. The response is a failure code or the status.
\<close>

record LocalExecutorRequest =
  lr_Version :: int
  lr_Operation :: string
  lr_ServiceID :: string
  lr_HostSelfUpdate :: "HostSelfUpdateRequest option"
  lr_HostSelfUpdateProof :: "HostSelfUpdateAgentProof option"
  lr_HostSelfUpdateGeneration :: string
  lr_HostSelfUpdateGrant :: "HostSelfUpdateGrantAuthorization option"
  lr_SourcePolicyRevision :: int
  lr_OwnershipEpoch :: int
  lr_OwnershipPolicyRevision :: int
  lr_ExecutorPolicyRevision :: int
  lr_foreign_fields :: bool

datatype LocalExecutorResponse = FailureResponse string | StatusResponse HostSelfUpdateRuntimeStatus

definition stage_fields_check :: "LocalExecutorRequest \<Rightarrow> go_error option" where
  "stage_fields_check r =
     (case (lr_HostSelfUpdate r, lr_HostSelfUpdateGrant r) of
        (Some u, Some g) \<Rightarrow>
          if lr_HostSelfUpdateProof r \<noteq> None \<or> lr_HostSelfUpdateGeneration r \<noteq> []
          then errNew ''local executor host self-update stage request is invalid''
          else (case request_validate u of Some err \<Rightarrow> Some err | None \<Rightarrow>
            if authorization_validate g \<noteq> None \<or> gb_Operation (ga_Binding g) \<noteq> ''stage''
            then errNew ''local executor host self-update stage grant is invalid'' else None)
      | _ \<Rightarrow> errNew ''local executor host self-update stage request is invalid'')"

definition reconcile_fields_check :: "LocalExecutorRequest \<Rightarrow> go_error option" where
  "reconcile_fields_check r =
     (case lr_HostSelfUpdateProof r of
        None \<Rightarrow> errNew ''local executor host self-update reconcile request is invalid''
      | Some p \<Rightarrow>
          if lr_HostSelfUpdate r \<noteq> None \<or> lr_HostSelfUpdateGeneration r \<noteq> []
          then errNew ''local executor host self-update reconcile request is invalid''
          else (case proof_validate p of Some err \<Rightarrow> Some err | None \<Rightarrow>
            (case lr_HostSelfUpdateGrant r of
               None \<Rightarrow> if p \<noteq> empty_proof
                 then errNew ''local executor host self-update reconcile grant is required'' else None
             | Some g \<Rightarrow>
                 if authorization_validate g \<noteq> None \<or> gb_Operation (ga_Binding g) \<noteq> ''reconcile''
                 then errNew ''local executor host self-update reconcile grant is invalid'' else None)))"

text \<open>\<open>LocalExecutorRequest.Validate\<close> on the operations of the self-update.\<close>

definition LocalExecutorRequest_Validate :: "LocalExecutorRequest \<Rightarrow> go_error option" where
  "LocalExecutorRequest_Validate r =
     (if lr_ServiceID r \<noteq> TrimSpace (lr_ServiceID r) \<or> \<not> MatchString identifierPattern (lr_ServiceID r)
      then errNew ''local executor service_id is invalid''
      else if lr_Operation r \<notin> {''host_self_update_status'', ''host_self_update_stage'',
         ''host_self_update_activate'', ''host_self_update_reconcile''}
      then errNew ''unsupported local executor operation''
      else if lr_Version r \<noteq> LocalExecutorMutationProtocolVersion \<or> lr_foreign_fields r \<or>
         lr_SourcePolicyRevision r < 1 \<or> lr_OwnershipEpoch r < 1 \<or> lr_OwnershipPolicyRevision r < 1 \<or>
         lr_ExecutorPolicyRevision r < 1
      then errNew ''local executor host self-update binding is invalid''
      else if lr_Operation r = ''host_self_update_status''
      then (if lr_HostSelfUpdate r \<noteq> None \<or> lr_HostSelfUpdateProof r \<noteq> None \<or>
               lr_HostSelfUpdateGeneration r \<noteq> [] \<or> lr_HostSelfUpdateGrant r \<noteq> None
            then errNew ''local executor host self-update status request is invalid'' else None)
      else if lr_Operation r = ''host_self_update_stage'' then stage_fields_check r
      else if lr_Operation r = ''host_self_update_activate''
      then (if lr_HostSelfUpdate r \<noteq> None \<or> lr_HostSelfUpdateProof r \<noteq> None \<or>
               lr_HostSelfUpdateGrant r \<noteq> None \<or>
               \<not> MatchString identifierPattern (lr_HostSelfUpdateGeneration r) \<or>
               lr_HostSelfUpdateGeneration r \<noteq> TrimSpace (lr_HostSelfUpdateGeneration r)
            then errNew ''local executor host self-update activation request is invalid'' else None)
      else reconcile_fields_check r)"

definition request_fence :: "LocalExecutorRequest \<Rightarrow> LocalExecutorMutationFence" where
  "request_fence r = \<lparr>fe_SourcePolicyRevision = lr_SourcePolicyRevision r,
     fe_OwnershipEpoch = lr_OwnershipEpoch r, fe_OwnershipPolicyRevision = lr_OwnershipPolicyRevision r,
     fe_ExecutorPolicyRevision = lr_ExecutorPolicyRevision r\<rparr>"

text \<open>An operation ends in an error, a failure code of its own (\<open>Inl\<close>) or a status.\<close>

type_synonym handled = "string + HostSelfUpdateRuntimeStatus"

definition replay_applied ::
  "hostSelfUpdateExecutorRuntime \<Rightarrow> HostSelfUpdateRuntimeStatus \<Rightarrow> HostSelfUpdateGrantAuthorization \<Rightarrow>
   string \<Rightarrow> handled su_prog" where
  "replay_applied rt current authorization message =
     bindP (hostSelfUpdateStateEffectMatchesGrant rt (st_State current) (ga_Binding authorization))
       (\<lambda>effect. if effect then returnP (Inr current) else failP (NewErr message))"

definition stage_or_converge ::
  "hostSelfUpdateExecutorRuntime \<Rightarrow> HostSelfUpdateRequest \<Rightarrow> HostSelfUpdateGrantAuthorization \<Rightarrow>
   handled su_prog" where
  "stage_or_converge rt request authorization =
     tryP (stage rt request)
       (\<lambda>stageErr. tryP (convergeHostSelfUpdateStageAfterError rt request authorization)
          (\<lambda>convergenceErr. failP (JoinErr stageErr
             (WrapErr convergenceErr ''converge host self-update stage error'')))
          (\<lambda>(current, applied). if applied then returnP (Inr current) else failP stageErr))
       (\<lambda>current. thenP (markHostSelfUpdateGrantApplied authorization) (returnP (Inr current)))"

definition authorized_stage ::
  "hostSelfUpdateExecutorRuntime \<Rightarrow> string \<Rightarrow> HostSelfUpdateRuntimeStatus \<Rightarrow> HostSelfUpdateRequest \<Rightarrow>
   HostSelfUpdateGrantAuthorization \<Rightarrow> handled su_prog" where
  "authorized_stage rt panelURL current request authorization =
     tryP (authorizeHostSelfUpdate rt panelURL authorization)
       (\<lambda>err. if errors_Is err errHostSelfUpdateGrantUncertain
         then bindP (failClosedUncertainStage current request authorization) (\<lambda>st. returnP (Inr st))
         else returnP (Inl ''authorization_failed''))
       (\<lambda>_. bindP (hostSelfUpdateGrantApplied authorization) (\<lambda>applied.
         if applied
         then replay_applied rt current authorization
           ''applied host self-update stage grant contradicts runtime state''
         else stage_or_converge rt request authorization))"

definition handle_stage ::
  "hostSelfUpdateExecutorRuntime \<Rightarrow> LocalExecutorPolicy \<Rightarrow> string \<Rightarrow> LocalExecutorRequest \<Rightarrow>
   HostSelfUpdateRequest \<Rightarrow> HostSelfUpdateGrantAuthorization \<Rightarrow> handled su_prog" where
  "handle_stage rt policy panelURL r request authorization =
     bindP (status rt) (\<lambda>current.
     if validateHostSelfUpdateGrantReplayBinding policy (request_fence r) ''stage'' (Some request) None
          authorization \<noteq> None
     then returnP (Inl ''authorization_failed'')
     else bindP (hostSelfUpdateGrantPhase authorization) (\<lambda>(phase, matches).
       if matches \<and> phase = GrantApplied
       then replay_applied rt current authorization
         ''applied host self-update stage grant contradicts runtime state''
       else if matches \<and> phase = GrantFailed
       then (if su_Phase (st_State current) \<noteq> PhaseStable \<or>
                su_FailedGeneration (st_State current) \<noteq> gb_AttemptGeneration (ga_Binding authorization)
             then failP (NewErr ''failed host self-update stage grant contradicts runtime state'')
             else returnP (Inr current))
       else bindP (if matches \<and> phase = GrantConsumed \<and> su_Phase (st_State current) = PhaseStaged
                   then hostSelfUpdateStateEffectMatchesGrant rt (st_State current)
                     (ga_Binding authorization)
                   else returnP False) (\<lambda>effect.
         if effect then thenP (markHostSelfUpdateGrantApplied authorization) (returnP (Inr current))
         else if validateHostSelfUpdateGrantForOperation policy (request_fence r) ''stage''
            (Some request) (st_State current) authorization \<noteq> None
         then returnP (Inl ''authorization_failed'')
         else authorized_stage rt panelURL current request authorization)))"

definition authorized_reconcile ::
  "hostSelfUpdateExecutorRuntime \<Rightarrow> string \<Rightarrow> HostSelfUpdateRuntimeStatus \<Rightarrow> HostSelfUpdateAgentProof \<Rightarrow>
   HostSelfUpdateGrantAuthorization \<Rightarrow> handled su_prog" where
  "authorized_reconcile rt panelURL current agentProof authorization =
     tryP (authorizeHostSelfUpdate rt panelURL authorization)
       (\<lambda>err. returnP (Inl (if errors_Is err errHostSelfUpdateGrantUncertain
         then ''authorization_uncertain'' else ''authorization_failed'')))
       (\<lambda>_. bindP (hostSelfUpdateGrantApplied authorization) (\<lambda>applied.
         if applied
         then replay_applied rt current authorization
           ''applied host self-update reconcile grant contradicts runtime state''
         else bindP (reconcile rt agentProof) (\<lambda>done.
           thenP (markHostSelfUpdateGrantApplied authorization) (returnP (Inr done)))))"

definition handle_reconcile ::
  "hostSelfUpdateExecutorRuntime \<Rightarrow> LocalExecutorPolicy \<Rightarrow> string \<Rightarrow> LocalExecutorRequest \<Rightarrow>
   HostSelfUpdateAgentProof \<Rightarrow> handled su_prog" where
  "handle_reconcile rt policy panelURL r agentProof =
     bindP (status rt) (\<lambda>current.
     case lr_HostSelfUpdateGrant r of
       None \<Rightarrow>
         if su_Phase (st_State current) \<noteq> PhaseStable \<or>
            st_CurrentSlot current = su_ActiveSlot (st_State current) \<or> agentProof \<noteq> empty_proof
         then returnP (Inl ''authorization_failed'')
         else bindP (reconcile rt agentProof) (\<lambda>done. returnP (Inr done))
     | Some authorization \<Rightarrow>
         if validateHostSelfUpdateGrantReplayBinding policy (request_fence r) ''reconcile'' None
              (Some agentProof) authorization \<noteq> None
         then returnP (Inl ''authorization_failed'')
         else bindP (hostSelfUpdateGrantPhase authorization) (\<lambda>(phase, matches).
           if matches \<and> phase = GrantApplied
           then replay_applied rt current authorization
             ''applied host self-update reconcile grant contradicts runtime state''
           else bindP (if matches \<and> phase = GrantConsumed \<and> su_Phase (st_State current) = PhaseStable
                   then hostSelfUpdateStateEffectMatchesGrant rt (st_State current)
                     (ga_Binding authorization)
                   else returnP False) (\<lambda>effect.
             if effect then thenP (markHostSelfUpdateGrantApplied authorization) (returnP (Inr current))
             else if validateHostSelfUpdateGrantForOperation policy (request_fence r) ''reconcile''
                None (st_State current) authorization \<noteq> None
             then returnP (Inl ''authorization_failed'')
             else authorized_reconcile rt panelURL current agentProof authorization)))"

definition handle_operation ::
  "hostSelfUpdateExecutorRuntime \<Rightarrow> LocalExecutorPolicy \<Rightarrow> string \<Rightarrow> LocalExecutorRequest \<Rightarrow> handled su_prog" where
  "handle_operation rt policy panelURL r =
     (if lr_Operation r = ''host_self_update_status''
      then bindP (status rt) (\<lambda>st. returnP (Inr st))
      else if lr_Operation r = ''host_self_update_stage''
      then handle_stage rt policy panelURL r (the (lr_HostSelfUpdate r)) (the (lr_HostSelfUpdateGrant r))
      else if lr_Operation r = ''host_self_update_activate''
      then bindP (activate rt (lr_HostSelfUpdateGeneration r)) (\<lambda>st. returnP (Inr st))
      else if lr_Operation r = ''host_self_update_reconcile''
      then handle_reconcile rt policy panelURL r (the (lr_HostSelfUpdateProof r))
      else returnP (Inl ''invalid_request''))"

definition failure_code :: "go_error \<Rightarrow> string" where
  "failure_code err =
     (if errors_Is err errHostSelfUpdateBusy then ''target_busy''
      else if errors_Is err errHostSelfUpdateStage then ''stage_failed''
      else if errors_Is err errHostSelfUpdateRollback then ''rollback_failed''
      else if errors_Is err errHostSelfUpdatePrecondition then ''mutation_precondition_failed''
      else ''state_invalid'')"

definition handleLocalExecutorHostSelfUpdate ::
  "hostSelfUpdateExecutorRuntime \<Rightarrow> LocalExecutorPolicy \<Rightarrow> LocalExecutorRequest \<Rightarrow>
   LocalExecutorResponse su_prog" where
  "handleLocalExecutorHostSelfUpdate rt policy r =
     (if LocalExecutorRequest_Validate r \<noteq> None \<or> \<not> HasPrefix (lr_Operation r) ''host_self_update_''
      then returnP (FailureResponse ''invalid_request'')
      else case po_Mutation policy of
        None \<Rightarrow> returnP (FailureResponse ''policy_invalid'')
      | Some panelURL \<Rightarrow>
          if policy_Validate (rt_net rt) policy \<noteq> None \<or>
             po_SchemaVersion policy \<noteq> LocalExecutorMutationPolicySchemaVersion \<or>
             po_ProtocolVersion policy \<noteq> LocalExecutorMutationProtocolVersion
          then returnP (FailureResponse ''policy_invalid'')
          else if lr_ServiceID r \<noteq> po_HostID policy \<or>
             lr_SourcePolicyRevision r \<noteq> po_SourcePolicyRevision policy \<or>
             lr_OwnershipPolicyRevision r \<noteq> po_ProjectionRevision policy \<or>
             lr_ExecutorPolicyRevision r \<noteq> po_PolicyRevision policy
          then returnP (FailureResponse ''config_mismatch'')
          else tryP (prepare rt) (\<lambda>_. returnP (FailureResponse ''state_unavailable''))
            (\<lambda>_. tryP (handle_operation rt policy panelURL r)
               (\<lambda>err. returnP (FailureResponse (failure_code err)))
               (\<lambda>result. case result of
                  Inl code \<Rightarrow> returnP (FailureResponse code)
                | Inr st \<Rightarrow> if status_validate st \<noteq> None
                    then returnP (FailureResponse ''internal_error'')
                    else returnP (StatusResponse st))))"

end
