(* ===== verification/SelfUpdate_Watchdog.thy ===== *)
theory SelfUpdate_Watchdog
  imports SelfUpdate_Executor
begin

text \<open>
  The recovery timers of the two slots: \<open>host_self_update_watchdog.go\<close> and the health probe of
  the restarted executor, \<open>host_self_update_health.go\<close>. What \<open>systemctl\<close> reports as main
  process and what \<open>/proc\<close> names as its executable are answers of the world.
\<close>

section \<open>Process probes\<close>

fun digits_value :: "nat \<Rightarrow> string \<Rightarrow> nat option" where
  "digits_value n [] = Some n"
| "digits_value n (c # cs) =
     (if CHR ''0'' \<le> c \<and> c \<le> CHR ''9'' then digits_value (10 * n + (of_char c - 48)) cs else None)"

definition Atoi :: "string \<Rightarrow> int option" where
  "Atoi s =
     (let neg = HasPrefix s ''-''; ds = (if neg \<or> HasPrefix s ''+'' then tl s else s) in
      if ds = [] then None
      else case digits_value 0 ds of None \<Rightarrow> None
      | Some n \<Rightarrow> let v = (if neg then - int n else int n) in if int64_range v then Some v else None)"

definition Contains :: "string \<Rightarrow> string \<Rightarrow> bool" where
  "Contains s t \<longleftrightarrow> list_ex (\<lambda>i. HasPrefix (drop i s) t) [0..<Suc (length s)]"

definition healthyLocalExecutorProcess :: "(int \<times> string) su_prog" where
  "healthyLocalExecutorProcess =
     thenP (mapErrP (\<lambda>err. WrapErr err ''verify healthy Local Executor process'') syscallP)
     (thenP (forP [''autostream-local-executor.socket'', ''autostream-local-executor.service'']
        (\<lambda>unit. mapErrP (\<lambda>_. NewErr (unit @ '' is not active'')) syscallP))
     (bindP (mapErrP (\<lambda>_. NewErr ''read healthy Local Executor MainPID'')
        (popP w_probes (\<lambda>ps. w_probes_update (\<lambda>_. ps)))) (\<lambda>(output, running).
      case Atoi (TrimSpace output) of
        None \<Rightarrow> failP (NewErr ''healthy Local Executor has no MainPID'')
      | Some pid \<Rightarrow>
          if pid \<le> 0 then failP (NewErr ''healthy Local Executor has no MainPID'')
          else thenP (mapErrP (\<lambda>_. NewErr ''resolve healthy Local Executor executable'') syscallP)
            (returnP (pid, running)))))"

definition isHostRuntimeSystemdExecutor :: "string \<Rightarrow> bool" where
  "isHostRuntimeSystemdExecutor executable \<longleftrightarrow>
     Clean executable = ''/usr/lib/systemd/systemd-executor'' \<or>
     Clean executable = ''/lib/systemd/systemd-executor''"

primrec acquire_pid :: "string \<Rightarrow> nat \<Rightarrow> int \<Rightarrow> int su_prog" where
  "acquire_pid expected 0 pinnedPID =
     failP (NewErr ''healthy Local Executor startup probe limit is invalid'')"
| "acquire_pid expected (Suc remaining) pinnedPID =
     bindP healthyLocalExecutorProcess (\<lambda>(pid, running).
       if pinnedPID \<noteq> 0 \<and> pid \<noteq> pinnedPID
       then failP (NewErr ''healthy Local Executor MainPID changed during systemd-executor transition'')
       else if Clean running = Clean expected then returnP pid
       else if \<not> isHostRuntimeSystemdExecutor running
       then failP (NewErr ''Local Executor is not running the healthy slot binary'')
       else if remaining = 0
       then failP (NewErr ''healthy Local Executor remained in systemd-executor beyond the startup probe limit'')
       else thenP (mapErrP (\<lambda>err. WrapErr err
              ''wait for healthy Local Executor systemd-executor transition'') syscallP)
            (acquire_pid expected remaining pid))"

definition acquireHealthyLocalExecutorPID :: "string \<Rightarrow> int su_prog" where
  "acquireHealthyLocalExecutorPID expected = acquire_pid expected 8 0"

definition healthyLocalExecutorPID :: "string \<Rightarrow> int su_prog" where
  "healthyLocalExecutorPID expected =
     bindP healthyLocalExecutorProcess (\<lambda>(pid, running).
       if Clean running \<noteq> Clean expected
       then failP (NewErr ''Local Executor is not running the healthy slot binary'')
       else returnP pid)"

definition slot_executor_path :: "string \<Rightarrow> string" where
  "slot_executor_path slot =
     ''/opt/autostream/host-agent/slots/'' @ slot @ ''/bin/autostream-local-executor''"

definition handshake_mismatch ::
  "HostSelfUpdateRuntimeStatus \<Rightarrow> HostSelfUpdateState \<Rightarrow> string \<Rightarrow> bool" where
  "handshake_mismatch socketStatus state healthySlot \<longleftrightarrow>
     st_State socketStatus \<noteq> state \<or>
     st_CurrentSlot socketStatus \<noteq> healthySlot \<or>
     st_ExecutorVersion socketStatus \<noteq> su_ActiveExecutorVersion state \<or>
     st_ExecutorProtocolVersion socketStatus \<noteq> LocalExecutorMutationProtocolVersion \<or>
     su_RecoveryProtocolVersion (st_State socketStatus) \<noteq> HostSelfUpdateRecoveryProtocolVersion \<or>
     st_LastAction socketStatus \<noteq> ActionNone \<or>
     st_RollbackRequested socketStatus \<or> st_RestartRequested socketStatus"

definition verify_executor_identity ::
  "hostSelfUpdateExecutorRuntime \<Rightarrow> string \<Rightarrow> HostSelfUpdateState \<Rightarrow> unit su_prog" where
  "verify_executor_identity rt healthySlot state =
     tryP (runVersion rt healthySlot ExecutorBinary)
       (\<lambda>_. failP (NewErr ''healthy Local Executor version or protocol is invalid''))
       (\<lambda>output.
         if \<not> Contains output (ExecutorBinary @ '' '' @ su_ActiveExecutorVersion state @ [CHR 0x0A]) \<or>
            \<not> Contains output (''mutation_protocol: '' @
                int_string LocalExecutorMutationProtocolVersion @ [CHR 0x0A]) \<or>
            \<not> Contains output (''recovery_protocol: '' @
                int_string (su_RecoveryProtocolVersion state) @ [CHR 0x0A])
         then failP (NewErr ''healthy Local Executor version or protocol is invalid'')
         else returnP ())"

definition verifyHealthyLocalExecutor ::
  "hostSelfUpdateExecutorRuntime \<Rightarrow> string \<Rightarrow> HostSelfUpdateState \<Rightarrow> unit su_prog" where
  "verifyHealthyLocalExecutor rt healthySlot state =
     (if \<not> validHostSelfUpdateSlot healthySlot \<or> su_HealthySlot state \<noteq> healthySlot \<or>
         su_ActiveExecutorVersion state = []
      then failP (NewErr ''healthy Local Executor identity is invalid'')
      else thenP (mapErrP (\<lambda>_. NewErr ''healthy host self-update slot is unsafe'')
          (validateHostSelfUpdateSlotTree healthySlot))
        (thenP (tryP (lstatFile healthySlot (bin_path ExecutorBinary))
            (\<lambda>_. failP (NewErr ''healthy Local Executor binary is unsafe''))
            (\<lambda>info. if \<not> is_regular info \<or> is_symlink info
              then failP (NewErr ''healthy Local Executor binary is unsafe'') else returnP ()))
        (bindP (acquireHealthyLocalExecutorPID (slot_executor_path healthySlot)) (\<lambda>firstPID.
         thenP (mapErrP (\<lambda>err. WrapErr err ''wait for healthy Local Executor stability'') syscallP)
         (bindP (healthyLocalExecutorPID (slot_executor_path healthySlot)) (\<lambda>secondPID.
            if firstPID \<noteq> secondPID
            then failP (NewErr ''healthy Local Executor MainPID changed during stability probe'')
            else thenP (verify_executor_identity rt healthySlot state)
              (tryP (bindP (popP w_socket (\<lambda>ss. w_socket_update (\<lambda>_. ss))) resultP)
                (\<lambda>_. failP (NewErr ''healthy Local Executor watchdog status handshake is invalid''))
                (\<lambda>socketStatus. if handshake_mismatch socketStatus state healthySlot
                  then failP (NewErr ''healthy Local Executor watchdog status handshake is invalid'')
                  else returnP ()))))))))"

definition restartLocalExecutor :: "unit su_prog" where
  "restartLocalExecutor =
     mapErrP (\<lambda>_. NewErr ''restart Local Executor'')
       (effectP (\<lambda>w. w\<lparr>w_restarts := w_restarts w @ [''autostream-local-executor.service'']\<rparr>))"

section \<open>The watchdog\<close>

text \<open>From the durable rollback fence on: link, executor, proof of health, agent, final state.\<close>

definition finish_rollback ::
  "hostSelfUpdateExecutorRuntime \<Rightarrow> HostSelfUpdateRuntimeStatus \<Rightarrow> HostSelfUpdateRuntimeStatus su_prog" where
  "finish_rollback rt fenced =
     (let state = st_State fenced; cleared = clearRolledBackHostSelfUpdate state in
      thenP (mapErrP (\<lambda>_. WrapErr errHostSelfUpdateRollback ''watchdog restore current slot'')
        (reconstructCurrent (su_HealthySlot state)))
      (thenP (mapErrP (\<lambda>_. WrapErr errHostSelfUpdateRollback ''watchdog restart healthy executor'')
        restartLocalExecutor)
      (thenP (mapErrP (\<lambda>_. WrapErr errHostSelfUpdateRollback ''watchdog verify healthy executor'')
        (verifyHealthyLocalExecutor rt (su_HealthySlot state) state))
      (thenP (mapErrP (\<lambda>_. WrapErr errHostSelfUpdateRollback ''watchdog restart healthy agent'')
        restartHostAgent)
      (thenP (saveState cleared)
        (returnP (fenced\<lparr>st_State := cleared, st_CurrentSlot := su_HealthySlot state,
           st_LastAction := ActionRollbackComplete, st_RollbackRequested := True,
           st_RestartRequested := True\<rparr>)))))))"

definition recover_by_phase ::
  "hostSelfUpdateExecutorRuntime \<Rightarrow> HostSelfUpdateRuntimeStatus \<Rightarrow> HostSelfUpdateRuntimeStatus su_prog" where
  "recover_by_phase rt observed =
     (let state = st_State observed in
      if su_Phase state = PhaseStable \<or> su_Phase state = PhaseStaged then returnP observed
      else if su_Phase state = PhaseActivating \<or> su_Phase state = PhaseVerifying
      then bindP nowP (\<lambda>now.
        if time_Before (time_UTC now) (su_ActivationDeadline state) then returnP observed
        else let rollback = beginHostSelfUpdateRollback state in
          thenP (saveState rollback) (finish_rollback rt (observed\<lparr>st_State := rollback\<rparr>)))
      else if su_Phase state = PhaseRollingBack then finish_rollback rt observed
      else failP (NewErr ''host self-update recovery state is invalid''))"

definition recoverExpiredHostSelfUpdate ::
  "hostSelfUpdateExecutorRuntime \<Rightarrow> string \<Rightarrow> HostSelfUpdateRuntimeStatus su_prog" where
  "recoverExpiredHostSelfUpdate rt recoverySlot =
     (if \<not> validHostSelfUpdateSlot recoverySlot
      then failP (NewErr ''host self-update recovery slot is invalid'')
      else bindP (mapErrP (\<lambda>err. if errors_Is err NotExist
          then NewErr ''host self-update recovery state is unavailable'' else err) loadPersistedState)
        (\<lambda>state.
          if su_ActiveSlot state \<noteq> su_HealthySlot state \<or>
             (su_Phase state \<noteq> PhaseStable \<and>
              su_PendingSlot state \<noteq> otherHostSelfUpdateSlot (su_HealthySlot state))
          then failP (NewErr ''host self-update recovery state slot binding is invalid'')
          else let observed = \<lparr>st_State = state, st_CurrentSlot = su_HealthySlot state,
                 st_ExecutorVersion = rt_executorVersion rt,
                 st_ExecutorProtocolVersion = LocalExecutorMutationProtocolVersion,
                 st_LastAction = ActionNone, st_RollbackRequested = False,
                 st_RestartRequested = False\<rparr> in
            if recoverySlot \<noteq> su_HealthySlot state then returnP observed
            else if rt_executorVersion rt \<noteq> su_ActiveExecutorVersion state \<or>
               su_RecoveryProtocolVersion state \<noteq> HostSelfUpdateRecoveryProtocolVersion
            then failP (NewErr ''host self-update recovery binary is incompatible with the healthy slot'')
            else thenP (prepare rt)
              (tryP loadPersistedState
                (\<lambda>_. failP (NewErr ''host self-update recovery state changed during preparation''))
                (\<lambda>preparedState. if preparedState \<noteq> state
                  then failP (NewErr ''host self-update recovery state changed during preparation'')
                  else recover_by_phase rt observed))))"

end
