(* ===== verification/SelfUpdate_Safety.thy ===== *)
theory SelfUpdate_Safety
  imports SelfUpdate_Watchdog
begin

text \<open>
  What every operation of the executor and the watchdog keeps, for every fault script: the slot
  the durable state calls healthy is never touched, and \<open>current\<close> leaves it only under a
  durable fence.
\<close>

section \<open>Frames\<close>

lemma script_free_fields [simp]:
  "script_free w_state" "script_free w_grant" "script_free w_current" "script_free w_slots"
  by (simp_all add: script_free_def)

definition disk :: "su_world \<Rightarrow> HostSelfUpdateState disk_file \<times> link \<times> (string \<times> slot_entry) list" where
  "disk w = (w_state w, w_current w, w_slots w)"

lemma script_free_disk [simp]: "script_free disk"
  by (simp add: script_free_def disk_def)

lemma disk_updates [simp]:
  "disk (w\<lparr>w_grant := g\<rparr>) = disk w" "disk (w\<lparr>w_dirs := d\<rparr>) = disk w"
  "disk (w\<lparr>w_restarts := r\<rparr>) = disk w" "disk (w\<lparr>w_times := t\<rparr>) = disk w"
  "disk (w\<lparr>w_panel := p\<rparr>) = disk w" "disk (w\<lparr>w_probes := q\<rparr>) = disk w"
  "disk (w\<lparr>w_socket := s\<rparr>) = disk w" "disk (w\<lparr>script := fs\<rparr>) = disk w"
  by (simp_all add: disk_def)

text \<open>Programs that only read preserve every part of the world that is not the script.\<close>

lemma read_frames [frame]:
  assumes [simp]: "script_free f"
  shows "preserves f loadPersistedState" "preserves f loadHostSelfUpdateGrantState"
    "preserves f (lstatEntry n)" "preserves f (lstatFile n p)"
    "preserves f (validateHostSelfUpdateSlotDirectory slot)"
    "preserves f (validateHostSelfUpdateSlotBinary n p)"
    "preserves f (hashFile n p)" "preserves f (runVersion rt n p)"
    "preserves f (readHostSelfUpdateSlotMarker n p)"
  unfolding loadPersistedState_def loadHostSelfUpdateGrantState_def lstatEntry_def lstatFile_def
    validateHostSelfUpdateSlotDirectory_def validateHostSelfUpdateSlotBinary_def hashFile_def
    runVersion_def readHostSelfUpdateSlotMarker_def
  by (auto intro!: frame split: disk_file.splits content.splits option.splits)

lemma verify_frames [frame]:
  assumes [simp]: "script_free f"
  shows "preserves f (validateHostSelfUpdateSlotTreeRoot n)"
    "preserves f (validateHostSelfUpdateSlotTree slot)"
    "preserves f (verifyHostSelfUpdateBinaryIdentity rt n b v r)"
    "preserves f (verify_marker n m)" "preserves f (verify_binary rt n r it)"
    "preserves f (verifyHostSelfUpdateSlot rt slot n r d)"
    "preserves f (hostSelfUpdateSlotMarkerDigests slot)"
    "preserves f (verifyPendingHostSelfUpdateSlot rt s)"
    "preserves f (verifyPendingHostSelfUpdateSlotForRecovery rt s n)"
proof -
  show tree: "preserves f (validateHostSelfUpdateSlotTreeRoot n)" for n
    unfolding validateHostSelfUpdateSlotTreeRoot_def by (auto intro!: frame)
  show "preserves f (validateHostSelfUpdateSlotTree slot)"
    unfolding validateHostSelfUpdateSlotTree_def by (auto intro!: frame tree)
  show ident: "preserves f (verifyHostSelfUpdateBinaryIdentity rt n b v r)" for rt n b v r
    unfolding verifyHostSelfUpdateBinaryIdentity_def by (auto intro!: frame)
  show marker: "preserves f (verify_marker n m)" for n m
    unfolding verify_marker_def by (auto intro!: frame)
  show binary: "preserves f (verify_binary rt n r it)" for n r it
    unfolding verify_binary_def by (auto intro!: frame ident simp: Let_def split: prod.splits)
  show slot: "preserves f (verifyHostSelfUpdateSlot rt slot n r d)" for slot n r d
    unfolding verifyHostSelfUpdateSlot_def by (auto intro!: frame tree marker binary)
  show "preserves f (hostSelfUpdateSlotMarkerDigests slot)"
    unfolding hostSelfUpdateSlotMarkerDigests_def by (auto intro!: frame simp: Let_def)
  show "preserves f (verifyPendingHostSelfUpdateSlot rt s)"
    unfolding verifyPendingHostSelfUpdateSlot_def by (auto intro!: frame slot)
  show "preserves f (verifyPendingHostSelfUpdateSlotForRecovery rt s n)"
    unfolding verifyPendingHostSelfUpdateSlotForRecovery_def by (auto intro!: frame slot)
qed

lemma link_frames [frame]:
  assumes [simp]: "script_free f"
  shows "preserves f readCurrentSlot" "preserves f (hostSelfUpdateSlotHasBinding slot)"
    "preserves f (hostSelfUpdateStateEffectMatchesGrant rt s b)"
    "preserves f (hostSelfUpdateGrantPhase a)" "preserves f (hostSelfUpdateGrantApplied a)"
    "preserves f (classify_entries names)" "preserves f (loadRecoveryState memo)"
    "preserves f (artifact_digest rel bin)" "preserves f (hostSelfUpdateArtifactBinaryDigests rel)"
proof -
  show cur: "preserves f readCurrentSlot"
    unfolding readCurrentSlot_def by (auto intro!: frame split: link.splits option.splits)
  have "preserves f (has_any_file slot names)" for names
    by (induction names) (auto intro!: frame)
  then show "preserves f (hostSelfUpdateSlotHasBinding slot)"
    unfolding hostSelfUpdateSlotHasBinding_def by (auto intro!: frame)
  show "preserves f (hostSelfUpdateStateEffectMatchesGrant rt s b)"
    unfolding hostSelfUpdateStateEffectMatchesGrant_def by (auto intro!: frame cur simp: Let_def)
  show phase: "preserves f (hostSelfUpdateGrantPhase a)"
    unfolding hostSelfUpdateGrantPhase_def by (auto intro!: frame)
  show "preserves f (hostSelfUpdateGrantApplied a)"
    unfolding hostSelfUpdateGrantApplied_def by (auto intro!: frame phase split: prod.splits)
  show "preserves f (classify_entries names)"
    by (induction names) (auto intro!: frame)
  show "preserves f (loadRecoveryState memo)"
    unfolding loadRecoveryState_def by (auto intro!: frame)
  show dig: "preserves f (artifact_digest rel bin)" for bin
    unfolding artifact_digest_def by (auto intro!: frame split: prod.splits)
  show "preserves f (hostSelfUpdateArtifactBinaryDigests rel)"
    unfolding hostSelfUpdateArtifactBinaryDigests_def by (auto intro!: frame dig simp: Let_def)
qed

text \<open>Programs that write the grant record, the directories, restarts or consume answers.\<close>

lemma grant_frames [frame]:
  "preserves disk (saveHostSelfUpdateGrantState g)" "preserves disk removeHostSelfUpdateGrantState"
  "preserves disk nowP" "preserves disk restartHostAgent" "preserves disk restartLocalExecutor"
  unfolding saveHostSelfUpdateGrantState_def removeHostSelfUpdateGrantState_def
    restartHostAgent_def restartLocalExecutor_def
  by (auto intro!: frame split: disk_file.splits option.splits)
    (auto simp: preserves_def nowP_def split: list.splits)

lemma pop_frame [frame]:
  "(\<And>xs w. f (put xs w) = f w) \<Longrightarrow> preserves f (popP get put)"
  by (auto simp: preserves_def popP_def split: list.splits)

lemma consume_frames [frame]:
  "preserves disk (consumeHostSelfUpdateGrant rt url a)"
  "preserves disk (consume_and_record rt url a g)"
  "preserves disk (authorizeHostSelfUpdate rt url a)"
  "preserves disk (markHostSelfUpdateGrantApplied a)"
  "preserves disk (cleanFailedHostSelfUpdateGrant s)"
  "preserves disk (markDurableHostSelfUpdateGrantApplied g)"
proof -
  show con: "preserves disk (consumeHostSelfUpdateGrant rt url a)"
    unfolding consumeHostSelfUpdateGrant_def by (auto intro!: frame)
  show rec: "preserves disk (consume_and_record rt url a g)" for g
    unfolding consume_and_record_def by (auto intro!: frame con)
  show "preserves disk (authorizeHostSelfUpdate rt url a)"
    unfolding authorizeHostSelfUpdate_def by (auto intro!: frame rec)
  show "preserves disk (markHostSelfUpdateGrantApplied a)"
    unfolding markHostSelfUpdateGrantApplied_def by (auto intro!: frame)
  show "preserves disk (cleanFailedHostSelfUpdateGrant s)"
    unfolding cleanFailedHostSelfUpdateGrant_def by (auto intro!: frame)
  show "preserves disk (markDurableHostSelfUpdateGrantApplied g)"
    unfolding markDurableHostSelfUpdateGrantApplied_def by (auto intro!: frame)
qed

lemma roots_frames [frame]:
  assumes [simp]: "script_free f" "\<And>w d. f (w\<lparr>w_dirs := d\<rparr>) = f w"
  shows "preserves f (ensureRoots rt)"
proof -
  have missing: "preserves f (missingHostSelfUpdateDirectories path acc)" for path acc
  proof (induction path acc rule: missingHostSelfUpdateDirectories.induct)
    case (1 current missing)
    from 1 [of NotExist] show ?case
      by (subst missingHostSelfUpdateDirectories.simps) (auto intro!: frame simp: lstatDir_def)
  qed
  have "preserves f (ensure_root rt d)" for d
    unfolding ensure_root_def lstatDir_def mkdir_def
    by (auto intro!: frame missing split: prod.splits)
  then show ?thesis
    unfolding ensureRoots_def by (auto intro!: frame)
qed

lemma probe_frames [frame]:
  "preserves disk healthyLocalExecutorProcess" "preserves disk (healthyLocalExecutorPID p)"
  "preserves disk (acquireHealthyLocalExecutorPID p)"
  "preserves disk (verify_executor_identity rt slot s)"
  "preserves disk (verifyHealthyLocalExecutor rt slot s)"
proof -
  show proc: "preserves disk healthyLocalExecutorProcess"
    unfolding healthyLocalExecutorProcess_def by (auto intro!: frame split: prod.splits option.splits)
  show pid: "preserves disk (healthyLocalExecutorPID p)" for p
    unfolding healthyLocalExecutorPID_def by (auto intro!: frame proc split: prod.splits)
  have "preserves disk (acquire_pid p n pin)" for p n pin
    by (induction n arbitrary: pin) (auto intro!: frame proc split: prod.splits)
  then show acq: "preserves disk (acquireHealthyLocalExecutorPID p)" for p
    unfolding acquireHealthyLocalExecutorPID_def by blast
  show ident: "preserves disk (verify_executor_identity rt slot s)" for slot
    unfolding verify_executor_identity_def by (auto intro!: frame)
  show "preserves disk (verifyHealthyLocalExecutor rt slot s)"
    unfolding verifyHealthyLocalExecutor_def by (auto intro!: frame pid acq ident)
qed

section \<open>The invariant\<close>

text \<open>
  \<open>link_ok s l\<close>: \<open>current\<close> is the healthy slot, or the pending one while a durable
  activation, verification or rollback fence names it.
\<close>

definition link_ok :: "HostSelfUpdateState \<Rightarrow> link \<Rightarrow> bool" where
  "link_ok s l \<longleftrightarrow> l = LinkTo True (Some (su_HealthySlot s)) \<or>
     running_phase (su_Phase s) \<and> l = LinkTo True (Some (su_PendingSlot s))"

definition stored_ok :: "link set \<Rightarrow> string \<Rightarrow> HostSelfUpdateState disk_file \<Rightarrow> link \<Rightarrow> bool" where
  "stored_ok B H f l =
     (case f of
        NoFile \<Rightarrow> H = SlotA \<and> l \<in> B
      | DiskFile m (Decodes s) \<Rightarrow> private_meta m \<and> valid_state s \<and>
          su_HealthySlot s = H \<and> su_ActiveSlot s = H \<and> link_ok s l
      | _ \<Rightarrow> False)"

text \<open>
  \<open>slot_inv B H T\<close>: the durable state calls \<open>H\<close> healthy and \<open>H\<close> holds \<open>T\<close>. On a host
  without a state file the first slot counts as the healthy one and \<open>current\<close> is one of \<open>B\<close>.
  \<open>slot_done B H T\<close>: that, or the update has been committed to the other slot; \<open>H\<close> still holds
  \<open>T\<close>.
\<close>

definition slot_inv :: "link set \<Rightarrow> string \<Rightarrow> slot_entry \<Rightarrow> su_world \<Rightarrow> bool" where
  "slot_inv B H T w \<longleftrightarrow> map_of (w_slots w) H = Some T \<and> stored_ok B H (w_state w) (w_current w)"

definition slot_done :: "link set \<Rightarrow> string \<Rightarrow> slot_entry \<Rightarrow> su_world \<Rightarrow> bool" where
  "slot_done B H T w \<longleftrightarrow> map_of (w_slots w) H = Some T \<and>
     (\<exists>G\<in>{H, otherHostSelfUpdateSlot H}. \<exists>e. slot_inv B G e w)"

definition stored :: "HostSelfUpdateState \<Rightarrow> su_world \<Rightarrow> bool" where
  "stored s w \<longleftrightarrow> (\<exists>m. w_state w = DiskFile m (Decodes s)) \<and> valid_state s"

lemma slot_inv_done: "slot_inv B H T w \<Longrightarrow> slot_done B H T w"
  by (auto simp: slot_inv_def slot_done_def)

lemma disk_cong:
  assumes "disk w = disk w'"
  shows "slot_inv B H T w = slot_inv B H T w'" "slot_done B H T w = slot_done B H T w'"
    "stored s w = stored s w'" "w_current w = w_current w'" "w_slots w = w_slots w'"
  using assms by (simp_all add: disk_def slot_inv_def slot_done_def stored_def)

lemma inv_script [simp]:
  "slot_inv B H T (w\<lparr>script := fs\<rparr>) = slot_inv B H T w" "slot_done B H T (w\<lparr>script := fs\<rparr>) = slot_done B H T w"
  "stored s (w\<lparr>script := fs\<rparr>) = stored s w"
  by (simp_all add: slot_inv_def slot_done_def stored_def)

lemma slot_inv_stored:
  "slot_inv B H T w \<Longrightarrow> stored s w \<Longrightarrow>
     su_HealthySlot s = H \<and> su_ActiveSlot s = H \<and> link_ok s (w_current w)"
  by (auto simp: slot_inv_def stored_def stored_ok_def)

text \<open>A program that leaves the disk alone carries any predicate on the disk.\<close>

lemma disk_spec:
  assumes "preserves disk m" "\<And>w w'. disk w = disk w' \<Longrightarrow> P w \<Longrightarrow> P w'" "\<And>w. P w \<Longrightarrow> X w"
  shows "spec P m (\<lambda>_. P) X"
  unfolding spec_def
proof (intro allI impI)
  fix w assume "P w"
  then have "P (snd (m w))"
    using assms(2) [of w "snd (m w)"] preservesD [OF assms(1), of w] by simp
  with assms(3) show "case m w of (Ok x, w') \<Rightarrow> P w' | (Err e, w') \<Rightarrow> X w' | (Crash, w') \<Rightarrow> X w'"
    by (auto split: prod.splits outcome.splits)
qed

lemma keeps_inv [intro]: "preserves disk m \<Longrightarrow> keeps (slot_inv B H T) m"
  by (rule preserves_keeps [where f = disk]) (auto dest: disk_cong)

lemma keeps_done [intro]: "preserves disk m \<Longrightarrow> keeps (slot_done B H T) m"
  by (rule preserves_keeps [where f = disk]) (auto dest: disk_cong)

section \<open>The two records\<close>

text \<open>
  The state and the grant are durable records: a save leaves the old file or the new record,
  the new one on success, and a record that does not validate is never written.
\<close>

primrec state_found :: "HostSelfUpdateState outcome \<Rightarrow> HostSelfUpdateState option option" where
  "state_found (Ok s) = Some (Some s)"
| "state_found (Err e) = (if errors_Is e NotExist then Some None else None)"
| "state_found Crash = None"

primrec grant_found :: "hostSelfUpdateGrantState option outcome \<Rightarrow> hostSelfUpdateGrantState option option" where
  "grant_found (Ok g) = Some g"
| "grant_found (Err e) = None"
| "grant_found Crash = None"

lemma state_validate_new: "state_validate s = Some e \<Longrightarrow> \<not> errors_Is e NotExist"
  by (auto simp: state_validate_def Let_def split: if_splits)

lemma file_meta_of_None [simp]: "file_meta_of f = None \<longleftrightarrow> f = NoFile"
  by (cases f) auto

lemma private_file_meta [simp]: "private_meta (private_file n)"
  by (simp add: private_meta_def private_file_def)

lemma load_state_run:
  "tells (state_found (fst (loadPersistedState w))) (w_state w) \<and>
   (state_found (fst (loadPersistedState w)) = Some (Some s) \<longrightarrow> valid_state s)"
  by (cases "script w"; (cases "hd (script w)")?)
    (auto simp: loadPersistedState_def tryP_def lookupP_def bindP_def observeP_def failP_def returnP_def
       thenP_def checkP_def holds_def state_validate_new
       split: disk_file.splits content.splits option.splits list.splits fault.splits if_splits)

lemma load_grant_run:
  "tells (grant_found (fst (loadHostSelfUpdateGrantState w))) (w_grant w) \<and>
   (grant_found (fst (loadHostSelfUpdateGrantState w)) = Some (Some g) \<longrightarrow> grant_state_validate g = None)"
  by (cases "script w"; (cases "hd (script w)")?)
    (auto simp: loadHostSelfUpdateGrantState_def tryP_def lookupP_def bindP_def observeP_def failP_def
       returnP_def thenP_def checkP_def holds_def
       split: disk_file.splits content.splits option.splits list.splits fault.splits if_splits)

text \<open>The common shape of the two saves.\<close>

lemma saved_run:
  assumes put: "\<And>f w fs. put f (w\<lparr>script := fs\<rparr>) = (put f w)\<lparr>script := fs\<rparr>" and "script_free g"
    and m: "m = thenP (checkP v) (case p of None \<Rightarrow> failP e0 | Some payload \<Rightarrow>
       thenP (effectP (put (DiskFile (private_file (n payload)) (Decodes r))))
         (tryP (lookupP g) (\<lambda>_. failP e) (\<lambda>info. if c info then failP e' else returnP ())))"
  shows "(\<exists>fs. snd (m w) = w\<lparr>script := fs\<rparr> \<and> fst (m w) \<noteq> Ok ()) \<or>
     (\<exists>fs meta. private_meta meta \<and> v = None \<and> snd (m w) = put (DiskFile meta (Decodes r)) (w\<lparr>script := fs\<rparr>))"
proof (cases "v = None \<and> p \<noteq> None")
  case True
  then obtain payload where "p = Some payload" "v = None"
    by blast
  with m have "m = thenP (effectP (put (DiskFile (private_file (n payload)) (Decodes r))))
         (tryP (lookupP g) (\<lambda>_. failP e) (\<lambda>info. if c info then failP e' else returnP ()))"
    by (simp add: thenP_def bindP_def checkP_def returnP_def fun_eq_iff)
  from write_atomic [OF put assms(2) this, of w] \<open>v = None\<close> show ?thesis
    by (metis private_file_meta)
next
  case False
  then have "snd (m w) = w \<and> fst (m w) \<noteq> Ok ()"
    unfolding m by (cases v) (auto simp: thenP_def bindP_def checkP_def failP_def returnP_def)
  then show ?thesis
    by (metis io_world.surjective io_world.update_convs(1))
qed

interpretation state_record: durable_record w_state "\<lambda>f. w_state_update (\<lambda>_. f)"
  loadPersistedState state_found saveState valid_state private_meta
proof
  show "\<exists>fs. snd (loadPersistedState w) = w\<lparr>script := fs\<rparr>" for w
    by (intro timeless_reads read_frames) simp
  show "(\<exists>fs. snd (saveState r w) = w\<lparr>script := fs\<rparr> \<and> fst (saveState r w) \<noteq> Ok ()) \<or>
     (\<exists>fs m. private_meta m \<and> valid_state r \<and>
        snd (saveState r w) = w_state_update (\<lambda>_. DiskFile m (Decodes r)) (w\<lparr>script := fs\<rparr>))" for r w
    by (rule saved_run [OF _ _ saveState_def]) (simp_all add: script_free_def)
qed (use load_state_run in auto)

interpretation grant_record: durable_record w_grant "\<lambda>f. w_grant_update (\<lambda>_. f)"
  loadHostSelfUpdateGrantState grant_found saveHostSelfUpdateGrantState
  "\<lambda>g. grant_state_validate g = None" private_meta
proof
  show "\<exists>fs. snd (loadHostSelfUpdateGrantState w) = w\<lparr>script := fs\<rparr>" for w
    by (intro timeless_reads read_frames) simp
  show "(\<exists>fs. snd (saveHostSelfUpdateGrantState r w) = w\<lparr>script := fs\<rparr> \<and>
        fst (saveHostSelfUpdateGrantState r w) \<noteq> Ok ()) \<or>
     (\<exists>fs m. private_meta m \<and> grant_state_validate r = None \<and> snd (saveHostSelfUpdateGrantState r w) =
        w_grant_update (\<lambda>_. DiskFile m (Decodes r)) (w\<lparr>script := fs\<rparr>))" for r w
    by (rule saved_run [OF _ _ saveHostSelfUpdateGrantState_def]) (simp_all add: script_free_def)
qed (use load_grant_run in auto)

section \<open>Changing the slots directory\<close>

lemma map_of_put [simp]: "w_slots (put_entry n e w) = AList.update n e (w_slots w)"
  by (simp add: put_entry_def)

lemma slot_inv_put: "n \<noteq> H \<Longrightarrow> slot_inv B H T w \<Longrightarrow> slot_inv B H T (put_entry n e w)"
  by (auto simp: slot_inv_def put_entry_def update_conv')

lemma slot_inv_drop: "n \<noteq> H \<Longrightarrow> slot_inv B H T w \<Longrightarrow> slot_inv B H T (drop_entry n w)"
  by (auto simp: slot_inv_def drop_entry_def delete_conv')

lemma slot_inv_tree: "n \<noteq> H \<Longrightarrow> slot_inv B H T w \<Longrightarrow> slot_inv B H T (update_tree n f w)"
  by (auto simp: update_tree_def slot_inv_put split: option.splits)

lemma keeps_slot_effects [keep]:
  assumes "n \<noteq> H"
  shows "keeps (slot_inv B H T) (effectP (put_entry n e))"
    "keeps (slot_inv B H T) (effectP (drop_entry n))"
    "keeps (slot_inv B H T) (effectP (update_tree n f))"
    "keeps (slot_inv B H T) (effectP (put_file n p c))"
    "keeps (slot_inv B H T) (effectP (drop_file n p))"
  using assms unfolding put_file_def drop_file_def
  by (auto intro!: keeps_effect slot_inv_put slot_inv_drop slot_inv_tree)

lemma keeps_removeAll [keep]: "n \<noteq> H \<Longrightarrow> keeps (slot_inv B H T) (removeAll n)"
  unfolding removeAll_def by (auto intro!: keep)

lemma keeps_syscall [keep]: "keeps (slot_inv B H T) syscallP" "keeps (slot_done B H T) syscallP"
  by (auto intro!: keeps_inv keeps_done frame)

lemma keeps_lstat [keep]: "keeps (slot_inv B H T) (lstatEntry n)"
  by (auto intro!: keeps_inv frame)

lemma keeps_removeArtifact [keep]:
  "n \<noteq> H \<Longrightarrow> keeps (slot_inv B H T) (removeHostSelfUpdateSlotArtifact n)"
  unfolding removeHostSelfUpdateSlotArtifact_def by (auto intro!: keep)

lemma keeps_renameEntry [keep]:
  "a \<noteq> H \<Longrightarrow> b \<noteq> H \<Longrightarrow> keeps (slot_inv B H T) (renameEntry a b)"
proof (rule keepsI)
  fix w assume H: "a \<noteq> H" "b \<noteq> H" "slot_inv B H T w"
  have "keeps (slot_inv B H T) (effectP (\<lambda>w. put_entry b e (drop_entry a w)))" for e
    using H by (auto intro!: keeps_effect slot_inv_put slot_inv_drop)
  from keepsD [OF this H(3)] H(3) show "slot_inv B H T (snd (renameEntry a b w))"
    by (auto simp: renameEntry_def split: option.splits)
qed

lemma keeps_restore [keep]:
  "slot \<noteq> H \<Longrightarrow> t \<noteq> H \<Longrightarrow> b \<noteq> H \<Longrightarrow> keeps (slot_inv B H T) (restoreHostSelfUpdateSlot slot t b had)"
  unfolding restoreHostSelfUpdateSlot_def by (auto intro!: keep)

lemma keeps_restoreUncommitted [keep]:
  "slot \<noteq> H \<Longrightarrow> b \<noteq> H \<Longrightarrow> TrimSuffix b ''.old'' @ ''.new'' \<noteq> H \<Longrightarrow>
     keeps (slot_inv B H T) (restoreUncommittedHostSelfUpdateSlot slot b)"
  unfolding restoreUncommittedHostSelfUpdateSlot_def Let_def by (auto intro!: keep)

section \<open>Names of artifacts\<close>

abbreviation is_slot :: "string \<Rightarrow> bool" where
  "is_slot H \<equiv> H = SlotA \<or> H = SlotB"

lemma dotted_not_slot: "is_slot H \<Longrightarrow> CHR ''.'' # n \<noteq> H" "is_slot H \<Longrightarrow> n @ ''.new'' \<noteq> H"
  by (auto dest: arg_cong [where f = length])

lemma stage_name_not_slot: "is_slot H \<Longrightarrow> stage_name slot g x \<noteq> H"
  by (auto simp: stage_name_def)

lemma parsed_not_slot:
  "parseHostSelfUpdateSlotArtifactName n = Some r \<Longrightarrow> is_slot H \<Longrightarrow> n \<noteq> H"
  by (auto simp: parseHostSelfUpdateSlotArtifactName_def HasPrefix_def split: if_splits)

definition named_apart :: "string \<Rightarrow> artifacts \<Rightarrow> bool" where
  "named_apart H arts \<longleftrightarrow> (\<forall>(_, _, n)\<in>set arts. n \<noteq> H)"

lemma named_apart_paths: "named_apart H arts \<Longrightarrow> n \<in> set (paths_for slot x arts) \<Longrightarrow> n \<noteq> H"
  by (auto simp: named_apart_def paths_for_def)

section \<open>Reading the state\<close>

text \<open>The ways a load of the state continues.\<close>

lemma spec_try_load:
  assumes closed: "\<And>w w'. disk w = disk w' \<Longrightarrow> P w \<Longrightarrow> P w'" and "\<And>w. P w \<Longrightarrow> X w"
    and "\<And>s. spec (\<lambda>w. P w \<and> stored s w) (k s) Q X"
    and "\<And>e. errors_Is e NotExist \<Longrightarrow> spec (\<lambda>w. P w \<and> w_state w = NoFile) (h e) Q X"
    and "\<And>e. \<not> errors_Is e NotExist \<Longrightarrow> spec P (h e) Q X"
  shows "spec P (tryP loadPersistedState h k) Q X"
proof (rule state_record.spec_load)
  show "spec (\<lambda>w. P w \<and> tells (state_found (Ok s)) (w_state w) \<and>
      (\<forall>r. state_found (Ok s) = Some (Some r) \<longrightarrow> valid_state r)) (k s) Q X" for s
    by (rule spec_pre [OF assms(3) [of s]]) (auto simp: stored_def holds_def)
  show "spec (\<lambda>w. P w \<and> tells (state_found (Err e)) (w_state w)) (h e) Q X" for e
    using assms(4,5) [of e] by (cases "errors_Is e NotExist") auto
  show "P (w\<lparr>script := fs\<rparr>)" if "P w" for w fs
    using that by (rule closed [rotated]) simp
qed (rule assms(2))

section \<open>Recovery of artifacts\<close>

lemma spec_classify:
  assumes "is_slot H"
  shows "spec (slot_inv B H T) (classify_entries names)
    (\<lambda>arts w. slot_inv B H T w \<and> named_apart H arts) (slot_inv B H T)"
proof (induction names)
  case Nil
  show ?case
    by (auto intro!: spec_return simp: named_apart_def)
next
  case (Cons n names)
  have tail: "spec (slot_inv B H T) (bindP (classify_entries names) (\<lambda>arts. returnP ((slot, x, n) # arts)))
      (\<lambda>arts w. slot_inv B H T w \<and> named_apart H arts) (slot_inv B H T)" if "n \<noteq> H" for slot x
    by (rule spec_bind [OF Cons]) (use that in \<open>auto intro!: spec_return simp: named_apart_def\<close>)
  show ?case
    using Cons keeps_spec [OF keeps_lstat, of B H T n]
    by (auto split: option.splits intro!: spec_fail spec_try tail
      dest: parsed_not_slot [OF _ assms])
qed

text \<open>The state passed between the rounds of the loop is one the invariant speaks about.\<close>

definition memo_ok :: "string \<Rightarrow> HostSelfUpdateState option \<Rightarrow> bool" where
  "memo_ok H loaded \<longleftrightarrow>
     (\<forall>s. loaded = Some s \<longrightarrow> valid_state s \<and> su_HealthySlot s = H \<and> su_ActiveSlot s = H)"

lemma spec_loadRecovery:
  assumes "\<And>l. memo = Some l \<Longrightarrow> memo_ok H l"
  shows "spec (slot_inv B H T) (loadRecoveryState memo)
    (\<lambda>l w. slot_inv B H T w \<and> memo_ok H l) (slot_inv B H T)"
  unfolding loadRecoveryState_def
  by (cases memo)
    (auto intro!: spec_return spec_fail spec_try_load dest: disk_cong slot_inv_stored assms
      simp: memo_ok_def stored_def)

lemma pending_not_healthy:
  "valid_state s \<Longrightarrow> su_Phase s \<noteq> PhaseStable \<Longrightarrow> su_PendingSlot s \<noteq> su_HealthySlot s"
  by (auto simp: state_validate_iff pending_ok_def)

definition recovered :: "link set \<Rightarrow> string \<Rightarrow> slot_entry \<Rightarrow> HostSelfUpdateState option option \<Rightarrow> su_world \<Rightarrow> bool" where
  "recovered B H T memo w \<longleftrightarrow> slot_inv B H T w \<and> (\<forall>l. memo = Some l \<longrightarrow> memo_ok H l)"

lemma spec_finish:
  assumes "\<And>n. n \<in> set names \<Longrightarrow> n \<noteq> H" "\<And>l. memo = Some l \<Longrightarrow> memo_ok H l"
  shows "spec (slot_inv B H T) (finish_slot memo names) (recovered B H T) (slot_inv B H T)"
  unfolding finish_slot_def recovered_def
  by (rule spec_then [OF keeps_spec]) (use assms in \<open>auto intro!: keep spec_return\<close>)

lemma keeps_verify [keep]:
  "keeps (slot_inv B H T) (verifyPendingHostSelfUpdateSlotForRecovery rt s n)"
  by (auto intro!: keeps_inv frame)

lemma spec_present:
  assumes H: "is_slot H" and loaded: "memo_ok H loaded" and apart: "H \<notin> set new" "H \<notin> set old"
  shows "spec (slot_inv B H T) (recover_present rt slot new old loaded) (recovered B H T) (slot_inv B H T)"
proof -
  have old: "hd old \<noteq> H" if "length old = 1"
    using that apart by (cases old) auto
  have fin: "spec (slot_inv B H T) (finish_slot (Some l) names) (recovered B H T) (slot_inv B H T)"
    if "memo_ok H l" "set names \<subseteq> set new \<union> set old" for l names
    by (rule spec_finish) (use apart that in auto)
  have verified: "spec (slot_inv B H T)
      (thenP (mapErrP f (verifyPendingHostSelfUpdateSlotForRecovery rt s slot)) (finish_slot (Some l) (new @ old)))
      (recovered B H T) (slot_inv B H T)" if "memo_ok H l" for f s l
    by (rule spec_then [OF keeps_spec fin]) (auto intro!: keep that)
  have restored: "spec (slot_inv B H T)
      (thenP (restoreUncommittedHostSelfUpdateSlot slot (hd old)) (finish_slot (Some l) new))
      (recovered B H T) (slot_inv B H T)"
    if "memo_ok H l" "length old = 1" "slot \<noteq> H" for l
    by (rule spec_then [OF keeps_spec fin]) (use that H old in \<open>auto intro!: keep simp: dotted_not_slot\<close>)
  show ?thesis
  proof (cases loaded)
    case None
    with loaded show ?thesis
      by (auto simp: recover_present_def pending_here_def intro!: spec_fail fin)
  next
    case (Some s)
    with loaded have s: "memo_ok H (Some s)" and inactive: "slot \<noteq> su_ActiveSlot s \<Longrightarrow> slot \<noteq> H"
      by (auto simp: memo_ok_def)
    show ?thesis
      unfolding recover_present_def Some option.case
      by ((rule spec_if spec_fail verified restored fin s inactive | assumption | blast | simp)+)
  qed
qed

lemma spec_absent:
  assumes H: "is_slot H" and "memo_ok H loaded" "H \<notin> set new" "H \<notin> set old" "slot \<noteq> H"
  shows "spec (slot_inv B H T) (recover_absent rt slot new old loaded) (recovered B H T) (slot_inv B H T)"
proof -
  have fin: "spec (slot_inv B H T) (finish_slot (Some loaded) names) (recovered B H T) (slot_inv B H T)"
    if "set names \<subseteq> set new \<union> set old" for names
    by (rule spec_finish) (use assms that in auto)
  show ?thesis
    unfolding recover_absent_def Let_def
    by (auto intro!: spec_fail fin spec_then [OF keeps_spec] keep
      simp: stage_name_not_slot [OF H] stage_name_not_slot [OF H, symmetric] assms(5))
qed

lemma spec_recover_slot:
  assumes H: "is_slot H" and arts: "named_apart H arts" and memo: "\<And>l. memo = Some l \<Longrightarrow> memo_ok H l"
  shows "spec (slot_inv B H T) (recover_slot rt arts slot memo) (recovered B H T) (slot_inv B H T)"
proof -
  let ?new = "paths_for slot ''new'' arts" and ?old = "paths_for slot ''old'' arts"
  have apart: "H \<notin> set ?new" "H \<notin> set ?old"
    using named_apart_paths [OF arts] by blast+
  have hd_old: "hd ?old \<noteq> H" if "length ?old = Suc 0"
    using that apart by (cases ?old) auto
  have present: "spec (slot_inv B H T) (bindP (loadRecoveryState memo) (recover_present rt slot ?new ?old))
      (recovered B H T) (slot_inv B H T)"
    by (rule spec_bind [OF spec_loadRecovery [OF memo]]) (auto intro!: spec_pure spec_present H apart)
  have absent: "spec (slot_inv B H T) (bindP (loadRecoveryState memo) (recover_absent rt slot ?new ?old))
      (recovered B H T) (slot_inv B H T)" if "slot \<noteq> H"
    by (rule spec_bind [OF spec_loadRecovery [OF memo]]) (auto intro!: spec_pure spec_absent H apart that)
  have moved: "spec (slot_inv B H T) (thenP (renameEntry (hd ?old) slot) (thenP syscallP (finish_slot memo ?new)))
      (recovered B H T) (slot_inv B H T)" if "length ?old = Suc 0" "slot \<noteq> H"
    by (intro spec_then [OF keeps_spec] spec_finish) (use that memo apart hd_old in \<open>auto intro!: keep\<close>)
  have gone: "slot \<noteq> H" if "slot_inv B H T w" "map_option entry_meta (map_of (w_slots w) slot) = None" for w
    using that by (auto simp: slot_inv_def)
  show ?thesis
    unfolding recover_slot_def Let_def lstatEntry_def
  proof (rule spec_lookup)
    show "spec (\<lambda>w. slot_inv B H T w \<and> map_option entry_meta (map_of (w_slots w) slot) = None)
        (if \<not> errors_Is NotExist NotExist then failP NotExist
         else if length ?old = 1
           then thenP (renameEntry (hd ?old) slot) (thenP syscallP (finish_slot memo ?new))
           else bindP (loadRecoveryState memo) (recover_absent rt slot ?new ?old))
        (recovered B H T) (slot_inv B H T)"
    proof (cases "slot = H")
      case True
      then show ?thesis
        using gone by (auto simp: spec_def)
    next
      case False
      then show ?thesis
        by (auto intro!: spec_pre [OF moved] spec_pre [OF absent])
    qed
  qed (auto simp: script_free_def intro!: spec_fail spec_pre [OF present])
qed

lemma keeps_recover [keep]:
  assumes "is_slot H"
  shows "keeps (slot_inv B H T) (recoverHostSelfUpdateSlotArtifacts rt)"
proof -
  have slots: "spec (slot_inv B H T)
      (bindP (recover_slot rt arts SlotA None) (\<lambda>memo. bindP (recover_slot rt arts SlotB memo) (\<lambda>_. syscallP)))
      (\<lambda>_. slot_inv B H T) (slot_inv B H T)" if "named_apart H arts" for arts
  proof (rule spec_bind [OF spec_recover_slot [OF assms that]])
    fix memo
    show "spec (recovered B H T memo) (bindP (recover_slot rt arts SlotB memo) (\<lambda>_. syscallP))
        (\<lambda>_. slot_inv B H T) (slot_inv B H T)"
      unfolding recovered_def
      by (intro spec_pure spec_bind [OF spec_recover_slot [OF assms that]]
          spec_pre [OF keeps_spec [OF keeps_syscall(1)]]) (auto simp: recovered_def)
  qed simp
  have "spec (slot_inv B H T) (bindP (classify_entries entries) (\<lambda>arts.
       if \<exists>slot\<in>{SlotA, SlotB}. \<exists>sfx\<in>{''new'', ''old''}. length (paths_for slot sfx arts) > 1
       then failP (NewErr ''multiple host self-update slot artifacts require manual recovery'')
       else bindP (recover_slot rt arts SlotA None) (\<lambda>memo.
            bindP (recover_slot rt arts SlotB memo) (\<lambda>_. syscallP))))
      (\<lambda>_. slot_inv B H T) (slot_inv B H T)" for entries
    by (rule spec_bind [OF spec_classify [OF assms]]) (auto intro!: spec_pure spec_fail slots)
  then show ?thesis
    unfolding recoverHostSelfUpdateSlotArtifacts_def
    by (intro keeps_bind [OF keeps_inv [OF preserves_observe]] script_free_disk) (simp only: keeps_def)
qed

lemma keeps_prepare [keep]: "is_slot H \<Longrightarrow> keeps (slot_inv B H T) (prepare rt)"
  unfolding prepare_def by (auto intro!: keep keeps_inv [OF roots_frames])

end
