(* ===== verification/SelfUpdate_Crash.thy ===== *)
theory SelfUpdate_Crash
  imports SelfUpdate_Safety
begin

text \<open>
  The operations of the executor and the watchdog under every fault script: status, stage,
  activate, reconcile, the request handler and the recovery timers keep the healthy slot and
  move \<open>current\<close> only under a durable fence.
\<close>

section \<open>What slot changes leave alone\<close>

definition pinned ::
  "su_world \<Rightarrow> HostSelfUpdateState disk_file \<times> link \<times> hostSelfUpdateGrantState disk_file \<times>
   HostSelfUpdateGrantConsumeResult result list" where
  "pinned w = (w_state w, w_current w, w_grant w, w_panel w)"

lemma script_free_pinned [simp]: "script_free pinned"
  by (simp add: script_free_def pinned_def)

lemma pinned_updates [simp]:
  "pinned (put_entry n e w) = pinned w" "pinned (drop_entry n w) = pinned w"
  "pinned (update_tree n f w) = pinned w" "pinned (put_file n p c w) = pinned w"
  "pinned (drop_file n p w) = pinned w" "pinned (w\<lparr>script := fs\<rparr>) = pinned w"
  by (auto simp: pinned_def put_entry_def drop_entry_def update_tree_def put_file_def drop_file_def
      split: option.splits)

lemma slot_frames [frame]:
  "preserves pinned (removeAll n)" "preserves pinned (removeHostSelfUpdateSlotArtifact n)"
  "preserves pinned (renameEntry a b)" "preserves pinned (restoreHostSelfUpdateSlot slot t b had)"
  "preserves pinned (restoreUncommittedHostSelfUpdateSlot slot b)"
proof -
  show all: "preserves pinned (removeAll n)" for n
    unfolding removeAll_def by (auto intro!: frame)
  show art: "preserves pinned (removeHostSelfUpdateSlotArtifact n)" for n
    unfolding removeHostSelfUpdateSlotArtifact_def by (auto intro!: frame all)
  have "preserves pinned (effectP (\<lambda>w. put_entry b e (drop_entry a w)))" for a b e
    by (auto intro!: frame)
  then show ren: "preserves pinned (renameEntry a b)" for a b
    by (auto simp: preserves_def renameEntry_def split: option.splits)
  show res: "preserves pinned (restoreHostSelfUpdateSlot slot t b had)" for slot t b had
    unfolding restoreHostSelfUpdateSlot_def by (auto intro!: frame all ren)
  show "preserves pinned (restoreUncommittedHostSelfUpdateSlot slot b)"
    unfolding restoreUncommittedHostSelfUpdateSlot_def by (auto intro!: frame res art simp: Let_def)
qed

lemma recover_frame [frame]: "preserves pinned (recoverHostSelfUpdateSlotArtifacts rt)"
proof -
  have fin: "preserves pinned (finish_slot memo names)" for memo names
    unfolding finish_slot_def by (auto intro!: frame)
  have "preserves pinned (recover_present rt slot new old l)"
    "preserves pinned (recover_absent rt slot new old l)" for slot new old l
    unfolding recover_present_def recover_absent_def by (auto intro!: frame fin simp: Let_def)
  then have "preserves pinned (recover_slot rt arts slot memo)" for arts slot memo
    unfolding recover_slot_def by (auto intro!: frame fin simp: Let_def)
  then show ?thesis
    unfolding recoverHostSelfUpdateSlotArtifacts_def by (auto intro!: frame)
qed

lemma stage_frames [frame]: "preserves pinned (stageSlot rt slot rel req d)"
proof -
  have copy: "preserves pinned (copyHostSelfUpdateBinary rt rel n b)" for n b
    unfolding copyHostSelfUpdateBinary_def by (auto intro!: frame simp: Let_def split: prod.splits)
  then have bin: "preserves pinned (stage_binary rt rel n r it)" for n r it
    unfolding stage_binary_def by (auto intro!: frame split: prod.splits)
  then have build: "preserves pinned (build_candidate rt rel slot n r d)" for slot n r d
    unfolding build_candidate_def by (auto intro!: frame split: prod.splits)
  have undo: "preserves pinned (undo_swap slot t b e)" for slot t b e
    unfolding undo_swap_def by (auto intro!: frame)
  then have swap: "preserves pinned (swap_candidate rt slot t b r d)" for slot t b r d
    unfolding swap_candidate_def by (auto intro!: frame)
  show ?thesis
    unfolding stageSlot_def by (auto intro!: frame build swap simp: Let_def)
qed

lemma keeps_stageSlot [keep]:
  assumes H: "is_slot H" and slot: "slot \<noteq> H"
  shows "keeps (slot_inv B H T) (stageSlot rt slot rel req d)"
proof -
  have name: "stage_name slot g x \<noteq> H" for g x
    by (rule stage_name_not_slot [OF H])
  have copy: "keeps (slot_inv B H T) (copyHostSelfUpdateBinary rt rel n b)" if "n \<noteq> H" for n b
    unfolding copyHostSelfUpdateBinary_def
    by (auto intro!: keep keeps_inv [OF preserves_lookup] keeps_inv [OF preserves_observe]
        simp: Let_def that split: prod.splits)
  have bin: "keeps (slot_inv B H T) (stage_binary rt rel n r it)" if "n \<noteq> H" for n r it
    unfolding stage_binary_def
    by (auto intro!: keep copy that keeps_inv [OF verify_frames(3)] keeps_inv [OF read_frames(7)]
        split: prod.splits)
  have build: "keeps (slot_inv B H T) (build_candidate rt rel slot n r d)" if "n \<noteq> H" for n r d
    unfolding build_candidate_def
    by (auto intro!: keep bin that keeps_inv [OF verify_frames(6)] split: prod.splits)
  have undo: "keeps (slot_inv B H T) (undo_swap slot t b e)" if "t \<noteq> H" "b \<noteq> H" for t b e
    unfolding undo_swap_def by (auto intro!: keep that slot)
  have swap: "keeps (slot_inv B H T) (swap_candidate rt slot t b r d)" if "t \<noteq> H" "b \<noteq> H" for t b r d
    unfolding swap_candidate_def
    by (auto intro!: keep undo that slot that(1) [symmetric] keeps_inv [OF verify_frames(6)])
  have mk: "keeps (slot_inv B H T) (effectP (\<lambda>w. if map_of (w_slots w) n = None then put_entry n e w else w))"
    if "n \<noteq> H" for n e
    by (auto intro!: keeps_effect slot_inv_put that)
  show ?thesis
    unfolding stageSlot_def Let_def
    by (auto intro!: keep H name build swap mk simp: name [symmetric])
qed

section \<open>Specifications with the observed status\<close>

definition disk_pred :: "(su_world \<Rightarrow> bool) \<Rightarrow> bool" where
  "disk_pred P \<longleftrightarrow> (\<forall>w w'. disk w = disk w' \<longrightarrow> P w \<longrightarrow> P w')"

lemma disk_preds [simp]:
  "disk_pred (slot_inv B H T)" "disk_pred (slot_done B H T)" "disk_pred (stored s)"
  "disk_pred (\<lambda>w. w_current w = l)" "disk_pred (\<lambda>w. w_state w = f)"
  "disk_pred (\<lambda>w. map_of (w_slots w) c \<noteq> None)"
  by (auto simp: disk_pred_def disk_def slot_inv_def slot_done_def stored_def)

lemma disk_pred_conj [simp]: "disk_pred P \<Longrightarrow> disk_pred Q \<Longrightarrow> disk_pred (\<lambda>w. P w \<and> Q w)"
  unfolding disk_pred_def by blast

lemma disk_pred_const [simp]: "disk_pred (\<lambda>w. b)"
  by (simp add: disk_pred_def)

lemma spec_option:
  "spec P m Q X \<Longrightarrow> (\<And>x. spec P (k x) Q X) \<Longrightarrow> spec P (case r of None \<Rightarrow> m | Some x \<Rightarrow> k x) Q X"
  by (simp split: option.split)

lemma spec_prod: "(\<And>x y. r = (x, y) \<Longrightarrow> spec P (k x y) Q X) \<Longrightarrow> spec P (case r of (x, y) \<Rightarrow> k x y) Q X"
  by (simp split: prod.split)

lemma spec_vacuous: "(\<And>w. \<not> P w) \<Longrightarrow> spec P m Q X"
  by (simp add: spec_def)

lemma disk_pred_script: "disk_pred P \<Longrightarrow> P w \<Longrightarrow> P (w\<lparr>script := fs\<rparr>)"
  unfolding disk_pred_def using disk_updates(8) by metis

lemma spec_frame:
  assumes "preserves disk m" "disk_pred P" "\<And>w. P w \<Longrightarrow> X w"
  shows "spec P m (\<lambda>_. P) X"
  using assms(2) by (intro disk_spec [OF assms(1)] assms(3)) (unfold disk_pred_def, blast)

text \<open>\<open>at_slot c\<close>: \<open>current\<close> is slot \<open>c\<close>, which exists.\<close>

definition at_slot :: "string \<Rightarrow> su_world \<Rightarrow> bool" where
  "at_slot c w \<longleftrightarrow> w_current w = LinkTo True (Some c) \<and> map_of (w_slots w) c \<noteq> None"

lemma at_slot_disk [simp]: "disk_pred (at_slot c)"
  unfolding at_slot_def by (simp del: not_None_eq)

lemma at_slot_save [simp]:
  "at_slot c (w\<lparr>w_state := f\<rparr>) = at_slot c w" "at_slot c (w\<lparr>script := fs\<rparr>) = at_slot c w"
  by (simp_all add: at_slot_def)

text \<open>\<open>seen B H T s c\<close>: the invariant, the durable state is \<open>s\<close> and \<open>current\<close> is slot \<open>c\<close>.\<close>

definition seen :: "link set \<Rightarrow> string \<Rightarrow> slot_entry \<Rightarrow> HostSelfUpdateState \<Rightarrow> string \<Rightarrow> su_world \<Rightarrow> bool" where
  "seen B H T s c w \<longleftrightarrow> slot_inv B H T w \<and> stored s w \<and> at_slot c w"

lemma seen_disk [simp]: "disk_pred (seen B H T s c)"
  unfolding seen_def by simp

lemma seen_inv: "seen B H T s c w \<Longrightarrow> slot_inv B H T w"
  by (simp add: seen_def)

lemma seen_facts:
  assumes "seen B H T s c w"
  shows "valid_state s" "su_HealthySlot s = H" "su_ActiveSlot s = H"
    "c = H \<or> running_phase (su_Phase s) \<and> c = su_PendingSlot s"
  using assms slot_inv_stored [of B H T w s] by (auto simp: seen_def stored_def link_ok_def at_slot_def)

text \<open>What is known of a state that satisfies \<open>seen\<close>, as a fact for the continuation.\<close>

definition agrees :: "string \<Rightarrow> HostSelfUpdateState \<Rightarrow> string \<Rightarrow> bool" where
  "agrees H s c \<longleftrightarrow> valid_state s \<and> su_HealthySlot s = H \<and> su_ActiveSlot s = H \<and>
     (c = H \<or> running_phase (su_Phase s) \<and> c = su_PendingSlot s)"

lemma spec_agrees:
  assumes "agrees H s c \<Longrightarrow> spec (seen B H T s c) m Q X"
  shows "spec (seen B H T s c) m Q X"
proof (cases "agrees H s c")
  case False
  then have "\<not> seen B H T s c w" for w
    using seen_facts [of B H T s c w] by (auto simp: agrees_def)
  then show ?thesis
    by (simp add: spec_def)
qed (rule assms)

lemma spec_validDir:
  assumes P: "disk_pred P" "\<And>w. P w \<Longrightarrow> X w"
  shows "spec P (validateHostSelfUpdateSlotDirectory c) (\<lambda>_ w. P w \<and> map_of (w_slots w) c \<noteq> None) X"
proof -
  have "spec P (tryP (lstatEntry c) (\<lambda>_. failP e)
      (\<lambda>info. if b info then failP e else if b' info then failP e' else returnP ()))
      (\<lambda>_ w. P w \<and> map_of (w_slots w) c \<noteq> None) X" for b b' e e'
    unfolding lstatEntry_def
    by (rule spec_lookup)
      (auto intro!: spec_fail spec_return P(2) disk_pred_script [OF P(1)] simp: script_free_def)
  then show ?thesis
    unfolding validateHostSelfUpdateSlotDirectory_def by (intro spec_if spec_fail P(2))
qed

lemma spec_readCurrent:
  assumes P: "disk_pred P" "\<And>w. P w \<Longrightarrow> X w"
  shows "spec P readCurrentSlot (\<lambda>c w. P w \<and> at_slot c w) X"
proof -
  have read: "spec R (observeP w_current) (\<lambda>l w. R w \<and> w_current w = l) R" if "disk_pred R" for R
    by (rule spec_observe) (auto intro: disk_pred_script [OF that])
  let ?Q = "\<lambda>c w. P w \<and> at_slot c w"
  let ?L = "\<lambda>l w. P w \<and> w_current w = l"
  have found: "spec (?L (LinkTo True (Some c))) (thenP (validateHostSelfUpdateSlotDirectory c) (returnP c)) ?Q X" for c
    by (rule spec_then [OF spec_validDir]) (auto intro!: spec_return simp: P at_slot_def)
  have again: "spec (\<lambda>w. ?L (LinkTo True t) w \<and> w_current w = l)
      (case l of LinkTo _ (Some slot) \<Rightarrow>
           if validHostSelfUpdateSlot slot
           then thenP (validateHostSelfUpdateSlotDirectory slot) (returnP slot)
           else failP (NewErr ''host self-update current symlink points outside fixed slots'')
         | _ \<Rightarrow> failP (NewErr ''host self-update current symlink points outside fixed slots'')) ?Q X" for t l
  proof (cases "l = LinkTo True t")
    case True
    show ?thesis
      unfolding True by (cases t) (auto intro!: spec_fail spec_pre [OF found] P(2))
  qed (auto simp: spec_def)
  have linked: "spec (?L (LinkTo True t))
      (bindP (observeP w_current) (\<lambda>l. case l of LinkTo _ (Some slot) \<Rightarrow>
           if validHostSelfUpdateSlot slot
           then thenP (validateHostSelfUpdateSlotDirectory slot) (returnP slot)
           else failP (NewErr ''host self-update current symlink points outside fixed slots'')
         | _ \<Rightarrow> failP (NewErr ''host self-update current symlink points outside fixed slots''))) ?Q X" for t
    by (rule spec_bind [OF spec_conseq [OF read [of "?L (LinkTo True t)"]] again]) (auto simp: P)
  show ?thesis
    unfolding readCurrentSlot_def
    by (rule spec_try [OF read]) (auto intro!: spec_fail linked P split: link.splits)
qed

lemma link_ok_failed [simp]: "link_ok (s\<lparr>su_FailedGeneration := g\<rparr>) l = link_ok s l"
  by (simp add: link_ok_def)

lemma slot_inv_save:
  "slot_inv B H T w \<Longrightarrow> valid_state s \<Longrightarrow> private_meta m \<Longrightarrow> su_HealthySlot s = H \<Longrightarrow> su_ActiveSlot s = H \<Longrightarrow>
     link_ok s (w_current w) \<Longrightarrow> slot_inv B H T (w\<lparr>w_state := DiskFile m (Decodes s)\<rparr>)"
  by (simp add: slot_inv_def stored_ok_def)

text \<open>Saving a state that names the same healthy slot and fences the link as it is.\<close>

lemma spec_save_seen:
  assumes "su_HealthySlot s' = H" "su_ActiveSlot s' = H" "link_ok s' (LinkTo True (Some c))"
    and "\<And>w. P w \<Longrightarrow> slot_inv B H T w \<and> at_slot c w" "disk_pred P"
  shows "spec P (saveState s') (\<lambda>_. seen B H T s' c) (slot_inv B H T)"
  by (rule state_record.spec_save)
    (use assms in \<open>auto simp: seen_def stored_def disk_pred_script at_slot_def intro!: slot_inv_save\<close>)

lemma spec_loadState:
  "spec (\<lambda>w. slot_inv B H T w \<and> at_slot c w) (loadState rt c)
     (\<lambda>s. seen B H T s c) (slot_inv B H T)"
proof -
  let ?P = "\<lambda>w. slot_inv B H T w \<and> at_slot c w"
  let ?N = "\<lambda>w. ?P w \<and> w_state w = NoFile"
  have boot: "H = SlotA" if "?N w" for w
    using that by (auto simp: slot_inv_def stored_ok_def)
  have fresh: "spec ?N (thenP (saveState s) (returnP s)) (\<lambda>s. seen B H T s c) (slot_inv B H T)"
    if "H = SlotA" "c = SlotA" "su_ActiveSlot s = SlotA" "su_HealthySlot s = SlotA" for s
    by (rule spec_then [OF spec_save_seen]) (use that in \<open>auto intro!: spec_return simp: link_ok_def\<close>)
  have unbound: "spec ?N (bindP (resultP r) (\<lambda>st. let st = st\<lparr>su_ActiveSlot := c, su_HealthySlot := c\<rparr>
        in thenP (saveState st) (returnP st))) (\<lambda>s. seen B H T s c) (slot_inv B H T)"
    if "H = SlotA" "c = SlotA" for r
  proof (rule spec_bind [OF spec_result [where Q = "\<lambda>_. ?N"]])
    fix st
    show "spec ?N (let st = st\<lparr>su_ActiveSlot := c, su_HealthySlot := c\<rparr>
        in thenP (saveState st) (returnP st)) (\<lambda>s. seen B H T s c) (slot_inv B H T)"
      unfolding Let_def by (rule fresh) (use that in simp_all)
  qed auto
  have bootstrap: "spec ?N (bindP (hostSelfUpdateSlotHasBinding c) (\<lambda>hasBinding.
           if hasBinding then failP e
           else bindP (resultP r) (\<lambda>st. let st = st\<lparr>su_ActiveSlot := c, su_HealthySlot := c\<rparr>
               in thenP (saveState st) (returnP st))))
      (\<lambda>s. seen B H T s c) (slot_inv B H T)" if "H = SlotA" "c = SlotA" for r e
    by (intro spec_bind [OF spec_frame [OF link_frames(2)]] spec_if spec_fail unbound [OF that]) auto
  have missing: "spec ?N (if c \<noteq> SlotA then failP e' else bindP (hostSelfUpdateSlotHasBinding c) (\<lambda>hasBinding.
           if hasBinding then failP e
           else bindP (resultP r) (\<lambda>st. let st = st\<lparr>su_ActiveSlot := c, su_HealthySlot := c\<rparr>
               in thenP (saveState st) (returnP st))))
      (\<lambda>s. seen B H T s c) (slot_inv B H T)" for r e e'
  proof (cases "H = SlotA")
    case False
    with boot have "\<not> ?N w" for w
      by blast
    then show ?thesis
      by (rule spec_vacuous)
  next
    case True
    then show ?thesis
      by (intro spec_if spec_fail bootstrap) auto
  qed
  show ?thesis
    unfolding loadState_def
  proof (rule spec_try_load)
    show "slot_inv B H T w' \<and> at_slot c w'"
      if "disk w = disk w'" "slot_inv B H T w \<and> at_slot c w" for w w'
      using that disk_cong [OF that(1)] by (simp add: at_slot_def)
  qed (rule missing spec_if spec_fail spec_return | simp add: seen_def)+
qed

lemma spec_recoverGrant:
  "spec (seen B H T s c) (recoverDurableHostSelfUpdateGrant rt s) (\<lambda>s'. seen B H T s' c) (slot_inv B H T)"
proof (rule spec_agrees)
  assume ok: "agrees H s c"
  let ?Q = "\<lambda>s'. seen B H T s' c"
  have keep: "spec (seen B H T s c) (thenP m (returnP s)) ?Q (slot_inv B H T)" if "preserves disk m" for m
    by (rule spec_then [OF spec_frame [OF that]]) (auto intro!: spec_return seen_inv)
  have failed: "spec (seen B H T s c)
      (thenP (if b then saveState (s\<lparr>su_FailedGeneration := g\<rparr>) else returnP ())
        (thenP (cleanFailedHostSelfUpdateGrant (s\<lparr>su_FailedGeneration := g\<rparr>))
          (returnP (s\<lparr>su_FailedGeneration := g\<rparr>)))) ?Q (slot_inv B H T)"
    if "\<not> b \<Longrightarrow> su_FailedGeneration s = g" for g b
  proof (rule spec_then [where R = "seen B H T (s\<lparr>su_FailedGeneration := g\<rparr>) c"])
    have same: "s\<lparr>su_FailedGeneration := g\<rparr> = s" if "su_FailedGeneration s = g"
      using that by simp
    show "spec (seen B H T s c) (if b then saveState (s\<lparr>su_FailedGeneration := g\<rparr>) else returnP ())
        (\<lambda>_. seen B H T (s\<lparr>su_FailedGeneration := g\<rparr>) c) (slot_inv B H T)"
      using ok that
      by (intro spec_if spec_save_seen spec_return)
        (auto simp: agrees_def seen_def same link_ok_def)
  qed (auto intro!: spec_then [OF spec_frame] spec_return frame seen_inv)
  have stage: "spec (seen B H T s c) (recover_stage_grant rt s g) ?Q (slot_inv B H T)" for g
    unfolding recover_stage_grant_def Let_def
    by (intro spec_bind [OF spec_frame] spec_if keep failed spec_fail frame)
      (auto intro: seen_inv)
  have reconcile: "spec (seen B H T s c) (recover_reconcile_grant rt s g) ?Q (slot_inv B H T)" for g
    unfolding recover_reconcile_grant_def
    by (intro spec_if keep spec_bind [OF spec_frame]) (auto intro!: frame keep spec_if spec_fail seen_inv)
  have branch: "spec (seen B H T s c) (if failedHostSelfUpdateStateMatchesStageGrant s (Some g)
         then thenP (cleanFailedHostSelfUpdateGrant s) (returnP s)
         else if gs_Phase g = GrantApplied
         then bindP (hostSelfUpdateStateEffectMatchesGrant rt s (gs_Binding g)) (\<lambda>effect.
           if effect then returnP s else failP e)
         else if gb_Operation (gs_Binding g) = ''stage'' then recover_stage_grant rt s g
         else if gb_Operation (gs_Binding g) = ''reconcile'' then recover_reconcile_grant rt s g
         else failP e') ?Q (slot_inv B H T)" for g e e'
    by (intro spec_if keep stage reconcile spec_bind [OF spec_frame])
      (auto intro!: frame spec_if spec_return spec_fail seen_inv)
  show "spec (seen B H T s c) (recoverDurableHostSelfUpdateGrant rt s) ?Q (slot_inv B H T)"
    unfolding recoverDurableHostSelfUpdateGrant_def
    by (intro spec_bind [OF spec_frame [OF read_frames(2)]] spec_option branch spec_return)
      (auto intro: seen_inv)
qed

lemma spec_status:
  "spec (slot_inv B H T) (statusWithGrantRecovery rt b)
     (\<lambda>st. seen B H T (st_State st) (st_CurrentSlot st)) (slot_inv B H T)"
proof -
  have rec: "spec (seen B H T s c) (if b then recoverDurableHostSelfUpdateGrant rt s else returnP s)
      (\<lambda>s'. seen B H T s' c) (slot_inv B H T)" for s c
    by (intro spec_if spec_recoverGrant spec_return)
  have check: "spec (seen B H T s c) (thenP (checkP (status_validate st)) (returnP st))
      (\<lambda>st. seen B H T (st_State st) (st_CurrentSlot st)) (slot_inv B H T)"
    if "st_State st = s" "st_CurrentSlot st = c" for st s c
    by (rule spec_then [OF spec_check [where Q = "\<lambda>_. seen B H T s c"]])
      (use that in \<open>auto intro!: spec_return seen_inv\<close>)
  show ?thesis
    unfolding statusWithGrantRecovery_def Let_def
    by (rule spec_bind [OF spec_readCurrent], simp_all, rule spec_bind [OF spec_loadState],
        rule spec_bind [OF rec], rule check, simp_all)
qed

section \<open>Staging\<close>

lemma spec_pinned:
  assumes "keeps (slot_inv B H T) m" "preserves pinned m"
  shows "spec (seen B H T s H) m (\<lambda>_. seen B H T s H) (slot_inv B H T)"
  unfolding spec_def
proof (intro allI impI)
  fix w assume w: "seen B H T s H w"
  obtain r w' where run: "m w = (r, w')"
    by fastforce
  have "pinned w' = pinned w" "slot_inv B H T w'"
    using preservesD [OF assms(2), of w] keepsD [OF assms(1), of w] w run by (simp_all add: seen_def)
  with w have "seen B H T s H w'" "slot_inv B H T w'"
    by (auto simp: seen_def pinned_def stored_def at_slot_def slot_inv_def)
  with run show "case m w of (Ok x, w') \<Rightarrow> seen B H T s H w' | (Err e, w') \<Rightarrow> slot_inv B H T w'
      | (Crash, w') \<Rightarrow> slot_inv B H T w'"
    by (cases r) auto
qed

lemma spec_stage_release:
  assumes H: "is_slot H" and s: "st_State current = s" "su_Phase s = PhaseStable"
  shows "spec (seen B H T s c) (stage_release rt current request release) (\<lambda>_. slot_inv B H T) (slot_inv B H T)"
proof (rule spec_agrees)
  assume ok: "agrees H s c"
  then have c: "c = H" "su_HealthySlot s = H" "su_ActiveSlot s = H"
    using s by (auto simp: agrees_def)
  have final: "spec (seen B H T s c)
      (thenP (mapErrP f (stageSlot rt (su_PendingSlot n) release request d))
        (thenP (saveState n)
        (thenP (mapErrP g (recoverHostSelfUpdateSlotArtifacts rt)) (returnP r))))
      (\<lambda>_. slot_inv B H T) (slot_inv B H T)"
    if st: "StageHostSelfUpdate s request empty_blockers d = Inr n" for f g n d r
  proof -
    have pend: "su_PendingSlot n \<noteq> H"
      using Stage_effect(3) [OF st] H c by (auto simp: otherHostSelfUpdateSlot_def)
    have staged: "spec (seen B H T s c) (stageSlot rt (su_PendingSlot n) release request d)
        (\<lambda>_. seen B H T s c) (slot_inv B H T)"
      unfolding c(1) by (intro spec_pinned keep frame H pend)
    have promoted: "spec (seen B H T n c) (recoverHostSelfUpdateSlotArtifacts rt)
        (\<lambda>_. seen B H T n c) (slot_inv B H T)"
      unfolding c(1) by (intro spec_pinned keep frame H)
    have saved: "spec (seen B H T s c) (saveState n) (\<lambda>_. seen B H T n c) (slot_inv B H T)"
      by (rule spec_save_seen) (use Stage_effect [OF st] c in \<open>auto simp: seen_def link_ok_def at_slot_def\<close>)
    show ?thesis
      by (intro spec_then [OF spec_mapErr [OF staged]] spec_then [OF saved]
          spec_then [OF spec_mapErr [OF promoted]] spec_return seen_inv)
  qed
  have staged: "spec (seen B H T s c)
      (bindP (mapErrP f (resultP (StageHostSelfUpdate s request empty_blockers d))) k)
      (\<lambda>_. slot_inv B H T) (slot_inv B H T)"
    if "\<And>next. StageHostSelfUpdate s request empty_blockers d = Inr next \<Longrightarrow>
      spec (seen B H T s c) (k next) (\<lambda>_. slot_inv B H T) (slot_inv B H T)" for f d k
    by (rule spec_bind [OF spec_mapErr [OF spec_result [where
          Q = "\<lambda>next w. seen B H T s c w \<and> StageHostSelfUpdate s request empty_blockers d = Inr next"]]])
      (auto intro!: spec_pure that seen_inv)
  show "spec (seen B H T s c) (stage_release rt current request release) (\<lambda>_. slot_inv B H T) (slot_inv B H T)"
    unfolding stage_release_def s
    by (intro spec_if spec_fail spec_bind [OF spec_mapErr [OF spec_frame]] frame staged final)
      (auto intro: seen_inv)
qed

lemma keeps_stage [keep]:
  assumes "is_slot H"
  shows "keeps (slot_inv B H T) (stage rt request)"
proof -
  have download: "spec (seen B H T (st_State st) (st_CurrentSlot st))
      (deferP (bindP (mapErrP f (thenP syscallP (resultP r))) (stage_release rt st request)) syscallP)
      (\<lambda>_. slot_inv B H T) (slot_inv B H T)" if "su_Phase (st_State st) = PhaseStable" for st f r
  proof -
    have "spec (seen B H T (st_State st) (st_CurrentSlot st))
      (bindP (mapErrP f (thenP syscallP (resultP r))) (stage_release rt st request))
      (\<lambda>_. slot_inv B H T) (slot_inv B H T)"
      by (intro spec_bind [OF spec_mapErr [OF spec_frame]] frame spec_stage_release assms refl that)
        (auto intro: seen_inv)
    then show ?thesis
      unfolding deferP_def
      by (rule spec_try) (auto intro!: spec_try [OF keeps_spec [OF keeps_syscall(1)]] spec_fail spec_return)
  qed
  show ?thesis
    unfolding keeps_def stage_def mutationStatus_def Let_def
    by (intro spec_bind [OF spec_status] spec_if spec_fail spec_then [OF spec_mapErr [OF spec_frame]]
        download frame) (auto intro: seen_inv)
qed

section \<open>Switching under a fence\<close>

definition held :: "link set \<Rightarrow> string \<Rightarrow> slot_entry \<Rightarrow> HostSelfUpdateState \<Rightarrow> su_world \<Rightarrow> bool" where
  "held B H T s w \<longleftrightarrow> slot_inv B H T w \<and> stored s w"

lemma held_disk [simp]: "disk_pred (held B H T s)"
  unfolding held_def by simp

lemma held_inv: "held B H T s w \<Longrightarrow> slot_inv B H T w"
  by (simp add: held_def)

lemma seen_held: "seen B H T s c w \<Longrightarrow> held B H T s w"
  by (simp add: seen_def held_def)

lemma held_link: "held B H T s w \<Longrightarrow> su_HealthySlot s = H \<and> su_ActiveSlot s = H \<and> link_ok s (w_current w)"
  using slot_inv_stored by (auto simp: held_def)

lemma keeps_pred: "preserves disk m \<Longrightarrow> disk_pred P \<Longrightarrow> keeps P m"
  unfolding keeps_def by (rule spec_frame)

lemma spec_replaceCurrent:
  assumes "link_ok s (LinkTo True (Some slot))"
  shows "spec (held B H T s) (replaceCurrent slot b)
    (\<lambda>_ w. held B H T s w \<and> w_current w = LinkTo True (Some slot)) (held B H T s)"
proof -
  let ?I = "held B H T s" and ?L = "\<lambda>w. held B H T s w \<and> w_current w = LinkTo True (Some slot)"
  have "spec ?I (effectP (\<lambda>w. w\<lparr>w_current := LinkTo True (Some slot)\<rparr>)) (\<lambda>_. ?L) ?I"
    by (rule spec_effect)
      (use assms in \<open>auto simp: held_def slot_inv_def stored_def stored_ok_def\<close>)
  then have ren: "spec ?I (renameCurrent slot) (\<lambda>_. ?L) ?I"
    by (auto simp: spec_def renameCurrent_def)
  have look: "preserves disk (lookupP f)" for f :: "su_world \<Rightarrow> link option"
    by (auto intro!: frame)
  have sys: "spec P (ignoreP syscallP) (\<lambda>_. P) P" "spec P syscallP (\<lambda>_. P) P" if "disk_pred P" for P
    using that by (auto intro!: spec_frame frame)
  have linked: "spec ?I (tryP (thenP (if b then returnP ()
             else tryP (lookupP (\<lambda>w. if w_current w = NoLink then None else Some (w_current w)))
               (\<lambda>err. if errors_Is err NotExist then returnP () else failP err)
               (\<lambda>current. if \<not> is_link current then failP e else returnP ()))
            (renameCurrent slot)) (\<lambda>err. thenP (ignoreP syscallP) (failP err)) returnP) (\<lambda>_. ?L) ?I" for e
    by (rule spec_try [OF spec_then [OF spec_frame ren]])
      (auto intro!: frame look spec_then [OF sys(1)] spec_fail spec_return)
  have synced: "spec ?L syscallP (\<lambda>_. ?L) ?I"
    by (rule spec_conseq [OF sys(2) [of ?L]]) auto
  show ?thesis
    unfolding replaceCurrent_def
    by (intro spec_if spec_fail spec_then [OF spec_frame [OF verify_frames(2)]] spec_then [OF sys(1)]
        spec_then [OF sys(2)] spec_then [OF linked synced]) auto
qed

lemma keeps_replaceCurrent:
  assumes "link_ok s (LinkTo True (Some slot))"
  shows "keeps (held B H T s) (replaceCurrent slot b)"
  unfolding keeps_def by (rule spec_conseq [OF spec_replaceCurrent [OF assms]]) auto

lemma spec_save_inv:
  assumes "\<And>w. P w \<Longrightarrow> slot_inv B H T w \<and> su_HealthySlot s' = H \<and> su_ActiveSlot s' = H \<and> link_ok s' (w_current w)"
    and "disk_pred P"
  shows "spec P (saveState s') (\<lambda>_. held B H T s') (slot_inv B H T)"
  by (rule state_record.spec_save)
    (use assms in \<open>auto simp: held_def stored_def disk_pred_script intro!: slot_inv_save\<close>)

lemma rollback_link_ok:
  "running_phase (su_Phase n) \<Longrightarrow> link_ok n l \<Longrightarrow> link_ok (beginHostSelfUpdateRollback n) l"
  by (auto simp: link_ok_def)

lemma spec_save_rollback:
  assumes "running_phase (su_Phase n)" "\<And>w. P w \<Longrightarrow> slot_inv B H T w \<and> link_ok n (w_current w)"
    and "disk_pred P" "su_HealthySlot n = H" "su_ActiveSlot n = H"
  shows "spec P (saveState (beginHostSelfUpdateRollback n))
    (\<lambda>_. held B H T (beginHostSelfUpdateRollback n)) (slot_inv B H T)"
  by (rule spec_save_inv) (use assms in \<open>auto intro: rollback_link_ok\<close>)

lemma spec_switch_fenced:
  assumes "running_phase (su_Phase n)"
  shows "spec (held B H T n) (switch_fenced n) (\<lambda>_. held B H T n) (slot_inv B H T)"
proof (cases "su_HealthySlot n = H \<and> su_ActiveSlot n = H")
  case True
  have "link_ok n (LinkTo True (Some (su_PendingSlot n)))"
    using assms by (simp add: link_ok_def)
  note switched = keeps_spec [OF keeps_replaceCurrent [OF this, of B H T False]]
  show ?thesis
    unfolding switch_fenced_def switchCurrent_def
    by (rule spec_try [OF switched];
        (rule spec_try [OF spec_save_rollback])?)
      (use assms True held_link in \<open>auto intro!: spec_fail spec_return dest: held_inv\<close>)
next
  case False
  then have "\<not> held B H T n w" for w
    using held_link by blast
  then show ?thesis
    by (rule spec_vacuous)
qed

lemma keeps_activate [keep]: "keeps (slot_inv B H T) (activate rt generation)"
proof -
  have failed: "spec (seen B H T s c) (tryP (failStagedHostSelfUpdate s) (\<lambda>e'. failP (k e')) (\<lambda>_. failP e))
      Q (slot_inv B H T)" if "agrees H s c" "c = H" for s c k e Q
  proof -
    have saved: "spec (seen B H T s c) (saveState (clearRolledBackHostSelfUpdate s))
        (\<lambda>_. held B H T (clearRolledBackHostSelfUpdate s)) (slot_inv B H T)"
      by (rule spec_save_inv) (use that in \<open>auto simp: seen_def agrees_def link_ok_def at_slot_def\<close>)
    have "spec (seen B H T s c) (failStagedHostSelfUpdate s) (\<lambda>_. slot_inv B H T) (slot_inv B H T)"
      unfolding failStagedHostSelfUpdate_def Let_def
      by (intro spec_if spec_fail spec_then [OF saved] spec_then [OF spec_frame [OF consume_frames(5)]]
          spec_return) (auto intro: held_inv seen_inv)
    then show ?thesis
      by (rule spec_try) (auto intro!: spec_fail)
  qed
  have go: "spec (seen B H T s c) (bindP nowP (\<lambda>t.
          bindP (resultP (BeginHostSelfUpdateActivation s (time_UTC t) d))
          (\<lambda>n. thenP (saveState n) (thenP (switch_fenced n) (thenP restartHostAgent (returnP (r n)))))))
      (\<lambda>_. slot_inv B H T) (slot_inv B H T)" if "agrees H s c" "c = H" for s c d r
  proof -
    have "spec (seen B H T s c) (thenP (saveState n) (thenP (switch_fenced n) (thenP restartHostAgent (returnP (r n)))))
        (\<lambda>_. slot_inv B H T) (slot_inv B H T)" if n: "BeginHostSelfUpdateActivation s t d = Inr n" for n t
    proof -
      have facts: "running_phase (su_Phase n)" "su_HealthySlot n = H" "su_ActiveSlot n = H"
        using n \<open>agrees H s c\<close> by (auto simp: Begin_iff agrees_def)
      have "spec (seen B H T s c) (saveState n) (\<lambda>_. held B H T n) (slot_inv B H T)"
        by (rule spec_save_inv) (use facts \<open>c = H\<close> in \<open>auto simp: seen_def link_ok_def at_slot_def\<close>)
      then show ?thesis
        by (rule spec_then)
          (intro spec_then [OF spec_switch_fenced [OF facts(1)]] spec_then [OF spec_frame] frame
            spec_return; auto intro: held_inv)
    qed
    note final = this
    have "spec (seen B H T s c) (bindP (resultP (BeginHostSelfUpdateActivation s t d))
          (\<lambda>n. thenP (saveState n) (thenP (switch_fenced n) (thenP restartHostAgent (returnP (r n))))))
        (\<lambda>_. slot_inv B H T) (slot_inv B H T)" for t
      by (rule spec_bind [OF spec_result [where
          Q = "\<lambda>n w. seen B H T s c w \<and> BeginHostSelfUpdateActivation s t d = Inr n"]])
        (auto intro!: spec_pure final intro: seen_inv)
    then show ?thesis
      by (intro spec_bind [OF spec_frame [OF grant_frames(3)]]) (auto intro: seen_inv)
  qed
  have checked: "spec (seen B H T s c)
      (thenP (mapErrP f (validateHostSelfUpdateSlotTree slot))
        (tryP (verifyPendingHostSelfUpdateSlot rt s)
          (\<lambda>err. tryP (failStagedHostSelfUpdate s) (\<lambda>e'. failP (g err e')) (\<lambda>_. failP e))
          (\<lambda>_. bindP nowP (\<lambda>t.
            bindP (resultP (BeginHostSelfUpdateActivation s (time_UTC t) d))
            (\<lambda>n. thenP (saveState n) (thenP (switch_fenced n) (thenP restartHostAgent (returnP (r n)))))))))
      (\<lambda>_. slot_inv B H T) (slot_inv B H T)" if "c = su_HealthySlot s" for s c f slot g e d r
  proof (rule spec_agrees)
    assume ok: "agrees H s c"
    with that have c: "c = H"
      by (simp add: agrees_def)
    show ?thesis
      by (rule spec_then [OF spec_mapErr [OF spec_frame [OF verify_frames(2)]]])
        (auto intro!: spec_try [OF spec_frame [OF verify_frames(8)]] failed ok c go intro: seen_inv)
  qed
  show ?thesis
    unfolding keeps_def activate_def status_def Let_def
    by (intro spec_bind [OF spec_status] spec_if spec_fail checked) (auto intro: seen_inv)
qed

section \<open>Reconciliation\<close>

lemma spec_verify_or_fence:
  assumes "running_phase (su_Phase n)" "su_HealthySlot n = H" "su_ActiveSlot n = H"
    and "link_ok n (LinkTo True (Some c))"
  shows "spec (seen B H T s c) (verify_or_fence rt n message) (\<lambda>_. seen B H T s c) (slot_inv B H T)"
proof -
  have saved: "spec (seen B H T s c) (saveState (beginHostSelfUpdateRollback n))
      (\<lambda>_. held B H T (beginHostSelfUpdateRollback n)) (slot_inv B H T)"
    by (rule spec_save_rollback) (use assms in \<open>auto simp: seen_def at_slot_def\<close>)
  show ?thesis
    unfolding verify_or_fence_def
    by (intro spec_try [OF spec_frame [OF verify_frames(8), where X = "seen B H T s c"]] spec_try [OF saved]
        spec_fail spec_return) (auto intro: seen_inv held_inv)
qed

lemma spec_perform:
  assumes n: "su_HealthySlot n = H" "su_ActiveSlot n = H" "link_ok n (LinkTo True (Some c))"
    and running: "action \<in> {ActionSwitchCurrent, ActionRestartAgent} \<Longrightarrow> running_phase (su_Phase n)"
  shows "spec (seen B H T s c) (perform_action rt current n action) (\<lambda>_. slot_inv B H T) (slot_inv B H T)"
proof -
  have saved: "spec (seen B H T s c) (saveState n) (\<lambda>_. held B H T n) (slot_inv B H T)"
    by (rule spec_save_inv) (use n in \<open>auto simp: seen_def at_slot_def\<close>)
  have healthy: "link_ok n (LinkTo True (Some (su_HealthySlot n)))"
    by (simp add: link_ok_def)
  have restart: "spec (held B H T n) (thenP restartHostAgent (returnP r)) (\<lambda>_. slot_inv B H T) (slot_inv B H T)" for r
    by (intro spec_then [OF spec_frame [OF grant_frames(4)]] spec_return) (auto intro: held_inv)
  have restart': "spec (held B H T n) (thenP (mapErrP f restartHostAgent) (returnP r))
      (\<lambda>_. slot_inv B H T) (slot_inv B H T)" for r f
    by (intro spec_then [OF spec_mapErr [OF spec_frame [OF grant_frames(4)]]] spec_return) (auto intro: held_inv)
  have restored: "spec (held B H T n) (mapErrP f (switchCurrent (su_HealthySlot n))) (\<lambda>_. held B H T n) (slot_inv B H T)" for f
    unfolding switchCurrent_def
    by (intro spec_mapErr spec_conseq [OF keeps_spec [OF keeps_replaceCurrent [OF healthy]]]) (auto intro: held_inv)
  show ?thesis
    unfolding perform_action_def Let_def
    by (intro spec_if spec_then [OF spec_verify_or_fence] spec_then [OF saved]
        spec_then [OF spec_switch_fenced] spec_then [OF restored] restart restart' spec_return n held_inv)
      (use running in auto)
qed

lemma reconciled_facts:
  assumes "reconciled s c n a" "agrees H s c"
  shows "a = ActionCommit \<and> n = commitHostSelfUpdate s \<and> c = su_PendingSlot s \<and> su_Phase s \<noteq> PhaseStable \<or>
    a \<noteq> ActionCommit \<and> su_HealthySlot n = H \<and> su_ActiveSlot n = H \<and> link_ok n (LinkTo True (Some c)) \<and>
    (a \<in> {ActionSwitchCurrent, ActionRestartAgent} \<longrightarrow> running_phase (su_Phase n))"
  using assms by cases (auto simp: agrees_def link_ok_def)

lemma pending_other:
  "valid_state s \<Longrightarrow> su_Phase s \<noteq> PhaseStable \<Longrightarrow> su_PendingSlot s = otherHostSelfUpdateSlot (su_HealthySlot s)"
  by (auto simp: state_validate_iff pending_ok_def base_ok_def validHostSelfUpdateSlot_def
      otherHostSelfUpdateSlot_def)

lemma spec_commit:
  assumes ok: "agrees H s c" and "c = su_PendingSlot s" "su_Phase s \<noteq> PhaseStable"
  shows "spec (seen B H T s c) (perform_action rt current (commitHostSelfUpdate s) ActionCommit)
    (\<lambda>_. slot_done B H T) (slot_done B H T)"
proof -
  have other: "su_PendingSlot s = otherHostSelfUpdateSlot H"
    using pending_other [of s] ok assms(3) by (auto simp: agrees_def)
  have "spec (seen B H T s c) (saveState (commitHostSelfUpdate s)) (\<lambda>_. slot_done B H T) (slot_done B H T)"
    by (rule state_record.spec_save)
      (use assms(2) other in \<open>auto simp: seen_def slot_inv_done, auto simp: slot_done_def slot_inv_def
         stored_ok_def link_ok_def at_slot_def\<close>)
  then show ?thesis
    by (simp add: perform_action_def Let_def spec_then spec_return)
qed

lemma spec_reconcile:
  "spec (slot_inv B H T) (reconcile rt p) (\<lambda>_. slot_done B H T) (slot_done B H T)"
proof -
  have perform: "spec (seen B H T s c) (perform_action rt current n a) (\<lambda>_. slot_done B H T) (slot_done B H T)"
    if "reconciled s c n a" for s c n a current
  proof (rule spec_agrees)
    assume ok: "agrees H s c"
    from reconciled_facts [OF that ok] show ?thesis
    proof
      assume "a = ActionCommit \<and> n = commitHostSelfUpdate s \<and> c = su_PendingSlot s \<and> su_Phase s \<noteq> PhaseStable"
      with spec_commit [OF ok] show ?thesis
        by simp
    next
      assume "a \<noteq> ActionCommit \<and> su_HealthySlot n = H \<and> su_ActiveSlot n = H \<and> link_ok n (LinkTo True (Some c)) \<and>
        (a \<in> {ActionSwitchCurrent, ActionRestartAgent} \<longrightarrow> running_phase (su_Phase n))"
      then show ?thesis
        by (intro spec_conseq [OF spec_perform]) (auto intro: slot_inv_done)
    qed
  qed
  have observed: "obs_CurrentSlot (reconcile_observation rt st p) = st_CurrentSlot st" for st
    by (simp add: reconcile_observation_def Let_def)
  have expire: "spec P (expire_observation s ob) (\<lambda>ob' w. P w \<and> obs_CurrentSlot ob' = obs_CurrentSlot ob) P"
    if "disk_pred P" for P s ob
  proof -
    have timed: "spec P (bindP nowP (\<lambda>t. returnP (f t))) (\<lambda>ob' w. P w \<and> obs_CurrentSlot ob' = obs_CurrentSlot ob) P"
      if "\<And>t. obs_CurrentSlot (f t) = obs_CurrentSlot ob" for f
      by (rule spec_bind [OF spec_frame [OF grant_frames(3)]])
        (use that \<open>disk_pred P\<close> in \<open>auto intro!: spec_return\<close>)
    show ?thesis
      unfolding expire_observation_def by (intro spec_if timed spec_return) auto
  qed
  have step: "spec (\<lambda>w. seen B H T (st_State st) (st_CurrentSlot st) w \<and> obs_CurrentSlot ob = st_CurrentSlot st)
      (bindP (resultP (ReconcileHostSelfUpdate (st_State st) ob)) (\<lambda>(n, a). perform_action rt st n a))
      (\<lambda>_. slot_done B H T) (slot_done B H T)" for st ob
  proof (rule spec_pure)
    assume slot: "obs_CurrentSlot ob = st_CurrentSlot st"
    show "spec (seen B H T (st_State st) (st_CurrentSlot st))
        (bindP (resultP (ReconcileHostSelfUpdate (st_State st) ob)) (\<lambda>(n, a). perform_action rt st n a))
        (\<lambda>_. slot_done B H T) (slot_done B H T)"
      by (rule spec_bind [OF spec_result [where Q = "\<lambda>na w. seen B H T (st_State st) (st_CurrentSlot st) w \<and>
            reconciled (st_State st) (st_CurrentSlot st) (fst na) (snd na)"]])
        (auto intro!: spec_pure perform dest: Reconcile_reconciled(3) simp: slot intro: slot_inv_done seen_inv
          split: prod.splits)
  qed
  show ?thesis
    unfolding reconcile_def mutationStatus_def
    by (rule spec_bind [OF spec_conseq [OF spec_status]], assumption, assumption, erule slot_inv_done,
        rule spec_bind [OF spec_conseq [OF expire [OF seen_disk]] step])
      (auto simp: observed intro: slot_inv_done seen_inv)
qed

section \<open>The request handler\<close>

lemma keeps_status [keep]:
  "keeps (slot_inv B H T) (statusWithGrantRecovery rt b)" "keeps (slot_inv B H T) (status rt)"
  unfolding keeps_def status_def by (auto intro: spec_conseq [OF spec_status] seen_inv)

lemma keeps_converge [keep]:
  "is_slot H \<Longrightarrow> keeps (slot_inv B H T) (convergeHostSelfUpdateStageAfterError rt request a)"
  unfolding convergeHostSelfUpdateStageAfterError_def
  by (auto intro!: keep keeps_inv [OF link_frames(4)] keeps_inv [OF link_frames(3)] split: prod.splits)

lemma keeps_stage_or_converge [keep]:
  "is_slot H \<Longrightarrow> keeps (slot_inv B H T) (stage_or_converge rt request a)"
  unfolding stage_or_converge_def
  by (auto intro!: keep keeps_inv [OF consume_frames(4)] split: prod.splits)

lemma replay_frame [frame]: "preserves disk (replay_applied rt current a m)"
  unfolding replay_applied_def by (auto intro!: frame)

lemma spec_failClosed:
  "spec (seen B H T (st_State st) (st_CurrentSlot st)) (failClosedUncertainStage st request a)
     (\<lambda>_. slot_inv B H T) (slot_inv B H T)"
proof (rule spec_agrees)
  let ?s = "st_State st" and ?c = "st_CurrentSlot st"
  let ?f = "?s\<lparr>su_FailedGeneration := req_Generation request\<rparr>"
  assume ok: "agrees H ?s ?c"
  have saved: "spec (seen B H T ?s ?c) (saveState ?f) (\<lambda>_. held B H T ?f) (slot_inv B H T)"
    by (rule spec_save_inv) (use ok in \<open>auto simp: seen_def agrees_def link_ok_def at_slot_def\<close>)
  show "spec (seen B H T ?s ?c) (failClosedUncertainStage st request a) (\<lambda>_. slot_inv B H T) (slot_inv B H T)"
    unfolding failClosedUncertainStage_def Let_def
    by (intro spec_if spec_fail spec_try [OF spec_frame [OF read_frames(2), where X = "seen B H T ?s ?c"]]
        spec_then [OF saved] spec_then [OF spec_frame [OF consume_frames(5)]] spec_return)
      (auto intro: seen_inv held_inv)
qed

lemma spec_authorized_stage:
  assumes "is_slot H"
  shows "spec (seen B H T (st_State st) (st_CurrentSlot st)) (authorized_stage rt url st request a)
     (\<lambda>_. slot_inv B H T) (slot_inv B H T)"
  unfolding authorized_stage_def
  by (intro spec_try [OF spec_frame [OF consume_frames(3), where X = "seen B H T (st_State st) (st_CurrentSlot st)"]]
      spec_if spec_bind [OF spec_failClosed] spec_bind [OF spec_frame [OF link_frames(5)]]
      spec_conseq [OF spec_frame [OF replay_frame], where P' = "seen B H T (st_State st) (st_CurrentSlot st)"]
      spec_pre [OF keeps_spec [OF keeps_stage_or_converge]] spec_return)
    (use assms in \<open>auto intro: seen_inv\<close>)

lemma keeps_handle_stage:
  assumes "is_slot H"
  shows "keeps (slot_inv B H T) (handle_stage rt policy url r request a)"
proof -
  let ?S = "\<lambda>st. seen B H T (st_State st) (st_CurrentSlot st)"
  have frame: "spec (?S st) m (\<lambda>_. slot_inv B H T) (slot_inv B H T)" if "preserves disk m" for st m
    by (rule spec_conseq [OF spec_frame [OF that, where P = "?S st"]]) (auto intro: seen_inv)
  show ?thesis
    unfolding keeps_def handle_stage_def status_def
    by (intro spec_bind [OF spec_status] spec_if spec_prod spec_bind [OF spec_frame]
        spec_authorized_stage frame assms spec_return spec_fail
        preserves_then preserves_return consume_frames link_frames preserves_if replay_frame)
      (auto intro: seen_inv)
qed

lemma spec_done: "keeps (slot_inv B H T) m \<Longrightarrow> spec (slot_inv B H T) m (\<lambda>_. slot_done B H T) (slot_done B H T)"
  by (erule spec_conseq [OF keeps_spec]) (auto intro: slot_inv_done)

lemma spec_keep_done: "keeps (slot_inv B H T) m \<Longrightarrow> spec (slot_inv B H T) m (\<lambda>_. slot_inv B H T) (slot_done B H T)"
  by (erule spec_conseq [OF keeps_spec]) (auto intro: slot_inv_done)

lemma spec_then_mark:
  assumes "spec P m (\<lambda>_. slot_done B H T) (slot_done B H T)" "\<And>x. preserves disk (k x)"
  shows "spec P (bindP m k) (\<lambda>_. slot_done B H T) (slot_done B H T)"
  by (rule spec_bind [OF assms(1) spec_frame [OF assms(2)]]) auto

lemma spec_handle_reconcile:
  "spec (slot_inv B H T) (handle_reconcile rt policy url r p) (\<lambda>_. slot_done B H T) (slot_done B H T)"
proof -
  note framed = spec_done [OF keeps_inv] and through = spec_keep_done [OF keeps_inv]
  have marked: "spec (slot_inv B H T) (bindP (reconcile rt p) (\<lambda>st.
      thenP (markHostSelfUpdateGrantApplied a) (returnP (Inr st)))) (\<lambda>_. slot_done B H T) (slot_done B H T)" for a
    by (intro spec_then_mark spec_reconcile preserves_then consume_frames preserves_return)
  have plain: "spec (slot_inv B H T) (bindP (reconcile rt p) (\<lambda>st. returnP (Inr st)))
      (\<lambda>_. slot_done B H T) (slot_done B H T)"
    by (intro spec_then_mark spec_reconcile preserves_return)
  have auth: "spec (slot_inv B H T) (authorized_reconcile rt url st p a) (\<lambda>_. slot_done B H T) (slot_done B H T)" for st a
    unfolding authorized_reconcile_def
    by (intro spec_try [OF keeps_spec [OF keeps_inv [OF consume_frames(3)]]] spec_return spec_if marked
        spec_bind [OF through [OF link_frames(5)]] framed replay_frame)
      (auto intro: slot_inv_done)
  show ?thesis
    unfolding handle_reconcile_def
    by (intro spec_bind [OF spec_keep_done [OF keeps_status(2)]] spec_option spec_if
        spec_bind [OF through [OF link_frames(4)]] spec_prod
        spec_bind [OF through [OF preserves_if [OF link_frames(3) preserves_return]]]
        auth plain framed replay_frame preserves_then consume_frames preserves_return) auto
qed

lemma spec_handle_operation:
  assumes "is_slot H"
  shows "spec (slot_inv B H T) (handle_operation rt policy url r) (\<lambda>_. slot_done B H T) (slot_done B H T)"
  unfolding handle_operation_def
  by (intro spec_if spec_done keeps_handle_stage spec_handle_reconcile keeps_bind keeps_status(2)
      keeps_activate keeps_return assms)

text \<open>The frame of the handler around its operation.\<close>

lemma handler_spec:
  assumes "spec I (prepare rt) (\<lambda>_. I) J" "\<And>url. spec I (handle_operation rt policy url r) (\<lambda>_. J) J"
    and "\<And>w. I w \<Longrightarrow> J w"
  shows "spec I (handleLocalExecutorHostSelfUpdate rt policy r) (\<lambda>_. J) J"
proof -
  have result: "spec J (case x of Inl code \<Rightarrow> returnP (FailureResponse code)
      | Inr st \<Rightarrow> if status_validate st \<noteq> None then returnP (FailureResponse ''internal_error'')
          else returnP (StatusResponse st)) (\<lambda>_. J) J" for x
    by (auto intro!: spec_return split: sum.split)
  have operation: "spec I (tryP (handle_operation rt policy url r)
      (\<lambda>err. returnP (FailureResponse (failure_code err)))
      (\<lambda>x. case x of Inl code \<Rightarrow> returnP (FailureResponse code)
      | Inr st \<Rightarrow> if status_validate st \<noteq> None then returnP (FailureResponse ''internal_error'')
          else returnP (StatusResponse st))) (\<lambda>_. J) J" for url
    by (rule spec_try [OF assms(2) _ result]) (auto intro!: spec_return)
  have prepared: "spec I (tryP (prepare rt) (\<lambda>_. returnP (FailureResponse c))
      (\<lambda>_. tryP (handle_operation rt policy url r) (\<lambda>err. returnP (FailureResponse (failure_code err)))
        (\<lambda>x. case x of Inl code \<Rightarrow> returnP (FailureResponse code)
        | Inr st \<Rightarrow> if status_validate st \<noteq> None then returnP (FailureResponse ''internal_error'')
            else returnP (StatusResponse st)))) (\<lambda>_. J) J" for url c
    by (rule spec_try [OF assms(1) _ operation]) (auto intro!: spec_return)
  show ?thesis
    unfolding handleLocalExecutorHostSelfUpdate_def
    by (intro spec_if spec_option prepared spec_return assms(3))
qed

lemma spec_handler:
  assumes "is_slot H"
  shows "spec (slot_inv B H T) (handleLocalExecutorHostSelfUpdate rt policy r)
    (\<lambda>_. slot_done B H T) (slot_done B H T)"
  by (rule handler_spec)
    (auto intro: spec_conseq [OF keeps_spec [OF keeps_prepare [OF assms]]] spec_handle_operation [OF assms]
      slot_inv_done)

section \<open>The watchdog\<close>

lemma spec_finish_rollback:
  assumes "st_State st = s"
  shows "spec (held B H T s) (finish_rollback rt st) (\<lambda>_. slot_inv B H T) (slot_inv B H T)"
proof -
  let ?c = "clearRolledBackHostSelfUpdate s"
  let ?L = "\<lambda>w. held B H T s w \<and> w_current w = LinkTo True (Some (su_HealthySlot s))"
  have "link_ok s (LinkTo True (Some (su_HealthySlot s)))"
    by (simp add: link_ok_def)
  then have link: "spec (held B H T s) (mapErrP f (reconstructCurrent (su_HealthySlot s))) (\<lambda>_. ?L) (slot_inv B H T)" for f
    unfolding reconstructCurrent_def
    by (intro spec_mapErr spec_conseq [OF spec_replaceCurrent]) (auto intro: held_inv)
  have saved: "spec ?L (saveState ?c) (\<lambda>_. held B H T ?c) (slot_inv B H T)"
    by (rule spec_save_inv) (use held_link in \<open>auto simp: link_ok_def intro: held_inv\<close>)
  show ?thesis
    unfolding finish_rollback_def Let_def assms
    by (intro spec_then [OF link] spec_then [OF spec_mapErr [OF spec_frame]] spec_then [OF saved]
        spec_return grant_frames probe_frames) (auto intro: held_inv)
qed

lemma spec_recover_by_phase:
  assumes "st_State st = s"
  shows "spec (held B H T s) (recover_by_phase rt st) (\<lambda>_. slot_inv B H T) (slot_inv B H T)"
proof -
  have fence: "spec (held B H T s) (saveState (beginHostSelfUpdateRollback s))
      (\<lambda>_. held B H T (beginHostSelfUpdateRollback s)) (slot_inv B H T)"
    if "running_phase (su_Phase s)"
    by (rule spec_save_inv) (use held_link rollback_link_ok [OF that] in \<open>auto intro: held_inv\<close>)
  show ?thesis
    unfolding recover_by_phase_def Let_def assms
    by (intro spec_if spec_return spec_fail spec_bind [OF spec_frame [OF grant_frames(3)]]
        spec_then [OF fence] spec_finish_rollback assms) (auto intro: held_inv)
qed

lemma keeps_watchdog:
  assumes "is_slot H"
  shows "keeps (slot_inv B H T) (recoverExpiredHostSelfUpdate rt slot)"
proof -
  have again: "spec (slot_inv B H T) (tryP loadPersistedState (\<lambda>_. failP e)
      (\<lambda>p. if p \<noteq> s then failP e else recover_by_phase rt st)) (\<lambda>_. slot_inv B H T) (slot_inv B H T)"
    if "st_State st = s" for e s st
  proof (rule spec_try_load)
    show "spec (\<lambda>w. slot_inv B H T w \<and> stored p w) (if p \<noteq> s then failP e else recover_by_phase rt st)
        (\<lambda>_. slot_inv B H T) (slot_inv B H T)" for p
      by (intro spec_if spec_fail spec_pre [OF spec_recover_by_phase [OF that]]) (auto simp: held_def)
  qed (auto intro!: spec_fail dest: disk_cong(1))
  have go: "spec (slot_inv B H T) (thenP (prepare rt) (tryP loadPersistedState (\<lambda>_. failP e)
      (\<lambda>p. if p \<noteq> s then failP e else recover_by_phase rt st))) (\<lambda>_. slot_inv B H T) (slot_inv B H T)"
    if "st_State st = s" for e s st
    by (rule spec_then [OF keeps_spec [OF keeps_prepare [OF assms]] again [OF that]])
  show ?thesis
    unfolding recoverExpiredHostSelfUpdate_def keeps_def Let_def
    by (intro spec_if spec_fail spec_return go
        spec_bind [OF keeps_spec [OF keeps_mapErr [OF keeps_inv [OF read_frames(1)]]]]) auto
qed

section \<open>Crash safety\<close>

text \<open>
  C2: one request to the executor never changes the healthy slot. Whatever the request, the
  policy and the runtime are and at whatever call the process fails or dies, the entry of the
  slot the durable state calls healthy is the same afterwards, and \<open>current\<close> is that slot,
  or the pending slot while a durable fence names it, or the update has been committed to
  the other slot, for which the same holds. On a host whose state file has not been written yet
  the healthy slot is the first one, and \<open>current\<close> does not leave any set \<open>B\<close> it was in until
  the file is written.
\<close>

theorem request_keeps_healthy_slot:
  assumes "validHostSelfUpdateSlot H" "slot_inv B H T w"
  shows "slot_done B H T (snd (handleLocalExecutorHostSelfUpdate rt policy r w))"
proof -
  have "is_slot H"
    using assms(1) by (simp add: validHostSelfUpdateSlot_def)
  from spec_handler [OF this, of B T rt policy r] assms(2) show ?thesis
    unfolding spec_def by (fastforce split: prod.splits outcome.splits)
qed

text \<open>
  The life of a host: requests and recovery timers run one after the other, by executors of any
  version, and between them the clock, the answers of the environment and the faults to come
  are arbitrary.
\<close>

datatype su_call = Request LocalExecutorPolicy LocalExecutorRequest | Timer string

definition perform_call :: "hostSelfUpdateExecutorRuntime \<Rightarrow> su_call \<Rightarrow> su_world \<Rightarrow> su_world" where
  "perform_call rt c w =
     (case c of
        Request policy r \<Rightarrow> snd (handleLocalExecutorHostSelfUpdate rt policy r w)
      | Timer slot \<Rightarrow> snd (recoverExpiredHostSelfUpdate rt slot w))"

inductive host_runs :: "su_world \<Rightarrow> su_world \<Rightarrow> bool" where
  start: "host_runs w w"
| call: "host_runs w v \<Longrightarrow> host_runs w (perform_call rt c v)"
| environment: "host_runs w v \<Longrightarrow> disk v' = disk v \<Longrightarrow> w_grant v' = w_grant v \<Longrightarrow> host_runs w v'"

definition current_safe :: "su_world \<Rightarrow> bool" where
  "current_safe w \<longleftrightarrow>
     (\<exists>H T. validHostSelfUpdateSlot H \<and> slot_inv {LinkTo True (Some SlotA)} H T w)"

lemma other_valid: "validHostSelfUpdateSlot H \<Longrightarrow> validHostSelfUpdateSlot (otherHostSelfUpdateSlot H)"
  by (auto simp: validHostSelfUpdateSlot_def otherHostSelfUpdateSlot_def)

lemma spec_keeps: "spec I m (\<lambda>_. J) J \<Longrightarrow> I w \<Longrightarrow> J (snd (m w))"
  unfolding spec_def by (fastforce split: prod.splits outcome.splits)

lemma current_safe_call: "current_safe w \<Longrightarrow> current_safe (perform_call rt c w)"
proof (unfold current_safe_def, elim exE conjE)
  let ?B = "{LinkTo True (Some SlotA)}"
  fix H T assume H: "validHostSelfUpdateSlot H" and inv: "slot_inv ?B H T w"
  then have slot: "is_slot H"
    by (simp add: validHostSelfUpdateSlot_def)
  show "\<exists>H T. validHostSelfUpdateSlot H \<and> slot_inv ?B H T (perform_call rt c w)"
  proof (cases c)
    case (Request policy r)
    then have "perform_call rt c w = snd (handleLocalExecutorHostSelfUpdate rt policy r w)"
      by (simp add: perform_call_def)
    with spec_keeps [OF spec_handler [OF slot] inv, of rt policy r] H other_valid [OF H] show ?thesis
      unfolding slot_done_def by auto
  next
    case (Timer s)
    with keepsD [OF keeps_watchdog [OF slot] inv] H show ?thesis
      by (auto simp: perform_call_def)
  qed
qed

text \<open>
  C1: \<open>current\<close> is safe for the whole life of the host. Starting from a consistent disk, after
  any number of requests and recovery timers, with an error or the death of the process at any
  call, there is a healthy slot that exists, and either the state file is a private file that
  decodes to a valid state, which names that slot as active and healthy, and \<open>current\<close> is that
  slot or, only while an activation, verification or rollback is durably recorded, the pending
  one; or no state file has been written yet, and the healthy slot and \<open>current\<close> are the first
  slot.
\<close>

theorem host_runs_current_safe:
  assumes "current_safe w" "host_runs w v"
  shows "current_safe v"
  using assms(2,1)
proof (induction rule: host_runs.induct)
  case (environment w v v')
  then show ?case
    using disk_cong(1) [of v' v] unfolding current_safe_def by blast
qed (auto intro: current_safe_call)

section \<open>Samples\<close>

definition sample_tree :: slot_tree where
  "sample_tree = \<lparr>tr_meta = dir_meta 493, tr_bin = Some (dir_meta 493),
     tr_files = [(''bin/autostream-host-agent'', regular_meta 493 ''agent'', ''agent''),
       (''bin/autostream-local-executor'', regular_meta 493 ''executor'', ''executor'')]\<rparr>"

definition sample_runtime :: hostSelfUpdateExecutorRuntime where
  "sample_runtime = \<lparr>rt_arch = ''amd64'', rt_executorVersion = ''v1.2.0'',
     rt_verificationTimeout = 5 * time_Minute,
     rt_download = (\<lambda>_ _. Inl OSFailure), rt_version_output = (\<lambda>_. Inl OSFailure),
     rt_umask = id, rt_net = sample_net\<rparr>"

definition sample_world :: "fault list \<Rightarrow> su_world" where
  "sample_world fs = \<lparr>script = fs, w_state = DiskFile (private_file 900) (Decodes stable_state),
     w_grant = NoFile, w_current = LinkTo True (Some SlotA),
     w_slots = [(SlotA, Tree sample_tree)], w_dirs = [], w_times = [], w_panel = [],
     w_probes = [], w_socket = [], w_restarts = []\<rparr>"

lemma sample_inv: "slot_inv B SlotA (Tree sample_tree) (sample_world fs)"
  using stable_state_valid
  by (simp add: slot_inv_def sample_world_def stored_ok_def link_ok_def stable_state_def private_meta_def
      private_file_def)

text \<open>A request to stage the sample release under a grant of the panel for it.\<close>

definition sample_stage_request :: LocalExecutorRequest where
  "sample_stage_request =
     \<lparr>lr_Version = 2, lr_Operation = ''host_self_update_stage'', lr_ServiceID = ''host-1'',
      lr_HostSelfUpdate = Some sample_request, lr_HostSelfUpdateProof = None,
      lr_HostSelfUpdateGeneration = [],
      lr_HostSelfUpdateGrant = Some (sample_authorization ''stage''),
      lr_SourcePolicyRevision = 3, lr_OwnershipEpoch = 9, lr_OwnershipPolicyRevision = 4,
      lr_ExecutorPolicyRevision = 5, lr_foreign_fields = False\<rparr>"

lemma sample_stage_request_valid: "LocalExecutorRequest_Validate sample_stage_request = None"
  using sample_authorization_valid [of "''stage''"]
  by (simp add: LocalExecutorRequest_Validate_def sample_stage_request_def stage_fields_check_def)
    (simp add: sample_authorization_def sample_binding_def)

theorem request_keeps_healthy_slot_witness:
  "LocalExecutorRequest_Validate sample_stage_request = None \<and>
   slot_done {LinkTo True (Some SlotA)} SlotA (Tree sample_tree)
     (snd (handleLocalExecutorHostSelfUpdate sample_runtime sample_policy sample_stage_request
       (sample_world [Fine, Late, Refused, DieLate])))"
  by (intro conjI sample_stage_request_valid request_keeps_healthy_slot [OF _ sample_inv])
    (simp add: validHostSelfUpdateSlot_def)

theorem host_runs_current_safe_witness:
  "current_safe (perform_call sample_runtime (Timer SlotA) (sample_world [Fine, Refused]))"
proof (rule host_runs_current_safe [of "sample_world [Fine, Refused]"])
  show "current_safe (sample_world [Fine, Refused])"
    using sample_inv by (auto simp: current_safe_def validHostSelfUpdateSlot_def)
  show "host_runs (sample_world [Fine, Refused])
      (perform_call sample_runtime (Timer SlotA) (sample_world [Fine, Refused]))"
    by (intro host_runs.intros)
qed

end
