(* ===== verification/SelfUpdate_Authority.thy ===== *)
theory SelfUpdate_Authority
  imports SelfUpdate_Crash
begin

text \<open>
  The grant behind a staged update: the panel's receipt for the grant is durable before anything
  is staged, and stays so whatever fails afterwards while an update is under way.
\<close>

section \<open>The grant record under faults\<close>

definition recorded :: "hostSelfUpdateGrantState \<Rightarrow> su_world \<Rightarrow> bool" where
  "recorded g w \<longleftrightarrow> holds g (w_grant w)"

text \<open>
  \<open>receipts w\<close>: the receipts the panel gives in its answers, and the one the record holds.
  \<open>consumed_for K a\<close>: the record is for the authorization \<open>a\<close>, in a phase after consumption, and
  holds a receipt of \<open>K\<close> that is valid as a consumed binding and bound as the record is.
\<close>

definition receipts :: "su_world \<Rightarrow> HostSelfUpdateGrantBinding set" where
  "receipts w = {cr_Grant x |x. Inr x \<in> set (w_panel w)} \<union> {c. \<exists>g. recorded g w \<and> gs_Receipt g = Some c}"

definition consumed_for ::
  "HostSelfUpdateGrantBinding set \<Rightarrow> HostSelfUpdateGrantAuthorization \<Rightarrow> su_world \<Rightarrow> bool" where
  "consumed_for K a w \<longleftrightarrow> (\<exists>g c. recorded g w \<and> grant_matches g a \<and>
     (gs_Phase g = GrantConsumed \<or> gs_Phase g = GrantApplied) \<and> gs_Receipt g = Some c \<and> c \<in> K \<and>
     binding_validate c True = None \<and> sameHostSelfUpdateGrantBinding c (gs_Binding g))"

text \<open>\<open>honest K\<close>: all receipts are in \<open>K\<close>.\<close>

definition honest :: "HostSelfUpdateGrantBinding set \<Rightarrow> su_world \<Rightarrow> bool" where
  "honest K w \<longleftrightarrow> receipts w \<subseteq> K"

definition charter :: "su_world \<Rightarrow> HostSelfUpdateGrantConsumeResult result list \<times> hostSelfUpdateGrantState disk_file" where
  "charter w = (w_panel w, w_grant w)"

lemma script_free_charter [simp]: "script_free charter"
  by (simp add: script_free_def charter_def)

lemma authority_script [simp]:
  "recorded g (w\<lparr>script := fs\<rparr>) = recorded g w" "honest K (w\<lparr>script := fs\<rparr>) = honest K w"
  "consumed_for K a (w\<lparr>script := fs\<rparr>) = consumed_for K a w"
  by (simp_all add: recorded_def honest_def receipts_def consumed_for_def)

lemma keeps_grant: "preserves w_grant m \<Longrightarrow> keeps (consumed_for K a) m"
  by (rule preserves_keeps) (auto simp: consumed_for_def recorded_def)

lemma keeps_honest: "preserves charter m \<Longrightarrow> keeps (honest K) m"
  by (rule preserves_keeps [where f = charter]) (simp_all add: honest_def receipts_def recorded_def charter_def)

lemma pinned_authority: "preserves pinned m \<Longrightarrow> preserves w_grant m" "preserves pinned m \<Longrightarrow> preserves charter m"
  using preserves_comp [of pinned m "\<lambda>(s, c, g, p). g"] preserves_comp [of pinned m "\<lambda>(s, c, g, p). (p, g)"]
  by (simp_all add: pinned_def charter_def [abs_def])

lemma honest_recorded: "honest K w \<Longrightarrow> recorded g w \<Longrightarrow> gs_Receipt g = Some c \<Longrightarrow> c \<in> K"
  by (auto simp: honest_def receipts_def)

lemma recorded_unique: "recorded g w \<Longrightarrow> recorded h w \<Longrightarrow> h = g"
  by (auto simp: recorded_def dest: holds_unique(1))

lemma spec_load_grant:
  assumes "\<And>w fs. P w \<Longrightarrow> P (w\<lparr>script := fs\<rparr>)" "\<And>w. P w \<Longrightarrow> X w"
    and "\<And>l. (\<And>g. l = Some g \<Longrightarrow> grant_state_validate g = None) \<Longrightarrow>
      spec (\<lambda>w. P w \<and> tells (Some l) (w_grant w)) (k l) Q X" "\<And>e. spec P (h e) Q X"
  shows "spec P (tryP loadHostSelfUpdateGrantState h k) Q X"
proof (rule grant_record.spec_load)
  show "spec (\<lambda>w. P w \<and> tells (grant_found (Ok l)) (w_grant w) \<and>
      (\<forall>r. grant_found (Ok l) = Some (Some r) \<longrightarrow> grant_state_validate r = None)) (k l) Q X" for l
  proof (cases "\<forall>g. l = Some g \<longrightarrow> grant_state_validate g = None")
    case True
    then show ?thesis
      by (intro spec_pre [OF assms(3) [of l]]) auto
  qed (auto intro: spec_vacuous)
qed (use assms in auto)

lemma bindP_try: "bindP m k = tryP m failP k"
  by (auto simp: bindP_def tryP_def failP_def fun_eq_iff split: prod.splits outcome.splits)

text \<open>Programs that begin by loading the grant.\<close>

lemma spec_loaded:
  assumes "\<And>w fs. P w \<Longrightarrow> P (w\<lparr>script := fs\<rparr>)" "\<And>w. P w \<Longrightarrow> X w"
    and "spec (\<lambda>w. P w \<and> w_grant w = NoFile) (k None) Q X"
    and "\<And>g. grant_state_validate g = None \<Longrightarrow> spec (\<lambda>w. P w \<and> recorded g w) (k (Some g)) Q X"
  shows "spec P (bindP loadHostSelfUpdateGrantState k) Q X"
  unfolding bindP_try
proof (rule spec_load_grant)
  show "spec (\<lambda>w. P w \<and> tells (Some l) (w_grant w)) (k l) Q X"
    if "\<And>g. l = Some g \<Longrightarrow> grant_state_validate g = None" for l
    using assms(3,4) that by (cases l) (auto simp: recorded_def)
qed (use assms in \<open>auto intro: spec_fail\<close>)

lemma spec_entails:
  assumes "\<And>w. P w \<Longrightarrow> b" "b \<Longrightarrow> spec P m Q X"
  shows "spec P m Q X"
proof (cases "\<exists>w. P w")
  case True
  then show ?thesis
    using assms by blast
qed (simp add: spec_def)

section \<open>Receipts come from the panel\<close>

lemma keeps_honest_save:
  assumes "\<And>c. gs_Receipt g = Some c \<Longrightarrow> c \<in> K"
  shows "keeps (honest K) (saveHostSelfUpdateGrantState g)"
  unfolding keeps_def
  by (rule grant_record.spec_save)
    (use assms in \<open>auto simp: honest_def receipts_def recorded_def holds_def\<close>)

lemma keeps_honest_loaded:
  assumes "keeps (honest K) (k None)"
    and "\<And>g. (\<And>c. gs_Receipt g = Some c \<Longrightarrow> c \<in> K) \<Longrightarrow> keeps (honest K) (k (Some g))"
  shows "keeps (honest K) (bindP loadHostSelfUpdateGrantState k)"
  unfolding keeps_def
proof (rule spec_loaded)
  show "spec (\<lambda>w. honest K w \<and> w_grant w = NoFile) (k None) (\<lambda>_. honest K) (honest K)"
    by (rule spec_pre [OF keeps_spec [OF assms(1)]]) simp
  show "spec (\<lambda>w. honest K w \<and> recorded g w) (k (Some g)) (\<lambda>_. honest K) (honest K)" for g
    by (rule spec_entails [where b = "\<forall>c. gs_Receipt g = Some c \<longrightarrow> c \<in> K"])
      (auto intro: honest_recorded intro!: spec_pre [OF keeps_spec [OF assms(2)]])
qed auto

lemma keeps_honest_remove: "keeps (honest K) removeHostSelfUpdateGrantState"
  unfolding removeHostSelfUpdateGrantState_def
  by (auto intro!: keep keeps_effect keeps_honest [OF preserves_return] keeps_honest [OF preserves_syscall] simp: honest_def receipts_def recorded_def holds_def
      split: disk_file.splits option.splits)

lemma keeps_honest_clean: "keeps (honest K) (cleanFailedHostSelfUpdateGrant s)"
proof -
  have "keeps (honest K) (bindP loadHostSelfUpdateGrantState (\<lambda>loaded. case loaded of
        None \<Rightarrow> returnP ()
      | Some grant \<Rightarrow>
          if \<not> failedHostSelfUpdateStateMatchesStageGrant s (Some grant) then returnP ()
          else if gs_Phase grant = GrantFailed then returnP ()
          else saveHostSelfUpdateGrantState (grant\<lparr>gs_Phase := GrantFailed, gs_Receipt := None\<rparr>)))"
    by (rule keeps_honest_loaded) (auto intro!: keeps_honest_save)
  then show ?thesis
    unfolding cleanFailedHostSelfUpdateGrant_def by (auto intro!: keep)
qed

lemma saveState_authority [frame]: "preserves w_grant (saveState s)" "preserves charter (saveState s)"
  unfolding saveState_def by (auto intro!: frame split: option.splits simp: script_free_def charter_def)

lemma load_authority [frame]:
  "preserves w_grant (loadState rt c)" "preserves charter (loadState rt c)" "preserves w_grant (mutationStatus rt)"
proof -
  show load: "preserves w_grant (loadState rt c)" "preserves charter (loadState rt c)" for c
    unfolding loadState_def by (auto intro!: frame simp: Let_def)
  show "preserves w_grant (mutationStatus rt)"
    unfolding mutationStatus_def statusWithGrantRecovery_def
    by (auto intro!: frame load simp: Let_def)
qed

lemma keeps_honest_recover: "keeps (honest K) (recoverDurableHostSelfUpdateGrant rt s)"
  unfolding recoverDurableHostSelfUpdateGrant_def
proof (rule keeps_honest_loaded, unfold option.case)
  note keeping = keeps_if keeps_honest [OF link_frames(3)] keeps_honest [OF saveState_authority(2)]
    keeps_honest_clean keeps_honest_remove
  fix g :: hostSelfUpdateGrantState assume receipt: "\<And>c. gs_Receipt g = Some c \<Longrightarrow> c \<in> K"
  have mark: "keeps (honest K) (markDurableHostSelfUpdateGrantApplied g)"
    unfolding markDurableHostSelfUpdateGrantApplied_def
    by (intro keep keeping keeps_honest_save) (simp add: receipt)
  have "keeps (honest K) (recover_stage_grant rt s g)" "keeps (honest K) (recover_reconcile_grant rt s g)"
    unfolding recover_stage_grant_def recover_reconcile_grant_def Let_def
    by (intro keep keeping mark; simp)+
  then show "keeps (honest K) (if failedHostSelfUpdateStateMatchesStageGrant s (Some g)
         then thenP (cleanFailedHostSelfUpdateGrant s) (returnP s)
         else if gs_Phase g = GrantApplied
         then bindP (hostSelfUpdateStateEffectMatchesGrant rt s (gs_Binding g)) (\<lambda>effect. if effect then returnP s
           else failP (NewErr ''applied host self-update grant contradicts runtime state''))
         else if gb_Operation (gs_Binding g) = ''stage'' then recover_stage_grant rt s g
         else if gb_Operation (gs_Binding g) = ''reconcile'' then recover_reconcile_grant rt s g
         else failP (NewErr ''durable host self-update grant contradicts runtime state''))"
    by (intro keep keeping) simp_all
qed simp

lemma keeps_honest_status: "keeps (honest K) (status rt)"
proof -
  note reads = keeps_honest [OF link_frames(1)] keeps_honest [OF load_authority(2)] keeps_honest_recover
  show ?thesis
    unfolding status_def statusWithGrantRecovery_def if_True Let_def
    by (auto intro!: keep reads)
qed

lemma keeps_honest_prepare: "keeps (honest K) (prepare rt)"
  unfolding prepare_def
  by (auto intro!: keep keeps_honest pinned_authority(2) [OF recover_frame] frame simp: charter_def script_free_def)

section \<open>Authorization consumes\<close>

lemma new_grant [simp]:
  "grant_matches (newHostSelfUpdateGrantState a) a" "gs_Receipt (newHostSelfUpdateGrantState a) = None"
  by (simp_all add: grant_matches_def newHostSelfUpdateGrantState_def sameBinding_refl)

lemma grant_matches_phase [simp]:
  "grant_matches (g\<lparr>gs_Phase := p\<rparr>) a = grant_matches g a"
  "grant_matches (g\<lparr>gs_Phase := p, gs_Receipt := r\<rparr>) a = grant_matches g a"
  by (simp_all add: grant_matches_def)

lemma spec_any: "spec (\<lambda>_. True) m (\<lambda>_ _. True) (\<lambda>_. True)"
  by (simp add: spec_def split: prod.splits outcome.splits)

lemma spec_weak: "spec P m Q X \<Longrightarrow> spec P m Q (\<lambda>_. True)"
  by (erule spec_conseq) auto

lemma spec_panel_answer:
  "spec (honest K) (consumeHostSelfUpdateGrant rt url a) (\<lambda>x w. honest K w \<and> cr_Grant x \<in> K) (honest K)"
proof -
  have pop: "spec (honest K) (popP w_panel (\<lambda>answers. w_panel_update (\<lambda>_. answers)))
      (\<lambda>x w. honest K w \<and> (\<forall>y. x = Inr y \<longrightarrow> cr_Grant y \<in> K)) (honest K)"
    by (auto simp: spec_def popP_def honest_def receipts_def recorded_def split: list.splits)
  have read: "spec (\<lambda>w. honest K w \<and> (\<forall>y. x = Inr y \<longrightarrow> cr_Grant y \<in> K)) (resultP x)
      (\<lambda>y w. honest K w \<and> cr_Grant y \<in> K) (honest K)" for x
    by (rule spec_pure, rule spec_result) auto
  have check: "spec (honest K) (checkP v) (\<lambda>_. honest K) (honest K)" for v
    by (rule spec_check) auto
  show ?thesis
    unfolding consumeHostSelfUpdateGrant_def
    by (intro spec_if spec_fail spec_then [OF check] spec_bind [OF pop] spec_bind [OF read] spec_return) auto
qed

lemma spec_save_consumed:
  assumes "grant_matches g a" "c \<in> K"
  shows "spec P (saveHostSelfUpdateGrantState (g\<lparr>gs_Phase := GrantConsumed, gs_Receipt := Some c\<rparr>))
    (\<lambda>_. consumed_for K a) (\<lambda>_. True)"
proof -
  let ?g = "g\<lparr>gs_Phase := GrantConsumed, gs_Receipt := Some c\<rparr>"
  have "spec (\<lambda>_. True) (saveHostSelfUpdateGrantState ?g) (\<lambda>_. consumed_for K a) (\<lambda>_. True)"
  proof (rule grant_record.spec_save)
    fix w m assume "grant_state_validate ?g = None"
    then have "binding_validate c True = None" "sameHostSelfUpdateGrantBinding c (gs_Binding g)"
      by (auto simp: grant_state_validate_def split: if_splits)
    with assms show "consumed_for K a (w_grant_update (\<lambda>_. DiskFile m (Decodes ?g)) w)"
      by (auto simp: consumed_for_def recorded_def holds_def)
  qed auto
  then show ?thesis
    by (rule spec_pre) simp
qed

lemma spec_consume:
  assumes "grant_matches g a" "gs_Receipt g = None"
  shows "spec (honest K) (consume_and_record rt url a g) (\<lambda>_. consumed_for K a) (\<lambda>_. True)"
proof -
  let ?R = "\<lambda>x w. honest K w \<and> cr_Grant x \<in> K"
  have saved: "spec (honest K) (saveHostSelfUpdateGrantState g) (\<lambda>_. honest K) (\<lambda>_. True)"
    by (rule spec_weak [OF keeps_spec [OF keeps_honest_save]]) (simp add: assms(2))
  have again: "spec (honest K) (tryP syscallP h (\<lambda>_. mapErrP f (consumeHostSelfUpdateGrant rt url a))) ?R (honest K)"
    if "\<And>e. spec (honest K) (h e) ?R (honest K)" for h f
    by (intro spec_try [OF keeps_spec [OF keeps_honest [OF preserves_syscall]]] spec_mapErr spec_panel_answer that) simp
  have answered: "spec (honest K) (tryP (consumeHostSelfUpdateGrant rt url a)
         (\<lambda>_. tryP syscallP (\<lambda>_. failP errHostSelfUpdateGrantUncertain)
            (\<lambda>_. mapErrP (\<lambda>_. errHostSelfUpdateGrantUncertain) (consumeHostSelfUpdateGrant rt url a)))
         returnP) ?R (\<lambda>_. True)"
    by (rule spec_weak [where X = "honest K"], rule spec_try [OF spec_panel_answer]) (auto intro!: again spec_fail spec_return)
  show ?thesis
    unfolding consume_and_record_def
    by (intro spec_then [OF saved] spec_bind [OF answered] spec_pure spec_if spec_fail spec_save_consumed assms(1)) auto
qed

text \<open>The record of this authorization, if there is one, is not that of a failed attempt.\<close>

definition not_failed :: "HostSelfUpdateGrantAuthorization \<Rightarrow> su_world \<Rightarrow> bool" where
  "not_failed a w \<longleftrightarrow> (\<forall>g. recorded g w \<longrightarrow> grant_matches g a \<longrightarrow> gs_Phase g \<noteq> GrantFailed)"

lemma prepared_receipt: "grant_state_validate g = None \<Longrightarrow> \<not> grant_phase_done (gs_Phase g) \<Longrightarrow> gs_Receipt g = None"
  by (auto simp: grant_state_validate_def grant_phase_done_def split: if_splits)

lemma done_consumed:
  assumes "grant_state_validate g = None" "recorded g w" "grant_matches g a" "grant_phase_done (gs_Phase g)"
    and "not_failed a w" "honest K w"
  shows "consumed_for K a w"
proof -
  have phase: "gs_Phase g = GrantConsumed \<or> gs_Phase g = GrantApplied"
    using assms(2-5) by (auto simp: grant_phase_done_def not_failed_def)
  then obtain c where "gs_Receipt g = Some c" "binding_validate c True = None" "sameHostSelfUpdateGrantBinding c (gs_Binding g)"
    using assms(1) by (auto simp: grant_state_validate_def split: if_splits option.splits)
  with phase assms(2,3,6) honest_recorded show ?thesis
    unfolding consumed_for_def by blast
qed

lemma spec_authorize:
  "spec (\<lambda>w. honest K w \<and> not_failed a w) (authorizeHostSelfUpdate rt url a) (\<lambda>_. consumed_for K a) (\<lambda>_. True)"
  unfolding authorizeHostSelfUpdate_def
proof (rule spec_loaded, unfold option.case)
  let ?P = "\<lambda>w. honest K w \<and> not_failed a w"
  note fresh = spec_consume [OF new_grant, of K rt url]
  show "?P (w\<lparr>script := fs\<rparr>)" if "?P w" for w fs
    using that by (simp add: not_failed_def)
  show "spec (\<lambda>w. ?P w \<and> w_grant w = NoFile) (consume_and_record rt url a (newHostSelfUpdateGrantState a))
      (\<lambda>_. consumed_for K a) (\<lambda>_. True)"
    by (rule spec_pre [OF fresh]) simp
  fix g :: hostSelfUpdateGrantState assume valid: "grant_state_validate g = None"
  have same: "spec (\<lambda>w. ?P w \<and> recorded g w)
      (if grant_phase_done (gs_Phase g) then returnP () else consume_and_record rt url a g)
      (\<lambda>_. consumed_for K a) (\<lambda>_. True)" if "grant_matches g a"
    using valid that done_consumed [OF valid _ that]
    by (auto intro!: spec_return spec_pre [OF spec_consume] prepared_receipt)
  have clock: "spec (honest K) (if b then bindP nowP (\<lambda>now. returnP (f now)) else returnP False) (\<lambda>_. honest K) (\<lambda>_. True)" for b f
  proof -
    have "preserves charter nowP"
      by (auto simp: preserves_def nowP_def charter_def split: list.splits)
    then show ?thesis
      by (intro spec_weak [OF keeps_spec] keep keeps_if keeps_honest)
  qed
  have other: "spec (\<lambda>w. ?P w \<and> recorded g w) (bindP
           (if gs_Phase g = GrantPrepared
            then bindP nowP (\<lambda>now. returnP (time_Before (time_UTC now) (gb_ExpiresAt (gs_Binding g))))
            else returnP False)
           (\<lambda>live.
             if live
             then failP (NewErr ''another host self-update grant consume result is uncertain'')
             else if gs_Phase g = GrantConsumed
             then failP (NewErr ''a consumed host self-update grant is not durably applied'')
             else consume_and_record rt url a (newHostSelfUpdateGrantState a)))
      (\<lambda>_. consumed_for K a) (\<lambda>_. True)"
    by (rule spec_pre [where P = "honest K"]) (intro spec_bind [OF clock] spec_if spec_fail fresh, auto)
  show "spec (\<lambda>w. ?P w \<and> recorded g w)
      (if grant_matches g a
       then (if grant_phase_done (gs_Phase g) then returnP () else consume_and_record rt url a g)
       else bindP
           (if gs_Phase g = GrantPrepared
            then bindP nowP (\<lambda>now. returnP (time_Before (time_UTC now) (gb_ExpiresAt (gs_Binding g))))
            else returnP False)
           (\<lambda>live.
             if live
             then failP (NewErr ''another host self-update grant consume result is uncertain'')
             else if gs_Phase g = GrantConsumed
             then failP (NewErr ''a consumed host self-update grant is not durably applied'')
             else consume_and_record rt url a (newHostSelfUpdateGrantState a)))
      (\<lambda>_. consumed_for K a) (\<lambda>_. True)"
    by (intro spec_if same other)
qed auto

section \<open>The receipt stays while an update is under way\<close>

lemma stage_grant_frame [frame]: "preserves w_grant (stage rt request)"
proof -
  have "preserves w_grant (stage_release rt current request release)" for current release
    unfolding stage_release_def
    by (auto intro!: frame pinned_authority(1) [OF stage_frames] pinned_authority(1) [OF recover_frame]
        simp: script_free_def)
  then show ?thesis
    unfolding stage_def by (auto intro!: frame simp: Let_def script_free_def)
qed

lemma keeps_resave:
  assumes "\<And>c. gs_Receipt g = Some c \<Longrightarrow> gs_Receipt g' = Some c" "gs_Binding g' = gs_Binding g"
    and "gs_Phase g' = GrantConsumed \<or> gs_Phase g' = GrantApplied" "gs_TokenSHA256 g' = gs_TokenSHA256 g"
  shows "spec (\<lambda>w. consumed_for K a w \<and> recorded g w) (saveHostSelfUpdateGrantState g')
     (\<lambda>_. consumed_for K a) (consumed_for K a)"
proof (rule grant_record.spec_save)
  fix w m assume w: "consumed_for K a w \<and> recorded g w"
  then obtain c where "grant_matches g a" "gs_Receipt g = Some c" "c \<in> K" "binding_validate c True = None"
    "sameHostSelfUpdateGrantBinding c (gs_Binding g)"
    by (auto simp: consumed_for_def dest: recorded_unique)
  with assms show "consumed_for K a (w_grant_update (\<lambda>_. DiskFile m (Decodes g')) w)"
    by (auto simp: consumed_for_def recorded_def grant_matches_def intro!: exI [of _ g'] holds_unique(3))
qed auto

lemma keeps_loaded:
  assumes "\<And>g. spec (\<lambda>w. consumed_for K a w \<and> recorded g w) (k (Some g)) (\<lambda>_. consumed_for K a) (consumed_for K a)"
  shows "keeps (consumed_for K a) (bindP loadHostSelfUpdateGrantState k)"
  unfolding keeps_def
proof (rule spec_loaded)
  show "spec (\<lambda>w. consumed_for K a w \<and> w_grant w = NoFile) (k None) (\<lambda>_. consumed_for K a) (consumed_for K a)"
    by (rule spec_vacuous) (auto simp: consumed_for_def recorded_def holds_unique)
qed (use assms in auto)

lemma spec_weaken_grant:
  "keeps (consumed_for K a) m \<Longrightarrow>
     spec (\<lambda>w. consumed_for K a w \<and> recorded g w) m (\<lambda>_. consumed_for K a) (consumed_for K a)"
  by (rule spec_pre [OF keeps_spec]) auto

lemma keeps_mark_applied [keep]: "keeps (consumed_for K a) (markHostSelfUpdateGrantApplied b)"
  unfolding markHostSelfUpdateGrantApplied_def
proof (rule keeps_loaded)
  fix g
  show "spec (\<lambda>w. consumed_for K a w \<and> recorded g w) (case Some g of
       None \<Rightarrow> failP (NewErr ''host self-update grant apply fence is unavailable'')
     | Some state \<Rightarrow>
         if \<not> grant_matches state b
         then failP (NewErr ''host self-update grant apply fence is unavailable'')
         else if gs_Phase state = GrantApplied then returnP ()
         else if gs_Phase state \<noteq> GrantConsumed
         then failP (NewErr ''host self-update grant was not consumed'')
         else saveHostSelfUpdateGrantState (state\<lparr>gs_Phase := GrantApplied\<rparr>))
     (\<lambda>_. consumed_for K a) (consumed_for K a)"
    by (auto intro!: spec_if spec_fail spec_return keeps_resave)
qed

text \<open>Recovery leaves the record of a consumed grant alone unless the state is stable.\<close>

lemma keeps_recoverDurable:
  assumes "su_Phase s \<noteq> PhaseStable"
  shows "keeps (consumed_for K a) (recoverDurableHostSelfUpdateGrant rt s)"
  unfolding recoverDurableHostSelfUpdateGrant_def
proof (rule keeps_loaded, unfold option.case)
  fix g :: hostSelfUpdateGrantState
  let ?C = "consumed_for K a" and ?E = "hostSelfUpdateStateEffectMatchesGrant rt s (gs_Binding g)"
  let ?P = "\<lambda>w. ?C w \<and> recorded g w"
  have effect: "spec ?P (if b then ?E else returnP False) (\<lambda>_. ?P) ?C" for b
  proof -
    have "keeps ?P ?E"
      by (rule preserves_keeps [OF link_frames(3) [where f = charter]])
        (auto simp: consumed_for_def recorded_def charter_def)
    then show ?thesis
      by (intro spec_conseq [OF keeps_spec [OF keeps_if [OF _ keeps_return]], where P' = ?P]) auto
  qed
  have mark: "spec ?P (thenP (markDurableHostSelfUpdateGrantApplied g) (returnP s)) (\<lambda>_. ?C) ?C"
    unfolding markDurableHostSelfUpdateGrantApplied_def
    by (intro spec_then [where R = ?C] spec_if spec_fail spec_return keeps_resave) auto
  have failing: "spec ?P (failP e) (\<lambda>_. ?C) ?C" for e :: go_error
    by (rule spec_fail) simp
  have removed: "spec ?P (thenP removeHostSelfUpdateGrantState (returnP s)) (\<lambda>_. ?C) ?C"
    if "gs_Phase g = GrantPrepared"
    by (rule spec_vacuous) (use that in \<open>auto simp: consumed_for_def dest: recorded_unique\<close>)
  have stage: "spec ?P (recover_stage_grant rt s g) (\<lambda>_. ?C) ?C"
    unfolding recover_stage_grant_def using assms by (intro spec_bind [OF effect]) (auto intro: mark failing)
  have reconcile: "spec ?P (recover_reconcile_grant rt s g) (\<lambda>_. ?C) ?C"
    unfolding recover_reconcile_grant_def
    by (rule spec_if, erule removed, intro spec_bind [OF effect] spec_if mark failing)
  have applied: "spec ?P (bindP ?E (\<lambda>effect. if effect then returnP s else failP e)) (\<lambda>_. ?C) ?C" for e
    by (rule spec_weaken_grant) (auto intro!: keep keeps_grant frame simp: script_free_def)
  have other: "\<not> failedHostSelfUpdateStateMatchesStageGrant s (Some g)"
    using assms by (simp add: failedHostSelfUpdateStateMatchesStageGrant_def)
  show "spec ?P (if failedHostSelfUpdateStateMatchesStageGrant s (Some g)
         then thenP (cleanFailedHostSelfUpdateGrant s) (returnP s)
         else if gs_Phase g = GrantApplied
         then bindP ?E (\<lambda>effect. if effect then returnP s
           else failP (NewErr ''applied host self-update grant contradicts runtime state''))
         else if gb_Operation (gs_Binding g) = ''stage'' then recover_stage_grant rt s g
         else if gb_Operation (gs_Binding g) = ''reconcile'' then recover_reconcile_grant rt s g
         else failP (NewErr ''durable host self-update grant contradicts runtime state'')) (\<lambda>_. ?C) ?C"
    unfolding if_not_P [OF other] by (intro spec_if applied stage reconcile failing)
qed

section \<open>Nothing is staged without a consumed grant\<close>

text \<open>No update is under way in the durable state.\<close>

definition unstaged :: "su_world \<Rightarrow> bool" where
  "unstaged w \<longleftrightarrow> (\<forall>s. holds s (w_state w) \<longrightarrow> su_Phase s = PhaseStable)"

lemma unstaged_disk [simp]: "disk_pred unstaged"
  by (auto simp: disk_pred_def unstaged_def disk_def)

lemma unstaged_script [simp]: "unstaged (w\<lparr>script := fs\<rparr>) = unstaged w"
  by (simp add: unstaged_def)

lemma keeps_unstaged: "preserves disk m \<Longrightarrow> keeps unstaged m"
  by (rule keeps_pred) simp_all

lemma keeps_unstaged_pinned: "preserves pinned m \<Longrightarrow> keeps unstaged m"
  by (rule preserves_keeps) (auto simp: unstaged_def pinned_def)

lemma keeps_unstaged_save: "su_Phase s = PhaseStable \<Longrightarrow> keeps unstaged (saveState s)"
  unfolding keeps_def
  by (rule state_record.spec_save) (auto simp: unstaged_def holds_def)

lemma new_state_stable: "NewHostSelfUpdateState v e = Inr s \<Longrightarrow> su_Phase s = PhaseStable"
  by (auto simp: NewHostSelfUpdateState_def split: if_splits)

lemma spec_loadState_unstaged:
  "spec unstaged (loadState rt c) (\<lambda>s w. unstaged w \<and> su_Phase s = PhaseStable) unstaged"
proof -
  let ?Q = "\<lambda>s w. unstaged w \<and> su_Phase s = PhaseStable"
  have fresh: "spec (\<lambda>w. unstaged w \<and> su_Phase s = PhaseStable) (let s' = s\<lparr>su_ActiveSlot := c, su_HealthySlot := c\<rparr>
      in thenP (saveState s') (returnP s')) ?Q unstaged" for s
    unfolding Let_def
    by (rule spec_pure) (auto intro!: spec_then [OF keeps_spec [OF keeps_unstaged_save]] spec_return)
  have new: "spec unstaged (bindP (resultP (NewHostSelfUpdateState v v))
      (\<lambda>s. let s' = s\<lparr>su_ActiveSlot := c, su_HealthySlot := c\<rparr> in thenP (saveState s') (returnP s'))) ?Q unstaged" for v
    by (rule spec_bind [OF spec_result fresh]) (auto dest: new_state_stable)
  have bound: "spec unstaged (bindP (hostSelfUpdateSlotHasBinding c) k) ?Q unstaged"
    if "\<And>b. spec unstaged (k b) ?Q unstaged" for k
    by (rule spec_bind [OF keeps_spec [OF keeps_unstaged]]) (auto intro!: frame that)
  show ?thesis
    unfolding loadState_def
  proof (rule spec_try_load)
    show "unstaged w'" if "disk w = disk w'" "unstaged w" for w w'
      using that by (simp add: unstaged_def disk_def)
    show "spec (\<lambda>w. unstaged w \<and> stored s w) (returnP s) ?Q unstaged" for s
      by (rule spec_return) (auto simp: unstaged_def stored_def holds_def)
    show "spec (\<lambda>w. unstaged w \<and> w_state w = NoFile)
       (if \<not> errors_Is e NotExist then failP e
         else if c \<noteq> SlotA
         then failP (NewErr ''host self-update state is unavailable for a non-bootstrap slot'')
         else bindP (hostSelfUpdateSlotHasBinding c) (\<lambda>hasBinding.
           if hasBinding then failP (NewErr ''host self-update state is unavailable for a bound slot'')
           else bindP (resultP (NewHostSelfUpdateState (rt_executorVersion rt) (rt_executorVersion rt)))
             (\<lambda>state. let state = state\<lparr>su_ActiveSlot := c, su_HealthySlot := c\<rparr>
               in thenP (saveState state) (returnP state)))) ?Q unstaged" for e
      by (rule spec_pre [where P = unstaged]) (intro spec_if spec_fail bound new, auto)
  qed (auto intro: spec_fail)
qed

lemma keeps_unstaged_recover:
  assumes stable: "su_Phase s = PhaseStable"
  shows "keeps unstaged (recoverDurableHostSelfUpdateGrant rt s)"
proof -
  note keeping = keeps_if keeps_unstaged_save keeps_unstaged [OF link_frames(3)]
    keeps_unstaged [OF consume_frames(5)] keeps_unstaged [OF consume_frames(6)]
    keeps_unstaged [OF grant_frames(2)] keeps_unstaged [OF read_frames(2)]
  have "keeps unstaged (recover_stage_grant rt s g)" "keeps unstaged (recover_reconcile_grant rt s g)" for g
    unfolding recover_stage_grant_def recover_reconcile_grant_def Let_def
    by (intro keep keeping; simp add: stable)+
  then show ?thesis
    unfolding recoverDurableHostSelfUpdateGrant_def by (auto intro!: keep keeping)
qed

lemma keeps_unstaged_status: "keeps unstaged (status rt)"
proof -
  have recover: "spec (\<lambda>w. unstaged w \<and> su_Phase s = PhaseStable) (recoverDurableHostSelfUpdateGrant rt s)
     (\<lambda>_. unstaged) unstaged" for s
    by (rule spec_pure) (rule keeps_spec [OF keeps_unstaged_recover])
  show ?thesis
    unfolding status_def statusWithGrantRecovery_def if_True Let_def keeps_def
    by (intro spec_bind [OF keeps_spec [OF keeps_unstaged [OF link_frames(1)]]]
        spec_bind [OF spec_loadState_unstaged] spec_bind [OF recover] keeps_spec keep) simp_all
qed

lemma keeps_unstaged_prepare: "keeps unstaged (prepare rt)"
  unfolding prepare_def
  by (auto intro!: keep keeps_unstaged_pinned [OF recover_frame] keeps_unstaged [OF roots_frames])

lemma keeps_unstaged_failClosed: "keeps unstaged (failClosedUncertainStage current request a)"
proof (cases "uncertain_binding_mismatch current request a")
  case False
  then have "su_Phase (st_State current) = PhaseStable"
    by (simp add: uncertain_binding_mismatch_def Let_def)
  then show ?thesis
    unfolding failClosedUncertainStage_def Let_def
    by (intro keep keeps_if keeps_unstaged_save keeps_unstaged [OF read_frames(2)]
        keeps_unstaged [OF consume_frames(5)]) simp_all
qed (simp add: failClosedUncertainStage_def)

lemma spec_both:
  "spec P m Q X \<Longrightarrow> spec P' m Q' X' \<Longrightarrow>
     spec (\<lambda>w. P w \<and> P' w) m (\<lambda>x w. Q x w \<and> Q' x w) (\<lambda>w. X w \<and> X' w)"
  unfolding spec_def by (fastforce split: prod.splits outcome.splits)


text \<open>What \<open>loadState\<close> returns is what the state file holds.\<close>

lemma spec_loadState_stored: "spec (\<lambda>_. True) (loadState rt c) (\<lambda>s w. holds s (w_state w)) (\<lambda>_. True)"
proof -
  have saved: "spec (\<lambda>_. True) (let s' = f s in thenP (saveState s') (returnP s')) (\<lambda>s w. holds s (w_state w)) (\<lambda>_. True)" for s f
    unfolding Let_def
    by (rule spec_then [OF state_record.spec_save [where N = "\<lambda>w. holds (f s) (w_state w)"]])
      (auto intro!: spec_return simp: holds_def)
  show ?thesis
    unfolding loadState_def
  proof (rule spec_try_load)
    show "spec (\<lambda>w. True \<and> stored s w) (returnP s) (\<lambda>s w. holds s (w_state w)) (\<lambda>_. True)" for s
      by (rule spec_return) (auto simp: stored_def holds_def)
    show "spec (\<lambda>w. True \<and> w_state w = NoFile)
       (if \<not> errors_Is e NotExist then failP e
         else if c \<noteq> SlotA
         then failP (NewErr ''host self-update state is unavailable for a non-bootstrap slot'')
         else bindP (hostSelfUpdateSlotHasBinding c) (\<lambda>hasBinding.
           if hasBinding then failP (NewErr ''host self-update state is unavailable for a bound slot'')
           else bindP (resultP (NewHostSelfUpdateState (rt_executorVersion rt) (rt_executorVersion rt)))
             (\<lambda>state. let state = state\<lparr>su_ActiveSlot := c, su_HealthySlot := c\<rparr>
               in thenP (saveState state) (returnP state)))) (\<lambda>s w. holds s (w_state w)) (\<lambda>_. True)" for e
      by (rule spec_pre [where P = "\<lambda>_. True"])
        (intro spec_if spec_fail spec_bind [OF spec_any] saved, auto)
  qed (auto intro: spec_fail)
qed

section \<open>Staging\<close>

text \<open>\<open>covered K a\<close>: no update is under way, or the receipt for \<open>a\<close> is durable.\<close>

definition covered :: "HostSelfUpdateGrantBinding set \<Rightarrow> HostSelfUpdateGrantAuthorization \<Rightarrow> su_world \<Rightarrow> bool" where
  "covered K a w \<longleftrightarrow> unstaged w \<or> consumed_for K a w"

lemma keeps_covered:
  assumes "preserves disk m" "preserves w_grant m"
  shows "keeps (covered K a) m"
proof (rule keepsI)
  fix w assume "covered K a w"
  then show "covered K a (snd (m w))"
    using preservesD [OF assms(1), of w] preservesD [OF assms(2), of w]
    by (auto simp: covered_def unstaged_def consumed_for_def recorded_def disk_def)
qed

lemma spec_covered: "keeps (consumed_for K a) m \<Longrightarrow> spec (consumed_for K a) m (\<lambda>_. consumed_for K a) (covered K a)"
  by (erule spec_conseq [OF keeps_spec]) (auto simp: covered_def)

lemma spec_status_covered: "spec (consumed_for K a) (status rt) (\<lambda>_. covered K a) (covered K a)"
proof -
  let ?C = "consumed_for K a" and ?J = "covered K a"
  have load: "spec ?C (loadState rt c) (\<lambda>s w. ?C w \<and> holds s (w_state w)) ?J" for c
    by (rule spec_conseq [OF spec_both [OF keeps_spec [OF keeps_grant [OF load_authority(1)]] spec_loadState_stored]])
      (auto simp: covered_def)
  have recover: "spec (\<lambda>w. ?C w \<and> holds s (w_state w)) (recoverDurableHostSelfUpdateGrant rt s) (\<lambda>_. ?J) ?J" for s
  proof (cases "su_Phase s = PhaseStable")
    case True
    show ?thesis
      by (rule spec_conseq [OF keeps_spec [OF keeps_unstaged_recover [OF True]]])
        (use True in \<open>auto simp: covered_def unstaged_def dest: holds_unique(1)\<close>)
  next
    case False
    show ?thesis
      by (rule spec_conseq [OF keeps_spec [OF keeps_recoverDurable [OF False]]]) (auto simp: covered_def)
  qed
  show ?thesis
    unfolding status_def statusWithGrantRecovery_def if_True Let_def
    by (intro spec_bind [OF spec_covered [OF keeps_grant [OF link_frames(1)]]] spec_bind [OF load]
        spec_bind [OF recover] keeps_spec keep) (simp_all add: script_free_def)
qed

lemma spec_stage_or_converge:
  "spec (consumed_for K a) (stage_or_converge rt request b) (\<lambda>_. covered K a) (covered K a)"
proof -
  let ?C = "consumed_for K a" and ?J = "covered K a"
  have prepared: "keeps ?C (prepare rt)"
    unfolding prepare_def
    by (auto intro!: keep keeps_grant pinned_authority(1) [OF recover_frame] frame simp: script_free_def)
  note reads = keeps_covered [OF link_frames(4) link_frames(4)] keeps_covered [OF link_frames(3) link_frames(3)]
  have "spec ?C (convergeHostSelfUpdateStageAfterError rt request b) (\<lambda>_. ?J) ?J"
    unfolding convergeHostSelfUpdateStageAfterError_def
    by (intro spec_then [OF spec_covered [OF keeps_mapErr [OF prepared]]] spec_bind [OF spec_mapErr [OF spec_status_covered]]
        keeps_spec) (auto intro!: keep reads simp: script_free_def split: prod.splits)
  note converge = this
  show ?thesis
    unfolding stage_or_converge_def
    by (rule spec_try [OF keeps_spec [OF keeps_grant [OF stage_grant_frame]]])
      (auto intro!: spec_try [OF converge] spec_then [OF spec_covered] keep spec_fail spec_return
        simp: covered_def split: prod.splits)
qed

definition staged_by :: "HostSelfUpdateGrantBinding set \<Rightarrow> LocalExecutorPolicy \<Rightarrow> LocalExecutorRequest \<Rightarrow>
    HostSelfUpdateRequest \<Rightarrow> HostSelfUpdateGrantAuthorization \<Rightarrow> su_world \<Rightarrow> bool" where
  "staged_by K policy r request a w \<longleftrightarrow> consumed_for K a w \<and>
     validateHostSelfUpdateGrantReplayBinding policy (request_fence r) ''stage'' (Some request) None a = None"

text \<open>Before the authorization: no update under way and all receipts known.\<close>

definition idle :: "HostSelfUpdateGrantBinding set \<Rightarrow> su_world \<Rightarrow> bool" where
  "idle K w \<longleftrightarrow> unstaged w \<and> honest K w"

lemma keeps_idle: "keeps unstaged m \<Longrightarrow> keeps (honest K) m \<Longrightarrow> keeps (idle K) m"
  unfolding keeps_def idle_def by (rule spec_both)

lemma keeps_idle_read: "preserves disk m \<Longrightarrow> preserves charter m \<Longrightarrow> keeps (idle K) m"
  by (intro keeps_idle keeps_unstaged keeps_honest)

lemma spec_authorized_stage_grant:
  "spec (\<lambda>w. idle K w \<and> not_failed a w) (authorized_stage rt url current request a)
     (\<lambda>_. covered K a) (covered K a)"
proof -
  let ?C = "consumed_for K a" and ?J = "covered K a" and ?I = "\<lambda>w. idle K w \<and> not_failed a w"
  have auth: "spec ?I (authorizeHostSelfUpdate rt url a) (\<lambda>_. ?C) unstaged"
    by (rule spec_conseq [OF spec_both [OF spec_authorize keeps_spec [OF keeps_unstaged [OF consume_frames(3)]]]])
      (auto simp: idle_def)
  have replay: "keeps ?C (replay_applied rt current a m)" for m
    unfolding replay_applied_def
    by (intro keep keeps_if keeps_grant [OF link_frames(3)]) (simp add: script_free_def)
  have after: "spec ?C (bindP (hostSelfUpdateGrantApplied a) (\<lambda>applied.
      if applied then replay_applied rt current a m else stage_or_converge rt request a)) (\<lambda>_. ?J) ?J" for m
    by (intro spec_bind [OF spec_covered [OF keeps_grant [OF link_frames(5)]]] spec_if spec_stage_or_converge
        spec_conseq [OF keeps_spec [OF replay]]) (auto simp: script_free_def covered_def)
  have "spec unstaged (bindP (failClosedUncertainStage current request a) (\<lambda>st. returnP (Inr st))) (\<lambda>_. ?J) ?J"
    by (rule spec_conseq [OF keeps_spec [OF keeps_bind [OF keeps_unstaged_failClosed]]]) (auto simp: covered_def)
  then show ?thesis
    unfolding authorized_stage_def
    by (intro spec_try [OF auth] spec_if spec_return after) (auto simp: covered_def)
qed

text \<open>A phase other than failed is reported only when the record is not that of a failed attempt.\<close>

lemma spec_phase:
  "spec (idle K) (hostSelfUpdateGrantPhase a)
     (\<lambda>r w. idle K w \<and> (\<not> (snd r \<and> fst r = GrantFailed) \<longrightarrow> not_failed a w)) (idle K)"
  unfolding hostSelfUpdateGrantPhase_def
proof (rule spec_loaded, unfold option.case)
  let ?Q = "\<lambda>r w. idle K w \<and> (\<not> (snd r \<and> fst r = GrantFailed) \<longrightarrow> not_failed a w)"
  show "spec (\<lambda>w. idle K w \<and> w_grant w = NoFile) (returnP ([], False)) ?Q (idle K)"
    by (rule spec_return) (auto simp: not_failed_def recorded_def holds_unique)
  show "spec (\<lambda>w. idle K w \<and> recorded g w)
      (if \<not> grant_matches g a then returnP ([], False) else returnP (gs_Phase g, True)) ?Q (idle K)" for g
    by (intro spec_if spec_return) (auto simp: not_failed_def dest: recorded_unique)
qed (auto simp: idle_def)

lemma spec_handle_stage_grant:
  "spec (idle K) (handle_stage rt policy url r request a)
     (\<lambda>_ w. unstaged w \<or> staged_by K policy r request a w) (\<lambda>w. unstaged w \<or> staged_by K policy r request a w)"
proof -
  let ?J = "\<lambda>w. unstaged w \<or> staged_by K policy r request a w"
  let ?I = "\<lambda>w. idle K w \<and> not_failed a w"
  have quiet: "spec P m (\<lambda>_. ?J) ?J" if "keeps unstaged m" "\<And>w. P w \<Longrightarrow> idle K w" for m :: "handled su_prog" and P
    by (rule spec_conseq [OF keeps_spec [OF that(1)]]) (auto simp: idle_def dest: that(2))
  have replay: "keeps unstaged (replay_applied rt current a msg)" for current msg
    by (rule keeps_unstaged [OF replay_frame])
  have marked: "keeps unstaged (thenP (markHostSelfUpdateGrantApplied a) (returnP x))" for x :: handled
    by (intro keep keeps_unstaged [OF consume_frames(4)])
  have effect: "spec ?I (if b then hostSelfUpdateStateEffectMatchesGrant rt s g else returnP False) (\<lambda>_. ?I) ?J" for b s g
  proof -
    have "keeps ?I (hostSelfUpdateStateEffectMatchesGrant rt s g)"
      by (rule preserves_keeps [OF link_frames(3) [where f = "\<lambda>w. (disk w, charter w)"]])
        (auto simp: idle_def not_failed_def unstaged_def honest_def receipts_def recorded_def disk_def charter_def script_free_def)
    then show ?thesis
      by (intro spec_conseq [OF keeps_spec [OF keeps_if [OF _ keeps_return]], where P' = ?I]) (auto simp: idle_def)
  qed
  have authorized: "spec ?I (authorized_stage rt url current request a) (\<lambda>_. ?J) ?J"
    if "validateHostSelfUpdateGrantReplayBinding policy (request_fence r) ''stage'' (Some request) None a = None"
    for current
    by (rule spec_conseq [OF spec_authorized_stage_grant]) (auto simp: staged_by_def covered_def that)
  have go: "spec ?I (bindP (if b then hostSelfUpdateStateEffectMatchesGrant rt s g else returnP False) (\<lambda>effect.
         if effect then thenP (markHostSelfUpdateGrantApplied a) (returnP (Inr current))
         else if c then returnP (Inl ''authorization_failed'')
         else authorized_stage rt url current request a)) (\<lambda>_. ?J) ?J"
    if "validateHostSelfUpdateGrantReplayBinding policy (request_fence r) ''stage'' (Some request) None a = None"
    for b s g current c
    by (intro spec_bind [OF effect] spec_if quiet [OF marked] quiet [OF keeps_return] authorized [OF that]) auto
  have phase: "spec (idle K) (hostSelfUpdateGrantPhase a)
     (\<lambda>x w. idle K w \<and> (\<not> (snd x \<and> fst x = GrantFailed) \<longrightarrow> not_failed a w)) ?J"
    by (rule spec_conseq [OF spec_phase]) (auto simp: idle_def)
  have observed: "spec (idle K) (status rt) (\<lambda>_. idle K) ?J"
    by (rule spec_conseq [OF keeps_spec [OF keeps_idle [OF keeps_unstaged_status keeps_honest_status]]]) (auto simp: idle_def)
  show ?thesis
    unfolding handle_stage_def
    by (intro spec_bind [OF observed] spec_if spec_prod spec_bind [OF phase]
        quiet [OF replay] quiet [OF keeps_fail] quiet [OF keeps_return] spec_pre [OF go]) (auto simp: idle_def)
qed

text \<open>
  C3: an update is staged only under a grant the panel has consumed. When no update is under way
  and the executor is asked to stage one, then afterwards, whatever call failed or wherever the
  process died, either still none is under way, or the grant of the request is bound to this
  policy, fence and release, and the durable record of this grant and its token is in the phase
  consumed or applied and holds a valid receipt of the same binding: one the panel answered
  with, or the one the record already held when the request came.
\<close>

theorem stage_needs_consumed_grant:
  assumes "unstaged w" "lr_Operation r = ''host_self_update_stage''"
    and "lr_HostSelfUpdate r = Some request" "lr_HostSelfUpdateGrant r = Some a"
  shows "unstaged (snd (handleLocalExecutorHostSelfUpdate rt policy r w)) \<or>
    staged_by (receipts w) policy r request a (snd (handleLocalExecutorHostSelfUpdate rt policy r w))"
proof -
  let ?K = "receipts w" let ?J = "\<lambda>v. unstaged v \<or> staged_by ?K policy r request a v"
  have "idle ?K w"
    using assms(1) by (simp add: idle_def honest_def)
  moreover have "spec (idle ?K) (handle_operation rt policy url r) (\<lambda>_. ?J) ?J" for url
    using spec_handle_stage_grant [of ?K rt policy url r request a] assms(2-4)
    by (simp add: handle_operation_def)
  moreover have "spec (idle ?K) (prepare rt) (\<lambda>_. idle ?K) ?J"
    by (rule spec_conseq [OF keeps_spec [OF keeps_idle [OF keeps_unstaged_prepare keeps_honest_prepare]]])
      (auto simp: idle_def)
  ultimately show ?thesis
    by (intro spec_keeps [OF handler_spec, of "idle ?K" rt ?J]) (auto simp: idle_def)
qed

section \<open>Samples\<close>

definition sample_receipt :: HostSelfUpdateGrantBinding where
  "sample_receipt = (sample_binding ''stage'')\<lparr>gb_ConsumedAt := Some sample_time, gb_StageClaimRevision := 3,
     gb_StageClaimedAt := Some sample_time\<rparr>"

definition sample_answers :: "fault list \<Rightarrow> su_world" where
  "sample_answers fs = (sample_world fs)\<lparr>w_panel := [Inr \<lparr>cr_Grant = sample_receipt, cr_Consumed = True\<rparr>]\<rparr>"

lemma sample_receipt_valid:
  "binding_validate sample_receipt True = None"
  "sameHostSelfUpdateGrantBinding sample_receipt (sample_binding ''stage'')"
proof -
  have "matchesRequest sample_release (binding_request sample_receipt)"
    using sample_release_matches [of "''stage''"] by (simp add: sample_receipt_def binding_request_def)
  then show "binding_validate sample_receipt True = None"
    unfolding binding_validate_def guards
    by (simp add: receipt_check_def) (auto simp: sample_receipt_def sample_binding_def sample_time_def time_defs wrap_int64_def
        HostSelfUpdateRecoveryProtocolVersion_def)
  show "sameHostSelfUpdateGrantBinding sample_receipt (sample_binding ''stage'')"
    by (simp add: sameHostSelfUpdateGrantBinding_def sample_receipt_def time_Equal_def)
qed

lemma sample_times_encode:
  "time_json sample_time \<noteq> None" "time_json (time_Add sample_time (5 * time_Minute)) \<noteq> None"
  "time_json zero_time \<noteq> None" "time_json (rel_PublishedAt sample_release) \<noteq> None"
  by code_simp+

lemma sample_payload:
  assumes "gs_Binding g = sample_binding ''stage''" "gs_Receipt g = None \<or> gs_Receipt g = Some sample_receipt"
  shows "\<exists>p. grant_payload g = Some p"
proof -
  have "binding_json (sample_binding ''stage'') \<noteq> None" "binding_json sample_receipt \<noteq> None"
    using sample_times_encode
    by (auto simp: binding_json_def time_field_def time_opt_field_def sample_receipt_def sample_binding_def)
  with assms show ?thesis
    by (auto simp: grant_payload_def)
qed

lemma save_fine:
  assumes "script w = []" "grant_state_validate g = None" "grant_payload g = Some p"
  shows "saveHostSelfUpdateGrantState g w =
    (Ok (), w\<lparr>w_grant := DiskFile (private_file (int (length p) + 1)) (Decodes g)\<rparr>)"
  using assms
  by (simp add: saveHostSelfUpdateGrantState_def thenP_def lookupP_def prog_defs)

text \<open>With no fault and the panel's answer, the authorization succeeds.\<close>

lemma sample_authorized:
  "fst (authorizeHostSelfUpdate sample_runtime ''https://panel.example'' (sample_authorization ''stage'')
     (sample_answers [])) = Ok ()"
proof -
  let ?a = "sample_authorization ''stage''" let ?g = "newHostSelfUpdateGrantState ?a"
  let ?g' = "?g\<lparr>gs_Phase := GrantConsumed, gs_Receipt := Some sample_receipt\<rparr>"
  have a: "authorization_validate ?a = None" "ga_Binding ?a = sample_binding ''stage''"
    using sample_authorization_valid by (simp_all add: sample_authorization_def)
  have g: "gs_Binding ?g = sample_binding ''stage''" "gs_Receipt ?g = None" "grant_state_validate ?g = None"
    using a newGrant_valid(1) [OF a(1)] by (simp_all add: newHostSelfUpdateGrantState_def)
  then have g': "grant_state_validate ?g' = None"
    using sample_receipt_valid by (auto simp: grant_state_validate_iff)
  obtain p where p: "grant_payload ?g = Some p"
    using sample_payload [of ?g] g by blast
  obtain q where q: "grant_payload ?g' = Some q"
    using sample_payload [of ?g'] g by auto
  have url: "validatePanelURL (rt_net sample_runtime) ''https://panel.example'' = None"
    by (simp add: validatePanelURL_def sample_runtime_def sample_net_def)
  show ?thesis
    using g g' a sample_receipt_valid
    by (simp add: authorizeHostSelfUpdate_def loadHostSelfUpdateGrantState_def lookupP_def prog_defs
        consume_and_record_def consumeHostSelfUpdateGrant_def url thenP_def popP_def
        save_fine [OF _ g(3) p] save_fine [OF _ g' q] sample_answers_def sample_world_def)
qed

theorem stage_needs_consumed_grant_witness:
  "unstaged (sample_answers []) \<and> LocalExecutorRequest_Validate sample_stage_request = None \<and>
   consumed_for (receipts (sample_answers [])) (sample_authorization ''stage'')
     (snd (authorizeHostSelfUpdate sample_runtime ''https://panel.example'' (sample_authorization ''stage'')
       (sample_answers []))) \<and>
   (unstaged (snd (handleLocalExecutorHostSelfUpdate sample_runtime sample_policy sample_stage_request
      (sample_answers []))) \<or>
    staged_by (receipts (sample_answers [])) sample_policy sample_stage_request sample_request
      (sample_authorization ''stage'')
      (snd (handleLocalExecutorHostSelfUpdate sample_runtime sample_policy sample_stage_request
        (sample_answers []))))"
proof (intro conjI sample_stage_request_valid)
  show idle: "unstaged (sample_answers [])"
    by (simp add: unstaged_def sample_answers_def sample_world_def stable_state_def holds_def)
  have "honest (receipts (sample_answers [])) (sample_answers [])" "not_failed a (sample_answers [])" for a
    by (simp_all add: honest_def not_failed_def recorded_def holds_def sample_answers_def sample_world_def)
  with spec_authorize [of "receipts (sample_answers [])" "sample_authorization ''stage''" sample_runtime
      "''https://panel.example''"] sample_authorized
  show "consumed_for (receipts (sample_answers [])) (sample_authorization ''stage'')
     (snd (authorizeHostSelfUpdate sample_runtime ''https://panel.example'' (sample_authorization ''stage'')
       (sample_answers [])))"
    unfolding spec_def by (fastforce split: prod.splits outcome.splits)
  show "unstaged (snd (handleLocalExecutorHostSelfUpdate sample_runtime sample_policy sample_stage_request
      (sample_answers []))) \<or>
    staged_by (receipts (sample_answers [])) sample_policy sample_stage_request sample_request
      (sample_authorization ''stage'')
      (snd (handleLocalExecutorHostSelfUpdate sample_runtime sample_policy sample_stage_request
        (sample_answers [])))"
    by (rule stage_needs_consumed_grant [OF idle]) (simp_all add: sample_stage_request_def)
qed

end
