(* ===== verification/Host_Policy.thy ===== *)
theory Host_Policy
  imports SelfUpdate_Grant
begin

text \<open>
  The policy the control panel serves to the host agent, with the identity binding and the
  lifecycle directives it carries (\<open>host_pull_panel.go\<close>, \<open>runtime_token_rotation_protocol.go\<close>).
  Policies are validated as a whole; the lemmas give what an accepted policy guarantees.
\<close>

section \<open>Identity\<close>

abbreviation "HostTransportPullV2 \<equiv> ''pull_v2''"
abbreviation "ServiceTypeUpdateAgent \<equiv> ''update_agent''"

text \<open>Every accepted character is ASCII, so the loop over runes is a loop over bytes.\<close>

definition validExecutionHostID :: "string \<Rightarrow> bool" where
  "validExecutionHostID v \<longleftrightarrow>
     (let value = TrimSpace v in
      \<not> (length value < 1 \<or> length value > 191) \<and>
      list_all (\<lambda>(i, c). is_alnum c \<or> (i > 0 \<and> c \<in> set ''._:-'')) (enumerate 0 value))"

record HostAgentBinding =
  hb_ServiceID :: string
  hb_ServiceType :: string
  hb_TransportMode :: string
  hb_ExecutionHostID :: string
  hb_OwnershipEpoch :: int

definition HostAgentBinding_validateForService :: "HostAgentBinding \<Rightarrow> string \<Rightarrow> go_error option" where
  "HostAgentBinding_validateForService b serviceID =
     (let trimmedServiceID = TrimSpace (hb_ServiceID b);
          trimmedHostID = TrimSpace (hb_ExecutionHostID b) in
      if hb_ServiceID b \<noteq> trimmedServiceID \<or>
         hb_ExecutionHostID b \<noteq> trimmedHostID \<or>
         trimmedServiceID \<noteq> TrimSpace serviceID \<or>
         hb_ServiceType b \<noteq> ServiceTypeUpdateAgent \<or>
         hb_TransportMode b \<noteq> HostTransportPullV2 \<or>
         \<not> validExecutionHostID trimmedHostID \<or>
         hb_OwnershipEpoch b < 0
      then errNew ''host agent registration binding is invalid'' else None)"

section \<open>Runtime token rotation directives\<close>

record HostAgentRuntimeTokenRotation =
  ro_ID :: string
  ro_ServiceID :: string
  ro_ExecutionHostID :: string
  ro_Status :: string
  ro_Revision :: int
  ro_ExpectedOwnershipEpoch :: int
  ro_ExpectedSourcePolicyRevision :: int
  ro_ExpectedProjectionRevision :: int
  ro_ExpectedLocalExecutorPolicyRevision :: int
  ro_PreviousTokenID :: string
  ro_StagedTokenID :: string
  ro_CredentialClaimedAt :: "gotime option"
  ro_LocalStageReceiptID :: string
  ro_LocalStageAcknowledgedAt :: "gotime option"
  ro_LocalStagedAt :: "gotime option"
  ro_HeartbeatProvedAt :: "gotime option"
  ro_ActivatedAt :: "gotime option"
  ro_CancelRequestedAt :: "gotime option"
  ro_CanceledAt :: "gotime option"
  ro_EmergencyRevokedTokenID :: string
  ro_EmergencyRevokedAt :: "gotime option"
  ro_CreatedAt :: "gotime option"
  ro_UpdatedAt :: "gotime option"

definition rotation_status_check :: "HostAgentRuntimeTokenRotation \<Rightarrow> go_error option" where
  "rotation_status_check r =
     (let unproved = ro_CredentialClaimedAt r = None \<or> ro_LocalStageReceiptID r = [] \<or>
            ro_LocalStageAcknowledgedAt r = None in
      if ro_Status r = ''staged'' then None
      else if ro_Status r = ''local_staged''
      then (if unproved then errNew ''runtime token rotation local-stage proof is incomplete'' else None)
      else if ro_Status r = ''heartbeat_proved''
      then (if unproved then errNew ''runtime token rotation heartbeat proof is incomplete'' else None)
      else if ro_Status r = ''activated''
      then (if unproved then errNew ''activated runtime token rotation proof is incomplete'' else None)
      else if ro_Status r = ''cancel_requested''
      then (if ro_CredentialClaimedAt r = None \<or> ro_CancelRequestedAt r = None
            then errNew ''runtime token rotation cancel request is incomplete'' else None)
      else if ro_Status r = ''canceled'' then None
      else errNew ''runtime token rotation directive status is invalid'')"

definition rotation_times :: "HostAgentRuntimeTokenRotation \<Rightarrow> gotime option list" where
  "rotation_times r = [ro_CredentialClaimedAt r, ro_LocalStageAcknowledgedAt r, ro_LocalStagedAt r,
     ro_HeartbeatProvedAt r, ro_ActivatedAt r, ro_CancelRequestedAt r, ro_CanceledAt r,
     ro_EmergencyRevokedAt r, ro_CreatedAt r, ro_UpdatedAt r]"

definition HostAgentRuntimeTokenRotation_Validate :: "HostAgentRuntimeTokenRotation \<Rightarrow> go_error option" where
  "HostAgentRuntimeTokenRotation_Validate r =
     (if \<not> MatchString identifierPattern (ro_ID r) \<or>
         \<not> MatchString identifierPattern (ro_ServiceID r) \<or>
         \<not> validExecutionHostID (ro_ExecutionHostID r) \<or>
         \<not> MatchString identifierPattern (ro_PreviousTokenID r) \<or>
         \<not> MatchString identifierPattern (ro_StagedTokenID r) \<or>
         ro_PreviousTokenID r = ro_StagedTokenID r \<or>
         ro_Revision r < 1 \<or>
         ro_ExpectedOwnershipEpoch r < 1 \<or>
         ro_ExpectedSourcePolicyRevision r < 1 \<or>
         ro_ExpectedProjectionRevision r < 1 \<or>
         ro_ExpectedLocalExecutorPolicyRevision r < 1
      then errNew ''runtime token rotation directive binding is invalid''
      else if list_ex (\<lambda>v. v \<noteq> TrimSpace v)
         [ro_ID r, ro_ServiceID r, ro_ExecutionHostID r, ro_PreviousTokenID r, ro_StagedTokenID r]
      then errNew ''runtime token rotation directive is not canonical''
      else case rotation_status_check r of Some err \<Rightarrow> Some err | None \<Rightarrow>
      if (ro_LocalStageReceiptID r = []) \<noteq> (ro_LocalStageAcknowledgedAt r = None) \<or>
         (ro_LocalStageReceiptID r \<noteq> [] \<and> \<not> MatchString identifierPattern (ro_LocalStageReceiptID r))
      then errNew ''runtime token rotation local-stage receipt is invalid''
      else if (ro_EmergencyRevokedTokenID r = []) \<noteq> (ro_EmergencyRevokedAt r = None) \<or>
         (ro_EmergencyRevokedTokenID r \<noteq> [] \<and>
          ro_EmergencyRevokedTokenID r \<noteq> ro_PreviousTokenID r \<and>
          ro_EmergencyRevokedTokenID r \<noteq> ro_StagedTokenID r)
      then errNew ''runtime token rotation emergency revoke proof is invalid''
      else if list_ex (\<lambda>v. case v of None \<Rightarrow> False | Some t \<Rightarrow> IsZero t \<or> \<not> in_utc t) (rotation_times r)
      then errNew ''runtime token rotation timestamp is invalid''
      else case (ro_CredentialClaimedAt r, ro_LocalStageAcknowledgedAt r) of
          (Some claimed, Some acknowledged) \<Rightarrow>
            if time_Before acknowledged claimed
            then errNew ''runtime token rotation timestamps are out of order'' else None
        | _ \<Rightarrow> None)"

section \<open>Policies\<close>

record HostAgentEndpoint =
  he_Host :: string
  he_Port :: int
  he_SSLEnabled :: bool
  he_PublicURL :: string

record HostAgentPolicyTarget =
  ht_ServiceID :: string
  ht_ServiceType :: string
  ht_DeploymentMode :: string
  ht_EndpointRevision :: int
  ht_AppliedEndpointRevision :: int
  ht_AppliedConfigRevision :: int
  ht_AppliedConfigSHA256 :: string
  ht_DesiredEndpoint :: "HostAgentEndpoint option"
  ht_AppliedEndpoint :: "HostAgentEndpoint option"
  ht_LocalListenEndpoint :: "HostAgentEndpoint option"
  ht_LocalHealthEndpoint :: "HostAgentEndpoint option"

record HostAgentPolicy =
  hp_ServiceID :: string
  hp_TransportMode :: string
  hp_ExecutionHostID :: string
  hp_OwnershipEpoch :: int
  hp_Revision :: int
  hp_SourcePolicyRevision :: int
  hp_LocalExecutorPolicyRevision :: int
  hp_ObserveOnly :: bool
  hp_LocalExecutorPolicySHA256 :: string
  hp_RuntimeRequirement :: "HostRuntimeRequirement option"
  hp_SelfUpdate :: "HostSelfUpdateRequest option"
  hp_SelfUpdateID :: string
  hp_SelfUpdateRevision :: int
  hp_SelfUpdateStatus :: string
  hp_RuntimeTokenRotation :: "HostAgentRuntimeTokenRotation option"
  hp_Targets :: "HostAgentPolicyTarget list"

definition validHostSelfUpdateDirectiveStatus :: "string \<Rightarrow> bool" where
  "validHostSelfUpdateDirectiveStatus status \<longleftrightarrow>
     status \<in> {''queued'', ''staging'', ''activating'', ''verifying'', ''rolling_back''}"

definition appliedConfigRevision :: "HostAgentPolicyTarget \<Rightarrow> int" where
  "appliedConfigRevision t = (if ht_AppliedConfigRevision t > 0 then ht_AppliedConfigRevision t else 1)"

definition validateOptionalHostAgentEndpoint :: "netlib \<Rightarrow> HostAgentEndpoint option \<Rightarrow> go_error option" where
  "validateOptionalHostAgentEndpoint net endpoint =
     (case endpoint of None \<Rightarrow> None | Some e \<Rightarrow>
        let host = TrimSpace (he_Host e); publicURL = TrimSpace (he_PublicURL e) in
        if he_Host e \<noteq> host \<or> he_PublicURL e \<noteq> publicURL \<or> host = [] \<or>
           he_Port e < 1 \<or> he_Port e > 65535 \<or>
           (case url_Parse net publicURL of None \<Rightarrow> True
            | Some parsed \<Rightarrow> u_Host parsed = [] \<or> (u_Scheme parsed \<noteq> ''http'' \<and> u_Scheme parsed \<noteq> ''https''))
        then errNew ''host agent policy endpoint is invalid'' else None)"

definition policy_target_validate :: "netlib \<Rightarrow> HostAgentPolicyTarget \<Rightarrow> go_error option" where
  "policy_target_validate net target =
     (if ht_ServiceType target \<notin> {''control_panel'', ''worker'', ''encoder_recorder'', ''discord_bot'', ''observability''}
      then errNew ''host agent policy target type is invalid''
      else if ht_DeploymentMode target \<noteq> ModeSystemd \<and> ht_DeploymentMode target \<noteq> ModeDocker
      then errNew ''host agent policy deployment mode is invalid''
      else if ht_EndpointRevision target < 0 \<or> ht_AppliedEndpointRevision target < 0 \<or>
         ht_AppliedConfigRevision target < 0 \<or>
         (ht_AppliedConfigSHA256 target \<noteq> [] \<and> \<not> MatchString digestPattern (ht_AppliedConfigSHA256 target))
      then errNew ''host agent policy target config revision is invalid''
      else case validateOptionalHostAgentEndpoint net (ht_DesiredEndpoint target) of Some err \<Rightarrow> Some err | None \<Rightarrow>
      case validateOptionalHostAgentEndpoint net (ht_AppliedEndpoint target) of Some err \<Rightarrow> Some err | None \<Rightarrow>
      case validateOptionalHostAgentEndpoint net (ht_LocalListenEndpoint target) of Some err \<Rightarrow> Some err | None \<Rightarrow>
      if (case ht_LocalListenEndpoint target of None \<Rightarrow> False | Some e \<Rightarrow> he_Port e < 1024)
      then errNew ''host agent local listen endpoint must use an unprivileged port''
      else validateOptionalHostAgentEndpoint net (ht_LocalHealthEndpoint target))"

text \<open>The loop over the targets, with the service identities seen so far.\<close>

primrec policy_targets_validate ::
  "netlib \<Rightarrow> HostAgentPolicyTarget list \<Rightarrow> string list \<Rightarrow> go_error option" where
  "policy_targets_validate net [] seen = None"
| "policy_targets_validate net (target # rest) seen =
     (let serviceID = TrimSpace (ht_ServiceID target) in
      if ht_ServiceID target \<noteq> serviceID \<or>
         ht_ServiceType target \<noteq> TrimSpace (ht_ServiceType target) \<or>
         ht_DeploymentMode target \<noteq> TrimSpace (ht_DeploymentMode target) \<or>
         \<not> MatchString identifierPattern serviceID
      then errNew ''host agent policy target identity is invalid''
      else if serviceID \<in> set seen
      then errNew ''host agent policy target identity is duplicated''
      else case policy_target_validate net target of Some err \<Rightarrow> Some err
      | None \<Rightarrow> policy_targets_validate net rest (serviceID # seen))"

text \<open>The self-update directive of a policy: complete, a cancellation, or absent.\<close>

definition self_update_directive_validate :: "HostAgentPolicy \<Rightarrow> go_error option" where
  "self_update_directive_validate p =
     (case hp_SelfUpdate p of
        Some update \<Rightarrow>
          (case hp_RuntimeRequirement p of
             None \<Rightarrow> errNew ''host agent self-update directive is invalid''
           | Some requirement \<Rightarrow>
               if hp_OwnershipEpoch p < 1 \<or> request_validate update \<noteq> None \<or>
                  \<not> MatchString identifierPattern (hp_SelfUpdateID p) \<or> hp_SelfUpdateRevision p < 1 \<or>
                  \<not> validHostSelfUpdateDirectiveStatus (hp_SelfUpdateStatus p)
               then errNew ''host agent self-update directive is invalid''
               else if ValidateHostRuntimeCompatibility
                   \<lparr>cur_AgentVersion = req_AgentVersion update, cur_ExecutorVersion = req_ExecutorVersion update,
                    cur_AgentProtocol = req_AgentProtocol update, cur_ExecutorProtocol = req_ExecutorProtocol update,
                    cur_MutationProtocol = req_MutationProtocol update,
                    cur_RecoveryProtocol = req_RecoveryProtocol update\<rparr> requirement \<noteq> None
               then errNew ''host agent self-update does not satisfy the runtime requirement''
               else None)
      | None \<Rightarrow>
          if hp_SelfUpdateStatus p = ''cancel_requested''
          then (if \<not> MatchString identifierPattern (hp_SelfUpdateID p) \<or> hp_SelfUpdateRevision p < 1 \<or>
                   hp_RuntimeRequirement p \<noteq> None
                then errNew ''host agent self-update cancellation is invalid'' else None)
          else if hp_SelfUpdateID p \<noteq> [] \<or> hp_SelfUpdateRevision p \<noteq> 0 \<or>
             hp_SelfUpdateStatus p \<noteq> [] \<or> hp_RuntimeRequirement p \<noteq> None
          then errNew ''host agent self-update metadata is incomplete'' else None)"

definition rotation_directive_validate :: "HostAgentPolicy \<Rightarrow> go_error option" where
  "rotation_directive_validate p =
     (case hp_RuntimeTokenRotation p of None \<Rightarrow> None | Some rotation \<Rightarrow>
        if HostAgentRuntimeTokenRotation_Validate rotation \<noteq> None \<or>
           hp_OwnershipEpoch p < 1 \<or>
           ro_ServiceID rotation \<noteq> hp_ServiceID p \<or>
           ro_ExecutionHostID rotation \<noteq> hp_ExecutionHostID p \<or>
           ro_ExpectedOwnershipEpoch rotation \<noteq> hp_OwnershipEpoch p \<or>
           ro_ExpectedSourcePolicyRevision rotation \<noteq> hp_SourcePolicyRevision p \<or>
           ro_ExpectedProjectionRevision rotation \<noteq> hp_Revision p \<or>
           ro_ExpectedLocalExecutorPolicyRevision rotation \<noteq> hp_LocalExecutorPolicyRevision p
        then errNew ''host agent runtime token rotation directive is invalid'' else None)"

definition executor_binding_validate :: "HostAgentPolicy \<Rightarrow> go_error option" where
  "executor_binding_validate p =
     (if hp_OwnershipEpoch p = 0
      then (if (hp_LocalExecutorPolicyRevision p = 0) \<noteq> (hp_LocalExecutorPolicySHA256 p = []) \<or>
               hp_LocalExecutorPolicyRevision p < 0 \<or>
               (hp_LocalExecutorPolicySHA256 p \<noteq> [] \<and> \<not> MatchString digestPattern (hp_LocalExecutorPolicySHA256 p))
            then errNew ''host agent local executor policy binding is invalid'' else None)
      else if hp_LocalExecutorPolicyRevision p < 1 \<or> \<not> MatchString digestPattern (hp_LocalExecutorPolicySHA256 p)
      then errNew ''host agent local executor policy digest is invalid'' else None)"

definition HostAgentPolicy_validateForService ::
  "netlib \<Rightarrow> HostAgentPolicy \<Rightarrow> string \<Rightarrow> int \<Rightarrow> go_error option" where
  "HostAgentPolicy_validateForService net p serviceID currentRevision =
     (if HostAgentBinding_validateForService
           \<lparr>hb_ServiceID = hp_ServiceID p, hb_ServiceType = ServiceTypeUpdateAgent,
            hb_TransportMode = hp_TransportMode p, hb_ExecutionHostID = hp_ExecutionHostID p,
            hb_OwnershipEpoch = hp_OwnershipEpoch p\<rparr> serviceID \<noteq> None \<or>
         hp_Revision p < 1 \<or> hp_Revision p < currentRevision \<or> hp_SourcePolicyRevision p < 1 \<or>
         hp_ObserveOnly p \<noteq> (hp_OwnershipEpoch p = 0)
      then errNew ''host agent policy identity, revision, or mode is invalid''
      else case executor_binding_validate p of Some err \<Rightarrow> Some err | None \<Rightarrow>
      case (case hp_RuntimeRequirement p of None \<Rightarrow> None | Some r \<Rightarrow> requirement_validate r) of
        Some err \<Rightarrow> Some err | None \<Rightarrow>
      case self_update_directive_validate p of Some err \<Rightarrow> Some err | None \<Rightarrow>
      case rotation_directive_validate p of Some err \<Rightarrow> Some err | None \<Rightarrow>
      if hp_RuntimeTokenRotation p \<noteq> None \<and> hp_SelfUpdate p \<noteq> None
      then errNew ''host lifecycle directives overlap''
      else policy_targets_validate net (hp_Targets p) [])"

primrec hostPullPolicyTarget_in :: "HostAgentPolicyTarget list \<Rightarrow> string \<Rightarrow> HostAgentPolicyTarget option" where
  "hostPullPolicyTarget_in [] serviceID = None"
| "hostPullPolicyTarget_in (target # rest) serviceID =
     (if ht_ServiceID target = serviceID then Some target else hostPullPolicyTarget_in rest serviceID)"

definition hostPullPolicyTarget :: "HostAgentPolicy \<Rightarrow> string \<Rightarrow> HostAgentPolicyTarget option" where
  "hostPullPolicyTarget policy serviceID = hostPullPolicyTarget_in (hp_Targets policy) serviceID"

end
