(* ===== verification/Jobs.thy ===== *)
theory Jobs
  imports Host_Policy
begin

text \<open>
  The update jobs the control panel hands out, the plans derived from them and the reports sent
  back (\<open>panel.go\<close>, \<open>mutation_protocol.go\<close>, \<open>plan_digest.go\<close>, \<open>digest.go\<close>,
  \<open>software_claim_binding.go\<close>, \<open>software_claim_snapshot.go\<close>, \<open>host_pull_claim_validation.go\<close>,
  \<open>agent_port_contract.go\<close>, \<open>systemd_port_reconfigure.go\<close>, \<open>port_policy_transition.go\<close>,
  \<open>systemd_port_result.go\<close>, \<open>stage_failure.go\<close>): their validation, and the comparison of a
  recovered job with the one that was saved.
\<close>

section \<open>The shared contracts\<close>

text \<open>
  The package \<open>contracts\<close> is not part of the repository. Its structures have the fields the
  source reads, the remaining ones are carried as one string; its functions are parameters,
  together with \<open>time.Parse\<close> for \<open>RFC3339Nano\<close> and the text of a URL after its host was
  replaced.
\<close>

record SystemUpdatePortDockerSnapshot =
  sd_PublishedHostIP :: string
  sd_HealthPort :: int
  sd_Rest :: string

record SystemUpdatePortSnapshotRef =
  sn_SnapshotID :: string
  sn_SourcePolicyRevision :: int
  sn_ProjectionRevision :: int
  sn_ExecutorPolicyRevision :: int
  sn_ExecutorPolicySHA256 :: string
  sn_ConfigRevision :: int
  sn_ConfigSHA256 :: string
  sn_EndpointRevision :: int
  sn_AppliedEndpointRevision :: int
  sn_AdvertisedPort :: int
  sn_AdvertisedEndpointSHA256 :: string
  sn_LocalListenPort :: int
  sn_Docker :: "SystemUpdatePortDockerSnapshot option"
  sn_Rest :: string

record SystemUpdatePortResultV2 =
  pr_Result :: string
  pr_ObservedSnapshotID :: string
  pr_ObservedSnapshotSHA256 :: string
  pr_ObservedConfigRevision :: int
  pr_ObservedConfigSHA256 :: string
  pr_ObservedExecutorPolicyRevision :: int
  pr_ObservedExecutorPolicySHA256 :: string
  pr_RuntimeInstance :: "string option"
  pr_ObservedAt :: gotime
  pr_PolicyDiskVerified :: bool
  pr_PolicyMemoryVerified :: bool
  pr_ListenerVerified :: bool
  pr_AgentProjectionVerified :: bool

record SystemUpdatePortReconfiguration =
  sp_PortContractVersion :: int
  sp_Mode :: string
  sp_Before :: "SystemUpdatePortSnapshotRef option"
  sp_Target :: "SystemUpdatePortSnapshotRef option"
  sp_Rollback :: "SystemUpdatePortSnapshotRef option"
  sp_DockerBaseline :: "string option"
  sp_NetworkNamespace :: string
  sp_Protocol :: string
  sp_PortPlanSHA256 :: string
  sp_OldPort :: int
  sp_NewPort :: int
  sp_ExpectedEndpointRevision :: int
  sp_TargetEndpointRevision :: int
  sp_ExpectedConfigRevision :: int
  sp_TargetConfigRevision :: int
  sp_ExpectedConfigSHA256 :: string
  sp_TargetConfigSHA256 :: string
  sp_ExpectedSourcePolicyRevision :: int
  sp_ExpectedUpdaterPolicyRevision :: int
  sp_ExpectedExecutorPolicyRevision :: int
  sp_ExpectedExecutorPolicySHA256 :: string

record externals =
  ex_net :: netlib
  ex_time_Parse :: "string \<Rightarrow> gotime option"
  ex_url_SetHost :: "string \<Rightarrow> string \<Rightarrow> string"
  ex_ValidatePortPlan :: "SystemUpdatePortReconfiguration \<Rightarrow> bool"
  ex_ValidatePortResult :: "SystemUpdatePortReconfiguration \<Rightarrow> SystemUpdatePortResultV2 \<Rightarrow> bool"
  ex_AcceptedPortResult :: "SystemUpdatePortResultV2 \<Rightarrow> bool"
  ex_EqualPortResults :: "SystemUpdatePortResultV2 \<Rightarrow> SystemUpdatePortResultV2 \<Rightarrow> bool"
  ex_RuntimePlanSHA256 :: "SystemUpdatePortReconfiguration \<Rightarrow> string \<Rightarrow> string \<Rightarrow> string \<Rightarrow> string \<Rightarrow> int \<Rightarrow>
    u64 \<Rightarrow> string \<Rightarrow> string result"
  ex_EndpointSHA256 :: "string \<Rightarrow> int \<Rightarrow> bool \<Rightarrow> string \<Rightarrow> string result"

section \<open>Digests, messages and statuses\<close>

definition normalizeDigest :: "string \<Rightarrow> string" where
  "normalizeDigest d =
     (let digest = TrimSpace (ToLower d) in
      if length digest = 64 \<and> \<not> HasPrefix digest ''sha256:'' then ''sha256:'' @ digest else digest)"

definition canonicalReportDigest :: "string \<Rightarrow> string" where
  "canonicalReportDigest v =
     (let value = normalizeDigest v in
      if value \<noteq> [] \<and> \<not> MatchString digestPattern value then [] else value)"

definition isTerminalUpdateStatus :: "string \<Rightarrow> bool" where
  "isTerminalUpdateStatus status \<longleftrightarrow> status = ''succeeded'' \<or> status = ''rolled_back'' \<or> status = ''failed''"

definition v2ProgressPhase :: "string \<Rightarrow> string option" where
  "v2ProgressPhase status =
     (if status = ''claimed'' then Some ''accepted''
      else if status = ''downloading'' \<or> status = ''staging'' then Some ''preparing''
      else if status = ''installing'' then Some ''executing''
      else if status = ''verifying'' \<or> status = ''health_checking'' then Some ''verifying''
      else if status = ''rolling_back'' then Some ''rolling_back''
      else if status = ''reconciling'' then Some ''reconciling''
      else None)"

text \<open>Runes below U+0020 and U+007F are single bytes, so the loop over runes is one over bytes.\<close>

definition safeExecutorMessage :: "string \<Rightarrow> bool" where
  "safeExecutorMessage value \<longleftrightarrow>
     \<not> (TrimSpace value = [] \<or> length value > 500) \<and>
     list_all (\<lambda>c. \<not> (c < CHR 0x20 \<or> c = CHR 0x7F)) value"

section \<open>Software updates\<close>

record SoftwareUpdateJobBinding =
  sb_ConfigRevision :: int
  sb_ConfigSHA256 :: string
  sb_CommandSHA256 :: string
  sb_SourcePolicyRevision :: int
  sb_ProjectionRevision :: int
  sb_ExecutorPolicyRevision :: int
  sb_ExecutorPolicySHA256 :: string

definition SoftwareUpdateJobBinding_Validate :: "SoftwareUpdateJobBinding \<Rightarrow> go_error option" where
  "SoftwareUpdateJobBinding_Validate b =
     (if sb_ConfigRevision b < 1 \<or> \<not> MatchString digestPattern (sb_CommandSHA256 b) \<or>
         (sb_ConfigSHA256 b \<noteq> [] \<and> \<not> MatchString digestPattern (sb_ConfigSHA256 b)) \<or>
         sb_SourcePolicyRevision b < 1 \<or> sb_ProjectionRevision b < 1 \<or> sb_ExecutorPolicyRevision b < 1 \<or>
         \<not> MatchString digestPattern (sb_ExecutorPolicySHA256 b)
      then errNew ''software claim policy snapshot is incomplete'' else None)"

definition validateIntent :: "SoftwareUpdateJobBinding \<Rightarrow> go_error option" where
  "validateIntent b =
     (if sb_ConfigRevision b < 1 \<or> \<not> MatchString digestPattern (sb_CommandSHA256 b) \<or>
         (sb_ConfigSHA256 b \<noteq> [] \<and> \<not> MatchString digestPattern (sb_ConfigSHA256 b))
      then errNew ''software configuration or command binding is invalid''
      else if sb_SourcePolicyRevision b = 0 \<and> sb_ProjectionRevision b = 0 \<and>
         sb_ExecutorPolicyRevision b = 0 \<and> sb_ExecutorPolicySHA256 b = []
      then None
      else SoftwareUpdateJobBinding_Validate b)"

record MutationPlan =
  mp_JobID :: string
  mp_HostID :: string
  mp_TargetID :: string
  mp_ServiceType :: string
  mp_DeploymentMode :: string
  mp_CurrentVersion :: string
  mp_ConfigSHA256 :: string
  mp_TargetVersion :: string
  mp_LeaseGeneration :: u64
  mp_ArtifactDigest :: string
  mp_ExpectedVersion :: string
  mp_ExpectedImageDigest :: string
  mp_ExpectedPlatformDigest :: string
  mp_SessionID :: string
  mp_PlanSHA256 :: string

record ApplyPlan =
  ap_JobID :: string
  ap_HostID :: string
  ap_TargetID :: string
  ap_ServiceType :: string
  ap_DeploymentMode :: string
  ap_TargetVersion :: string
  ap_CurrentVersion :: string
  ap_ConfigSHA256 :: string
  ap_LeaseToken :: string
  ap_LeaseGeneration :: u64
  ap_StageDir :: string
  ap_ArtifactDigest :: string
  ap_ExpectedVersion :: string
  ap_ExpectedImageDigest :: string
  ap_ExpectedPlatformDigest :: string

definition MutationPlan_ApplyPlan :: "MutationPlan \<Rightarrow> ApplyPlan" where
  "MutationPlan_ApplyPlan p =
     \<lparr>ap_JobID = mp_JobID p, ap_HostID = mp_HostID p, ap_TargetID = mp_TargetID p,
      ap_ServiceType = mp_ServiceType p, ap_DeploymentMode = mp_DeploymentMode p,
      ap_TargetVersion = mp_TargetVersion p, ap_CurrentVersion = mp_CurrentVersion p,
      ap_ConfigSHA256 = mp_ConfigSHA256 p, ap_LeaseToken = [], ap_LeaseGeneration = mp_LeaseGeneration p,
      ap_StageDir = [], ap_ArtifactDigest = mp_ArtifactDigest p, ap_ExpectedVersion = mp_ExpectedVersion p,
      ap_ExpectedImageDigest = mp_ExpectedImageDigest p,
      ap_ExpectedPlatformDigest = mp_ExpectedPlatformDigest p\<rparr>"

definition mutation_plan_json :: "ApplyPlan \<Rightarrow> json" where
  "mutation_plan_json plan = JObj (
     [(''schema_version'', JInt 2), (''job_id'', JStr (TrimSpace (ap_JobID plan))),
      (''host_id'', JStr (TrimSpace (ap_HostID plan))), (''target_id'', JStr (TrimSpace (ap_TargetID plan))),
      (''service_type'', JStr (TrimSpace (ap_ServiceType plan))),
      (''deployment_mode'', JStr (TrimSpace (ap_DeploymentMode plan))),
      (''target_version'', JStr (TrimSpace (ap_TargetVersion plan))),
      (''current_version'', JStr (TrimSpace (ap_CurrentVersion plan))),
      (''config_sha256'', JStr (TrimSpace (ToLower (ap_ConfigSHA256 plan)))),
      (''lease_generation'', JInt (uint (ap_LeaseGeneration plan)))] @
     str_opt ''artifact_digest'' (normalizeDigest (ap_ArtifactDigest plan)) @
     str_opt ''expected_version'' (TrimSpace (ap_ExpectedVersion plan)) @
     str_opt ''expected_image_digest'' (normalizeDigest (ap_ExpectedImageDigest plan)) @
     str_opt ''expected_platform_digest'' (normalizeDigest (ap_ExpectedPlatformDigest plan)))"

definition MutationPlanSHA256 :: "ApplyPlan \<Rightarrow> string result" where
  "MutationPlanSHA256 plan =
     (let currentVersion = TrimSpace (ap_CurrentVersion plan);
          configSHA256 = TrimSpace (ToLower (ap_ConfigSHA256 plan)) in
      if \<not> MatchString identifierPattern (TrimSpace (ap_JobID plan)) \<or>
         \<not> MatchString identifierPattern (TrimSpace (ap_HostID plan)) \<or>
         \<not> MatchString identifierPattern (TrimSpace (ap_TargetID plan)) \<or>
         \<not> MatchString versionPattern (TrimSpace (ap_TargetVersion plan)) \<or>
         \<not> MatchString versionPattern currentVersion \<or> currentVersion \<noteq> ap_CurrentVersion plan \<or>
         \<not> MatchString digestPattern configSHA256 \<or> configSHA256 \<noteq> ap_ConfigSHA256 plan \<or>
         (ap_DeploymentMode plan \<noteq> ModeSystemd \<and> ap_DeploymentMode plan \<noteq> ModeDocker) \<or>
         ap_LeaseGeneration plan = 0
      then Inl (NewErr ''mutation plan identity is incomplete'')
      else Inr (sha256_hex (marshal (mutation_plan_json plan))))"

definition ComputePlanSHA256 :: "MutationPlan \<Rightarrow> string result" where
  "ComputePlanSHA256 p = MutationPlanSHA256 (MutationPlan_ApplyPlan p)"

definition release_binding_check :: "MutationPlan \<Rightarrow> go_error option" where
  "release_binding_check p =
     (if mp_DeploymentMode p = ModeSystemd
      then (if \<not> MatchString mutationPlanHashPattern (mp_ArtifactDigest p) \<or>
               mp_ExpectedVersion p \<noteq> mp_TargetVersion p \<or> mp_ExpectedImageDigest p \<noteq> [] \<or>
               mp_ExpectedPlatformDigest p \<noteq> []
            then errNew ''remote systemd plan release binding is invalid'' else None)
      else if mp_DeploymentMode p = ModeDocker
      then (if \<not> MatchString mutationPlanHashPattern (mp_ArtifactDigest p) \<or>
               \<not> MatchString versionPattern (mp_ExpectedVersion p) \<or>
               \<not> MatchString digestPattern (mp_ExpectedImageDigest p) \<or>
               \<not> MatchString digestPattern (mp_ExpectedPlatformDigest p)
            then errNew ''remote Docker plan release binding is invalid'' else None)
      else None)"

definition MutationPlan_Validate :: "MutationPlan \<Rightarrow> go_error option" where
  "MutationPlan_Validate p =
     (if \<not> MatchString identifierPattern (mp_JobID p) \<or> \<not> MatchString identifierPattern (mp_HostID p) \<or>
         \<not> MatchString identifierPattern (mp_TargetID p)
      then errNew ''remote plan contains an invalid identity''
      else if mp_ServiceType p \<notin> {''control_panel'', ''worker'', ''encoder_recorder'', ''discord_bot'', ''observability''}
      then errNew ''remote plan contains an unsupported service type''
      else if mp_DeploymentMode p \<noteq> ModeSystemd \<and> mp_DeploymentMode p \<noteq> ModeDocker
      then errNew ''remote plan contains an unsupported deployment mode''
      else if \<not> MatchString versionPattern (TrimSpace (mp_TargetVersion p))
      then errNew ''remote plan contains an invalid target version''
      else if \<not> MatchString versionPattern (TrimSpace (mp_CurrentVersion p)) \<or>
         TrimSpace (mp_CurrentVersion p) \<noteq> mp_CurrentVersion p
      then errNew ''remote plan contains an invalid current version''
      else if \<not> MatchString digestPattern (TrimSpace (ToLower (mp_ConfigSHA256 p))) \<or>
         TrimSpace (ToLower (mp_ConfigSHA256 p)) \<noteq> mp_ConfigSHA256 p
      then errNew ''remote plan contains an invalid helper config digest''
      else if mp_LeaseGeneration p = 0
      then errNew ''remote plan is missing its lease generation''
      else if \<not> MatchString mutationSessionPattern (mp_SessionID p) \<or>
         \<not> MatchString mutationPlanHashPattern (mp_PlanSHA256 p)
      then errNew ''remote plan authorization binding is invalid''
      else case release_binding_check p of Some err \<Rightarrow> Some err | None \<Rightarrow>
      if ComputePlanSHA256 p \<noteq> Inr (mp_PlanSHA256 p)
      then errNew ''remote plan digest does not match its immutable fields'' else None)"

section \<open>Port reconfigurations\<close>

abbreviation "systemdPortNetworkNamespaceHost \<equiv> ''host''"
abbreviation "systemdPortProtocolTCP \<equiv> ''tcp''"
abbreviation "systemdPortResultApplied \<equiv> ''applied''"
abbreviation "systemdPortResultRolledBack \<equiv> ''rolled_back''"
abbreviation "systemdPortResultUnchanged \<equiv> ''unchanged''"
abbreviation "systemdPortResultRollbackFailed \<equiv> ''rollback_failed''"
abbreviation (input) "math_MaxInt64 \<equiv> 9223372036854775807 :: int"

definition validSystemdPort :: "int \<Rightarrow> bool" where
  "validSystemdPort value \<longleftrightarrow> value \<ge> 1024 \<and> value \<le> 65535"

definition validSystemdPortServiceType :: "string \<Rightarrow> bool" where
  "validSystemdPortServiceType value \<longleftrightarrow> value \<in> {''worker'', ''encoder_recorder'', ''discord_bot'', ''observability''}"

definition dockerContainerIDPattern :: regex where
  "dockerContainerIDPattern = Times is_lower_hex 12 64"

record DockerPortMutationGrantBinding =
  dp_PublishedHostIP :: string
  dp_OldPublishedPort :: int
  dp_NewPublishedPort :: int
  dp_OldContainerPort :: int
  dp_NewContainerPort :: int
  dp_OldHealthPort :: int
  dp_NewHealthPort :: int
  dp_ApprovedComposeConfigSHA256 :: string
  dp_ApprovedComposeRevision :: int
  dp_ExpectedVersionEnvSHA256 :: string
  dp_ExpectedContainerID :: string
  dp_ExpectedImageID :: string
  dp_ExpectedRepositoryDigest :: string

definition docker_port_validate :: "DockerPortMutationGrantBinding option \<Rightarrow> int \<Rightarrow> go_error option" where
  "docker_port_validate docker expectedExecutorPolicyRevision =
     (case docker of
        None \<Rightarrow> errNew ''Docker port job runtime baseline is invalid''
      | Some d \<Rightarrow>
          if dp_PublishedHostIP d \<noteq> ''127.0.0.1'' \<or>
             \<not> validSystemdPort (dp_OldPublishedPort d) \<or>
             \<not> validSystemdPort (dp_NewPublishedPort d) \<or>
             \<not> validSystemdPort (dp_OldContainerPort d) \<or>
             \<not> validSystemdPort (dp_NewContainerPort d) \<or>
             dp_OldHealthPort d \<noteq> dp_OldPublishedPort d \<or>
             dp_NewHealthPort d \<noteq> dp_NewPublishedPort d \<or>
             \<not> MatchString mutationPlanHashPattern (dp_ApprovedComposeConfigSHA256 d) \<or>
             dp_ApprovedComposeRevision d \<noteq> expectedExecutorPolicyRevision \<or>
             \<not> MatchString digestPattern (dp_ExpectedVersionEnvSHA256 d) \<or>
             \<not> MatchString dockerContainerIDPattern (dp_ExpectedContainerID d) \<or>
             \<not> MatchString digestPattern (dp_ExpectedImageID d) \<or>
             \<not> MatchString digestPattern (dp_ExpectedRepositoryDigest d)
          then errNew ''Docker port job runtime baseline is invalid'' else None)"

record SystemdPortMutationGrantBinding =
  pb_PortContractVersion :: int
  pb_Mode :: string
  pb_Before :: "SystemUpdatePortSnapshotRef option"
  pb_Target :: "SystemUpdatePortSnapshotRef option"
  pb_Rollback :: "SystemUpdatePortSnapshotRef option"
  pb_DockerBaseline :: "string option"
  pb_NetworkNamespace :: string
  pb_Protocol :: string
  pb_OldPort :: int
  pb_NewPort :: int
  pb_ExpectedEndpointRevision :: int
  pb_TargetEndpointRevision :: int
  pb_ExpectedConfigRevision :: int
  pb_TargetConfigRevision :: int
  pb_ExpectedConfigSHA256 :: string
  pb_TargetConfigSHA256 :: string
  pb_ExpectedSourcePolicyRevision :: int
  pb_ExpectedUpdaterPolicyRevision :: int
  pb_ExpectedExecutorPolicyRevision :: int
  pb_ExpectedExecutorPolicySHA256 :: string
  pb_PortPlanSHA256 :: string
  pb_Docker :: "DockerPortMutationGrantBinding option"

definition sharedPortPlan :: "SystemdPortMutationGrantBinding \<Rightarrow> SystemUpdatePortReconfiguration" where
  "sharedPortPlan p =
     \<lparr>sp_PortContractVersion = pb_PortContractVersion p, sp_Mode = pb_Mode p,
      sp_Before = pb_Before p, sp_Target = pb_Target p, sp_Rollback = pb_Rollback p,
      sp_DockerBaseline = pb_DockerBaseline p, sp_NetworkNamespace = pb_NetworkNamespace p,
      sp_Protocol = pb_Protocol p, sp_PortPlanSHA256 = pb_PortPlanSHA256 p,
      sp_OldPort = pb_OldPort p, sp_NewPort = pb_NewPort p,
      sp_ExpectedEndpointRevision = pb_ExpectedEndpointRevision p,
      sp_TargetEndpointRevision = pb_TargetEndpointRevision p,
      sp_ExpectedConfigRevision = pb_ExpectedConfigRevision p,
      sp_TargetConfigRevision = pb_TargetConfigRevision p,
      sp_ExpectedConfigSHA256 = pb_ExpectedConfigSHA256 p, sp_TargetConfigSHA256 = pb_TargetConfigSHA256 p,
      sp_ExpectedSourcePolicyRevision = pb_ExpectedSourcePolicyRevision p,
      sp_ExpectedUpdaterPolicyRevision = pb_ExpectedUpdaterPolicyRevision p,
      sp_ExpectedExecutorPolicyRevision = pb_ExpectedExecutorPolicyRevision p,
      sp_ExpectedExecutorPolicySHA256 = pb_ExpectedExecutorPolicySHA256 p\<rparr>"

definition port_fields_invalid :: "SystemdPortMutationGrantBinding \<Rightarrow> bool" where
  "port_fields_invalid p \<longleftrightarrow>
     pb_NetworkNamespace p \<noteq> systemdPortNetworkNamespaceHost \<or>
     pb_Protocol p \<noteq> systemdPortProtocolTCP \<or>
     pb_OldPort p < 1 \<or> pb_OldPort p > 65535 \<or>
     pb_NewPort p < 1 \<or> pb_NewPort p > 65535 \<or>
     pb_ExpectedEndpointRevision p < 1 \<or>
     pb_TargetEndpointRevision p \<noteq> wrap_int64 (pb_ExpectedEndpointRevision p + 1) \<or>
     pb_ExpectedConfigRevision p < 1 \<or>
     pb_TargetConfigRevision p \<noteq> wrap_int64 (pb_ExpectedConfigRevision p + 1) \<or>
     \<not> MatchString digestPattern (pb_ExpectedConfigSHA256 p) \<or>
     \<not> MatchString digestPattern (pb_TargetConfigSHA256 p) \<or>
     pb_ExpectedConfigSHA256 p = pb_TargetConfigSHA256 p \<or>
     pb_ExpectedSourcePolicyRevision p < 1 \<or>
     pb_ExpectedUpdaterPolicyRevision p < 1 \<or>
     pb_ExpectedExecutorPolicyRevision p < 1 \<or>
     \<not> MatchString digestPattern (pb_ExpectedExecutorPolicySHA256 p) \<or>
     \<not> MatchString mutationPlanHashPattern (pb_PortPlanSHA256 p)"

definition validatePortJobContract :: "externals \<Rightarrow> SystemdPortMutationGrantBinding \<Rightarrow> string \<Rightarrow> go_error option" where
  "validatePortJobContract ex p deploymentMode =
     (if pb_PortContractVersion p \<noteq> 0
      then (if \<not> ex_ValidatePortPlan ex (sharedPortPlan p) \<or>
               (deploymentMode = ModeDocker) \<noteq> (pb_DockerBaseline p \<noteq> None) \<or>
               (deploymentMode \<noteq> ModeDocker \<and> deploymentMode \<noteq> ModeSystemd)
            then errNew ''port v2 reconfiguration immutable fields are invalid'' else None)
      else if port_fields_invalid p
      then errNew ''port reconfiguration immutable fields are invalid''
      else if deploymentMode = ModeSystemd
      then (if pb_Docker p \<noteq> None \<or> \<not> validSystemdPort (pb_OldPort p) \<or>
               \<not> validSystemdPort (pb_NewPort p) \<or> pb_OldPort p = pb_NewPort p
            then errNew ''systemd port job contains Docker-only fields'' else None)
      else if deploymentMode = ModeDocker
      then (case docker_port_validate (pb_Docker p) (pb_ExpectedExecutorPolicyRevision p) of
              Some err \<Rightarrow> Some err
            | None \<Rightarrow>
                let d = the (pb_Docker p) in
                if pb_OldPort p = pb_NewPort p \<and> dp_OldPublishedPort d = dp_NewPublishedPort d \<and>
                   dp_OldContainerPort d = dp_NewContainerPort d
                then errNew ''Docker port job is a no-op'' else None)
      else errNew ''port reconfiguration deployment mode is invalid'')"

record SystemdPortReconfigurePlan =
  pp_PortContractVersion :: int
  pp_Mode :: string
  pp_Before :: "SystemUpdatePortSnapshotRef option"
  pp_Target :: "SystemUpdatePortSnapshotRef option"
  pp_Rollback :: "SystemUpdatePortSnapshotRef option"
  pp_DockerBaseline :: "string option"
  pp_PortIntentSHA256 :: string
  pp_DeploymentMode :: string
  pp_JobID :: string
  pp_HostID :: string
  pp_TargetID :: string
  pp_ServiceType :: string
  pp_NetworkNamespace :: string
  pp_Protocol :: string
  pp_OldPort :: int
  pp_NewPort :: int
  pp_ExpectedEndpointRevision :: int
  pp_TargetEndpointRevision :: int
  pp_ExpectedConfigRevision :: int
  pp_TargetConfigRevision :: int
  pp_ExpectedConfigSHA256 :: string
  pp_TargetConfigSHA256 :: string
  pp_ExpectedSourcePolicyRevision :: int
  pp_ExpectedUpdaterPolicyRevision :: int
  pp_ExpectedExecutorPolicyRevision :: int
  pp_ExpectedExecutorPolicySHA256 :: string
  pp_OwnershipEpoch :: int
  pp_LeaseGeneration :: u64
  pp_SessionID :: string
  pp_PortPlanSHA256 :: string
  pp_Docker :: "DockerPortMutationGrantBinding option"

definition SharedPortPlan :: "SystemdPortReconfigurePlan \<Rightarrow> SystemUpdatePortReconfiguration" where
  "SharedPortPlan p =
     \<lparr>sp_PortContractVersion = pp_PortContractVersion p, sp_Mode = pp_Mode p,
      sp_Before = pp_Before p, sp_Target = pp_Target p, sp_Rollback = pp_Rollback p,
      sp_DockerBaseline = pp_DockerBaseline p, sp_NetworkNamespace = pp_NetworkNamespace p,
      sp_Protocol = pp_Protocol p, sp_PortPlanSHA256 = pp_PortIntentSHA256 p,
      sp_OldPort = 0, sp_NewPort = 0, sp_ExpectedEndpointRevision = 0, sp_TargetEndpointRevision = 0,
      sp_ExpectedConfigRevision = 0, sp_TargetConfigRevision = 0, sp_ExpectedConfigSHA256 = [],
      sp_TargetConfigSHA256 = [], sp_ExpectedSourcePolicyRevision = 0,
      sp_ExpectedUpdaterPolicyRevision = 0, sp_ExpectedExecutorPolicyRevision = 0,
      sp_ExpectedExecutorPolicySHA256 = []\<rparr>"

definition effectiveDeploymentMode :: "SystemdPortReconfigurePlan \<Rightarrow> string" where
  "effectiveDeploymentMode p =
     (if TrimSpace (pp_DeploymentMode p) = [] \<and> pp_Docker p = None then ModeSystemd
      else TrimSpace (pp_DeploymentMode p))"

text \<open>What the legacy plan and its digest both require.\<close>

definition port_plan_incomplete :: "SystemdPortReconfigurePlan \<Rightarrow> bool" where
  "port_plan_incomplete p \<longleftrightarrow>
     \<not> MatchString identifierPattern (pp_JobID p) \<or>
     \<not> validExecutionHostID (pp_HostID p) \<or>
     \<not> MatchString identifierPattern (pp_TargetID p) \<or>
     \<not> validSystemdPortServiceType (pp_ServiceType p) \<or>
     pp_NetworkNamespace p \<noteq> systemdPortNetworkNamespaceHost \<or>
     pp_Protocol p \<noteq> systemdPortProtocolTCP \<or>
     pp_OldPort p < 1 \<or> pp_OldPort p > 65535 \<or>
     pp_NewPort p < 1 \<or> pp_NewPort p > 65535 \<or>
     pp_ExpectedEndpointRevision p < 1 \<or>
     pp_ExpectedEndpointRevision p \<ge> math_MaxInt64 - 1 \<or>
     pp_TargetEndpointRevision p \<noteq> wrap_int64 (pp_ExpectedEndpointRevision p + 1) \<or>
     pp_ExpectedConfigRevision p < 1 \<or>
     pp_TargetConfigRevision p \<noteq> wrap_int64 (pp_ExpectedConfigRevision p + 1) \<or>
     \<not> MatchString digestPattern (pp_ExpectedConfigSHA256 p) \<or>
     \<not> MatchString digestPattern (pp_TargetConfigSHA256 p) \<or>
     pp_ExpectedSourcePolicyRevision p < 1 \<or>
     pp_ExpectedUpdaterPolicyRevision p < 1 \<or>
     pp_ExpectedExecutorPolicyRevision p < 1 \<or>
     \<not> MatchString digestPattern (pp_ExpectedExecutorPolicySHA256 p) \<or>
     pp_OwnershipEpoch p < 1 \<or>
     pp_LeaseGeneration p = 0 \<or>
     \<not> MatchString mutationSessionPattern (pp_SessionID p)"

definition docker_noop :: "SystemdPortReconfigurePlan \<Rightarrow> DockerPortMutationGrantBinding \<Rightarrow> bool" where
  "docker_noop p d \<longleftrightarrow> pp_OldPort p = pp_NewPort p \<and> dp_OldPublishedPort d = dp_NewPublishedPort d \<and>
     dp_OldContainerPort d = dp_NewContainerPort d"

definition docker_plan_json :: "SystemdPortReconfigurePlan \<Rightarrow> DockerPortMutationGrantBinding \<Rightarrow> json" where
  "docker_plan_json p d = JObj
     [(''schema_version'', JInt 2), (''job_id'', JStr (pp_JobID p)), (''host_id'', JStr (pp_HostID p)),
      (''target_id'', JStr (pp_TargetID p)), (''service_type'', JStr (pp_ServiceType p)),
      (''network_namespace'', JStr (pp_NetworkNamespace p)), (''protocol'', JStr (pp_Protocol p)),
      (''old_advertised_port'', JInt (pp_OldPort p)), (''new_advertised_port'', JInt (pp_NewPort p)),
      (''published_host_ip'', JStr (dp_PublishedHostIP d)),
      (''old_published_port'', JInt (dp_OldPublishedPort d)),
      (''new_published_port'', JInt (dp_NewPublishedPort d)),
      (''old_container_port'', JInt (dp_OldContainerPort d)),
      (''new_container_port'', JInt (dp_NewContainerPort d)),
      (''old_health_port'', JInt (dp_OldHealthPort d)), (''new_health_port'', JInt (dp_NewHealthPort d)),
      (''expected_endpoint_revision'', JInt (pp_ExpectedEndpointRevision p)),
      (''target_endpoint_revision'', JInt (pp_TargetEndpointRevision p)),
      (''expected_config_revision'', JInt (pp_ExpectedConfigRevision p)),
      (''target_config_revision'', JInt (pp_TargetConfigRevision p)),
      (''expected_config_sha256'', JStr (pp_ExpectedConfigSHA256 p)),
      (''target_config_sha256'', JStr (pp_TargetConfigSHA256 p)),
      (''approved_compose_config_sha256'', JStr (dp_ApprovedComposeConfigSHA256 d)),
      (''approved_compose_revision'', JInt (dp_ApprovedComposeRevision d)),
      (''expected_version_env_sha256'', JStr (dp_ExpectedVersionEnvSHA256 d)),
      (''expected_container_id'', JStr (dp_ExpectedContainerID d)),
      (''expected_image_id'', JStr (dp_ExpectedImageID d)),
      (''expected_repository_digest'', JStr (dp_ExpectedRepositoryDigest d)),
      (''expected_source_policy_revision'', JInt (pp_ExpectedSourcePolicyRevision p)),
      (''expected_updater_policy_revision'', JInt (pp_ExpectedUpdaterPolicyRevision p)),
      (''expected_executor_policy_revision'', JInt (pp_ExpectedExecutorPolicyRevision p)),
      (''expected_executor_policy_sha256'', JStr (pp_ExpectedExecutorPolicySHA256 p)),
      (''ownership_epoch'', JInt (pp_OwnershipEpoch p)),
      (''lease_generation'', JInt (uint (pp_LeaseGeneration p))), (''session_id'', JStr (pp_SessionID p))]"

definition systemd_plan_json :: "SystemdPortReconfigurePlan \<Rightarrow> json" where
  "systemd_plan_json p = JObj
     [(''schema_version'', JInt 1), (''job_id'', JStr (pp_JobID p)), (''host_id'', JStr (pp_HostID p)),
      (''target_id'', JStr (pp_TargetID p)), (''service_type'', JStr (pp_ServiceType p)),
      (''network_namespace'', JStr (pp_NetworkNamespace p)), (''protocol'', JStr (pp_Protocol p)),
      (''old_port'', JInt (pp_OldPort p)), (''new_port'', JInt (pp_NewPort p)),
      (''expected_endpoint_revision'', JInt (pp_ExpectedEndpointRevision p)),
      (''target_endpoint_revision'', JInt (pp_TargetEndpointRevision p)),
      (''expected_config_revision'', JInt (pp_ExpectedConfigRevision p)),
      (''target_config_revision'', JInt (pp_TargetConfigRevision p)),
      (''expected_config_sha256'', JStr (pp_ExpectedConfigSHA256 p)),
      (''target_config_sha256'', JStr (pp_TargetConfigSHA256 p)),
      (''expected_source_policy_revision'', JInt (pp_ExpectedSourcePolicyRevision p)),
      (''expected_updater_policy_revision'', JInt (pp_ExpectedUpdaterPolicyRevision p)),
      (''expected_executor_policy_revision'', JInt (pp_ExpectedExecutorPolicyRevision p)),
      (''expected_executor_policy_sha256'', JStr (pp_ExpectedExecutorPolicySHA256 p)),
      (''ownership_epoch'', JInt (pp_OwnershipEpoch p)),
      (''lease_generation'', JInt (uint (pp_LeaseGeneration p))), (''session_id'', JStr (pp_SessionID p))]"

definition ComputePortPlanSHA256 :: "externals \<Rightarrow> SystemdPortReconfigurePlan \<Rightarrow> string result" where
  "ComputePortPlanSHA256 ex p =
     (if pp_PortContractVersion p = 2
      then ex_RuntimePlanSHA256 ex (SharedPortPlan p) (pp_JobID p) (pp_HostID p) (pp_TargetID p)
        (pp_ServiceType p) (pp_OwnershipEpoch p) (pp_LeaseGeneration p) (pp_SessionID p)
      else if port_plan_incomplete p
      then Inl (NewErr ''systemd port plan is incomplete'')
      else if effectiveDeploymentMode p = ModeDocker
      then (if pp_DeploymentMode p \<noteq> ModeDocker \<or>
               docker_port_validate (pp_Docker p) (pp_ExpectedExecutorPolicyRevision p) \<noteq> None
            then Inl (NewErr ''Docker port plan is incomplete'')
            else if docker_noop p (the (pp_Docker p))
            then Inl (NewErr ''Docker port plan is a no-op'')
            else Inr (sha256_hex (marshal (docker_plan_json p (the (pp_Docker p))))))
      else if effectiveDeploymentMode p \<noteq> ModeSystemd \<or> pp_Docker p \<noteq> None \<or>
         \<not> validSystemdPort (pp_OldPort p) \<or> \<not> validSystemdPort (pp_NewPort p) \<or> pp_OldPort p = pp_NewPort p
      then Inl (NewErr ''systemd port plan deployment mode is invalid'')
      else Inr (sha256_hex (marshal (systemd_plan_json p))))"

definition plan_validatePortV2 :: "externals \<Rightarrow> SystemdPortReconfigurePlan \<Rightarrow> go_error option" where
  "plan_validatePortV2 ex p =
     (if pp_PortContractVersion p \<noteq> 2 \<or> \<not> MatchString identifierPattern (pp_JobID p) \<or>
         \<not> validExecutionHostID (pp_HostID p) \<or> \<not> MatchString identifierPattern (pp_TargetID p) \<or>
         \<not> validSystemdPortServiceType (pp_ServiceType p) \<or> pp_OwnershipEpoch p < 1 \<or>
         pp_LeaseGeneration p = 0 \<or> \<not> MatchString mutationSessionPattern (pp_SessionID p) \<or>
         pp_OldPort p \<noteq> 0 \<or> pp_NewPort p \<noteq> 0 \<or> pp_ExpectedEndpointRevision p \<noteq> 0 \<or>
         pp_TargetEndpointRevision p \<noteq> 0 \<or> pp_ExpectedConfigRevision p \<noteq> 0 \<or>
         pp_TargetConfigRevision p \<noteq> 0 \<or> pp_ExpectedConfigSHA256 p \<noteq> [] \<or>
         pp_TargetConfigSHA256 p \<noteq> [] \<or> pp_ExpectedSourcePolicyRevision p \<noteq> 0 \<or>
         pp_ExpectedUpdaterPolicyRevision p \<noteq> 0 \<or> pp_ExpectedExecutorPolicyRevision p \<noteq> 0 \<or>
         pp_ExpectedExecutorPolicySHA256 p \<noteq> [] \<or> pp_Docker p \<noteq> None
      then errNew ''versioned port plan contains an invalid identity or legacy authority''
      else if \<not> ex_ValidatePortPlan ex (SharedPortPlan p)
      then errNew ''versioned port snapshot plan is invalid''
      else if (pp_DeploymentMode p \<noteq> ModeSystemd \<and> pp_DeploymentMode p \<noteq> ModeDocker) \<or>
         (pp_DeploymentMode p = ModeDocker) \<noteq> (sn_Docker (the (pp_Before p)) \<noteq> None)
      then errNew ''versioned port deployment mode is invalid''
      else if ComputePortPlanSHA256 ex p \<noteq> Inr (pp_PortPlanSHA256 p)
      then errNew ''versioned port runtime plan digest mismatch'' else None)"

definition SystemdPortReconfigurePlan_Validate :: "externals \<Rightarrow> SystemdPortReconfigurePlan \<Rightarrow> go_error option" where
  "SystemdPortReconfigurePlan_Validate ex p =
     (if pp_PortContractVersion p \<noteq> 0 then plan_validatePortV2 ex p
      else if pp_Before p \<noteq> None \<or> pp_Target p \<noteq> None \<or> pp_Rollback p \<noteq> None \<or>
         pp_DockerBaseline p \<noteq> None \<or> pp_Mode p \<noteq> [] \<or> pp_PortIntentSHA256 p \<noteq> []
      then errNew ''legacy port plan contains versioned fields''
      else if \<not> MatchString identifierPattern (pp_JobID p) \<or> \<not> validExecutionHostID (pp_HostID p) \<or>
         \<not> MatchString identifierPattern (pp_TargetID p) \<or> \<not> validSystemdPortServiceType (pp_ServiceType p)
      then errNew ''systemd port plan identity is invalid''
      else if pp_NetworkNamespace p \<noteq> systemdPortNetworkNamespaceHost \<or> pp_Protocol p \<noteq> systemdPortProtocolTCP
      then errNew ''systemd port plan network binding is invalid''
      else if pp_OldPort p < 1 \<or> pp_OldPort p > 65535 \<or> pp_NewPort p < 1 \<or> pp_NewPort p > 65535
      then errNew ''systemd port plan port range is invalid''
      else if pp_ExpectedEndpointRevision p < 1 \<or> pp_ExpectedEndpointRevision p \<ge> math_MaxInt64 - 1 \<or>
         pp_TargetEndpointRevision p \<noteq> wrap_int64 (pp_ExpectedEndpointRevision p + 1) \<or>
         pp_ExpectedConfigRevision p < 1 \<or>
         pp_TargetConfigRevision p \<noteq> wrap_int64 (pp_ExpectedConfigRevision p + 1)
      then errNew ''systemd port plan revision transition is invalid''
      else if \<not> MatchString digestPattern (pp_ExpectedConfigSHA256 p) \<or>
         \<not> MatchString digestPattern (pp_TargetConfigSHA256 p) \<or>
         pp_ExpectedConfigSHA256 p = pp_TargetConfigSHA256 p
      then errNew ''systemd port plan config digest is invalid''
      else if pp_ExpectedSourcePolicyRevision p < 1 \<or> pp_ExpectedUpdaterPolicyRevision p < 1 \<or>
         pp_ExpectedExecutorPolicyRevision p < 1 \<or>
         \<not> MatchString digestPattern (pp_ExpectedExecutorPolicySHA256 p) \<or>
         pp_OwnershipEpoch p < 1 \<or> pp_LeaseGeneration p = 0
      then errNew ''systemd port plan policy fence is invalid''
      else if \<not> MatchString mutationSessionPattern (pp_SessionID p) \<or>
         \<not> MatchString mutationPlanHashPattern (pp_PortPlanSHA256 p)
      then errNew ''systemd port plan authorization binding is invalid''
      else if effectiveDeploymentMode p = ModeSystemd \<and>
         (pp_Docker p \<noteq> None \<or> \<not> validSystemdPort (pp_OldPort p) \<or> \<not> validSystemdPort (pp_NewPort p) \<or>
          pp_OldPort p = pp_NewPort p)
      then errNew ''systemd port plan contains Docker-only fields''
      else if effectiveDeploymentMode p = ModeDocker \<and>
         (pp_DeploymentMode p \<noteq> ModeDocker \<or>
          docker_port_validate (pp_Docker p) (pp_ExpectedExecutorPolicyRevision p) \<noteq> None)
      then errNew ''Docker port plan runtime baseline is invalid''
      else if effectiveDeploymentMode p = ModeDocker \<and> docker_noop p (the (pp_Docker p))
      then errNew ''Docker port plan is a no-op''
      else if effectiveDeploymentMode p \<noteq> ModeSystemd \<and> effectiveDeploymentMode p \<noteq> ModeDocker
      then errNew ''port plan deployment mode is invalid''
      else if ComputePortPlanSHA256 ex p \<noteq> Inr (pp_PortPlanSHA256 p)
      then errNew ''systemd port plan digest does not match its immutable fields'' else None)"

end
