(* ===== verification/Claims.thy ===== *)
theory Claims
  imports Jobs
begin

text \<open>
  Update jobs as the host agent claims them (\<open>panel.go\<close>, \<open>agent_port_contract.go\<close>,
  \<open>agent_port_policy.go\<close>, \<open>software_claim_binding.go\<close>, \<open>software_claim_snapshot.go\<close>,
  \<open>host_pull_claim_validation.go\<close>, \<open>stage_failure.go\<close>, \<open>systemd_port_result.go\<close>): the operation a
  job carries, what a claim must agree with in the policy, and when a recovered job is the one
  that was saved. The functions that clone a job, a report, a plan or a result copy every field,
  so at the level of values they are the identity.
\<close>

section \<open>Results of a port change\<close>

record DockerPortReconfigureResultState =
  ds_AppliedPublishedPort :: int
  ds_AppliedContainerPort :: int
  ds_AppliedHealthPort :: int
  ds_ComposeConfigSHA256 :: string

record SystemdPortReconfigureResult =
  rr_PortContractVersion :: int
  rr_PortResult :: "SystemUpdatePortResultV2 option"
  rr_RecoveryRequired :: bool
  rr_DeploymentMode :: string
  rr_Status :: string
  rr_Result :: string
  rr_StateKnown :: bool
  rr_OldPort :: int
  rr_NewPort :: int
  rr_AppliedPort :: int
  rr_EndpointRevision :: int
  rr_ConfigRevision :: int
  rr_ConfigSHA256 :: string
  rr_Message :: string
  rr_Docker :: "DockerPortReconfigureResultState option"

definition asserts_snapshot :: "SystemUpdatePortResultV2 \<Rightarrow> bool" where
  "asserts_snapshot p \<longleftrightarrow> pr_ObservedSnapshotID p \<noteq> [] \<or> pr_ObservedSnapshotSHA256 p \<noteq> [] \<or>
     pr_ObservedConfigRevision p \<noteq> 0 \<or> pr_ObservedConfigSHA256 p \<noteq> [] \<or>
     pr_ObservedExecutorPolicyRevision p \<noteq> 0 \<or> pr_ObservedExecutorPolicySHA256 p \<noteq> [] \<or>
     pr_RuntimeInstance p \<noteq> None"

definition result_validatePortV2 :: "SystemdPortReconfigureResult \<Rightarrow> go_error option" where
  "result_validatePortV2 r =
     (case rr_PortResult r of
        None \<Rightarrow> errNew ''versioned port result is invalid''
      | Some p \<Rightarrow>
          if rr_PortContractVersion r \<noteq> 2 \<or> \<not> safeExecutorMessage (rr_Message r) \<or>
             pr_Result p \<noteq> rr_Result r \<or> IsZero (pr_ObservedAt p)
          then errNew ''versioned port result is invalid''
          else if rr_Result r = systemdPortResultRollbackFailed
          then (if rr_Status r \<noteq> ''failed'' \<or> rr_StateKnown r \<or> \<not> rr_RecoveryRequired r \<or> asserts_snapshot p
                then errNew ''failed recovery must not assert an accepted snapshot'' else None)
          else if (rr_Result r \<noteq> systemdPortResultApplied \<and> rr_Result r \<noteq> systemdPortResultUnchanged \<and>
                   rr_Result r \<noteq> systemdPortResultRolledBack) \<or>
             \<not> rr_StateKnown r \<or> rr_RecoveryRequired r \<or>
             (rr_Result r = systemdPortResultRolledBack \<and> rr_Status r \<noteq> ''rolled_back'') \<or>
             (rr_Result r \<noteq> systemdPortResultRolledBack \<and> rr_Status r \<noteq> ''succeeded'') \<or>
             \<not> pr_PolicyDiskVerified p \<or> \<not> pr_PolicyMemoryVerified p \<or> \<not> pr_ListenerVerified p \<or>
             \<not> MatchString digestPattern (pr_ObservedConfigSHA256 p) \<or>
             \<not> MatchString digestPattern (pr_ObservedExecutorPolicySHA256 p) \<or>
             pr_ObservedConfigRevision p < 1 \<or> pr_ObservedExecutorPolicyRevision p < 1
          then errNew ''versioned port result lacks exact root observation'' else None)"

definition result_mode_check :: "SystemdPortReconfigureResult \<Rightarrow> string \<Rightarrow> go_error option" where
  "result_mode_check r mode =
     (if mode = ModeSystemd
      then (if rr_Docker r \<noteq> None \<or> \<not> validSystemdPort (rr_OldPort r) \<or> \<not> validSystemdPort (rr_NewPort r) \<or>
               rr_OldPort r = rr_NewPort r
            then errNew ''systemd port result is invalid'' else None)
      else if mode = ModeDocker
      then (if rr_DeploymentMode r \<noteq> ModeDocker then errNew ''Docker port result mode is invalid''
            else if rr_Result r = systemdPortResultRollbackFailed
            then (if rr_Docker r \<noteq> None then errNew ''unknown Docker port result contains applied mapping'' else None)
            else case rr_Docker r of
                None \<Rightarrow> errNew ''Docker port result mapping is invalid''
              | Some d \<Rightarrow>
                  if \<not> validSystemdPort (ds_AppliedPublishedPort d) \<or> \<not> validSystemdPort (ds_AppliedContainerPort d) \<or>
                     ds_AppliedHealthPort d \<noteq> ds_AppliedPublishedPort d \<or>
                     \<not> MatchString mutationPlanHashPattern (ds_ComposeConfigSHA256 d)
                  then errNew ''Docker port result mapping is invalid'' else None)
      else errNew ''port result deployment mode is invalid'')"

definition result_kind_check :: "SystemdPortReconfigureResult \<Rightarrow> go_error option" where
  "result_kind_check r =
     (if rr_Result r = systemdPortResultApplied
      then (if rr_Status r \<noteq> ''succeeded'' \<or> \<not> rr_StateKnown r \<or> rr_AppliedPort r \<noteq> rr_NewPort r \<or>
               rr_EndpointRevision r < 1 \<or> rr_ConfigRevision r < 1 \<or> \<not> MatchString digestPattern (rr_ConfigSHA256 r)
            then errNew ''applied systemd port result is invalid'' else None)
      else if rr_Result r = systemdPortResultRolledBack
      then (if rr_Status r \<noteq> ''rolled_back'' \<or> \<not> rr_StateKnown r \<or> rr_AppliedPort r \<noteq> rr_OldPort r \<or>
               rr_EndpointRevision r < 1 \<or> rr_ConfigRevision r < 1 \<or> \<not> MatchString digestPattern (rr_ConfigSHA256 r)
            then errNew ''rolled back systemd port result is invalid'' else None)
      else if rr_Result r = systemdPortResultUnchanged
      then (if rr_Status r \<noteq> ''succeeded'' \<or> \<not> rr_StateKnown r \<or> rr_AppliedPort r \<noteq> rr_OldPort r \<or>
               rr_EndpointRevision r < 1 \<or> rr_ConfigRevision r < 1 \<or> \<not> MatchString digestPattern (rr_ConfigSHA256 r)
            then errNew ''unchanged systemd port result is invalid'' else None)
      else if rr_Result r = systemdPortResultRollbackFailed
      then (if rr_Status r \<noteq> ''failed'' \<or> rr_StateKnown r \<or> rr_AppliedPort r \<noteq> 0 \<or>
               rr_EndpointRevision r < 1 \<or> rr_ConfigRevision r \<noteq> 0 \<or> rr_ConfigSHA256 r \<noteq> []
            then errNew ''failed systemd port rollback result is invalid'' else None)
      else errNew ''systemd port result kind is invalid'')"

definition SystemdPortReconfigureResult_Validate :: "SystemdPortReconfigureResult \<Rightarrow> go_error option" where
  "SystemdPortReconfigureResult_Validate r =
     (if rr_PortContractVersion r \<noteq> 0 then result_validatePortV2 r
      else if rr_PortResult r \<noteq> None \<or> rr_RecoveryRequired r
      then errNew ''legacy port result contains versioned fields''
      else
        let mode = (if TrimSpace (rr_DeploymentMode r) = [] then ModeSystemd else TrimSpace (rr_DeploymentMode r)) in
        if rr_OldPort r < 1 \<or> rr_OldPort r > 65535 \<or> rr_NewPort r < 1 \<or> rr_NewPort r > 65535 \<or>
           \<not> safeExecutorMessage (rr_Message r)
        then errNew ''systemd port result is invalid''
        else case result_mode_check r mode of Some err \<Rightarrow> Some err | None \<Rightarrow> result_kind_check r)"

section \<open>Stage failures\<close>

record stageFailureRecord =
  sf_JobID :: string
  sf_Code :: string
  sf_Message :: string

definition stageFailureRecord_validate :: "stageFailureRecord \<Rightarrow> go_error option" where
  "stageFailureRecord_validate f =
     (if \<not> MatchString identifierPattern (TrimSpace (sf_JobID f))
      then errNew ''stage failure job identity is invalid''
      else if sf_Code f = ''release_staging_failed'' \<and> sf_Message f \<noteq> ''release staging failed'' \<and>
         sf_Message f \<noteq> ''candidate binary smoke check failed''
      then errNew ''generic stage failure message is invalid''
      else if sf_Code f = ''candidate_binary_smoke_execution_failed'' \<and>
         sf_Message f \<noteq> ''candidate binary smoke execution failed''
      then errNew ''smoke execution failure message is invalid''
      else if sf_Code f = ''candidate_binary_version_mismatch'' \<and>
         sf_Message f \<noteq> ''candidate binary version output mismatch''
      then errNew ''version mismatch failure message is invalid''
      else if sf_Code f \<notin> {''release_staging_failed'', ''candidate_binary_smoke_execution_failed'',
         ''candidate_binary_version_mismatch''}
      then errNew ''stage failure code is invalid''
      else if \<not> safeExecutorMessage (sf_Message f)
      then errNew ''stage failure message is invalid'' else None)"

definition reportCode :: "stageFailureRecord \<Rightarrow> string" where
  "reportCode f =
     (if sf_Code f = ''candidate_binary_smoke_execution_failed'' then ''remote_stage_smoke_execution_failed''
      else if sf_Code f = ''candidate_binary_version_mismatch'' then ''remote_stage_version_mismatch''
      else ''remote_stage_failed'')"

text \<open>The error of the executor client, when it is one, by its code and message.\<close>

definition stageFailureFromLocalExecutorError :: "string \<Rightarrow> (string \<times> string) option \<Rightarrow> stageFailureRecord option" where
  "stageFailureFromLocalExecutorError jobID err =
     (case err of None \<Rightarrow> None | Some (code, message) \<Rightarrow>
        if code \<noteq> ''stage_failed'' then None
        else
          let m = TrimSpace message in
          Some (if m = ''candidate binary smoke execution failed''
                then \<lparr>sf_JobID = jobID, sf_Code = ''candidate_binary_smoke_execution_failed'', sf_Message = m\<rparr>
                else if m = ''candidate binary version output mismatch''
                then \<lparr>sf_JobID = jobID, sf_Code = ''candidate_binary_version_mismatch'', sf_Message = m\<rparr>
                else \<lparr>sf_JobID = jobID, sf_Code = ''release_staging_failed'',
                  sf_Message = (if m = ''candidate binary smoke check failed'' then m else ''release staging failed'')\<rparr>))"

section \<open>Jobs and reports\<close>

abbreviation "updateJobOperationSoftwareUpdate \<equiv> ''software_update''"
abbreviation "updateJobOperationPortReconfigure \<equiv> ''port_reconfigure''"
abbreviation "updateJobOperationBootstrap \<equiv> ''bootstrap''"
abbreviation "updateJobOperationHostSelfUpdate \<equiv> ''host_self_update''"

record UpdateJob =
  uj_ProtocolVersion :: int
  uj_CommandID :: string
  uj_ID :: string
  uj_Operation :: string
  uj_PortReconfigure :: "SystemdPortMutationGrantBinding option"
  uj_PortResult :: "SystemUpdatePortResultV2 option"
  uj_LastRecoveryObservation :: "SystemUpdatePortResultV2 option"
  uj_AgentServiceID :: string
  uj_HostID :: string
  uj_TransportMode :: string
  uj_OwnershipEpoch :: int
  uj_PolicyRevision :: int
  uj_SoftwareUpdate :: "SoftwareUpdateJobBinding option"
  uj_SoftwareClaimRejected :: bool
  uj_TargetID :: string
  uj_TargetType :: string
  uj_ServiceType :: string
  uj_DeploymentMode :: string
  uj_CurrentVersion :: string
  uj_TargetVersion :: string
  uj_Version :: string
  uj_LeaseToken :: string
  uj_ReleaseToken :: string
  uj_LeaseExpiresAt :: string
  uj_Status :: string
  uj_Progress :: int
  uj_Code :: string
  uj_Message :: string
  uj_ArtifactDigest :: string
  uj_PreviousDigest :: string
  uj_Sequence :: u64
  uj_ReportSequence :: u64
  uj_LeaseGeneration :: u64
  uj_RecoveryRequired :: bool
  uj_RecoveryClear :: bool

record JobReport =
  jr_ServiceID :: string
  jr_LeaseToken :: string
  jr_Sequence :: u64
  jr_LeaseGeneration :: u64
  jr_Status :: string
  jr_Progress :: int
  jr_Code :: string
  jr_Message :: string
  jr_ArtifactDigest :: string
  jr_PreviousDigest :: string
  jr_PortReconfigure :: "SystemUpdatePortResultV2 option"

definition EffectiveOperation :: "UpdateJob \<Rightarrow> string" where
  "EffectiveOperation j =
     (let operation = TrimSpace (uj_Operation j) in
      if operation = [] then updateJobOperationSoftwareUpdate else operation)"

definition EffectiveVersion :: "UpdateJob \<Rightarrow> string" where
  "EffectiveVersion j =
     (if TrimSpace (uj_TargetVersion j) \<noteq> [] then TrimSpace (uj_TargetVersion j) else TrimSpace (uj_Version j))"

definition EffectiveType :: "UpdateJob \<Rightarrow> string" where
  "EffectiveType j =
     (if TrimSpace (uj_ServiceType j) \<noteq> [] then TrimSpace (uj_ServiceType j) else TrimSpace (uj_TargetType j))"

definition validateOperationUnion :: "externals \<Rightarrow> UpdateJob \<Rightarrow> go_error option" where
  "validateOperationUnion ex j =
     (if EffectiveOperation j \<noteq> updateJobOperationSoftwareUpdate \<and>
         (uj_SoftwareUpdate j \<noteq> None \<or> uj_SoftwareClaimRejected j)
      then errNew ''non-software job unexpectedly contains a software authority''
      else if EffectiveOperation j = updateJobOperationSoftwareUpdate
      then (if uj_PortReconfigure j \<noteq> None
            then errNew ''software update job unexpectedly contains a port plan'' else None)
      else if EffectiveOperation j = updateJobOperationPortReconfigure
      then (case uj_PortReconfigure j of
              None \<Rightarrow> errNew ''port reconfiguration job contract is invalid''
            | Some port \<Rightarrow>
                if uj_Operation j \<noteq> updateJobOperationPortReconfigure \<or>
                   validatePortJobContract ex port (uj_DeploymentMode j) \<noteq> None
                then errNew ''port reconfiguration job contract is invalid'' else None)
      else if EffectiveOperation j = updateJobOperationBootstrap \<or>
         EffectiveOperation j = updateJobOperationHostSelfUpdate
      then (if uj_ProtocolVersion j \<noteq> 2 \<or> uj_PortReconfigure j \<noteq> None
            then errNew ''v2 updater job contract is invalid'' else None)
      else errNew ''update job operation is invalid'')"

definition isV2SoftwareJob :: "UpdateJob \<Rightarrow> bool" where
  "isV2SoftwareJob job \<longleftrightarrow> uj_ProtocolVersion job = 2 \<and> EffectiveOperation job = updateJobOperationSoftwareUpdate"

definition isPortContractV2 :: "UpdateJob \<Rightarrow> bool" where
  "isPortContractV2 job \<longleftrightarrow> uj_ProtocolVersion job = 2 \<and>
     EffectiveOperation job = updateJobOperationPortReconfigure \<and>
     (case uj_PortReconfigure job of None \<Rightarrow> False | Some port \<Rightarrow> pb_PortContractVersion port = 2)"

text \<open>
  A legacy binding is compared with \<open>==\<close>, which compares the snapshots and the baseline by
  address: two different bindings are equal only when both lack them.
\<close>

definition samePortMutationGrantBinding ::
  "SystemdPortMutationGrantBinding option \<Rightarrow> SystemdPortMutationGrantBinding option \<Rightarrow> bool" where
  "samePortMutationGrantBinding left right =
     (case (left, right) of
        (Some l, Some r) \<Rightarrow>
          if pb_PortContractVersion l \<noteq> 0 \<or> pb_PortContractVersion r \<noteq> 0 then l = r
          else pb_Before l = None \<and> pb_Before r = None \<and> pb_Target l = None \<and> pb_Target r = None \<and>
            pb_Rollback l = None \<and> pb_Rollback r = None \<and> pb_DockerBaseline l = None \<and>
            pb_DockerBaseline r = None \<and> l = r
      | _ \<Rightarrow> left = None \<and> right = None)"

definition sameRecoveredJobLease :: "externals \<Rightarrow> UpdateJob \<Rightarrow> UpdateJob \<Rightarrow> bool" where
  "sameRecoveredJobLease ex active recovered =
     (if uj_ProtocolVersion active \<noteq> 2 \<or> uj_ProtocolVersion recovered \<noteq> 2 \<or>
         ((\<not> isPortContractV2 active \<or> \<not> isPortContractV2 recovered) \<and>
          (\<not> isV2SoftwareJob active \<or> \<not> isV2SoftwareJob recovered))
      then uj_CommandID active = uj_CommandID recovered
      else if uj_LeaseGeneration active = uj_LeaseGeneration recovered
      then uj_CommandID active = uj_CommandID recovered \<and> uj_LeaseExpiresAt active = uj_LeaseExpiresAt recovered
      else if \<not> uj_RecoveryRequired recovered \<or> uj_LeaseGeneration active = 0 \<or>
         uint (uj_LeaseGeneration active) \<ge> math_MaxInt64 \<or>
         uj_LeaseGeneration recovered \<noteq> uj_LeaseGeneration active + 1 \<or>
         uj_CommandID active = uj_CommandID recovered \<or>
         \<not> MatchString identifierPattern (uj_CommandID active) \<or>
         \<not> MatchString identifierPattern (uj_CommandID recovered)
      then False
      else case (ex_time_Parse ex (uj_LeaseExpiresAt active), ex_time_Parse ex (uj_LeaseExpiresAt recovered)) of
          (Some activeExpiry, Some recoveredExpiry) \<Rightarrow> \<not> IsZero activeExpiry \<and> \<not> IsZero recoveredExpiry
        | _ \<Rightarrow> False)"

text \<open>Whether a new software lease lacks the frozen authority both jobs need.\<close>

definition unfrozen_lease :: "UpdateJob \<Rightarrow> UpdateJob \<Rightarrow> bool" where
  "unfrozen_lease active recovered \<longleftrightarrow>
     isV2SoftwareJob active \<and>
     (uj_LeaseGeneration active \<noteq> uj_LeaseGeneration recovered \<or> uj_CommandID active \<noteq> uj_CommandID recovered) \<and>
     (uj_SoftwareClaimRejected active \<or>
      (case (uj_SoftwareUpdate active, uj_SoftwareUpdate recovered) of
         (Some a, Some r) \<Rightarrow>
           SoftwareUpdateJobBinding_Validate a \<noteq> None \<or> SoftwareUpdateJobBinding_Validate r \<noteq> None \<or>
           uj_PolicyRevision active \<noteq> sb_ProjectionRevision a \<or>
           uj_PolicyRevision recovered \<noteq> sb_ProjectionRevision r
       | _ \<Rightarrow> True))"

definition sameRecoveredJobIntent :: "externals \<Rightarrow> UpdateJob \<Rightarrow> UpdateJob \<Rightarrow> bool" where
  "sameRecoveredJobIntent ex active recovered =
     (if uj_ProtocolVersion active \<noteq> uj_ProtocolVersion recovered \<or>
         \<not> sameRecoveredJobLease ex active recovered \<or>
         uj_ID active \<noteq> uj_ID recovered \<or>
         uj_Operation active \<noteq> uj_Operation recovered \<or>
         uj_AgentServiceID active \<noteq> uj_AgentServiceID recovered \<or>
         uj_HostID active \<noteq> uj_HostID recovered \<or>
         uj_TransportMode active \<noteq> uj_TransportMode recovered \<or>
         uj_OwnershipEpoch active \<noteq> uj_OwnershipEpoch recovered \<or>
         uj_PolicyRevision active \<noteq> uj_PolicyRevision recovered \<or>
         uj_TargetID active \<noteq> uj_TargetID recovered \<or>
         uj_TargetType active \<noteq> uj_TargetType recovered \<or>
         uj_ServiceType active \<noteq> uj_ServiceType recovered \<or>
         uj_DeploymentMode active \<noteq> uj_DeploymentMode recovered \<or>
         uj_CurrentVersion active \<noteq> uj_CurrentVersion recovered \<or>
         uj_TargetVersion active \<noteq> uj_TargetVersion recovered \<or>
         uj_Version active \<noteq> uj_Version recovered
      then False
      else if EffectiveOperation active = updateJobOperationSoftwareUpdate
      then (if uj_SoftwareClaimRejected active \<noteq> uj_SoftwareClaimRejected recovered \<or>
               uj_PortReconfigure active \<noteq> None \<or> uj_PortReconfigure recovered \<noteq> None
            then False
            else if unfrozen_lease active recovered then False
            else uj_SoftwareUpdate active = uj_SoftwareUpdate recovered)
      else samePortMutationGrantBinding (uj_PortReconfigure active) (uj_PortReconfigure recovered))"

definition sameSoftwareJobIdentity :: "UpdateJob \<Rightarrow> UpdateJob \<Rightarrow> bool" where
  "sameSoftwareJobIdentity left right \<longleftrightarrow>
     isV2SoftwareJob left \<and> isV2SoftwareJob right \<and> uj_ID left = uj_ID right \<and>
     uj_Operation left = uj_Operation right \<and> uj_AgentServiceID left = uj_AgentServiceID right \<and>
     uj_HostID left = uj_HostID right \<and> uj_TransportMode left = uj_TransportMode right \<and>
     uj_OwnershipEpoch left = uj_OwnershipEpoch right \<and> uj_TargetID left = uj_TargetID right \<and>
     uj_TargetType left = uj_TargetType right \<and> uj_ServiceType left = uj_ServiceType right \<and>
     uj_DeploymentMode left = uj_DeploymentMode right \<and> uj_CurrentVersion left = uj_CurrentVersion right \<and>
     uj_TargetVersion left = uj_TargetVersion right \<and> uj_Version left = uj_Version right \<and>
     uj_PortReconfigure left = None \<and> uj_PortReconfigure right = None"

section \<open>What a claim must agree with\<close>

definition softwareClaimIdentityMatches ::
  "UpdateJob \<Rightarrow> string \<Rightarrow> HostAgentBinding \<Rightarrow> HostAgentPolicy \<Rightarrow> bool" where
  "softwareClaimIdentityMatches job updaterID binding policy \<longleftrightarrow>
     isV2SoftwareJob job \<and> uj_ID job \<noteq> [] \<and> uj_AgentServiceID job = updaterID \<and>
     uj_HostID job = hb_ExecutionHostID binding \<and> hb_ServiceID binding = updaterID \<and>
     hb_ServiceType binding = ServiceTypeUpdateAgent \<and> hp_ServiceID policy = updaterID \<and>
     uj_TransportMode job = HostTransportPullV2 \<and> uj_OwnershipEpoch job = hb_OwnershipEpoch binding \<and>
     hp_ExecutionHostID policy = hb_ExecutionHostID binding \<and> hp_TransportMode policy = HostTransportPullV2 \<and>
     hp_OwnershipEpoch policy = hb_OwnershipEpoch binding \<and>
     (case hostPullPolicyTarget policy (uj_TargetID job) of
        None \<Rightarrow> False
      | Some target \<Rightarrow> ht_ServiceType target = EffectiveType job \<and> ht_DeploymentMode target = uj_DeploymentMode job)"

definition softwareClaimPolicyMatches :: "UpdateJob \<Rightarrow> HostAgentPolicy \<Rightarrow> HostAgentPolicyTarget \<Rightarrow> bool" where
  "softwareClaimPolicyMatches job policy target =
     (case uj_SoftwareUpdate job of
        None \<Rightarrow> False
      | Some b \<Rightarrow>
          SoftwareUpdateJobBinding_Validate b = None \<and> uj_PolicyRevision job = sb_ProjectionRevision b \<and>
          sb_SourcePolicyRevision b = hp_SourcePolicyRevision policy \<and> sb_ProjectionRevision b = hp_Revision policy \<and>
          sb_ExecutorPolicyRevision b = hp_LocalExecutorPolicyRevision policy \<and>
          sb_ExecutorPolicySHA256 b = hp_LocalExecutorPolicySHA256 policy \<and>
          sb_ConfigRevision b = appliedConfigRevision target \<and> sb_ConfigSHA256 b = ht_AppliedConfigSHA256 target)"

text \<open>The local endpoint of a target against the listener a snapshot names.\<close>

definition local_endpoint_matches :: "HostAgentPolicyTarget \<Rightarrow> SystemUpdatePortSnapshotRef \<Rightarrow> bool" where
  "local_endpoint_matches target ref =
     (if ht_DeploymentMode target = ModeSystemd
      then sn_Docker ref = None \<and>
        (case ht_LocalListenEndpoint target of None \<Rightarrow> False | Some e \<Rightarrow> he_Port e = sn_LocalListenPort ref)
      else ht_DeploymentMode target = ModeDocker \<and>
        (case (sn_Docker ref, ht_LocalHealthEndpoint target) of
           (Some d, Some e) \<Rightarrow> he_Host e = sd_PublishedHostIP d \<and> he_Port e = sd_HealthPort d
         | _ \<Rightarrow> False))"

definition portAgentPolicyMatchesSnapshot ::
  "externals \<Rightarrow> HostAgentPolicy \<Rightarrow> string \<Rightarrow> SystemUpdatePortSnapshotRef option \<Rightarrow> bool" where
  "portAgentPolicyMatchesSnapshot ex policy targetID ref =
     (case ref of None \<Rightarrow> False | Some ref \<Rightarrow>
      if hp_SourcePolicyRevision policy \<noteq> sn_SourcePolicyRevision ref \<or>
         hp_Revision policy \<noteq> sn_ProjectionRevision ref \<or>
         hp_LocalExecutorPolicyRevision policy \<noteq> sn_ExecutorPolicyRevision ref \<or>
         hp_LocalExecutorPolicySHA256 policy \<noteq> sn_ExecutorPolicySHA256 ref
      then False
      else case hostPullPolicyTarget policy targetID of None \<Rightarrow> False | Some target \<Rightarrow>
        (case ht_AppliedEndpoint target of None \<Rightarrow> False | Some e \<Rightarrow>
          if ht_AppliedConfigRevision target \<noteq> sn_ConfigRevision ref \<or>
             ht_AppliedConfigSHA256 target \<noteq> sn_ConfigSHA256 ref \<or>
             ht_AppliedEndpointRevision target \<noteq> sn_AppliedEndpointRevision ref \<or>
             he_Port e \<noteq> sn_AdvertisedPort ref
          then False
          else if ex_EndpointSHA256 ex (he_Host e) (he_Port e) (he_SSLEnabled e) (he_PublicURL e) \<noteq>
             Inr (sn_AdvertisedEndpointSHA256 ref)
          then False
          else local_endpoint_matches target ref))"

definition portClaimPolicyMatches :: "externals \<Rightarrow> UpdateJob \<Rightarrow> HostAgentPolicy \<Rightarrow> HostAgentPolicyTarget \<Rightarrow> bool" where
  "portClaimPolicyMatches ex job policy target =
     (case uj_PortReconfigure job of None \<Rightarrow> False | Some port \<Rightarrow>
      if \<not> isPortContractV2 job \<or> validatePortJobContract ex port (uj_DeploymentMode job) \<noteq> None \<or>
         map_option sn_ProjectionRevision (pb_Before port) \<noteq> Some (uj_PolicyRevision job) \<or>
         ht_ServiceID target \<noteq> uj_TargetID job
      then False
      else if \<not> uj_RecoveryRequired job \<and>
         (map_option sn_EndpointRevision (pb_Before port) \<noteq> Some (ht_EndpointRevision target) \<or>
          ht_DesiredEndpoint target = None \<or> ht_AppliedEndpoint target = None \<or>
          ht_DesiredEndpoint target \<noteq> ht_AppliedEndpoint target)
      then False
      else list_ex (portAgentPolicyMatchesSnapshot ex policy (uj_TargetID job))
        (pb_Before port # (if uj_RecoveryRequired job then [pb_Target port, pb_Rollback port] else [])))"

text \<open>The checks of a port claim: the versioned contract, or the legacy one.\<close>

definition versioned_port_claim :: "externals \<Rightarrow> UpdateJob \<Rightarrow> SystemdPortMutationGrantBinding \<Rightarrow> HostAgentPolicy \<Rightarrow>
    HostAgentPolicyTarget \<Rightarrow> go_error option" where
  "versioned_port_claim ex job port policy target =
     (if uj_CurrentVersion job \<noteq> [] \<or> uj_TargetVersion job \<noteq> [] \<or> uj_Version job \<noteq> [] \<or>
         map_option sn_ProjectionRevision (pb_Before port) \<noteq> Some (uj_PolicyRevision job) \<or>
         \<not> portClaimPolicyMatches ex job policy target
      then errNew ''pull_v2 port claim does not match its original snapshot and policy'' else None)"

definition legacy_port_claim_mode :: "UpdateJob \<Rightarrow> SystemdPortMutationGrantBinding \<Rightarrow> HostAgentPolicyTarget \<Rightarrow> go_error option" where
  "legacy_port_claim_mode job port target =
     (if uj_DeploymentMode job = ModeSystemd
      then (if pb_Docker port \<noteq> None \<or>
               map_option he_Port (ht_LocalListenEndpoint target) \<noteq> Some (pb_OldPort port)
            then errNew ''pull_v2 systemd port claim does not match the active policy'' else None)
      else if uj_DeploymentMode job = ModeDocker
      then (if map_option he_Port (ht_AppliedEndpoint target) \<noteq> Some (pb_OldPort port) \<or>
               (case (pb_Docker port, ht_LocalHealthEndpoint target) of
                  (Some d, Some e) \<Rightarrow> he_Host e \<noteq> dp_PublishedHostIP d \<or> he_Port e \<noteq> dp_OldHealthPort d
                | _ \<Rightarrow> True)
            then errNew ''pull_v2 Docker port claim does not match the active policy'' else None)
      else errNew ''pull_v2 port claim deployment mode is unsupported'')"

definition legacy_port_claim :: "UpdateJob \<Rightarrow> SystemdPortMutationGrantBinding \<Rightarrow> HostAgentPolicy \<Rightarrow>
    HostAgentPolicyTarget \<Rightarrow> go_error option" where
  "legacy_port_claim job port policy target =
     (if pb_ExpectedSourcePolicyRevision port \<noteq> hp_SourcePolicyRevision policy \<or>
         pb_ExpectedUpdaterPolicyRevision port \<noteq> hp_Revision policy \<or>
         pb_ExpectedUpdaterPolicyRevision port \<noteq> uj_PolicyRevision job \<or>
         pb_ExpectedExecutorPolicyRevision port \<noteq> hp_LocalExecutorPolicyRevision policy \<or>
         pb_ExpectedExecutorPolicySHA256 port \<noteq> hp_LocalExecutorPolicySHA256 policy \<or>
         pb_ExpectedConfigRevision port \<noteq> appliedConfigRevision target \<or>
         pb_ExpectedConfigSHA256 port \<noteq> ht_AppliedConfigSHA256 target \<or>
         map_option he_Port (ht_DesiredEndpoint target) \<noteq> Some (pb_NewPort port)
      then errNew ''pull_v2 port claim does not match the active policy''
      else if uj_ProtocolVersion job = 2 \<and>
         (uj_CurrentVersion job \<noteq> [] \<or> uj_TargetVersion job \<noteq> [] \<or> uj_Version job \<noteq> [])
      then errNew ''pull_v2 v2 port claim must remain versionless''
      else if uj_ProtocolVersion job \<noteq> 2 \<and>
         (\<not> MatchString versionPattern (uj_CurrentVersion job) \<or> \<not> MatchString versionPattern (uj_TargetVersion job) \<or>
          uj_CurrentVersion job \<noteq> TrimSpace (uj_CurrentVersion job) \<or>
          uj_TargetVersion job \<noteq> TrimSpace (uj_TargetVersion job) \<or> uj_Version job \<noteq> [] \<or>
          uj_TargetVersion job \<noteq> uj_CurrentVersion job)
      then errNew ''pull_v2 legacy port claim version binding is invalid''
      else legacy_port_claim_mode job port target)"

definition claim_operation_check :: "externals \<Rightarrow> UpdateJob \<Rightarrow> HostAgentPolicy \<Rightarrow> HostAgentPolicyTarget \<Rightarrow> go_error option" where
  "claim_operation_check ex job policy target =
     (if EffectiveOperation job = updateJobOperationPortReconfigure
      then (case uj_PortReconfigure job of
              None \<Rightarrow> errNew ''pull_v2 port claim does not match the active policy''
            | Some port \<Rightarrow>
                if isPortContractV2 job then versioned_port_claim ex job port policy target
                else legacy_port_claim job port policy target)
      else if \<not> MatchString versionPattern (uj_CurrentVersion job) \<or>
         \<not> MatchString versionPattern (EffectiveVersion job) \<or>
         uj_CurrentVersion job \<noteq> TrimSpace (uj_CurrentVersion job)
      then errNew ''pull_v2 claim version binding is invalid'' else None)"

definition validateHostPullClaim ::
  "externals \<Rightarrow> UpdateJob \<Rightarrow> string \<Rightarrow> HostAgentBinding \<Rightarrow> HostAgentPolicy \<Rightarrow> go_error option" where
  "validateHostPullClaim ex job serviceID binding policy =
     (if uj_ReleaseToken job \<noteq> []
      then errNew ''pull_v2 claim unexpectedly contained a release credential''
      else case validateOperationUnion ex job of Some err \<Rightarrow> Some err | None \<Rightarrow>
      if \<not> MatchString identifierPattern (uj_ID job) \<or>
         uj_AgentServiceID job \<noteq> serviceID \<or>
         uj_HostID job \<noteq> hb_ExecutionHostID binding \<or>
         uj_TransportMode job \<noteq> HostTransportPullV2 \<or>
         uj_OwnershipEpoch job \<noteq> hb_OwnershipEpoch binding \<or>
         (\<not> isPortContractV2 job \<and> \<not> isV2SoftwareJob job \<and> uj_PolicyRevision job \<noteq> hp_Revision policy) \<or>
         uj_LeaseGeneration job = 0 \<or>
         uj_ReportSequence job = 0
      then errNew ''pull_v2 claim ownership or lease binding is invalid''
      else if uj_ProtocolVersion job = 2 \<and>
         (uj_LeaseToken job \<noteq> [] \<or> \<not> MatchString identifierPattern (uj_CommandID job))
      then errNew ''pull_v2 v2 claim credential or command binding is invalid''
      else if uj_ProtocolVersion job \<noteq> 2 \<and> \<not> validBoundedSecret (uj_LeaseToken job)
      then errNew ''pull_v2 legacy claim lease credential is invalid''
      else case hostPullPolicyTarget policy (uj_TargetID job) of
        None \<Rightarrow> errNew ''pull_v2 claim target does not match the active policy''
      | Some target \<Rightarrow>
          if ht_ServiceType target \<noteq> EffectiveType job \<or> ht_DeploymentMode target \<noteq> uj_DeploymentMode job
          then errNew ''pull_v2 claim target does not match the active policy''
          else if isV2SoftwareJob job \<and>
             (uj_SoftwareClaimRejected job \<or> \<not> softwareClaimIdentityMatches job serviceID binding policy \<or>
              \<not> softwareClaimPolicyMatches job policy target)
          then errNew ''software claim does not match its fixed configuration and policy authority''
          else claim_operation_check ex job policy target)"

definition isV2RecoveryClearStatus :: "string \<Rightarrow> bool" where
  "isV2RecoveryClearStatus status \<longleftrightarrow> status = ''canceled''"

definition validateV2RecoveryClear :: "UpdateJob \<Rightarrow> UpdateJob \<Rightarrow> string \<Rightarrow> go_error option" where
  "validateV2RecoveryClear active terminal updaterID =
     (if uj_ProtocolVersion active \<noteq> 2 \<or> \<not> uj_RecoveryClear terminal \<or> uj_ProtocolVersion terminal \<noteq> 2 \<or>
         uj_ID terminal \<noteq> uj_ID active \<or> uj_AgentServiceID active \<noteq> updaterID \<or>
         uj_AgentServiceID terminal \<noteq> updaterID \<or> uj_ReleaseToken terminal \<noteq> [] \<or>
         uj_LeaseToken terminal \<noteq> [] \<or> uj_LeaseExpiresAt terminal \<noteq> [] \<or>
         uj_LeaseGeneration terminal \<noteq> 0 \<or> \<not> isV2RecoveryClearStatus (uj_Status terminal)
      then errNew ''v2 recovery clear does not match the active job'' else None)"

section \<open>Binding a software claim to the policy\<close>

text \<open>The snapshot of the authenticated policy a software claim is bound to.\<close>

definition policy_snapshot :: "SoftwareUpdateJobBinding \<Rightarrow> HostAgentPolicy \<Rightarrow> HostAgentPolicyTarget \<Rightarrow> SoftwareUpdateJobBinding" where
  "policy_snapshot wire policy target =
     \<lparr>sb_ConfigRevision = sb_ConfigRevision wire, sb_ConfigSHA256 = ht_AppliedConfigSHA256 target,
      sb_CommandSHA256 = sb_CommandSHA256 wire, sb_SourcePolicyRevision = hp_SourcePolicyRevision policy,
      sb_ProjectionRevision = hp_Revision policy,
      sb_ExecutorPolicyRevision = hp_LocalExecutorPolicyRevision policy,
      sb_ExecutorPolicySHA256 = hp_LocalExecutorPolicySHA256 policy\<rparr>"

text \<open>
  \<open>bindSoftwareClaim\<close> changes the job and, when it migrates a legacy cursor, the active job; it
  returns both with its error. \<open>plan\<close> is the active plan of the journal and \<open>bind\<close> the panel's
  \<open>BindSoftwareUpdateClaim\<close>.
\<close>

definition retained_snapshot ::
  "externals \<Rightarrow> MutationPlan option \<Rightarrow> UpdateJob \<Rightarrow> UpdateJob \<Rightarrow> SoftwareUpdateJobBinding \<Rightarrow> SoftwareUpdateJobBinding \<Rightarrow>
     UpdateJob result" where
  "retained_snapshot ex plan active job wire snapshot =
     (if \<not> sameSoftwareJobIdentity active job \<or> \<not> sameRecoveredJobLease ex active job
      then Inl (NewErr ''recovered software claim changed its immutable identity'')
      else case uj_SoftwareUpdate active of
        Some saved \<Rightarrow>
          if saved \<noteq> snapshot
          then Inl (NewErr ''recovered software claim changed its saved policy authority'') else Inr active
      | None \<Rightarrow>
          (case plan of
             None \<Rightarrow> Inl (NewErr ''legacy software cursor lacks its original trusted policy plan'')
           | Some p \<Rightarrow>
               if uj_PolicyRevision active \<noteq> sb_ConfigRevision wire \<or> MutationPlan_Validate p \<noteq> None \<or>
                  mp_JobID p \<noteq> uj_ID job \<or> mp_TargetID p \<noteq> uj_TargetID job \<or> mp_HostID p \<noteq> uj_HostID job \<or>
                  mp_CurrentVersion p \<noteq> uj_CurrentVersion job \<or> mp_TargetVersion p \<noteq> EffectiveVersion job \<or>
                  mp_ConfigSHA256 p \<noteq> sb_ExecutorPolicySHA256 snapshot
               then Inl (NewErr ''legacy software cursor lacks its original trusted policy plan'')
               else Inr (active\<lparr>uj_SoftwareUpdate := Some snapshot,
                 uj_PolicyRevision := sb_ProjectionRevision snapshot\<rparr>)))"

definition bindSoftwareClaim ::
  "externals \<Rightarrow> (UpdateJob \<Rightarrow> go_error option) \<Rightarrow> string \<Rightarrow> MutationPlan option \<Rightarrow> HostAgentBinding \<Rightarrow> HostAgentPolicy \<Rightarrow>
     UpdateJob option \<Rightarrow> UpdateJob option \<Rightarrow> UpdateJob option \<times> UpdateJob option \<times> go_error option" where
  "bindSoftwareClaim ex bind nodeID plan binding policy active job =
     (let refuse = (\<lambda>message. (active, job, errNew message)) in
      case job of None \<Rightarrow> (active, job, None) | Some j \<Rightarrow>
      if \<not> isV2SoftwareJob j then (active, job, None)
      else case (uj_SoftwareUpdate j, hostPullPolicyTarget policy (uj_TargetID j)) of
        (Some wire, Some target) \<Rightarrow>
          let snapshot = policy_snapshot wire policy target in
          if \<not> softwareClaimIdentityMatches j nodeID binding policy \<or> validateIntent wire \<noteq> None
          then refuse ''software claim identity or original intent is invalid''
          else if sb_ConfigRevision wire \<noteq> appliedConfigRevision target
          then refuse ''software claim configuration differs from authenticated policy''
          else if SoftwareUpdateJobBinding_Validate snapshot \<noteq> None
          then refuse ''software claim authenticated policy is incomplete''
          else if (sb_ProjectionRevision wire \<noteq> 0 \<and> wire \<noteq> snapshot) \<or>
             (sb_ProjectionRevision wire = 0 \<and> uj_PolicyRevision j \<noteq> 0) \<or>
             (sb_ProjectionRevision wire \<noteq> 0 \<and> uj_PolicyRevision j \<noteq> sb_ProjectionRevision snapshot)
          then refuse ''software claim policy projection was replaced before binding''
          else
            let bound = (\<lambda>rejected. j\<lparr>uj_SoftwareClaimRejected := rejected, uj_SoftwareUpdate := Some snapshot,
                  uj_PolicyRevision := sb_ProjectionRevision snapshot\<rparr>) in
            (case active of
               None \<Rightarrow> (let j' = bound (uj_SoftwareClaimRejected j) in (None, Some j', bind j'))
             | Some a \<Rightarrow>
                 (case retained_snapshot ex plan a j wire snapshot of
                    Inl err \<Rightarrow> (active, job, Some err)
                  | Inr a' \<Rightarrow> (let j' = bound (uj_SoftwareClaimRejected a') in (Some a', Some j', bind j'))))
      | _ \<Rightarrow> refuse ''software claim identity or original intent is invalid'')"

definition softwareClaimFence :: "UpdateJob \<Rightarrow> HostAgentBinding \<Rightarrow> HostAgentPolicy \<Rightarrow> LocalExecutorMutationFence" where
  "softwareClaimFence job binding policy =
     (case uj_SoftwareUpdate job of
        Some b \<Rightarrow>
          if isV2SoftwareJob job
          then \<lparr>fe_SourcePolicyRevision = sb_SourcePolicyRevision b, fe_OwnershipEpoch = uj_OwnershipEpoch job,
            fe_OwnershipPolicyRevision = sb_ProjectionRevision b,
            fe_ExecutorPolicyRevision = sb_ExecutorPolicyRevision b\<rparr>
          else \<lparr>fe_SourcePolicyRevision = hp_SourcePolicyRevision policy, fe_OwnershipEpoch = hb_OwnershipEpoch binding,
            fe_OwnershipPolicyRevision = uj_PolicyRevision job,
            fe_ExecutorPolicyRevision = hp_LocalExecutorPolicyRevision policy\<rparr>
      | None \<Rightarrow>
          \<lparr>fe_SourcePolicyRevision = hp_SourcePolicyRevision policy, fe_OwnershipEpoch = hb_OwnershipEpoch binding,
           fe_OwnershipPolicyRevision = uj_PolicyRevision job,
           fe_ExecutorPolicyRevision = hp_LocalExecutorPolicyRevision policy\<rparr>)"

end
