(* ===== verification/Port_Projection.thy ===== *)
theory Port_Projection
  imports Claims
begin

text \<open>
  The policy projections a versioned port change moves between (\<open>agent_port_policy.go\<close>): the
  candidates for the snapshot before the change, its target and its rollback, derived from the
  authenticated policy, and the record the journal keeps of them.
\<close>

section \<open>The size of a policy\<close>

text \<open>
  \<open>json.Marshal\<close> of a policy without lifecycle directives; a candidate with one is refused by the
  same check as one that is too large.
\<close>

definition endpoint_json :: "HostAgentEndpoint \<Rightarrow> json" where
  "endpoint_json e = JObj [(''host'', JStr (he_Host e)), (''port'', JInt (he_Port e)),
     (''ssl_enabled'', JBool (he_SSLEnabled e)), (''public_url'', JStr (he_PublicURL e))]"

definition endpoint_opt :: "string \<Rightarrow> HostAgentEndpoint option \<Rightarrow> (string \<times> json) list" where
  "endpoint_opt key e = (case e of None \<Rightarrow> [] | Some e' \<Rightarrow> [(key, endpoint_json e')])"

definition policy_target_json :: "HostAgentPolicyTarget \<Rightarrow> json" where
  "policy_target_json t = JObj (
     [(''service_id'', JStr (ht_ServiceID t)), (''service_type'', JStr (ht_ServiceType t)),
      (''deployment_mode'', JStr (ht_DeploymentMode t))] @
     int_opt ''endpoint_revision'' (ht_EndpointRevision t) @
     int_opt ''applied_endpoint_revision'' (ht_AppliedEndpointRevision t) @
     int_opt ''applied_config_revision'' (ht_AppliedConfigRevision t) @
     str_opt ''applied_config_sha256'' (ht_AppliedConfigSHA256 t) @
     endpoint_opt ''desired_endpoint'' (ht_DesiredEndpoint t) @
     endpoint_opt ''applied_endpoint'' (ht_AppliedEndpoint t) @
     endpoint_opt ''local_listen_endpoint'' (ht_LocalListenEndpoint t) @
     endpoint_opt ''local_health_endpoint'' (ht_LocalHealthEndpoint t))"

definition agent_policy_json :: "HostAgentPolicy \<Rightarrow> json" where
  "agent_policy_json p = JObj (
     [(''service_id'', JStr (hp_ServiceID p)), (''transport_mode'', JStr (hp_TransportMode p)),
      (''execution_host_id'', JStr (hp_ExecutionHostID p)), (''ownership_epoch'', JInt (hp_OwnershipEpoch p)),
      (''revision'', JInt (hp_Revision p)), (''source_policy_revision'', JInt (hp_SourcePolicyRevision p)),
      (''local_executor_policy_revision'', JInt (hp_LocalExecutorPolicyRevision p)),
      (''observe_only'', JBool (hp_ObserveOnly p))] @
     str_opt ''local_executor_policy_sha256'' (hp_LocalExecutorPolicySHA256 p) @
     str_opt ''self_update_id'' (hp_SelfUpdateID p) @
     int_opt ''self_update_revision'' (hp_SelfUpdateRevision p) @
     str_opt ''self_update_status'' (hp_SelfUpdateStatus p) @
     [(''targets'', JArr (map policy_target_json (hp_Targets p)))])"

section \<open>The saved candidates\<close>

record portAgentPolicyState =
  ps_JobID :: string
  ps_PortIntentSHA256 :: string
  ps_Before :: HostAgentPolicy
  ps_Target :: HostAgentPolicy
  ps_Rollback :: HostAgentPolicy
  ps_ActiveSnapshotID :: string

definition candidate_invalid ::
  "externals \<Rightarrow> UpdateJob \<Rightarrow> HostAgentPolicy \<Rightarrow> SystemUpdatePortSnapshotRef \<Rightarrow> bool" where
  "candidate_invalid ex job policy ref \<longleftrightarrow>
     HostAgentPolicy_validateForService (ex_net ex) policy (uj_AgentServiceID job) 0 \<noteq> None \<or>
     length (marshal (agent_policy_json policy)) > 1048576 \<or>
     map_option ht_EndpointRevision (hostPullPolicyTarget policy (uj_TargetID job)) \<noteq> Some (sn_EndpointRevision ref) \<or>
     hp_RuntimeTokenRotation policy \<noteq> None \<or> hp_SelfUpdate policy \<noteq> None \<or>
     hp_ExecutionHostID policy \<noteq> uj_HostID job \<or> hp_OwnershipEpoch policy \<noteq> uj_OwnershipEpoch job \<or>
     \<not> portAgentPolicyMatchesSnapshot ex policy (uj_TargetID job) (Some ref)"

text \<open>The identity check of a saved state against its job and plan.\<close>

definition policy_identity_invalid ::
  "externals \<Rightarrow> portAgentPolicyState \<Rightarrow> UpdateJob \<Rightarrow> SystemdPortMutationGrantBinding \<Rightarrow>
     SystemdPortReconfigurePlan \<Rightarrow> SystemUpdatePortSnapshotRef \<Rightarrow> bool" where
  "policy_identity_invalid ex s job port plan before \<longleftrightarrow>
     \<not> isPortContractV2 job \<or> pp_PortContractVersion plan \<noteq> 2 \<or>
     SystemdPortReconfigurePlan_Validate ex plan \<noteq> None \<or>
     uj_HostID job \<noteq> pp_HostID plan \<or> uj_TargetID job \<noteq> pp_TargetID plan \<or>
     uj_OwnershipEpoch job \<noteq> pp_OwnershipEpoch plan \<or>
     uj_PolicyRevision job \<noteq> sn_ProjectionRevision before \<or>
     EffectiveType job \<noteq> pp_ServiceType plan \<or> uj_DeploymentMode job \<noteq> pp_DeploymentMode plan \<or>
     ps_JobID s \<noteq> uj_ID job \<or> ps_JobID s \<noteq> pp_JobID plan \<or>
     ps_PortIntentSHA256 s \<noteq> pb_PortPlanSHA256 port \<or> ps_PortIntentSHA256 s \<noteq> pp_PortIntentSHA256 plan \<or>
     pp_Before plan \<noteq> pb_Before port \<or> pp_Target plan \<noteq> pb_Target port \<or> pp_Rollback plan \<noteq> pb_Rollback port"

definition portAgentPolicyState_validate ::
  "externals \<Rightarrow> portAgentPolicyState \<Rightarrow> UpdateJob option \<Rightarrow> SystemdPortReconfigurePlan option \<Rightarrow> go_error option" where
  "portAgentPolicyState_validate ex s job plan =
     (case (job, plan) of
        (Some job, Some plan) \<Rightarrow>
          (case (uj_PortReconfigure job, pp_Before plan, pp_Target plan, pp_Rollback plan) of
             (Some port, Some before, Some target, Some rollback) \<Rightarrow>
               if policy_identity_invalid ex s job port plan before
               then errNew ''active port policy identity is invalid''
               else if candidate_invalid ex job (ps_Before s) before \<or>
                  candidate_invalid ex job (ps_Target s) target \<or>
                  candidate_invalid ex job (ps_Rollback s) rollback
               then errNew ''active port policy candidate is invalid''
               else if ps_ActiveSnapshotID s \<noteq> sn_SnapshotID before \<and>
                  ps_ActiveSnapshotID s \<noteq> sn_SnapshotID target \<and> ps_ActiveSnapshotID s \<noteq> sn_SnapshotID rollback
               then errNew ''active port policy snapshot is invalid'' else None
           | _ \<Rightarrow> errNew ''active port policy identity is invalid'')
      | _ \<Rightarrow> errNew ''active port policy identity is invalid'')"

section \<open>Deriving the candidates\<close>

text \<open>\<open>net.JoinHostPort\<close> and \<open>strconv.Itoa\<close>.\<close>

definition net_JoinHostPort :: "string \<Rightarrow> int \<Rightarrow> string" where
  "net_JoinHostPort host port =
     (if CHR '':'' \<in> set host then ''['' @ host @ '']:'' @ int_string port else host @ '':'' @ int_string port)"

definition portAdvertisedEndpoint :: "externals \<Rightarrow> HostAgentEndpoint \<Rightarrow> int \<Rightarrow> HostAgentEndpoint result" where
  "portAdvertisedEndpoint ex before port =
     (if he_PublicURL before = [] \<or> he_Port before = port then Inr (before\<lparr>he_Port := port\<rparr>)
      else case url_Parse (ex_net ex) (he_PublicURL before) of
        None \<Rightarrow> Inl (NewErr ''port advertised endpoint is invalid'')
      | Some parsed \<Rightarrow>
          if u_Hostname parsed = [] \<or> u_HasUser parsed
          then Inl (NewErr ''port advertised endpoint is invalid'')
          else Inr (before\<lparr>he_Port := port, he_PublicURL :=
            ex_url_SetHost ex (he_PublicURL before) (net_JoinHostPort (u_Hostname parsed) port)\<rparr>))"

text \<open>An optional endpoint moved to a port.\<close>

definition move_endpoint :: "externals \<Rightarrow> HostAgentEndpoint option \<Rightarrow> int \<Rightarrow> HostAgentEndpoint option result" where
  "move_endpoint ex e port =
     (case e of None \<Rightarrow> Inr None | Some e' \<Rightarrow> map_sum id Some (portAdvertisedEndpoint ex e' port))"

definition target_listeners ::
  "externals \<Rightarrow> HostAgentPolicyTarget \<Rightarrow> SystemUpdatePortSnapshotRef \<Rightarrow> HostAgentPolicyTarget result" where
  "target_listeners ex target ref =
     (if ht_DeploymentMode target = ModeSystemd
      then (if ht_LocalListenEndpoint target = None then Inl (NewErr ''port candidate lacks a local listener'')
            else case move_endpoint ex (ht_LocalListenEndpoint target) (sn_LocalListenPort ref) of
                Inl err \<Rightarrow> Inl err
              | Inr listener \<Rightarrow>
                  (case move_endpoint ex (ht_LocalHealthEndpoint target) (sn_LocalListenPort ref) of
                     Inl err \<Rightarrow> Inl err
                   | Inr health \<Rightarrow> Inr (target\<lparr>ht_LocalListenEndpoint := listener, ht_LocalHealthEndpoint := health\<rparr>)))
      else case sn_Docker ref of
          None \<Rightarrow> Inl (NewErr ''port candidate lacks a Docker health endpoint'')
        | Some docker \<Rightarrow>
            if ht_LocalHealthEndpoint target = None
            then Inl (NewErr ''port candidate lacks a Docker health endpoint'')
            else case move_endpoint ex (ht_LocalHealthEndpoint target) (sd_HealthPort docker) of
                Inl err \<Rightarrow> Inl err
              | Inr health \<Rightarrow>
                  (case move_endpoint ex (ht_LocalListenEndpoint target) (sn_LocalListenPort ref) of
                     Inl err \<Rightarrow> Inl err
                   | Inr listener \<Rightarrow> Inr (target\<lparr>ht_LocalHealthEndpoint := health, ht_LocalListenEndpoint := listener\<rparr>)))"

definition target_candidate ::
  "externals \<Rightarrow> HostAgentPolicyTarget \<Rightarrow> SystemUpdatePortSnapshotRef \<Rightarrow> HostAgentPolicyTarget result" where
  "target_candidate ex target ref =
     (case ht_AppliedEndpoint target of
        None \<Rightarrow> Inl (NewErr ''port candidate lacks an applied endpoint'')
      | Some applied \<Rightarrow>
          (case portAdvertisedEndpoint ex applied (sn_AdvertisedPort ref) of
             Inl err \<Rightarrow> Inl err
           | Inr endpoint \<Rightarrow>
               target_listeners ex (target\<lparr>ht_EndpointRevision := sn_EndpointRevision ref,
                 ht_AppliedEndpointRevision := sn_AppliedEndpointRevision ref,
                 ht_AppliedConfigRevision := sn_ConfigRevision ref, ht_AppliedConfigSHA256 := sn_ConfigSHA256 ref,
                 ht_AppliedEndpoint := Some endpoint, ht_DesiredEndpoint := Some endpoint\<rparr>) ref))"

primrec targets_candidate ::
  "externals \<Rightarrow> HostAgentPolicyTarget list \<Rightarrow> string \<Rightarrow> SystemUpdatePortSnapshotRef \<Rightarrow>
     HostAgentPolicyTarget list result" where
  "targets_candidate ex [] targetID ref = Inl (NewErr ''port candidate target is unavailable'')"
| "targets_candidate ex (target # rest) targetID ref =
     (if ht_ServiceID target \<noteq> targetID
      then map_sum id ((#) target) (targets_candidate ex rest targetID ref)
      else map_sum id (\<lambda>t. t # rest) (target_candidate ex target ref))"

definition portPolicyCandidate ::
  "externals \<Rightarrow> HostAgentPolicy \<Rightarrow> string \<Rightarrow> SystemUpdatePortSnapshotRef \<Rightarrow> HostAgentPolicy result" where
  "portPolicyCandidate ex before targetID ref =
     map_sum id (\<lambda>targets. before\<lparr>hp_SourcePolicyRevision := sn_SourcePolicyRevision ref,
         hp_Revision := sn_ProjectionRevision ref,
         hp_LocalExecutorPolicyRevision := sn_ExecutorPolicyRevision ref,
         hp_LocalExecutorPolicySHA256 := sn_ExecutorPolicySHA256 ref, hp_Targets := targets\<rparr>)
       (targets_candidate ex (hp_Targets before) targetID ref)"

text \<open>
  The state \<open>StagePortPolicy\<close> saves, when none is saved yet. Its plan was validated, so the
  snapshots the source dereferences are there.
\<close>

definition staged_port_policy ::
  "externals \<Rightarrow> HostAgentPolicy \<Rightarrow> UpdateJob \<Rightarrow> SystemdPortReconfigurePlan \<Rightarrow> portAgentPolicyState result" where
  "staged_port_policy ex policy job plan =
     (if hp_RuntimeTokenRotation policy \<noteq> None \<or> hp_SelfUpdate policy \<noteq> None \<or>
         \<not> portAgentPolicyMatchesSnapshot ex policy (uj_TargetID job) (pp_Before plan)
      then Inl (NewErr ''port policy candidates require the original before snapshot'')
      else case (pp_Before plan, pp_Target plan, pp_Rollback plan) of
        (Some b, Some t, Some r) \<Rightarrow>
          (case portPolicyCandidate ex policy (uj_TargetID job) b of Inl err \<Rightarrow> Inl err | Inr before \<Rightarrow>
           case portPolicyCandidate ex before (uj_TargetID job) t of Inl err \<Rightarrow> Inl err | Inr target \<Rightarrow>
           case portPolicyCandidate ex before (uj_TargetID job) r of Inl err \<Rightarrow> Inl err | Inr rollback \<Rightarrow>
           let state = \<lparr>ps_JobID = uj_ID job, ps_PortIntentSHA256 = pp_PortIntentSHA256 plan, ps_Before = before,
             ps_Target = target, ps_Rollback = rollback, ps_ActiveSnapshotID = sn_SnapshotID b\<rparr> in
           case portAgentPolicyState_validate ex state (Some job) (Some plan) of
             Some err \<Rightarrow> Inl err | None \<Rightarrow> Inr state)
      | _ \<Rightarrow> Inl (NewErr ''port policy candidates require the original before snapshot''))"

end
