(* ===== verification/Journal.thy ===== *)
theory Journal
  imports Port_Projection Durable
begin

text \<open>
  The journal of the host agent (\<open>journal.go\<close>, \<open>software_journal_binding.go\<close>, and the journal
  operations of \<open>agent_port_policy.go\<close>): one private file with the active job, its plan, the
  pending reports and the deployed versions, replaced by rename, and a fence file that makes the
  clearing of the active job recoverable. Every operation works on the copy in memory and saves
  it; when a save fails the process may not change the journal any more.
\<close>

section \<open>The data\<close>

record PendingReport =
  pe_JobID :: string
  pe_Report :: JobReport

record journalData =
  jd_ActiveJob :: "UpdateJob option"
  jd_ActivePlan :: "MutationPlan option"
  jd_ActivePortPlan :: "SystemdPortReconfigurePlan option"
  jd_ActivePortPolicy :: "portAgentPolicyState option"
  jd_ActiveStageFailure :: "stageFailureRecord option"
  jd_NextSeq :: u64
  jd_Pending :: "PendingReport list"
  jd_DeployedVersions :: "string \<rightharpoonup> string"

record journalActiveClearMarker =
  cm_SchemaVersion :: int
  cm_PreviousSHA256 :: string
  cm_Previous :: journalData

record Journal =
  jn_data :: journalData
  jn_leaseTokens :: "string \<rightharpoonup> string"
  jn_poisoned :: "go_error option"

section \<open>Encoding\<close>

text \<open>
  The journal embeds structures of the package \<open>contracts\<close>, so the JSON value of its data is a
  parameter of the model, \<open>je_json\<close>; there is none when a time cannot be encoded. Fields tagged
  \<open>json:"-"\<close> are not part of it, which is why it is applied to \<open>persist\<close> of the data. Strings come
  from decoded JSON, so encoding does not change them.
\<close>

record journal_env =
  je_ex :: externals
  je_json :: "journalData \<Rightarrow> json option"

definition persist_job :: "UpdateJob \<Rightarrow> UpdateJob" where
  "persist_job j = j\<lparr>uj_ReleaseToken := [], uj_ReportSequence := 0, uj_RecoveryClear := False\<rparr>"

definition persist :: "journalData \<Rightarrow> journalData" where
  "persist d = d\<lparr>jd_ActiveJob := map_option persist_job (jd_ActiveJob d)\<rparr>"

definition encode_data :: "journal_env \<Rightarrow> journalData \<Rightarrow> string option" where
  "encode_data env d = map_option marshal (je_json env (persist d))"

definition encode_marker :: "journal_env \<Rightarrow> journalActiveClearMarker \<Rightarrow> string option" where
  "encode_marker env m = map_option (\<lambda>previous. marshal (JObj
     [(''schema_version'', JInt (cm_SchemaVersion m)), (''previous_sha256'', JStr (cm_PreviousSHA256 m)),
      (''previous'', previous)])) (je_json env (persist (cm_Previous m)))"

definition journalDataSHA256 :: "journal_env \<Rightarrow> journalData \<Rightarrow> string result" where
  "journalDataSHA256 env d =
     (case encode_data env d of None \<Rightarrow> Inl OSFailure | Some encoded \<Rightarrow> Inr (sha256_digest encoded))"

text \<open>
  The checks of \<open>SoftwareUpdateJobBinding.UnmarshalJSON\<close> and
  \<open>SystemdPortReconfigurePlan.UnmarshalJSON\<close> on what was encoded: the intent of the binding, and
  that a plan that names a contract version names the second one and no legacy field.
\<close>

definition plan_decodes :: "SystemdPortReconfigurePlan \<Rightarrow> bool" where
  "plan_decodes p \<longleftrightarrow> pp_PortContractVersion p = 0 \<or>
     pp_PortContractVersion p = 2 \<and> pp_OldPort p = 0 \<and> pp_NewPort p = 0 \<and>
     pp_ExpectedEndpointRevision p = 0 \<and> pp_TargetEndpointRevision p = 0 \<and>
     pp_ExpectedConfigRevision p = 0 \<and> pp_TargetConfigRevision p = 0 \<and>
     pp_ExpectedConfigSHA256 p = [] \<and> pp_TargetConfigSHA256 p = [] \<and>
     pp_ExpectedSourcePolicyRevision p = 0 \<and> pp_ExpectedUpdaterPolicyRevision p = 0 \<and>
     pp_ExpectedExecutorPolicyRevision p = 0 \<and> pp_ExpectedExecutorPolicySHA256 p = [] \<and> pp_Docker p = None"

definition data_decodes :: "journalData \<Rightarrow> bool" where
  "data_decodes d \<longleftrightarrow>
     (case jd_ActiveJob d of None \<Rightarrow> True | Some j \<Rightarrow>
        (case uj_SoftwareUpdate j of None \<Rightarrow> True | Some b \<Rightarrow> validateIntent b = None)) \<and>
     (case jd_ActivePortPlan d of None \<Rightarrow> True | Some p \<Rightarrow> plan_decodes p)"

definition written :: "journalData \<Rightarrow> journalData content" where
  "written d = (if data_decodes d then Decodes (persist d) else Undecodable)"

definition written_marker :: "journalActiveClearMarker \<Rightarrow> journalActiveClearMarker content" where
  "written_marker m =
     (if data_decodes (cm_Previous m) then Decodes (m\<lparr>cm_Previous := persist (cm_Previous m)\<rparr>) else Undecodable)"

section \<open>Validation\<close>

definition validateJournalSoftwareJob :: "UpdateJob \<Rightarrow> go_error option" where
  "validateJournalSoftwareJob job =
     (case uj_SoftwareUpdate job of
        None \<Rightarrow>
          if uj_SoftwareClaimRejected job \<or> (isV2SoftwareJob job \<and> uj_PolicyRevision job < 1)
          then errNew ''update journal software claim lacks its saved intent'' else None
      | Some b \<Rightarrow>
          if \<not> isV2SoftwareJob job \<or> validateIntent b \<noteq> None
          then errNew ''update journal software claim binding is invalid''
          else if SoftwareUpdateJobBinding_Validate b = None
          then (if uj_PolicyRevision job \<noteq> sb_ProjectionRevision b
                then errNew ''update journal software projection revision is invalid'' else None)
          else if \<not> uj_SoftwareClaimRejected job \<or> uj_PolicyRevision job \<noteq> 0
          then errNew ''update journal unbound software claim must remain rejected'' else None)"

definition validateJournalSoftwarePlan :: "UpdateJob \<Rightarrow> MutationPlan \<Rightarrow> bool \<Rightarrow> go_error option" where
  "validateJournalSoftwarePlan job plan currentLease =
     (if \<not> isV2SoftwareJob job then None
      else if uj_SoftwareClaimRejected job \<or> mp_JobID plan \<noteq> uj_ID job \<or> mp_HostID plan \<noteq> uj_HostID job \<or>
         mp_TargetID plan \<noteq> uj_TargetID job \<or> mp_ServiceType plan \<noteq> EffectiveType job \<or>
         mp_DeploymentMode plan \<noteq> uj_DeploymentMode job \<or> mp_CurrentVersion plan \<noteq> uj_CurrentVersion job \<or>
         mp_TargetVersion plan \<noteq> EffectiveVersion job \<or> mp_LeaseGeneration plan > uj_LeaseGeneration job \<or>
         (currentLease \<and> mp_LeaseGeneration plan \<noteq> uj_LeaseGeneration job) \<or>
         (case uj_SoftwareUpdate job of None \<Rightarrow> False | Some b \<Rightarrow> mp_ConfigSHA256 plan \<noteq> sb_ExecutorPolicySHA256 b)
      then errNew ''update journal software plan does not match its saved authority'' else None)"

text \<open>The results a versioned port job carries.\<close>

definition port_results_check :: "externals \<Rightarrow> UpdateJob \<Rightarrow> go_error option" where
  "port_results_check ex job =
     (case uj_PortReconfigure job of
        Some port \<Rightarrow>
          if isPortContractV2 job \<and> (case uj_PortResult job of None \<Rightarrow> False | Some r \<Rightarrow>
               \<not> ex_AcceptedPortResult ex r \<or> \<not> ex_ValidatePortResult ex (sharedPortPlan port) r)
          then errNew ''update journal accepted port result is invalid''
          else if isPortContractV2 job \<and> (case uj_LastRecoveryObservation job of None \<Rightarrow> False | Some r \<Rightarrow>
               pr_Result r \<noteq> systemdPortResultRollbackFailed \<or> \<not> ex_ValidatePortResult ex (sharedPortPlan port) r)
          then errNew ''update journal port recovery observation is invalid'' else None
      | None \<Rightarrow> None)"

definition plan_binding_invalid :: "externals \<Rightarrow> journalData \<Rightarrow> bool" where
  "plan_binding_invalid ex d =
     (case jd_ActiveJob d of
        None \<Rightarrow> True
      | Some job \<Rightarrow>
          (jd_ActivePlan d \<noteq> None \<and> jd_ActivePortPlan d \<noteq> None) \<or>
          (case jd_ActivePlan d of None \<Rightarrow> False | Some plan \<Rightarrow>
             EffectiveOperation job \<noteq> updateJobOperationSoftwareUpdate \<or> mp_JobID plan \<noteq> uj_ID job \<or>
             MutationPlan_Validate plan \<noteq> None) \<or>
          (case jd_ActivePortPlan d of None \<Rightarrow> False | Some plan \<Rightarrow>
             EffectiveOperation job \<noteq> updateJobOperationPortReconfigure \<or> pp_JobID plan \<noteq> uj_ID job \<or>
             SystemdPortReconfigurePlan_Validate ex plan \<noteq> None))"

definition plans_check :: "externals \<Rightarrow> journalData \<Rightarrow> go_error option" where
  "plans_check ex d =
     (if jd_ActivePlan d = None \<and> jd_ActivePortPlan d = None then None
      else if plan_binding_invalid ex d then errNew ''update journal active plan binding is invalid''
      else case jd_ActivePlan d of None \<Rightarrow> None
        | Some plan \<Rightarrow> validateJournalSoftwarePlan (the (jd_ActiveJob d)) plan False)"

definition stage_failure_check :: "journalData \<Rightarrow> go_error option" where
  "stage_failure_check d =
     (case jd_ActiveStageFailure d of None \<Rightarrow> None | Some failure \<Rightarrow>
        if map_option uj_ID (jd_ActiveJob d) \<noteq> Some (sf_JobID failure)
        then errNew ''update journal active stage failure binding is invalid''
        else map_option (\<lambda>err. WrapErr err ''update journal active stage failure is invalid'')
          (stageFailureRecord_validate failure))"

definition active_job_check :: "externals \<Rightarrow> journalData \<Rightarrow> go_error option" where
  "active_job_check ex d =
     (case jd_ActiveJob d of None \<Rightarrow> None | Some job \<Rightarrow>
        if validateOperationUnion ex job \<noteq> None then errNew ''update journal active job operation is invalid''
        else case validateJournalSoftwareJob job of Some err \<Rightarrow> Some err
          | None \<Rightarrow> port_results_check ex job)"

definition validateJournalData :: "externals \<Rightarrow> journalData \<Rightarrow> go_error option" where
  "validateJournalData ex d =
     (case active_job_check ex d of Some err \<Rightarrow> Some err | None \<Rightarrow>
      case plans_check ex d of Some err \<Rightarrow> Some err | None \<Rightarrow>
      case stage_failure_check d of Some err \<Rightarrow> Some err | None \<Rightarrow>
      case jd_ActivePortPolicy d of None \<Rightarrow> None
        | Some policy \<Rightarrow> portAgentPolicyState_validate ex policy (jd_ActiveJob d) (jd_ActivePortPlan d))"

definition journalLegacySoftwareBindingMatches ::
  "externals \<Rightarrow> UpdateJob \<Rightarrow> UpdateJob \<Rightarrow> MutationPlan option \<Rightarrow> bool" where
  "journalLegacySoftwareBindingMatches ex active recovered plan =
     (case (uj_SoftwareUpdate active, uj_SoftwareUpdate recovered, plan) of
        (None, Some b, Some p) \<Rightarrow>
          SoftwareUpdateJobBinding_Validate b = None \<and> uj_PolicyRevision active = sb_ConfigRevision b \<and>
          uj_SoftwareClaimRejected active = uj_SoftwareClaimRejected recovered \<and>
          uj_LeaseGeneration active \<noteq> uj_LeaseGeneration recovered \<and> sameRecoveredJobLease ex active recovered \<and>
          sameSoftwareJobIdentity active recovered \<and> MutationPlan_Validate p = None \<and>
          validateJournalSoftwarePlan active p False = None \<and> mp_ConfigSHA256 p = sb_ExecutorPolicySHA256 b
      | _ \<Rightarrow> False)"

definition sameJournalSoftwarePlanIntent :: "MutationPlan \<Rightarrow> MutationPlan \<Rightarrow> bool" where
  "sameJournalSoftwarePlanIntent left right \<longleftrightarrow>
     left\<lparr>mp_LeaseGeneration := 0, mp_PlanSHA256 := []\<rparr> = right\<lparr>mp_LeaseGeneration := 0, mp_PlanSHA256 := []\<rparr>"

text \<open>The loop over the pending reports of a software job, with the last sequence seen.\<close>

primrec pending_for_restart :: "UpdateJob \<Rightarrow> u64 \<Rightarrow> PendingReport list \<Rightarrow> u64 \<Rightarrow> bool" where
  "pending_for_restart active nextSeq [] previous = True"
| "pending_for_restart active nextSeq (p # ps) previous =
     (let r = pe_Report p in
      \<not> (pe_JobID p \<noteq> uj_ID active \<or> jr_LeaseGeneration r \<noteq> uj_LeaseGeneration active \<or>
         jr_ServiceID r \<noteq> uj_AgentServiceID active \<or> jr_Sequence r = 0 \<or> jr_Sequence r \<le> previous \<or>
         jr_Sequence r \<ge> nextSeq \<or> jr_LeaseToken r \<noteq> [] \<or> jr_PortReconfigure r \<noteq> None \<or>
         (v2ProgressPhase (jr_Status r) = None \<and> \<not> isTerminalUpdateStatus (jr_Status r)) \<or>
         jr_Progress r < 0 \<or> jr_Progress r > 100 \<or>
         (jr_ArtifactDigest r \<noteq> [] \<and> canonicalReportDigest (jr_ArtifactDigest r) = []) \<or>
         (jr_PreviousDigest r \<noteq> [] \<and> canonicalReportDigest (jr_PreviousDigest r) = [])) \<and>
      pending_for_restart active nextSeq ps (jr_Sequence r))"

definition validateJournalSoftwarePendingForRestart :: "journalData \<Rightarrow> go_error option" where
  "validateJournalSoftwarePendingForRestart d =
     (case jd_ActiveJob d of
        None \<Rightarrow> errNew ''update journal software pending cursor is ambiguous''
      | Some active \<Rightarrow>
          if \<not> isV2SoftwareJob active \<or> uj_SoftwareClaimRejected active \<or>
             uj_TransportMode active \<noteq> HostTransportPullV2 \<or> uj_OwnershipEpoch active < 1 \<or>
             uj_LeaseGeneration active = 0 \<or> \<not> MatchString identifierPattern (uj_ID active) \<or>
             \<not> MatchString identifierPattern (uj_CommandID active) \<or>
             \<not> MatchString identifierPattern (uj_AgentServiceID active) \<or>
             \<not> validExecutionHostID (uj_HostID active) \<or> \<not> MatchString identifierPattern (uj_TargetID active) \<or>
             uj_LeaseToken active \<noteq> [] \<or> uj_ReleaseToken active \<noteq> [] \<or>
             jd_ActivePortPlan d \<noteq> None \<or> jd_ActivePortPolicy d \<noteq> None
          then errNew ''update journal software pending cursor is ambiguous''
          else if (case uj_SoftwareUpdate active of
               Some b \<Rightarrow> SoftwareUpdateJobBinding_Validate b \<noteq> None \<or> validateJournalSoftwareJob active \<noteq> None
             | None \<Rightarrow> False)
          then errNew ''update journal software pending authority is incomplete''
          else if uj_SoftwareUpdate active = None \<and>
             (uj_PolicyRevision active < 1 \<or>
              (case jd_ActivePlan d of None \<Rightarrow> True
               | Some p \<Rightarrow> MutationPlan_Validate p \<noteq> None \<or> validateJournalSoftwarePlan active p False \<noteq> None))
          then errNew ''update journal legacy software pending lacks its original plan''
          else if \<not> pending_for_restart active (jd_NextSeq d) (jd_Pending d) 0
          then errNew ''update journal software pending report does not match its saved cursor'' else None)"

section \<open>The world\<close>

text \<open>
  \<open>journal.json\<close> is read without any check of its metadata, so its content is enough; its
  temporary file is truncated before every use. The fence and its temporary file are checked:
  \<open>root_owned\<close> stands for ownership by the user of the agent. The journal in memory is part of the
  world because an operation that fails leaves its changes there.
\<close>

record journal_world = io_world +
  jw_main :: "journalData content option"
  jw_marker :: "journalActiveClearMarker disk_file"
  jw_marker_tmp :: "file_meta option"
  jw_journal :: Journal

type_synonym 'a journal_prog = "(journal_world, 'a) prog"

definition modifyP :: "('w \<Rightarrow> 'w) \<Rightarrow> ('w, unit) prog" where
  "modifyP f w = (Ok (), f w)"

definition set_data :: "journalData \<Rightarrow> journal_world \<Rightarrow> journal_world" where
  "set_data d w = w\<lparr>jw_journal := (jw_journal w)\<lparr>jn_data := d\<rparr>\<rparr>"

definition set_tokens :: "(string \<rightharpoonup> string) \<Rightarrow> journal_world \<Rightarrow> journal_world" where
  "set_tokens t w = w\<lparr>jw_journal := (jw_journal w)\<lparr>jn_leaseTokens := t\<rparr>\<rparr>"

abbreviation data_of :: "journal_world \<Rightarrow> journalData" where
  "data_of w \<equiv> jn_data (jw_journal w)"

abbreviation poison_of :: "journal_world \<Rightarrow> go_error option" where
  "poison_of w \<equiv> jn_poisoned (jw_journal w)"

section \<open>Saving\<close>

definition checkMutableLocked :: "unit journal_prog" where
  "checkMutableLocked = bindP (getP poison_of) checkP"

definition poisoned_by :: "go_error option \<Rightarrow> go_error \<Rightarrow> go_error" where
  "poisoned_by p cause =
     (case p of Some e \<Rightarrow> e | None \<Rightarrow> WrapErr cause ''update journal durability is uncertain; restart required'')"

definition poisonLocked :: "go_error \<Rightarrow> unit journal_prog" where
  "poisonLocked cause = bindP (getP (\<lambda>w. poisoned_by (poison_of w) cause)) (\<lambda>e.
     thenP (modifyP (\<lambda>w. w\<lparr>jw_journal := (jw_journal w)\<lparr>jn_poisoned := Some e\<rparr>\<rparr>)) (failP e))"

definition saveDataLocked :: "journal_env \<Rightarrow> journalData \<Rightarrow> unit journal_prog" where
  "saveDataLocked env d =
     thenP syscallP
     (case encode_data env d of
        None \<Rightarrow> failP (WrapErr OSFailure ''write update journal'')
      | Some _ \<Rightarrow>
          thenP (mapErrP (\<lambda>e. WrapErr e ''write update journal'') syscallP)
          (thenP (mapErrP (\<lambda>e. WrapErr e ''install update journal'')
             (effectP (\<lambda>w. w\<lparr>jw_main := Some (written d)\<rparr>)))
           (mapErrP (\<lambda>e. WrapErr e ''sync update journal parent'') syscallP)))"

definition saveLocked :: "journal_env \<Rightarrow> unit journal_prog" where
  "saveLocked env = bindP (getP data_of) (\<lambda>d. tryP (saveDataLocked env d)
     (\<lambda>e. poisonLocked (WrapErr e ''persist update journal mutation'')) returnP)"

text \<open>An operation changes the data in memory and saves it.\<close>

definition updateP :: "journal_env \<Rightarrow> (journalData \<Rightarrow> journalData) \<Rightarrow> unit journal_prog" where
  "updateP env f = thenP (modifyP (\<lambda>w. set_data (f (data_of w)) w)) (saveLocked env)"

section \<open>The fence\<close>

definition marker_max :: int where "marker_max = 1048576"
definition port_marker_max :: int where "port_marker_max = 4194304"

definition safeActiveClearMarkerFile :: "file_meta \<Rightarrow> bool" where
  "safeActiveClearMarkerFile info \<longleftrightarrow>
     \<not> is_symlink info \<and> is_regular info \<and> perm info = 384 \<and> root_owned info"

definition activeClearMarkerSizeLimit :: "journalActiveClearMarker \<Rightarrow> int" where
  "activeClearMarkerSizeLimit m =
     (if jd_ActivePortPolicy (cm_Previous m) \<noteq> None then port_marker_max else marker_max)"

definition marker_metadata_fits :: "journal_env \<Rightarrow> journalActiveClearMarker \<Rightarrow> bool" where
  "marker_metadata_fits env m =
     (case encode_marker env (m\<lparr>cm_Previous := (cm_Previous m)\<lparr>jd_ActivePortPolicy := None\<rparr>\<rparr>) of
        None \<Rightarrow> False | Some base \<Rightarrow> int (length base) + 1 \<le> marker_max)"

definition validateActiveClearMarker :: "journal_env \<Rightarrow> journalActiveClearMarker \<Rightarrow> go_error option" where
  "validateActiveClearMarker env m =
     (case jd_ActiveJob (cm_Previous m) of
        None \<Rightarrow> errNew ''active journal clear fence is invalid''
      | Some active \<Rightarrow>
          if cm_SchemaVersion m \<noteq> 1 \<or> \<not> MatchString digestPattern (cm_PreviousSHA256 m)
          then errNew ''active journal clear fence is invalid''
          else case validateJournalData (je_ex env) (cm_Previous m) of
            Some err \<Rightarrow> Some (WrapErr err ''active journal clear fence previous state is invalid'')
          | None \<Rightarrow>
              if \<not> marker_metadata_fits env m
              then errNew ''active journal clear fence metadata exceeds its bound''
              else if uj_LeaseToken active \<noteq> [] \<or> uj_ReleaseToken active \<noteq> []
              then errNew ''active journal clear fence contains an execution credential''
              else if list_ex (\<lambda>p. jr_LeaseToken (pe_Report p) \<noteq> []) (jd_Pending (cm_Previous m))
              then errNew ''active journal clear fence contains a report credential''
              else if journalDataSHA256 env (cm_Previous m) \<noteq> Inr (cm_PreviousSHA256 m)
              then errNew ''active journal clear fence digest is invalid'' else None)"

definition loadActiveClearMarkerLocked :: "journal_env \<Rightarrow> journalActiveClearMarker option journal_prog" where
  "loadActiveClearMarkerLocked env =
     tryP (lookupP (\<lambda>w. case jw_marker w of NoFile \<Rightarrow> None | DiskFile info _ \<Rightarrow> Some info))
       (\<lambda>err. if errors_Is err NotExist then returnP None
              else failP (NewErr ''active journal clear fence is unsafe''))
       (\<lambda>info. if \<not> safeActiveClearMarkerFile info \<or> size_bytes info \<le> 0 \<or> size_bytes info > port_marker_max
         then failP (NewErr ''active journal clear fence is unsafe'')
         else tryP (observeP jw_marker) (\<lambda>_. failP (NewErr ''open active journal clear fence''))
         (\<lambda>f. case f of
            NoFile \<Rightarrow> failP (NewErr ''open active journal clear fence'')
          | DiskFile info c \<Rightarrow>
              thenP (mapErrP (\<lambda>_. NewErr ''read active journal clear fence'') syscallP)
              (case c of
                 Undecodable \<Rightarrow> failP (NewErr ''decode active journal clear fence'')
               | Decodes m \<Rightarrow>
                   if size_bytes info > activeClearMarkerSizeLimit m
                   then failP (NewErr ''active journal clear fence exceeds its bound'')
                   else thenP (checkP (validateActiveClearMarker env m)) (returnP (Some m))
               | TrailingData m \<Rightarrow>
                   if size_bytes info > activeClearMarkerSizeLimit m
                   then failP (NewErr ''active journal clear fence exceeds its bound'')
                   else failP (NewErr ''active journal clear fence contains trailing data''))))"

definition removeActiveClearMarkerTempLocked :: "unit journal_prog" where
  "removeActiveClearMarkerTempLocked =
     tryP (lookupP jw_marker_tmp)
       (\<lambda>err. if errors_Is err NotExist then returnP ()
              else failP (NewErr ''active journal clear fence temporary file is unsafe''))
       (\<lambda>info. if \<not> safeActiveClearMarkerFile info
         then failP (NewErr ''active journal clear fence temporary file is unsafe'')
         else thenP (mapErrP (\<lambda>_. NewErr ''remove active journal clear fence temporary file'')
                (effectP (\<lambda>w. w\<lparr>jw_marker_tmp := None\<rparr>)))
              (mapErrP (\<lambda>e. WrapErr e ''sync active journal clear fence temporary cleanup'') syscallP))"

definition removeActiveClearMarkerLocked :: "unit journal_prog" where
  "removeActiveClearMarkerLocked =
     tryP (lookupP (\<lambda>w. case jw_marker w of NoFile \<Rightarrow> None | DiskFile info _ \<Rightarrow> Some info))
       (\<lambda>_. failP (NewErr ''active journal clear fence changed before cleanup''))
       (\<lambda>info. if \<not> safeActiveClearMarkerFile info
         then failP (NewErr ''active journal clear fence changed before cleanup'')
         else thenP (mapErrP (\<lambda>_. NewErr ''remove active journal clear fence'')
                (effectP (\<lambda>w. w\<lparr>jw_marker := NoFile\<rparr>)))
              (mapErrP (\<lambda>e. WrapErr e ''sync active journal clear fence cleanup'') syscallP))"

text \<open>Creating and writing the temporary file of the fence.\<close>

definition writeMarkerTemp :: "int \<Rightarrow> unit journal_prog" where
  "writeMarkerTemp n =
     thenP (mapErrP (\<lambda>_. NewErr ''create active journal clear fence'')
       (bindP (observeP jw_marker_tmp) (\<lambda>t. if t \<noteq> None then failP OSFailure
          else effectP (\<lambda>w. w\<lparr>jw_marker_tmp := Some (private_file 0)\<rparr>))))
     (thenP (tryP (effectP (\<lambda>w. w\<lparr>jw_marker_tmp := Some (private_file n)\<rparr>))
         (\<lambda>e. thenP (ignoreP (effectP (\<lambda>w. w\<lparr>jw_marker_tmp := None\<rparr>)))
            (failP (WrapErr e ''write active journal clear fence''))) returnP)
      (tryP (lookupP jw_marker_tmp)
         (\<lambda>_. thenP (ignoreP (effectP (\<lambda>w. w\<lparr>jw_marker_tmp := None\<rparr>)))
            (failP (NewErr ''active journal clear fence temporary file is unsafe'')))
         (\<lambda>info. if safeActiveClearMarkerFile info then returnP ()
            else thenP (ignoreP (effectP (\<lambda>w. w\<lparr>jw_marker_tmp := None\<rparr>)))
              (failP (NewErr ''active journal clear fence temporary file is unsafe'')))))"

definition renameMarker :: "journal_env \<Rightarrow> journalActiveClearMarker \<Rightarrow> int \<Rightarrow> unit journal_prog" where
  "renameMarker env m n =
     tryP (effectP (\<lambda>w. w\<lparr>jw_marker := DiskFile (private_file n) (written_marker m), jw_marker_tmp := None\<rparr>))
       (\<lambda>err. bindP (tryP (loadActiveClearMarkerLocked env) (\<lambda>_. returnP False)
            (\<lambda>installed. returnP (map_option cm_PreviousSHA256 installed = Some (cm_PreviousSHA256 m))))
          (\<lambda>visible. if visible
             then thenP (ignoreP syscallP)
               (failP (WrapErr err ''install active journal clear fence reported an error''))
             else thenP (ignoreP removeActiveClearMarkerTempLocked)
               (failP (WrapErr err ''install active journal clear fence''))))
       (\<lambda>_. mapErrP (\<lambda>e. WrapErr e ''sync active journal clear fence parent'') syscallP)"

definition installActiveClearMarkerLocked :: "journal_env \<Rightarrow> journalData \<Rightarrow> unit journal_prog" where
  "installActiveClearMarkerLocked env previous =
     (if (case jd_ActiveJob previous of None \<Rightarrow> True
          | Some active \<Rightarrow> uj_LeaseToken active \<noteq> [] \<or> uj_ReleaseToken active \<noteq> [])
      then failP (NewErr ''active journal state is not credential-free'')
      else if list_ex (\<lambda>p. jr_LeaseToken (pe_Report p) \<noteq> []) (jd_Pending previous)
      then failP (NewErr ''pending journal report is not credential-free'')
      else case journalDataSHA256 env previous of
        Inl _ \<Rightarrow> failP (NewErr ''digest active journal clear fence'')
      | Inr digest \<Rightarrow>
          let m = \<lparr>cm_SchemaVersion = 1, cm_PreviousSHA256 = digest, cm_Previous = previous\<rparr> in
          thenP (checkP (validateActiveClearMarker env m))
          (bindP (loadActiveClearMarkerLocked env) (\<lambda>existing. case existing of
             Some e \<Rightarrow>
               if cm_PreviousSHA256 e \<noteq> digest
               then failP (NewErr ''active journal clear fence already has another binding'')
               else mapErrP (\<lambda>err. WrapErr err ''sync existing active journal clear fence'') syscallP
           | None \<Rightarrow>
               thenP removeActiveClearMarkerTempLocked
               (case encode_marker env m of
                  None \<Rightarrow> failP (NewErr ''encode active journal clear fence'')
                | Some encoded \<Rightarrow>
                    if int (length encoded) + 1 > activeClearMarkerSizeLimit m
                    then failP (NewErr ''encode active journal clear fence'')
                    else thenP (writeMarkerTemp (int (length encoded) + 1))
                      (renameMarker env m (int (length encoded) + 1))))))"

section \<open>Clearing the active job\<close>

definition clear_active :: "journalData \<Rightarrow> journalData" where
  "clear_active d = d\<lparr>jd_ActiveJob := None, jd_ActivePlan := None, jd_ActivePortPlan := None,
     jd_ActivePortPolicy := None, jd_ActiveStageFailure := None\<rparr>"

definition ClearActive :: "journal_env \<Rightarrow> unit journal_prog" where
  "ClearActive env =
     thenP checkMutableLocked
     (bindP (getP data_of) (\<lambda>previous.
        if jd_ActiveJob previous = None then returnP ()
        else tryP (installActiveClearMarkerLocked env previous)
          (\<lambda>e. poisonLocked (WrapErr e ''install active journal clear fence''))
          (\<lambda>_. tryP (saveDataLocked env (clear_active previous))
             (\<lambda>e. poisonLocked (WrapErr e ''persist cleared active journal''))
             (\<lambda>_. thenP (modifyP (set_data (clear_active previous)))
                (tryP removeActiveClearMarkerLocked
                   (\<lambda>e. poisonLocked (WrapErr e ''remove active journal clear fence'')) returnP)))))"

text \<open>What the recovery of an interrupted clear compares with: it keeps the stage failure.\<close>

definition reconcile_cleared :: "journalData \<Rightarrow> journalData" where
  "reconcile_cleared d = d\<lparr>jd_ActiveJob := None, jd_ActivePlan := None, jd_ActivePortPlan := None,
     jd_ActivePortPolicy := None\<rparr>"

definition reconcileActiveClearMarkerLocked :: "journal_env \<Rightarrow> journalData \<Rightarrow> bool \<Rightarrow> unit journal_prog" where
  "reconcileActiveClearMarkerLocked env d mainExists =
     thenP removeActiveClearMarkerTempLocked
     (bindP (loadActiveClearMarkerLocked env) (\<lambda>marker. case marker of
        None \<Rightarrow> returnP ()
      | Some m \<Rightarrow>
          if \<not> mainExists then failP (NewErr ''active journal clear fence exists without the main journal'')
          else case journalDataSHA256 env d of
            Inl _ \<Rightarrow> failP (NewErr ''digest current journal during active clear recovery'')
          | Inr current \<Rightarrow>
              (case journalDataSHA256 env (reconcile_cleared (cm_Previous m)) of
                 Inl _ \<Rightarrow> failP (NewErr ''digest cleared journal during active clear recovery'')
               | Inr cleared \<Rightarrow>
                   if current \<noteq> cm_PreviousSHA256 m \<and> current \<noteq> cleared
                   then failP (NewErr ''active journal clear fence does not match the main journal'')
                   else removeActiveClearMarkerLocked)))"

section \<open>Opening\<close>

definition fresh_data :: journalData where
  "fresh_data = \<lparr>jd_ActiveJob = None, jd_ActivePlan = None, jd_ActivePortPlan = None, jd_ActivePortPolicy = None,
     jd_ActiveStageFailure = None, jd_NextSeq = 1, jd_Pending = [], jd_DeployedVersions = Map.empty\<rparr>"

definition fresh_journal :: "journalData \<Rightarrow> Journal" where
  "fresh_journal d = \<lparr>jn_data = d, jn_leaseTokens = Map.empty, jn_poisoned = None\<rparr>"

definition loaded :: "journalData \<Rightarrow> journalData" where
  "loaded d = d\<lparr>jd_NextSeq := (if jd_NextSeq d = 0 then 1 else jd_NextSeq d)\<rparr>"

definition retains_pending :: "journalData \<Rightarrow> bool" where
  "retains_pending d \<longleftrightarrow> jd_Pending d \<noteq> [] \<and>
     (case jd_ActiveJob d of None \<Rightarrow> False | Some active \<Rightarrow> isV2SoftwareJob active)"

definition scrub :: "journalData \<Rightarrow> journalData" where
  "scrub d = d\<lparr>jd_ActiveJob := map_option (\<lambda>j. j\<lparr>uj_LeaseToken := [], uj_ReleaseToken := []\<rparr>) (jd_ActiveJob d),
     jd_Pending := (if retains_pending d then jd_Pending d else [])\<rparr>"

definition scrubbed :: "journalData \<Rightarrow> bool" where
  "scrubbed d \<longleftrightarrow>
     (case jd_ActiveJob d of None \<Rightarrow> False | Some j \<Rightarrow> uj_LeaseToken j \<noteq> [] \<or> uj_ReleaseToken j \<noteq> []) \<or>
     (jd_Pending d \<noteq> [] \<and> \<not> retains_pending d)"

definition openData :: "journal_env \<Rightarrow> journalData \<Rightarrow> Journal journal_prog" where
  "openData env d =
     thenP (checkP (validateJournalData (je_ex env) d))
     (thenP (reconcileActiveClearMarkerLocked env d True)
     (thenP (checkP (if retains_pending d then validateJournalSoftwarePendingForRestart d else None))
      (if scrubbed d
       then thenP (mapErrP (\<lambda>e. poisoned_by None (WrapErr e ''persist update journal mutation''))
              (saveDataLocked env (scrub d))) (returnP (fresh_journal (scrub d)))
       else returnP (fresh_journal d))))"

definition OpenJournal :: "journal_env \<Rightarrow> Journal journal_prog" where
  "OpenJournal env =
     thenP syscallP
     (tryP (lookupP jw_main)
        (\<lambda>err. if errors_Is err NotExist
           then thenP (reconcileActiveClearMarkerLocked env fresh_data False) (returnP (fresh_journal fresh_data))
           else failP err)
        (\<lambda>content. thenP (mapErrP (\<lambda>e. WrapErr e ''decode update journal'') syscallP)
          (case content of
             Undecodable \<Rightarrow> failP (WrapErr OSFailure ''decode update journal'')
           | Decodes d \<Rightarrow> thenP (mapErrP (\<lambda>e. WrapErr e ''close update journal'') syscallP) (openData env (loaded d))
           | TrailingData d \<Rightarrow>
               thenP (mapErrP (\<lambda>e. WrapErr e ''close update journal'') syscallP) (openData env (loaded d)))))"

text \<open>A process that starts opens the journal and keeps it.\<close>

definition startP :: "journal_env \<Rightarrow> unit journal_prog" where
  "startP env = bindP (OpenJournal env) (\<lambda>j. modifyP (\<lambda>w. w\<lparr>jw_journal := j\<rparr>))"

section \<open>Jobs and plans\<close>

definition MarkDeployed :: "journal_env \<Rightarrow> string \<Rightarrow> string \<Rightarrow> unit journal_prog" where
  "MarkDeployed env targetID version =
     thenP checkMutableLocked
       (updateP env (\<lambda>d. d\<lparr>jd_DeployedVersions := (jd_DeployedVersions d)(targetID \<mapsto> version)\<rparr>))"

text \<open>Whether \<open>job\<close> may replace the active software job.\<close>

definition software_replacement_check :: "externals \<Rightarrow> journalData \<Rightarrow> UpdateJob \<Rightarrow> UpdateJob \<Rightarrow> go_error option" where
  "software_replacement_check ex d active job =
     (if \<not> sameRecoveredJobIntent ex active job \<and>
         \<not> journalLegacySoftwareBindingMatches ex active job (jd_ActivePlan d)
      then errNew ''active software job intent cannot be replaced''
      else if uj_LeaseGeneration active \<noteq> uj_LeaseGeneration job \<and>
         list_ex (\<lambda>p. pe_JobID p = uj_ID active) (jd_Pending d)
      then errNew ''active software lease cannot replace pending reports''
      else case jd_ActivePlan d of None \<Rightarrow> None | Some plan \<Rightarrow> validateJournalSoftwarePlan job plan False)"

definition replacement_check :: "externals \<Rightarrow> journalData \<Rightarrow> UpdateJob \<Rightarrow> go_error option" where
  "replacement_check ex d job =
     (case jd_ActiveJob d of None \<Rightarrow> None | Some active \<Rightarrow>
        if uj_ID active \<noteq> uj_ID job \<or> EffectiveOperation active \<noteq> EffectiveOperation job
        then errNew ''active update job must be durably cleared before replacement''
        else if EffectiveOperation active = updateJobOperationSoftwareUpdate
        then software_replacement_check ex d active job else None)"

text \<open>A versioned port job keeps the result and the observation that were saved with it.\<close>

definition retained_port_results :: "externals \<Rightarrow> journalData \<Rightarrow> UpdateJob \<Rightarrow> UpdateJob result" where
  "retained_port_results ex d job =
     (case jd_ActiveJob d of None \<Rightarrow> Inr job | Some active \<Rightarrow>
        if uj_ID active = uj_ID job \<and> isPortContractV2 job
        then (if \<not> sameRecoveredJobIntent ex active job
              then Inl (NewErr ''active port job intent cannot be replaced'')
              else
                let keep_observation = (\<lambda>j. if uj_LastRecoveryObservation j = None
                      then j\<lparr>uj_LastRecoveryObservation := uj_LastRecoveryObservation active\<rparr> else j) in
                case uj_PortResult active of
                  None \<Rightarrow> Inr (keep_observation job)
                | Some saved \<Rightarrow>
                    if (case uj_PortResult job of None \<Rightarrow> False | Some r \<Rightarrow> \<not> ex_EqualPortResults ex saved r)
                    then Inl (NewErr ''active port job accepted result cannot be replaced'')
                    else Inr (keep_observation (job\<lparr>uj_PortResult := Some saved\<rparr>)))
        else Inr job)"

definition next_sequence :: "journalData \<Rightarrow> UpdateJob \<Rightarrow> u64" where
  "next_sequence d job =
     (let n1 = uj_ReportSequence job;
          n2 = (if n1 = 0 then uj_Sequence job + 1 else n1);
          n3 = (if n2 = 0 then 1 else n2) in
      case jd_ActiveJob d of
        Some active \<Rightarrow>
          if uj_LeaseGeneration active = uj_LeaseGeneration job \<and> n3 < jd_NextSeq d then jd_NextSeq d else n3
      | None \<Rightarrow> n3)"

definition same_active :: "journalData \<Rightarrow> UpdateJob \<Rightarrow> bool" where
  "same_active d job =
     (case jd_ActiveJob d of None \<Rightarrow> False | Some active \<Rightarrow>
        uj_ID active = uj_ID job \<and> EffectiveOperation active = EffectiveOperation job)"

definition with_active :: "journalData \<Rightarrow> UpdateJob \<Rightarrow> journalData" where
  "with_active d job =
     (let d' = (if same_active d job then d
        else d\<lparr>jd_ActivePlan := None, jd_ActivePortPlan := None, jd_ActivePortPolicy := None,
          jd_ActiveStageFailure := None\<rparr>) in
      d'\<lparr>jd_ActiveJob := Some job, jd_NextSeq := next_sequence d job\<rparr>)"

definition SetActive :: "journal_env \<Rightarrow> UpdateJob option \<Rightarrow> unit journal_prog" where
  "SetActive env job =
     thenP checkMutableLocked
     (case job of None \<Rightarrow> failP (NewErr ''active update job operation is invalid'') | Some job \<Rightarrow>
      if validateOperationUnion (je_ex env) job \<noteq> None
      then failP (NewErr ''active update job operation is invalid'')
      else thenP (checkP (validateJournalSoftwareJob job))
        (bindP (getP data_of) (\<lambda>d.
           thenP (checkP (replacement_check (je_ex env) d job))
           (bindP (resultP (retained_port_results (je_ex env) d job)) (\<lambda>copy.
              updateP env (\<lambda>d. with_active d (copy\<lparr>uj_LeaseToken := [], uj_ReleaseToken := []\<rparr>)))))))"

definition SetActivePlan :: "journal_env \<Rightarrow> MutationPlan \<Rightarrow> unit journal_prog" where
  "SetActivePlan env plan =
     thenP checkMutableLocked
     (bindP (getP data_of) (\<lambda>d.
        case jd_ActiveJob d of
          None \<Rightarrow> failP (NewErr ''active update plan does not match the journal job'')
        | Some active \<Rightarrow>
            if EffectiveOperation active \<noteq> updateJobOperationSoftwareUpdate \<or> uj_ID active \<noteq> mp_JobID plan \<or>
               MutationPlan_Validate plan \<noteq> None
            then failP (NewErr ''active update plan does not match the journal job'')
            else thenP (checkP (validateJournalSoftwarePlan active plan True))
              (if (case jd_ActivePlan d of None \<Rightarrow> False | Some stored \<Rightarrow>
                     \<not> sameJournalSoftwarePlanIntent stored plan \<or>
                     mp_LeaseGeneration plan < mp_LeaseGeneration stored \<or>
                     mp_LeaseGeneration plan \<noteq> uj_LeaseGeneration active)
               then failP (NewErr ''active software plan intent cannot be replaced'')
               else updateP env (\<lambda>d. d\<lparr>jd_ActivePlan := Some plan\<rparr>))))"

definition SetActivePortPlan :: "journal_env \<Rightarrow> SystemdPortReconfigurePlan \<Rightarrow> unit journal_prog" where
  "SetActivePortPlan env plan =
     thenP checkMutableLocked
     (bindP (getP data_of) (\<lambda>d.
        case jd_ActiveJob d of
          None \<Rightarrow> failP (NewErr ''active port reconfiguration plan does not match the journal job'')
        | Some active \<Rightarrow>
            if EffectiveOperation active \<noteq> updateJobOperationPortReconfigure \<or> uj_ID active \<noteq> pp_JobID plan \<or>
               SystemdPortReconfigurePlan_Validate (je_ex env) plan \<noteq> None
            then failP (NewErr ''active port reconfiguration plan does not match the journal job'')
            else updateP env (\<lambda>d. d\<lparr>jd_ActivePortPlan := Some plan\<rparr>)))"

definition SetActiveStageFailure :: "journal_env \<Rightarrow> stageFailureRecord \<Rightarrow> unit journal_prog" where
  "SetActiveStageFailure env failure =
     thenP checkMutableLocked
     (bindP (getP data_of) (\<lambda>d.
        if map_option uj_ID (jd_ActiveJob d) \<noteq> Some (sf_JobID failure)
        then failP (NewErr ''active stage failure does not match the journal job'')
        else thenP (checkP (stageFailureRecord_validate failure))
          (updateP env (\<lambda>d. d\<lparr>jd_ActiveStageFailure := Some failure\<rparr>))))"

section \<open>Reports\<close>

text \<open>The key of the lease token of a pending report, \<open>fmt.Sprintf("%s:%d")\<close>.\<close>

definition pendingLeaseKey :: "string \<Rightarrow> u64 \<Rightarrow> string" where
  "pendingLeaseKey jobID sequence = jobID @ '':'' @ decimal_string (unat sequence)"

definition result_only :: "string \<Rightarrow> SystemUpdatePortResultV2" where
  "result_only r = \<lparr>pr_Result = r, pr_ObservedSnapshotID = [], pr_ObservedSnapshotSHA256 = [],
     pr_ObservedConfigRevision = 0, pr_ObservedConfigSHA256 = [], pr_ObservedExecutorPolicyRevision = 0,
     pr_ObservedExecutorPolicySHA256 = [], pr_RuntimeInstance = None, pr_ObservedAt = zero_time,
     pr_PolicyDiskVerified = False, pr_PolicyMemoryVerified = False, pr_ListenerVerified = False,
     pr_AgentProjectionVerified = False\<rparr>"

text \<open>Whether a versioned result belongs to the active job.\<close>

definition port_result_matches ::
  "externals \<Rightarrow> UpdateJob \<Rightarrow> string \<Rightarrow> string \<Rightarrow> u64 \<Rightarrow> string \<Rightarrow> SystemdPortReconfigureResult \<Rightarrow>
     SystemUpdatePortResultV2 \<Rightarrow> bool" where
  "port_result_matches ex active jobID serviceID leaseGeneration status result r \<longleftrightarrow>
     isPortContractV2 active \<and> uj_ID active = jobID \<and> uj_AgentServiceID active = serviceID \<and>
     uj_LeaseGeneration active = leaseGeneration \<and> SystemdPortReconfigureResult_Validate result = None \<and>
     rr_Status result = status \<and>
     (case uj_PortReconfigure active of None \<Rightarrow> False
      | Some port \<Rightarrow> ex_ValidatePortResult ex (sharedPortPlan port) r)"

text \<open>The active job after a versioned result, or the error.\<close>

definition record_port_result :: "externals \<Rightarrow> UpdateJob \<Rightarrow> SystemdPortReconfigureResult \<Rightarrow>
    SystemUpdatePortResultV2 \<Rightarrow> UpdateJob result" where
  "record_port_result ex active result r =
     (if ex_AcceptedPortResult ex r
      then (if (case uj_PortResult active of None \<Rightarrow> False | Some saved \<Rightarrow> \<not> ex_EqualPortResults ex saved r)
            then Inl (NewErr ''accepted port result cannot be replaced'')
            else Inr (active\<lparr>uj_PortResult := Some r, uj_RecoveryRequired := False\<rparr>))
      else if uj_PortResult active \<noteq> None \<or> \<not> rr_RecoveryRequired result
      then Inl (NewErr ''late or incomplete port recovery observation'')
      else Inr (active\<lparr>uj_LastRecoveryObservation := Some r, uj_RecoveryRequired := True\<rparr>))"

text \<open>The data and the reported result of \<open>queue\<close> before the report is appended.\<close>

definition queue_result ::
  "externals \<Rightarrow> journalData \<Rightarrow> string \<Rightarrow> string \<Rightarrow> u64 \<Rightarrow> string \<Rightarrow> SystemdPortReconfigureResult option \<Rightarrow>
     (journalData \<times> SystemUpdatePortResultV2 option) result" where
  "queue_result ex d jobID serviceID leaseGeneration status portResult =
     (case portResult of
        None \<Rightarrow> Inr (d, None)
      | Some result \<Rightarrow>
          if rr_PortContractVersion result \<noteq> 2 then Inr (d, Some (result_only (rr_Result result)))
          else case (jd_ActiveJob d, rr_PortResult result) of
            (Some active, Some r) \<Rightarrow>
              if \<not> port_result_matches ex active jobID serviceID leaseGeneration status result r
              then Inl (NewErr ''port result does not match the active journal intent'')
              else map_sum id (\<lambda>active'. (d\<lparr>jd_ActiveJob := Some active'\<rparr>, Some r))
                (record_port_result ex active result r)
          | _ \<Rightarrow> Inl (NewErr ''port result does not match the active journal intent''))"

definition append_report :: "string \<Rightarrow> JobReport \<Rightarrow> journalData \<Rightarrow> journalData" where
  "append_report jobID report d =
     d\<lparr>jd_NextSeq := jd_NextSeq d + 1,
       jd_Pending := jd_Pending d @ [\<lparr>pe_JobID = jobID, pe_Report = report\<lparr>jr_LeaseToken := []\<rparr>\<rparr>]\<rparr>"

definition queue ::
  "journal_env \<Rightarrow> string \<Rightarrow> string \<Rightarrow> string \<Rightarrow> u64 \<Rightarrow> string \<Rightarrow> string \<Rightarrow> string \<Rightarrow> int \<Rightarrow> string \<Rightarrow> string \<Rightarrow>
     SystemdPortReconfigureResult option \<Rightarrow> JobReport journal_prog" where
  "queue env jobID serviceID leaseToken leaseGeneration status code message progress artifact previous portResult =
     thenP checkMutableLocked
     (bindP (getP data_of) (\<lambda>d.
      bindP (resultP (queue_result (je_ex env) d jobID serviceID leaseGeneration status portResult)) (\<lambda>(d', result).
        let report = \<lparr>jr_ServiceID = serviceID, jr_LeaseToken = leaseToken, jr_Sequence = jd_NextSeq d',
              jr_LeaseGeneration = leaseGeneration, jr_Status = status, jr_Progress = progress, jr_Code = code,
              jr_Message = message, jr_ArtifactDigest = artifact, jr_PreviousDigest = previous,
              jr_PortReconfigure = result\<rparr> in
        thenP (modifyP (\<lambda>w. set_tokens ((jn_leaseTokens (jw_journal w))
                 (pendingLeaseKey jobID (jr_Sequence report) \<mapsto> leaseToken)) w))
        (thenP (updateP env (\<lambda>_. append_report jobID report d')) (returnP report)))))"

definition Queue ::
  "journal_env \<Rightarrow> string \<Rightarrow> string \<Rightarrow> string \<Rightarrow> u64 \<Rightarrow> string \<Rightarrow> string \<Rightarrow> string \<Rightarrow> int \<Rightarrow> string \<Rightarrow> string \<Rightarrow>
     JobReport journal_prog" where
  "Queue env jobID serviceID leaseToken leaseGeneration status code message progress artifact previous =
     queue env jobID serviceID leaseToken leaseGeneration status code message progress artifact previous None"

definition QueuePort ::
  "journal_env \<Rightarrow> string \<Rightarrow> string \<Rightarrow> string \<Rightarrow> u64 \<Rightarrow> string \<Rightarrow> string \<Rightarrow> string \<Rightarrow> int \<Rightarrow>
     SystemdPortReconfigureResult option \<Rightarrow> JobReport journal_prog" where
  "QueuePort env jobID serviceID leaseToken leaseGeneration status code message progress result =
     queue env jobID serviceID leaseToken leaseGeneration status code message progress [] [] result"

definition forget_tokens :: "PendingReport list \<Rightarrow> (string \<rightharpoonup> string) \<Rightarrow> string \<rightharpoonup> string" where
  "forget_tokens ps tokens =
     tokens |` (- set (map (\<lambda>p. pendingLeaseKey (pe_JobID p) (jr_Sequence (pe_Report p))) ps))"

definition DropJobReports :: "journal_env \<Rightarrow> string \<Rightarrow> unit journal_prog" where
  "DropJobReports env jobID =
     thenP checkMutableLocked
     (thenP (modifyP (\<lambda>w. set_tokens (forget_tokens (filter (\<lambda>p. pe_JobID p = jobID) (jd_Pending (data_of w)))
              (jn_leaseTokens (jw_journal w))) w))
      (updateP env (\<lambda>d. d\<lparr>jd_Pending := filter (\<lambda>p. pe_JobID p \<noteq> jobID) (jd_Pending d)\<rparr>)))"

definition Pending :: "Journal \<Rightarrow> PendingReport list" where
  "Pending j = map (\<lambda>p. p\<lparr>pe_Report := (pe_Report p)\<lparr>jr_LeaseToken :=
       (case jn_leaseTokens j (pendingLeaseKey (pe_JobID p) (jr_Sequence (pe_Report p))) of None \<Rightarrow> [] | Some t \<Rightarrow> t)\<rparr>\<rparr>)
     (jd_Pending (jn_data j))"

definition Ack :: "journal_env \<Rightarrow> string \<Rightarrow> u64 \<Rightarrow> unit journal_prog" where
  "Ack env jobID sequence =
     thenP checkMutableLocked
     (bindP (getP (\<lambda>w. jd_Pending (data_of w))) (\<lambda>pending.
        case pending of
          [] \<Rightarrow> failP (NewErr ''journal acknowledgements must be ordered'')
        | acked # rest \<Rightarrow>
            if pe_JobID acked \<noteq> jobID \<or> jr_Sequence (pe_Report acked) \<noteq> sequence
            then failP (NewErr ''journal acknowledgements must be ordered'')
            else thenP (modifyP (\<lambda>w. set_tokens (forget_tokens [acked] (jn_leaseTokens (jw_journal w))) w))
              (updateP env (\<lambda>d. d\<lparr>jd_Pending := rest\<rparr>))))"

section \<open>Port policy projections\<close>

definition StagePortPolicy ::
  "journal_env \<Rightarrow> HostAgentPolicy \<Rightarrow> UpdateJob \<Rightarrow> SystemdPortReconfigurePlan \<Rightarrow> unit journal_prog" where
  "StagePortPolicy env policy job plan =
     thenP checkMutableLocked
     (bindP (getP (\<lambda>w. jd_ActivePortPolicy (data_of w))) (\<lambda>saved.
        case saved of
          Some state \<Rightarrow> checkP (portAgentPolicyState_validate (je_ex env) state (Some job) (Some plan))
        | None \<Rightarrow>
            bindP (resultP (staged_port_policy (je_ex env) policy job plan)) (\<lambda>state.
              updateP env (\<lambda>d. d\<lparr>jd_ActivePortPolicy := Some state\<rparr>))))"

definition Journal_portPolicyCandidate :: "externals \<Rightarrow> journalData \<Rightarrow> string \<Rightarrow> HostAgentPolicy result" where
  "Journal_portPolicyCandidate ex d snapshotID =
     (case jd_ActivePortPolicy d of
        None \<Rightarrow> Inl (NewErr ''port policy candidates are unavailable'')
      | Some state \<Rightarrow>
          (case portAgentPolicyState_validate ex state (jd_ActiveJob d) (jd_ActivePortPlan d) of
             Some err \<Rightarrow> Inl err
           | None \<Rightarrow>
               let wanted = (if snapshotID = [] then ps_ActiveSnapshotID state else snapshotID);
                   names = (\<lambda>f. Option.bind (jd_ActivePortPlan d) (\<lambda>plan. map_option sn_SnapshotID (f plan))) in
               if names pp_Before = Some wanted then Inr (ps_Before state)
               else if names pp_Target = Some wanted then Inr (ps_Target state)
               else if names pp_Rollback = Some wanted then Inr (ps_Rollback state)
               else Inl (NewErr ''port policy snapshot is outside the original job'')))"

definition snapshot_id :: "journalData \<Rightarrow> (SystemdPortReconfigurePlan \<Rightarrow> SystemUpdatePortSnapshotRef option) \<Rightarrow> string option" where
  "snapshot_id d f = Option.bind (jd_ActivePortPlan d) (\<lambda>plan. map_option sn_SnapshotID (f plan))"

definition adopt_check :: "externals \<Rightarrow> journalData \<Rightarrow> string \<Rightarrow> string \<Rightarrow> portAgentPolicyState result" where
  "adopt_check ex d jobID snapshotID =
     (case jd_ActivePortPolicy d of
        None \<Rightarrow> Inl (NewErr ''port policy adoption identity is invalid'')
      | Some state \<Rightarrow>
          if ps_JobID state \<noteq> jobID \<or>
             portAgentPolicyState_validate ex state (jd_ActiveJob d) (jd_ActivePortPlan d) \<noteq> None
          then Inl (NewErr ''port policy adoption identity is invalid'')
          else if snapshot_id d pp_Rollback = Some (ps_ActiveSnapshotID state) \<and>
             snapshot_id d pp_Rollback \<noteq> Some snapshotID
          then Inl (NewErr ''port rollback projection cannot return to target'')
          else if snapshot_id d pp_Before \<noteq> Some snapshotID \<and> snapshot_id d pp_Target \<noteq> Some snapshotID \<and>
             snapshot_id d pp_Rollback \<noteq> Some snapshotID
          then Inl (NewErr ''port policy adoption snapshot is invalid'')
          else Inr (state\<lparr>ps_ActiveSnapshotID := snapshotID\<rparr>))"

definition adoptPortPolicy :: "journal_env \<Rightarrow> string \<Rightarrow> string \<Rightarrow> unit journal_prog" where
  "adoptPortPolicy env jobID snapshotID =
     thenP checkMutableLocked
     (bindP (getP data_of) (\<lambda>d.
      bindP (resultP (adopt_check (je_ex env) d jobID snapshotID)) (\<lambda>state.
        updateP env (\<lambda>d. d\<lparr>jd_ActivePortPolicy := Some state\<rparr>))))"

section \<open>Adopting a recovered software claim\<close>

definition unrelated_pending :: "UpdateJob option \<Rightarrow> PendingReport \<Rightarrow> bool" where
  "unrelated_pending active p =
     (case active of None \<Rightarrow> True | Some active \<Rightarrow>
        let r = pe_Report p in
        pe_JobID p \<noteq> uj_ID active \<or> jr_LeaseGeneration r \<noteq> uj_LeaseGeneration active \<or>
        jr_ServiceID r \<noteq> uj_AgentServiceID active \<or> jr_Sequence r = 0 \<or> jr_LeaseToken r \<noteq> [] \<or>
        jr_PortReconfigure r \<noteq> None)"

definition saveSoftwareRecoveryAdoptionLocked :: "journal_env \<Rightarrow> UpdateJob \<Rightarrow> unit journal_prog" where
  "saveSoftwareRecoveryAdoptionLocked env job =
     bindP (getP data_of) (\<lambda>d.
       if list_ex (unrelated_pending (jd_ActiveJob d)) (jd_Pending d)
       then failP (NewErr ''recovered software claim cannot discard unrelated pending reports'')
       else
         let d' = d\<lparr>jd_ActiveJob := Some job, jd_NextSeq := uj_ReportSequence job, jd_Pending := []\<rparr> in
         tryP (saveDataLocked env d')
           (\<lambda>e. poisonLocked (WrapErr e ''persist recovered software lease and pending report handoff''))
           (\<lambda>_. thenP (modifyP (\<lambda>w. set_tokens (forget_tokens (jd_Pending d) (jn_leaseTokens (jw_journal w))) w))
              (modifyP (set_data d'))))"

definition adoption_refused :: "externals \<Rightarrow> journalData \<Rightarrow> UpdateJob \<Rightarrow> bool" where
  "adoption_refused ex d job =
     (case (jd_ActiveJob d, uj_SoftwareUpdate job) of
        (Some active, Some b) \<Rightarrow>
          \<not> isV2SoftwareJob active \<or> \<not> isV2SoftwareJob job \<or> SoftwareUpdateJobBinding_Validate b \<noteq> None \<or>
          uj_SoftwareClaimRejected active \<or> uj_SoftwareClaimRejected job \<or> uj_RecoveryClear job \<or>
          \<not> uj_RecoveryRequired job \<or> validateOperationUnion ex job \<noteq> None \<or>
          validateJournalSoftwareJob job \<noteq> None \<or>
          (\<not> sameRecoveredJobIntent ex active job \<and>
           \<not> journalLegacySoftwareBindingMatches ex active job (jd_ActivePlan d)) \<or>
          uj_LeaseGeneration job \<noteq> uj_LeaseGeneration active + 1 \<or>
          uj_CommandID active = uj_CommandID job \<or> uj_ReportSequence job = 0 \<or>
          uj_LeaseToken active \<noteq> [] \<or> uj_ReleaseToken active \<noteq> [] \<or>
          uj_LeaseToken job \<noteq> [] \<or> uj_ReleaseToken job \<noteq> [] \<or>
          validateJournalData ex d \<noteq> None \<or> jd_ActivePortPlan d \<noteq> None \<or> jd_ActivePortPolicy d \<noteq> None
      | _ \<Rightarrow> True)"

definition AdoptRecoveredSoftwareClaim :: "journal_env \<Rightarrow> UpdateJob \<Rightarrow> unit journal_prog" where
  "AdoptRecoveredSoftwareClaim env job =
     thenP checkMutableLocked
     (bindP (getP data_of) (\<lambda>d.
        if adoption_refused (je_ex env) d job
        then failP (NewErr ''recovered software claim does not match the saved ordinary lease and authority'')
        else thenP (checkP (case jd_ActivePlan d of None \<Rightarrow> None | Some plan \<Rightarrow> validateJournalSoftwarePlan job plan False))
          (saveSoftwareRecoveryAdoptionLocked env job)))"

end
