(* ===== verification/Claim_Recovery.thy ===== *)
theory Claim_Recovery
  imports Journal
begin

text \<open>
  The journal operations of the explicit recovery of a software claim
  (\<open>software_journal_binding.go\<close>, with what they read of \<open>software_claim_recovery.go\<close> and
  \<open>software_claim_recovery_intent.go\<close>): an operator names a cursor exactly, the root executor
  proves that the job never changed anything, and the journal takes over the fresh lease of the
  same job.
\<close>

section \<open>Requests, proofs and intents\<close>

record SoftwareClaimRecoveryRequest =
  rq_JobID :: string
  rq_LeaseGeneration :: u64
  rq_TargetID :: string
  rq_CurrentVersion :: string
  rq_TargetVersion :: string
  rq_ConfigRevision :: int
  rq_OwnershipEpoch :: int

record SoftwareClaimRecoveryProof =
  rp_RequestSHA256 :: string
  rp_UpdaterID :: string
  rp_HostID :: string
  rp_SourcePolicyRevision :: int
  rp_ProjectionRevision :: int
  rp_ExecutorPolicyRevision :: int
  rp_ExecutorPolicySHA256 :: string
  rp_OwnershipEpoch :: int
  rp_RuntimeVersion :: string
  rp_NoMutation :: bool
  rp_ObservedAt :: gotime
  rp_PriorSettledRawSHA256 :: string

record HostPullClaimRequest =
  cq_UpdaterID :: string
  cq_HostID :: string
  cq_LeaseGeneration :: int
  cq_Fence :: int
  cq_ActiveJobID :: string

record softwareClaimRecoveryWireResult =
  wr_Status :: string
  wr_Code :: string

record softwareClaimRecoveryTerminalClearReceipt =
  tc_ClaimRequest :: HostPullClaimRequest
  tc_RootNoMutation :: SoftwareClaimRecoveryProof
  tc_ObservedAt :: gotime
  tc_AcceptedResult :: "softwareClaimRecoveryWireResult option"

record softwareClaimRecoveryAttempt =
  at_LeaseGeneration :: u64
  at_StartedAt :: gotime
  at_ConfirmedReread :: bool

record softwareClaimRecoveryIntent =
  ri_SchemaVersion :: int
  ri_Original :: SoftwareClaimRecoveryRequest
  ri_Request :: SoftwareClaimRecoveryRequest
  ri_UpdaterID :: string
  ri_HostID :: string
  ri_SourcePolicyRevision :: int
  ri_ProjectionRevision :: int
  ri_ExecutorPolicyRevision :: int
  ri_ExecutorPolicySHA256 :: string
  ri_Attempts :: "softwareClaimRecoveryAttempt list"
  ri_Settled :: bool
  ri_SettledAt :: gotime
  ri_TerminalClear :: "softwareClaimRecoveryTerminalClearReceipt option"
  ri_PreviousSettledRawSHA256 :: string

definition SoftwareClaimRecoveryRequest_Validate :: "SoftwareClaimRecoveryRequest \<Rightarrow> go_error option" where
  "SoftwareClaimRecoveryRequest_Validate r =
     (if rq_JobID r \<noteq> TrimSpace (rq_JobID r) \<or> \<not> MatchString identifierPattern (rq_JobID r) \<or>
         rq_TargetID r \<noteq> TrimSpace (rq_TargetID r) \<or> \<not> MatchString identifierPattern (rq_TargetID r) \<or>
         rq_CurrentVersion r \<noteq> TrimSpace (rq_CurrentVersion r) \<or> \<not> MatchString versionPattern (rq_CurrentVersion r) \<or>
         rq_TargetVersion r \<noteq> TrimSpace (rq_TargetVersion r) \<or> \<not> MatchString versionPattern (rq_TargetVersion r) \<or>
         rq_LeaseGeneration r = 0 \<or> uint (rq_LeaseGeneration r) \<ge> math_MaxInt64 \<or>
         rq_ConfigRevision r < 1 \<or> rq_OwnershipEpoch r < 1
      then errNew ''software claim recovery requires an exact job, target, versions, config revision, ownership epoch and lease generation''
      else None)"

definition SoftwareClaimRecoveryRequest_sha256 :: "SoftwareClaimRecoveryRequest \<Rightarrow> string" where
  "SoftwareClaimRecoveryRequest_sha256 r = sha256_digest (marshal (JObj
     [(''job_id'', JStr (rq_JobID r)), (''lease_generation'', JInt (uint (rq_LeaseGeneration r))),
      (''target_id'', JStr (rq_TargetID r)), (''current_version'', JStr (rq_CurrentVersion r)),
      (''target_version'', JStr (rq_TargetVersion r)), (''config_revision'', JInt (rq_ConfigRevision r)),
      (''ownership_epoch'', JInt (rq_OwnershipEpoch r))]))"

text \<open>\<open>hex.DecodeString\<close> to 32 bytes, and no upper-case digit.\<close>

definition softwareClaimRecoveryRawDigestValid :: "string \<Rightarrow> bool" where
  "softwareClaimRecoveryRawDigestValid v \<longleftrightarrow> length v = 64 \<and> list_all is_lower_hex v"

definition SoftwareClaimRecoveryProof_Validate :: "SoftwareClaimRecoveryProof \<Rightarrow> go_error option" where
  "SoftwareClaimRecoveryProof_Validate p =
     (if \<not> MatchString digestPattern (rp_RequestSHA256 p) \<or>
         \<not> MatchString identifierPattern (rp_UpdaterID p) \<or> \<not> validExecutionHostID (rp_HostID p) \<or>
         rp_SourcePolicyRevision p < 1 \<or> rp_ProjectionRevision p < 1 \<or> rp_ExecutorPolicyRevision p < 1 \<or>
         \<not> MatchString digestPattern (rp_ExecutorPolicySHA256 p) \<or> rp_OwnershipEpoch p < 1 \<or>
         rp_RuntimeVersion p \<noteq> TrimSpace (rp_RuntimeVersion p) \<or> \<not> MatchString versionPattern (rp_RuntimeVersion p) \<or>
         \<not> rp_NoMutation p \<or> IsZero (rp_ObservedAt p) \<or>
         (rp_PriorSettledRawSHA256 p \<noteq> [] \<and> \<not> softwareClaimRecoveryRawDigestValid (rp_PriorSettledRawSHA256 p))
      then errNew ''software claim recovery absence proof is invalid'' else None)"

definition softwareClaimRecoveryJobMatches :: "softwareClaimRecoveryIntent \<Rightarrow> UpdateJob \<Rightarrow> bool" where
  "softwareClaimRecoveryJobMatches i job =
     (case uj_SoftwareUpdate job of None \<Rightarrow> False | Some b \<Rightarrow>
        uj_ID job = rq_JobID (ri_Original i) \<and> uj_ProtocolVersion job = 2 \<and>
        EffectiveOperation job = updateJobOperationSoftwareUpdate \<and> uj_AgentServiceID job = ri_UpdaterID i \<and>
        uj_HostID job = ri_HostID i \<and> uj_TransportMode job = HostTransportPullV2 \<and>
        uj_OwnershipEpoch job = rq_OwnershipEpoch (ri_Original i) \<and> uj_TargetID job = rq_TargetID (ri_Original i) \<and>
        uj_CurrentVersion job = rq_CurrentVersion (ri_Original i) \<and>
        EffectiveVersion job = rq_TargetVersion (ri_Original i) \<and>
        sb_ConfigRevision b = rq_ConfigRevision (ri_Original i) \<and>
        uj_PolicyRevision job = ri_ProjectionRevision i \<and>
        sb_SourcePolicyRevision b = ri_SourcePolicyRevision i \<and>
        sb_ProjectionRevision b = ri_ProjectionRevision i \<and>
        sb_ExecutorPolicyRevision b = ri_ExecutorPolicyRevision i \<and>
        sb_ExecutorPolicySHA256 b = ri_ExecutorPolicySHA256 i)"

section \<open>Reports that may be discarded\<close>

text \<open>Nothing is pending, or only the first progress report of a claim that has not moved.\<close>

definition unmoved_claim :: "journalData \<Rightarrow> UpdateJob \<Rightarrow> bool" where
  "unmoved_claim d active \<longleftrightarrow>
     isV2SoftwareJob active \<and> \<not> uj_SoftwareClaimRejected active \<and>
     (case uj_SoftwareUpdate active of None \<Rightarrow> False | Some b \<Rightarrow> SoftwareUpdateJobBinding_Validate b = None) \<and>
     validateJournalSoftwareJob active = None \<and> uj_ReportSequence active \<le> 1 \<and> uj_Sequence active = 0 \<and>
     jd_NextSeq d = 2 \<and> MatchString identifierPattern (uj_CommandID active) \<and> uj_LeaseToken active = [] \<and>
     uj_ReleaseToken active = [] \<and> uj_PortReconfigure active = None \<and> uj_Status active = ''claimed'' \<and>
     uj_Progress active = 0 \<and> uj_Code active = [] \<and> uj_ArtifactDigest active = [] \<and> uj_PreviousDigest active = [] \<and>
     jd_ActivePlan d = None \<and> jd_ActivePortPlan d = None \<and> jd_ActivePortPolicy d = None \<and>
     jd_ActiveStageFailure d = None"

definition softwareClaimRecoveryPendingAllowed :: "journalData \<Rightarrow> bool" where
  "softwareClaimRecoveryPendingAllowed d =
     (case (jd_Pending d, jd_ActiveJob d) of
        ([], _) \<Rightarrow> True
      | ([pending], Some active) \<Rightarrow>
          let report = pe_Report pending in
          unmoved_claim d active \<and> pe_JobID pending = uj_ID active \<and>
          jr_ServiceID report = uj_AgentServiceID active \<and> jr_LeaseGeneration report = uj_LeaseGeneration active \<and>
          jr_Sequence report = 1 \<and> jr_Status report = ''claimed'' \<and> jr_Progress report = 5 \<and>
          jr_Code report = [] \<and> jr_LeaseToken report = [] \<and> jr_ArtifactDigest report = [] \<and>
          jr_PreviousDigest report = [] \<and> jr_PortReconfigure report = None
      | _ \<Rightarrow> False)"

section \<open>The operations\<close>

text \<open>
  What the operations read outside the journal: the clock, the verdict of
  \<open>validateManagedDirectoryChain\<close> on the state directory, and what
  \<open>loadSoftwareClaimRecoveryIntent\<close> returns, an error, no intent or the durable intent.
\<close>

record recovery_reads =
  rd_now :: gotime
  rd_directory :: "go_error option"
  rd_intent :: "softwareClaimRecoveryIntent option result"

definition localExecutorClientTimeout :: duration where
  "localExecutorClientTimeout = 5 * time_Second"

definition names_request :: "UpdateJob \<Rightarrow> SoftwareUpdateJobBinding \<Rightarrow> SoftwareClaimRecoveryRequest \<Rightarrow> bool" where
  "names_request job b r \<longleftrightarrow>
     uj_ID job = rq_JobID r \<and> uj_TargetID job = rq_TargetID r \<and> uj_CurrentVersion job = rq_CurrentVersion r \<and>
     EffectiveVersion job = rq_TargetVersion r \<and> sb_ConfigRevision b = rq_ConfigRevision r \<and>
     uj_OwnershipEpoch job = rq_OwnershipEpoch r"

definition terminal_lease_invalid ::
  "externals \<Rightarrow> gotime \<Rightarrow> UpdateJob \<Rightarrow> SoftwareClaimRecoveryRequest \<Rightarrow> SoftwareClaimRecoveryProof \<Rightarrow> bool" where
  "terminal_lease_invalid ex now job r p =
     (case uj_SoftwareUpdate job of None \<Rightarrow> True | Some b \<Rightarrow>
        SoftwareClaimRecoveryRequest_Validate r \<noteq> None \<or> SoftwareClaimRecoveryProof_Validate p \<noteq> None \<or> \<not> rp_NoMutation p \<or>
        rp_RequestSHA256 p \<noteq> SoftwareClaimRecoveryRequest_sha256 r \<or>
        time_After (rp_ObservedAt p) (time_Add now time_Second) \<or>
        time_Sub now (rp_ObservedAt p) > localExecutorClientTimeout \<or>
        \<not> isV2SoftwareJob job \<or> validateOperationUnion ex job \<noteq> None \<or> validateJournalSoftwareJob job \<noteq> None \<or>
        SoftwareUpdateJobBinding_Validate b \<noteq> None \<or> uj_SoftwareClaimRejected job \<or>
        \<not> names_request job b r \<or>
        \<not> uj_RecoveryRequired job \<or> uj_RecoveryClear job \<or> uj_LeaseGeneration job \<noteq> rq_LeaseGeneration r + 1 \<or>
        uj_ReportSequence job = 0 \<or> \<not> MatchString identifierPattern (uj_CommandID job) \<or>
        uj_LeaseToken job \<noteq> [] \<or> uj_ReleaseToken job \<noteq> [] \<or>
        (case ex_time_Parse ex (uj_LeaseExpiresAt job) of None \<Rightarrow> True | Some expires \<Rightarrow> \<not> time_After expires now) \<or>
        uj_AgentServiceID job \<noteq> rp_UpdaterID p \<or> uj_HostID job \<noteq> rp_HostID p \<or>
        uj_OwnershipEpoch job \<noteq> rp_OwnershipEpoch p \<or>
        sb_SourcePolicyRevision b \<noteq> rp_SourcePolicyRevision p \<or>
        sb_ProjectionRevision b \<noteq> rp_ProjectionRevision p \<or>
        sb_ExecutorPolicyRevision b \<noteq> rp_ExecutorPolicyRevision p \<or>
        sb_ExecutorPolicySHA256 b \<noteq> rp_ExecutorPolicySHA256 p)"

text \<open>Why the authority saved with the cursor may not be replaced, if it may not.\<close>

definition saved_authority_check ::
  "UpdateJob \<Rightarrow> UpdateJob \<Rightarrow> SoftwareUpdateJobBinding \<Rightarrow> SoftwareClaimRecoveryRequest \<Rightarrow> go_error option" where
  "saved_authority_check active job b r =
     (case uj_SoftwareUpdate active of
        Some saved \<Rightarrow>
          if SoftwareUpdateJobBinding_Validate saved = None
          then (if saved \<noteq> b \<or> uj_PolicyRevision active \<noteq> uj_PolicyRevision job
                then errNew ''terminal software recovery cannot replace saved software authority'' else None)
          else if \<not> uj_SoftwareClaimRejected active \<or> uj_PolicyRevision active \<noteq> 0 \<or> validateIntent saved \<noteq> None \<or>
             sb_ConfigRevision saved \<noteq> sb_ConfigRevision b \<or> sb_CommandSHA256 saved \<noteq> sb_CommandSHA256 b \<or>
             (sb_ConfigSHA256 saved \<noteq> [] \<and> sb_ConfigSHA256 saved \<noteq> sb_ConfigSHA256 b)
          then errNew ''terminal software recovery cannot replace saved software authority'' else None
      | None \<Rightarrow>
          if uj_PolicyRevision active \<noteq> rq_ConfigRevision r
          then errNew ''terminal software recovery legacy cursor does not retain its original configuration revision''
          else None)"

text \<open>Whether the retained cursor already is the fresh one, or why it may not be replaced.\<close>

definition terminal_cursor ::
  "UpdateJob option \<Rightarrow> UpdateJob \<Rightarrow> SoftwareUpdateJobBinding \<Rightarrow> SoftwareClaimRecoveryRequest \<Rightarrow> bool result" where
  "terminal_cursor retained job b r =
     (case retained of None \<Rightarrow> Inr False | Some active \<Rightarrow>
        if \<not> sameSoftwareJobIdentity active job \<or> uj_LeaseGeneration active = 0 \<or>
           \<not> MatchString identifierPattern (uj_CommandID active) \<or> uj_LeaseToken active \<noteq> [] \<or> uj_ReleaseToken active \<noteq> []
        then Inl (NewErr ''terminal software recovery cannot replace another retained cursor'')
        else case saved_authority_check active job b r of Some err \<Rightarrow> Inl err
        | None \<Rightarrow>
            if uj_LeaseGeneration active = uj_LeaseGeneration job \<and> uj_CommandID active = uj_CommandID job \<and>
               uj_LeaseExpiresAt active = uj_LeaseExpiresAt job \<and> \<not> uj_SoftwareClaimRejected active \<and>
               uj_SoftwareUpdate active = Some b \<and> uj_PolicyRevision active = uj_PolicyRevision job
            then Inr True
            else if uj_LeaseGeneration active > rq_LeaseGeneration r \<or> uj_CommandID active = uj_CommandID job
            then Inl (NewErr ''terminal software recovery requires the exact supplied fresh lease'')
            else Inr False)"

definition terminal_recovery_check :: "externals \<Rightarrow> recovery_reads \<Rightarrow> journalData \<Rightarrow> UpdateJob \<Rightarrow>
    SoftwareClaimRecoveryRequest \<Rightarrow> SoftwareClaimRecoveryProof \<Rightarrow> bool result" where
  "terminal_recovery_check ex rd d job r p =
     (if terminal_lease_invalid ex (time_UTC (rd_now rd)) job r p
      then Inl (NewErr ''terminal software recovery lease or root absence proof is invalid'')
      else if validateJournalData ex d \<noteq> None \<or> jd_ActivePlan d \<noteq> None \<or> jd_ActivePortPlan d \<noteq> None \<or>
         jd_ActivePortPolicy d \<noteq> None \<or> jd_ActiveStageFailure d \<noteq> None \<or> \<not> softwareClaimRecoveryPendingAllowed d
      then Inl (NewErr ''terminal software recovery cannot replace execution or pending report state'')
      else if rd_directory rd \<noteq> None
      then Inl (NewErr ''terminal software recovery state directory is unsafe'')
      else case rd_intent rd of
        Inr (Some intent) \<Rightarrow>
          if ri_Settled intent \<or> ri_Request intent \<noteq> r \<or> \<not> softwareClaimRecoveryJobMatches intent job
          then Inl (NewErr ''terminal software recovery durable request compare-and-swap failed'')
          else terminal_cursor (jd_ActiveJob d) job (the (uj_SoftwareUpdate job)) r
      | _ \<Rightarrow> Inl (NewErr ''terminal software recovery durable request compare-and-swap failed''))"

definition SetTerminalSoftwareClaimRecovery :: "journal_env \<Rightarrow> recovery_reads \<Rightarrow> UpdateJob \<Rightarrow>
    SoftwareClaimRecoveryRequest \<Rightarrow> SoftwareClaimRecoveryProof \<Rightarrow> unit journal_prog" where
  "SetTerminalSoftwareClaimRecovery env rd job r p =
     thenP checkMutableLocked
     (bindP (getP data_of) (\<lambda>d.
      bindP (resultP (terminal_recovery_check (je_ex env) rd d job r p)) (\<lambda>already.
        if already then returnP () else saveSoftwareRecoveryAdoptionLocked env job)))"

definition generation_read_refused ::
  "externals \<Rightarrow> journalData \<Rightarrow> UpdateJob \<Rightarrow> SoftwareClaimRecoveryRequest \<Rightarrow> bool" where
  "generation_read_refused ex d job r =
     (case (jd_ActiveJob d, jd_ActivePlan d, uj_SoftwareUpdate job) of
        (Some active, Some plan, Some b) \<Rightarrow>
          SoftwareClaimRecoveryRequest_Validate r \<noteq> None \<or> MutationPlan_Validate plan \<noteq> None \<or> \<not> sameSoftwareJobIdentity active job \<or>
          uj_SoftwareClaimRejected active \<or> uj_SoftwareClaimRejected job \<or> SoftwareUpdateJobBinding_Validate b \<noteq> None \<or>
          validateOperationUnion ex job \<noteq> None \<or> validateJournalSoftwareJob job \<noteq> None \<or>
          uj_LeaseGeneration active = 0 \<or> rq_LeaseGeneration r < uj_LeaseGeneration active \<or>
          uj_LeaseGeneration job \<noteq> rq_LeaseGeneration r + 1 \<or> \<not> uj_RecoveryRequired job \<or> uj_RecoveryClear job \<or>
          uj_ReportSequence job = 0 \<or> uj_CommandID active = uj_CommandID job \<or>
          \<not> MatchString identifierPattern (uj_CommandID active) \<or> \<not> MatchString identifierPattern (uj_CommandID job) \<or>
          uj_LeaseToken active \<noteq> [] \<or> uj_ReleaseToken active \<noteq> [] \<or> uj_LeaseToken job \<noteq> [] \<or> uj_ReleaseToken job \<noteq> [] \<or>
          \<not> names_request job b r \<or> validateJournalData ex d \<noteq> None \<or> jd_ActivePortPlan d \<noteq> None \<or>
          jd_ActivePortPolicy d \<noteq> None \<or> validateJournalSoftwarePlan job plan False \<noteq> None
      | _ \<Rightarrow> True)"

text \<open>The authority and the expiry of the saved lease; all three values are present here.\<close>

definition frozen_authority_check :: "externals \<Rightarrow> UpdateJob \<Rightarrow> MutationPlan \<Rightarrow> UpdateJob \<Rightarrow>
    SoftwareUpdateJobBinding \<Rightarrow> SoftwareClaimRecoveryRequest \<Rightarrow> go_error option" where
  "frozen_authority_check ex active plan job b r =
     (if (case uj_SoftwareUpdate active of None \<Rightarrow> False
          | Some saved \<Rightarrow> SoftwareUpdateJobBinding_Validate saved \<noteq> None \<or> saved \<noteq> b \<or>
              uj_PolicyRevision active \<noteq> uj_PolicyRevision job)
      then errNew ''explicit software reconciliation cannot replace frozen policy authority''
      else if uj_SoftwareUpdate active = None \<and>
         (uj_PolicyRevision active \<noteq> rq_ConfigRevision r \<or> mp_ConfigSHA256 plan \<noteq> sb_ExecutorPolicySHA256 b)
      then errNew ''explicit software reconciliation legacy cursor lacks its original trusted policy plan''
      else case (ex_time_Parse ex (uj_LeaseExpiresAt active), ex_time_Parse ex (uj_LeaseExpiresAt job)) of
        (Some oldExpiry, Some freshExpiry) \<Rightarrow>
          if IsZero oldExpiry \<or> IsZero freshExpiry
          then errNew ''explicit software reconciliation lease expiry binding is invalid'' else None
      | _ \<Rightarrow> errNew ''explicit software reconciliation lease expiry binding is invalid'')"

definition generation_read_check :: "externals \<Rightarrow> recovery_reads \<Rightarrow> journalData \<Rightarrow> UpdateJob \<Rightarrow>
    SoftwareClaimRecoveryRequest \<Rightarrow> go_error option" where
  "generation_read_check ex rd d job r =
     (if generation_read_refused ex d job r
      then errNew ''explicit software reconciliation does not match its original trusted plan and exact generation request''
      else case frozen_authority_check ex (the (jd_ActiveJob d)) (the (jd_ActivePlan d)) job
                  (the (uj_SoftwareUpdate job)) r of
        Some err \<Rightarrow> Some err
      | None \<Rightarrow>
          if rd_directory rd \<noteq> None
          then errNew ''explicit software reconciliation state directory is unsafe''
          else case rd_intent rd of
            Inl _ \<Rightarrow> errNew ''explicit software reconciliation cannot replace a terminal-only recovery intent''
          | Inr None \<Rightarrow> None
          | Inr (Some intent) \<Rightarrow>
              if \<not> ri_Settled intent
              then errNew ''explicit software reconciliation cannot replace a terminal-only recovery intent'' else None)"

definition AdoptRecoveredSoftwareClaimAfterGenerationRead :: "journal_env \<Rightarrow> recovery_reads \<Rightarrow> UpdateJob \<Rightarrow>
    SoftwareClaimRecoveryRequest \<Rightarrow> unit journal_prog" where
  "AdoptRecoveredSoftwareClaimAfterGenerationRead env rd job r =
     thenP checkMutableLocked
     (bindP (getP data_of) (\<lambda>d.
      thenP (checkP (generation_read_check (je_ex env) rd d job r))
        (saveSoftwareRecoveryAdoptionLocked env job)))"

end
