(* ===== verification/Journal_Safety.thy ===== *)
theory Journal_Safety
  imports Claim_Recovery
begin

text \<open>
  What the journal guarantees. Whatever call fails and wherever the process stops, a property of
  the data that every change keeps also holds of the file; memory and file agree as long as the
  process may still write; and an interrupted clearing of the active job is completed or undone
  by the next start.
\<close>

section \<open>Operations as data\<close>

datatype journal_op =
    OpMarkDeployed string string
  | OpSetActive "UpdateJob option"
  | OpSetActivePlan MutationPlan
  | OpSetActivePortPlan SystemdPortReconfigurePlan
  | OpSetActiveStageFailure stageFailureRecord
  | OpQueue string string string u64 string string string int string string "SystemdPortReconfigureResult option"
  | OpDropJobReports string
  | OpAck string u64
  | OpClearActive
  | OpStagePortPolicy HostAgentPolicy UpdateJob SystemdPortReconfigurePlan
  | OpAdoptPortPolicy string string
  | OpAdoptRecovered UpdateJob
  | OpSetTerminalRecovery recovery_reads UpdateJob SoftwareClaimRecoveryRequest SoftwareClaimRecoveryProof
  | OpAdoptGenerationRead recovery_reads UpdateJob SoftwareClaimRecoveryRequest

primrec run_op :: "journal_env \<Rightarrow> journal_op \<Rightarrow> unit journal_prog" where
  "run_op env (OpMarkDeployed t v) = MarkDeployed env t v"
| "run_op env (OpSetActive job) = SetActive env job"
| "run_op env (OpSetActivePlan plan) = SetActivePlan env plan"
| "run_op env (OpSetActivePortPlan plan) = SetActivePortPlan env plan"
| "run_op env (OpSetActiveStageFailure f) = SetActiveStageFailure env f"
| "run_op env (OpQueue jobID serviceID token gen status code message progress artifact previous result) =
     bindP (queue env jobID serviceID token gen status code message progress artifact previous result) (\<lambda>_. returnP ())"
| "run_op env (OpDropJobReports jobID) = DropJobReports env jobID"
| "run_op env (OpAck jobID sequence) = Ack env jobID sequence"
| "run_op env OpClearActive = ClearActive env"
| "run_op env (OpStagePortPolicy policy job plan) = StagePortPolicy env policy job plan"
| "run_op env (OpAdoptPortPolicy jobID snapshotID) = adoptPortPolicy env jobID snapshotID"
| "run_op env (OpAdoptRecovered job) = AdoptRecoveredSoftwareClaim env job"
| "run_op env (OpSetTerminalRecovery rd job r p) = SetTerminalSoftwareClaimRecovery env rd job r p"
| "run_op env (OpAdoptGenerationRead rd job r) = AdoptRecoveredSoftwareClaimAfterGenerationRead env rd job r"

text \<open>The data after the fresh lease of \<open>job\<close> has taken over, if no unrelated report is pending.\<close>

definition handover :: "journalData \<Rightarrow> UpdateJob \<Rightarrow> journalData option" where
  "handover d job =
     (if list_ex (unrelated_pending (jd_ActiveJob d)) (jd_Pending d) then None
      else Some (d\<lparr>jd_ActiveJob := Some job, jd_NextSeq := uj_ReportSequence job, jd_Pending := []\<rparr>))"

text \<open>The data an operation leaves in memory when it gets as far as saving, if it does.\<close>

primrec op_data :: "externals \<Rightarrow> journal_op \<Rightarrow> journalData \<Rightarrow> journalData option" where
  "op_data ex (OpMarkDeployed t v) d = Some (d\<lparr>jd_DeployedVersions := (jd_DeployedVersions d)(t \<mapsto> v)\<rparr>)"
| "op_data ex (OpSetActive job) d =
     (case job of None \<Rightarrow> None | Some job \<Rightarrow>
        if validateOperationUnion ex job \<noteq> None \<or> validateJournalSoftwareJob job \<noteq> None \<or>
           replacement_check ex d job \<noteq> None
        then None
        else case retained_port_results ex d job of Inl _ \<Rightarrow> None
          | Inr copy \<Rightarrow> Some (with_active d (copy\<lparr>uj_LeaseToken := [], uj_ReleaseToken := []\<rparr>)))"
| "op_data ex (OpSetActivePlan plan) d =
     (case jd_ActiveJob d of None \<Rightarrow> None | Some active \<Rightarrow>
        if EffectiveOperation active \<noteq> updateJobOperationSoftwareUpdate \<or> uj_ID active \<noteq> mp_JobID plan \<or>
           MutationPlan_Validate plan \<noteq> None \<or> validateJournalSoftwarePlan active plan True \<noteq> None \<or>
           (case jd_ActivePlan d of None \<Rightarrow> False | Some stored \<Rightarrow>
              \<not> sameJournalSoftwarePlanIntent stored plan \<or> mp_LeaseGeneration plan < mp_LeaseGeneration stored \<or>
              mp_LeaseGeneration plan \<noteq> uj_LeaseGeneration active)
        then None else Some (d\<lparr>jd_ActivePlan := Some plan\<rparr>))"
| "op_data ex (OpSetActivePortPlan plan) d =
     (case jd_ActiveJob d of None \<Rightarrow> None | Some active \<Rightarrow>
        if EffectiveOperation active \<noteq> updateJobOperationPortReconfigure \<or> uj_ID active \<noteq> pp_JobID plan \<or>
           SystemdPortReconfigurePlan_Validate ex plan \<noteq> None
        then None else Some (d\<lparr>jd_ActivePortPlan := Some plan\<rparr>))"
| "op_data ex (OpSetActiveStageFailure f) d =
     (if map_option uj_ID (jd_ActiveJob d) \<noteq> Some (sf_JobID f) \<or> stageFailureRecord_validate f \<noteq> None
      then None else Some (d\<lparr>jd_ActiveStageFailure := Some f\<rparr>))"
| "op_data ex (OpQueue jobID serviceID token gen status code message progress artifact previous result) d =
     (case queue_result ex d jobID serviceID gen status result of Inl _ \<Rightarrow> None
      | Inr (d', r) \<Rightarrow> Some (append_report jobID
          \<lparr>jr_ServiceID = serviceID, jr_LeaseToken = token, jr_Sequence = jd_NextSeq d',
           jr_LeaseGeneration = gen, jr_Status = status, jr_Progress = progress, jr_Code = code,
           jr_Message = message, jr_ArtifactDigest = artifact, jr_PreviousDigest = previous,
           jr_PortReconfigure = r\<rparr> d'))"
| "op_data ex (OpDropJobReports jobID) d =
     Some (d\<lparr>jd_Pending := filter (\<lambda>p. pe_JobID p \<noteq> jobID) (jd_Pending d)\<rparr>)"
| "op_data ex (OpAck jobID sequence) d =
     (case jd_Pending d of [] \<Rightarrow> None | acked # rest \<Rightarrow>
        if pe_JobID acked \<noteq> jobID \<or> jr_Sequence (pe_Report acked) \<noteq> sequence then None
        else Some (d\<lparr>jd_Pending := rest\<rparr>))"
| "op_data ex OpClearActive d = (if jd_ActiveJob d = None then None else Some (clear_active d))"
| "op_data ex (OpStagePortPolicy policy job plan) d =
     (if jd_ActivePortPolicy d \<noteq> None then None
      else case staged_port_policy ex policy job plan of Inl _ \<Rightarrow> None
        | Inr state \<Rightarrow> Some (d\<lparr>jd_ActivePortPolicy := Some state\<rparr>))"
| "op_data ex (OpAdoptPortPolicy jobID snapshotID) d =
     (case adopt_check ex d jobID snapshotID of Inl _ \<Rightarrow> None
      | Inr state \<Rightarrow> Some (d\<lparr>jd_ActivePortPolicy := Some state\<rparr>))"
| "op_data ex (OpAdoptRecovered job) d =
     (if adoption_refused ex d job \<or>
         (case jd_ActivePlan d of None \<Rightarrow> False | Some plan \<Rightarrow> validateJournalSoftwarePlan job plan False \<noteq> None)
      then None else handover d job)"
| "op_data ex (OpSetTerminalRecovery rd job r p) d =
     (if terminal_recovery_check ex rd d job r p = Inr False then handover d job else None)"
| "op_data ex (OpAdoptGenerationRead rd job r) d =
     (if generation_read_check ex rd d job r = None then handover d job else None)"

section \<open>Atomic saves\<close>

text \<open>What a save of \<open>d\<close> started in \<open>w\<close> may end in.\<close>

definition saves :: "journal_world \<Rightarrow> journalData \<Rightarrow> 'a outcome \<times> journal_world \<Rightarrow> bool" where
  "saves w d run \<longleftrightarrow>
     (\<exists>fs. snd run = w\<lparr>script := fs\<rparr> \<and> (\<forall>x. fst run \<noteq> Ok x)) \<or>
     (\<exists>fs. snd run = w\<lparr>script := fs, jw_main := Some (written d)\<rparr>)"

lemma script_first [simp]:
  "w\<lparr>jw_main := x, script := fs\<rparr> = w\<lparr>script := fs, jw_main := x\<rparr>"
  "w\<lparr>jw_marker := m, script := fs\<rparr> = w\<lparr>script := fs, jw_marker := m\<rparr>"
  "w\<lparr>jw_marker_tmp := t, script := fs\<rparr> = w\<lparr>script := fs, jw_marker_tmp := t\<rparr>"
  "w\<lparr>jw_journal := j, script := fs\<rparr> = w\<lparr>script := fs, jw_journal := j\<rparr>"
  by (cases w; simp)+

lemma saveDataLocked_saves: "saves w d (saveDataLocked env d w)"
proof -
  let ?P = "\<lambda>v. \<exists>fs. v = w\<lparr>script := fs\<rparr>"
    and ?N = "\<lambda>v. \<exists>fs. v = w\<lparr>script := fs, jw_main := Some (written d)\<rparr>"
  have sys: "spec ?P syscallP (\<lambda>_. ?P) ?P" "spec ?N syscallP (\<lambda>_. ?N) ?N"
    unfolding syscallP_def by (rule spec_observe; auto)+
  have "spec ?P (saveDataLocked env d) (\<lambda>_. ?N) (\<lambda>v. ?P v \<or> ?N v)"
    unfolding saveDataLocked_def
  proof (rule spec_then [where R = ?P])
    show "spec ?P syscallP (\<lambda>_. ?P) (\<lambda>v. ?P v \<or> ?N v)"
      by (rule spec_conseq [OF sys(1)]) auto
    have "spec ?P (effectP (\<lambda>w. w\<lparr>jw_main := Some (written d)\<rparr>)) (\<lambda>_. ?N) (\<lambda>v. ?P v \<or> ?N v)"
      by (rule spec_effect) auto
    moreover have "spec ?P syscallP (\<lambda>_. ?P) (\<lambda>v. ?P v \<or> ?N v)" "spec ?N syscallP (\<lambda>_. ?N) (\<lambda>v. ?P v \<or> ?N v)"
      by (rule spec_conseq [OF sys(1)]; auto) (rule spec_conseq [OF sys(2)]; auto)
    ultimately show "spec ?P (case encode_data env d of
        None \<Rightarrow> failP (WrapErr OSFailure ''write update journal'')
      | Some _ \<Rightarrow>
          thenP (mapErrP (\<lambda>e. WrapErr e ''write update journal'') syscallP)
          (thenP (mapErrP (\<lambda>e. WrapErr e ''install update journal'')
             (effectP (\<lambda>w. w\<lparr>jw_main := Some (written d)\<rparr>)))
           (mapErrP (\<lambda>e. WrapErr e ''sync update journal parent'') syscallP)))
      (\<lambda>_. ?N) (\<lambda>v. ?P v \<or> ?N v)"
      by (auto split: option.split intro!: spec_fail spec_then spec_mapErr)
  qed
  moreover have "?P w"
    by (rule exI [of _ "script w"]) simp
  ultimately show ?thesis
    unfolding spec_def saves_def by (cases "saveDataLocked env d w"; cases "fst (saveDataLocked env d w)") force+
qed

lemma saves_cases:
  assumes "saves w d (r, w')"
  obtains (kept) fs where "w' = w\<lparr>script := fs\<rparr>" "\<And>x. r \<noteq> Ok x"
  | (saved) fs where "w' = w\<lparr>script := fs, jw_main := Some (written d)\<rparr>"
  using assms unfolding saves_def by auto

text \<open>
  An operation that commits \<open>d\<close>: the file holds what it held or \<open>d\<close>, the fence is untouched; it
  returns normally only with \<open>d\<close> in memory and on disk, and an error leaves the journal poisoned.
\<close>

definition commits :: "journal_world \<Rightarrow> journalData \<Rightarrow> 'a outcome \<times> journal_world \<Rightarrow> bool" where
  "commits w d run \<longleftrightarrow>
     (let w' = snd run in
      jw_main w' \<in> {jw_main w, Some (written d)} \<and> jw_marker w' = jw_marker w \<and>
      jw_marker_tmp w' = jw_marker_tmp w \<and>
      (case fst run of
         Ok _ \<Rightarrow> data_of w' = d \<and> poison_of w' = poison_of w \<and> jw_main w' = Some (written d)
       | Err _ \<Rightarrow> poison_of w' \<noteq> None
       | Crash \<Rightarrow> True))"

lemma poisonLocked_run:
  "poisonLocked cause w = (Err (poisoned_by (poison_of w) cause),
     w\<lparr>jw_journal := (jw_journal w)\<lparr>jn_poisoned := Some (poisoned_by (poison_of w) cause)\<rparr>\<rparr>)"
  by (simp add: poisonLocked_def bindP_def getP_def thenP_def modifyP_def failP_def)

lemma saveLocked_commits: "commits w (data_of w) (saveLocked env w)"
proof -
  obtain r w' where run: "saveDataLocked env (data_of w) w = (r, w')"
    by fastforce
  have "saves w (data_of w) (r, w')"
    using saveDataLocked_saves [of w "data_of w" env] run by simp
  then show ?thesis
    by (cases rule: saves_cases; cases r)
      (auto simp: saveLocked_def bindP_def getP_def tryP_def run returnP_def commits_def poisonLocked_run)
qed

lemma set_data_simps [simp]:
  "data_of (set_data d w) = d" "poison_of (set_data d w) = poison_of w" "jw_main (set_data d w) = jw_main w"
  "jw_marker (set_data d w) = jw_marker w" "jw_marker_tmp (set_data d w) = jw_marker_tmp w"
  "script (set_data d w) = script w" "jn_leaseTokens (jw_journal (set_data d w)) = jn_leaseTokens (jw_journal w)"
  by (simp_all add: set_data_def)

lemma set_tokens_simps [simp]:
  "data_of (set_tokens t w) = data_of w" "poison_of (set_tokens t w) = poison_of w"
  "jw_main (set_tokens t w) = jw_main w" "jw_marker (set_tokens t w) = jw_marker w"
  "jw_marker_tmp (set_tokens t w) = jw_marker_tmp w" "jn_leaseTokens (jw_journal (set_tokens t w)) = t"
  by (simp_all add: set_tokens_def)

lemma updateP_commits:
  assumes "d' = f (data_of w)"
  shows "commits w d' (updateP env f w)"
  using saveLocked_commits [of "set_data d' w" env]
  by (simp add: updateP_def thenP_def bindP_def modifyP_def commits_def assms Let_def split: prod.splits outcome.splits)

lemma commits_from:
  assumes "commits (set_tokens t w) d run"
  shows "commits w d run"
  using assms by (simp add: commits_def Let_def split: outcome.splits)

lemma checkMutable_run [simp]: "poison_of w = None \<Longrightarrow> thenP checkMutableLocked m w = m w"
  by (simp add: checkMutableLocked_def thenP_def bindP_def getP_def checkP_def returnP_def)

lemma checkMutable_poisoned: "poison_of w = Some e \<Longrightarrow> thenP checkMutableLocked m w = (Err e, w)"
  by (simp add: checkMutableLocked_def thenP_def bindP_def getP_def checkP_def failP_def)

lemmas run_simps = thenP_def bindP_def getP_def checkP_def resultP_def returnP_def failP_def modifyP_def

section \<open>Every operation is one atomic change\<close>

primrec refines :: "journal_world \<Rightarrow> journalData option \<Rightarrow> 'a outcome \<times> journal_world \<Rightarrow> bool" where
  "refines w None run \<longleftrightarrow> snd run = w \<and> fst run \<noteq> Crash"
| "refines w (Some d) run \<longleftrightarrow> commits w d run"

lemma commits_return: "commits w d (m w) \<Longrightarrow> commits w d (bindP m (\<lambda>x. returnP (g x)) w)"
  by (auto simp: commits_def bindP_def returnP_def Let_def split: prod.splits outcome.splits)

lemma refines_return: "refines w r (m w) \<Longrightarrow> refines w r (bindP m (\<lambda>x. returnP (g x)) w)"
  by (cases r) (auto simp: commits_return, auto simp: bindP_def returnP_def split: prod.splits outcome.splits)

lemma commits_tokens:
  assumes "d' = f (data_of w)"
  shows "commits w d' (thenP (modifyP (\<lambda>w. set_tokens (t w) w)) (updateP env f) w)"
  using commits_from [of "t w" w d' "updateP env f (set_tokens (t w) w)"]
    updateP_commits [of d' f "set_tokens (t w) w" env] assms
  by (simp add: run_simps)

lemma queue_commits:
  assumes "poison_of w = None"
  shows "refines w (op_data (je_ex env) (OpQueue jobID serviceID token gen status code message progress artifact previous result)
           (data_of w))
     (queue env jobID serviceID token gen status code message progress artifact previous result w)"
proof (cases "queue_result (je_ex env) (data_of w) jobID serviceID gen status result")
  case (Inl e)
  then show ?thesis
    using assms by (simp add: queue_def) (simp add: run_simps)
next
  case (Inr r)
  obtain d' r' where r: "r = (d', r')"
    by (cases r)
  let ?report = "\<lparr>jr_ServiceID = serviceID, jr_LeaseToken = token, jr_Sequence = jd_NextSeq d',
              jr_LeaseGeneration = gen, jr_Status = status, jr_Progress = progress, jr_Code = code,
              jr_Message = message, jr_ArtifactDigest = artifact, jr_PreviousDigest = previous,
              jr_PortReconfigure = r'\<rparr>"
  let ?w = "set_tokens ((jn_leaseTokens (jw_journal w))(pendingLeaseKey jobID (jd_NextSeq d') \<mapsto> token)) w"
  have "queue env jobID serviceID token gen status code message progress artifact previous result w =
      thenP (updateP env (\<lambda>_. append_report jobID ?report d')) (returnP ?report) ?w"
    using assms by (simp add: queue_def Inr r) (simp add: run_simps Inr r Let_def)
  moreover have "commits ?w (append_report jobID ?report d')
      (thenP (updateP env (\<lambda>_. append_report jobID ?report d')) (returnP ?report) ?w)"
    unfolding thenP_def by (rule commits_return, rule updateP_commits) simp
  ultimately show ?thesis
    using commits_from by (simp add: Inr r)
qed

lemma handover_refines:
  "refines w (handover (data_of w) job) (saveSoftwareRecoveryAdoptionLocked env job w)"
proof (cases "handover (data_of w) job")
  case None
  then show ?thesis
    by (auto simp: handover_def saveSoftwareRecoveryAdoptionLocked_def run_simps split: if_splits)
next
  case (Some d)
  obtain r w' where run: "saveDataLocked env d w = (r, w')"
    by fastforce
  have saves: "saves w d (r, w')"
    using saveDataLocked_saves [of w d env] run by simp
  have "saveSoftwareRecoveryAdoptionLocked env job w = tryP (saveDataLocked env d)
      (\<lambda>e. poisonLocked (WrapErr e ''persist recovered software lease and pending report handoff''))
      (\<lambda>_. thenP (modifyP (\<lambda>v. set_tokens (forget_tokens (jd_Pending (data_of w)) (jn_leaseTokens (jw_journal v))) v))
              (modifyP (set_data d))) w"
    using Some by (simp add: handover_def saveSoftwareRecoveryAdoptionLocked_def run_simps Let_def split: if_splits)
  moreover from saves have "commits w d (tryP (saveDataLocked env d)
      (\<lambda>e. poisonLocked (WrapErr e ''persist recovered software lease and pending report handoff''))
      (\<lambda>_. thenP (modifyP (\<lambda>v. set_tokens (forget_tokens (jd_Pending (data_of w)) (jn_leaseTokens (jw_journal v))) v))
              (modifyP (set_data d))) w)"
    by (cases rule: saves_cases; cases r)
      (auto simp: tryP_def run commits_def poisonLocked_run run_simps)
  ultimately show ?thesis
    by (simp only: Some refines.simps)
qed

lemma op_refines:
  assumes "poison_of w = None" "op \<noteq> OpClearActive"
  shows "refines w (op_data (je_ex env) op (data_of w)) (run_op env op w)"
proof (cases op)
  case (OpMarkDeployed t v)
  then show ?thesis
    by (simp add: MarkDeployed_def assms updateP_commits)
next
  case (OpSetActive job)
  show ?thesis
    unfolding OpSetActive run_op.simps SetActive_def checkMutable_run [OF assms(1)]
    by (auto simp: run_simps updateP_commits split: option.splits sum.splits)
next
  case (OpSetActivePlan plan)
  show ?thesis
    unfolding OpSetActivePlan run_op.simps SetActivePlan_def checkMutable_run [OF assms(1)]
    by (auto simp: run_simps updateP_commits split: option.splits)
next
  case (OpSetActivePortPlan plan)
  show ?thesis
    unfolding OpSetActivePortPlan run_op.simps SetActivePortPlan_def checkMutable_run [OF assms(1)]
    by (auto simp: run_simps updateP_commits split: option.splits)
next
  case (OpSetActiveStageFailure f)
  show ?thesis
    unfolding OpSetActiveStageFailure run_op.simps SetActiveStageFailure_def checkMutable_run [OF assms(1)]
    by (auto simp: run_simps updateP_commits split: option.splits)
next
  case (OpQueue jobID serviceID token gen status code message progress artifact previous result)
  show ?thesis
    unfolding OpQueue run_op.simps by (rule refines_return, rule queue_commits [OF assms(1)])
next
  case (OpDropJobReports jobID)
  show ?thesis
    unfolding OpDropJobReports run_op.simps DropJobReports_def checkMutable_run [OF assms(1)]
    by (simp add: commits_tokens)
next
  case (OpAck jobID sequence)
  show ?thesis
    unfolding OpAck run_op.simps Ack_def checkMutable_run [OF assms(1)]
    by (auto simp: bindP_def getP_def failP_def commits_tokens split: list.splits)
next
  case (OpStagePortPolicy policy job plan)
  show ?thesis
    unfolding OpStagePortPolicy run_op.simps StagePortPolicy_def checkMutable_run [OF assms(1)]
    by (auto simp: run_simps updateP_commits split: option.splits sum.splits)
next
  case (OpAdoptPortPolicy jobID snapshotID)
  show ?thesis
    unfolding OpAdoptPortPolicy run_op.simps adoptPortPolicy_def checkMutable_run [OF assms(1)]
    by (auto simp: run_simps updateP_commits split: sum.splits)
next
  case (OpAdoptRecovered job)
  show ?thesis
    unfolding OpAdoptRecovered run_op.simps AdoptRecoveredSoftwareClaim_def checkMutable_run [OF assms(1)]
    by (auto simp: bindP_def getP_def thenP_def checkP_def returnP_def failP_def handover_refines split: option.splits)
next
  case (OpSetTerminalRecovery rd job r p)
  show ?thesis
    unfolding OpSetTerminalRecovery run_op.simps SetTerminalSoftwareClaimRecovery_def checkMutable_run [OF assms(1)]
    by (auto simp: bindP_def getP_def resultP_def returnP_def failP_def handover_refines split: sum.splits)
next
  case (OpAdoptGenerationRead rd job r)
  show ?thesis
    unfolding OpAdoptGenerationRead run_op.simps AdoptRecoveredSoftwareClaimAfterGenerationRead_def checkMutable_run [OF assms(1)]
    by (auto simp: bindP_def getP_def thenP_def checkP_def returnP_def failP_def handover_refines split: option.splits)
qed (use assms(2) in simp)

section \<open>Clearing the active job\<close>

definition script_closed :: "(journal_world \<Rightarrow> bool) \<Rightarrow> bool" where
  "script_closed P \<longleftrightarrow> (\<forall>w fs. P w \<longrightarrow> P (w\<lparr>script := fs\<rparr>))"

lemma script_closedI: "(\<And>w fs. P w \<Longrightarrow> P (w\<lparr>script := fs\<rparr>)) \<Longrightarrow> script_closed P"
  by (simp add: script_closed_def)

lemma script_closedD: "script_closed P \<Longrightarrow> P w \<Longrightarrow> P (w\<lparr>script := fs\<rparr>)"
  by (simp add: script_closed_def)

lemma keeps_reading:
  assumes "preserves timeless m" "script_closed P"
  shows "keeps P m"
  using timeless_reads [OF assms(1)] assms(2) by (intro keepsI) (metis script_closedD)

lemma script_free_files [simp]:
  "script_free jw_marker_tmp" "script_free jw_main"
  "script_free (\<lambda>w. case jw_marker w of NoFile \<Rightarrow> None | DiskFile info _ \<Rightarrow> Some info)"
  by (simp_all add: script_free_def)

lemma preserves_content:
  "(\<And>x. preserves f (a x)) \<Longrightarrow> (\<And>x. preserves f (b x)) \<Longrightarrow> preserves f c \<Longrightarrow>
     preserves f (case r of Decodes x \<Rightarrow> a x | TrailingData x \<Rightarrow> b x | Undecodable \<Rightarrow> c)"
  "preserves f n \<Longrightarrow> (\<And>i c. preserves f (k i c)) \<Longrightarrow>
     preserves f (case g of NoFile \<Rightarrow> n | DiskFile i c \<Rightarrow> k i c)"
  by (simp_all split: content.split disk_file.split)

lemma load_marker_reads: "preserves timeless (loadActiveClearMarkerLocked env)"
  unfolding loadActiveClearMarkerLocked_def by (intro frame preserves_content script_free_timeless)

lemma syscall_reads: "preserves timeless (syscallP :: unit journal_prog)"
  by (intro frame script_free_timeless)

lemmas keeps_sys = keeps_reading [OF syscall_reads]

lemma spec_of_keeps: "keeps P m \<Longrightarrow> (\<And>w. P w \<Longrightarrow> X w) \<Longrightarrow> spec P m (\<lambda>_. P) X"
  unfolding keeps_def by (erule spec_conseq) auto

text \<open>The fence of \<open>d\<close>, and the stages the disk goes through.\<close>

definition fence_of :: "journalData \<Rightarrow> string \<Rightarrow> journalActiveClearMarker" where
  "fence_of d digest = \<lparr>cm_SchemaVersion = 1, cm_PreviousSHA256 = digest, cm_Previous = d\<rparr>"

definition fenced :: "journal_env \<Rightarrow> journalData \<Rightarrow> journalActiveClearMarker disk_file \<Rightarrow> bool" where
  "fenced env d f \<longleftrightarrow> (\<exists>digest encoded. journalDataSHA256 env d = Inr digest \<and>
     validateActiveClearMarker env (fence_of d digest) = None \<and>
     encode_marker env (fence_of d digest) = Some encoded \<and>
     int (length encoded) + 1 \<le> activeClearMarkerSizeLimit (fence_of d digest) \<and>
     f = DiskFile (private_file (int (length encoded) + 1)) (written_marker (fence_of d digest)))"

definition tmp_safe :: "journal_world \<Rightarrow> bool" where
  "tmp_safe w \<longleftrightarrow> (\<forall>info. jw_marker_tmp w = Some info \<longrightarrow> safeActiveClearMarkerFile info)"

definition disk_stage :: "journalData content option \<Rightarrow> (journalActiveClearMarker disk_file \<Rightarrow> bool) \<Rightarrow> journal_world \<Rightarrow> bool" where
  "disk_stage main marker w \<longleftrightarrow> jw_main w = main \<and> marker (jw_marker w) \<and> tmp_safe w"

lemma disk_stage_script [simp]: "disk_stage main marker (w\<lparr>script := fs\<rparr>) = disk_stage main marker w"
  by (simp add: disk_stage_def tmp_safe_def)

lemma private_file_safe [simp]: "safeActiveClearMarkerFile (private_file n)"
  by (simp add: safeActiveClearMarkerFile_def private_file_def)

lemma private_file_size [simp]: "size_bytes (private_file n) = n"
  by (simp add: private_file_def)

abbreviation unfenced :: "journalActiveClearMarker disk_file \<Rightarrow> bool" where
  "unfenced f \<equiv> f = NoFile"

text \<open>A world at a stage with the journal \<open>j\<close> in memory.\<close>

definition at :: "Journal \<Rightarrow> journalData content option \<Rightarrow> (journalActiveClearMarker disk_file \<Rightarrow> bool) \<Rightarrow>
    journal_world \<Rightarrow> bool" where
  "at j main marker w \<longleftrightarrow> disk_stage main marker w \<and> jw_journal w = j"

lemma at_closed: "script_closed (at j main marker)" "script_closed (\<lambda>w. at j main marker w \<and> jw_marker_tmp w = t)"
  by (auto simp: script_closed_def at_def)

lemma remove_temp_spec:
  "spec (at j main marker) removeActiveClearMarkerTempLocked
     (\<lambda>_ w. at j main marker w \<and> jw_marker_tmp w = None) (at j main marker)"
  unfolding removeActiveClearMarkerTempLocked_def
proof (rule spec_lookup)
  fix info
  have sys: "spec (\<lambda>w. at j main marker w \<and> jw_marker_tmp w = None)
      (mapErrP (\<lambda>e. WrapErr e ''sync active journal clear fence temporary cleanup'') syscallP)
      (\<lambda>_ w. at j main marker w \<and> jw_marker_tmp w = None) (at j main marker)"
    by (rule spec_mapErr, rule spec_of_keeps, rule keeps_sys, rule at_closed) auto
  show "spec (\<lambda>w. at j main marker w \<and> jw_marker_tmp w = Some info)
      (if \<not> safeActiveClearMarkerFile info
         then failP (NewErr ''active journal clear fence temporary file is unsafe'')
         else thenP (mapErrP (\<lambda>_. NewErr ''remove active journal clear fence temporary file'')
                (effectP (\<lambda>w. w\<lparr>jw_marker_tmp := None\<rparr>)))
              (mapErrP (\<lambda>e. WrapErr e ''sync active journal clear fence temporary cleanup'') syscallP))
      (\<lambda>_ w. at j main marker w \<and> jw_marker_tmp w = None) (at j main marker)"
    by (intro spec_if spec_fail spec_then [OF _ sys] spec_mapErr spec_effect)
      (auto simp: at_def disk_stage_def tmp_safe_def)
qed (auto simp: at_def intro!: spec_if spec_fail spec_return)

lemma keeps_remove_temp: "keeps (at j main marker) removeActiveClearMarkerTempLocked"
  unfolding keeps_def by (rule spec_conseq [OF remove_temp_spec]) auto

lemma keeps_disj: "keeps P m \<Longrightarrow> keeps Q m \<Longrightarrow> keeps (\<lambda>w. P w \<or> Q w) m"
  by (intro keepsI) (auto dest: keepsD)

lemma load_none_spec:
  "spec (at j main unfenced) (loadActiveClearMarkerLocked env)
     (\<lambda>r w. at j main unfenced w \<and> r = None) (at j main unfenced)"
  unfolding loadActiveClearMarkerLocked_def
  by (rule spec_lookup)
    (auto simp: at_def disk_stage_def tmp_safe_def spec_def split: disk_file.splits intro!: spec_if spec_fail spec_return,
     auto simp: returnP_def failP_def at_def disk_stage_def tmp_safe_def)

text \<open>Installing the fence: until the rename nothing but the temporary file has changed.\<close>

abbreviation between :: "journal_env \<Rightarrow> journalData \<Rightarrow> Journal \<Rightarrow> journalData content option \<Rightarrow> journal_world \<Rightarrow> bool" where
  "between env d j main w \<equiv> at j main unfenced w \<or> at j main (fenced env d) w"

lemma between_closed: "script_closed (between env d j main)"
  using at_closed(1) by (auto simp: script_closed_def)

lemma drop_temp_keeps: "keeps (at j main marker) (ignoreP (effectP (\<lambda>w. w\<lparr>jw_marker_tmp := None\<rparr>)))"
  by (intro keeps_ignore keeps_effect) (auto simp: at_def disk_stage_def tmp_safe_def)

lemma write_temp_spec:
  "spec (at j main unfenced) (writeMarkerTemp n) (\<lambda>_. at j main unfenced) (at j main unfenced)"
proof -
  have "keeps (at j main unfenced) (writeMarkerTemp n)"
    unfolding writeMarkerTemp_def lookupP_def
    by (intro keep keeps_if keeps_effect keeps_observe drop_temp_keeps)
      (auto simp: at_def disk_stage_def tmp_safe_def)
  then show ?thesis
    by (simp add: keeps_def)
qed

lemma rename_marker_spec:
  assumes "journalDataSHA256 env d = Inr digest" "validateActiveClearMarker env (fence_of d digest) = None"
    and "encode_marker env (fence_of d digest) = Some encoded"
    and "int (length encoded) + 1 \<le> activeClearMarkerSizeLimit (fence_of d digest)"
  shows "spec (at j main unfenced) (renameMarker env (fence_of d digest) (int (length encoded) + 1))
     (\<lambda>_. at j main (fenced env d)) (between env d j main)"
  unfolding renameMarker_def
proof (rule spec_try [where R = "\<lambda>_. at j main (fenced env d)" and Y = "between env d j main"])
  show "spec (at j main unfenced)
     (effectP (\<lambda>w. w\<lparr>jw_marker := DiskFile (private_file (int (length encoded) + 1)) (written_marker (fence_of d digest)),
        jw_marker_tmp := None\<rparr>)) (\<lambda>_. at j main (fenced env d)) (between env d j main)"
    by (rule spec_effect) (use assms in \<open>auto simp: at_def disk_stage_def tmp_safe_def fenced_def\<close>)
  have load: "keeps (between env d j main) (loadActiveClearMarkerLocked env)"
    by (rule keeps_reading [OF load_marker_reads between_closed])
  have sys: "keeps (between env d j main) (ignoreP syscallP)"
    by (intro keeps_ignore keeps_sys between_closed)
  have "keeps (between env d j main) removeActiveClearMarkerTempLocked"
    by (intro keeps_disj keeps_remove_temp)
  then have drop: "keeps (between env d j main) (ignoreP removeActiveClearMarkerTempLocked)"
    by (rule keeps_ignore)
  show "spec (between env d j main)
     (bindP (tryP (loadActiveClearMarkerLocked env) (\<lambda>_. returnP False)
            (\<lambda>installed. returnP (map_option cm_PreviousSHA256 installed = Some (cm_PreviousSHA256 (fence_of d digest)))))
          (\<lambda>visible. if visible
             then thenP (ignoreP syscallP)
               (failP (WrapErr err ''install active journal clear fence reported an error''))
             else thenP (ignoreP removeActiveClearMarkerTempLocked)
               (failP (WrapErr err ''install active journal clear fence''))))
     (\<lambda>_. at j main (fenced env d)) (between env d j main)" for err
    by (intro spec_bind [where R = "\<lambda>_. between env d j main"] keeps_spec keeps_try load keeps_return spec_if
        spec_then [OF keeps_spec [OF sys]] spec_then [OF keeps_spec [OF drop]] spec_fail)
  show "spec (at j main (fenced env d)) (mapErrP (\<lambda>e. WrapErr e ''sync active journal clear fence parent'') syscallP)
     (\<lambda>_. at j main (fenced env d)) (between env d j main)" for x :: unit
    by (intro spec_mapErr spec_of_keeps keeps_sys at_closed) auto
qed auto

lemma install_spec:
  "spec (at j main unfenced) (installActiveClearMarkerLocked env d)
     (\<lambda>_. at j main (fenced env d)) (between env d j main)"
proof (cases "journalDataSHA256 env d")
  case (Inr digest)
  have load: "spec (at j main unfenced) (bindP (loadActiveClearMarkerLocked env) k) Q (between env d j main)"
    if "spec (at j main unfenced) (k None) Q (between env d j main)" for k and Q :: "unit \<Rightarrow> journal_world \<Rightarrow> bool"
  proof (rule spec_bind)
    show "spec (at j main unfenced) (loadActiveClearMarkerLocked env)
        (\<lambda>r w. at j main unfenced w \<and> r = None) (between env d j main)"
      by (rule spec_conseq [OF load_none_spec]) auto
    show "spec (\<lambda>w. at j main unfenced w \<and> r = None) (k r) Q (between env d j main)" for r
      by (rule spec_pure) (use that in simp)
  qed
  have drop: "spec (at j main unfenced) removeActiveClearMarkerTempLocked (\<lambda>_. at j main unfenced) (between env d j main)"
    by (rule spec_conseq [OF remove_temp_spec]) auto
  have temp: "spec (at j main unfenced) (writeMarkerTemp n) (\<lambda>_. at j main unfenced) (between env d j main)" for n
    by (rule spec_conseq [OF write_temp_spec]) auto
  have check: "spec (at j main unfenced) (thenP (checkP r) m) Q (between env d j main)"
    if "r = None \<Longrightarrow> spec (at j main unfenced) m Q (between env d j main)"
    for r and m and Q :: "unit \<Rightarrow> journal_world \<Rightarrow> bool"
    using that by (cases r) (auto simp: spec_def thenP_def bindP_def checkP_def returnP_def failP_def)
  note rename = rename_marker_spec [OF Inr, unfolded fence_of_def]
  show ?thesis
    unfolding installActiveClearMarkerLocked_def Inr sum.case Let_def
    by (intro spec_if spec_fail check load)
      (auto split: option.split intro!: spec_fail spec_if spec_then [OF drop] spec_then [OF temp] rename)
qed (auto simp: installActiveClearMarkerLocked_def intro!: spec_if spec_fail)

lemma save_data_spec:
  "spec (at j main marker) (saveDataLocked env d)
     (\<lambda>_. at j (Some (written d)) marker) (\<lambda>w. at j main marker w \<or> at j (Some (written d)) marker w)"
  unfolding spec_def
proof (intro allI impI)
  fix w assume "at j main marker w"
  moreover obtain r w' where run: "saveDataLocked env d w = (r, w')"
    by fastforce
  have "saves w d (r, w')"
    using saveDataLocked_saves [of w d env] run by simp
  ultimately show "case saveDataLocked env d w of (Ok x, w') \<Rightarrow> at j (Some (written d)) marker w'
      | (Err e, w') \<Rightarrow> at j main marker w' \<or> at j (Some (written d)) marker w'
      | (Crash, w') \<Rightarrow> at j main marker w' \<or> at j (Some (written d)) marker w'"
    by (cases r; cases rule: saves_cases [OF \<open>saves w d (r, w')\<close>])
      (auto simp: run at_def disk_stage_def tmp_safe_def)
qed

lemma remove_marker_spec:
  "spec (at j main (fenced env d)) removeActiveClearMarkerLocked
     (\<lambda>_. at j main unfenced) (between env d j main)"
  unfolding removeActiveClearMarkerLocked_def
proof (rule spec_lookup)
  fix info
  have sys: "spec (at j main unfenced) (mapErrP (\<lambda>e. WrapErr e ''sync active journal clear fence cleanup'') syscallP)
      (\<lambda>_. at j main unfenced) (between env d j main)"
    by (intro spec_mapErr spec_of_keeps keeps_sys at_closed) auto
  show "spec (\<lambda>w. at j main (fenced env d) w \<and>
        (case jw_marker w of NoFile \<Rightarrow> None | DiskFile info _ \<Rightarrow> Some info) = Some info)
      (if \<not> safeActiveClearMarkerFile info
         then failP (NewErr ''active journal clear fence changed before cleanup'')
         else thenP (mapErrP (\<lambda>_. NewErr ''remove active journal clear fence'')
                (effectP (\<lambda>w. w\<lparr>jw_marker := NoFile\<rparr>)))
              (mapErrP (\<lambda>e. WrapErr e ''sync active journal clear fence cleanup'') syscallP))
      (\<lambda>_. at j main unfenced) (between env d j main)"
    by (intro spec_if spec_fail spec_then [OF _ sys] spec_mapErr spec_effect)
      (auto simp: at_def disk_stage_def tmp_safe_def)
qed (auto simp: at_def intro!: spec_fail)

definition interrupted_clear :: "journal_env \<Rightarrow> journalData \<Rightarrow> journalData content option \<Rightarrow> journal_world \<Rightarrow> bool" where
  "interrupted_clear env d main w \<longleftrightarrow>
     disk_stage main unfenced w \<or> disk_stage main (fenced env d) w \<or>
     disk_stage (Some (written (clear_active d))) (fenced env d) w \<or> disk_stage (Some (written (clear_active d))) unfenced w"

lemma poison_spec:
  "spec (\<lambda>w. \<exists>j. at j main marker w) (poisonLocked c) Q (disk_stage main marker)"
  by (auto simp: spec_def poisonLocked_run at_def disk_stage_def tmp_safe_def)

lemma poison_stages:
  assumes "\<And>w. P w \<Longrightarrow> interrupted_clear env d main w"
  shows "spec P (poisonLocked c) Q (interrupted_clear env d main)"
  using assms by (auto simp: spec_def poisonLocked_run interrupted_clear_def disk_stage_def tmp_safe_def)

lemma clear_active_spec:
  assumes "jn_poisoned j = None" "jn_data j = d" "jd_ActiveJob d \<noteq> None"
  shows "spec (at j main unfenced) (ClearActive env)
     (\<lambda>_ w. disk_stage (Some (written (clear_active d))) unfenced w \<and> data_of w = clear_active d \<and> poison_of w = None)
     (interrupted_clear env d main)"
proof -
  let ?cleared = "Some (written (clear_active d))" and ?j = "j\<lparr>jn_data := clear_active d\<rparr>"
  let ?Q = "\<lambda>_ w. disk_stage ?cleared unfenced w \<and> data_of w = clear_active d \<and> poison_of w = None"
  have finish: "spec (at ?j ?cleared (fenced env d)) (tryP removeActiveClearMarkerLocked
      (\<lambda>e. poisonLocked (WrapErr e ''remove active journal clear fence'')) returnP) ?Q (interrupted_clear env d main)"
    by (rule spec_try [OF remove_marker_spec])
      (auto intro!: spec_return poison_stages simp: assms at_def interrupted_clear_def)
  have switch: "spec (at j ?cleared (fenced env d)) (modifyP (set_data (clear_active d)))
      (\<lambda>_. at ?j ?cleared (fenced env d)) (interrupted_clear env d main)"
    by (auto simp: spec_def modifyP_def at_def disk_stage_def tmp_safe_def set_data_def)
  have save: "spec (at j main (fenced env d)) (tryP (saveDataLocked env (clear_active d))
      (\<lambda>e. poisonLocked (WrapErr e ''persist cleared active journal''))
      (\<lambda>_. thenP (modifyP (set_data (clear_active d))) (tryP removeActiveClearMarkerLocked
         (\<lambda>e. poisonLocked (WrapErr e ''remove active journal clear fence'')) returnP)))
      ?Q (interrupted_clear env d main)"
    by (rule spec_try [OF save_data_spec])
      (auto intro!: poison_stages spec_then [OF switch finish] simp: at_def interrupted_clear_def)
  have body: "spec (at j main unfenced) (tryP (installActiveClearMarkerLocked env d)
      (\<lambda>e. poisonLocked (WrapErr e ''install active journal clear fence''))
      (\<lambda>_. tryP (saveDataLocked env (clear_active d))
         (\<lambda>e. poisonLocked (WrapErr e ''persist cleared active journal''))
         (\<lambda>_. thenP (modifyP (set_data (clear_active d))) (tryP removeActiveClearMarkerLocked
            (\<lambda>e. poisonLocked (WrapErr e ''remove active journal clear fence'')) returnP))))
      ?Q (interrupted_clear env d main)"
    by (rule spec_try [OF install_spec])
      (auto intro!: poison_stages save simp: at_def interrupted_clear_def)
  show ?thesis
    using body assms
    by (auto simp: spec_def ClearActive_def checkMutable_run at_def bindP_def getP_def)
qed

section \<open>Opening without faults\<close>

lemmas [calm] = modifyP_def

lemma calm_save [calm]:
  "script w = [] \<Longrightarrow> encode_data env d = Some x \<Longrightarrow>
     saveDataLocked env d w = (Ok (), w\<lparr>jw_main := Some (written d)\<rparr>)"
  by (simp add: saveDataLocked_def calm)

lemma calm_remove_temp [calm]:
  "script w = [] \<Longrightarrow> tmp_safe w \<Longrightarrow>
     removeActiveClearMarkerTempLocked w = (Ok (), w\<lparr>jw_marker_tmp := None\<rparr>)"
  by (cases "jw_marker_tmp w") (simp_all add: removeActiveClearMarkerTempLocked_def calm tmp_safe_def)

lemma calm_load_none [calm]:
  "script w = [] \<Longrightarrow> jw_marker w = NoFile \<Longrightarrow> loadActiveClearMarkerLocked env w = (Ok None, w)"
  by (simp add: loadActiveClearMarkerLocked_def calm)

text \<open>What is not encoded does not matter to validation.\<close>

lemma persist_job_simps [simp]:
  "EffectiveOperation (persist_job j) = EffectiveOperation j" "isV2SoftwareJob (persist_job j) = isV2SoftwareJob j"
  "isPortContractV2 (persist_job j) = isPortContractV2 j" "EffectiveType (persist_job j) = EffectiveType j"
  "EffectiveVersion (persist_job j) = EffectiveVersion j" "persist_job (persist_job j) = persist_job j"
  "uj_ID (persist_job j) = uj_ID j" "uj_LeaseToken (persist_job j) = uj_LeaseToken j"
  "uj_ReleaseToken (persist_job j) = []" "uj_SoftwareUpdate (persist_job j) = uj_SoftwareUpdate j"
  "uj_PortReconfigure (persist_job j) = uj_PortReconfigure j"
  "uj_Operation (persist_job j) = uj_Operation j" "uj_ProtocolVersion (persist_job j) = uj_ProtocolVersion j"
  "uj_DeploymentMode (persist_job j) = uj_DeploymentMode j"
  "uj_PolicyRevision (persist_job j) = uj_PolicyRevision j"
  "uj_SoftwareClaimRejected (persist_job j) = uj_SoftwareClaimRejected j"
  "uj_HostID (persist_job j) = uj_HostID j"
  "uj_TargetID (persist_job j) = uj_TargetID j"
  "uj_OwnershipEpoch (persist_job j) = uj_OwnershipEpoch j"
  "uj_AgentServiceID (persist_job j) = uj_AgentServiceID j"
  "uj_CurrentVersion (persist_job j) = uj_CurrentVersion j"
  "uj_LeaseGeneration (persist_job j) = uj_LeaseGeneration j"
  "uj_PortResult (persist_job j) = uj_PortResult j"
  "uj_LastRecoveryObservation (persist_job j) = uj_LastRecoveryObservation j"
  "uj_TransportMode (persist_job j) = uj_TransportMode j"
  "uj_CommandID (persist_job j) = uj_CommandID j"
  by (simp_all add: persist_job_def EffectiveOperation_def isV2SoftwareJob_def isPortContractV2_def
      EffectiveType_def EffectiveVersion_def)

lemma persist_simps [simp]:
  "jd_ActiveJob (persist d) = map_option persist_job (jd_ActiveJob d)" "jd_ActivePlan (persist d) = jd_ActivePlan d"
  "jd_ActivePortPlan (persist d) = jd_ActivePortPlan d" "jd_ActivePortPolicy (persist d) = jd_ActivePortPolicy d"
  "jd_ActiveStageFailure (persist d) = jd_ActiveStageFailure d" "jd_NextSeq (persist d) = jd_NextSeq d"
  "jd_Pending (persist d) = jd_Pending d" "persist (persist d) = persist d"
  by (simp_all add: persist_def option.map_comp comp_def)

lemma encode_persist [simp]:
  "encode_data env (persist d) = encode_data env d" "journalDataSHA256 env (persist d) = journalDataSHA256 env d"
  "data_decodes (persist d) = data_decodes d" "written (persist d) = written d"
  by (simp_all add: encode_data_def journalDataSHA256_def data_decodes_def written_def split: option.split)

lemma validate_persist_job [simp]:
  "validateOperationUnion ex (persist_job j) = validateOperationUnion ex j"
  "validateJournalSoftwareJob (persist_job j) = validateJournalSoftwareJob j"
  "port_results_check ex (persist_job j) = port_results_check ex j"
  "validateJournalSoftwarePlan (persist_job j) p c = validateJournalSoftwarePlan j p c"
  by (simp_all only: validateOperationUnion_def validateJournalSoftwareJob_def port_results_check_def
      validateJournalSoftwarePlan_def persist_job_simps)

lemma validate_persist_policy [simp]:
  "portAgentPolicyState_validate ex s (map_option persist_job j) p = portAgentPolicyState_validate ex s j p"
proof -
  have "policy_identity_invalid ex s (persist_job i) = policy_identity_invalid ex s i"
    "candidate_invalid ex (persist_job i) = candidate_invalid ex i" for i
    by (simp_all only: policy_identity_invalid_def [abs_def] candidate_invalid_def [abs_def] persist_job_simps)
  note same = this
  show ?thesis
  proof (cases j)
    case (Some a)
    show ?thesis
      unfolding portAgentPolicyState_validate_def Some option.map prod.case option.case same persist_job_simps ..
  qed simp
qed

lemma validate_persist [simp]: "validateJournalData ex (persist d) = validateJournalData ex d"
proof (cases "jd_ActiveJob d")
  case None
  then have "persist d = d"
    by (simp add: persist_def)
  then show ?thesis
    by simp
next
  case (Some a)
  have one: "active_job_check ex (persist d) = active_job_check ex d"
    unfolding active_job_check_def persist_simps Some option.map option.case validate_persist_job ..
  have two: "plans_check ex (persist d) = plans_check ex d"
    unfolding plans_check_def plan_binding_invalid_def persist_simps Some option.map option.case option.sel
      validate_persist_job persist_job_simps ..
  have three: "stage_failure_check (persist d) = stage_failure_check d"
    unfolding stage_failure_check_def persist_simps Some option.map persist_job_simps ..
  show ?thesis
    unfolding validateJournalData_def persist_simps validate_persist_policy one two three ..
qed

text \<open>The data a start reads from a file that holds \<open>d\<close>, and what it needs of them.\<close>

definition reread :: "journalData \<Rightarrow> journalData" where
  "reread d = loaded (persist d)"

definition reopens :: "journal_env \<Rightarrow> journalData \<Rightarrow> bool" where
  "reopens env d \<longleftrightarrow>
     validateJournalData (je_ex env) d = None \<and> jd_NextSeq d \<noteq> 0 \<and>
     (retains_pending d \<longrightarrow> validateJournalSoftwarePendingForRestart (persist d) = None) \<and>
     (scrubbed (persist d) \<longrightarrow> encode_data env (scrub (persist d)) \<noteq> None)"

lemma loaded_id: "jd_NextSeq d \<noteq> 0 \<Longrightarrow> loaded d = d"
  by (simp add: loaded_def)

lemma reread_id: "jd_NextSeq d \<noteq> 0 \<Longrightarrow> reread d = persist d"
  by (simp add: reread_def loaded_id)

lemma retains_persist [simp]: "retains_pending (persist d) = retains_pending d"
  by (simp add: retains_pending_def split: option.split)

lemma decodes_of_valid:
  assumes "validateJournalData ex d = None"
  shows "data_decodes d"
proof -
  have "validateIntent b = None" if "jd_ActiveJob d = Some j" "uj_SoftwareUpdate j = Some b" for j b
    using assms that
    by (auto simp: validateJournalData_def active_job_check_def validateJournalSoftwareJob_def
        split: option.splits if_splits)
  moreover have "plan_decodes p" if "jd_ActivePortPlan d = Some p" for p
    using assms that
    by (auto simp: validateJournalData_def plans_check_def plan_binding_invalid_def SystemdPortReconfigurePlan_Validate_def
        plan_validatePortV2_def plan_decodes_def split: option.splits if_splits)
  ultimately show ?thesis
    by (auto simp: data_decodes_def split: option.splits)
qed

lemma open_settled:
  assumes "script w = []" "reopens env d" "jw_marker w = NoFile"
    and "reconcileActiveClearMarkerLocked env (persist d) True v = (Ok (), w)"
  shows "openData env (persist d) v =
    (Ok (fresh_journal (scrub (persist d))),
     if scrubbed (persist d) then w\<lparr>jw_main := Some (written (scrub (persist d)))\<rparr> else w)"
proof (cases "scrubbed (persist d)")
  case True
  then obtain x where "encode_data env (scrub (persist d)) = Some x"
    using assms(2) by (auto simp: reopens_def)
  with True show ?thesis
    using assms by (simp add: openData_def calm reopens_def)
next
  case False
  moreover have "scrub (persist d) = persist d"
    using False by (cases "jd_ActiveJob d") (auto simp: scrub_def scrubbed_def persist_def persist_job_def)
  ultimately show ?thesis
    using assms by (simp add: openData_def calm reopens_def)
qed

lemma open_main:
  assumes "script w = []" "reopens env d" "jw_main w = Some (written d)"
  shows "OpenJournal env w = openData env (persist d) w"
  using assms decodes_of_valid [of "je_ex env" d]
  by (simp add: OpenJournal_def calm written_def reopens_def loaded_id)

lemma reconcile_unfenced:
  assumes "script w = []" "disk_stage main unfenced w"
  shows "reconcileActiveClearMarkerLocked env d True w = (Ok (), w\<lparr>jw_marker_tmp := None\<rparr>)"
  using assms by (simp add: reconcileActiveClearMarkerLocked_def calm disk_stage_def)

lemma load_fence:
  assumes "script w = []" "fenced env d (jw_marker w)"
  shows "\<exists>digest. journalDataSHA256 env d = Inr digest \<and>
    loadActiveClearMarkerLocked env w = (Ok (Some (fence_of (persist d) digest)), w)"
proof -
  from assms(2) obtain digest and encoded :: string where fence: "journalDataSHA256 env d = Inr digest"
      "validateActiveClearMarker env (fence_of d digest) = None"
      "int (length encoded) + 1 \<le> activeClearMarkerSizeLimit (fence_of d digest)"
      "jw_marker w = DiskFile (private_file (int (length encoded) + 1)) (written_marker (fence_of d digest))"
    unfolding fenced_def by blast
  have valid: "validateJournalData (je_ex env) d = None"
    using fence(2) by (simp add: validateActiveClearMarker_def fence_of_def split: option.splits if_splits)
  have content: "written_marker (fence_of d digest) = Decodes (fence_of (persist d) digest)"
    using decodes_of_valid [OF valid] by (simp add: written_marker_def fence_of_def)
  have "marker_metadata_fits env (fence_of (persist d) digest) = marker_metadata_fits env (fence_of d digest)"
    by (simp add: marker_metadata_fits_def encode_marker_def fence_of_def persist_def option.map_comp comp_def)
  then have accepted: "validateActiveClearMarker env (fence_of (persist d) digest) = None"
    using fence(2) by (auto simp: validateActiveClearMarker_def fence_of_def split: option.splits if_splits)
  have limit: "activeClearMarkerSizeLimit (fence_of (persist d) digest) = activeClearMarkerSizeLimit (fence_of d digest)"
    by (simp add: activeClearMarkerSizeLimit_def fence_of_def)
  have "int (length encoded) + 1 \<le> port_marker_max"
    using fence(3) by (simp add: activeClearMarkerSizeLimit_def marker_max_def port_marker_max_def split: if_splits)
  then show ?thesis
    using assms(1) fence(1,3,4) content accepted limit
    by (simp add: loadActiveClearMarkerLocked_def calm not_le not_less)
qed

lemma reconcile_fenced:
  assumes "script w = []" "disk_stage main (fenced env d) w"
    and "journalDataSHA256 env e \<in> {journalDataSHA256 env d, journalDataSHA256 env (reconcile_cleared d)}"
    and "encode_data env e \<noteq> None" "encode_data env (reconcile_cleared d) \<noteq> None"
  shows "reconcileActiveClearMarkerLocked env e True w = (Ok (), w\<lparr>jw_marker_tmp := None, jw_marker := NoFile\<rparr>)"
proof -
  let ?w = "w\<lparr>jw_marker_tmp := None\<rparr>"
  have w: "script ?w = []" "fenced env d (jw_marker ?w)"
    using assms(1,2) by (simp_all add: disk_stage_def)
  from load_fence [OF w] obtain digest where load: "journalDataSHA256 env d = Inr digest"
      "loadActiveClearMarkerLocked env ?w = (Ok (Some (fence_of (persist d) digest)), ?w)"
    by blast
  have cleared: "journalDataSHA256 env (reconcile_cleared (persist d)) = journalDataSHA256 env (reconcile_cleared d)"
    by (simp add: journalDataSHA256_def encode_data_def reconcile_cleared_def persist_def)
  obtain x y where "encode_data env e = Some x" "encode_data env (reconcile_cleared d) = Some y"
    using assms(4,5) by blast
  moreover obtain info c where "jw_marker w = DiskFile info c" "safeActiveClearMarkerFile info"
    using w(2) by (auto simp: fenced_def)
  ultimately show ?thesis
    using assms(1-3) load cleared
    by (auto simp: reconcileActiveClearMarkerLocked_def removeActiveClearMarkerLocked_def calm disk_stage_def fence_of_def
        journalDataSHA256_def)
qed

lemma fenced_encodes: "fenced env d f \<Longrightarrow> \<exists>x. encode_data env d = Some x"
  by (auto simp: fenced_def journalDataSHA256_def split: option.splits)

definition calm_world :: "journal_world \<Rightarrow> journal_world" where
  "calm_world w = w\<lparr>script := []\<rparr>"

text \<open>The journal a start finds in a file that holds \<open>d\<close>.\<close>

definition started :: "journalData \<Rightarrow> Journal" where
  "started d = fresh_journal (scrub (persist d))"

lemma open_unfenced:
  assumes "disk_stage (Some (written d)) unfenced w" "reopens env d"
  shows "\<exists>w'. OpenJournal env (calm_world w) = (Ok (started d), w') \<and> jw_marker w' = NoFile"
proof -
  let ?w = "calm_world w"
  have w: "script ?w = []" "disk_stage (Some (written d)) unfenced ?w" "jw_main ?w = Some (written d)"
    using assms(1) by (simp_all add: calm_world_def disk_stage_def tmp_safe_def)
  have "openData env (persist d) ?w = (Ok (started d), if scrubbed (persist d)
      then ?w\<lparr>jw_marker_tmp := None, jw_main := Some (written (scrub (persist d)))\<rparr> else ?w\<lparr>jw_marker_tmp := None\<rparr>)"
    unfolding started_def
    by (rule open_settled [OF _ assms(2) _ reconcile_unfenced [OF w(1,2)]]) (use w in \<open>simp_all add: disk_stage_def\<close>)
  then show ?thesis
    using open_main [OF w(1) assms(2) w(3)] w(2) by (auto simp: disk_stage_def)
qed

lemma open_fenced:
  assumes "disk_stage (Some (written e)) (fenced env d) w" "reopens env e" "encode_data env (reconcile_cleared d) \<noteq> None"
    and "journalDataSHA256 env e \<in> {journalDataSHA256 env d, journalDataSHA256 env (reconcile_cleared d)}"
  shows "\<exists>w'. OpenJournal env (calm_world w) = (Ok (started e), w') \<and> jw_marker w' = NoFile"
proof -
  let ?w = "calm_world w"
  have w: "script ?w = []" "disk_stage (Some (written e)) (fenced env d) ?w" "jw_main ?w = Some (written e)"
    using assms(1) by (simp_all add: calm_world_def disk_stage_def tmp_safe_def)
  have "encode_data env e \<noteq> None"
    using assms(3,4) fenced_encodes [of env d "jw_marker w"] assms(1)
    by (auto simp: journalDataSHA256_def disk_stage_def split: option.splits)
  then have "reconcileActiveClearMarkerLocked env (persist e) True ?w =
      (Ok (), ?w\<lparr>jw_marker_tmp := None, jw_marker := NoFile\<rparr>)"
    using reconcile_fenced [OF w(1,2), of "persist e"] assms(3,4) by simp
  note settled = open_settled [OF _ assms(2) _ this]
  show ?thesis
    using open_main [OF w(1) assms(2) w(3)] settled w(1) by (simp add: started_def)
qed

end
