(* ===== verification/Journal_Crash.thy ===== *)
theory Journal_Crash
  imports Journal_Safety
begin

text \<open>
  The guarantees of the journal across failures: every operation is one atomic change, an
  interrupted clearing of the active job is resolved by the next start, a poisoned journal is
  never written again, and no credential reaches the disk.
\<close>

section \<open>A small journal\<close>

text \<open>Concrete parameters, a job and a world the theorems are applied to.\<close>

definition sample_externals :: externals where
  "sample_externals = \<lparr>ex_net = \<lparr>url_Parse = \<lambda>_. None, ip_IsLoopback = \<lambda>_. False\<rparr>, ex_time_Parse = \<lambda>_. None,
     ex_url_SetHost = \<lambda>_ host. host, ex_ValidatePortPlan = \<lambda>_. False, ex_ValidatePortResult = \<lambda>_ _. False,
     ex_AcceptedPortResult = \<lambda>_. False, ex_EqualPortResults = (=),
     ex_RuntimePlanSHA256 = \<lambda>_ _ _ _ _ _ _ _. Inl OSFailure, ex_EndpointSHA256 = \<lambda>_ _ _ _. Inl OSFailure\<rparr>"

definition sample_env :: journal_env where
  "sample_env = \<lparr>je_ex = sample_externals, je_json = \<lambda>d. Some (JObj
     [(''active'', JBool (jd_ActiveJob d \<noteq> None)), (''failed'', JBool (jd_ActiveStageFailure d \<noteq> None))])\<rparr>"

definition sample_job :: UpdateJob where
  "sample_job = \<lparr>uj_ProtocolVersion = 0, uj_CommandID = [], uj_ID = ''job-1'', uj_Operation = [],
     uj_PortReconfigure = None, uj_PortResult = None, uj_LastRecoveryObservation = None,
     uj_AgentServiceID = ''agent-1'', uj_HostID = ''host-1'', uj_TransportMode = HostTransportPullV2,
     uj_OwnershipEpoch = 1, uj_PolicyRevision = 1, uj_SoftwareUpdate = None, uj_SoftwareClaimRejected = False,
     uj_TargetID = ''worker-1'', uj_TargetType = [], uj_ServiceType = ''worker'', uj_DeploymentMode = ModeSystemd,
     uj_CurrentVersion = ''1.0.0'', uj_TargetVersion = ''1.1.0'', uj_Version = [], uj_LeaseToken = [],
     uj_ReleaseToken = [], uj_LeaseExpiresAt = [], uj_Status = ''claimed'', uj_Progress = 0, uj_Code = [],
     uj_Message = [], uj_ArtifactDigest = [], uj_PreviousDigest = [], uj_Sequence = 0, uj_ReportSequence = 1,
     uj_LeaseGeneration = 1, uj_RecoveryRequired = False, uj_RecoveryClear = False\<rparr>"

definition sample_data :: journalData where
  "sample_data = fresh_data\<lparr>jd_ActiveJob := Some sample_job, jd_NextSeq := 3\<rparr>"

definition sample_failed :: journalData where
  "sample_failed = sample_data\<lparr>jd_ActiveStageFailure := Some
     \<lparr>sf_JobID = ''job-1'', sf_Code = ''release_staging_failed'', sf_Message = ''release staging failed''\<rparr>\<rparr>"

definition sample_journal_world :: "journalData \<Rightarrow> fault list \<Rightarrow> journal_world" where
  "sample_journal_world d fs = \<lparr>script = fs, jw_main = Some (written d), jw_marker = NoFile, jw_marker_tmp = None,
     jw_journal = fresh_journal d\<rparr>"

lemma sample_world_simps [simp]:
  "data_of (sample_journal_world d fs) = d" "poison_of (sample_journal_world d fs) = None" "jw_marker (sample_journal_world d fs) = NoFile"
  "jw_main (sample_journal_world d fs) = Some (written d)" "jw_marker_tmp (sample_journal_world d fs) = None"
  "tmp_safe (sample_journal_world d fs)" "disk_stage (Some (written d)) (\<lambda>f. f = NoFile) (sample_journal_world d fs)"
  by (simp_all add: sample_journal_world_def fresh_journal_def disk_stage_def tmp_safe_def)

lemma sample_operation [simp]: "EffectiveOperation sample_job = updateJobOperationSoftwareUpdate"
  by (simp add: EffectiveOperation_def sample_job_def)

lemma sample_job_valid [simp]:
  "validateOperationUnion ex sample_job = None" "validateJournalSoftwareJob sample_job = None"
  "port_results_check ex sample_job = None" "\<not> isV2SoftwareJob sample_job"
  by (simp_all add: validateOperationUnion_def validateJournalSoftwareJob_def port_results_check_def isV2SoftwareJob_def)
    (simp_all add: sample_job_def)

lemma sample_failure_valid:
  "stageFailureRecord_validate
     \<lparr>sf_JobID = ''job-1'', sf_Code = ''release_staging_failed'', sf_Message = ''release staging failed''\<rparr> = None"
proof -
  have job: "MatchString identifierPattern ''job-1''"
    by (simp add: match_eval)
  moreover have "TrimSpace ''job-1'' = ''job-1''"
    using job by (rule TrimSpace_patterns(7))
  moreover have "safeExecutorMessage ''release staging failed''"
    by (simp add: safeExecutorMessage_def less_char_def TrimSpace_graphic graphic_eval)
  ultimately show ?thesis
    by (simp add: stageFailureRecord_validate_def)
qed

lemma sample_data_simps [simp]:
  "jd_ActiveJob sample_data = Some sample_job" "jd_ActivePlan sample_data = None" "jd_ActivePortPlan sample_data = None"
  "jd_ActivePortPolicy sample_data = None" "jd_ActiveStageFailure sample_data = None" "jd_NextSeq sample_data = 3"
  "jd_Pending sample_data = []" "jd_ActiveStageFailure sample_failed = Some
     \<lparr>sf_JobID = ''job-1'', sf_Code = ''release_staging_failed'', sf_Message = ''release staging failed''\<rparr>"
  "jd_ActiveJob sample_failed = Some sample_job" "jd_ActivePlan sample_failed = None"
  "jd_ActivePortPlan sample_failed = None" "jd_ActivePortPolicy sample_failed = None" "jd_NextSeq sample_failed = 3"
  "jd_Pending sample_failed = []"
  by (simp_all add: sample_data_def sample_failed_def fresh_data_def)

lemma sample_valid [simp]: "validateJournalData ex sample_data = None" "validateJournalData ex sample_failed = None"
  using sample_failure_valid
  by (simp_all add: validateJournalData_def active_job_check_def plans_check_def stage_failure_check_def)
    (simp add: sample_job_def)

lemma sample_reopens: "reopens sample_env sample_data"
  by (simp add: reopens_def retains_pending_def scrubbed_def) (simp add: sample_job_def persist_job_def)

section \<open>Clearing\<close>

definition encodable :: "journal_env \<Rightarrow> bool" where
  "encodable env \<longleftrightarrow> (\<forall>d. je_json env d \<noteq> None)"

lemma encodable_data: "encodable env \<Longrightarrow> encode_data env d \<noteq> None"
  by (simp add: encodable_def encode_data_def)

text \<open>The cleared data can be encoded, also without the reports a start discards.\<close>

definition cleared_encodes :: "journal_env \<Rightarrow> journalData \<Rightarrow> bool" where
  "cleared_encodes env d \<longleftrightarrow>
     encode_data env (clear_active d) \<noteq> None \<and> encode_data env (scrub (persist (clear_active d))) \<noteq> None"

lemma clear_active_simps [simp]:
  "jd_ActiveJob (clear_active d) = None" "jd_ActivePlan (clear_active d) = None"
  "jd_ActivePortPlan (clear_active d) = None" "jd_ActivePortPolicy (clear_active d) = None"
  "jd_ActiveStageFailure (clear_active d) = None" "jd_NextSeq (clear_active d) = jd_NextSeq d"
  "jd_Pending (clear_active d) = jd_Pending d"
  by (simp_all add: clear_active_def)

lemma validate_clear_active [simp]: "validateJournalData ex (clear_active d) = None"
  by (simp add: validateJournalData_def active_job_check_def plans_check_def stage_failure_check_def)

lemma reopens_clear_active: "cleared_encodes env d \<Longrightarrow> jd_NextSeq d \<noteq> 0 \<Longrightarrow> reopens env (clear_active d)"
  by (simp add: reopens_def retains_pending_def cleared_encodes_def)

lemma clear_active_idle:
  assumes "validateJournalData ex d = None" "jd_ActiveJob d = None"
  shows "clear_active d = d"
proof -
  have "jd_ActivePlan d = None" "jd_ActivePortPlan d = None" "jd_ActiveStageFailure d = None" "jd_ActivePortPolicy d = None"
    using assms by (auto simp: validateJournalData_def active_job_check_def plans_check_def plan_binding_invalid_def
        stage_failure_check_def portAgentPolicyState_validate_def split: option.splits if_splits)
  with assms(2) show ?thesis
    by (simp add: clear_active_def)
qed

lemma clear_active_reconciles:
  "jd_ActiveStageFailure d = None \<Longrightarrow> reconcile_cleared d = clear_active d"
  by (simp add: reconcile_cleared_def clear_active_def)

lemma interrupted_clear_opens:
  assumes "interrupted_clear env d (Some (written d)) w" "cleared_encodes env d" "reopens env d"
    and "jd_ActiveStageFailure d = None"
  shows "\<exists>e \<in> {d, clear_active d}. \<exists>v. OpenJournal env (calm_world w) = (Ok (started e), v) \<and> jw_marker v = NoFile"
proof -
  have cleared: "reopens env (clear_active d)"
    using assms(2,3) reopens_clear_active by (simp add: reopens_def)
  from assms(1) show ?thesis
    unfolding interrupted_clear_def
  proof (elim disjE)
    assume "disk_stage (Some (written d)) unfenced w"
    then show ?thesis
      using open_unfenced assms(3) by blast
  next
    assume "disk_stage (Some (written d)) (fenced env d) w"
    from open_fenced [OF this assms(3)] show ?thesis
      using assms(2) clear_active_reconciles [OF assms(4)] by (simp add: cleared_encodes_def)
  next
    assume "disk_stage (Some (written (clear_active d))) (fenced env d) w"
    from open_fenced [OF this cleared] show ?thesis
      using assms(2) clear_active_reconciles [OF assms(4)] by (simp add: cleared_encodes_def)
  next
    assume "disk_stage (Some (written (clear_active d))) unfenced w"
    then show ?thesis
      using open_unfenced cleared by blast
  qed
qed

text \<open>
  C5: Clearing the active job survives errors and process deaths. Start in a journal that is not
  poisoned and has no fence, where the file holds the data in memory, a start would accept these
  data, the cleared data can be encoded and no stage failure is recorded. Whatever call of
  \<open>ClearActive\<close> fails and wherever the process stops, the next start (without faults) opens the
  journal and removes the fence, and finds the previous data or the previous data with the active
  job cleared; after a normal return it finds the cleared ones.
\<close>

theorem ClearActive_recovers:
  assumes "cleared_encodes env (data_of w)" "poison_of w = None" "disk_stage (Some (written (data_of w))) unfenced w"
    and "reopens env (data_of w)" "jd_ActiveStageFailure (data_of w) = None"
    and run: "ClearActive env w = (r, w')"
  shows "\<exists>d \<in> {data_of w, clear_active (data_of w)}. (r = Ok () \<longrightarrow> d = clear_active (data_of w)) \<and>
    (\<exists>v. OpenJournal env (calm_world w') = (Ok (started d), v) \<and> jw_marker v = NoFile)"
proof (cases "jd_ActiveJob (data_of w) = None")
  case True
  then have "w' = w" "clear_active (data_of w) = data_of w"
    using run assms(2,4) clear_active_idle by (auto simp: ClearActive_def calm reopens_def checkMutableLocked_def)
  with open_unfenced [OF assms(3,4)] show ?thesis
    by auto
next
  case False
  let ?d = "data_of w"
  have "at (jw_journal w) (Some (written ?d)) unfenced w"
    using assms(3) by (simp add: at_def)
  note spec = clear_active_spec [OF assms(2) refl False, of "Some (written ?d)" env]
  show ?thesis
  proof (cases r)
    case (Ok x)
    then have "disk_stage (Some (written (clear_active ?d))) unfenced w'"
      using specD_Ok [OF spec \<open>at _ _ _ w\<close>] run by blast
    with open_unfenced reopens_clear_active [OF assms(1)] assms(4) show ?thesis
      by (force simp: reopens_def)
  next
    case (Err e)
    then have "interrupted_clear env ?d (Some (written ?d)) w'"
      using specD_Err [OF spec \<open>at _ _ _ w\<close>] run by blast
    from interrupted_clear_opens [OF this assms(1,4,5)] Err show ?thesis
      by auto
  next
    case Crash
    then have "interrupted_clear env ?d (Some (written ?d)) w'"
      using specD_Crash [OF spec \<open>at _ _ _ w\<close>] run by blast
    from interrupted_clear_opens [OF this assms(1,4,5)] Crash show ?thesis
      by auto
  qed
qed

theorem ClearActive_recovers_witness:
  "\<exists>d \<in> {sample_data, clear_active sample_data}. (\<exists>v. OpenJournal sample_env (calm_world
     (snd (ClearActive sample_env (sample_journal_world sample_data [Fine, Fine, Late])))) = (Ok (started d), v) \<and> jw_marker v = NoFile)"
proof -
  have "cleared_encodes sample_env sample_data"
    by (simp add: cleared_encodes_def encode_data_def sample_env_def)
  moreover obtain r w' where "ClearActive sample_env (sample_journal_world sample_data [Fine, Fine, Late]) = (r, w')"
    by fastforce
  ultimately show ?thesis
    using ClearActive_recovers [of sample_env "sample_journal_world sample_data [Fine, Fine, Late]" r w'] sample_reopens
    by auto
qed

section \<open>A stage failure\<close>

text \<open>
  The recovery of an interrupted clear compares the file with the previous data without the job,
  its plans and its port policy, but with the stage failure; \<open>ClearActive\<close> also clears that.
\<close>

primrec opens_within :: "journal_env \<Rightarrow> fault list list \<Rightarrow> journal_world \<Rightarrow> bool" where
  "opens_within env [] w \<longleftrightarrow> False"
| "opens_within env (fs # fss) w \<longleftrightarrow>
     (case OpenJournal env (w\<lparr>script := fs\<rparr>) of
        (Ok _, _) \<Rightarrow> True | (Err _, w') \<Rightarrow> opens_within env fss w' | (Crash, w') \<Rightarrow> opens_within env fss w')"

lemma never_opens:
  assumes "spec P (OpenJournal env) (\<lambda>_ _. False) P" "script_closed P" "P w"
  shows "\<not> opens_within env fss w"
  using assms(3)
proof (induction fss arbitrary: w)
  case (Cons fs fss)
  have "P (w\<lparr>script := fs\<rparr>)"
    using Cons.prems assms(2) by (simp add: script_closed_def)
  note run = specD_Ok [OF assms(1) this] specD_Err [OF assms(1) this] specD_Crash [OF assms(1) this]
  show ?case
    by (auto split: prod.splits outcome.splits dest: run Cons.IH)
qed simp

lemma spec_impossible: "(\<And>w. \<not> P w) \<Longrightarrow> spec P m Q X"
  by (simp add: spec_def)

lemma stage_sys:
  "spec (disk_stage main mk) syscallP (\<lambda>_. disk_stage main mk) (disk_stage main mk)"
  "spec (disk_stage main mk) (mapErrP f syscallP) (\<lambda>_. disk_stage main mk) (disk_stage main mk)"
proof -
  have "script_closed (disk_stage main mk)"
    by (simp add: script_closed_def)
  then show *: "spec (disk_stage main mk) syscallP (\<lambda>_. disk_stage main mk) (disk_stage main mk)"
    by (intro spec_of_keeps keeps_sys)
  show "spec (disk_stage main mk) (mapErrP f syscallP) (\<lambda>_. disk_stage main mk) (disk_stage main mk)"
    by (rule spec_mapErr [OF *])
qed

lemma stage_temp:
  "spec (disk_stage main mk) removeActiveClearMarkerTempLocked (\<lambda>_. disk_stage main mk) (disk_stage main mk)"
proof -
  have "keeps (\<lambda>w. \<exists>j. at j main mk w) removeActiveClearMarkerTempLocked"
    by (rule keepsI) (use keepsD [OF keeps_remove_temp] in blast)
  then show ?thesis
    by (simp add: at_def keeps_def)
qed

lemma stage_check:
  "spec (disk_stage main mk) (thenP (checkP r) (returnP x)) (\<lambda>y w. disk_stage main mk w \<and> y = x) (disk_stage main mk)"
  by (cases r) (auto simp: spec_def thenP_def bindP_def checkP_def returnP_def failP_def)

lemma load_fence_spec:
  assumes "fenced env d F" "journalDataSHA256 env d = Inr digest"
  shows "spec (disk_stage main (\<lambda>f. f = F)) (loadActiveClearMarkerLocked env)
    (\<lambda>r w. disk_stage main (\<lambda>f. f = F) w \<and> r = Some (fence_of (persist d) digest)) (disk_stage main (\<lambda>f. f = F))"
proof -
  let ?P = "disk_stage main (\<lambda>f. f = F)"
  from assms obtain encoded :: string where F: "F = DiskFile (private_file (int (length encoded) + 1)) (written_marker (fence_of d digest))"
      "validateActiveClearMarker env (fence_of d digest) = None"
    by (auto simp: fenced_def)
  have "validateJournalData (je_ex env) d = None"
    using F(2) by (simp add: validateActiveClearMarker_def fence_of_def split: option.splits if_splits)
  then have content: "written_marker (fence_of d digest) = Decodes (fence_of (persist d) digest)"
    using decodes_of_valid by (simp add: written_marker_def fence_of_def)
  show ?thesis
    unfolding loadActiveClearMarkerLocked_def
  proof (rule spec_lookup)
    fix info
    show "spec (\<lambda>w. ?P w \<and> (case jw_marker w of NoFile \<Rightarrow> None | DiskFile info _ \<Rightarrow> Some info) = Some info)
       (if \<not> safeActiveClearMarkerFile info \<or> size_bytes info \<le> 0 \<or> size_bytes info > port_marker_max
         then failP (NewErr ''active journal clear fence is unsafe'')
         else tryP (observeP jw_marker) (\<lambda>_. failP (NewErr ''open active journal clear fence''))
         (\<lambda>f. case f of
            NoFile \<Rightarrow> failP (NewErr ''open active journal clear fence'')
          | DiskFile info c \<Rightarrow>
              thenP (mapErrP (\<lambda>_. NewErr ''read active journal clear fence'') syscallP)
              (case c of
                 Undecodable \<Rightarrow> failP (NewErr ''decode active journal clear fence'')
               | Decodes m \<Rightarrow>
                   if size_bytes info > activeClearMarkerSizeLimit m
                   then failP (NewErr ''active journal clear fence exceeds its bound'')
                   else thenP (checkP (validateActiveClearMarker env m)) (returnP (Some m))
               | TrailingData m \<Rightarrow>
                   if size_bytes info > activeClearMarkerSizeLimit m
                   then failP (NewErr ''active journal clear fence exceeds its bound'')
                   else failP (NewErr ''active journal clear fence contains trailing data''))))
       (\<lambda>r w. ?P w \<and> r = Some (fence_of (persist d) digest)) ?P"
    proof (rule spec_pre [where P = ?P], rule spec_if, rule spec_fail, assumption,
        rule spec_try [where R = "\<lambda>f w. ?P w \<and> f = F" and Y = ?P])
      show "spec ?P (observeP jw_marker) (\<lambda>f w. ?P w \<and> f = F) ?P"
        by (rule spec_observe) (auto simp: disk_stage_def tmp_safe_def)
    qed (auto simp: F(1) content intro!: spec_pure spec_fail spec_then [OF stage_sys(2)] spec_if stage_check)
  qed (auto simp: disk_stage_def F(1) tmp_safe_def intro!: spec_fail spec_if spec_return)
qed

lemma wedged_spec:
  assumes "fenced env d F" "journalDataSHA256 env d = Inr digest"
    and "journalDataSHA256 env e \<noteq> Inr digest" "journalDataSHA256 env e \<noteq> journalDataSHA256 env (reconcile_cleared d)"
    and "jd_NextSeq e \<noteq> 0" "data_decodes e"
  shows "spec (disk_stage (Some (written e)) (\<lambda>f. f = F)) (OpenJournal env) (\<lambda>_ _. False) (disk_stage (Some (written e)) (\<lambda>f. f = F))"
proof -
  let ?P = "disk_stage (Some (written e)) (\<lambda>f. f = F)"
  have cleared: "journalDataSHA256 env (reconcile_cleared (persist d)) = journalDataSHA256 env (reconcile_cleared d)"
    by (simp add: journalDataSHA256_def encode_data_def reconcile_cleared_def persist_def)
  have reconcile: "spec ?P (reconcileActiveClearMarkerLocked env (persist e) True) (\<lambda>_ _. False) ?P"
    unfolding reconcileActiveClearMarkerLocked_def
  proof (rule spec_then [OF stage_temp], rule spec_bind [OF load_fence_spec [OF assms(1,2)]], rule spec_pure)
    fix r assume r: "r = Some (fence_of (persist d) digest)"
    show "spec ?P (case r of None \<Rightarrow> returnP () | Some m \<Rightarrow>
          if \<not> True then failP (NewErr ''active journal clear fence exists without the main journal'')
          else case journalDataSHA256 env (persist e) of
            Inl _ \<Rightarrow> failP (NewErr ''digest current journal during active clear recovery'')
          | Inr current \<Rightarrow>
              (case journalDataSHA256 env (reconcile_cleared (cm_Previous m)) of
                 Inl _ \<Rightarrow> failP (NewErr ''digest cleared journal during active clear recovery'')
               | Inr cleared \<Rightarrow>
                   if current \<noteq> cm_PreviousSHA256 m \<and> current \<noteq> cleared
                   then failP (NewErr ''active journal clear fence does not match the main journal'')
                   else removeActiveClearMarkerLocked)) (\<lambda>_ _. False) ?P"
      using assms(3,4) cleared
      by (auto simp: r fence_of_def intro!: spec_fail split: sum.split)
  qed
  have opened: "spec ?P (openData env (persist e)) (\<lambda>_ _. False) ?P"
    unfolding openData_def
    by (rule spec_then [where R = ?P], rule spec_check, assumption, assumption, rule spec_then [OF reconcile])
      (simp add: spec_def)
  show ?thesis
    unfolding OpenJournal_def
  proof (rule spec_then [OF stage_sys(1)], rule spec_lookup)
    fix content
    show "spec (\<lambda>w. ?P w \<and> jw_main w = Some content)
      (thenP (mapErrP (\<lambda>e. WrapErr e ''decode update journal'') syscallP)
          (case content of
             Undecodable \<Rightarrow> failP (WrapErr OSFailure ''decode update journal'')
           | Decodes d \<Rightarrow> thenP (mapErrP (\<lambda>e. WrapErr e ''close update journal'') syscallP) (openData env (loaded d))
           | TrailingData d \<Rightarrow>
               thenP (mapErrP (\<lambda>e. WrapErr e ''close update journal'') syscallP) (openData env (loaded d))))
      (\<lambda>_ _. False) ?P"
    proof (cases "content = Decodes (persist e)")
      case True
      have "loaded (persist e) = persist e"
        using assms(5) by (simp add: loaded_id)
      then show ?thesis
        unfolding True content.case using opened
        by - (rule spec_pre [where P = ?P], intro spec_then [OF stage_sys(2)]; simp)
    next
      case False
      then show ?thesis
        by (intro spec_impossible) (use assms(6) in \<open>auto simp: disk_stage_def written_def\<close>)
    qed
    show "spec (\<lambda>w. ?P w \<and> jw_main w = None) (if errors_Is NotExist NotExist
           then thenP (reconcileActiveClearMarkerLocked env fresh_data False) (returnP (fresh_journal fresh_data))
           else failP NotExist) (\<lambda>_ _. False) ?P"
      by (rule spec_impossible) (simp add: disk_stage_def)
  qed (auto simp: disk_stage_def tmp_safe_def intro!: spec_fail)
qed

lemma crash_after_rename:
  assumes "poison_of w = None" "disk_stage main unfenced w" "jw_marker_tmp w = None" "fenced env (data_of w) F"
    and "encode_data env (clear_active (data_of w)) \<noteq> None"
  shows "\<exists>w'. ClearActive env (w\<lparr>script := replicate 10 Fine @ [DieLate]\<rparr>) = (Crash, w') \<and>
    disk_stage (Some (written (clear_active (data_of w)))) (\<lambda>f. f = F) w'"
proof -
  let ?d = "data_of w"
  from assms(4) obtain digest and encoded :: string where fence: "journalDataSHA256 env ?d = Inr digest"
      "validateActiveClearMarker env (fence_of ?d digest) = None" "encode_marker env (fence_of ?d digest) = Some encoded"
      "int (length encoded) + 1 \<le> activeClearMarkerSizeLimit (fence_of ?d digest)"
      "F = DiskFile (private_file (int (length encoded) + 1)) (written_marker (fence_of ?d digest))"
    unfolding fenced_def by blast
  obtain j where j: "jd_ActiveJob ?d = Some j" "uj_LeaseToken j = []" "uj_ReleaseToken j = []"
      "\<not> list_ex (\<lambda>p. jr_LeaseToken (pe_Report p) \<noteq> []) (jd_Pending ?d)"
    using fence(2) by (auto simp: validateActiveClearMarker_def fence_of_def split: option.splits if_splits)
  obtain x where "encode_data env (clear_active ?d) = Some x"
    using assms(5) by blast
  with assms(1-3) fence j show ?thesis
    by (simp add: ClearActive_def checkMutableLocked_def installActiveClearMarkerLocked_def
        loadActiveClearMarkerLocked_def removeActiveClearMarkerTempLocked_def writeMarkerTemp_def renameMarker_def
        saveDataLocked_def lookupP_def syscallP_def prog_defs thenP_def mapErrP_def disk_stage_def tmp_safe_def
        fence_of_def numeral_eq_Suc Let_def)
qed

text \<open>
  C7: With a recorded stage failure the same clearing can make the journal unusable. If the process
  stops right after the file with the cleared data was renamed into place, no later start, with any
  number of attempts and any faults, opens the journal again, unless SHA-256 gives the cleared data
  the digest of the previous data or of the previous data that keep the stage failure.
\<close>

theorem stage_failure_blocks_restart:
  assumes "encodable env" "poison_of w = None" "disk_stage (Some (written (data_of w))) unfenced w"
    and "jw_marker_tmp w = None" "fenced env (data_of w) F" "jd_NextSeq (data_of w) \<noteq> 0"
    and "jd_ActiveStageFailure (data_of w) \<noteq> None"
  shows "\<exists>w'. ClearActive env (w\<lparr>script := replicate 10 Fine @ [DieLate]\<rparr>) = (Crash, w') \<and>
    ((\<forall>attempts. \<not> opens_within env attempts w') \<or>
     journalDataSHA256 env (clear_active (data_of w)) \<in>
       {journalDataSHA256 env (data_of w), journalDataSHA256 env (reconcile_cleared (data_of w))})"
proof -
  let ?d = "data_of w"
  let ?P = "disk_stage (Some (written (clear_active ?d))) (\<lambda>f. f = F)"
  obtain digest where digest: "journalDataSHA256 env ?d = Inr digest"
    using assms(5) by (auto simp: fenced_def)
  obtain w' where run: "ClearActive env (w\<lparr>script := replicate 10 Fine @ [DieLate]\<rparr>) = (Crash, w')" "?P w'"
    using crash_after_rename [OF assms(2,3,4,5) encodable_data [OF assms(1)]] by blast
  have "\<not> opens_within env attempts w'"
    if "journalDataSHA256 env (clear_active ?d) \<notin> {journalDataSHA256 env ?d, journalDataSHA256 env (reconcile_cleared ?d)}"
    for attempts
  proof (rule never_opens [OF wedged_spec [OF assms(5) digest]])
    show "data_decodes (clear_active ?d)"
      by (simp add: data_decodes_def)
  qed (use that digest assms(6) run(2) in \<open>auto simp: script_closed_def\<close>)
  with run(1) show ?thesis
    by blast
qed

lemma sample_fenced: "\<exists>F. fenced sample_env sample_failed F"
proof -
  obtain body where body: "encode_data sample_env sample_failed = Some body"
    by (simp add: encode_data_def sample_env_def)
  let ?m = "fence_of sample_failed (sha256_digest body)"
  obtain encoded where encoded: "encode_marker sample_env ?m = Some encoded"
    by (simp add: encode_marker_def sample_env_def)
  have names: "json_escape ''schema_version'' = ''schema_version''" "json_escape ''previous_sha256'' = ''previous_sha256''"
      "json_escape ''previous'' = ''previous''" "json_escape ''active'' = ''active''" "json_escape ''failed'' = ''failed''"
      "decimal_string (Suc 0) = ''1''"
    by code_simp+
  have size: "length encoded \<le> 1000"
    using encoded names
    by (auto simp: encode_marker_def sample_env_def fence_of_def json_quote_def digest_text json_escape_plain
        int_string_def)
  have "cm_Previous ?m\<lparr>jd_ActivePortPolicy := None\<rparr> = cm_Previous ?m"
    by (simp add: fence_of_def sample_failed_def sample_data_def fresh_data_def)
  then have "?m\<lparr>cm_Previous := cm_Previous ?m\<lparr>jd_ActivePortPolicy := None\<rparr>\<rparr> = ?m"
    by simp
  then have "marker_metadata_fits sample_env ?m"
    using encoded size by (simp add: marker_metadata_fits_def marker_max_def)
  then have "validateActiveClearMarker sample_env ?m = None"
    using body by (simp add: validateActiveClearMarker_def journalDataSHA256_def fence_of_def) (simp add: sample_job_def)
  then show ?thesis
    using encoded size body
    by (auto simp: fenced_def journalDataSHA256_def activeClearMarkerSizeLimit_def marker_max_def fence_of_def)
qed

theorem stage_failure_blocks_restart_witness:
  "\<exists>w'. ClearActive sample_env (sample_journal_world sample_failed [] \<lparr>script := replicate 10 Fine @ [DieLate]\<rparr>) = (Crash, w') \<and>
    ((\<forall>attempts. \<not> opens_within sample_env attempts w') \<or>
     journalDataSHA256 sample_env (clear_active sample_failed) \<in>
       {journalDataSHA256 sample_env sample_failed, journalDataSHA256 sample_env (reconcile_cleared sample_failed)})"
proof -
  have "encodable sample_env"
    by (simp add: encodable_def sample_env_def)
  moreover obtain F where "fenced sample_env sample_failed F"
    using sample_fenced by blast
  ultimately show ?thesis
    using stage_failure_blocks_restart [of sample_env "sample_journal_world sample_failed []" F] by simp
qed

section \<open>Atomicity\<close>

lemma clear_errors_poison:
  assumes "ClearActive env w = (Err e, w')"
  shows "poison_of w' \<noteq> None"
  using assms
  by (auto simp: ClearActive_def checkMutableLocked_def thenP_def bindP_def getP_def checkP_def failP_def returnP_def
      tryP_def modifyP_def poisonLocked_run split: option.splits prod.splits outcome.splits if_splits)

lemma op_atomic:
  assumes "poison_of w = None" "jw_marker w = NoFile" "tmp_safe w" "run_op env op w = (r, w')"
  shows "case op_data (je_ex env) op (data_of w) of
      None \<Rightarrow> w' = w
    | Some d \<Rightarrow> jw_main w' \<in> {jw_main w, Some (written d)} \<and>
        (case r of
           Ok _ \<Rightarrow> data_of w' = d \<and> jw_main w' = Some (written d) \<and> jw_marker w' = NoFile \<and> poison_of w' = None
         | Err _ \<Rightarrow> poison_of w' \<noteq> None
         | Crash \<Rightarrow> True)"
proof (cases "op = OpClearActive")
  case False
  then show ?thesis
    using op_refines [OF assms(1) False, of env] assms
    by (auto simp: commits_def split: option.splits outcome.splits)
next
  case True
  let ?d = "data_of w"
  show ?thesis
  proof (cases "jd_ActiveJob ?d = None")
    case idle: True
    then show ?thesis
      using assms by (simp add: True ClearActive_def calm checkMutableLocked_def)
  next
    case False
    have run: "ClearActive env w = (r, w')"
      using assms(4) True by simp
    have at: "at (jw_journal w) (jw_main w) unfenced w"
      using assms(2,3) by (simp add: at_def disk_stage_def)
    note spec = clear_active_spec [OF assms(1) refl False, of "jw_main w" env]
    show ?thesis
      using specD_Ok [OF spec at] specD_Err [OF spec at] specD_Crash [OF spec at] run clear_errors_poison [of env w] False
      by (cases r) (auto simp: True disk_stage_def interrupted_clear_def)
  qed
qed

text \<open>
  C6: Every method that changes an open journal is one atomic change of the data, given by the
  function \<open>op_data\<close>. Start in a journal that is not poisoned, has no fence, and whose fence
  temporary, if there is one, is a safe file. A call that \<open>op_data\<close> refuses, or that has nothing to
  save, changes nothing at all: it may return an error, but does not poison the journal. Any other
  call leaves the file as it was or with the new data, whatever fails; it returns normally only
  with the new data in memory and in the file and without a fence; and an error it returns leaves
  the journal poisoned.
\<close>

theorem journal_op_atomic:
  assumes "poison_of w = None" "jw_marker w = NoFile" "tmp_safe w" "run_op env op w = (r, w')"
  shows "case op_data (je_ex env) op (data_of w) of
      None \<Rightarrow> w' = w
    | Some d \<Rightarrow> jw_main w' \<in> {jw_main w, Some (written d)} \<and>
        (case r of
           Ok _ \<Rightarrow> data_of w' = d \<and> jw_main w' = Some (written d) \<and> jw_marker w' = NoFile \<and> poison_of w' = None
         | Err _ \<Rightarrow> poison_of w' \<noteq> None
         | Crash \<Rightarrow> True)"
  using op_atomic [OF assms] .

theorem journal_op_atomic_witness:
  "\<exists>e w'. run_op sample_env (OpMarkDeployed ''worker-1'' ''1.1.0'') (sample_journal_world sample_data [Fine, Fine, Late]) = (Err e, w') \<and>
     jw_main w' \<in> {Some (written sample_data),
       Some (written (sample_data\<lparr>jd_DeployedVersions := [''worker-1'' \<mapsto> ''1.1.0'']\<rparr>))} \<and> poison_of w' \<noteq> None"
proof -
  let ?w = "sample_journal_world sample_data [Fine, Fine, Late]" and ?op = "OpMarkDeployed ''worker-1'' ''1.1.0''"
  obtain r w' where run: "run_op sample_env ?op ?w = (r, w')"
    by fastforce
  have "jd_DeployedVersions sample_data = Map.empty"
    by (simp add: sample_data_def fresh_data_def)
  moreover have "\<exists>e. fst (run_op sample_env ?op ?w) = Err e"
    by (simp add: MarkDeployed_def checkMutableLocked_def fresh_journal_def updateP_def saveLocked_def saveDataLocked_def
        encode_data_def sample_env_def
        syscallP_def prog_defs thenP_def mapErrP_def modifyP_def poisonLocked_def set_data_def sample_journal_world_def)
  ultimately show ?thesis
    using journal_op_atomic [of ?w sample_env ?op r w'] run by auto
qed

end
