(* ===== verification/Journal_Reports.thy ===== *)
theory Journal_Reports
  imports Journal_Crash
begin

text \<open>
  What the reports of the journal go through while the process that queued them runs: they are
  acknowledged in the order they were queued, and get consecutive sequence numbers.
\<close>

section \<open>Sessions\<close>

text \<open>What the caller of the journal sees: a report \<open>queue\<close> returned, an \<open>Ack\<close> that returned normally.\<close>

datatype report_event = Queued string JobReport | Acked string u64

text \<open>One operation with the events it causes; the other operations cause none.\<close>

definition report_step ::
  "journal_env \<Rightarrow> journal_op \<Rightarrow> journal_world \<Rightarrow> report_event list \<times> unit outcome \<times> journal_world" where
  "report_step env op w = (case op of
     OpQueue jobID serviceID token gen status code message progress artifact previous result \<Rightarrow>
       (case queue env jobID serviceID token gen status code message progress artifact previous result w of
          (Ok report, w') \<Rightarrow> ([Queued jobID report], Ok (), w') | (Err e, w') \<Rightarrow> ([], Err e, w') | (Crash, w') \<Rightarrow> ([], Crash, w'))
   | OpAck jobID sequence \<Rightarrow>
       (case Ack env jobID sequence w of
          (Ok _, w') \<Rightarrow> ([Acked jobID sequence], Ok (), w') | (Err e, w') \<Rightarrow> ([], Err e, w') | (Crash, w') \<Rightarrow> ([], Crash, w'))
   | _ \<Rightarrow> ([], run_op env op w))"

text \<open>Operations one after the other, also after one has failed; \<open>None\<close> when the process stops.\<close>

primrec report_session :: "journal_env \<Rightarrow> journal_op list \<Rightarrow> journal_world \<Rightarrow> (report_event list \<times> journal_world) option" where
  "report_session env [] w = Some ([], w)"
| "report_session env (op # ops) w = (case report_step env op w of
     (es, Crash, w') \<Rightarrow> None
   | (es, _, w') \<Rightarrow> map_option (\<lambda>(fs, v). (es @ fs, v)) (report_session env ops w'))"

fun queued :: "report_event list \<Rightarrow> PendingReport list" where
  "queued [] = []"
| "queued (Queued jobID report # es) = \<lparr>pe_JobID = jobID, pe_Report = report\<rparr> # queued es"
| "queued (Acked _ _ # es) = queued es"

fun acked :: "report_event list \<Rightarrow> (string \<times> u64) list" where
  "acked [] = []"
| "acked (Queued _ _ # es) = acked es"
| "acked (Acked jobID sequence # es) = (jobID, sequence) # acked es"

definition report_key :: "PendingReport \<Rightarrow> string \<times> u64" where
  "report_key p = (pe_JobID p, jr_Sequence (pe_Report p))"

text \<open>A report without its lease token, which only the memory of the process holds.\<close>

definition untoken :: "PendingReport \<Rightarrow> PendingReport" where
  "untoken p = p\<lparr>pe_Report := (pe_Report p)\<lparr>jr_LeaseToken := []\<rparr>\<rparr>"

abbreviation reports_of :: "journal_world \<Rightarrow> PendingReport list" where
  "reports_of w \<equiv> map untoken (Pending (jw_journal w))"

text \<open>The operations that discard reports instead of acknowledging them, and the ones that set the sequence.\<close>

definition discards :: "journal_op \<Rightarrow> bool" where
  "discards op \<longleftrightarrow> (case op of OpDropJobReports _ \<Rightarrow> True | OpAdoptRecovered _ \<Rightarrow> True
     | OpSetTerminalRecovery _ _ _ _ \<Rightarrow> True | OpAdoptGenerationRead _ _ _ \<Rightarrow> True | _ \<Rightarrow> False)"

definition renumbers :: "journal_op \<Rightarrow> bool" where
  "renumbers op \<longleftrightarrow> (case op of OpSetActive _ \<Rightarrow> True | OpAdoptRecovered _ \<Rightarrow> True
     | OpSetTerminalRecovery _ _ _ _ \<Rightarrow> True | OpAdoptGenerationRead _ _ _ \<Rightarrow> True | _ \<Rightarrow> False)"

lemma queued_append [simp]: "queued (es @ fs) = queued es @ queued fs"
  by (induction es rule: queued.induct) simp_all

lemma acked_append [simp]: "acked (es @ fs) = acked es @ acked fs"
  by (induction es rule: acked.induct) simp_all

lemma report_key_untoken [simp]: "report_key (untoken p) = report_key p"
  by (simp add: report_key_def untoken_def)

lemma reports_of_data: "reports_of w = map untoken (jd_Pending (data_of w))"
  by (simp add: Pending_def untoken_def comp_def)

section \<open>One operation\<close>

lemma queue_result_keeps:
  "queue_result ex d jobID serviceID gen status result = Inr (d', r) \<Longrightarrow>
     jd_Pending d' = jd_Pending d \<and> jd_NextSeq d' = jd_NextSeq d"
  by (auto simp: queue_result_def split: option.splits if_splits sum.splits prod.splits)
    (auto simp: map_sum_def split: sum.splits)

text \<open>
  A journal that may still be written and that no fence guards stays so as long as nothing
  poisons it, and a poisoned one stays poisoned.
\<close>

definition writable :: "journal_world \<Rightarrow> bool" where
  "writable w \<longleftrightarrow> poison_of w = None \<and> jw_marker w = NoFile \<and> tmp_safe w"

lemma queue_step:
  assumes "poison_of w = None"
    and "queue env jobID serviceID token gen status code message progress artifact previous result w = (r, w')"
    and "r \<noteq> Crash" "poison_of w' = None"
  shows "(\<exists>e. r = Err e) \<and> w' = w \<or>
    (\<exists>report. r = Ok report \<and> jr_Sequence report = jd_NextSeq (data_of w) \<and>
       jd_Pending (data_of w') = jd_Pending (data_of w) @ [untoken \<lparr>pe_JobID = jobID, pe_Report = report\<rparr>] \<and>
       jd_NextSeq (data_of w') = jd_NextSeq (data_of w) + 1 \<and>
       jw_marker w' = jw_marker w \<and> jw_marker_tmp w' = jw_marker_tmp w)"
proof (cases "queue_result (je_ex env) (data_of w) jobID serviceID gen status result")
  case (Inl e)
  then show ?thesis
    using assms by (simp add: queue_def) (auto simp: run_simps)
next
  case (Inr x)
  obtain d' port where x: "x = (d', port)"
    by (cases x)
  let ?report = "\<lparr>jr_ServiceID = serviceID, jr_LeaseToken = token, jr_Sequence = jd_NextSeq d',
              jr_LeaseGeneration = gen, jr_Status = status, jr_Progress = progress, jr_Code = code,
              jr_Message = message, jr_ArtifactDigest = artifact, jr_PreviousDigest = previous,
              jr_PortReconfigure = port\<rparr>"
  let ?w = "set_tokens ((jn_leaseTokens (jw_journal w))(pendingLeaseKey jobID (jd_NextSeq d') \<mapsto> token)) w"
  have run: "(r, w') = thenP (updateP env (\<lambda>_. append_report jobID ?report d')) (returnP ?report) ?w"
    using assms(1,2) by (simp add: queue_def Inr x) (simp add: run_simps Inr x Let_def)
  obtain q v where save: "updateP env (\<lambda>_. append_report jobID ?report d') ?w = (q, v)"
    by fastforce
  have "commits ?w (append_report jobID ?report d') (q, v)"
    using updateP_commits [of "append_report jobID ?report d'" "\<lambda>_. append_report jobID ?report d'" ?w env] save by simp
  moreover have "w' = v" "r = (case q of Ok _ \<Rightarrow> Ok ?report | Err e \<Rightarrow> Err e | Crash \<Rightarrow> Crash)"
    using run save by (auto simp: thenP_def bindP_def returnP_def split: outcome.splits)
  ultimately show ?thesis
    using assms(3,4) queue_result_keeps [OF Inr [unfolded x]]
    by (cases q) (auto simp: commits_def append_report_def untoken_def)
qed

lemma ack_step:
  assumes "poison_of w = None" "Ack env jobID sequence w = (r, w')" "r \<noteq> Crash" "poison_of w' = None"
  shows "(\<exists>e. r = Err e) \<and> w' = w \<or>
    (\<exists>p rest. r = Ok () \<and> jd_Pending (data_of w) = p # rest \<and> report_key p = (jobID, sequence) \<and>
       jd_Pending (data_of w') = rest \<and> jd_NextSeq (data_of w') = jd_NextSeq (data_of w) \<and>
       jw_marker w' = jw_marker w \<and> jw_marker_tmp w' = jw_marker_tmp w)"
proof (cases "jd_Pending (data_of w)")
  case Nil
  then show ?thesis
    using assms unfolding Ack_def checkMutable_run [OF assms(1)] by (auto simp: run_simps)
next
  case (Cons p rest)
  let ?save = "thenP (modifyP (\<lambda>w. set_tokens (forget_tokens [p] (jn_leaseTokens (jw_journal w))) w))
              (updateP env (\<lambda>d. d\<lparr>jd_Pending := rest\<rparr>))"
  have run: "Ack env jobID sequence w =
      (if pe_JobID p \<noteq> jobID \<or> jr_Sequence (pe_Report p) \<noteq> sequence
       then failP (NewErr ''journal acknowledgements must be ordered'') else ?save) w"
    unfolding Ack_def checkMutable_run [OF assms(1)] by (simp add: bindP_def getP_def Cons)
  have "commits w ((data_of w)\<lparr>jd_Pending := rest\<rparr>) (?save w)"
    by (rule commits_tokens) simp
  then show ?thesis
    using assms(2-4) Cons unfolding run
    by (cases r) (auto simp: commits_def failP_def report_key_def split: if_splits)
qed

lemma other_step:
  assumes "writable w" "run_op env op w = (r, w')" "r \<noteq> Crash" "poison_of w' = None"
  shows "writable w' \<and> (w' = w \<or> op_data (je_ex env) op (data_of w) = Some (data_of w'))"
proof -
  have w: "poison_of w = None" "jw_marker w = NoFile" "tmp_safe w"
    using assms(1) by (simp_all add: writable_def)
  show ?thesis
  proof (cases "op = OpClearActive \<and> jd_ActiveJob (data_of w) \<noteq> None")
    case True
    have at: "at (jw_journal w) (jw_main w) unfenced w"
      using w by (simp add: at_def disk_stage_def)
    have clear_active_done: "r = Ok () \<Longrightarrow> writable w' \<and> data_of w' = clear_active (data_of w)"
      using specD_Ok [OF clear_active_spec [OF w(1) refl conjunct2 [OF True], of "jw_main w" env] at] True assms(2)
      by (auto simp: writable_def disk_stage_def)
    show ?thesis
      using assms(2-4) True clear_active_done clear_errors_poison [of env w] w
      by (cases r) auto
  next
    case False
    then consider "op \<noteq> OpClearActive" | "op = OpClearActive" "jd_ActiveJob (data_of w) = None"
      by blast
    then show ?thesis
    proof cases
      case 1
      have "refines w (op_data (je_ex env) op (data_of w)) (r, w')"
        using op_refines [OF w(1) 1, of env] assms(2) by simp
      then show ?thesis
        using assms w by (cases "op_data (je_ex env) op (data_of w)"; cases r)
          (auto simp: commits_def writable_def tmp_safe_def)
    next
      case 2
      then show ?thesis
        using assms w by (simp add: ClearActive_def calm checkMutableLocked_def)
    qed
  qed
qed

text \<open>What the operations that do not discard or renumber leave of the reports and the next number.\<close>

lemma other_pending:
  assumes "op_data ex op d = Some d'" "\<not> discards op" "\<forall>jobID sequence. op \<noteq> OpAck jobID sequence"
    and "\<forall>a b c d e f g h i j k. op \<noteq> OpQueue a b c d e f g h i j k"
  shows "jd_Pending d' = jd_Pending d"
  using assms
  by (cases op) (auto simp: discards_def with_active_def clear_active_def Let_def
      split: option.splits sum.splits if_splits)

lemma other_sequence:
  assumes "op_data ex op d = Some d'" "\<not> renumbers op"
    and "\<forall>a b c d e f g h i j k. op \<noteq> OpQueue a b c d e f g h i j k"
  shows "jd_NextSeq d' = jd_NextSeq d"
  using assms
  by (cases op) (auto simp: renumbers_def clear_active_def split: option.splits sum.splits if_splits list.splits)


definition consecutive :: "u64 \<Rightarrow> nat \<Rightarrow> u64 list" where
  "consecutive a n = map (\<lambda>i. a + of_nat i) [0..<n]"

lemma consecutive_append: "consecutive a (n + m) = consecutive a n @ consecutive (a + of_nat n) m"
  by (induction m) (auto simp: consecutive_def add_ac)

lemma distinct_consecutive: "n \<le> 2 ^ 64 \<Longrightarrow> distinct (consecutive a n)"
  unfolding consecutive_def distinct_map
proof (intro conjI inj_onI)
  fix i j assume n: "n \<le> 2 ^ 64" and ij: "i \<in> set [0..<n]" "j \<in> set [0..<n]"
    and eq: "a + (of_nat i :: u64) = a + of_nat j"
  then have "unat (of_nat i :: u64) = unat (of_nat j :: u64)"
    by simp
  with ij n show "i = j"
    by (simp add: unsigned_of_nat take_bit_nat_eq_self)
qed simp


lemma poisoned_refuses:
  assumes "poison_of w = Some e"
  shows "run_op env op w = (Err e, w)"
  using assms
  by (cases op) (simp_all add: checkMutable_poisoned MarkDeployed_def SetActive_def SetActivePlan_def SetActivePortPlan_def
      SetActiveStageFailure_def queue_def DropJobReports_def Ack_def ClearActive_def StagePortPolicy_def
      adoptPortPolicy_def AdoptRecoveredSoftwareClaim_def SetTerminalSoftwareClaimRecovery_def
      AdoptRecoveredSoftwareClaimAfterGenerationRead_def bindP_def)

section \<open>Sessions keep the order\<close>

lemma report_step_facts:
  assumes "writable w" "report_step env op w = (es, r, w')" "r \<noteq> Crash" "poison_of w' = None"
  shows "writable w'"
    and "\<not> discards op \<Longrightarrow> \<exists>gone. map untoken (jd_Pending (data_of w)) @ map untoken (queued es) =
       gone @ map untoken (jd_Pending (data_of w')) \<and> acked es = map report_key gone"
    and "\<not> renumbers op \<Longrightarrow> jd_NextSeq (data_of w') = jd_NextSeq (data_of w) + of_nat (length (queued es)) \<and>
       map (jr_Sequence \<circ> pe_Report) (queued es) = consecutive (jd_NextSeq (data_of w)) (length (queued es))"
proof -
  let ?fifo = "\<exists>gone. map untoken (jd_Pending (data_of w)) @ map untoken (queued es) =
       gone @ map untoken (jd_Pending (data_of w')) \<and> acked es = map report_key gone"
    and ?seq = "jd_NextSeq (data_of w') = jd_NextSeq (data_of w) + of_nat (length (queued es)) \<and>
       map (jr_Sequence \<circ> pe_Report) (queued es) = consecutive (jd_NextSeq (data_of w)) (length (queued es))"
  have w: "poison_of w = None" "jw_marker w = NoFile" "tmp_safe w"
    using assms(1) by (simp_all add: writable_def)
  have "writable w' \<and> (\<not> discards op \<longrightarrow> ?fifo) \<and> (\<not> renumbers op \<longrightarrow> ?seq)"
  proof -
    consider (queue) jobID serviceID token gen status code message progress artifact previous result
        where "op = OpQueue jobID serviceID token gen status code message progress artifact previous result"
      | (ack) jobID sequence where "op = OpAck jobID sequence"
      | (other) "\<forall>a b c d e f g h i j k. op \<noteq> OpQueue a b c d e f g h i j k" "\<forall>jobID sequence. op \<noteq> OpAck jobID sequence"
      by blast
    then show ?thesis
    proof cases
      case queue
      obtain q where run: "queue env jobID serviceID token gen status code message progress artifact previous result w = (q, w')"
        using assms(2) by (auto simp: report_step_def queue split: prod.splits outcome.splits)
      then have es: "es = (case q of Ok report \<Rightarrow> [Queued jobID report] | _ \<Rightarrow> [])" "q \<noteq> Crash"
        using assms(2,3) by (auto simp: report_step_def queue split: outcome.splits)
      from queue_step [OF w(1) run es(2) assms(4)] show ?thesis
        using assms(1,4) w by (auto simp: es(1) writable_def tmp_safe_def consecutive_def untoken_def)
    next
      case ack
      obtain q where run: "Ack env jobID sequence w = (q, w')"
        using assms(2) by (auto simp: report_step_def ack split: prod.splits outcome.splits)
      then have es: "es = (case q of Ok _ \<Rightarrow> [Acked jobID sequence] | _ \<Rightarrow> [])" "q \<noteq> Crash"
        using assms(2,3) by (auto simp: report_step_def ack split: outcome.splits)
      from ack_step [OF w(1) run es(2) assms(4)] show ?thesis
        using assms(1,4) w by (auto simp: es(1) writable_def tmp_safe_def consecutive_def)
    next
      case other
      have run: "run_op env op w = (r, w')" "es = []"
        using assms(2) other by (cases op; simp add: report_step_def)+
      from other_step [OF assms(1) run(1) assms(3,4)] show ?thesis
        using other_pending [of "je_ex env" op "data_of w" "data_of w'"] other_sequence [of "je_ex env" op "data_of w" "data_of w'"] other
        by (auto simp: run(2) consecutive_def)
    qed
  qed
  then show "writable w'" "\<not> discards op \<Longrightarrow> ?fifo" "\<not> renumbers op \<Longrightarrow> ?seq"
    by blast+
qed

lemma report_step_poisoned:
  assumes "poison_of w = Some e" "report_step env op w = (es, r, w')"
  shows "w' = w"
proof -
  note refused = poisoned_refuses [OF assms(1), of env op]
  show ?thesis
    using assms(2) refused
    by (cases op) (auto simp: report_step_def bindP_def returnP_def split: prod.splits outcome.splits)
qed

lemma report_session_poisoned:
  "report_session env ops w = Some (es, w') \<Longrightarrow> poison_of w' = None \<Longrightarrow> poison_of w = None"
proof (induction ops arbitrary: w es)
  case (Cons op ops)
  obtain fs r v where "report_step env op w = (fs, r, v)"
    by (metis prod_cases3)
  with Cons report_step_poisoned [of w _ env op fs r v] show ?case
    by (cases r; cases "poison_of w") auto
qed simp

lemma report_session_Cons:
  assumes "report_session env (op # ops) w = Some (events, w')" "poison_of w' = None"
  obtains es r v fs where "report_step env op w = (es, r, v)" "r \<noteq> Crash" "poison_of v = None"
    "report_session env ops v = Some (fs, w')" "events = es @ fs"
proof -
  obtain es r v where step: "report_step env op w = (es, r, v)"
    by (metis prod_cases3)
  then obtain fs where "r \<noteq> Crash" "report_session env ops v = Some (fs, w')" "events = es @ fs"
    using assms(1) by (cases r) auto
  with step that report_session_poisoned assms(2) show thesis
    by blast
qed

text \<open>A small session: two reports are queued, the wrong one is acknowledged, then the right one.\<close>

definition sample_ops :: "journal_op list" where
  "sample_ops =
    [OpQueue ''job-1'' ''agent-1'' ''token'' 1 ''downloading'' [] [] 10 [] [] None,
     OpQueue ''job-1'' ''agent-1'' ''token'' 1 ''staging'' [] [] 20 [] [] None, OpAck ''job-1'' 4, OpAck ''job-1'' 3]"

lemma sample_session:
  "\<exists>a b w'. report_session sample_env sample_ops (sample_journal_world sample_data []) =
     Some ([Queued ''job-1'' a, Queued ''job-1'' b, Acked ''job-1'' 3], w') \<and>
     jr_Sequence a = 3 \<and> jr_Status a = ''downloading'' \<and> jr_Sequence b = 4 \<and> jr_Status b = ''staging'' \<and>
     poison_of w' = None"
  by (simp add: sample_ops_def report_step_def queue_def Ack_def queue_result_def append_report_def
      checkMutableLocked_def fresh_journal_def updateP_def saveLocked_def saveDataLocked_def
      encode_data_def sample_env_def set_tokens_def
      syscallP_def prog_defs thenP_def mapErrP_def modifyP_def resultP_def set_data_def sample_journal_world_def)

text \<open>
  C10: Reports are acknowledged in the order they were queued. Take any operations, run one after the
  other from a journal that may be written and has no fence, none of which drops the reports of a
  job or hands a recovered lease over; calls may fail, but the process goes on and the journal is
  not poisoned at the end. Then the reports \<open>Pending\<close> returned at the start and the ones \<open>queue\<close>
  has returned since are, in this order, some reports whose job and sequence number are exactly
  those of the acknowledgements that succeeded, one after the other, and the reports \<open>Pending\<close>
  returns at the end: none is lost, repeated or overtaken. Lease tokens, which only the memory
  holds, are not compared.
\<close>

theorem reports_in_order:
  assumes "poison_of w = None" "jw_marker w = NoFile" "tmp_safe w" "list_all (\<lambda>op. \<not> discards op) ops"
    and "report_session env ops w = Some (events, w')" "poison_of w' = None"
  shows "\<exists>delivered. reports_of w @ map untoken (queued events) = delivered @ reports_of w' \<and>
    acked events = map report_key delivered"
proof -
  have "writable w"
    using assms(1-3) by (simp add: writable_def)
  then show ?thesis
    unfolding reports_of_data using assms(4-6)
  proof (induction ops arbitrary: w events)
    case (Cons op ops)
    from Cons.prems(3,4) obtain es r v fs where step: "report_step env op w = (es, r, v)" "r \<noteq> Crash" "poison_of v = None"
        and rest: "report_session env ops v = Some (fs, w')" "events = es @ fs"
      by (rule report_session_Cons)
    note facts = report_step_facts [OF Cons.prems(1) step]
    obtain gone where gone: "map untoken (jd_Pending (data_of w)) @ map untoken (queued es) =
        gone @ map untoken (jd_Pending (data_of v))" "acked es = map report_key gone"
      using facts(2) Cons.prems(2) by auto
    obtain later where later: "map untoken (jd_Pending (data_of v)) @ map untoken (queued fs) =
        later @ map untoken (jd_Pending (data_of w'))" "acked fs = map report_key later"
      using Cons.IH [OF facts(1) _ rest(1) Cons.prems(4)] Cons.prems(2) by auto
    have "map untoken (jd_Pending (data_of w)) @ map untoken (queued events) =
        (gone @ later) @ map untoken (jd_Pending (data_of w'))"
      using gone(1) later(1) by (simp add: rest(2) flip: append_assoc) simp
    then show ?case
      using gone(2) later(2) rest(2) by (intro exI [of _ "gone @ later"]) simp
  qed simp
qed

theorem reports_in_order_witness:
  "\<exists>events w' delivered. report_session sample_env sample_ops (sample_journal_world sample_data []) = Some (events, w') \<and>
     map untoken (queued events) = delivered @ reports_of w' \<and> map report_key delivered = [(''job-1'', 3)] \<and>
     map (jr_Status \<circ> pe_Report) (reports_of w') = [''staging'']"
proof -
  let ?w = "sample_journal_world sample_data []"
  obtain a b w' where run: "report_session sample_env sample_ops ?w =
        Some ([Queued ''job-1'' a, Queued ''job-1'' b, Acked ''job-1'' 3], w')"
      and ab: "jr_Sequence a = 3" "jr_Sequence b = 4" "jr_Status b = ''staging''" and free: "poison_of w' = None"
    using sample_session by blast
  have "list_all (\<lambda>op. \<not> discards op) sample_ops" "jw_marker ?w = NoFile" "tmp_safe ?w" "poison_of ?w = None" "reports_of ?w = []"
    by (simp_all add: sample_ops_def discards_def sample_journal_world_def tmp_safe_def fresh_journal_def Pending_def
        sample_data_def fresh_data_def)
  with reports_in_order [OF _ _ _ _ run free] obtain delivered where delivered:
    "map untoken [\<lparr>pe_JobID = ''job-1'', pe_Report = a\<rparr>, \<lparr>pe_JobID = ''job-1'', pe_Report = b\<rparr>] = delivered @ reports_of w'"
    "[(''job-1'', 3)] = map report_key delivered"
    by auto
  then obtain p where "delivered = [p]"
    by (cases delivered) auto
  then have "reports_of w' = [untoken \<lparr>pe_JobID = ''job-1'', pe_Report = b\<rparr>]"
    using delivered(1) by simp
  then have "map (jr_Status \<circ> pe_Report) (reports_of w') = [''staging'']"
    using ab by (simp add: untoken_def)
  with run delivered show ?thesis
    by (intro exI [of _ "[Queued ''job-1'' a, Queued ''job-1'' b, Acked ''job-1'' 3]"] exI [of _ w'] exI [of _ delivered]) simp
qed

text \<open>
  C11: Sequence numbers. In such a session, as long as no operation sets the active job or adopts a
  recovered lease (these set \<open>NextSeq\<close> anew), the reports \<open>queue\<close> returns have consecutive
  sequence numbers from \<open>NextSeq\<close> on, in 64 bits and with wrap-around, so they are pairwise
  different for up to \<open>2 ^ 64\<close> reports, and \<open>NextSeq\<close> has moved on by their number.
\<close>

theorem report_sequences:
  assumes "poison_of w = None" "jw_marker w = NoFile" "tmp_safe w" "list_all (\<lambda>op. \<not> renumbers op) ops"
    and "report_session env ops w = Some (events, w')" "poison_of w' = None" "length (queued events) \<le> 2 ^ 64"
  shows "map (jr_Sequence \<circ> pe_Report) (queued events) = consecutive (jd_NextSeq (data_of w)) (length (queued events)) \<and>
    distinct (map (jr_Sequence \<circ> pe_Report) (queued events)) \<and>
    jd_NextSeq (data_of w') = jd_NextSeq (data_of w) + of_nat (length (queued events))"
proof -
  have "writable w"
    using assms(1-3) by (simp add: writable_def)
  then have "map (jr_Sequence \<circ> pe_Report) (queued events) = consecutive (jd_NextSeq (data_of w)) (length (queued events)) \<and>
    jd_NextSeq (data_of w') = jd_NextSeq (data_of w) + of_nat (length (queued events))"
    using assms(4-6)
  proof (induction ops arbitrary: w events)
    case (Cons op ops)
    from Cons.prems(3,4) obtain es r v fs where step: "report_step env op w = (es, r, v)" "r \<noteq> Crash" "poison_of v = None"
        and rest: "report_session env ops v = Some (fs, w')" "events = es @ fs"
      by (rule report_session_Cons)
    note facts = report_step_facts [OF Cons.prems(1) step]
    from facts(3) Cons.prems(2) Cons.IH [OF facts(1) _ rest(1) Cons.prems(4)] show ?case
      by (simp add: rest(2) comp_def consecutive_append add.assoc)
  qed (simp add: consecutive_def)
  with assms(7) show ?thesis
    by (simp add: distinct_consecutive)
qed

theorem report_sequences_witness:
  "\<exists>events w'. report_session sample_env sample_ops (sample_journal_world sample_data []) = Some (events, w') \<and>
     map (jr_Sequence \<circ> pe_Report) (queued events) = [3, 4] \<and> jd_NextSeq (data_of w') = 5"
proof -
  let ?w = "sample_journal_world sample_data []"
  obtain a b w' where run: "report_session sample_env sample_ops ?w =
        Some ([Queued ''job-1'' a, Queued ''job-1'' b, Acked ''job-1'' 3], w')" and free: "poison_of w' = None"
    using sample_session by blast
  have "list_all (\<lambda>op. \<not> renumbers op) sample_ops" "jw_marker ?w = NoFile" "tmp_safe ?w" "poison_of ?w = None"
    "jd_NextSeq (data_of ?w) = 3"
    by (simp_all add: sample_ops_def renumbers_def sample_journal_world_def tmp_safe_def fresh_journal_def
        sample_data_def fresh_data_def)
  with report_sequences [OF _ _ _ _ run free] run show ?thesis
    by (simp add: consecutive_def upt_conv_Cons)
qed

end
