(* ===== verification/Journal_Credentials.thy ===== *)
theory Journal_Credentials
  imports Journal_Reports
begin

text \<open>
  No credential reaches the disk: the lease and release tokens of jobs and reports stay in the
  memory of the process that received them, whatever operations run and however they fail.
\<close>

definition credential_free :: "journalData \<Rightarrow> bool" where
  "credential_free d \<longleftrightarrow>
     (case jd_ActiveJob d of None \<Rightarrow> True | Some j \<Rightarrow> uj_LeaseToken j = [] \<and> uj_ReleaseToken j = []) \<and>
     list_all (\<lambda>p. jr_LeaseToken (pe_Report p) = []) (jd_Pending d)"

definition clean_main :: "journalData content option \<Rightarrow> bool" where
  "clean_main c = (case c of Some (Decodes d) \<Rightarrow> credential_free d | Some (TrailingData d) \<Rightarrow> credential_free d | _ \<Rightarrow> True)"

definition clean_marker :: "journalActiveClearMarker disk_file \<Rightarrow> bool" where
  "clean_marker f = (case f of NoFile \<Rightarrow> True | DiskFile _ c \<Rightarrow>
     (case c of Decodes m \<Rightarrow> credential_free (cm_Previous m) | TrailingData m \<Rightarrow> credential_free (cm_Previous m)
      | Undecodable \<Rightarrow> True))"

text \<open>Neither the data in memory, which the next save writes, nor a file holds a credential.\<close>

definition no_credentials :: "journal_world \<Rightarrow> bool" where
  "no_credentials w \<longleftrightarrow> credential_free (data_of w) \<and> clean_main (jw_main w) \<and> clean_marker (jw_marker w)"

lemma credential_free_persist: "credential_free d \<Longrightarrow> credential_free (persist d)"
  by (simp add: credential_free_def persist_def persist_job_def split: option.splits)

lemma clean_written: "credential_free d \<Longrightarrow> clean_main (Some (written d))"
  by (simp add: clean_main_def written_def credential_free_persist)

lemma clean_written_marker: "credential_free (cm_Previous m) \<Longrightarrow> clean_marker (DiskFile i (written_marker m))"
  by (simp add: clean_marker_def written_marker_def credential_free_persist)

lemma credential_free_clear: "credential_free d \<Longrightarrow> credential_free (clear_active d)"
  by (simp add: credential_free_def)

text \<open>Every operation keeps the data free of credentials, whatever it is given.\<close>

lemma credential_free_queue_result:
  assumes "queue_result ex d jobID serviceID gen status result = Inr (d', r)" "credential_free d"
  shows "credential_free d'"
  using assms
  by (auto simp: queue_result_def record_port_result_def credential_free_def map_sum_def
      split: option.splits if_splits sum.splits prod.splits)

lemma handover_credential_free:
  "uj_LeaseToken job = [] \<and> uj_ReleaseToken job = [] \<Longrightarrow> handover d job = Some d' \<Longrightarrow> credential_free d'"
  by (auto simp: handover_def credential_free_def split: if_splits)

lemma op_data_credential_free:
  assumes "op_data ex op d = Some d'" "credential_free d"
  shows "credential_free d'"
proof (cases op)
  case (OpQueue jobID serviceID token gen status code message progress artifact previous result)
  then show ?thesis
    using assms by (auto simp: append_report_def split: sum.splits dest!: credential_free_queue_result)
      (auto simp: credential_free_def)
next
  case (OpSetActive job)
  then show ?thesis
    using assms by (auto simp: credential_free_def with_active_def Let_def split: option.splits sum.splits if_splits)
next
  case (OpAck jobID sequence)
  then show ?thesis
    using assms by (auto simp: credential_free_def split: list.splits if_splits)
next
  case (OpDropJobReports jobID)
  then show ?thesis
    using assms by (auto simp: credential_free_def list_all_iff)
next
  case (OpAdoptRecovered job)
  then have "uj_LeaseToken job = [] \<and> uj_ReleaseToken job = []" "handover d job = Some d'"
    using assms by (auto simp: adoption_refused_def split: option.splits if_splits)
  then show ?thesis
    by (rule handover_credential_free)
next
  case (OpSetTerminalRecovery rd job r p)
  then have "\<not> terminal_lease_invalid ex (time_UTC (rd_now rd)) job r p" "handover d job = Some d'"
    using assms by (auto simp: terminal_recovery_check_def split: if_splits)
  then show ?thesis
    by (intro handover_credential_free) (auto simp: terminal_lease_invalid_def split: option.splits)
next
  case (OpAdoptGenerationRead rd job r)
  then have "\<not> generation_read_refused ex d job r" "handover d job = Some d'"
    using assms by (auto simp: generation_read_check_def split: if_splits)
  then show ?thesis
    by (intro handover_credential_free) (auto simp: generation_read_refused_def split: option.splits)
next
  case OpClearActive
  then show ?thesis
    using assms by (auto simp: credential_free_clear split: if_splits)
qed (use assms in \<open>auto simp: credential_free_def split: option.splits if_splits sum.splits\<close>)

text \<open>Clearing the active job keeps the files clean: the fence checks what it stores.\<close>

lemma no_credentials_closed: "script_closed no_credentials"
  by (rule script_closedI) (simp add: no_credentials_def)

lemma no_credentials_set [simp]:
  "no_credentials w \<Longrightarrow> no_credentials (w\<lparr>jw_marker_tmp := t\<rparr>)"
  "no_credentials w \<Longrightarrow> no_credentials (w\<lparr>jw_marker := NoFile\<rparr>)"
  "no_credentials w \<Longrightarrow> credential_free d \<Longrightarrow> no_credentials (w\<lparr>jw_main := Some (written d)\<rparr>)"
  "no_credentials w \<Longrightarrow> credential_free d \<Longrightarrow> no_credentials (set_data d w)"
  "no_credentials w \<Longrightarrow> no_credentials (w\<lparr>jw_journal := (jw_journal w)\<lparr>jn_poisoned := p\<rparr>\<rparr>)"
  "no_credentials w \<Longrightarrow> credential_free (cm_Previous m) \<Longrightarrow>
     no_credentials (w\<lparr>jw_marker := DiskFile i (written_marker m), jw_marker_tmp := t\<rparr>)"
  "no_credentials w \<Longrightarrow> no_credentials (w\<lparr>script := fs\<rparr>)"
  by (simp_all add: no_credentials_def clean_written clean_written_marker) (simp add: clean_marker_def)

lemma keeps_modify: "(\<And>w. P w \<Longrightarrow> P (f w)) \<Longrightarrow> keeps P (modifyP f)"
  by (rule keepsI) (simp add: modifyP_def)

lemma keeps_content:
  "(\<And>x. keeps P (a x)) \<Longrightarrow> (\<And>x. keeps P (b x)) \<Longrightarrow> keeps P c \<Longrightarrow>
     keeps P (case r of Decodes x \<Rightarrow> a x | TrailingData x \<Rightarrow> b x | Undecodable \<Rightarrow> c)"
  "keeps P n \<Longrightarrow> (\<And>i c. keeps P (k i c)) \<Longrightarrow> keeps P (case g of NoFile \<Rightarrow> n | DiskFile i c \<Rightarrow> k i c)"
  "(\<And>x. keeps P (h x)) \<Longrightarrow> (\<And>x. keeps P (l x)) \<Longrightarrow> keeps P (case s of Inl x \<Rightarrow> h x | Inr x \<Rightarrow> l x)"
  by (simp_all split: content.split disk_file.split sum.split)

lemma keeps_lookup: "script_closed P \<Longrightarrow> keeps P (lookupP f)"
  unfolding lookupP_def by (intro keep keeps_observe) (auto dest: script_closedD)

lemmas keeps_clean = keep keeps_if keeps_content keeps_modify keeps_sys [OF no_credentials_closed]
  keeps_reading [OF load_marker_reads no_credentials_closed] keeps_lookup [OF no_credentials_closed]

lemma keeps_remove_temp_clean: "keeps no_credentials removeActiveClearMarkerTempLocked"
  unfolding removeActiveClearMarkerTempLocked_def by (intro keeps_clean keeps_effect) simp_all

lemma keeps_write_temp_clean: "keeps no_credentials (writeMarkerTemp n)"
  unfolding writeMarkerTemp_def by (intro keeps_clean keeps_effect keeps_observe) simp_all

lemma keeps_rename_clean: "credential_free (cm_Previous m) \<Longrightarrow> keeps no_credentials (renameMarker env m n)"
  unfolding renameMarker_def by (intro keeps_clean keeps_effect keeps_remove_temp_clean) simp_all

lemma keeps_install_clean: "keeps no_credentials (installActiveClearMarkerLocked env previous)"
proof (cases "credential_free previous \<and> jd_ActiveJob previous \<noteq> None")
  case True
  then show ?thesis
    unfolding installActiveClearMarkerLocked_def Let_def
    by (intro keeps_clean keeps_remove_temp_clean keeps_write_temp_clean keeps_rename_clean) simp
next
  case False
  then show ?thesis
    by (auto simp: installActiveClearMarkerLocked_def credential_free_def list_all_iff list_ex_iff split: option.splits)
qed

lemma keeps_save_clean: "credential_free d \<Longrightarrow> keeps no_credentials (saveDataLocked env d)"
  unfolding saveDataLocked_def by (intro keeps_clean keeps_effect) simp_all

lemma keeps_poison_clean: "keeps no_credentials (poisonLocked e)"
  unfolding poisonLocked_def by (intro keeps_clean) simp

lemma keeps_remove_clean: "keeps no_credentials removeActiveClearMarkerLocked"
  unfolding removeActiveClearMarkerLocked_def by (intro keeps_clean keeps_effect) simp_all

lemma keeps_clear_clean: "keeps no_credentials (ClearActive env)"
proof (rule keepsI)
  fix w assume w: "no_credentials w"
  then have "keeps no_credentials (tryP (installActiveClearMarkerLocked env (data_of w))
          (\<lambda>e. poisonLocked (WrapErr e ''install active journal clear fence''))
          (\<lambda>_. tryP (saveDataLocked env (clear_active (data_of w)))
             (\<lambda>e. poisonLocked (WrapErr e ''persist cleared active journal''))
             (\<lambda>_. thenP (modifyP (set_data (clear_active (data_of w))))
                (tryP removeActiveClearMarkerLocked
                   (\<lambda>e. poisonLocked (WrapErr e ''remove active journal clear fence'')) returnP))))"
    by (intro keeps_clean keeps_install_clean keeps_save_clean keeps_poison_clean keeps_remove_clean)
      (simp_all add: credential_free_clear no_credentials_def [of w])
  from keepsD [OF this w] w show "no_credentials (snd (ClearActive env w))"
    by (cases "poison_of w") (auto simp: ClearActive_def checkMutable_poisoned bindP_def getP_def returnP_def)
qed

section \<open>Starting\<close>

lemma load_none_unfenced:
  "spec (\<lambda>w. jw_main w = c) (loadActiveClearMarkerLocked env)
     (\<lambda>r w. jw_main w = c \<and> (r = None \<longrightarrow> jw_marker w = NoFile)) (\<lambda>_. True)"
proof -
  let ?P = "\<lambda>w. jw_main w = c"
  have sys: "spec ?P syscallP (\<lambda>_. ?P) (\<lambda>_. True)"
    unfolding syscallP_def by (rule spec_observe) simp_all
  have obs: "spec ?P (observeP jw_marker) (\<lambda>_. ?P) (\<lambda>_. True)"
    by (rule spec_observe) simp_all
  note steps = spec_fail spec_then [OF spec_mapErr [OF sys]] spec_if spec_check spec_return
    spec_then [where m = "checkP r" and R = ?P for r] spec_try [OF obs]
  show ?thesis
    unfolding loadActiveClearMarkerLocked_def
    apply (rule spec_lookup)
         apply simp_all [3]
    subgoal by (rule spec_pre [where P = ?P]) (auto split: disk_file.split content.split intro!: steps)
    subgoal by simp (rule spec_return, auto split: disk_file.splits)
    subgoal by (auto intro!: steps)
    done
qed

lemma reconcile_unfences:
  "spec (\<lambda>w. jw_main w = c) (reconcileActiveClearMarkerLocked env d mainExists)
     (\<lambda>_ w. jw_main w = c \<and> jw_marker w = NoFile) (\<lambda>_. True)"
proof -
  let ?P = "\<lambda>w. jw_main w = c" and ?T = "\<lambda>_::journal_world. True"
  have sys: "spec ?P syscallP (\<lambda>_. ?P) ?T"
    "spec (\<lambda>w. ?P w \<and> jw_marker w = NoFile) syscallP (\<lambda>_ w. ?P w \<and> jw_marker w = NoFile) ?T"
    unfolding syscallP_def by (rule spec_observe; simp)+
  have effects: "spec ?P (effectP (\<lambda>w. w\<lparr>jw_marker_tmp := None\<rparr>)) (\<lambda>_. ?P) ?T"
    "spec ?P (effectP (\<lambda>w. w\<lparr>jw_marker := NoFile\<rparr>)) (\<lambda>_ w. ?P w \<and> jw_marker w = NoFile) ?T"
    by (rule spec_effect; simp)+
  note steps = spec_fail spec_return spec_if
    spec_then [OF spec_mapErr [OF effects(1)]] spec_then [OF spec_mapErr [OF effects(2)]] spec_mapErr [OF sys(1)] spec_mapErr [OF sys(2)]
  have temp: "spec ?P removeActiveClearMarkerTempLocked (\<lambda>_. ?P) ?T"
    unfolding removeActiveClearMarkerTempLocked_def
    apply (rule spec_lookup)
         apply simp_all [3]
    subgoal by (rule spec_pre [where P = ?P]) (auto intro!: steps)
    subgoal by (auto intro!: steps)
    subgoal by (auto intro!: steps)
    done
  have remove: "spec ?P removeActiveClearMarkerLocked (\<lambda>_ w. ?P w \<and> jw_marker w = NoFile) ?T"
    unfolding removeActiveClearMarkerLocked_def
    apply (rule spec_lookup)
         apply simp_all [3]
    subgoal by (rule spec_pre [where P = ?P]) (auto intro!: steps)
    subgoal by (auto intro!: steps)
    subgoal by (auto intro!: steps)
    done
  show ?thesis
    unfolding reconcileActiveClearMarkerLocked_def
  proof (rule spec_then [OF temp], rule spec_bind [OF load_none_unfenced])
    fix marker
    show "spec (\<lambda>w. ?P w \<and> (marker = None \<longrightarrow> jw_marker w = NoFile)) (case marker of
        None \<Rightarrow> returnP ()
      | Some m \<Rightarrow>
          if \<not> mainExists then failP (NewErr ''active journal clear fence exists without the main journal'')
          else case journalDataSHA256 env d of
            Inl _ \<Rightarrow> failP (NewErr ''digest current journal during active clear recovery'')
          | Inr current \<Rightarrow>
              (case journalDataSHA256 env (reconcile_cleared (cm_Previous m)) of
                 Inl _ \<Rightarrow> failP (NewErr ''digest cleared journal during active clear recovery'')
               | Inr cleared \<Rightarrow>
                   if current \<noteq> cm_PreviousSHA256 m \<and> current \<noteq> cleared
                   then failP (NewErr ''active journal clear fence does not match the main journal'')
                   else removeActiveClearMarkerLocked)) (\<lambda>_ w. ?P w \<and> jw_marker w = NoFile) ?T"
    proof (cases marker)
      case None
      then show ?thesis
        by (simp add: spec_return)
    next
      case (Some m)
      then show ?thesis
        by (auto split: sum.split intro!: spec_fail spec_if remove)
    qed
  qed
qed

text \<open>Reports kept over a restart were checked to be free of credentials.\<close>

lemma pending_for_restart_clean:
  "pending_for_restart active n ps k \<Longrightarrow> list_all (\<lambda>p. jr_LeaseToken (pe_Report p) = []) ps"
  by (induction ps arbitrary: k) (auto simp: Let_def)

lemma restart_pending_clean:
  "validateJournalSoftwarePendingForRestart d = None \<Longrightarrow> list_all (\<lambda>p. jr_LeaseToken (pe_Report p) = []) (jd_Pending d)"
  by (auto simp: validateJournalSoftwarePendingForRestart_def intro: pending_for_restart_clean split: option.splits if_splits)

lemma scrub_clean:
  assumes "(if retains_pending d then validateJournalSoftwarePendingForRestart d else None) = None"
  shows "credential_free (scrub d)" and "\<not> scrubbed d \<Longrightarrow> credential_free d"
  using assms restart_pending_clean [of d]
  by (auto simp: credential_free_def scrub_def scrubbed_def split: option.splits if_splits)

lemma save_data_writes:
  "spec (\<lambda>w. jw_marker w = NoFile) (saveDataLocked env d)
     (\<lambda>_ w. jw_main w = Some (written d) \<and> jw_marker w = NoFile) (\<lambda>_. True)"
  unfolding spec_def
proof (intro allI impI)
  fix w :: journal_world assume w: "jw_marker w = NoFile"
  obtain r w' where run: "saveDataLocked env d w = (r, w')"
    by fastforce
  then have "saves w d (r, w')"
    using saveDataLocked_saves [of w d env] by simp
  then show "case saveDataLocked env d w of (Ok x, w') \<Rightarrow> jw_main w' = Some (written d) \<and> jw_marker w' = NoFile
      | (Err e, w') \<Rightarrow> True | (Crash, w') \<Rightarrow> True"
    by (cases rule: saves_cases) (auto simp: run w split: outcome.split)
qed

definition opened :: "Journal \<Rightarrow> journal_world \<Rightarrow> bool" where
  "opened j w \<longleftrightarrow> credential_free (jn_data j) \<and> jn_poisoned j = None \<and> clean_main (jw_main w) \<and> jw_marker w = NoFile"

lemma openData_clean:
  assumes "c = Some (Decodes d) \<or> c = Some (TrailingData d)"
  shows "spec (\<lambda>w. jw_main w = c) (openData env (loaded d)) opened (\<lambda>_. True)"
proof -
  let ?P = "\<lambda>w. jw_main w = c" and ?d = "loaded d"
  have loaded: "credential_free ?d \<Longrightarrow> credential_free d"
    by (simp add: credential_free_def loaded_def)
  have settle: "spec (\<lambda>w. ?P w \<and> jw_marker w = NoFile)
     (thenP (checkP (if retains_pending ?d then validateJournalSoftwarePendingForRestart ?d else None))
      (if scrubbed ?d
       then thenP (mapErrP (\<lambda>e. poisoned_by None (WrapErr e ''persist update journal mutation''))
              (saveDataLocked env (scrub ?d))) (returnP (fresh_journal (scrub ?d)))
       else returnP (fresh_journal ?d))) opened (\<lambda>_. True)" (is "spec ?M _ _ _")
  proof (cases "(if retains_pending ?d then validateJournalSoftwarePendingForRestart ?d else None) = None")
    case True
    note clean = scrub_clean [OF True]
    have "spec ?M (if scrubbed ?d
       then thenP (mapErrP (\<lambda>e. poisoned_by None (WrapErr e ''persist update journal mutation''))
              (saveDataLocked env (scrub ?d))) (returnP (fresh_journal (scrub ?d)))
       else returnP (fresh_journal ?d)) opened (\<lambda>_. True)"
    proof (rule spec_if)
      show "spec ?M (thenP (mapErrP (\<lambda>e. poisoned_by None (WrapErr e ''persist update journal mutation''))
              (saveDataLocked env (scrub ?d))) (returnP (fresh_journal (scrub ?d)))) opened (\<lambda>_. True)"
        by (rule spec_then [OF spec_mapErr [OF spec_pre [OF save_data_writes]]], simp, rule spec_return)
          (simp add: opened_def fresh_journal_def clean clean_written)
      assume "\<not> scrubbed ?d"
      then show "spec ?M (returnP (fresh_journal ?d)) opened (\<lambda>_. True)"
        using clean(2) loaded assms by (intro spec_return) (auto simp: opened_def fresh_journal_def clean_main_def)
    qed
    then show ?thesis
      by (rule spec_then [OF spec_check, rotated -1]) simp_all
  next
    case False
    then show ?thesis
      by (intro spec_then [where R = "\<lambda>_. False"] spec_check) (simp_all add: spec_def)
  qed
  show ?thesis
    unfolding openData_def
    by (rule spec_then [where R = ?P, OF spec_check]) (simp, simp, rule spec_then [OF reconcile_unfences settle])
qed

lemma OpenJournal_clean: "spec (\<lambda>_. True) (OpenJournal env) opened (\<lambda>_. True)"
  unfolding OpenJournal_def
proof (rule spec_then)
  let ?T = "\<lambda>_::journal_world. True"
  show "spec ?T syscallP (\<lambda>_. ?T) ?T"
    unfolding syscallP_def by (rule spec_observe) simp_all
  have sys: "spec (\<lambda>w. jw_main w = c) syscallP (\<lambda>_ w. jw_main w = c) ?T" for c
    unfolding syscallP_def by (rule spec_observe) simp_all
  show "spec ?T (tryP (lookupP jw_main)
        (\<lambda>err. if errors_Is err NotExist
           then thenP (reconcileActiveClearMarkerLocked env fresh_data False) (returnP (fresh_journal fresh_data))
           else failP err)
        (\<lambda>content. thenP (mapErrP (\<lambda>e. WrapErr e ''decode update journal'') syscallP)
          (case content of
             Undecodable \<Rightarrow> failP (WrapErr OSFailure ''decode update journal'')
           | Decodes d \<Rightarrow> thenP (mapErrP (\<lambda>e. WrapErr e ''close update journal'') syscallP) (openData env (loaded d))
           | TrailingData d \<Rightarrow>
               thenP (mapErrP (\<lambda>e. WrapErr e ''close update journal'') syscallP) (openData env (loaded d))))) opened ?T"
    apply (rule spec_lookup)
         apply simp_all [3]
    subgoal for content
      by (cases content) (auto intro!: spec_then [OF spec_mapErr [OF sys]] spec_fail openData_clean)
    subgoal
      by simp (rule spec_then [OF reconcile_unfences], rule spec_return,
        simp add: opened_def fresh_journal_def clean_main_def credential_free_def, simp add: fresh_data_def)
    subgoal
      by (auto intro!: spec_fail)
    done
qed

section \<open>A run of the agent\<close>

text \<open>Operations until the process stops.\<close>

primrec run_ops :: "journal_env \<Rightarrow> journal_op list \<Rightarrow> journal_world \<Rightarrow> journal_world" where
  "run_ops env [] w = w"
| "run_ops env (op # ops) w = (case run_op env op w of (Crash, w') \<Rightarrow> w' | (_, w') \<Rightarrow> run_ops env ops w')"

definition disk_clean :: "journal_world \<Rightarrow> bool" where
  "disk_clean w \<longleftrightarrow> clean_main (jw_main w) \<and> clean_marker (jw_marker w)"

lemma run_op_clean:
  assumes "poison_of w = None \<longrightarrow> credential_free (data_of w)" "disk_clean w" "run_op env op w = (r, w')"
  shows "disk_clean w' \<and> (r \<noteq> Crash \<longrightarrow> poison_of w' = None \<longrightarrow> credential_free (data_of w'))"
proof (cases "poison_of w")
  case (Some e)
  then show ?thesis
    using poisoned_refuses [OF Some] assms by auto
next
  case None
  then have clean: "no_credentials w"
    using assms by (simp add: no_credentials_def disk_clean_def)
  show ?thesis
  proof (cases "op = OpClearActive")
    case True
    then have "no_credentials w'"
      using keepsD [OF keeps_clear_clean clean, of env] assms(3) by simp
    then show ?thesis
      by (simp add: no_credentials_def disk_clean_def)
  next
    case False
    have "refines w (op_data (je_ex env) op (data_of w)) (r, w')"
      using op_refines [OF None False, of env] assms(3) by simp
    then show ?thesis
      using clean op_data_credential_free [of "je_ex env" op "data_of w"] clean_written
      by (cases "op_data (je_ex env) op (data_of w)")
        (auto simp: commits_def no_credentials_def disk_clean_def split: outcome.splits)
  qed
qed

text \<open>
  C8: No credential is ever stored. Whatever the journal held before, once it has been opened, and
  after any operations with any failures up to the point where the process stops, no lease or
  release token of a job or a report is in the journal file or in the fence.
\<close>

theorem credentials_stay_in_memory:
  assumes "startP env w = (Ok (), w0)"
  shows "disk_clean (run_ops env ops w0)"
proof -
  obtain j w1 where "OpenJournal env w = (Ok j, w1)" "w0 = w1\<lparr>jw_journal := j\<rparr>"
    using assms by (auto simp: startP_def bindP_def modifyP_def split: prod.splits outcome.splits)
  then have "credential_free (data_of w0)" "disk_clean w0"
    using specD_Ok [OF OpenJournal_clean TrueI] by (auto simp: opened_def disk_clean_def clean_marker_def)
  then have "poison_of w0 = None \<longrightarrow> credential_free (data_of w0)" "disk_clean w0"
    by simp_all
  then show ?thesis
  proof (induction ops arbitrary: w0)
    case (Cons op ops)
    obtain r w' where "run_op env op w0 = (r, w')"
      by fastforce
    with run_op_clean [OF Cons.prems this] Cons.IH [of w'] show ?case
      by (cases r) auto
  qed simp
qed

definition sample_leaky :: journalData where
  "sample_leaky = sample_data\<lparr>jd_ActiveJob := Some (sample_job\<lparr>uj_LeaseToken := ''secret''\<rparr>)\<rparr>"

lemma sample_leaky_starts: "\<exists>w0. startP sample_env (sample_journal_world sample_leaky []) = (Ok (), w0)"
proof -
  let ?job = "sample_job\<lparr>uj_LeaseToken := ''secret''\<rparr>"
  have "EffectiveOperation ?job = updateJobOperationSoftwareUpdate"
    by (simp add: EffectiveOperation_def sample_job_def)
  then have "validateOperationUnion ex ?job = None" "validateJournalSoftwareJob ?job = None" "port_results_check ex ?job = None" for ex
    by (simp_all add: validateOperationUnion_def validateJournalSoftwareJob_def port_results_check_def isV2SoftwareJob_def)
      (simp_all add: sample_job_def)
  then have "validateJournalData ex sample_leaky = None" for ex
    by (simp add: sample_leaky_def validateJournalData_def active_job_check_def plans_check_def stage_failure_check_def
        sample_data_def fresh_data_def)
  then have "reopens sample_env sample_leaky"
    by (simp add: reopens_def retains_pending_def sample_leaky_def encode_data_def sample_env_def sample_data_def fresh_data_def)
  moreover have "calm_world (sample_journal_world d []) = sample_journal_world d []" for d
    by (simp add: calm_world_def sample_journal_world_def)
  ultimately show ?thesis
    using open_unfenced [of sample_leaky "sample_journal_world sample_leaky []" sample_env] sample_world_simps(7) [of sample_leaky "[]"]
    by (auto simp: startP_def bindP_def modifyP_def)
qed

theorem credentials_stay_in_memory_witness:
  "\<exists>w0. startP sample_env (sample_journal_world sample_leaky []) = (Ok (), w0) \<and>
     disk_clean (run_ops sample_env [OpSetActive (Some (sample_job\<lparr>uj_LeaseToken := ''secret''\<rparr>)), OpClearActive] w0)"
  using sample_leaky_starts credentials_stay_in_memory by blast

end
