(* ===== verification/Port_Execution.thy ===== *)
theory Port_Execution
  imports Journal
begin

text \<open>
  How the host agent prepares a port change (\<open>host_pull_port_execution.go\<close>): the plan for the
  Local Executor is built from the claimed job and the policy, and a recovered job gets back the
  plan that was saved, bound to its fresh lease. The executor itself and the reports around these
  steps are not part of it.
\<close>

text \<open>\<open>reflect.DeepEqual\<close> on two plans compares what their pointers point to.\<close>

definition sameSystemdPortIntent :: "SystemdPortReconfigurePlan \<Rightarrow> SystemdPortReconfigurePlan \<Rightarrow> bool" where
  "sameSystemdPortIntent left right =
     (let l = left\<lparr>pp_LeaseGeneration := 0, pp_PortPlanSHA256 := []\<rparr>;
          r = right\<lparr>pp_LeaseGeneration := 0, pp_PortPlanSHA256 := []\<rparr> in
      if pp_PortContractVersion left = 2 \<and> pp_PortContractVersion right = 2
      then l\<lparr>pp_SessionID := []\<rparr> = r\<lparr>pp_SessionID := []\<rparr>
      else l = r)"

definition port_plan_of :: "UpdateJob \<Rightarrow> SystemdPortMutationGrantBinding \<Rightarrow> string \<Rightarrow> SystemdPortReconfigurePlan" where
  "port_plan_of job port sessionID =
     \<lparr>pp_PortContractVersion = pb_PortContractVersion port, pp_Mode = pb_Mode port, pp_Before = pb_Before port,
      pp_Target = pb_Target port, pp_Rollback = pb_Rollback port, pp_DockerBaseline = pb_DockerBaseline port,
      pp_PortIntentSHA256 = (if isPortContractV2 job then pb_PortPlanSHA256 port else []),
      pp_DeploymentMode = uj_DeploymentMode job, pp_JobID = uj_ID job, pp_HostID = uj_HostID job,
      pp_TargetID = uj_TargetID job, pp_ServiceType = EffectiveType job,
      pp_NetworkNamespace = pb_NetworkNamespace port, pp_Protocol = pb_Protocol port,
      pp_OldPort = pb_OldPort port, pp_NewPort = pb_NewPort port,
      pp_ExpectedEndpointRevision = pb_ExpectedEndpointRevision port,
      pp_TargetEndpointRevision = pb_TargetEndpointRevision port,
      pp_ExpectedConfigRevision = pb_ExpectedConfigRevision port,
      pp_TargetConfigRevision = pb_TargetConfigRevision port,
      pp_ExpectedConfigSHA256 = pb_ExpectedConfigSHA256 port,
      pp_TargetConfigSHA256 = pb_TargetConfigSHA256 port,
      pp_ExpectedSourcePolicyRevision = pb_ExpectedSourcePolicyRevision port,
      pp_ExpectedUpdaterPolicyRevision = pb_ExpectedUpdaterPolicyRevision port,
      pp_ExpectedExecutorPolicyRevision = pb_ExpectedExecutorPolicyRevision port,
      pp_ExpectedExecutorPolicySHA256 = pb_ExpectedExecutorPolicySHA256 port,
      pp_OwnershipEpoch = uj_OwnershipEpoch job, pp_LeaseGeneration = uj_LeaseGeneration job,
      pp_SessionID = sessionID, pp_PortPlanSHA256 = [], pp_Docker = pb_Docker port\<rparr>"

definition port_fence_stale :: "externals \<Rightarrow> HostAgentPolicy \<Rightarrow> UpdateJob \<Rightarrow> SystemdPortReconfigurePlan \<Rightarrow> go_error option" where
  "port_fence_stale ex policy job plan =
     (if isPortContractV2 job
      then (case hostPullPolicyTarget policy (uj_TargetID job) of
              None \<Rightarrow> errNew ''port v2 job policy fence is stale''
            | Some target \<Rightarrow>
                if \<not> portClaimPolicyMatches ex job policy target
                then errNew ''port v2 job policy fence is stale'' else None)
      else if pp_ExpectedSourcePolicyRevision plan \<noteq> hp_SourcePolicyRevision policy \<or>
         pp_ExpectedUpdaterPolicyRevision plan \<noteq> hp_Revision policy \<or>
         pp_ExpectedExecutorPolicyRevision plan \<noteq> hp_LocalExecutorPolicyRevision policy \<or>
         pp_ExpectedExecutorPolicySHA256 plan \<noteq> hp_LocalExecutorPolicySHA256 policy
      then errNew ''port job policy fence is stale'' else None)"

definition portExecutionPlanFromJob ::
  "externals \<Rightarrow> HostAgentPolicy \<Rightarrow> UpdateJob \<Rightarrow> string \<Rightarrow> SystemdPortReconfigurePlan result" where
  "portExecutionPlanFromJob ex policy job sessionID =
     (case uj_PortReconfigure job of
        None \<Rightarrow> Inl (NewErr ''port job contract is unavailable'')
      | Some port \<Rightarrow>
          let plan = port_plan_of job port sessionID in
          case port_fence_stale ex policy job plan of
            Some err \<Rightarrow> Inl err
          | None \<Rightarrow>
              (case ComputePortPlanSHA256 ex plan of
                 Inl err \<Rightarrow> Inl err
               | Inr runtimeHash \<Rightarrow>
                   let bound = plan\<lparr>pp_PortPlanSHA256 := runtimeHash\<rparr> in
                   case SystemdPortReconfigurePlan_Validate ex bound of Some err \<Rightarrow> Inl err | None \<Rightarrow> Inr bound))"

text \<open>\<open>session\<close> is what \<open>NewSessionID\<close> returns.\<close>

definition preparePortExecutionPlan ::
  "externals \<Rightarrow> string result \<Rightarrow> HostAgentPolicy \<Rightarrow> UpdateJob \<Rightarrow> SystemdPortReconfigurePlan result" where
  "preparePortExecutionPlan ex session policy job =
     (case session of Inl err \<Rightarrow> Inl err | Inr sessionID \<Rightarrow> portExecutionPlanFromJob ex policy job sessionID)"

text \<open>Saving a plan and, under the versioned contract, its policy.\<close>

definition save_port_plan :: "journal_env \<Rightarrow> HostAgentPolicy \<Rightarrow> UpdateJob \<Rightarrow> SystemdPortReconfigurePlan \<Rightarrow>
    SystemdPortReconfigurePlan journal_prog" where
  "save_port_plan env policy job plan =
     thenP (SetActivePortPlan env plan)
     (thenP (if isPortContractV2 job then StagePortPolicy env policy job plan else returnP ()) (returnP plan))"

definition recoverPortExecutionPlan :: "journal_env \<Rightarrow> string result \<Rightarrow> HostAgentPolicy \<Rightarrow> UpdateJob \<Rightarrow>
    SystemdPortReconfigurePlan journal_prog" where
  "recoverPortExecutionPlan env session policy job =
     bindP (getP (\<lambda>w. jd_ActivePortPlan (data_of w))) (\<lambda>saved. case saved of
       None \<Rightarrow>
         (case preparePortExecutionPlan (je_ex env) session policy job of
            Inl _ \<Rightarrow> failP (NewErr ''durable port recovery plan is unavailable'')
          | Inr fresh \<Rightarrow> save_port_plan env policy job fresh)
     | Some stored \<Rightarrow>
         if SystemdPortReconfigurePlan_Validate (je_ex env) stored \<noteq> None
         then failP (NewErr ''durable port recovery plan is unavailable'')
         else case portExecutionPlanFromJob (je_ex env) policy job (pp_SessionID stored) of
           Inl _ \<Rightarrow> failP (NewErr ''durable port recovery plan does not match the recovered job'')
         | Inr rebound \<Rightarrow>
             if \<not> sameSystemdPortIntent stored rebound
             then failP (NewErr ''durable port recovery plan does not match the recovered job'')
             else save_port_plan env policy job rebound)"

end
