(* ===== verification/Journal_Validity.thy ===== *)
theory Journal_Validity
  imports Journal_Credentials Port_Execution
begin

text \<open>
  The type of the journal: every operation, called the way the agent calls it, turns data that
  \<open>validateJournalData\<close> accepts into data it accepts, so that the next start can read them.
\<close>

definition port_policy_check :: "externals \<Rightarrow> journalData \<Rightarrow> go_error option" where
  "port_policy_check ex d = (case jd_ActivePortPolicy d of None \<Rightarrow> None
     | Some policy \<Rightarrow> portAgentPolicyState_validate ex policy (jd_ActiveJob d) (jd_ActivePortPlan d))"

lemma validateJournalData_parts:
  "validateJournalData ex d = None \<longleftrightarrow>
     active_job_check ex d = None \<and> plans_check ex d = None \<and> stage_failure_check d = None \<and> port_policy_check ex d = None"
  by (simp add: validateJournalData_def port_policy_check_def split: option.splits)

section \<open>Jobs that stand for the same work\<close>

text \<open>The fields of a job the checks of its plans and policies read.\<close>

definition same_work :: "UpdateJob \<Rightarrow> UpdateJob \<Rightarrow> bool" where
  "same_work a b \<longleftrightarrow> uj_ProtocolVersion a = uj_ProtocolVersion b \<and> uj_ID a = uj_ID b \<and> uj_Operation a = uj_Operation b \<and>
     uj_AgentServiceID a = uj_AgentServiceID b \<and> uj_HostID a = uj_HostID b \<and> uj_OwnershipEpoch a = uj_OwnershipEpoch b \<and>
     uj_PolicyRevision a = uj_PolicyRevision b \<and> uj_TargetID a = uj_TargetID b \<and> uj_TargetType a = uj_TargetType b \<and>
     uj_ServiceType a = uj_ServiceType b \<and> uj_DeploymentMode a = uj_DeploymentMode b \<and>
     uj_PortReconfigure a = uj_PortReconfigure b"

lemma same_work_effective:
  "same_work a b \<Longrightarrow> EffectiveOperation a = EffectiveOperation b" "same_work a b \<Longrightarrow> EffectiveType a = EffectiveType b"
  "same_work a b \<Longrightarrow> isPortContractV2 a = isPortContractV2 b"
  by (simp_all add: same_work_def EffectiveOperation_def EffectiveType_def isPortContractV2_def)

lemma same_work_policy:
  assumes "same_work a b"
  shows "portAgentPolicyState_validate ex s (Some a) plan = portAgentPolicyState_validate ex s (Some b) plan"
proof -
  have "candidate_invalid ex a = candidate_invalid ex b" "policy_identity_invalid ex s a = policy_identity_invalid ex s b"
    using assms same_work_effective [OF assms]
    by (auto simp: fun_eq_iff candidate_invalid_def policy_identity_invalid_def same_work_def)
  moreover have "uj_PortReconfigure a = uj_PortReconfigure b"
    using assms by (simp add: same_work_def)
  ultimately have eqs: "candidate_invalid ex a = candidate_invalid ex b" "policy_identity_invalid ex s a = policy_identity_invalid ex s b"
    "uj_PortReconfigure a = uj_PortReconfigure b"
    by simp_all
  show ?thesis
    unfolding portAgentPolicyState_validate_def option.case prod.case eqs ..
qed

lemma recovered_port_work:
  assumes "sameRecoveredJobIntent ex a b" "isPortContractV2 b"
  shows "same_work a b"
proof -
  have "EffectiveOperation b = updateJobOperationPortReconfigure" "uj_Operation a = uj_Operation b"
    using assms by (simp_all add: isPortContractV2_def sameRecoveredJobIntent_def split: if_splits)
  then have "EffectiveOperation a \<noteq> updateJobOperationSoftwareUpdate"
    by (simp add: EffectiveOperation_def Let_def split: if_splits)
  with assms show ?thesis
    by (auto simp: same_work_def sameRecoveredJobIntent_def samePortMutationGrantBinding_def isPortContractV2_def
        split: if_splits option.splits)
qed

lemma recovered_contract:
  assumes "sameRecoveredJobIntent ex a b" "isPortContractV2 a"
  shows "isPortContractV2 b"
proof -
  have "EffectiveOperation a = updateJobOperationPortReconfigure" "uj_Operation a = uj_Operation b"
      "uj_ProtocolVersion b = 2"
    using assms by (auto simp: isPortContractV2_def sameRecoveredJobIntent_def split: if_splits)
  moreover from this have "EffectiveOperation b = updateJobOperationPortReconfigure"
    by (simp add: EffectiveOperation_def)
  ultimately show ?thesis
    using assms by (auto simp: sameRecoveredJobIntent_def samePortMutationGrantBinding_def isPortContractV2_def
        split: if_splits option.splits)
qed

text \<open>Jobs that differ in nothing but tokens, results and the recovery flag.\<close>

definition same_job :: "UpdateJob \<Rightarrow> UpdateJob \<Rightarrow> bool" where
  "same_job a b \<longleftrightarrow> same_work a b \<and> uj_SoftwareUpdate a = uj_SoftwareUpdate b \<and>
     uj_SoftwareClaimRejected a = uj_SoftwareClaimRejected b \<and> uj_CurrentVersion a = uj_CurrentVersion b \<and>
     uj_TargetVersion a = uj_TargetVersion b \<and> uj_Version a = uj_Version b \<and> uj_LeaseGeneration a = uj_LeaseGeneration b"

lemma same_job_checks:
  assumes "same_job a b"
  shows "validateOperationUnion ex a = validateOperationUnion ex b" "validateJournalSoftwareJob a = validateJournalSoftwareJob b"
    "validateJournalSoftwarePlan a plan c = validateJournalSoftwarePlan b plan c" "uj_ID a = uj_ID b"
    "EffectiveOperation a = EffectiveOperation b" "isPortContractV2 a = isPortContractV2 b"
    "portAgentPolicyState_validate ex s (Some a) pplan = portAgentPolicyState_validate ex s (Some b) pplan"
proof -
  have work: "same_work a b"
    using assms by (simp add: same_job_def)
  have eqs: "EffectiveOperation a = EffectiveOperation b" "EffectiveType a = EffectiveType b" "EffectiveVersion a = EffectiveVersion b"
    "isPortContractV2 a = isPortContractV2 b" "isV2SoftwareJob a = isV2SoftwareJob b"
    "uj_SoftwareUpdate a = uj_SoftwareUpdate b" "uj_SoftwareClaimRejected a = uj_SoftwareClaimRejected b"
    "uj_PortReconfigure a = uj_PortReconfigure b" "uj_Operation a = uj_Operation b" "uj_DeploymentMode a = uj_DeploymentMode b"
    "uj_ProtocolVersion a = uj_ProtocolVersion b" "uj_PolicyRevision a = uj_PolicyRevision b" "uj_ID a = uj_ID b"
    "uj_HostID a = uj_HostID b" "uj_TargetID a = uj_TargetID b" "uj_CurrentVersion a = uj_CurrentVersion b"
    "uj_LeaseGeneration a = uj_LeaseGeneration b"
    using assms same_work_effective [OF work]
    by (simp_all add: same_job_def same_work_def EffectiveVersion_def isV2SoftwareJob_def)
  show "validateOperationUnion ex a = validateOperationUnion ex b"
    unfolding validateOperationUnion_def eqs ..
  show "validateJournalSoftwareJob a = validateJournalSoftwareJob b"
    unfolding validateJournalSoftwareJob_def eqs ..
  show "validateJournalSoftwarePlan a plan c = validateJournalSoftwarePlan b plan c"
    unfolding validateJournalSoftwarePlan_def eqs ..
  show "portAgentPolicyState_validate ex s (Some a) pplan = portAgentPolicyState_validate ex s (Some b) pplan"
    by (rule same_work_policy [OF work])
  show "uj_ID a = uj_ID b" "EffectiveOperation a = EffectiveOperation b" "isPortContractV2 a = isPortContractV2 b"
    by (rule eqs)+
qed

lemma same_job_plans:
  assumes "same_job a b" "jd_ActiveJob d = Some b"
  shows "plans_check ex (d\<lparr>jd_ActiveJob := Some a\<rparr>) = plans_check ex d"
    "stage_failure_check (d\<lparr>jd_ActiveJob := Some a\<rparr>) = stage_failure_check d"
    "port_policy_check ex (d\<lparr>jd_ActiveJob := Some a\<rparr>) = port_policy_check ex d"
proof -
  note eqs = same_job_checks [OF assms(1)]
  have parts: "jd_ActiveJob (d\<lparr>jd_ActiveJob := Some a\<rparr>) = Some a" "jd_ActivePlan (d\<lparr>jd_ActiveJob := Some a\<rparr>) = jd_ActivePlan d"
    "jd_ActivePortPlan (d\<lparr>jd_ActiveJob := Some a\<rparr>) = jd_ActivePortPlan d"
    "jd_ActiveStageFailure (d\<lparr>jd_ActiveJob := Some a\<rparr>) = jd_ActiveStageFailure d"
    "jd_ActivePortPolicy (d\<lparr>jd_ActiveJob := Some a\<rparr>) = jd_ActivePortPolicy d"
    by simp_all
  show "plans_check ex (d\<lparr>jd_ActiveJob := Some a\<rparr>) = plans_check ex d"
    unfolding plans_check_def plan_binding_invalid_def parts assms(2) option.case option.sel eqs ..
  show "stage_failure_check (d\<lparr>jd_ActiveJob := Some a\<rparr>) = stage_failure_check d"
    unfolding stage_failure_check_def parts assms(2) option.map eqs ..
  show "port_policy_check ex (d\<lparr>jd_ActiveJob := Some a\<rparr>) = port_policy_check ex d"
    unfolding port_policy_check_def parts assms(2) eqs ..
qed

section \<open>How the agent calls the journal\<close>

text \<open>
  What the callers ensure. \<open>SetActive\<close> gets a job whose port results, if it carries any, belong to
  it (only the journal ever adds some to a job), and while a port policy is staged the job
  passed the check of the claim loop that it recovers the active one (\<open>host_pull_execution.go\<close>).
  \<open>SetActivePortPlan\<close> replaces a saved plan only by one of the same intent while a policy is
  staged: \<open>recoverPortExecutionPlan\<close> compares them first. A policy is staged for the plan saved
  just before, with the job of the panel, which is the active one up to tokens, results and the
  recovery flag.
\<close>

definition well_called :: "externals \<Rightarrow> journalData \<Rightarrow> journal_op \<Rightarrow> bool" where
  "well_called ex d op = (case op of
     OpSetActive (Some job) \<Rightarrow> port_results_check ex job = None \<and>
       (jd_ActivePortPolicy d = None \<or> (\<exists>active. jd_ActiveJob d = Some active \<and> sameRecoveredJobIntent ex active job))
   | OpSetActivePortPlan plan \<Rightarrow> jd_ActivePortPolicy d = None \<or>
       (\<exists>stored. jd_ActivePortPlan d = Some stored \<and> sameSystemdPortIntent stored plan)
   | OpStagePortPolicy _ job plan \<Rightarrow> jd_ActivePortPlan d = Some plan \<and>
       (\<exists>active. jd_ActiveJob d = Some active \<and> same_work active job)
   | _ \<Rightarrow> True)"

section \<open>Replacing the active job\<close>

lemma plans_check_replace:
  assumes "plans_check ex d = None" "jd_ActiveJob d = Some b" "uj_ID a = uj_ID b" "EffectiveOperation a = EffectiveOperation b"
    and "\<And>plan. jd_ActivePlan d = Some plan \<Longrightarrow> validateJournalSoftwarePlan a plan False = None"
  shows "plans_check ex (d\<lparr>jd_ActiveJob := Some a, jd_NextSeq := n\<rparr>) = None"
proof -
  have "plan_binding_invalid ex (d\<lparr>jd_ActiveJob := Some a, jd_NextSeq := n\<rparr>) = plan_binding_invalid ex d"
    by (simp add: plan_binding_invalid_def assms(2-4) split: option.split)
  with assms(1,5) show ?thesis
    by (auto simp: plans_check_def split: option.splits if_splits)
qed

lemma same_job_trans: "same_job a b \<Longrightarrow> same_job b c \<Longrightarrow> same_job a c"
  by (simp add: same_job_def same_work_def)

lemma same_job_results:
  "same_job (j\<lparr>uj_PortResult := r\<rparr>) j" "same_job (j\<lparr>uj_LastRecoveryObservation := ob\<rparr>) j"
  "same_job (j\<lparr>uj_RecoveryRequired := b\<rparr>) j" "same_job (j\<lparr>uj_LeaseToken := t, uj_ReleaseToken := u\<rparr>) j" "same_job j j"
  by (simp_all add: same_job_def same_work_def)

definition keep_observation :: "UpdateJob \<Rightarrow> UpdateJob \<Rightarrow> UpdateJob" where
  "keep_observation active j = (if uj_LastRecoveryObservation j = None
     then j\<lparr>uj_LastRecoveryObservation := uj_LastRecoveryObservation active\<rparr> else j)"

lemma keep_observation_simps:
  "same_job (keep_observation active j) j" "uj_PortResult (keep_observation active j) = uj_PortResult j"
  "uj_LastRecoveryObservation (keep_observation active j) = uj_LastRecoveryObservation active \<or>
   uj_LastRecoveryObservation (keep_observation active j) = uj_LastRecoveryObservation j"
  by (simp_all add: keep_observation_def same_job_results)

lemma retained_shape:
  assumes "retained_port_results ex d job = Inr copy" "jd_ActiveJob d = Some active" "uj_ID active = uj_ID job"
    and "isPortContractV2 job" "sameRecoveredJobIntent ex active job"
  shows "same_job copy job"
    and "uj_PortResult copy = uj_PortResult active \<or> uj_PortResult copy = uj_PortResult job"
    and "uj_LastRecoveryObservation copy = uj_LastRecoveryObservation active \<or>
      uj_LastRecoveryObservation copy = uj_LastRecoveryObservation job"
proof -
  have "copy = keep_observation active job \<or>
      (\<exists>saved. uj_PortResult active = Some saved \<and> copy = keep_observation active (job\<lparr>uj_PortResult := Some saved\<rparr>))"
    using assms(1)
    unfolding retained_port_results_def assms(2) option.case Let_def keep_observation_def [symmetric]
    by (cases "uj_PortResult active") (auto simp: assms(3-5) split: if_splits)
  then consider "copy = keep_observation active job"
    | saved where "uj_PortResult active = Some saved" "copy = keep_observation active (job\<lparr>uj_PortResult := Some saved\<rparr>)"
    by blast
  note cases = this
  show "same_job copy job"
    by (cases rule: cases) (auto intro: same_job_trans keep_observation_simps same_job_results)
  show "uj_PortResult copy = uj_PortResult active \<or> uj_PortResult copy = uj_PortResult job"
    by (cases rule: cases) (simp_all add: keep_observation_simps)
  show "uj_LastRecoveryObservation copy = uj_LastRecoveryObservation active \<or>
      uj_LastRecoveryObservation copy = uj_LastRecoveryObservation job"
    by (cases rule: cases)
      (use keep_observation_simps(3) [of active job] keep_observation_simps(3) [of active "job\<lparr>uj_PortResult := uj_PortResult active\<rparr>"]
        in simp_all)
qed

lemma stage_failure_replace:
  assumes "jd_ActiveJob d = Some b" "jd_ActiveJob e = Some a" "uj_ID a = uj_ID b" "jd_ActiveStageFailure e = jd_ActiveStageFailure d"
  shows "stage_failure_check e = stage_failure_check d"
  unfolding stage_failure_check_def assms option.map ..

lemma port_results_check_iff:
  assumes "isPortContractV2 j" "uj_PortReconfigure j = Some port"
  shows "port_results_check ex j = None \<longleftrightarrow>
    (\<forall>r. uj_PortResult j = Some r \<longrightarrow> ex_AcceptedPortResult ex r \<and> ex_ValidatePortResult ex (sharedPortPlan port) r) \<and>
    (\<forall>r. uj_LastRecoveryObservation j = Some r \<longrightarrow>
       pr_Result r = systemdPortResultRollbackFailed \<and> ex_ValidatePortResult ex (sharedPortPlan port) r)"
  by (simp add: port_results_check_def assms split: option.split)

lemma port_results_retained:
  assumes "retained_port_results ex d job = Inr copy" "jd_ActiveJob d = Some active" "uj_ID active = uj_ID job"
    and "active_job_check ex d = None" "port_results_check ex job = None"
  shows "same_job copy job \<and> port_results_check ex copy = None \<and> (isPortContractV2 job \<longrightarrow> same_work active job)"
proof (cases "isPortContractV2 job")
  case False
  then show ?thesis
    using assms(1,2,5) by (simp add: retained_port_results_def same_job_results)
next
  case True
  have intent: "sameRecoveredJobIntent ex active job"
    by (rule ccontr) (use assms(1-3) True in \<open>simp add: retained_port_results_def\<close>)
  then have work: "same_work active job"
    using True by (rule recovered_port_work)
  then have active: "isPortContractV2 active" "uj_PortReconfigure active = uj_PortReconfigure job"
    using True same_work_effective(3) [OF work] work by (simp_all add: same_work_def)
  have checked: "port_results_check ex active = None"
    using assms(2,4) by (auto simp: active_job_check_def split: if_splits option.splits)
  note shape = retained_shape [OF assms(1-3) True intent]
  have "isPortContractV2 copy" "uj_PortReconfigure copy = uj_PortReconfigure job"
    using same_job_checks(6) [OF shape(1)] True shape(1) by (simp_all add: same_job_def same_work_def)
  moreover obtain port where port: "uj_PortReconfigure job = Some port"
    using True by (auto simp: isPortContractV2_def split: option.splits)
  ultimately show ?thesis
    using port_results_check_iff [of copy port ex] port_results_check_iff [of active port ex] port_results_check_iff [of job port ex]
      checked assms(5) active True shape work by metis
qed

section \<open>The operations\<close>

lemma active_job_check_iff:
  "jd_ActiveJob d = Some job \<Longrightarrow> active_job_check ex d = None \<longleftrightarrow>
     validateOperationUnion ex job = None \<and> validateJournalSoftwareJob job = None \<and> port_results_check ex job = None"
  by (simp add: active_job_check_def split: option.split)

lemma set_active_valid:
  assumes "validateJournalData ex d = None" "op_data ex (OpSetActive (Some job)) d = Some d'"
    and "well_called ex d (OpSetActive (Some job))"
  shows "validateJournalData ex d' = None"
proof -
  have ok: "validateOperationUnion ex job = None" "validateJournalSoftwareJob job = None" "replacement_check ex d job = None"
    using assms(2) by (auto split: if_splits)
  obtain copy where copy: "retained_port_results ex d job = Inr copy"
    using assms(2) ok by (auto split: sum.splits)
  let ?job = "copy\<lparr>uj_LeaseToken := [], uj_ReleaseToken := []\<rparr>"
  have d': "d' = with_active d ?job"
    using assms(2) ok copy by simp
  note parts = assms(1) [unfolded validateJournalData_parts]
  have staged: "isPortContractV2 job" if policy: "jd_ActivePortPolicy d \<noteq> None"
  proof -
    obtain active where active: "jd_ActiveJob d = Some active" "sameRecoveredJobIntent ex active job"
      using assms(3) policy by (auto simp: well_called_def)
    moreover have "isPortContractV2 active"
      using parts policy active(1) by (auto simp: port_policy_check_def portAgentPolicyState_validate_def policy_identity_invalid_def
          split: option.splits if_splits)
    ultimately show ?thesis
      using recovered_contract by blast
  qed
  have called: "port_results_check ex job = None" "jd_ActivePortPolicy d \<noteq> None \<longrightarrow> isPortContractV2 job"
    using assms(3) staged by (auto simp: well_called_def)
  have stripped: "same_job ?job copy" "port_results_check ex ?job = port_results_check ex copy"
    by (rule same_job_results)
      (cases "uj_PortReconfigure copy"; simp add: port_results_check_def isPortContractV2_def EffectiveOperation_def)
  show ?thesis
  proof (cases "jd_ActiveJob d")
    case None
    then have "copy = job"
      using copy by (simp add: retained_port_results_def)
    then have "active_job_check ex d' = None"
      using ok called same_job_checks(1,2) [OF stripped(1)] stripped(2)
      by (subst active_job_check_iff [of _ ?job]) (simp_all add: d' with_active_def Let_def)
    then show ?thesis
      unfolding validateJournalData_parts
      by (simp add: d' with_active_def same_active_def None plans_check_def stage_failure_check_def port_policy_check_def)
  next
    case (Some active)
    have same: "uj_ID active = uj_ID job" "EffectiveOperation active = EffectiveOperation job"
      using ok(3) Some by (auto simp: replacement_check_def split: if_splits)
    note kept = port_results_retained [OF copy Some same(1) conjunct1 [OF parts] called(1)]
    have job: "same_job ?job job" "port_results_check ex ?job = None"
      using kept stripped same_job_trans by auto
    note eqs = same_job_checks [OF job(1)]
    have shape: "d' = d\<lparr>jd_ActiveJob := Some ?job, jd_NextSeq := next_sequence d ?job\<rparr>"
      using same eqs(4,5) by (simp add: d' with_active_def same_active_def Some)
    have plan: "validateJournalSoftwarePlan job plan False = None" if "jd_ActivePlan d = Some plan" for plan
    proof (cases "EffectiveOperation active = updateJobOperationSoftwareUpdate")
      case True
      then show ?thesis
        using ok(3) Some that same by (auto simp: replacement_check_def software_replacement_check_def split: if_splits)
    next
      case False
      then show ?thesis
        using parts Some that by (auto simp: plans_check_def plan_binding_invalid_def split: if_splits)
    qed
    have "active_job_check ex d' = None"
      using ok job eqs(1,2) by (subst active_job_check_iff [of _ ?job]) (simp_all add: shape)
    moreover have "plans_check ex d' = None"
      unfolding shape using parts Some same eqs(3,4,5) plan by (intro plans_check_replace [of _ _ active]) simp_all
    moreover have "stage_failure_check d' = None"
      using parts eqs(4) same Some stage_failure_replace [of d active d' ?job] by (simp add: shape)
    moreover have "port_policy_check ex d' = None"
    proof (cases "jd_ActivePortPolicy d")
      case (Some policy)
      then have "same_work active job"
        using called(2) kept by simp
      then show ?thesis
        using parts Some \<open>jd_ActiveJob d = Some active\<close> eqs(7) same_work_policy [of active job]
        by (simp add: port_policy_check_def shape)
    qed (simp add: port_policy_check_def shape)
    ultimately show ?thesis
      by (simp add: validateJournalData_parts)
  qed
qed

lemma queue_valid:
  assumes "validateJournalData ex d = None"
    and "queue_result ex d jobID serviceID gen status result = Inr (d', r)"
  shows "validateJournalData ex d' = None"
proof (cases "d' = d")
  case False
  then obtain active p res job' where active: "jd_ActiveJob d = Some active" and res: "result = Some res" "rr_PortResult res = Some p"
      and matches: "port_result_matches ex active jobID serviceID gen status res p" "rr_PortContractVersion res = 2"
      and job': "record_port_result ex active res p = Inr job'" and d': "d' = d\<lparr>jd_ActiveJob := Some job'\<rparr>"
    using assms(2)
    by (auto simp: queue_result_def map_sum_def split: option.splits if_splits sum.splits prod.splits) metis
  obtain port where port: "isPortContractV2 active" "uj_PortReconfigure active = Some port"
      "ex_ValidatePortResult ex (sharedPortPlan port) p"
    using matches by (auto simp: port_result_matches_def split: option.splits)
  note parts = assms(1) [unfolded validateJournalData_parts]
  have checks: "validateOperationUnion ex active = None" "validateJournalSoftwareJob active = None" "port_results_check ex active = None"
    using parts active_job_check_iff [OF active, of ex] by simp_all
  have failed: "pr_Result p = systemdPortResultRollbackFailed" if "rr_RecoveryRequired res"
    using matches res that
    by (auto simp: port_result_matches_def SystemdPortReconfigureResult_Validate_def result_validatePortV2_def split: if_splits)
  have same: "same_job job' active"
    using job' by (auto simp: record_port_result_def same_job_def same_work_def split: if_splits)
  have v2: "isPortContractV2 job'" "uj_PortReconfigure job' = Some port"
    using same_job_checks(6) [OF same] same port by (simp_all add: same_job_def same_work_def)
  have "uj_PortResult job' = Some p \<and> ex_AcceptedPortResult ex p \<and> uj_LastRecoveryObservation job' = uj_LastRecoveryObservation active \<or>
      uj_PortResult job' = None \<and> uj_LastRecoveryObservation job' = Some p \<and> rr_RecoveryRequired res"
    using job' by (auto simp: record_port_result_def split: if_splits)
  then have "port_results_check ex job' = None"
    using checks(3) port failed v2 by (auto simp: port_results_check_iff [OF port(1,2)] port_results_check_iff [OF v2])
  then have "active_job_check ex d' = None"
    using checks same_job_checks(1,2) [OF same] by (subst active_job_check_iff [of _ job']) (simp_all add: d')
  then show ?thesis
    using parts same_job_plans [OF same active] by (simp add: validateJournalData_parts d')
qed (use assms in simp)

lemma check_congs:
  "jd_ActiveJob d = jd_ActiveJob e \<Longrightarrow> active_job_check ex d = active_job_check ex e"
  "jd_ActiveJob d = jd_ActiveJob e \<Longrightarrow> jd_ActivePlan d = jd_ActivePlan e \<Longrightarrow> jd_ActivePortPlan d = jd_ActivePortPlan e \<Longrightarrow>
     plans_check ex d = plans_check ex e"
  "jd_ActiveJob d = jd_ActiveJob e \<Longrightarrow> jd_ActiveStageFailure d = jd_ActiveStageFailure e \<Longrightarrow>
     stage_failure_check d = stage_failure_check e"
  "jd_ActiveJob d = jd_ActiveJob e \<Longrightarrow> jd_ActivePortPlan d = jd_ActivePortPlan e \<Longrightarrow>
     jd_ActivePortPolicy d = jd_ActivePortPolicy e \<Longrightarrow> port_policy_check ex d = port_policy_check ex e"
  by (simp_all only: active_job_check_def plans_check_def plan_binding_invalid_def stage_failure_check_def port_policy_check_def)

lemma validate_policy_replace:
  assumes "validateJournalData ex d = None" "portAgentPolicyState_validate ex state (jd_ActiveJob d) (jd_ActivePortPlan d) = None"
  shows "validateJournalData ex (d\<lparr>jd_ActivePortPolicy := Some state\<rparr>) = None"
proof -
  let ?e = "d\<lparr>jd_ActivePortPolicy := Some state\<rparr>"
  have "port_policy_check ex ?e = None"
    using assms(2) by (simp add: port_policy_check_def)
  with assms(1) check_congs(1-3) [of ?e d] show ?thesis
    unfolding validateJournalData_parts by simp
qed

lemma policy_valid_iff:
  "portAgentPolicyState_validate ex s (Some job) (Some plan) = None \<longleftrightarrow>
     (\<exists>port before target rollback. uj_PortReconfigure job = Some port \<and> pp_Before plan = Some before \<and>
        pp_Target plan = Some target \<and> pp_Rollback plan = Some rollback \<and>
        \<not> policy_identity_invalid ex s job port plan before \<and> \<not> candidate_invalid ex job (ps_Before s) before \<and>
        \<not> candidate_invalid ex job (ps_Target s) target \<and> \<not> candidate_invalid ex job (ps_Rollback s) rollback \<and>
        ps_ActiveSnapshotID s \<in> {sn_SnapshotID before, sn_SnapshotID target, sn_SnapshotID rollback})"
  by (simp add: portAgentPolicyState_validate_def split: option.split)

lemma adopt_port_valid:
  assumes "validateJournalData ex d = None" "adopt_check ex d jobID snapshotID = Inr state"
  shows "validateJournalData ex (d\<lparr>jd_ActivePortPolicy := Some state\<rparr>) = None"
proof -
  obtain old where old: "state = old\<lparr>ps_ActiveSnapshotID := snapshotID\<rparr>"
      "portAgentPolicyState_validate ex old (jd_ActiveJob d) (jd_ActivePortPlan d) = None"
      and named: "snapshot_id d pp_Before = Some snapshotID \<or> snapshot_id d pp_Target = Some snapshotID \<or>
        snapshot_id d pp_Rollback = Some snapshotID"
    using assms(2) by (auto simp: adopt_check_def split: option.splits if_splits)
  then obtain job plan where jp: "jd_ActiveJob d = Some job" "jd_ActivePortPlan d = Some plan"
    by (auto simp: portAgentPolicyState_validate_def split: option.splits)
  have "policy_identity_invalid ex state = policy_identity_invalid ex old"
    by (simp add: fun_eq_iff policy_identity_invalid_def old(1))
  then have "portAgentPolicyState_validate ex state (jd_ActiveJob d) (jd_ActivePortPlan d) = None"
    using old(2) named unfolding jp policy_valid_iff by (auto simp: old(1) snapshot_id_def jp)
  with assms(1) show ?thesis
    by (rule validate_policy_replace)
qed

lemma set_plan_valid:
  assumes "validateJournalData ex d = None" "op_data ex (OpSetActivePlan plan) d = Some d'"
  shows "validateJournalData ex d' = None"
proof -
  obtain active where active: "jd_ActiveJob d = Some active" and d': "d' = d\<lparr>jd_ActivePlan := Some plan\<rparr>"
    and ok: "EffectiveOperation active = updateJobOperationSoftwareUpdate" "uj_ID active = mp_JobID plan"
      "MutationPlan_Validate plan = None" "validateJournalSoftwarePlan active plan True = None"
    using assms(2) by (auto split: option.splits if_splits)
  note parts = assms(1) [unfolded validateJournalData_parts]
  have "jd_ActivePortPlan d = None"
    using parts active ok(1) by (auto simp: plans_check_def plan_binding_invalid_def split: option.splits if_splits)
  moreover have "validateJournalSoftwarePlan active plan False = None"
    using ok(4) by (auto simp: validateJournalSoftwarePlan_def split: if_splits)
  ultimately have "plans_check ex d' = None"
    using active ok by (simp add: plans_check_def plan_binding_invalid_def d')
  with parts check_congs(1,3,4) [of d' d] show ?thesis
    unfolding validateJournalData_parts by (simp add: d')
qed

lemma same_intent_fields:
  assumes "sameSystemdPortIntent a b"
  shows "pp_PortContractVersion a = pp_PortContractVersion b \<and> pp_HostID a = pp_HostID b \<and> pp_TargetID a = pp_TargetID b \<and>
    pp_OwnershipEpoch a = pp_OwnershipEpoch b \<and> pp_ServiceType a = pp_ServiceType b \<and>
    pp_DeploymentMode a = pp_DeploymentMode b \<and> pp_JobID a = pp_JobID b \<and> pp_PortIntentSHA256 a = pp_PortIntentSHA256 b \<and>
    pp_Before a = pp_Before b \<and> pp_Target a = pp_Target b \<and> pp_Rollback a = pp_Rollback b"
  using assms by (cases a; cases b) (auto simp: sameSystemdPortIntent_def Let_def split: if_splits)

lemma same_intent_policy:
  assumes "sameSystemdPortIntent stored plan" "SystemdPortReconfigurePlan_Validate ex plan = None"
    and "portAgentPolicyState_validate ex s (Some job) (Some stored) = None"
  shows "portAgentPolicyState_validate ex s (Some job) (Some plan) = None"
  using assms(2,3) same_intent_fields [OF assms(1)]
  unfolding policy_valid_iff policy_identity_invalid_def by auto

lemma set_port_plan_valid:
  assumes "validateJournalData ex d = None" "op_data ex (OpSetActivePortPlan plan) d = Some d'"
    and "well_called ex d (OpSetActivePortPlan plan)"
  shows "validateJournalData ex d' = None"
proof -
  obtain active where active: "jd_ActiveJob d = Some active" and d': "d' = d\<lparr>jd_ActivePortPlan := Some plan\<rparr>"
    and ok: "EffectiveOperation active = updateJobOperationPortReconfigure" "uj_ID active = pp_JobID plan"
      "SystemdPortReconfigurePlan_Validate ex plan = None"
    using assms(2) by (auto split: option.splits if_splits)
  note parts = assms(1) [unfolded validateJournalData_parts]
  have "jd_ActivePlan d = None"
    using parts active ok(1) by (auto simp: plans_check_def plan_binding_invalid_def split: option.splits if_splits)
  then have "plans_check ex d' = None"
    using active ok by (simp add: plans_check_def plan_binding_invalid_def d')
  moreover have "port_policy_check ex d' = None"
  proof (cases "jd_ActivePortPolicy d")
    case (Some policy)
    then obtain stored where "jd_ActivePortPlan d = Some stored" "sameSystemdPortIntent stored plan"
      using assms(3) by (auto simp: well_called_def)
    then show ?thesis
      using same_intent_policy [of stored plan ex policy active] ok(3) parts Some active
      by (simp add: port_policy_check_def d')
  qed (simp add: port_policy_check_def d')
  ultimately show ?thesis
    using parts check_congs(1,3) [of d' d] unfolding validateJournalData_parts by (simp add: d')
qed

text \<open>The fresh lease of a software job takes over the data of the old one.\<close>

lemma handover_valid:
  assumes "validateJournalData ex d = None" "handover d job = Some d'"
    and "isV2SoftwareJob job" "validateOperationUnion ex job = None" "validateJournalSoftwareJob job = None"
    and "jd_ActivePortPlan d = None" "jd_ActivePortPolicy d = None"
    and "\<And>plan. jd_ActivePlan d = Some plan \<Longrightarrow> validateJournalSoftwarePlan job plan False = None"
    and "\<And>active. jd_ActiveJob d = Some active \<Longrightarrow> isV2SoftwareJob active \<and> uj_ID active = uj_ID job"
  shows "validateJournalData ex d' = None"
proof -
  have d': "d' = d\<lparr>jd_ActiveJob := Some job, jd_NextSeq := uj_ReportSequence job, jd_Pending := []\<rparr>"
    using assms(2) by (auto simp: handover_def split: if_splits)
  note parts = assms(1) [unfolded validateJournalData_parts]
  have op: "EffectiveOperation job = updateJobOperationSoftwareUpdate"
    using assms(3) by (simp add: isV2SoftwareJob_def)
  then have "uj_PortReconfigure job = None"
    using assms(4) by (auto simp: validateOperationUnion_def split: if_splits)
  then have "active_job_check ex d' = None"
    using assms(4,5) by (subst active_job_check_iff [of _ job]) (simp_all add: d' port_results_check_def)
  moreover have "plans_check ex d' = None \<and> stage_failure_check d' = None"
  proof (cases "jd_ActiveJob d")
    case None
    then have "jd_ActivePlan d = None" "jd_ActiveStageFailure d = None"
      using parts by (auto simp: plans_check_def plan_binding_invalid_def stage_failure_check_def split: option.splits if_splits)
    then show ?thesis
      using assms(6) by (simp add: d' plans_check_def plan_binding_invalid_def stage_failure_check_def)
  next
    case (Some active)
    have same: "uj_ID job = uj_ID active" "EffectiveOperation job = EffectiveOperation active"
      using assms(9) [OF Some] op by (simp_all add: isV2SoftwareJob_def)
    show ?thesis
      using plans_check_replace [of ex d active job "uj_ReportSequence job"] parts Some same assms(8)
        check_congs(2) [of d' "d\<lparr>jd_ActiveJob := Some job, jd_NextSeq := uj_ReportSequence job\<rparr>" ex]
        stage_failure_replace [of d active d' job]
      by (simp add: d')
  qed
  moreover have "port_policy_check ex d' = None"
    using assms(7) by (simp add: port_policy_check_def d')
  ultimately show ?thesis
    by (simp add: validateJournalData_parts)
qed

lemma adopt_recovered_valid:
  assumes "validateJournalData ex d = None" "op_data ex (OpAdoptRecovered job) d = Some d'"
  shows "validateJournalData ex d' = None"
proof -
  have ok: "\<not> adoption_refused ex d job" "handover d job = Some d'"
      "\<And>plan. jd_ActivePlan d = Some plan \<Longrightarrow> validateJournalSoftwarePlan job plan False = None"
    using assms(2) by (auto split: if_splits option.splits)
  then obtain active where active: "jd_ActiveJob d = Some active" "isV2SoftwareJob active" "isV2SoftwareJob job"
      and job: "validateOperationUnion ex job = None" "validateJournalSoftwareJob job = None"
      and none: "jd_ActivePortPlan d = None" "jd_ActivePortPolicy d = None"
      and id: "uj_ID active = uj_ID job"
    by (auto simp: adoption_refused_def sameRecoveredJobIntent_def journalLegacySoftwareBindingMatches_def sameSoftwareJobIdentity_def
        split: option.splits if_splits)
  show ?thesis
    by (rule handover_valid [OF assms(1) ok(2) active(3) job none ok(3)]) (use active id in auto)
qed

lemma terminal_recovery_valid:
  assumes "validateJournalData ex d = None" "op_data ex (OpSetTerminalRecovery rd job r p) d = Some d'"
  shows "validateJournalData ex d' = None"
proof -
  have check: "terminal_recovery_check ex rd d job r p = Inr False" and d': "handover d job = Some d'"
    using assms(2) by (auto split: if_splits)
  then have lease: "\<not> terminal_lease_invalid ex (time_UTC (rd_now rd)) job r p"
      and none: "jd_ActivePlan d = None" "jd_ActivePortPlan d = None" "jd_ActivePortPolicy d = None"
    by (auto simp: terminal_recovery_check_def split: if_splits)
  have cursor: "terminal_cursor (jd_ActiveJob d) job (the (uj_SoftwareUpdate job)) r = Inr False"
    using check by (auto simp: terminal_recovery_check_def split: if_splits sum.splits option.splits)
  have job: "isV2SoftwareJob job" "validateOperationUnion ex job = None" "validateJournalSoftwareJob job = None"
    using lease by (auto simp: terminal_lease_invalid_def split: option.splits)
  have "isV2SoftwareJob active \<and> uj_ID active = uj_ID job" if "jd_ActiveJob d = Some active" for active
    using cursor that by (auto simp: terminal_cursor_def sameSoftwareJobIdentity_def split: if_splits)
  with handover_valid [OF assms(1) d' job none(2,3)] none(1) show ?thesis
    by simp
qed

lemma generation_read_valid:
  assumes "validateJournalData ex d = None" "op_data ex (OpAdoptGenerationRead rd job r) d = Some d'"
  shows "validateJournalData ex d' = None"
proof -
  have d': "handover d job = Some d'" and "\<not> generation_read_refused ex d job r"
    using assms(2) by (auto simp: generation_read_check_def split: if_splits)
  then obtain active plan b where some: "jd_ActiveJob d = Some active" "jd_ActivePlan d = Some plan"
      and job: "validateOperationUnion ex job = None" "validateJournalSoftwareJob job = None"
      and none: "jd_ActivePortPlan d = None" "jd_ActivePortPolicy d = None"
      and same: "sameSoftwareJobIdentity active job" "validateJournalSoftwarePlan job plan False = None"
    by (auto simp: generation_read_refused_def split: option.splits)
  have "isV2SoftwareJob job" "isV2SoftwareJob active \<and> uj_ID active = uj_ID job"
    using same(1) by (simp_all add: sameSoftwareJobIdentity_def)
  with handover_valid [OF assms(1) d' _ job none] some same(2) show ?thesis
    by simp
qed

lemma op_valid:
  assumes "validateJournalData ex d = None" "well_called ex d op" "op_data ex op d = Some d'"
  shows "validateJournalData ex d' = None"
proof (cases op)
  case (OpSetActive job)
  then obtain j where "job = Some j"
    using assms(3) by (cases job) simp_all
  then show ?thesis
    using set_active_valid [OF assms(1)] assms(2,3) OpSetActive by blast
next
  case (OpSetActivePlan plan)
  then show ?thesis
    using set_plan_valid [OF assms(1)] assms(3) by blast
next
  case (OpSetActivePortPlan plan)
  then show ?thesis
    using set_port_plan_valid [OF assms(1)] assms(2,3) by blast
next
  case (OpSetActiveStageFailure f)
  then have d': "d' = d\<lparr>jd_ActiveStageFailure := Some f\<rparr>" "stage_failure_check d' = None"
    using assms(3) by (auto simp: stage_failure_check_def split: if_splits)
  then show ?thesis
    using assms(1) check_congs(1,2,4) [of d' d] unfolding validateJournalData_parts by simp
next
  case (OpQueue jobID serviceID token gen status code message progress artifact previous result)
  then obtain e r where e: "queue_result ex d jobID serviceID gen status result = Inr (e, r)"
      and d': "jd_ActiveJob d' = jd_ActiveJob e" "jd_ActivePlan d' = jd_ActivePlan e" "jd_ActivePortPlan d' = jd_ActivePortPlan e"
        "jd_ActivePortPolicy d' = jd_ActivePortPolicy e" "jd_ActiveStageFailure d' = jd_ActiveStageFailure e"
    using assms(3) by (auto simp: append_report_def split: sum.splits)
  show ?thesis
    using queue_valid [OF assms(1) e] check_congs [OF d'(1)] d' unfolding validateJournalData_parts by simp
next
  case (OpAdoptPortPolicy jobID snapshotID)
  then show ?thesis
    using adopt_port_valid [OF assms(1)] assms(3) by (auto split: sum.splits)
next
  case (OpStagePortPolicy policy job plan)
  then obtain state where "staged_port_policy ex policy job plan = Inr state" "d' = d\<lparr>jd_ActivePortPolicy := Some state\<rparr>"
    using assms(3) by (auto split: sum.splits if_splits)
  moreover from this(1) have "portAgentPolicyState_validate ex state (Some job) (Some plan) = None"
    by (auto simp: staged_port_policy_def Let_def split: if_splits option.splits sum.splits)
  moreover obtain active where "jd_ActivePortPlan d = Some plan" "jd_ActiveJob d = Some active" "same_work active job"
    using assms(2) OpStagePortPolicy by (auto simp: well_called_def)
  ultimately show ?thesis
    using validate_policy_replace [OF assms(1)] same_work_policy [of active job ex state "Some plan"] by simp
next
  case (OpAdoptRecovered job)
  then show ?thesis
    using adopt_recovered_valid [OF assms(1)] assms(3) by blast
next
  case (OpSetTerminalRecovery rd job r p)
  then show ?thesis
    using terminal_recovery_valid [OF assms(1)] assms(3) by blast
next
  case (OpAdoptGenerationRead rd job r)
  then show ?thesis
    using generation_read_valid [OF assms(1)] assms(3) by blast
next
  case OpClearActive
  then show ?thesis
    using assms(3) by (auto split: if_splits)
next
  case (OpMarkDeployed t v)
  then show ?thesis
    using assms(1,3) check_congs [of d' d] unfolding validateJournalData_parts by auto
next
  case (OpDropJobReports jobID)
  then show ?thesis
    using assms(1,3) check_congs [of d' d] unfolding validateJournalData_parts by auto
next
  case (OpAck jobID sequence)
  then show ?thesis
    using assms(1,3) check_congs [of d' d] unfolding validateJournalData_parts by (auto split: list.splits if_splits)
qed

section \<open>Recovering a port change\<close>

text \<open>The calls of \<open>recoverPortExecutionPlan\<close> after \<open>SetActive\<close> are well called.\<close>

lemma set_active_work:
  assumes "validateJournalData ex d = None" "op_data ex (OpSetActive (Some job)) d = Some d'" "port_results_check ex job = None"
  shows "\<exists>active. jd_ActiveJob d' = Some active \<and> same_work active job"
proof -
  obtain copy where copy: "retained_port_results ex d job = Inr copy" "replacement_check ex d job = None"
      and d': "d' = with_active d (copy\<lparr>uj_LeaseToken := [], uj_ReleaseToken := []\<rparr>)"
    using assms(2) by (auto split: if_splits sum.splits)
  have "same_job copy job"
  proof (cases "jd_ActiveJob d")
    case None
    then show ?thesis
      using copy(1) by (simp add: retained_port_results_def same_job_results)
  next
    case (Some active)
    then have "uj_ID active = uj_ID job"
      using copy(2) by (auto simp: replacement_check_def split: if_splits)
    with Some copy(1) assms(1,3) port_results_retained show ?thesis
      unfolding validateJournalData_parts by blast
  qed
  then show ?thesis
    by (simp add: d' with_active_def Let_def same_job_def same_work_def)
qed

lemma policy_needs_plan:
  "validateJournalData ex d = None \<Longrightarrow> jd_ActivePortPlan d = None \<Longrightarrow> jd_ActivePortPolicy d = None"
  by (auto simp: validateJournalData_parts port_policy_check_def portAgentPolicyState_validate_def split: option.splits)

definition file_valid :: "journal_env \<Rightarrow> journal_world \<Rightarrow> bool" where
  "file_valid env w \<longleftrightarrow> (\<exists>d. jw_main w = Some (written d) \<and> validateJournalData (je_ex env) d = None)"

text \<open>The journal may be written, the file is valid, and the data in memory are valid and satisfy \<open>D\<close>.\<close>

definition journal_holds :: "journal_env \<Rightarrow> (journalData \<Rightarrow> bool) \<Rightarrow> journal_world \<Rightarrow> bool" where
  "journal_holds env D w \<longleftrightarrow> poison_of w = None \<and> file_valid env w \<and> validateJournalData (je_ex env) (data_of w) = None \<and> D (data_of w)"

lemma op_spec:
  assumes "op \<noteq> OpClearActive" "\<And>d. validateJournalData (je_ex env) d = None \<Longrightarrow> D d \<Longrightarrow> well_called (je_ex env) d op"
    and "\<And>d d'. validateJournalData (je_ex env) d = None \<Longrightarrow> D d \<Longrightarrow> op_data (je_ex env) op d = Some d' \<Longrightarrow> E d'"
    and "\<And>w x. D (data_of w) \<Longrightarrow> op_data (je_ex env) op (data_of w) = None \<Longrightarrow> fst (run_op env op w) = Ok x \<Longrightarrow>
      poison_of w = None \<Longrightarrow> E (data_of w)"
  shows "spec (journal_holds env D) (run_op env op) (\<lambda>_. journal_holds env E) (file_valid env)"
  unfolding spec_def
proof (intro allI impI)
  fix w assume w: "journal_holds env D w"
  then have free: "poison_of w = None" and valid: "validateJournalData (je_ex env) (data_of w) = None" "D (data_of w)"
    by (simp_all add: journal_holds_def)
  obtain r w' where run: "run_op env op w = (r, w')"
    by fastforce
  have refines: "refines w (op_data (je_ex env) op (data_of w)) (r, w')"
    using op_refines [OF free assms(1), of env] run by simp
  show "case run_op env op w of (Ok x, w') \<Rightarrow> journal_holds env E w' | (Err e, w') \<Rightarrow> file_valid env w' | (Crash, w') \<Rightarrow> file_valid env w'"
  proof (cases "op_data (je_ex env) op (data_of w)")
    case None
    then show ?thesis
      using refines w run assms(4) [OF valid(2) None] by (auto simp: journal_holds_def split: outcome.split)
  next
    case (Some d')
    have "validateJournalData (je_ex env) d' = None"
      by (rule op_valid [OF valid(1) assms(2) [OF valid] Some])
    then show ?thesis
      using refines w run assms(3) [OF valid Some] by (auto simp: Some commits_def journal_holds_def file_valid_def split: outcome.splits)
  qed
qed

lemma set_active_port_spec:
  assumes "port_results_check (je_ex env) job = None"
  shows "spec (journal_holds env (\<lambda>d. jd_ActivePortPolicy d = None \<or>
        (\<exists>active. jd_ActiveJob d = Some active \<and> sameRecoveredJobIntent (je_ex env) active job)))
     (SetActive env (Some job))
     (\<lambda>_. journal_holds env (\<lambda>d. \<exists>active. jd_ActiveJob d = Some active \<and> same_work active job)) (file_valid env)"
proof -
  have "fst (SetActive env (Some job) w) \<noteq> Ok x"
    if "op_data (je_ex env) (OpSetActive (Some job)) (data_of w) = None" "poison_of w = None" for w x
    using that(1) unfolding SetActive_def checkMutable_run [OF that(2)]
    by (auto simp: run_simps split: option.splits sum.splits if_splits)
  with op_spec [of "OpSetActive (Some job)" env] set_active_work [OF _ _ assms] show ?thesis
    by (simp add: well_called_def assms del: op_data.simps)
qed

lemma save_port_plan_spec:
  assumes "\<And>d. validateJournalData (je_ex env) d = None \<Longrightarrow> D d \<Longrightarrow>
      well_called (je_ex env) d (OpSetActivePortPlan plan) \<and> (\<exists>active. jd_ActiveJob d = Some active \<and> same_work active job)"
  shows "spec (journal_holds env D) (save_port_plan env policy job plan) (\<lambda>_. file_valid env) (file_valid env)"
  unfolding save_port_plan_def
proof (rule spec_then)
  let ?E = "\<lambda>d. jd_ActivePortPlan d = Some plan \<and> (\<exists>active. jd_ActiveJob d = Some active \<and> same_work active job)"
  have "fst (SetActivePortPlan env plan w) \<noteq> Ok x"
    if "op_data (je_ex env) (OpSetActivePortPlan plan) (data_of w) = None" "poison_of w = None" for w x
    using that(1) unfolding SetActivePortPlan_def checkMutable_run [OF that(2)]
    by (auto simp: run_simps split: option.splits if_splits)
  moreover have "?E d'" if "D d" "validateJournalData (je_ex env) d = None" "op_data (je_ex env) (OpSetActivePortPlan plan) d = Some d'" for d d'
    using assms [OF that(2,1)] that(3) by (auto split: option.splits if_splits)
  ultimately show "spec (journal_holds env D) (SetActivePortPlan env plan) (\<lambda>_. journal_holds env ?E) (file_valid env)"
    using op_spec [of "OpSetActivePortPlan plan" env D ?E] assms by (simp del: op_data.simps)
  have stage: "spec (journal_holds env ?E) (StagePortPolicy env policy job plan) (\<lambda>_. journal_holds env (\<lambda>_. True)) (file_valid env)"
    using op_spec [of "OpStagePortPolicy policy job plan" env ?E "\<lambda>_. True"] by (simp add: well_called_def del: op_data.simps)
  show "spec (journal_holds env ?E) (thenP (if isPortContractV2 job then StagePortPolicy env policy job plan else returnP ()) (returnP plan))
     (\<lambda>_. file_valid env) (file_valid env)"
    by (rule spec_then [where R = "file_valid env"])
      (auto intro!: spec_return spec_conseq [OF stage] simp: journal_holds_def)
qed

lemma spec_bind_get:
  "(\<And>x. spec (\<lambda>w. P w \<and> f w = x) (k x) Q X) \<Longrightarrow> spec P (bindP (getP f) k) Q X"
  by (simp add: spec_def bindP_def getP_def)

lemma recover_port_spec:
  "spec (journal_holds env (\<lambda>d. \<exists>active. jd_ActiveJob d = Some active \<and> same_work active job))
     (recoverPortExecutionPlan env session policy job) (\<lambda>_. file_valid env) (file_valid env)"
proof -
  let ?W = "\<lambda>d. \<exists>active. jd_ActiveJob d = Some active \<and> same_work active job"
  have fresh: "spec (journal_holds env (\<lambda>d. ?W d \<and> jd_ActivePortPlan d = None)) (save_port_plan env policy job plan)
      (\<lambda>_. file_valid env) (file_valid env)" for plan
    by (rule save_port_plan_spec) (use policy_needs_plan in \<open>auto simp: well_called_def\<close>)
  have rebound: "spec (journal_holds env (\<lambda>d. ?W d \<and> jd_ActivePortPlan d = Some stored)) (save_port_plan env policy job plan)
      (\<lambda>_. file_valid env) (file_valid env)" if "sameSystemdPortIntent stored plan" for stored plan
    by (rule save_port_plan_spec) (use that in \<open>auto simp: well_called_def\<close>)
  have "spec (journal_holds env (\<lambda>d. ?W d \<and> jd_ActivePortPlan d = saved)) (case saved of
       None \<Rightarrow>
         (case preparePortExecutionPlan (je_ex env) session policy job of
            Inl _ \<Rightarrow> failP (NewErr ''durable port recovery plan is unavailable'')
          | Inr fresh \<Rightarrow> save_port_plan env policy job fresh)
     | Some stored \<Rightarrow>
         if SystemdPortReconfigurePlan_Validate (je_ex env) stored \<noteq> None
         then failP (NewErr ''durable port recovery plan is unavailable'')
         else case portExecutionPlanFromJob (je_ex env) policy job (pp_SessionID stored) of
           Inl _ \<Rightarrow> failP (NewErr ''durable port recovery plan does not match the recovered job'')
         | Inr rebound \<Rightarrow>
             if \<not> sameSystemdPortIntent stored rebound
             then failP (NewErr ''durable port recovery plan does not match the recovered job'')
             else save_port_plan env policy job rebound) (\<lambda>_. file_valid env) (file_valid env)" for saved
    by (cases saved) (auto intro!: spec_fail fresh rebound simp: journal_holds_def split: sum.split)
  note saved = spec_pre [OF this]
  show ?thesis
    unfolding recoverPortExecutionPlan_def by (rule spec_bind_get, rule saved) (simp add: journal_holds_def)
qed

text \<open>
  The agent's own sequence of calls for a recovered port job leaves a file whose data
  \<open>validateJournalData\<close> accepts, whatever fails and wherever the process stops.
\<close>

lemma port_recovery_valid:
  assumes "poison_of w = None" "file_valid env w" "validateJournalData (je_ex env) (data_of w) = None"
    and "port_results_check (je_ex env) job = None"
    and "jd_ActivePortPolicy (data_of w) = None \<or>
      (\<exists>active. jd_ActiveJob (data_of w) = Some active \<and> sameRecoveredJobIntent (je_ex env) active job)"
  shows "file_valid env (snd (thenP (SetActive env (Some job)) (recoverPortExecutionPlan env session policy job) w))"
proof -
  have "spec (journal_holds env (\<lambda>d. jd_ActivePortPolicy d = None \<or>
        (\<exists>active. jd_ActiveJob d = Some active \<and> sameRecoveredJobIntent (je_ex env) active job)))
     (thenP (SetActive env (Some job)) (recoverPortExecutionPlan env session policy job)) (\<lambda>_. file_valid env) (file_valid env)"
    by (rule spec_then [OF set_active_port_spec [OF assms(4)] recover_port_spec])
  moreover have "journal_holds env (\<lambda>d. jd_ActivePortPolicy d = None \<or>
        (\<exists>active. jd_ActiveJob d = Some active \<and> sameRecoveredJobIntent (je_ex env) active job)) w"
    using assms by (simp add: journal_holds_def)
  moreover obtain r w' where "thenP (SetActive env (Some job)) (recoverPortExecutionPlan env session policy job) w = (r, w')"
    by fastforce
  ultimately show ?thesis
    unfolding spec_def by (cases r) fastforce+
qed

section \<open>The type of the journal\<close>

text \<open>
  C9: The journal keeps its type. Start where the journal may be written, there is no fence, and
  \<open>validateJournalData\<close> accepts the data in memory and in the file. Whatever fails and wherever
  the process stops, an operation called the way the agent calls it (\<open>well_called\<close>) leaves a file
  whose data \<open>validateJournalData\<close> accepts, so that the next start can read them; and unless the
  process stopped or the journal is poisoned, it accepts the data in memory as well.
\<close>

theorem journal_op_valid:
  assumes "poison_of w = None" "jw_marker w = NoFile" "tmp_safe w" "file_valid env w"
    and "validateJournalData (je_ex env) (data_of w) = None" "well_called (je_ex env) (data_of w) op"
    and "run_op env op w = (r, w')"
  shows "file_valid env w' \<and>
    (r \<noteq> Crash \<and> poison_of w' = None \<longrightarrow> validateJournalData (je_ex env) (data_of w') = None)"
proof (cases "op_data (je_ex env) op (data_of w)")
  case None
  then have "w' = w"
    using op_atomic [OF assms(1-3,7)] by simp
  then show ?thesis
    using assms(4,5) by simp
next
  case (Some d)
  have "validateJournalData (je_ex env) d = None"
    by (rule op_valid [OF assms(5,6) Some])
  then show ?thesis
    using op_atomic [OF assms(1-3,7)] assms(4)
    by (auto simp: Some file_valid_def split: outcome.splits)
qed

theorem journal_op_valid_witness:
  "\<exists>w'. run_op sample_env (OpSetActive (Some sample_job)) (sample_journal_world fresh_data []) = (Ok (), w') \<and>
     jd_ActiveJob (data_of w') \<noteq> None \<and> file_valid sample_env w' \<and>
     validateJournalData (je_ex sample_env) (data_of w') = None"
proof -
  let ?w = "sample_journal_world fresh_data []" and ?op = "OpSetActive (Some sample_job)"
  have valid: "validateJournalData ex fresh_data = None" for ex
    by (simp add: fresh_data_def validateJournalData_def active_job_check_def plans_check_def stage_failure_check_def)
  obtain d' where d': "op_data (je_ex sample_env) ?op fresh_data = Some d'" "jd_ActiveJob d' \<noteq> None"
    by (simp add: replacement_check_def retained_port_results_def fresh_data_def with_active_def Let_def)
  have w: "poison_of ?w = None" "data_of ?w = fresh_data" "jw_marker ?w = NoFile" "tmp_safe ?w" "file_valid sample_env ?w"
    by (simp_all add: sample_journal_world_def fresh_journal_def tmp_safe_def file_valid_def) (use valid in blast)
  have called: "well_called (je_ex sample_env) (data_of ?w) ?op"
    by (simp add: w(2)) (simp add: well_called_def fresh_data_def)
  obtain w' where run: "run_op sample_env ?op ?w = (Ok (), w')"
    by (simp add: SetActive_def replacement_check_def retained_port_results_def checkMutableLocked_def fresh_journal_def
        updateP_def saveLocked_def saveDataLocked_def encode_data_def sample_env_def syscallP_def prog_defs thenP_def mapErrP_def
        modifyP_def resultP_def set_data_def sample_journal_world_def fresh_data_def with_active_def Let_def)
  have "poison_of w' = None" "data_of w' = d'"
    using op_atomic [OF w(1,3,4) run] d'(1) by (simp_all add: w(2) del: op_data.simps)
  then show ?thesis
    using journal_op_valid [OF w(1,3-5) _ called run] run d'(2) valid w(2) by simp
qed

end
