(* ===== verification/Identity_Config.thy ===== *)
theory Identity_Config
  imports Host_Policy SelfUpdate_Disk
begin

text \<open>
  The identity of the host agent (\<open>identity_config.go\<close>): the four fields of \<open>agent.yaml\<close> and
  their strict decoding. The YAML package is a parameter of the model: what its decoder reports
  about a byte string and what its encoder makes of an identity.
\<close>

section \<open>The YAML package\<close>

text \<open>
  \<open>yaml_decode\<close> is the first two calls of \<open>Decoder.Decode\<close>: \<open>None\<close> when the first fails,
  otherwise the document and whether something follows it. A node is what the source inspects of
  a \<open>yaml.Node\<close>: its kind, the tag and value of a scalar, the style and content of a mapping.
\<close>

datatype yaml_node =
    ScalarNode string string
  | MappingNode bool "yaml_node list"
  | DocumentNode "yaml_node list"
  | OtherNode

record Config =
  cf_PanelURL :: string
  cf_NodeID :: string
  cf_RuntimeToken :: string
  cf_ServiceName :: string
  cf_configFields :: "string list"

record yamllib =
  yaml_decode :: "string \<Rightarrow> (yaml_node \<times> bool) option"
  yaml_Marshal :: "Config \<Rightarrow> string option"

section \<open>Validation and decoding\<close>

definition configMaxBytes :: int where "configMaxBytes = 1048576"

definition identity_field_names :: "string list" where
  "identity_field_names = [''panel_url'', ''node_id'', ''runtime_token'', ''service_name'']"

definition Config_Validate :: "netlib \<Rightarrow> Config \<Rightarrow> go_error option" where
  "Config_Validate net c =
     (case validatePanelURL net (TrimSpace (cf_PanelURL c)) of Some err \<Rightarrow> Some err | None \<Rightarrow>
      if \<not> MatchString identifierPattern (TrimSpace (cf_NodeID c)) then errNew ''node_id is invalid''
      else if TrimSpace (cf_RuntimeToken c) = [] then errNew ''runtime_token is required''
      else if TrimSpace (cf_ServiceName c) = [] \<or> length (TrimSpace (cf_ServiceName c)) > 255
      then errNew ''service_name is invalid''
      else if length (cf_configFields c) > 0 \<and>
         (length (cf_configFields c) \<noteq> 4 \<or>
          list_ex (\<lambda>field. field \<notin> set (cf_configFields c)) identity_field_names)
      then errNew ''Agent identity must contain exactly four fields'' else None)"

text \<open>The loop over the key and value nodes of the mapping.\<close>

fun identity_fields :: "yaml_node list \<Rightarrow> Config \<Rightarrow> Config result" where
  "identity_fields (key # val # rest) c =
     (case (key, val) of
        (ScalarNode ktag k, ScalarNode vtag v) \<Rightarrow>
          if ktag \<noteq> ''!!str'' \<or> vtag \<noteq> ''!!str'' \<or> k \<in> set (cf_configFields c)
          then Inl (NewErr ''Agent identity must contain four distinct string fields'')
          else if k = ''panel_url''
          then identity_fields rest (c\<lparr>cf_PanelURL := v, cf_configFields := k # cf_configFields c\<rparr>)
          else if k = ''node_id''
          then identity_fields rest (c\<lparr>cf_NodeID := v, cf_configFields := k # cf_configFields c\<rparr>)
          else if k = ''runtime_token''
          then identity_fields rest (c\<lparr>cf_RuntimeToken := v, cf_configFields := k # cf_configFields c\<rparr>)
          else if k = ''service_name''
          then identity_fields rest (c\<lparr>cf_ServiceName := v, cf_configFields := k # cf_configFields c\<rparr>)
          else Inl (NewErr ''Agent identity contains an unsupported field'')
      | _ \<Rightarrow> Inl (NewErr ''Agent identity must contain four distinct string fields''))"
| "identity_fields _ c = Inr c"

definition empty_config :: Config where
  "empty_config = \<lparr>cf_PanelURL = [], cf_NodeID = [], cf_RuntimeToken = [], cf_ServiceName = [],
     cf_configFields = []\<rparr>"

definition decodeManagedBootstrapConfig :: "netlib \<Rightarrow> yamllib \<Rightarrow> string \<Rightarrow> Config result" where
  "decodeManagedBootstrapConfig net yaml data =
     (let trimmed = TrimSpace data in
      if trimmed = [] \<or> int (length data) > configMaxBytes \<or> hd trimmed = CHR ''{'' \<or> hd trimmed = CHR ''[''
      then Inl (NewErr ''Agent identity must use the v2 YAML format'')
      else case yaml_decode yaml data of
        None \<Rightarrow> Inl (NewErr ''Agent identity must contain exactly four fields'')
      | Some (document, trailing) \<Rightarrow>
          if trailing then Inl (NewErr ''Agent identity contains trailing data'')
          else case document of
            DocumentNode [MappingNode flow nodes] \<Rightarrow>
              if flow \<or> length nodes \<noteq> 8
              then Inl (NewErr ''Agent identity must contain exactly four fields'')
              else (case identity_fields nodes empty_config of
                  Inl err \<Rightarrow> Inl err
                | Inr identity \<Rightarrow>
                    (case Config_Validate net identity of Some err \<Rightarrow> Inl err | None \<Rightarrow> Inr identity))
          | _ \<Rightarrow> Inl (NewErr ''Agent identity must contain exactly four fields''))"

definition marshalManagedBootstrapConfig :: "netlib \<Rightarrow> yamllib \<Rightarrow> Config \<Rightarrow> string result" where
  "marshalManagedBootstrapConfig net yaml identity =
     (if Config_Validate net identity \<noteq> None then Inl (NewErr ''Agent identity is invalid'')
      else case yaml_Marshal yaml identity of
        None \<Rightarrow> Inl (NewErr ''encode Agent identity'')
      | Some data \<Rightarrow> Inr data)"

text \<open>A decoded identity is valid and has every field once.\<close>

lemma decode_valid:
  assumes "decodeManagedBootstrapConfig net yaml data = Inr c"
  shows "Config_Validate net c = None" "data \<noteq> []" "int (length data) \<le> configMaxBytes"
  using assms
  by (auto simp: decodeManagedBootstrapConfig_def Let_def split: if_splits option.splits prod.splits
      yaml_node.splits list.splits sum.splits)

end
