(* ===== verification/Credential_Status.thy ===== *)
theory Credential_Status
  imports Identity_Config
begin

text \<open>
  The data of the runtime-credential rotation (\<open>runtime_token_rotation_protocol.go\<close>): the
  mutation a request carries, the status record the local executor keeps, their validation, and
  the checks of a request and of an answer of the panel against the status
  (\<open>runtime_token_rotation_binding.go\<close>, \<open>local_executor_protocol.go\<close>).
\<close>

section \<open>Phases\<close>

abbreviation (input) "PhaseClaimPrepared \<equiv> ''claim_prepared''"
abbreviation (input) "PhaseStageBound \<equiv> ''stage_bound''"
abbreviation (input) "PhaseStagedCredential \<equiv> ''staged''"
abbreviation (input) "PhaseLocalStaged \<equiv> ''local_staged''"
abbreviation (input) "PhaseProofReady \<equiv> ''proof_ready''"
abbreviation (input) "PhaseActivated \<equiv> ''activated''"
abbreviation (input) "PhaseCancelReady \<equiv> ''cancel_ready''"
abbreviation (input) "PhaseCancelled \<equiv> ''cancelled''"
abbreviation (input) "PhaseExpired \<equiv> ''expired''"
abbreviation (input) "PhaseManualRecovered \<equiv> ''manual_recovered''"

abbreviation (input) "runtimeCredentialStateSchemaVersion \<equiv> 2 :: int"

section \<open>The mutation of a request\<close>

record RuntimeCredentialMutation =
  cm_RotationID :: string
  cm_ExecutionHostID :: string
  cm_PreviousTokenID :: string
  cm_StagedTokenID :: string
  cm_RotationRevision :: int
  cm_RuntimeToken :: string

definition RuntimeCredentialMutation_validate :: "RuntimeCredentialMutation \<Rightarrow> string \<Rightarrow> go_error option" where
  "RuntimeCredentialMutation_validate m operation =
     (if \<not> MatchString identifierPattern (cm_RotationID m) \<or>
         \<not> validExecutionHostID (cm_ExecutionHostID m) \<or>
         \<not> MatchString identifierPattern (cm_PreviousTokenID m) \<or>
         \<not> MatchString identifierPattern (cm_StagedTokenID m) \<or>
         cm_PreviousTokenID m = cm_StagedTokenID m \<or> cm_RotationRevision m < 1
      then errNew ''runtime credential mutation binding is invalid''
      else if list_ex (\<lambda>v. v \<noteq> TrimSpace v)
         [cm_RotationID m, cm_ExecutionHostID m, cm_PreviousTokenID m, cm_StagedTokenID m]
      then errNew ''runtime credential mutation is not canonical''
      else if operation = ''runtime_credential_stage''
      then (if \<not> validBoundedSecret (cm_RuntimeToken m)
            then errNew ''runtime credential stage requires a bounded credential'' else None)
      else if cm_RuntimeToken m \<noteq> []
      then errNew ''runtime credential operation must not include a credential'' else None)"

section \<open>The status\<close>

record RuntimeCredentialStatus =
  rs_SchemaVersion :: int
  rs_Phase :: string
  rs_RotationID :: string
  rs_ServiceID :: string
  rs_ExecutionHostID :: string
  rs_PreviousTokenID :: string
  rs_StagedTokenID :: string
  rs_RotationRevision :: int
  rs_OwnershipEpoch :: int
  rs_SourcePolicyRevision :: int
  rs_ProjectionRevision :: int
  rs_LocalExecutorPolicyRevision :: int
  rs_StagedIdentitySHA256 :: string
  rs_PreviousIdentitySHA256 :: string
  rs_ActiveIdentitySHA256 :: string
  rs_LocalExecutorPolicySHA256 :: string
  rs_ExecutorVersion :: string
  rs_ExecutorProtocolVersion :: int
  rs_MutationProtocolVersion :: int
  rs_LocalStageReceiptID :: string
  rs_StagedExpiresAt :: gotime
  rs_previousRuntimeTokenSHA256 :: string
  rs_stagedRuntimeTokenSHA256 :: string
  rs_activeRuntimeTokenSHA256 :: string
  rs_serviceName :: string

definition runtimeCredentialDigest :: "string \<Rightarrow> string" where
  "runtimeCredentialDigest data = sha256_digest data"

definition runtimeCredentialTokenDigest :: "string \<Rightarrow> string" where
  "runtimeCredentialTokenDigest token = runtimeCredentialDigest token"

definition credential_binding_invalid :: "RuntimeCredentialStatus \<Rightarrow> bool" where
  "credential_binding_invalid s \<longleftrightarrow>
     rs_SchemaVersion s \<noteq> runtimeCredentialStateSchemaVersion \<or>
     \<not> MatchString identifierPattern (rs_RotationID s) \<or>
     \<not> MatchString identifierPattern (rs_ServiceID s) \<or>
     \<not> validExecutionHostID (rs_ExecutionHostID s) \<or>
     \<not> MatchString identifierPattern (rs_PreviousTokenID s) \<or>
     \<not> MatchString identifierPattern (rs_StagedTokenID s) \<or>
     rs_PreviousTokenID s = rs_StagedTokenID s \<or>
     rs_RotationRevision s < 1 \<or> rs_OwnershipEpoch s < 1 \<or> rs_SourcePolicyRevision s < 1 \<or>
     rs_ProjectionRevision s < 1 \<or> rs_LocalExecutorPolicyRevision s < 1 \<or>
     \<not> MatchString digestPattern (rs_StagedIdentitySHA256 s) \<or>
     \<not> MatchString digestPattern (rs_PreviousIdentitySHA256 s) \<or>
     \<not> MatchString digestPattern (rs_LocalExecutorPolicySHA256 s) \<or>
     \<not> MatchString versionPattern (rs_ExecutorVersion s) \<or>
     rs_ExecutorProtocolVersion s \<noteq> LocalExecutorMutationProtocolVersion \<or>
     rs_MutationProtocolVersion s \<noteq> LocalExecutorMutationProtocolVersion"

definition credential_phase_check :: "RuntimeCredentialStatus \<Rightarrow> go_error option" where
  "credential_phase_check s =
     (if rs_Phase s = PhaseClaimPrepared
      then (if rs_LocalStageReceiptID s \<noteq> [] \<or> rs_ActiveIdentitySHA256 s \<noteq> [] \<or>
               rs_StagedIdentitySHA256 s \<noteq> runtimeCredentialDigest []
            then errNew ''prepared runtime credential state is invalid'' else None)
      else if rs_Phase s = PhaseStageBound \<or> rs_Phase s = PhaseStagedCredential
      then (if rs_LocalStageReceiptID s \<noteq> [] then errNew ''unacknowledged runtime credential has a receipt''
            else if rs_ActiveIdentitySHA256 s \<noteq> []
            then errNew ''unactivated runtime credential state contains an active digest'' else None)
      else if rs_Phase s = PhaseLocalStaged \<or> rs_Phase s = PhaseProofReady
      then (if \<not> MatchString identifierPattern (rs_LocalStageReceiptID s)
            then errNew ''runtime credential local-stage receipt is invalid''
            else if rs_ActiveIdentitySHA256 s \<noteq> []
            then errNew ''unactivated runtime credential state contains an active digest'' else None)
      else if rs_Phase s = PhaseActivated
      then (if rs_ActiveIdentitySHA256 s \<noteq> rs_StagedIdentitySHA256 s \<or>
               \<not> MatchString identifierPattern (rs_LocalStageReceiptID s)
            then errNew ''activated runtime credential state digest is invalid'' else None)
      else if rs_Phase s = PhaseCancelReady
      then (if rs_ActiveIdentitySHA256 s \<noteq> rs_PreviousIdentitySHA256 s
            then errNew ''cancel-ready runtime credential active digest is invalid'' else None)
      else if rs_Phase s = PhaseCancelled
      then (if rs_ActiveIdentitySHA256 s \<noteq> rs_PreviousIdentitySHA256 s
            then errNew ''cancelled runtime credential active digest is invalid'' else None)
      else if rs_Phase s = PhaseExpired
      then (if rs_ActiveIdentitySHA256 s \<noteq> rs_PreviousIdentitySHA256 s
            then errNew ''expired runtime credential active digest is invalid'' else None)
      else if rs_Phase s = PhaseManualRecovered
      then (if \<not> MatchString digestPattern (rs_ActiveIdentitySHA256 s) \<or>
               rs_ActiveIdentitySHA256 s = rs_PreviousIdentitySHA256 s \<or>
               rs_ActiveIdentitySHA256 s = rs_StagedIdentitySHA256 s
            then errNew ''manually recovered runtime credential active digest is invalid'' else None)
      else errNew ''runtime credential state phase is invalid'')"

definition RuntimeCredentialStatus_Validate :: "RuntimeCredentialStatus \<Rightarrow> go_error option" where
  "RuntimeCredentialStatus_Validate s =
     (if credential_binding_invalid s then errNew ''runtime credential state binding is invalid''
      else if IsZero (rs_StagedExpiresAt s) \<or> \<not> in_utc (rs_StagedExpiresAt s)
      then errNew ''runtime credential staged expiry is invalid''
      else if list_ex (\<lambda>v. v \<noteq> TrimSpace v)
         [rs_RotationID s, rs_ServiceID s, rs_ExecutionHostID s, rs_PreviousTokenID s, rs_StagedTokenID s]
      then errNew ''runtime credential state is not canonical''
      else credential_phase_check s)"

definition validateRootTokenBindings :: "RuntimeCredentialStatus \<Rightarrow> go_error option" where
  "validateRootTokenBindings s =
     (if \<not> MatchString digestPattern (rs_previousRuntimeTokenSHA256 s) \<or>
         (rs_stagedRuntimeTokenSHA256 s \<noteq> [] \<and> \<not> MatchString digestPattern (rs_stagedRuntimeTokenSHA256 s)) \<or>
         length (rs_serviceName s) > 255
      then errNew ''runtime credential root token binding is invalid''
      else if rs_Phase s \<in> {PhaseStageBound, PhaseStagedCredential, PhaseLocalStaged, PhaseProofReady, PhaseActivated} \<and>
         \<not> MatchString digestPattern (rs_stagedRuntimeTokenSHA256 s)
      then errNew ''runtime credential staged token binding is invalid''
      else if rs_Phase s = PhaseActivated
      then (if rs_activeRuntimeTokenSHA256 s \<noteq> rs_stagedRuntimeTokenSHA256 s
            then errNew ''runtime credential active token binding is invalid'' else None)
      else if rs_Phase s \<in> {PhaseCancelReady, PhaseCancelled, PhaseExpired}
      then (if rs_activeRuntimeTokenSHA256 s \<noteq> rs_previousRuntimeTokenSHA256 s
            then errNew ''runtime credential previous token binding is invalid'' else None)
      else if rs_Phase s = PhaseManualRecovered
      then (if \<not> MatchString digestPattern (rs_activeRuntimeTokenSHA256 s) \<or>
               rs_activeRuntimeTokenSHA256 s = rs_previousRuntimeTokenSHA256 s \<or>
               (rs_stagedRuntimeTokenSHA256 s \<noteq> [] \<and>
                rs_activeRuntimeTokenSHA256 s = rs_stagedRuntimeTokenSHA256 s)
            then errNew ''manually recovered runtime token binding is invalid'' else None)
      else None)"

text \<open>The encoded state file, \<open>runtimeCredentialStateFile\<close>.\<close>

definition credential_payload :: "RuntimeCredentialStatus \<Rightarrow> string option" where
  "credential_payload s = map_option (\<lambda>fs. marshal (JObj fs)) (fields_json
     [Some ([(''schema_version'', JInt (rs_SchemaVersion s)), (''phase'', JStr (rs_Phase s)),
        (''rotation_id'', JStr (rs_RotationID s)), (''service_id'', JStr (rs_ServiceID s)),
        (''execution_host_id'', JStr (rs_ExecutionHostID s)),
        (''previous_token_id'', JStr (rs_PreviousTokenID s)),
        (''staged_token_id'', JStr (rs_StagedTokenID s)),
        (''rotation_revision'', JInt (rs_RotationRevision s)),
        (''ownership_epoch'', JInt (rs_OwnershipEpoch s)),
        (''source_policy_revision'', JInt (rs_SourcePolicyRevision s)),
        (''projection_revision'', JInt (rs_ProjectionRevision s)),
        (''local_executor_policy_revision'', JInt (rs_LocalExecutorPolicyRevision s)),
        (''staged_identity_sha256'', JStr (rs_StagedIdentitySHA256 s)),
        (''previous_identity_sha256'', JStr (rs_PreviousIdentitySHA256 s))] @
        str_opt ''active_identity_sha256'' (rs_ActiveIdentitySHA256 s) @
        [(''local_executor_policy_sha256'', JStr (rs_LocalExecutorPolicySHA256 s)),
         (''executor_version'', JStr (rs_ExecutorVersion s)),
         (''executor_protocol_version'', JInt (rs_ExecutorProtocolVersion s)),
         (''mutation_protocol_version'', JInt (rs_MutationProtocolVersion s))] @
        str_opt ''local_stage_receipt_id'' (rs_LocalStageReceiptID s)),
      time_field ''staged_expires_at'' (rs_StagedExpiresAt s),
      Some ([(''previous_runtime_token_sha256'', JStr (rs_previousRuntimeTokenSHA256 s))] @
        str_opt ''staged_runtime_token_sha256'' (rs_stagedRuntimeTokenSHA256 s) @
        str_opt ''active_runtime_token_sha256'' (rs_activeRuntimeTokenSHA256 s) @
        [(''service_name'', JStr (rs_serviceName s))])])"

section \<open>Requests and answers of the panel\<close>

text \<open>
  The fields of \<open>LocalExecutorRequest\<close> a runtime-credential operation may carry;
  \<open>cq_foreign_fields\<close> says that a field of another operation is present.
\<close>

record credential_request =
  cq_Version :: int
  cq_Operation :: string
  cq_ServiceID :: string
  cq_RuntimeCredential :: "RuntimeCredentialMutation option"
  cq_SourcePolicyRevision :: int
  cq_OwnershipEpoch :: int
  cq_OwnershipPolicyRevision :: int
  cq_ExecutorPolicyRevision :: int
  cq_foreign_fields :: bool

text \<open>\<open>LocalExecutorRequest.Validate\<close> on the operations of the runtime credential.\<close>

definition credential_request_Validate :: "credential_request \<Rightarrow> go_error option" where
  "credential_request_Validate r =
     (if cq_ServiceID r \<noteq> TrimSpace (cq_ServiceID r) \<or> \<not> MatchString identifierPattern (cq_ServiceID r)
      then errNew ''local executor service_id is invalid''
      else if cq_Operation r = ''runtime_credential_status''
      then (if cq_Version r \<noteq> LocalExecutorMutationProtocolVersion \<or> cq_foreign_fields r \<or>
               cq_RuntimeCredential r \<noteq> None \<or> cq_SourcePolicyRevision r \<noteq> 0 \<or> cq_OwnershipEpoch r \<noteq> 0 \<or>
               cq_OwnershipPolicyRevision r \<noteq> 0 \<or> cq_ExecutorPolicyRevision r \<noteq> 0
            then errNew ''local executor runtime credential status request is invalid'' else None)
      else if cq_Operation r \<in> {''runtime_credential_prepare'', ''runtime_credential_stage'',
         ''runtime_credential_proof_ready'', ''runtime_credential_activate'',
         ''runtime_credential_cancel'', ''runtime_credential_finalize''}
      then (case cq_RuntimeCredential r of
          None \<Rightarrow> errNew ''local executor runtime credential binding is invalid''
        | Some m \<Rightarrow>
            if cq_Version r \<noteq> LocalExecutorMutationProtocolVersion \<or> cq_foreign_fields r \<or>
               cq_SourcePolicyRevision r < 1 \<or> cq_OwnershipEpoch r < 1 \<or>
               cq_OwnershipPolicyRevision r < 1 \<or> cq_ExecutorPolicyRevision r < 1
            then errNew ''local executor runtime credential binding is invalid''
            else RuntimeCredentialMutation_validate m (cq_Operation r))
      else errNew ''unsupported local executor operation'')"

definition runtimeCredentialRequestMatchesStatus ::
  "credential_request \<Rightarrow> RuntimeCredentialMutation \<Rightarrow> RuntimeCredentialStatus \<Rightarrow> bool" where
  "runtimeCredentialRequestMatchesStatus r m s \<longleftrightarrow>
     cq_ServiceID r = rs_ServiceID s \<and> cm_RotationID m = rs_RotationID s \<and>
     cm_ExecutionHostID m = rs_ExecutionHostID s \<and> cm_PreviousTokenID m = rs_PreviousTokenID s \<and>
     cm_StagedTokenID m = rs_StagedTokenID s \<and> cq_OwnershipEpoch r = rs_OwnershipEpoch s \<and>
     cq_SourcePolicyRevision r = rs_SourcePolicyRevision s \<and>
     cq_OwnershipPolicyRevision r = rs_ProjectionRevision s \<and>
     cq_ExecutorPolicyRevision r = rs_LocalExecutorPolicyRevision s"

definition errRuntimeCredentialBusy :: go_error where
  "errRuntimeCredentialBusy = NewErr ''runtime credential busy''"
definition errRuntimeCredentialPrecondition :: go_error where
  "errRuntimeCredentialPrecondition = NewErr ''runtime credential precondition failed''"
definition errRuntimeCredentialStateUnavailable :: go_error where
  "errRuntimeCredentialStateUnavailable = NewErr ''runtime credential state unavailable''"

text \<open>\<open>fmt.Errorf("%w: ...", errRuntimeCredentialPrecondition)\<close>.\<close>

definition precondition :: "string \<Rightarrow> go_error" where
  "precondition m = WrapErr errRuntimeCredentialPrecondition m"

definition validateRuntimeCredentialPanelTransition ::
  "HostAgentRuntimeTokenRotation \<Rightarrow> RuntimeCredentialStatus \<Rightarrow> string \<Rightarrow> int \<Rightarrow> go_error option" where
  "validateRuntimeCredentialPanelTransition rotation current expectedStatus expectedRevision =
     (if HostAgentRuntimeTokenRotation_Validate rotation \<noteq> None \<or>
         ro_ID rotation \<noteq> rs_RotationID current \<or>
         ro_ServiceID rotation \<noteq> rs_ServiceID current \<or>
         ro_ExecutionHostID rotation \<noteq> rs_ExecutionHostID current \<or>
         ro_PreviousTokenID rotation \<noteq> rs_PreviousTokenID current \<or>
         ro_StagedTokenID rotation \<noteq> rs_StagedTokenID current \<or>
         ro_ExpectedOwnershipEpoch rotation \<noteq> rs_OwnershipEpoch current \<or>
         ro_ExpectedSourcePolicyRevision rotation \<noteq> rs_SourcePolicyRevision current \<or>
         ro_ExpectedProjectionRevision rotation \<noteq> rs_ProjectionRevision current \<or>
         ro_ExpectedLocalExecutorPolicyRevision rotation \<noteq> rs_LocalExecutorPolicyRevision current \<or>
         ro_Status rotation \<noteq> expectedStatus \<or> ro_Revision rotation \<noteq> expectedRevision
      then Some (precondition ''panel transition binding is invalid'') else None)"

section \<open>Valid records\<close>

text \<open>What \<open>loadStatus\<close> and \<open>saveStatus\<close> require of a record.\<close>

definition status_valid :: "RuntimeCredentialStatus \<Rightarrow> bool" where
  "status_valid s \<longleftrightarrow> RuntimeCredentialStatus_Validate s = None \<and> validateRootTokenBindings s = None"

definition credential_phases :: "string set" where
  "credential_phases = {PhaseClaimPrepared, PhaseStageBound, PhaseStagedCredential, PhaseLocalStaged, PhaseProofReady,
     PhaseActivated, PhaseCancelReady, PhaseCancelled, PhaseExpired, PhaseManualRecovered}"

lemma status_valid_phase: "status_valid s \<Longrightarrow> rs_Phase s \<in> credential_phases"
  by (auto simp: status_valid_def RuntimeCredentialStatus_Validate_def credential_phase_check_def
      credential_phases_def split: if_splits)

lemma status_valid_digests:
  assumes "status_valid s"
  shows "rs_Phase s = PhaseActivated \<Longrightarrow> rs_ActiveIdentitySHA256 s = rs_StagedIdentitySHA256 s"
    and "rs_Phase s \<in> {PhaseCancelReady, PhaseCancelled, PhaseExpired} \<Longrightarrow>
      rs_ActiveIdentitySHA256 s = rs_PreviousIdentitySHA256 s"
    and "1 \<le> rs_RotationRevision s"
  using assms
  by (auto simp: status_valid_def RuntimeCredentialStatus_Validate_def credential_phase_check_def
      credential_binding_invalid_def split: if_splits)

end
