(* ===== verification/Runtime_Credential.thy ===== *)
theory Runtime_Credential
  imports Credential_Status
begin

text \<open>
  The rotation of the host agent's runtime credential as the local executor performs it
  (\<open>runtime_token_rotation_state.go\<close>, \<open>_identity.go\<close>, \<open>_cleanup.go\<close>, \<open>_binding.go\<close>,
  \<open>_reconciliation.go\<close>, \<open>_staging.go\<close>, \<open>_transition.go\<close>, \<open>_executor.go\<close>, \<open>_expiry.go\<close> and
  \<open>_emergency_recovery.go\<close>): a status record in a private file and three fixed identity files,
  the active identity, the staged one and the quarantined one that is being wiped.

  The runtime is the production one: fixed paths, ownership required, no test hooks, the calls to
  the panel being the two functions of the default runtime. The executor holds the host lifecycle
  lock, so no file changes between two of its calls and the comparisons of a file with itself
  (\<open>os.SameFile\<close>, the second checks of an opened file) hold. Files appear under their name in one
  step, the rename; the three wordings of the error of a rename are one error here. Strings are
  valid UTF-8, so encoding a status does not change them.
\<close>

section \<open>The world\<close>

text \<open>
  An identity file has its metadata (\<open>root_owned\<close>: owned by user 0), its group, its modification
  time and its bytes. The metadata of the state file and of its directory count as
  \<open>root_owned\<close> when user and group are both 0. \<open>rc_parents\<close> are the directories above the identity
  directory. Besides the disk the world has the readings of the clock, the time the file system
  stamps files with, the answers the panel will give, and the calls it has answered.
\<close>

record identity_file =
  id_meta :: file_meta
  id_gid :: int
  id_mtime :: gotime
  id_bytes :: string

datatype panel_call = AcknowledgeStage string int string | ActivateToken string int string

record rc_world = io_world +
  rc_state :: "RuntimeCredentialStatus disk_file"
  rc_state_dir :: "file_meta option"
  rc_dir :: "(file_meta \<times> int) option"
  rc_parents :: "file_meta option list"
  rc_active :: "identity_file option"
  rc_staged :: "identity_file option"
  rc_wiping :: "identity_file option"
  rc_times :: "gotime list"
  rc_stamp :: gotime
  rc_panel :: "HostAgentRuntimeTokenRotation result list"
  rc_calls :: "(panel_call \<times> HostAgentRuntimeTokenRotation result) list"

type_synonym 'a rc_prog = "(rc_world, 'a) prog"

datatype slot = Active | Staged

primrec slot_get :: "slot \<Rightarrow> rc_world \<Rightarrow> identity_file option" where
  "slot_get Active w = rc_active w"
| "slot_get Staged w = rc_staged w"

primrec slot_put :: "slot \<Rightarrow> identity_file \<Rightarrow> rc_world \<Rightarrow> rc_world" where
  "slot_put Active f w = w\<lparr>rc_active := Some f\<rparr>"
| "slot_put Staged f w = w\<lparr>rc_staged := Some f\<rparr>"

text \<open>
  The runtime: its paths, its version and the build's, the parsers it calls, and whether an error
  carries a \<open>PanelHTTPError\<close>.
\<close>

record credential_runtime =
  cr_identityDir :: string
  cr_activeIdentity :: string
  cr_stagedIdentity :: string
  cr_wipingIdentity :: string
  cr_statePath :: string
  cr_executorVersion :: string
  cr_build_version :: string
  cr_net :: netlib
  cr_yaml :: yamllib
  cr_is_panel_error :: "go_error \<Rightarrow> bool"

definition runtimeCredentialStateMaxBytes :: int where "runtimeCredentialStateMaxBytes = 65536"
definition runtimeCredentialStagedMaxAge :: duration where "runtimeCredentialStagedMaxAge = 86400000000000"

definition HostAgentIdentityDir :: string where
  "HostAgentIdentityDir = ''/etc/autostream/updater''"
definition HostAgentIdentityPath :: string where
  "HostAgentIdentityPath = ''/etc/autostream/updater/agent.yaml''"
definition HostAgentStagedIdentityPath :: string where
  "HostAgentStagedIdentityPath = ''/etc/autostream/updater/agent.staged.yaml''"
definition HostAgentWipingIdentityPath :: string where
  "HostAgentWipingIdentityPath = ''/etc/autostream/updater/.agent.staged.wipe''"
definition RuntimeCredentialStatePath :: string where
  "RuntimeCredentialStatePath = ''/var/lib/autostream-local-executor/runtime-credential.json''"

definition validatePaths :: "credential_runtime \<Rightarrow> go_error option" where
  "validatePaths rt =
     (if list_ex (\<lambda>p. \<not> IsAbs p \<or> Clean p = ''/'')
         [cr_identityDir rt, cr_activeIdentity rt, cr_stagedIdentity rt, cr_wipingIdentity rt, cr_statePath rt]
      then errNew ''runtime credential path is invalid''
      else if path_Dir (cr_activeIdentity rt) \<noteq> Clean (cr_identityDir rt) \<or>
         path_Dir (cr_stagedIdentity rt) \<noteq> Clean (cr_identityDir rt) \<or>
         path_Dir (cr_wipingIdentity rt) \<noteq> Clean (cr_identityDir rt) \<or>
         cr_activeIdentity rt = cr_stagedIdentity rt \<or> cr_activeIdentity rt = cr_wipingIdentity rt \<or>
         cr_stagedIdentity rt = cr_wipingIdentity rt
      then errNew ''runtime credential identity paths escaped their fixed root''
      else if cr_identityDir rt \<noteq> HostAgentIdentityDir \<or> cr_activeIdentity rt \<noteq> HostAgentIdentityPath \<or>
         cr_stagedIdentity rt \<noteq> HostAgentStagedIdentityPath \<or>
         cr_wipingIdentity rt \<noteq> HostAgentWipingIdentityPath \<or> cr_statePath rt \<noteq> RuntimeCredentialStatePath
      then errNew ''runtime credential paths are not fixed production paths'' else None)"

definition currentTime :: "gotime rc_prog" where
  "currentTime w = (case rc_times w of
      [] \<Rightarrow> (Ok zero_time, w)
    | t # ts \<Rightarrow> (Ok (time_UTC t), w\<lparr>rc_times := ts\<rparr>))"

definition currentExecutorVersion :: "credential_runtime \<Rightarrow> string" where
  "currentExecutorVersion rt =
     (if TrimSpace (cr_executorVersion rt) \<noteq> [] then TrimSpace (cr_executorVersion rt) else cr_build_version rt)"

text \<open>A call to the panel: it may fail without being answered, and every answer is recorded.\<close>

definition panelP :: "panel_call \<Rightarrow> HostAgentRuntimeTokenRotation rc_prog" where
  "panelP call = thenP syscallP (\<lambda>w. case rc_panel w of
      [] \<Rightarrow> (Err OSFailure, w)
    | answer # rest \<Rightarrow>
        ((case answer of Inl e \<Rightarrow> Err e | Inr rotation \<Rightarrow> Ok rotation),
         w\<lparr>rc_panel := rest, rc_calls := rc_calls w @ [(call, answer)]\<rparr>))"

section \<open>The layout of the identity directory\<close>

definition safe_parent :: "file_meta \<Rightarrow> bool" where
  "safe_parent info \<longleftrightarrow> \<not> is_symlink info \<and> is_dir info \<and> root_owned info \<and> and (perm info) 18 = 0"

definition layout_parent :: "(rc_world \<Rightarrow> file_meta option) \<Rightarrow> unit rc_prog" where
  "layout_parent f =
     (let unsafe = NewErr ''Host Agent identity parents must be root-owned non-symlink directories without group or other write access'' in
      tryP (lookupP f) (\<lambda>_. failP unsafe) (\<lambda>info. if safe_parent info then returnP () else failP unsafe))"

text \<open>
  \<open>validateHostAgentIdentityWriteLayout\<close> on the fixed identity path: the identity directory and
  the directories above it, then the identity file, which may be missing.
\<close>

definition validateIdentityLayout :: "unit rc_prog" where
  "validateIdentityLayout =
     thenP (layout_parent (\<lambda>w. map_option fst (rc_dir w)))
     (bindP (getP (\<lambda>w. length (rc_parents w))) (\<lambda>n.
      thenP (forP [0..<n] (\<lambda>i. layout_parent (\<lambda>w. if i < length (rc_parents w) then rc_parents w ! i else None)))
      (tryP (lookupP rc_active)
         (\<lambda>err. if errors_Is err NotExist then returnP ()
            else failP (NewErr ''Host Agent identity must be a root-owned non-symlink 0600 or 0640 regular file''))
         (\<lambda>info. if \<not> is_regular (id_meta info) \<or> is_symlink (id_meta info) \<or> \<not> root_owned (id_meta info) \<or>
              (perm (id_meta info) \<noteq> 384 \<and> perm (id_meta info) \<noteq> 416)
            then failP (NewErr ''Host Agent identity must be a root-owned non-symlink 0600 or 0640 regular file'')
            else returnP ()))))"

definition validateIdentityDirectory :: "int \<Rightarrow> unit rc_prog" where
  "validateIdentityDirectory agentGID =
     (let unsafe = NewErr ''Host Agent identity directory must be root:agent-group 0750'' in
      tryP (lookupP rc_dir) (\<lambda>_. failP unsafe) (\<lambda>(info, gid).
        if is_symlink info \<or> \<not> is_dir info \<or> perm info \<noteq> 488 \<or> \<not> root_owned info \<or> gid \<noteq> agentGID
        then failP unsafe else returnP ()))"

section \<open>The identity files\<close>

definition identity_owned :: "identity_file \<Rightarrow> int \<Rightarrow> bool" where
  "identity_owned f agentGID \<longleftrightarrow> root_owned (id_meta f) \<and> id_gid f = agentGID"

definition identity_regular :: "identity_file \<Rightarrow> int \<Rightarrow> bool" where
  "identity_regular f agentGID \<longleftrightarrow>
     \<not> is_symlink (id_meta f) \<and> is_regular (id_meta f) \<and> perm (id_meta f) = 416 \<and> identity_owned f agentGID"

text \<open>The file as it was opened, after the checks of \<open>openVerifiedConfig\<close>.\<close>

definition openP :: "(rc_world \<Rightarrow> identity_file option) \<Rightarrow> identity_file rc_prog" where
  "openP f = mapErrP (\<lambda>_. NewErr ''open Agent identity'') (lookupP f)"

text \<open>The identity, its bytes and its modification time.\<close>

definition loadIdentity :: "credential_runtime \<Rightarrow> slot \<Rightarrow> int \<Rightarrow> (Config \<times> string \<times> gotime) rc_prog" where
  "loadIdentity rt slot agentGID =
     (let unsafe = NewErr ''Host Agent identity must be a bounded root:agent-group 0640 regular file'' in
      thenP (validateIdentityDirectory agentGID)
      (tryP (lookupP (slot_get slot)) (\<lambda>_. failP unsafe) (\<lambda>info.
        if \<not> identity_regular info agentGID \<or> size_bytes (id_meta info) \<le> 0 \<or>
           size_bytes (id_meta info) > configMaxBytes
        then failP unsafe
        else bindP (openP (slot_get slot)) (\<lambda>file.
          tryP syscallP (\<lambda>_. failP (NewErr ''read Host Agent identity'')) (\<lambda>_.
            if id_bytes file = [] \<or> int (length (id_bytes file)) > configMaxBytes
            then failP (NewErr ''read Host Agent identity'')
            else bindP (resultP (decodeManagedBootstrapConfig (cr_net rt) (cr_yaml rt) (id_bytes file)))
              (\<lambda>identity. returnP (identity, id_bytes file, id_mtime file)))))))"

definition new_identity :: "int \<Rightarrow> string \<Rightarrow> gotime \<Rightarrow> identity_file" where
  "new_identity agentGID data stamp =
     \<lparr>id_meta = regular_meta 416 data, id_gid = agentGID, id_mtime = stamp, id_bytes = data\<rparr>"

definition writeIdentityAtomic :: "slot \<Rightarrow> string \<Rightarrow> int \<Rightarrow> bool \<Rightarrow> unit rc_prog" where
  "writeIdentityAtomic slot data agentGID replace =
     thenP (validateIdentityDirectory agentGID)
     (if data = [] \<or> int (length data) > configMaxBytes
      then failP (NewErr ''runtime credential identity payload is invalid'')
      else thenP (tryP (lookupP (slot_get slot))
          (\<lambda>err. if errors_Is err NotExist then returnP ()
             else failP (NewErr ''stat Host Agent identity destination''))
          (\<lambda>existing. if \<not> replace then failP errRuntimeCredentialBusy
             else if \<not> identity_regular existing agentGID
             then failP (NewErr ''existing Host Agent identity is unsafe'') else returnP ()))
       (thenP (mapErrP (\<lambda>_. errRuntimeCredentialStateUnavailable) syscallP)
       (thenP (validateIdentityDirectory agentGID)
       (thenP (mapErrP (\<lambda>e. WrapErr e ''install runtime credential identity'')
          (effectP (\<lambda>w. slot_put slot (new_identity agentGID data (rc_stamp w)) w)))
        syscallP))))"

section \<open>The state file\<close>

definition state_secure :: "file_meta \<Rightarrow> bool" where
  "state_secure info \<longleftrightarrow> \<not> is_symlink info \<and> is_regular info \<and> perm info = 384 \<and> root_owned info"

definition loadStatus :: "RuntimeCredentialStatus option rc_prog" where
  "loadStatus =
     tryP (lookupP (\<lambda>w. file_meta_of (rc_state w)))
       (\<lambda>err. if errors_Is err NotExist then returnP None
          else failP (NewErr ''runtime credential metadata is unsafe''))
       (\<lambda>info. if \<not> state_secure info \<or> size_bytes info \<le> 0 \<or> size_bytes info > runtimeCredentialStateMaxBytes
         then failP (NewErr ''runtime credential metadata is unsafe'')
         else tryP (observeP rc_state) (\<lambda>_. failP (NewErr ''open Agent identity'')) (\<lambda>payload.
           thenP (mapErrP (\<lambda>_. NewErr ''read runtime credential metadata'') syscallP)
           (case payload of
             NoFile \<Rightarrow> failP (NewErr ''open Agent identity'')
           | DiskFile _ (Decodes status) \<Rightarrow>
               thenP (checkP (RuntimeCredentialStatus_Validate status))
               (thenP (checkP (validateRootTokenBindings status)) (returnP (Some status)))
           | DiskFile _ (TrailingData _) \<Rightarrow> failP (NewErr ''runtime credential metadata contains trailing data'')
           | DiskFile _ Undecodable \<Rightarrow> failP (NewErr ''decode runtime credential metadata''))))"

definition put_status :: "RuntimeCredentialStatus disk_file \<Rightarrow> rc_world \<Rightarrow> rc_world" where
  "put_status f w = w\<lparr>rc_state := f\<rparr>"

definition saveStatus :: "RuntimeCredentialStatus \<Rightarrow> unit rc_prog" where
  "saveStatus status =
     thenP (checkP (RuntimeCredentialStatus_Validate status))
     (thenP (checkP (validateRootTokenBindings status))
     (tryP (lookupP rc_state_dir) (\<lambda>_. failP (NewErr ''runtime credential state directory is unsafe'')) (\<lambda>info.
        if is_symlink info \<or> \<not> is_dir info \<or> perm info \<noteq> 448 \<or> \<not> root_owned info
        then failP (NewErr ''runtime credential state directory is unsafe'')
        else case credential_payload status of
          None \<Rightarrow> failP (NewErr ''encode runtime credential metadata'')
        | Some data \<Rightarrow>
            if data = [] \<or> int (length data) + 1 > runtimeCredentialStateMaxBytes
            then failP (NewErr ''encode runtime credential metadata'')
            else thenP (mapErrP (\<lambda>_. errRuntimeCredentialStateUnavailable) syscallP)
              (thenP (mapErrP (\<lambda>e. WrapErr e ''install runtime credential metadata'')
                 (effectP (put_status (DiskFile (private_file (int (length data) + 1)) (Decodes status)))))
               syscallP))))"

definition removeState :: "unit rc_prog" where
  "removeState =
     tryP (lookupP (\<lambda>w. file_meta_of (rc_state w)))
       (\<lambda>err. if errors_Is err NotExist then returnP ()
          else failP (NewErr ''runtime credential metadata is unsafe''))
       (\<lambda>info. if \<not> state_secure info then failP (NewErr ''runtime credential metadata is unsafe'')
         else thenP (effectP (put_status NoFile)) syscallP)"

section \<open>Wiping the staged identity\<close>

text \<open>\<open>os.Lstat\<close> whose error is looked at later.\<close>

definition statP :: "(rc_world \<Rightarrow> identity_file option) \<Rightarrow> identity_file result rc_prog" where
  "statP f = tryP (lookupP f) (\<lambda>err. returnP (Inl err)) (\<lambda>info. returnP (Inr info))"

definition missing :: "identity_file result \<Rightarrow> bool" where
  "missing r = (case r of Inl err \<Rightarrow> errors_Is err NotExist | Inr _ \<Rightarrow> False)"

definition stat_failed :: "identity_file result \<Rightarrow> bool" where
  "stat_failed r = (case r of Inl err \<Rightarrow> \<not> errors_Is err NotExist | Inr _ \<Rightarrow> False)"

definition secureStagedIdentityInfo :: "identity_file \<Rightarrow> int \<Rightarrow> bool \<Rightarrow> bool" where
  "secureStagedIdentityInfo f agentGID allowEmpty \<longleftrightarrow>
     \<not> is_symlink (id_meta f) \<and> is_regular (id_meta f) \<and> perm (id_meta f) = 416 \<and>
     size_bytes (id_meta f) \<le> configMaxBytes \<and> (allowEmpty \<or> 0 < size_bytes (id_meta f)) \<and>
     identity_owned f agentGID"

definition identityCleanupComplete :: "bool rc_prog" where
  "identityCleanupComplete =
     bindP (statP rc_staged) (\<lambda>staged. bindP (statP rc_wiping) (\<lambda>wiping.
       returnP (missing staged \<and> missing wiping)))"

text \<open>\<open>errors.Join\<close> of what went wrong so far with the error of a further step.\<close>

definition joinP :: "go_error option \<Rightarrow> unit rc_prog \<Rightarrow> string \<Rightarrow> go_error option rc_prog" where
  "joinP acc m msg = tryP m
     (\<lambda>_. returnP (Some (case acc of None \<Rightarrow> NewErr msg | Some e \<Rightarrow> JoinErr e (NewErr msg))))
     (\<lambda>_. returnP acc)"

definition zero_range :: "nat \<Rightarrow> nat \<Rightarrow> string \<Rightarrow> string" where
  "zero_range off n old = take off old @ replicate n (CHR 0x00) @ drop (off + n) old"

definition on_wiping :: "(string \<Rightarrow> string) \<Rightarrow> rc_world \<Rightarrow> rc_world" where
  "on_wiping g w = w\<lparr>rc_wiping := map_option (\<lambda>f. f\<lparr>id_bytes := g (id_bytes f),
     id_meta := (id_meta f)\<lparr>size_bytes := int (length (g (id_bytes f)))\<rparr>\<rparr>) (rc_wiping w)\<rparr>"

text \<open>The loop that overwrites the file with zeroes, in chunks of 32 KiB.\<close>

function overwriteP :: "nat \<Rightarrow> nat \<Rightarrow> unit rc_prog" where
  "overwriteP off remaining =
     (if remaining = 0 then returnP ()
      else let chunk = min remaining 32768 in
        thenP (effectP (on_wiping (zero_range off chunk))) (overwriteP (off + chunk) (remaining - chunk)))"
  by auto
termination
  by (relation "measure snd") auto

declare overwriteP.simps [simp del]

definition wipeContents :: "nat \<Rightarrow> go_error option rc_prog" where
  "wipeContents len =
     bindP (tryP syscallP (\<lambda>_. returnP (errNew ''seek staged Host Agent identity for cleanup'')) (\<lambda>_.
       bindP (joinP None (overwriteP 0 len) ''overwrite staged Host Agent identity during cleanup'') (\<lambda>e1.
       bindP (joinP e1 syscallP ''sync staged Host Agent identity overwrite'') (\<lambda>e2.
       bindP (joinP e2 (effectP (on_wiping (\<lambda>_. []))) ''truncate staged Host Agent identity during cleanup'') (\<lambda>e3.
       joinP e3 syscallP ''sync staged Host Agent identity truncation'')))))
     (\<lambda>e4. joinP e4 syscallP ''close staged Host Agent identity during cleanup'')"

definition quarantine :: "rc_world \<Rightarrow> rc_world" where
  "quarantine w = w\<lparr>rc_staged := None, rc_wiping := rc_staged w\<rparr>"

text \<open>The first half moves the staged file to the quarantine name and returns what is there.\<close>

definition quarantineStaged :: "int \<Rightarrow> string \<Rightarrow> identity_file \<Rightarrow> identity_file rc_prog" where
  "quarantineStaged agentGID expectedDigest stagedInfo =
     (if \<not> secureStagedIdentityInfo stagedInfo agentGID False
      then failP (NewErr ''staged Host Agent identity is unsafe'')
      else tryP (openP rc_staged) (\<lambda>_. failP (NewErr ''staged Host Agent identity changed before cleanup'')) (\<lambda>file.
        tryP syscallP (\<lambda>_. failP (NewErr ''staged Host Agent identity digest changed before cleanup'')) (\<lambda>_.
          if id_bytes file = [] \<or> int (length (id_bytes file)) > configMaxBytes \<or>
             runtimeCredentialDigest (id_bytes file) \<noteq> expectedDigest
          then failP (NewErr ''staged Host Agent identity digest changed before cleanup'')
          else thenP (mapErrP (\<lambda>_. NewErr ''quarantine staged Host Agent identity for cleanup'') (effectP quarantine))
            (thenP (mapErrP (\<lambda>_. NewErr ''sync Host Agent identity quarantine'') syscallP)
             (mapErrP (\<lambda>_. NewErr ''quarantined Host Agent identity changed during cleanup'')
                (lookupP rc_wiping))))))"

definition wipeQuarantined :: "int \<Rightarrow> identity_file \<Rightarrow> unit rc_prog" where
  "wipeQuarantined agentGID wipingInfo =
     (if \<not> secureStagedIdentityInfo wipingInfo agentGID True
      then failP (NewErr ''quarantined Host Agent identity is unsafe'')
      else thenP syscallP
        (tryP syscallP (\<lambda>_. failP (NewErr ''quarantined Host Agent identity changed before cleanup'')) (\<lambda>_.
         bindP (wipeContents (nat (size_bytes (id_meta wipingInfo)))) (\<lambda>wipeErr.
         tryP (lookupP rc_wiping) (\<lambda>_. failP (NewErr ''quarantined Host Agent identity changed before unlink'')) (\<lambda>_.
         thenP (effectP (\<lambda>w. w\<lparr>rc_wiping := None\<rparr>))
         (bindP (joinP wipeErr syscallP ''sync Host Agent identity directory after cleanup'') checkP))))))"

definition wipeAndRemoveIdentity :: "int \<Rightarrow> string \<Rightarrow> unit rc_prog" where
  "wipeAndRemoveIdentity agentGID expectedDigest =
     bindP (statP rc_staged) (\<lambda>staged. bindP (statP rc_wiping) (\<lambda>wiping.
       if stat_failed staged then failP (NewErr ''stat staged Host Agent identity for cleanup'')
       else if stat_failed wiping then failP (NewErr ''stat quarantined Host Agent identity for cleanup'')
       else case (staged, wiping) of
         (Inr _, Inr _) \<Rightarrow> failP (NewErr ''staged and quarantined Host Agent identities both exist'')
       | (Inl _, Inl _) \<Rightarrow> returnP ()
       | (Inr stagedInfo, Inl _) \<Rightarrow>
           bindP (quarantineStaged agentGID expectedDigest stagedInfo) (wipeQuarantined agentGID)
       | (Inl _, Inr wipingInfo) \<Rightarrow> wipeQuarantined agentGID wipingInfo))"

section \<open>Binding a staged file to the ledger\<close>

definition next_revision :: "RuntimeCredentialStatus \<Rightarrow> int" where
  "next_revision s = wrap_int64 (rs_RotationRevision s + 1)"

definition bindClaimPreparedStagedIdentity ::
  "credential_runtime \<Rightarrow> RuntimeCredentialStatus \<Rightarrow> int \<Rightarrow> string \<Rightarrow> (RuntimeCredentialStatus \<times> bool) rc_prog" where
  "bindClaimPreparedStagedIdentity rt status agentGID panelURL =
     (if rs_Phase status \<noteq> PhaseClaimPrepared
      then failP (NewErr ''runtime credential claim binding phase is invalid'')
      else bindP (statP rc_wiping) (\<lambda>wiping.
        if \<not> missing wiping
        then failP (NewErr ''claim-prepared runtime credential has an unfinished identity wipe'')
        else bindP (statP rc_staged) (\<lambda>stagedStat.
          if missing stagedStat then returnP (status, False)
          else if stat_failed stagedStat then failP (NewErr ''stat claim-prepared staged runtime credential'')
          else tryP (loadIdentity rt Staged agentGID)
            (\<lambda>_. failP (NewErr ''claim-prepared staged runtime credential is unsafe''))
            (\<lambda>(staged, stagedBytes, _).
              let stagedTokenDigest = runtimeCredentialTokenDigest (cf_RuntimeToken staged) in
              if cf_PanelURL staged \<noteq> panelURL \<or> cf_NodeID staged \<noteq> rs_ServiceID status \<or>
                 cf_ServiceName staged \<noteq> rs_serviceName status \<or>
                 \<not> validBoundedSecret (cf_RuntimeToken staged) \<or>
                 stagedTokenDigest = rs_previousRuntimeTokenSHA256 status
              then failP (NewErr ''claim-prepared staged runtime credential is unsafe'')
              else let status' = status\<lparr>rs_Phase := PhaseStagedCredential, rs_RotationRevision := next_revision status,
                     rs_StagedIdentitySHA256 := runtimeCredentialDigest stagedBytes,
                     rs_stagedRuntimeTokenSHA256 := stagedTokenDigest\<rparr> in
                thenP (saveStatus status') (returnP (status', True))))))"

definition bindStageBoundInstalledIdentity ::
  "credential_runtime \<Rightarrow> RuntimeCredentialStatus \<Rightarrow> int \<Rightarrow> string \<Rightarrow> (RuntimeCredentialStatus \<times> bool) rc_prog" where
  "bindStageBoundInstalledIdentity rt status agentGID panelURL =
     (if rs_Phase status \<noteq> PhaseStageBound
      then failP (NewErr ''runtime credential stage-bound phase is invalid'')
      else bindP (statP rc_wiping) (\<lambda>wiping.
        if \<not> missing wiping
        then failP (NewErr ''stage-bound runtime credential has an unfinished identity wipe'')
        else bindP (statP rc_staged) (\<lambda>stagedStat.
          if missing stagedStat then returnP (status, False)
          else if stat_failed stagedStat then failP (NewErr ''stat stage-bound runtime credential'')
          else tryP (loadIdentity rt Staged agentGID)
            (\<lambda>_. failP (NewErr ''stage-bound runtime credential file changed''))
            (\<lambda>(staged, stagedBytes, _).
              if cf_NodeID staged \<noteq> rs_ServiceID status \<or> cf_ServiceName staged \<noteq> rs_serviceName status \<or>
                 (panelURL \<noteq> [] \<and> cf_PanelURL staged \<noteq> panelURL) \<or>
                 runtimeCredentialDigest stagedBytes \<noteq> rs_StagedIdentitySHA256 status \<or>
                 runtimeCredentialTokenDigest (cf_RuntimeToken staged) \<noteq> rs_stagedRuntimeTokenSHA256 status
              then failP (NewErr ''stage-bound runtime credential file changed'')
              else let status' = status\<lparr>rs_Phase := PhaseStagedCredential\<rparr> in
                thenP (saveStatus status') (returnP (status', True))))))"

definition cleanupExpiredOrphanedStagedIdentity :: "credential_runtime \<Rightarrow> int \<Rightarrow> unit rc_prog" where
  "cleanupExpiredOrphanedStagedIdentity rt agentGID =
     thenP (bindP (statP rc_wiping) (\<lambda>wiping.
        if stat_failed wiping then failP (NewErr ''stat orphaned Host Agent identity wipe'')
        else if missing wiping then returnP () else wipeAndRemoveIdentity agentGID []))
     (bindP (statP rc_staged) (\<lambda>stagedStat.
        if missing stagedStat then returnP ()
        else if stat_failed stagedStat then failP (NewErr ''stat orphaned staged Host Agent identity'')
        else bindP (loadIdentity rt Staged agentGID) (\<lambda>(staged, stagedBytes, modTime).
          bindP currentTime (\<lambda>now.
            if time_Before now (time_Add (time_UTC modTime) runtimeCredentialStagedMaxAge) then returnP ()
            else tryP (loadIdentity rt Active agentGID)
              (\<lambda>_. failP (NewErr ''expired orphaned staged Host Agent identity is unsafe''))
              (\<lambda>(active, _, _).
                if cf_PanelURL staged \<noteq> cf_PanelURL active \<or> cf_NodeID staged \<noteq> cf_NodeID active \<or>
                   cf_ServiceName staged \<noteq> cf_ServiceName active \<or>
                   cf_RuntimeToken staged = cf_RuntimeToken active
                then failP (NewErr ''expired orphaned staged Host Agent identity is unsafe'')
                else wipeAndRemoveIdentity agentGID (runtimeCredentialDigest stagedBytes))))))"

section \<open>Reconciliation\<close>

text \<open>Whether the staged lifetime is over, and the tombstone that ends it.\<close>

definition pastExpiry :: "RuntimeCredentialStatus \<Rightarrow> bool rc_prog" where
  "pastExpiry status = bindP currentTime (\<lambda>now. returnP (\<not> time_Before now (rs_StagedExpiresAt status)))"

definition expired_status :: "RuntimeCredentialStatus \<Rightarrow> RuntimeCredentialStatus" where
  "expired_status s = s\<lparr>rs_Phase := PhaseExpired, rs_ActiveIdentitySHA256 := rs_PreviousIdentitySHA256 s,
     rs_activeRuntimeTokenSHA256 := rs_previousRuntimeTokenSHA256 s\<rparr>"

definition activated_status :: "RuntimeCredentialStatus \<Rightarrow> int \<Rightarrow> RuntimeCredentialStatus" where
  "activated_status s revision = s\<lparr>rs_Phase := PhaseActivated, rs_RotationRevision := revision,
     rs_ActiveIdentitySHA256 := rs_StagedIdentitySHA256 s,
     rs_activeRuntimeTokenSHA256 := rs_stagedRuntimeTokenSHA256 s\<rparr>"

text \<open>The expiry check: the status that holds afterwards.\<close>

definition expireStaged ::
  "int \<Rightarrow> RuntimeCredentialStatus \<Rightarrow> bool \<Rightarrow> RuntimeCredentialStatus rc_prog" where
  "expireStaged agentGID status stagedExists =
     bindP (pastExpiry status) (\<lambda>late.
       if \<not> late then returnP status
       else let status' = expired_status status in
         thenP (saveStatus status')
         (thenP (if stagedExists then wipeAndRemoveIdentity agentGID (rs_StagedIdentitySHA256 status')
                 else returnP ())
          (returnP status')))"

definition activeDigestP :: "credential_runtime \<Rightarrow> int \<Rightarrow> string \<Rightarrow> string \<Rightarrow> Config rc_prog" where
  "activeDigestP rt agentGID digest msg =
     tryP (loadIdentity rt Active agentGID) (\<lambda>_. failP (NewErr msg)) (\<lambda>(active, activeBytes, _).
       if runtimeCredentialDigest activeBytes \<noteq> digest then failP (NewErr msg) else returnP active)"

text \<open>
  In the claim-prepared case the status bound to the staged file, and its expiry, are assigned to
  variables of the case clause (\<open>:=\<close> declares them there); the function returns the status it
  loaded.
\<close>

definition reconcile_claim_prepared ::
  "credential_runtime \<Rightarrow> int \<Rightarrow> RuntimeCredentialStatus \<Rightarrow> RuntimeCredentialStatus rc_prog" where
  "reconcile_claim_prepared rt agentGID status =
     bindP (activeDigestP rt agentGID (rs_PreviousIdentitySHA256 status)
       ''claim-prepared runtime credential active identity changed'') (\<lambda>active.
     bindP (statP rc_wiping) (\<lambda>wiping.
       if \<not> missing wiping
       then failP (NewErr ''claim-prepared runtime credential has an unfinished identity wipe'')
       else bindP (bindClaimPreparedStagedIdentity rt status agentGID (cf_PanelURL active))
         (\<lambda>(inner, stagedExists). bindP (expireStaged agentGID inner stagedExists) (\<lambda>_. returnP status))))"

text \<open>The same holds of the stage-bound case.\<close>

definition reconcile_stage_bound ::
  "credential_runtime \<Rightarrow> int \<Rightarrow> RuntimeCredentialStatus \<Rightarrow> RuntimeCredentialStatus rc_prog" where
  "reconcile_stage_bound rt agentGID status =
     bindP (activeDigestP rt agentGID (rs_PreviousIdentitySHA256 status)
       ''active runtime credential changed before stage-bound replay'') (\<lambda>_.
     bindP (bindStageBoundInstalledIdentity rt status agentGID [])
       (\<lambda>(inner, stagedExists). bindP (expireStaged agentGID inner stagedExists) (\<lambda>_. returnP status)))"

definition reconcile_staged ::
  "credential_runtime \<Rightarrow> int \<Rightarrow> RuntimeCredentialStatus \<Rightarrow> RuntimeCredentialStatus rc_prog" where
  "reconcile_staged rt agentGID status =
     bindP (activeDigestP rt agentGID (rs_PreviousIdentitySHA256 status)
       ''active runtime credential changed before staged replay'') (\<lambda>_.
     bindP (bindP (statP rc_staged) (\<lambda>stagedStat.
         if missing stagedStat then returnP False
         else if stat_failed stagedStat then failP (NewErr ''stat staged runtime credential during replay'')
         else tryP (loadIdentity rt Staged agentGID)
           (\<lambda>_. failP (NewErr ''staged runtime credential state is inconsistent''))
           (\<lambda>(_, stagedBytes, _). if runtimeCredentialDigest stagedBytes \<noteq> rs_StagedIdentitySHA256 status
              then failP (NewErr ''staged runtime credential state is inconsistent'') else returnP True)))
     (\<lambda>stagedExists. bindP (statP rc_wiping) (\<lambda>wiping.
       if \<not> missing wiping
       then failP (NewErr ''staged runtime credential has an unfinished identity wipe'')
       else expireStaged agentGID status stagedExists)))"

definition reconcile_local_staged ::
  "credential_runtime \<Rightarrow> int \<Rightarrow> RuntimeCredentialStatus \<Rightarrow> RuntimeCredentialStatus rc_prog" where
  "reconcile_local_staged rt agentGID status =
     tryP (loadIdentity rt Staged agentGID)
       (\<lambda>_. failP (NewErr ''staged runtime credential state is inconsistent''))
       (\<lambda>(_, stagedBytes, _).
         if runtimeCredentialDigest stagedBytes \<noteq> rs_StagedIdentitySHA256 status
         then failP (NewErr ''staged runtime credential state is inconsistent'')
         else bindP (loadIdentity rt Active agentGID) (\<lambda>(_, activeBytes, _).
           let activeDigest = runtimeCredentialDigest activeBytes in
           if rs_Phase status = PhaseProofReady \<and> activeDigest = rs_StagedIdentitySHA256 status
           then let status' = activated_status status (next_revision status) in
             thenP (saveStatus status')
             (thenP (wipeAndRemoveIdentity agentGID (rs_StagedIdentitySHA256 status')) (returnP status'))
           else if activeDigest \<noteq> rs_PreviousIdentitySHA256 status
           then failP (NewErr ''active runtime credential changed before staged expiry'')
           else expireStaged agentGID status True))"

text \<open>The phases after which only the cleanup is left.\<close>

definition reconcile_finished ::
  "credential_runtime \<Rightarrow> int \<Rightarrow> RuntimeCredentialStatus \<Rightarrow> string \<Rightarrow> string \<Rightarrow> RuntimeCredentialStatus rc_prog" where
  "reconcile_finished rt agentGID status digest msg =
     bindP (activeDigestP rt agentGID digest msg) (\<lambda>_.
     thenP (wipeAndRemoveIdentity agentGID (rs_StagedIdentitySHA256 status)) (returnP status))"

definition loadAndReconcileStatus :: "credential_runtime \<Rightarrow> int \<Rightarrow> RuntimeCredentialStatus option rc_prog" where
  "loadAndReconcileStatus rt agentGID =
     bindP loadStatus (\<lambda>loaded. case loaded of
       None \<Rightarrow> thenP (cleanupExpiredOrphanedStagedIdentity rt agentGID) (returnP None)
     | Some status \<Rightarrow>
         bindP (if rs_Phase status = PhaseClaimPrepared then reconcile_claim_prepared rt agentGID status
           else if rs_Phase status = PhaseStageBound then reconcile_stage_bound rt agentGID status
           else if rs_Phase status = PhaseStagedCredential then reconcile_staged rt agentGID status
           else if rs_Phase status = PhaseLocalStaged \<or> rs_Phase status = PhaseProofReady
           then reconcile_local_staged rt agentGID status
           else if rs_Phase status = PhaseActivated
           then reconcile_finished rt agentGID status (rs_ActiveIdentitySHA256 status)
             ''active runtime credential state is inconsistent''
           else if rs_Phase status = PhaseCancelReady
           then bindP (reconcile_finished rt agentGID status (rs_PreviousIdentitySHA256 status)
               ''cancel-ready runtime credential active identity changed'') (\<lambda>status'.
             bindP identityCleanupComplete (\<lambda>complete.
               if complete then returnP status'
               else failP (NewErr ''cancel-ready runtime credential cleanup is incomplete'')))
           else if rs_Phase status = PhaseExpired
           then reconcile_finished rt agentGID status (rs_PreviousIdentitySHA256 status)
             ''expired runtime credential active identity changed''
           else if rs_Phase status = PhaseManualRecovered
           then reconcile_finished rt agentGID status (rs_ActiveIdentitySHA256 status)
             ''manually recovered runtime credential active identity changed''
           else returnP status)
         (\<lambda>status'. returnP (Some status')))"

definition reconcileRuntimeCredentialExpiry :: "credential_runtime \<Rightarrow> int \<Rightarrow> unit rc_prog" where
  "reconcileRuntimeCredentialExpiry rt agentGID =
     thenP validateIdentityLayout (bindP (loadAndReconcileStatus rt agentGID) (\<lambda>_. validateIdentityLayout))"

end
