(* ===== verification/Credential_Operations.thy ===== *)
theory Credential_Operations
  imports Runtime_Credential
begin

text \<open>
  The operations on the runtime credential a request can ask for
  (\<open>runtime_token_rotation_staging.go\<close>, \<open>runtime_token_rotation_transition.go\<close>), their dispatch
  (\<open>runtime_token_rotation_executor.go\<close>) and the recovery an operator starts
  (\<open>runtime_token_rotation_emergency_recovery.go\<close>). Every operation gets the status the
  reconciliation returned, \<open>None\<close> when there is none.
\<close>

section \<open>Prepare and stage\<close>

definition prepare_credential ::
  "credential_runtime \<Rightarrow> LocalExecutorPolicy \<Rightarrow> credential_request \<Rightarrow> RuntimeCredentialMutation \<Rightarrow> Config \<Rightarrow> string \<Rightarrow>
     RuntimeCredentialStatus option \<Rightarrow> RuntimeCredentialStatus rc_prog" where
  "prepare_credential rt policy r m active activeBytes current =
     (if cm_RotationRevision m \<noteq> 1 then failP (precondition ''initial rotation revision is required'')
      else case current of
        Some s \<Rightarrow>
          if rs_Phase s = PhaseClaimPrepared \<and> rs_RotationRevision s = cm_RotationRevision m
          then returnP s else failP errRuntimeCredentialBusy
      | None \<Rightarrow> bindP (statP rc_staged) (\<lambda>stagedStat.
          if \<not> missing stagedStat
          then (if stat_failed stagedStat
                then failP (NewErr ''stat staged runtime credential before claim preparation'')
                else failP errRuntimeCredentialBusy)
          else bindP (resultP (policy_SHA256 policy)) (\<lambda>policySHA256.
            bindP currentTime (\<lambda>now.
            let s = \<lparr>rs_SchemaVersion = runtimeCredentialStateSchemaVersion, rs_Phase = PhaseClaimPrepared,
              rs_RotationID = cm_RotationID m, rs_ServiceID = cq_ServiceID r,
              rs_ExecutionHostID = cm_ExecutionHostID m, rs_PreviousTokenID = cm_PreviousTokenID m,
              rs_StagedTokenID = cm_StagedTokenID m, rs_RotationRevision = cm_RotationRevision m,
              rs_OwnershipEpoch = cq_OwnershipEpoch r, rs_SourcePolicyRevision = cq_SourcePolicyRevision r,
              rs_ProjectionRevision = cq_OwnershipPolicyRevision r,
              rs_LocalExecutorPolicyRevision = cq_ExecutorPolicyRevision r,
              rs_StagedIdentitySHA256 = runtimeCredentialDigest [],
              rs_PreviousIdentitySHA256 = runtimeCredentialDigest activeBytes,
              rs_ActiveIdentitySHA256 = [], rs_LocalExecutorPolicySHA256 = policySHA256,
              rs_ExecutorVersion = currentExecutorVersion rt,
              rs_ExecutorProtocolVersion = LocalExecutorMutationProtocolVersion,
              rs_MutationProtocolVersion = LocalExecutorMutationProtocolVersion, rs_LocalStageReceiptID = [],
              rs_StagedExpiresAt = time_Add now runtimeCredentialStagedMaxAge,
              rs_previousRuntimeTokenSHA256 = runtimeCredentialTokenDigest (cf_RuntimeToken active),
              rs_stagedRuntimeTokenSHA256 = [], rs_activeRuntimeTokenSHA256 = [],
              rs_serviceName = cf_ServiceName active\<rparr> in
            thenP (saveStatus s) (returnP s)))))"

text \<open>The status a stage request starts from when there is none.\<close>

definition unprepared_stage_status ::
  "credential_runtime \<Rightarrow> credential_request \<Rightarrow> RuntimeCredentialMutation \<Rightarrow> Config \<Rightarrow> string \<Rightarrow> string \<Rightarrow> string \<Rightarrow>
     gotime \<Rightarrow> string \<Rightarrow> RuntimeCredentialStatus" where
  "unprepared_stage_status rt r m active activeBytes stagedDigest stagedTokenDigest now policySHA256 =
     \<lparr>rs_SchemaVersion = runtimeCredentialStateSchemaVersion, rs_Phase = PhaseStageBound,
      rs_RotationID = cm_RotationID m, rs_ServiceID = cq_ServiceID r,
      rs_ExecutionHostID = cm_ExecutionHostID m, rs_PreviousTokenID = cm_PreviousTokenID m,
      rs_StagedTokenID = cm_StagedTokenID m, rs_RotationRevision = cm_RotationRevision m,
      rs_OwnershipEpoch = cq_OwnershipEpoch r, rs_SourcePolicyRevision = cq_SourcePolicyRevision r,
      rs_ProjectionRevision = cq_OwnershipPolicyRevision r,
      rs_LocalExecutorPolicyRevision = cq_ExecutorPolicyRevision r,
      rs_StagedIdentitySHA256 = stagedDigest,
      rs_PreviousIdentitySHA256 = runtimeCredentialDigest activeBytes,
      rs_ActiveIdentitySHA256 = [], rs_LocalExecutorPolicySHA256 = policySHA256,
      rs_ExecutorVersion = currentExecutorVersion rt,
      rs_ExecutorProtocolVersion = LocalExecutorMutationProtocolVersion,
      rs_MutationProtocolVersion = LocalExecutorMutationProtocolVersion, rs_LocalStageReceiptID = [],
      rs_StagedExpiresAt = time_Add now runtimeCredentialStagedMaxAge,
      rs_previousRuntimeTokenSHA256 = runtimeCredentialTokenDigest (cf_RuntimeToken active),
      rs_stagedRuntimeTokenSHA256 = stagedTokenDigest, rs_activeRuntimeTokenSHA256 = [],
      rs_serviceName = cf_ServiceName active\<rparr>"

text \<open>
  The phases a stage request may meet: \<open>Inl\<close> an error, \<open>Inr (Some s)\<close> a status that is
  answered as it is, \<open>Inr None\<close> that the staged identity is to be installed.
\<close>

definition stage_entry :: "RuntimeCredentialMutation \<Rightarrow> RuntimeCredentialStatus option \<Rightarrow> RuntimeCredentialStatus option result" where
  "stage_entry m current =
     (if cm_RotationRevision m \<noteq> 2 then Inl (precondition ''claim revision is required'')
      else case current of None \<Rightarrow> Inr None
      | Some s \<Rightarrow>
          if rs_Phase s = PhaseClaimPrepared
          then (if next_revision s \<noteq> cm_RotationRevision m
                then Inl (precondition ''prepared claim revision changed'') else Inr None)
          else if rs_Phase s \<in> {PhaseLocalStaged, PhaseProofReady, PhaseActivated} then Inr (Some s)
          else if rs_Phase s = PhaseStageBound \<or> rs_Phase s = PhaseStagedCredential
          then (if rs_RotationRevision s \<noteq> cm_RotationRevision m
                then Inl (precondition ''staged revision changed'') else Inr None)
          else Inl errRuntimeCredentialBusy)"

definition replay_changed ::
  "RuntimeCredentialStatus option \<Rightarrow> Config \<Rightarrow> string \<Rightarrow> string \<Rightarrow> string \<Rightarrow> bool" where
  "replay_changed current active activeBytes stagedDigest stagedTokenDigest =
     (case current of None \<Rightarrow> False | Some s \<Rightarrow>
        (rs_Phase s = PhaseStageBound \<or> rs_Phase s = PhaseStagedCredential) \<and>
        (rs_StagedIdentitySHA256 s \<noteq> stagedDigest \<or> rs_stagedRuntimeTokenSHA256 s \<noteq> stagedTokenDigest \<or>
         rs_PreviousIdentitySHA256 s \<noteq> runtimeCredentialDigest activeBytes \<or>
         rs_previousRuntimeTokenSHA256 s \<noteq> runtimeCredentialTokenDigest (cf_RuntimeToken active) \<or>
         rs_serviceName s \<noteq> cf_ServiceName active))"

text \<open>Whether the staged file is there already; it must then be the one to be installed.\<close>

definition stagedAlreadyP :: "credential_runtime \<Rightarrow> int \<Rightarrow> string \<Rightarrow> bool rc_prog" where
  "stagedAlreadyP rt agentGID stagedBytes =
     bindP (statP rc_staged) (\<lambda>stagedStat.
       if missing stagedStat then returnP False
       else if stat_failed stagedStat then failP (NewErr ''stat staged runtime credential before install'')
       else tryP (loadIdentity rt Staged agentGID)
         (\<lambda>_. failP (NewErr ''orphaned staged runtime credential does not match claim replay''))
         (\<lambda>(_, existing, _). if existing \<noteq> stagedBytes
            then failP (NewErr ''orphaned staged runtime credential does not match claim replay'')
            else returnP True))"

text \<open>The ledger entry that precedes the staged file.\<close>

definition bindStageP ::
  "credential_runtime \<Rightarrow> LocalExecutorPolicy \<Rightarrow> credential_request \<Rightarrow> RuntimeCredentialMutation \<Rightarrow> Config \<Rightarrow> string \<Rightarrow>
     string \<Rightarrow> string \<Rightarrow> RuntimeCredentialStatus option \<Rightarrow> RuntimeCredentialStatus rc_prog" where
  "bindStageP rt policy r m active activeBytes stagedDigest stagedTokenDigest current =
     (case current of
        Some s \<Rightarrow>
          if rs_Phase s = PhaseStageBound \<or> rs_Phase s = PhaseStagedCredential then returnP s
          else let s' = s\<lparr>rs_Phase := PhaseStageBound, rs_RotationRevision := cm_RotationRevision m,
                 rs_StagedIdentitySHA256 := stagedDigest, rs_stagedRuntimeTokenSHA256 := stagedTokenDigest\<rparr> in
            thenP (saveStatus s') (returnP s')
      | None \<Rightarrow> bindP currentTime (\<lambda>now. bindP (resultP (policy_SHA256 policy)) (\<lambda>policySHA256.
          let s' = unprepared_stage_status rt r m active activeBytes stagedDigest stagedTokenDigest now policySHA256 in
          thenP (saveStatus s') (returnP s'))))"

definition installStagedP ::
  "credential_runtime \<Rightarrow> LocalExecutorPolicy \<Rightarrow> credential_request \<Rightarrow> RuntimeCredentialMutation \<Rightarrow> Config \<Rightarrow> string \<Rightarrow>
     string \<Rightarrow> RuntimeCredentialStatus option \<Rightarrow> RuntimeCredentialStatus rc_prog" where
  "installStagedP rt policy r m active activeBytes stagedBytes current =
     (let stagedDigest = runtimeCredentialDigest stagedBytes;
          stagedTokenDigest = runtimeCredentialTokenDigest (cm_RuntimeToken m) in
      if replay_changed current active activeBytes stagedDigest stagedTokenDigest
      then failP (precondition ''staged credential replay changed its root binding'')
      else bindP (statP rc_wiping) (\<lambda>wiping.
        if \<not> missing wiping then failP (NewErr ''runtime credential cleanup is incomplete before staging'')
        else bindP (stagedAlreadyP rt (po_AgentGID policy) stagedBytes) (\<lambda>stagedExists.
          bindP (bindStageP rt policy r m active activeBytes stagedDigest stagedTokenDigest current) (\<lambda>s.
          thenP (if stagedExists then returnP ()
                 else writeIdentityAtomic Staged stagedBytes (po_AgentGID policy) False)
          (tryP (loadIdentity rt Staged (po_AgentGID policy))
             (\<lambda>_. failP (NewErr ''staged runtime credential secure reread failed''))
             (\<lambda>(_, verified, _).
               if verified \<noteq> stagedBytes
               then failP (NewErr ''staged runtime credential secure reread failed'')
               else if rs_Phase s = PhaseStageBound
               then let s' = s\<lparr>rs_Phase := PhaseStagedCredential\<rparr> in thenP (saveStatus s') (returnP s')
               else returnP s))))))"

definition acknowledgeStageP ::
  "credential_runtime \<Rightarrow> LocalExecutorPolicy \<Rightarrow> RuntimeCredentialMutation \<Rightarrow> RuntimeCredentialStatus \<Rightarrow>
     RuntimeCredentialStatus rc_prog" where
  "acknowledgeStageP rt policy m s =
     tryP (loadIdentity rt Staged (po_AgentGID policy))
       (\<lambda>_. failP (NewErr ''staged runtime credential no longer matches durable state''))
       (\<lambda>(_, stagedBytes, _).
         if runtimeCredentialDigest stagedBytes \<noteq> rs_StagedIdentitySHA256 s
         then failP (NewErr ''staged runtime credential no longer matches durable state'')
         else bindP (panelP (AcknowledgeStage (rs_RotationID s) (rs_RotationRevision s) (cm_RuntimeToken m)))
           (\<lambda>rotation.
             thenP (checkP (validateRuntimeCredentialPanelTransition rotation s ''local_staged'' (next_revision s)))
             (let s' = s\<lparr>rs_Phase := PhaseLocalStaged, rs_RotationRevision := ro_Revision rotation,
                    rs_LocalStageReceiptID := ro_LocalStageReceiptID rotation\<rparr> in
              thenP (saveStatus s') (returnP s'))))"

definition stage_credential ::
  "credential_runtime \<Rightarrow> LocalExecutorPolicy \<Rightarrow> credential_request \<Rightarrow> RuntimeCredentialMutation \<Rightarrow> Config \<Rightarrow> string \<Rightarrow>
     RuntimeCredentialStatus option \<Rightarrow> RuntimeCredentialStatus rc_prog" where
  "stage_credential rt policy r m active activeBytes current =
     bindP (resultP (stage_entry m current)) (\<lambda>answer. case answer of
       Some s \<Rightarrow> returnP s
     | None \<Rightarrow>
         if cf_RuntimeToken active = cm_RuntimeToken m
         then failP (precondition ''staged token equals active token'')
         else bindP (resultP (marshalManagedBootstrapConfig (cr_net rt) (cr_yaml rt)
                (active\<lparr>cf_RuntimeToken := cm_RuntimeToken m\<rparr>))) (\<lambda>stagedBytes.
           if stagedBytes = activeBytes then failP (precondition ''staged identity is unchanged'')
           else bindP (installStagedP rt policy r m active activeBytes stagedBytes current)
             (acknowledgeStageP rt policy m)))"

definition markProofReady ::
  "credential_runtime \<Rightarrow> RuntimeCredentialMutation \<Rightarrow> RuntimeCredentialStatus option \<Rightarrow> int \<Rightarrow> RuntimeCredentialStatus rc_prog" where
  "markProofReady rt m current agentGID =
     (case current of
        None \<Rightarrow> failP (precondition ''staged credential is unavailable'')
      | Some s \<Rightarrow>
          if rs_Phase s = PhaseProofReady \<or> rs_Phase s = PhaseActivated
          then (if cm_RotationRevision m \<noteq> rs_RotationRevision s
                then failP (precondition ''proof revision changed'') else returnP s)
          else if rs_Phase s \<noteq> PhaseLocalStaged \<or> cm_RotationRevision m \<noteq> next_revision s
          then failP (precondition ''heartbeat proof revision is invalid'')
          else tryP (loadIdentity rt Staged agentGID)
            (\<lambda>_. failP (NewErr ''staged runtime credential proof input changed''))
            (\<lambda>(_, stagedBytes, _).
              if runtimeCredentialDigest stagedBytes \<noteq> rs_StagedIdentitySHA256 s
              then failP (NewErr ''staged runtime credential proof input changed'')
              else let s' = s\<lparr>rs_Phase := PhaseProofReady, rs_RotationRevision := cm_RotationRevision m\<rparr> in
                thenP (saveStatus s') (returnP s')))"

section \<open>Activate, cancel and finalize\<close>

definition activateCredential ::
  "credential_runtime \<Rightarrow> LocalExecutorPolicy \<Rightarrow> RuntimeCredentialMutation \<Rightarrow> RuntimeCredentialStatus option \<Rightarrow>
     RuntimeCredentialStatus rc_prog" where
  "activateCredential rt policy m current =
     (case current of
        None \<Rightarrow> failP (precondition ''staged credential is unavailable'')
      | Some s \<Rightarrow>
          if rs_Phase s = PhaseActivated then returnP s
          else if rs_Phase s \<noteq> PhaseProofReady \<or> cm_RotationRevision m \<noteq> rs_RotationRevision s
          then failP (precondition ''heartbeat proof is required'')
          else tryP (loadIdentity rt Staged (po_AgentGID policy))
            (\<lambda>_. failP (NewErr ''staged runtime credential activation input changed''))
            (\<lambda>(staged, stagedBytes, _).
              if cf_NodeID staged \<noteq> rs_ServiceID s \<or> Some (cf_PanelURL staged) \<noteq> po_Mutation policy \<or>
                 runtimeCredentialDigest stagedBytes \<noteq> rs_StagedIdentitySHA256 s
              then failP (NewErr ''staged runtime credential activation input changed'')
              else bindP (panelP (ActivateToken (rs_RotationID s) (rs_RotationRevision s) (cf_RuntimeToken staged)))
                (\<lambda>rotation.
                thenP (checkP (validateRuntimeCredentialPanelTransition rotation s ''activated'' (next_revision s)))
                (thenP validateIdentityLayout
                (thenP (writeIdentityAtomic Active stagedBytes (po_AgentGID policy) True)
                (thenP validateIdentityLayout
                (tryP (loadIdentity rt Active (po_AgentGID policy))
                   (\<lambda>_. failP (NewErr ''activated runtime credential secure reread failed''))
                   (\<lambda>(_, activeBytes, _).
                     if runtimeCredentialDigest activeBytes \<noteq> rs_StagedIdentitySHA256 s
                     then failP (NewErr ''activated runtime credential secure reread failed'')
                     else let s' = activated_status s (ro_Revision rotation) in
                       thenP (saveStatus s')
                       (thenP (wipeAndRemoveIdentity (po_AgentGID policy) (rs_StagedIdentitySHA256 s'))
                        (returnP s'))))))))))"

definition cancel_ready_status :: "RuntimeCredentialStatus \<Rightarrow> int \<Rightarrow> RuntimeCredentialStatus" where
  "cancel_ready_status s revision = s\<lparr>rs_Phase := PhaseCancelReady, rs_RotationRevision := revision,
     rs_ActiveIdentitySHA256 := rs_PreviousIdentitySHA256 s,
     rs_activeRuntimeTokenSHA256 := rs_previousRuntimeTokenSHA256 s\<rparr>"

definition cancel_credential ::
  "credential_runtime \<Rightarrow> LocalExecutorPolicy \<Rightarrow> RuntimeCredentialMutation \<Rightarrow> RuntimeCredentialStatus option \<Rightarrow>
     RuntimeCredentialStatus rc_prog" where
  "cancel_credential rt policy m current =
     (case current of
        None \<Rightarrow> failP (precondition ''tracked runtime credential state is unavailable'')
      | Some s \<Rightarrow>
          if rs_Phase s = PhaseActivated then failP (precondition ''activated credential cannot be cancelled'')
          else if cm_RotationRevision m < rs_RotationRevision s then failP (precondition ''cancel revision is stale'')
          else if rs_Phase s = PhaseCancelReady
          then (if cm_RotationRevision m = rs_RotationRevision s then returnP s
                else if cm_RotationRevision m = next_revision s
                then thenP removeState
                  (returnP (s\<lparr>rs_Phase := PhaseCancelled, rs_RotationRevision := cm_RotationRevision m\<rparr>))
                else failP (precondition ''cancel acknowledgement revision is invalid''))
          else if rs_Phase s \<in> {PhaseClaimPrepared, PhaseStageBound, PhaseStagedCredential, PhaseLocalStaged,
             PhaseProofReady, PhaseExpired}
          then (if cm_RotationRevision m \<noteq> next_revision s
                then failP (precondition ''cancel request revision is invalid'')
                else bindP (activeDigestP rt (po_AgentGID policy) (rs_PreviousIdentitySHA256 s)
                    ''previous Host Agent identity changed before cancel'') (\<lambda>_.
                  let s' = cancel_ready_status s (cm_RotationRevision m) in
                  thenP (saveStatus s')
                  (thenP (wipeAndRemoveIdentity (po_AgentGID policy) (rs_StagedIdentitySHA256 s')) (returnP s'))))
          else failP (precondition ''rotation cannot be cancelled from this phase''))"

definition finalize_credential ::
  "credential_runtime \<Rightarrow> LocalExecutorPolicy \<Rightarrow> RuntimeCredentialMutation \<Rightarrow> RuntimeCredentialStatus option \<Rightarrow>
     RuntimeCredentialStatus rc_prog" where
  "finalize_credential rt policy m current =
     (case current of
        None \<Rightarrow> failP (precondition ''terminal runtime credential state is unavailable'')
      | Some s \<Rightarrow>
          if (rs_Phase s \<noteq> PhaseActivated \<and> rs_Phase s \<noteq> PhaseManualRecovered) \<or>
             cm_RotationRevision m \<noteq> rs_RotationRevision s
          then failP (precondition ''terminal runtime credential state is unavailable'')
          else bindP (activeDigestP rt (po_AgentGID policy) (rs_ActiveIdentitySHA256 s)
              ''terminal runtime credential active identity changed'') (\<lambda>_.
            bindP identityCleanupComplete (\<lambda>complete.
              if \<not> complete then failP (NewErr ''terminal runtime credential staged cleanup is incomplete'')
              else thenP removeState (returnP s))))"

section \<open>The handler\<close>

datatype credential_response = CredentialFailure string | CredentialStatus RuntimeCredentialStatus

definition runtimeCredentialResponse :: "RuntimeCredentialStatus \<Rightarrow> credential_response" where
  "runtimeCredentialResponse s =
     (if RuntimeCredentialStatus_Validate s \<noteq> None then CredentialFailure ''internal_error'' else CredentialStatus s)"

definition credential_failure_code :: "credential_runtime \<Rightarrow> go_error \<Rightarrow> string" where
  "credential_failure_code rt err =
     (if errors_Is err errRuntimeCredentialBusy then ''target_busy''
      else if errors_Is err errRuntimeCredentialPrecondition then ''mutation_precondition_failed''
      else if errors_Is err errRuntimeCredentialStateUnavailable then ''state_unavailable''
      else if cr_is_panel_error rt err then ''mutation_precondition_failed''
      else ''state_invalid'')"

definition credential_dispatch ::
  "credential_runtime \<Rightarrow> LocalExecutorPolicy \<Rightarrow> credential_request \<Rightarrow> RuntimeCredentialMutation \<Rightarrow> Config \<Rightarrow> string \<Rightarrow>
     RuntimeCredentialStatus option \<Rightarrow> RuntimeCredentialStatus rc_prog" where
  "credential_dispatch rt policy r m active activeBytes status =
     (if cq_Operation r = ''runtime_credential_prepare''
      then prepare_credential rt policy r m active activeBytes status
      else if cq_Operation r = ''runtime_credential_stage''
      then stage_credential rt policy r m active activeBytes status
      else if cq_Operation r = ''runtime_credential_proof_ready''
      then markProofReady rt m status (po_AgentGID policy)
      else if cq_Operation r = ''runtime_credential_activate'' then activateCredential rt policy m status
      else if cq_Operation r = ''runtime_credential_cancel'' then cancel_credential rt policy m status
      else if cq_Operation r = ''runtime_credential_finalize'' then finalize_credential rt policy m status
      else failP (NewErr ''unsupported runtime credential operation''))"

definition policy_mutates :: "netlib \<Rightarrow> LocalExecutorPolicy \<Rightarrow> bool" where
  "policy_mutates net policy \<longleftrightarrow>
     policy_Validate net policy = None \<and> po_SchemaVersion policy = LocalExecutorMutationPolicySchemaVersion \<and>
     po_ProtocolVersion policy = LocalExecutorMutationProtocolVersion \<and> po_Mutation policy \<noteq> None"

definition credential_mutation ::
  "credential_runtime \<Rightarrow> LocalExecutorPolicy \<Rightarrow> credential_request \<Rightarrow> RuntimeCredentialStatus option \<Rightarrow>
     credential_response rc_prog" where
  "credential_mutation rt policy r status =
     (let mismatch = returnP (CredentialFailure ''config_mismatch'') in
      case cq_RuntimeCredential r of None \<Rightarrow> mismatch
      | Some m \<Rightarrow>
          if cm_ExecutionHostID m \<noteq> po_HostID policy \<or>
             cq_SourcePolicyRevision r \<noteq> po_SourcePolicyRevision policy \<or>
             cq_OwnershipPolicyRevision r \<noteq> po_ProjectionRevision policy \<or>
             cq_ExecutorPolicyRevision r \<noteq> po_PolicyRevision policy
          then mismatch
          else tryP (loadIdentity rt Active (po_AgentGID policy)) (\<lambda>_. mismatch) (\<lambda>(active, activeBytes, _).
            if cf_NodeID active \<noteq> cq_ServiceID r \<or> Some (cf_PanelURL active) \<noteq> po_Mutation policy then mismatch
            else if (case status of None \<Rightarrow> False | Some s \<Rightarrow> \<not> runtimeCredentialRequestMatchesStatus r m s)
            then mismatch
            else tryP (bindP (credential_dispatch rt policy r m active activeBytes status)
                (\<lambda>next. thenP validateIdentityLayout (returnP next)))
              (\<lambda>err. returnP (CredentialFailure (credential_failure_code rt err)))
              (\<lambda>next. returnP (runtimeCredentialResponse next))))"

definition handleLocalExecutorRuntimeCredential ::
  "credential_runtime \<Rightarrow> LocalExecutorPolicy \<Rightarrow> credential_request \<Rightarrow> credential_response rc_prog" where
  "handleLocalExecutorRuntimeCredential rt policy r =
     (if credential_request_Validate r \<noteq> None \<or> \<not> HasPrefix (cq_Operation r) ''runtime_credential_''
      then returnP (CredentialFailure ''invalid_request'')
      else if \<not> policy_mutates (cr_net rt) policy then returnP (CredentialFailure ''policy_invalid'')
      else if validatePaths rt \<noteq> None then returnP (CredentialFailure ''state_unavailable'')
      else tryP validateIdentityLayout (\<lambda>_. returnP (CredentialFailure ''state_invalid'')) (\<lambda>_.
        tryP (loadAndReconcileStatus rt (po_AgentGID policy))
          (\<lambda>_. returnP (CredentialFailure ''state_invalid'')) (\<lambda>status.
          if cq_Operation r = ''runtime_credential_status''
          then (case status of
              None \<Rightarrow> returnP (CredentialFailure ''target_not_found'')
            | Some s \<Rightarrow> if rs_ServiceID s \<noteq> cq_ServiceID r
                then returnP (CredentialFailure ''config_mismatch'')
                else returnP (runtimeCredentialResponse s))
          else credential_mutation rt policy r status)))"

section \<open>Recovery after an emergency revocation\<close>

definition finishEmergencyStagedCleanup :: "int \<Rightarrow> string \<Rightarrow> unit rc_prog" where
  "finishEmergencyStagedCleanup agentGID expectedDigest =
     thenP validateIdentityLayout (thenP (wipeAndRemoveIdentity agentGID expectedDigest) validateIdentityLayout)"

text \<open>The status once a staged file that was installed is bound to it; here it is not shadowed.\<close>

definition emergency_bind ::
  "credential_runtime \<Rightarrow> LocalExecutorPolicy \<Rightarrow> string \<Rightarrow> RuntimeCredentialStatus \<Rightarrow> RuntimeCredentialStatus rc_prog" where
  "emergency_bind rt policy panelURL current =
     bindP (if rs_Phase current = PhaseClaimPrepared
       then mapErrP (\<lambda>_. NewErr ''runtime credential emergency recovery staged binding is invalid'')
         (bindClaimPreparedStagedIdentity rt current (po_AgentGID policy) panelURL)
       else returnP (current, False)) (\<lambda>(s, _).
     bindP (if rs_Phase s = PhaseStageBound
       then mapErrP (\<lambda>_. NewErr ''runtime credential emergency recovery stage-bound file is invalid'')
         (bindStageBoundInstalledIdentity rt s (po_AgentGID policy) panelURL)
       else returnP (s, False)) (\<lambda>(s', _). returnP s'))"

definition emergency_phase_check :: "RuntimeCredentialStatus \<Rightarrow> unit rc_prog" where
  "emergency_phase_check s =
     (if rs_Phase s \<in> {PhaseClaimPrepared, PhaseStageBound, PhaseActivated, PhaseCancelReady, PhaseExpired}
      then returnP ()
      else if rs_Phase s \<in> {PhaseStagedCredential, PhaseLocalStaged, PhaseProofReady}
      then bindP (pastExpiry s) (\<lambda>late. if late then returnP ()
        else failP (NewErr ''runtime credential emergency recovery TTL has not elapsed''))
      else failP (NewErr ''runtime credential state is not emergency-recoverable''))"

text \<open>The replacement an operator installed, checked against the status.\<close>

definition emergency_replaced ::
  "credential_runtime \<Rightarrow> LocalExecutorPolicy \<Rightarrow> string \<Rightarrow> RuntimeCredentialStatus \<Rightarrow> RuntimeCredentialStatus rc_prog" where
  "emergency_replaced rt policy panelURL s =
     tryP (loadIdentity rt Active (po_AgentGID policy))
       (\<lambda>_. failP (NewErr ''replacement Host Agent identity does not match recovery state''))
       (\<lambda>(active, activeBytes, _).
         if cf_NodeID active \<noteq> rs_ServiceID s \<or> cf_PanelURL active \<noteq> panelURL \<or>
            cf_ServiceName active \<noteq> rs_serviceName s \<or> \<not> validBoundedSecret (cf_RuntimeToken active)
         then failP (NewErr ''replacement Host Agent identity does not match recovery state'')
         else let activeDigest = runtimeCredentialDigest activeBytes;
                  activeTokenDigest = runtimeCredentialTokenDigest (cf_RuntimeToken active) in
           if rs_Phase s = PhaseManualRecovered
           then (if activeDigest \<noteq> rs_ActiveIdentitySHA256 s \<or> activeTokenDigest \<noteq> rs_activeRuntimeTokenSHA256 s
                 then failP (NewErr ''manually recovered Host Agent identity changed'')
                 else thenP (finishEmergencyStagedCleanup (po_AgentGID policy) (rs_StagedIdentitySHA256 s))
                   (returnP s))
           else thenP (emergency_phase_check s)
             (if activeDigest = rs_PreviousIdentitySHA256 s \<or> activeDigest = rs_StagedIdentitySHA256 s \<or>
                 activeTokenDigest = rs_previousRuntimeTokenSHA256 s \<or>
                 (rs_stagedRuntimeTokenSHA256 s \<noteq> [] \<and> activeTokenDigest = rs_stagedRuntimeTokenSHA256 s)
              then failP (NewErr ''replacement Host Agent identity still uses a revoked credential slot'')
              else let s' = s\<lparr>rs_Phase := PhaseManualRecovered, rs_ActiveIdentitySHA256 := activeDigest,
                     rs_activeRuntimeTokenSHA256 := activeTokenDigest\<rparr> in
                thenP validateIdentityLayout
                (thenP (saveStatus s')
                (thenP (finishEmergencyStagedCleanup (po_AgentGID policy) (rs_StagedIdentitySHA256 s'))
                 (returnP s')))))"

definition recoverAfterEmergencyManualReconfigure ::
  "credential_runtime \<Rightarrow> LocalExecutorPolicy \<Rightarrow> string \<Rightarrow> RuntimeCredentialStatus rc_prog" where
  "recoverAfterEmergencyManualReconfigure rt policy rotationID =
     (let mismatch = NewErr ''runtime credential emergency recovery state does not match policy'' in
      if rotationID \<noteq> TrimSpace rotationID \<or> \<not> MatchString identifierPattern rotationID \<or>
         validatePaths rt \<noteq> None \<or> \<not> policy_mutates (cr_net rt) policy
      then failP (NewErr ''runtime credential emergency recovery binding is invalid'')
      else thenP validateIdentityLayout
        (tryP loadStatus (\<lambda>_. failP mismatch) (\<lambda>loaded. case loaded of
           None \<Rightarrow> failP mismatch
         | Some current \<Rightarrow>
             if rs_RotationID current \<noteq> rotationID \<or> rs_ExecutionHostID current \<noteq> po_HostID policy \<or>
                rs_SourcePolicyRevision current \<noteq> po_SourcePolicyRevision policy \<or>
                rs_ProjectionRevision current \<noteq> po_ProjectionRevision policy \<or>
                rs_LocalExecutorPolicyRevision current \<noteq> po_PolicyRevision policy
             then failP mismatch
             else if policy_SHA256 policy \<noteq> Inr (rs_LocalExecutorPolicySHA256 current)
             then failP (NewErr ''runtime credential emergency recovery policy digest changed'')
             else let panelURL = the (po_Mutation policy) in
               bindP (emergency_bind rt policy panelURL current) (\<lambda>s.
                 thenP validateIdentityLayout (emergency_replaced rt policy panelURL s)))))"

end
