(* ===== verification/Credential_Safety.thy ===== *)
theory Credential_Safety
  imports Credential_Operations
begin

text \<open>
  What the rotation never does, whatever call fails and wherever the process stops: it replaces
  the active identity only by the staged one and only after the panel has answered that its token
  is active, and it reports a rotation as over only when neither the staged identity file nor a
  quarantined copy of it is left.
\<close>

section \<open>Frames\<close>

text \<open>Programs that only look.\<close>

lemma rc_read_frames [frame]:
  assumes [simp]: "script_free f"
  shows "preserves f validateIdentityLayout" "preserves f (validateIdentityDirectory gid)" "preserves f (openP g)"
    "preserves f (loadIdentity rt slot gid)" "preserves f loadStatus" "preserves f (statP g)"
    "preserves f identityCleanupComplete" "preserves f (activeDigestP rt gid d msg)"
    "preserves f (stagedAlreadyP rt gid b)"
proof -
  have parent: "preserves f (layout_parent g)" for g
    unfolding layout_parent_def by (auto intro!: frame simp: Let_def)
  show "preserves f validateIdentityLayout"
    unfolding validateIdentityLayout_def by (auto intro!: frame parent)
  show dir: "preserves f (validateIdentityDirectory gid)"
    unfolding validateIdentityDirectory_def by (auto intro!: frame simp: Let_def split: prod.splits)
  show op: "preserves f (openP g)" for g
    unfolding openP_def by (auto intro!: frame)
  show load: "preserves f (loadIdentity rt slot gid)" for slot
    unfolding loadIdentity_def by (auto intro!: frame dir op simp: Let_def)
  show "preserves f loadStatus"
    unfolding loadStatus_def by (auto intro!: frame split: disk_file.splits content.splits)
  show stat: "preserves f (statP g)" for g
    unfolding statP_def by (auto intro!: frame)
  show "preserves f identityCleanupComplete"
    unfolding identityCleanupComplete_def by (auto intro!: frame stat)
  show "preserves f (activeDigestP rt gid d msg)"
    unfolding activeDigestP_def by (auto intro!: frame load split: prod.splits)
  show "preserves f (stagedAlreadyP rt gid b)"
    unfolding stagedAlreadyP_def by (auto intro!: frame load stat split: prod.splits)
qed

lemma rc_clock_frame [frame]: "(\<And>w ts. f (w\<lparr>rc_times := ts\<rparr>) = f w) \<Longrightarrow> preserves f currentTime"
  by (auto simp: preserves_def currentTime_def split: list.splits)

lemma rc_expiry_frame [frame]: "(\<And>w ts. f (w\<lparr>rc_times := ts\<rparr>) = f w) \<Longrightarrow> preserves f (pastExpiry s)"
  unfolding pastExpiry_def by (auto intro!: frame)

lemma rc_status_frames [frame]:
  assumes [simp]: "script_free f" "\<And>w x. f (put_status x w) = f w"
  shows "preserves f (saveStatus s)" "preserves f removeState"
  unfolding saveStatus_def removeState_def by (auto intro!: frame split: option.splits)

lemma rc_write_frame [frame]:
  assumes [simp]: "script_free f" "\<And>w x. f (slot_put slot x w) = f w"
  shows "preserves f (writeIdentityAtomic slot b gid replace)"
  unfolding writeIdentityAtomic_def by (auto intro!: frame)

lemma rc_panel_frame [frame]:
  assumes [simp]: "script_free f" "\<And>w p c. f (w\<lparr>rc_panel := p, rc_calls := c\<rparr>) = f w"
  shows "preserves f (panelP call)"
proof -
  have "preserves f (\<lambda>w. case rc_panel w of [] \<Rightarrow> (Err OSFailure, w)
    | answer # rest \<Rightarrow> ((case answer of Inl e \<Rightarrow> Err e | Inr rotation \<Rightarrow> Ok rotation),
         w\<lparr>rc_panel := rest, rc_calls := rc_calls w @ [(call, answer)]\<rparr>))"
    by (auto simp: preserves_def split: list.splits)
  then show ?thesis
    unfolding panelP_def by (auto intro!: frame)
qed

lemma rc_quarantined_frame [frame]:
  assumes [simp]: "script_free f" "\<And>w g. f (w\<lparr>rc_wiping := g\<rparr>) = f w"
  shows "preserves f (wipeContents n)" "preserves f (wipeQuarantined gid info)"
proof -
  have ow: "f (on_wiping g w) = f w" for g w
    by (simp add: on_wiping_def)
  have over: "preserves f (overwriteP off n)" for off n
  proof (induction off n rule: overwriteP.induct)
    case (1 off remaining)
    then show ?case
      by (subst overwriteP.simps) (auto intro!: frame simp: Let_def ow)
  qed
  have join: "preserves f m \<Longrightarrow> preserves f (joinP acc m msg)" for acc m msg
    unfolding joinP_def by (auto intro!: frame)
  show "preserves f (wipeContents n)" for n
    unfolding wipeContents_def by (auto intro!: frame join over simp: ow)
  then show "preserves f (wipeQuarantined gid info)"
    unfolding wipeQuarantined_def by (auto intro!: frame join)
qed

lemma rc_wipe_frame [frame]:
  assumes [simp]: "script_free f" "\<And>w g. f (w\<lparr>rc_wiping := g\<rparr>) = f w" "\<And>w. f (w\<lparr>rc_staged := None\<rparr>) = f w"
  shows "preserves f (wipeAndRemoveIdentity gid d)"
proof -
  have "preserves f (quarantineStaged gid d info)" for info
    unfolding quarantineStaged_def by (auto intro!: frame simp: quarantine_def)
  then show ?thesis
    unfolding wipeAndRemoveIdentity_def by (auto intro!: frame split: sum.splits prod.splits)
qed

lemma frame_spec:
  assumes "preserves f m" "\<And>w w'. f w = f w' \<Longrightarrow> P w \<Longrightarrow> P w'" "\<And>w. P w \<Longrightarrow> X w"
  shows "spec P m (\<lambda>_. P) X"
  unfolding spec_def
proof (intro allI impI)
  fix w assume "P w"
  then have "P (snd (m w))"
    using assms(2) [of w "snd (m w)"] preservesD [OF assms(1), of w] by simp
  with assms(3) show "case m w of (Ok x, w') \<Rightarrow> P w' | (Err e, w') \<Rightarrow> X w' | (Crash, w') \<Rightarrow> X w'"
    by (auto split: prod.splits outcome.splits)
qed

section \<open>The status file\<close>

primrec status_found :: "RuntimeCredentialStatus option outcome \<Rightarrow> RuntimeCredentialStatus option option" where
  "status_found (Ok s) = Some s"
| "status_found (Err e) = None"
| "status_found Crash = None"

definition status_sealed :: "file_meta \<Rightarrow> bool" where
  "status_sealed m \<longleftrightarrow> state_secure m \<and> 0 < size_bytes m \<and> size_bytes m \<le> runtimeCredentialStateMaxBytes"

lemma file_meta_none [simp]: "file_meta_of f = None \<longleftrightarrow> f = NoFile"
  by (cases f) auto

lemma load_status_run:
  "tells (status_found (fst (loadStatus w))) (rc_state w) \<and>
   (status_found (fst (loadStatus w)) = Some (Some s) \<longrightarrow> status_valid s)"
  by (cases "script w"; (cases "hd (script w)")?)
    (auto simp: loadStatus_def tryP_def lookupP_def bindP_def observeP_def failP_def syscallP_def mapErrP_def
       returnP_def thenP_def checkP_def holds_def status_valid_def
       split: disk_file.splits content.splits option.splits list.splits fault.splits if_splits)

lemma sealed_private: "0 \<le> n \<Longrightarrow> n + 1 \<le> runtimeCredentialStateMaxBytes \<Longrightarrow> status_sealed (private_file (n + 1))"
  by (simp add: status_sealed_def state_secure_def private_file_def)

lemma put_status_script: "(put_status f w)\<lparr>script := fs\<rparr> = put_status f (w\<lparr>script := fs\<rparr>)"
  by (simp add: put_status_def)

lemma save_status_run:
  "(\<exists>fs. snd (saveStatus s w) = w\<lparr>script := fs\<rparr> \<and> fst (saveStatus s w) \<noteq> Ok ()) \<or>
   (\<exists>fs m. status_sealed m \<and> status_valid s \<and> snd (saveStatus s w) = put_status (DiskFile m (Decodes s)) (w\<lparr>script := fs\<rparr>))"
proof -
  let ?P = "\<lambda>v. \<exists>fs. v = w\<lparr>script := fs\<rparr>"
  let ?N = "\<lambda>v. \<exists>fs m. status_sealed m \<and> status_valid s \<and> v = put_status (DiskFile m (Decodes s)) (w\<lparr>script := fs\<rparr>)"
  have sys: "spec ?P (mapErrP g syscallP) (\<lambda>_. ?P) (\<lambda>v. ?P v \<or> ?N v)" for g
    unfolding syscallP_def by (intro spec_mapErr, rule spec_observe) auto
  have last: "spec ?N syscallP (\<lambda>_. ?N) (\<lambda>v. ?P v \<or> ?N v)"
    unfolding syscallP_def by (rule spec_observe; auto simp: put_status_script; blast)
  have put: "spec ?P (mapErrP g (effectP (put_status (DiskFile (private_file (int (length d) + 1)) (Decodes s))))) (\<lambda>_. ?N) (\<lambda>v. ?P v \<or> ?N v)"
    if "status_valid s" "int (length d) + 1 \<le> runtimeCredentialStateMaxBytes" for g and d :: string
  proof (intro spec_mapErr, rule spec_effect)
    have "status_sealed (private_file (int (length d) + 1))"
      using that by (simp add: sealed_private)
    with that show "?N (put_status (DiskFile (private_file (int (length d) + 1)) (Decodes s)) v)" if "?P v" for v
      using that by blast
    then show "?P (put_status (DiskFile (private_file (int (length d) + 1)) (Decodes s)) v) \<or>
      ?N (put_status (DiskFile (private_file (int (length d) + 1)) (Decodes s)) v)" if "?P v" for v
      using that by blast
  qed auto
  have chain: "spec ?P (thenP (mapErrP g syscallP) (thenP (mapErrP h (effectP (put_status
      (DiskFile (private_file (int (length d) + 1)) (Decodes s))))) syscallP)) (\<lambda>_. ?N) (\<lambda>v. ?P v \<or> ?N v)"
    if "status_valid s" "\<not> int (length d) + 1 > runtimeCredentialStateMaxBytes" for g h and d :: string
    by (rule spec_then [OF sys], rule spec_then [OF put last]) (use that in auto)
  have body: "spec ?P (case p of None \<Rightarrow> failP e | Some d \<Rightarrow>
       if d = [] \<or> int (length d) + 1 > runtimeCredentialStateMaxBytes then failP e
       else thenP (mapErrP g syscallP) (thenP (mapErrP h (effectP (put_status
         (DiskFile (private_file (int (length d) + 1)) (Decodes s))))) syscallP)) (\<lambda>_. ?N) (\<lambda>v. ?P v \<or> ?N v)"
    if "status_valid s" for p :: "string option" and e g h
    by (cases p) (use that chain in \<open>auto intro!: spec_fail spec_if simp del: not_less\<close>)
  have "spec ?P (saveStatus s) (\<lambda>_. ?N) (\<lambda>v. ?P v \<or> ?N v)"
    unfolding saveStatus_def
    apply (rule spec_then [where R = "\<lambda>v. ?P v \<and> RuntimeCredentialStatus_Validate s = None"], rule spec_check; blast?)
    apply (rule spec_pure, rule spec_then [where R = "\<lambda>v. ?P v \<and> validateRootTokenBindings s = None"], rule spec_check; blast?)
    apply (rule spec_pure, rule spec_lookup)
         apply (auto simp: script_free_def) [3]
    subgoal for info
      by (rule spec_pre [where P = ?P], rule spec_if, rule spec_fail, blast, rule body) (auto simp: status_valid_def)
    by (auto intro!: spec_fail)
  moreover have "?P w"
    by (rule exI [of _ "script w"]) simp
  ultimately show ?thesis
    unfolding spec_def by (cases "saveStatus s w"; cases "fst (saveStatus s w)") force+
qed

interpretation credential_record: durable_record rc_state put_status loadStatus status_found saveStatus
  status_valid status_sealed
proof
  show "\<exists>fs. snd (loadStatus w) = w\<lparr>script := fs\<rparr>" for w
    by (intro timeless_reads rc_read_frames) simp
qed (use load_status_run save_status_run in \<open>auto simp: put_status_def\<close>)

section \<open>The staged credential is gone\<close>

definition wiped :: "rc_world \<Rightarrow> bool" where
  "wiped w \<longleftrightarrow> rc_staged w = None \<and> rc_wiping w = None"

text \<open>The three outcomes of a stat.\<close>

lemma stat_outcomes [simp]:
  "missing (Inl NotExist)" "\<not> missing (Inl OSFailure)" "\<not> missing (Inr x)"
  "stat_failed (Inl OSFailure)" "\<not> stat_failed (Inl NotExist)" "\<not> stat_failed (Inr x)"
  by (simp_all add: missing_def stat_failed_def)

lemma spec_stat:
  assumes "\<And>w fs. P w \<Longrightarrow> P (w\<lparr>script := fs\<rparr>)" "script_free f" "\<And>w. P w \<Longrightarrow> X w"
    and "\<And>x. spec (\<lambda>w. P w \<and> f w = Some x) (k (Inr x)) Q X"
    and "spec (\<lambda>w. P w \<and> f w = None) (k (Inl NotExist)) Q X"
    and "spec P (k (Inl OSFailure)) Q X"
  shows "spec P (bindP (statP f) k) Q X"
proof -
  have "bindP (statP f) k = tryP (lookupP f) (\<lambda>err. k (Inl err)) (\<lambda>x. k (Inr x))"
    by (auto simp: fun_eq_iff bindP_def statP_def tryP_def returnP_def split: prod.splits outcome.splits)
  then show ?thesis
    using spec_lookup [of P f X "\<lambda>x. k (Inr x)" Q "\<lambda>err. k (Inl err)"] assms by simp
qed

lemma spec_wipeQuarantined:
  "spec (\<lambda>w. rc_staged w = None) (wipeQuarantined gid info) (\<lambda>_. wiped) (\<lambda>_. True)"
proof -
  let ?P = "\<lambda>w. rc_staged w = None"
  have sys: "spec ?P syscallP (\<lambda>_. ?P) (\<lambda>_. True)"
    by (rule frame_spec [where f = rc_staged]) (auto intro!: frame simp: script_free_def)
  have wipe: "spec ?P (wipeContents n) (\<lambda>_. ?P) (\<lambda>_. True)" for n
    by (rule frame_spec [where f = rc_staged]) (auto intro!: frame simp: script_free_def)
  have join: "spec wiped (bindP (joinP acc syscallP msg) checkP) (\<lambda>_. wiped) (\<lambda>_. True)" for acc msg
    by (rule frame_spec [where f = "\<lambda>w. (rc_staged w, rc_wiping w)"])
      (auto intro!: frame simp: script_free_def joinP_def wiped_def)
  have unlink: "spec ?P (effectP (\<lambda>w. w\<lparr>rc_wiping := None\<rparr>)) (\<lambda>_. wiped) (\<lambda>_. True)"
    by (rule spec_effect) (auto simp: wiped_def)
  show ?thesis
    unfolding wipeQuarantined_def
    apply (rule spec_if, rule spec_fail, simp)
    apply (rule spec_then [OF sys])
    apply (rule spec_try [OF sys])
      apply (rule spec_fail, simp)
     apply (rule spec_bind [OF wipe])
     apply (rule spec_lookup)
          apply (simp_all add: script_free_def) [3]
       apply (rule spec_pre [OF spec_then [OF unlink join]], simp)
      apply (rule spec_fail, simp)+
    apply simp
    done
qed

lemma spec_wipe: "spec (\<lambda>_. True) (wipeAndRemoveIdentity gid d) (\<lambda>_. wiped) (\<lambda>_. True)"
proof -
  have sys: "spec P (mapErrP g syscallP) (\<lambda>_. P) (\<lambda>_. True)" if "\<And>w fs. P w \<Longrightarrow> P (w\<lparr>script := fs\<rparr>)" for P g
    unfolding syscallP_def by (rule spec_mapErr, rule spec_observe) (use that in auto)
  have look: "spec (\<lambda>w. rc_staged w = None) (mapErrP g (lookupP rc_wiping)) (\<lambda>_ w. rc_staged w = None) (\<lambda>_. True)" for g
    by (rule frame_spec [where f = rc_staged]) (auto intro!: frame simp: script_free_def)
  have quar: "spec (\<lambda>_. True) (quarantineStaged gid d info) (\<lambda>_ w. rc_staged w = None) (\<lambda>_. True)" for info
    unfolding quarantineStaged_def
    apply (rule spec_if, rule spec_fail, simp)
    apply (rule spec_try [where R = "\<lambda>_ _. True" and Y = "\<lambda>_. True"])
       apply (simp add: spec_def split: outcome.split prod.split)
      apply (rule spec_fail, simp)
     apply (rule spec_try [where R = "\<lambda>_ _. True" and Y = "\<lambda>_. True"])
        apply (simp add: spec_def split: outcome.split prod.split)
       apply (rule spec_fail, simp)
      apply (rule spec_if, rule spec_fail, simp)
      apply (rule spec_then [where R = "\<lambda>w. rc_staged w = None"])
       apply (rule spec_mapErr, rule spec_effect; simp add: quarantine_def)
      apply (rule spec_then [OF sys look])
      apply simp_all
    done
  show ?thesis
    unfolding wipeAndRemoveIdentity_def
    apply (rule spec_stat)
         apply (simp_all add: script_free_def) [3]
      apply (rule spec_stat; simp add: script_free_def)
        apply (rule spec_fail, simp)
       apply (rule spec_bind [OF spec_pre [OF quar] spec_wipeQuarantined], simp)
      apply (rule spec_fail, simp)
     apply (rule spec_stat; simp add: script_free_def)
       apply (rule spec_pre [OF spec_wipeQuarantined], simp)
      apply (rule spec_return, simp add: wiped_def)
     apply (rule spec_fail, simp)
    apply (rule spec_stat; simp add: script_free_def; rule spec_fail; simp)
    done
qed

section \<open>A rotation reported as over\<close>

definition rotation_over :: "RuntimeCredentialStatus \<Rightarrow> bool" where
  "rotation_over s \<longleftrightarrow> rs_Phase s \<in> {PhaseActivated, PhaseCancelReady, PhaseCancelled, PhaseExpired, PhaseManualRecovered}"

definition over_wiped :: "RuntimeCredentialStatus \<Rightarrow> rc_world \<Rightarrow> bool" where
  "over_wiped s w \<longleftrightarrow> rotation_over s \<longrightarrow> wiped w"

abbreviation anything :: "rc_world \<Rightarrow> bool" where
  "anything \<equiv> \<lambda>_. True"

lemma spec_any_bind: "(\<And>x. spec anything (k x) Q anything) \<Longrightarrow> spec anything (bindP m k) Q anything"
  by (rule spec_bind [where R = "\<lambda>_ _. True"]) (auto simp: spec_def split: prod.splits outcome.splits)

lemma spec_any_then: "spec anything n Q anything \<Longrightarrow> spec anything (thenP m n) Q anything"
  unfolding thenP_def by (rule spec_any_bind)

lemma spec_any_try:
  "(\<And>e. spec anything (h e) Q anything) \<Longrightarrow> (\<And>x. spec anything (k x) Q anything) \<Longrightarrow> spec anything (tryP m h k) Q anything"
  by (rule spec_try [where R = "\<lambda>_ _. True" and Y = anything]) (auto simp: spec_def split: prod.splits outcome.splits)

lemma spec_failed: "spec P (failP e) Q anything"
  by (rule spec_fail) simp

lemma wiped_spec:
  assumes "preserves (\<lambda>w. (rc_staged w, rc_wiping w)) m"
  shows "spec wiped m (\<lambda>_. wiped) anything"
  by (rule frame_spec [OF assms]) (auto simp: wiped_def)

lemma spec_wiped_bind:
  assumes "preserves (\<lambda>w. (rc_staged w, rc_wiping w)) m" "\<And>x. spec wiped (k x) Q anything"
  shows "spec wiped (bindP m k) Q anything"
  by (rule spec_bind [OF wiped_spec [OF assms(1)] assms(2)])

lemma spec_wiped_then:
  "preserves (\<lambda>w. (rc_staged w, rc_wiping w)) m \<Longrightarrow> spec wiped n Q anything \<Longrightarrow> spec wiped (thenP m n) Q anything"
  unfolding thenP_def by (rule spec_wiped_bind)

lemma spec_wipe_return: "spec anything (thenP (wipeAndRemoveIdentity gid d) (returnP s)) over_wiped anything"
  by (rule spec_then [OF spec_wipe]) (auto intro!: spec_return simp: over_wiped_def)

lemma spec_live: "\<not> rotation_over s \<Longrightarrow> spec anything (returnP s) over_wiped anything"
  by (rule spec_return) (simp add: over_wiped_def)

lemma slots_script [simp]: "script_free (\<lambda>w. (rc_staged w, rc_wiping w))"
  by (simp add: script_free_def)

lemma put_status_slots [simp]:
  "rc_staged (put_status f w) = rc_staged w" "rc_wiping (put_status f w) = rc_wiping w"
  "rc_active (put_status f w) = rc_active w" "rc_calls (put_status f w) = rc_calls w"
  by (simp_all add: put_status_def)

lemma spec_expire:
  assumes "\<not> rotation_over s"
  shows "spec anything (expireStaged gid s True) over_wiped anything"
    and "spec wiped (expireStaged gid s False) over_wiped anything"
proof -
  show "spec anything (expireStaged gid s True) over_wiped anything"
    unfolding expireStaged_def Let_def if_True
    by (rule spec_any_bind, rule spec_if, rule spec_live [OF assms], rule spec_any_then, rule spec_wipe_return)
  show "spec wiped (expireStaged gid s False) over_wiped anything"
    unfolding expireStaged_def Let_def if_False
    by (rule spec_wiped_bind) (auto intro!: spec_return spec_wiped_then spec_if frame simp: over_wiped_def)
qed

definition reported :: "RuntimeCredentialStatus option \<Rightarrow> rc_world \<Rightarrow> bool" where
  "reported r w = (case r of None \<Rightarrow> True | Some s \<Rightarrow> over_wiped s w)"

lemma spec_finished: "spec anything (reconcile_finished rt gid s d msg) over_wiped anything"
  unfolding reconcile_finished_def by (rule spec_any_bind, rule spec_wipe_return)

lemma spec_reconcile_staged:
  assumes "\<not> rotation_over s"
  shows "spec anything (reconcile_staged rt gid s) over_wiped anything"
proof -
  have found: "spec (\<lambda>w. \<not> ex \<longrightarrow> rc_staged w = None) (bindP (statP rc_wiping) (\<lambda>wiping.
      if \<not> missing wiping then failP e else expireStaged gid s ex)) over_wiped anything" for ex e
    apply (rule spec_stat; (simp add: script_free_def spec_failed)?)
    apply (cases ex; simp)
     apply (rule spec_pre [OF spec_expire(1) [OF assms, of gid]], simp)
    apply (rule spec_pre [OF spec_expire(2) [OF assms, of gid]], simp add: wiped_def)
    done
  show ?thesis
    unfolding reconcile_staged_def
    apply (rule spec_any_bind)
    apply (rule spec_bind [where R = "\<lambda>ex w. \<not> ex \<longrightarrow> rc_staged w = None"])
     apply (rule spec_stat; (simp add: script_free_def spec_failed)?)
      apply (rule spec_pre [where P = anything], rule spec_any_try, rule spec_failed)
       apply (auto intro!: spec_if spec_failed spec_return split: prod.split) [2]
     apply (rule spec_return, simp)
    apply (rule found)
    done
qed

lemma spec_reconcile_local_staged:
  assumes "\<not> rotation_over s"
  shows "spec anything (reconcile_local_staged rt gid s) over_wiped anything"
  unfolding reconcile_local_staged_def Let_def
  by (rule spec_any_try, rule spec_failed)
    (auto intro!: spec_if spec_failed spec_any_bind spec_any_then spec_wipe_return spec_expire assms split: prod.split)

text \<open>A state file never holds a rotation that was acknowledged as cancelled.\<close>

definition never_cancelled :: "rc_world \<Rightarrow> bool" where
  "never_cancelled w \<longleftrightarrow> (\<forall>s. holds s (rc_state w) \<longrightarrow> rs_Phase s \<noteq> PhaseCancelled)"

lemma spec_fact: "(\<phi> \<Longrightarrow> spec anything m Q X) \<Longrightarrow> spec (\<lambda>_. \<phi>) m Q X"
  by (auto simp: spec_def)

lemma spec_loadStatus_phase:
  "spec never_cancelled loadStatus (\<lambda>r _. \<forall>s. r = Some s \<longrightarrow> status_valid s \<and> rs_Phase s \<noteq> PhaseCancelled) anything"
  unfolding spec_def
proof (intro allI impI)
  fix w assume "never_cancelled w"
  moreover have "\<forall>s. fst (loadStatus w) = Ok (Some s) \<longrightarrow> holds s (rc_state w) \<and> status_valid s"
    using load_status_run [of w] by auto
  ultimately show "case loadStatus w of (Ok r, w') \<Rightarrow> \<forall>s. r = Some s \<longrightarrow> status_valid s \<and> rs_Phase s \<noteq> PhaseCancelled
    | (Err e, w') \<Rightarrow> True | (Crash, w') \<Rightarrow> True"
    by (auto simp: never_cancelled_def split: prod.splits outcome.splits)
qed

lemma spec_loadAndReconcileStatus: "spec never_cancelled (loadAndReconcileStatus rt gid) reported anything"
proof -
  have some: "spec anything (bindP m (\<lambda>s. returnP (Some s))) reported anything" if "spec anything m over_wiped anything" for m
    by (rule spec_bind [OF that]) (auto intro!: spec_return simp: reported_def)
  have stale: "spec anything (bindP m (\<lambda>(a, b). bindP (f a b) (\<lambda>_. returnP s))) over_wiped anything"
    if "\<not> rotation_over s" for m s and f :: "_ \<Rightarrow> _ \<Rightarrow> _ rc_prog"
    using that by (auto intro!: spec_any_bind spec_live split: prod.split)
  have claim: "spec anything (reconcile_claim_prepared rt gid s) over_wiped anything"
    "spec anything (reconcile_stage_bound rt gid s) over_wiped anything" if "\<not> rotation_over s" for s
    unfolding reconcile_claim_prepared_def reconcile_stage_bound_def
    by (auto intro!: spec_any_bind spec_if spec_failed stale that)
  have ready: "spec anything (bindP m (\<lambda>s'. bindP identityCleanupComplete (\<lambda>c. if c then returnP s' else failP e)))
    over_wiped anything" if "spec anything m over_wiped anything" for m e
    by (rule spec_bind [OF that], rule spec_bind, rule frame_spec [where f = "\<lambda>w. (rc_staged w, rc_wiping w)"])
      (auto intro!: frame spec_if spec_return spec_failed simp: over_wiped_def wiped_def)
  show ?thesis
    unfolding loadAndReconcileStatus_def
    apply (rule spec_bind [OF spec_loadStatus_phase], rule spec_fact)
    subgoal for r
      apply (cases r; simp only: option.case)
       apply (rule spec_any_then, rule spec_return, simp add: reported_def)
      apply (rule some)
      apply (intro spec_if claim ready spec_reconcile_staged spec_reconcile_local_staged spec_finished spec_live)
          apply (auto simp: rotation_over_def dest!: status_valid_phase simp: credential_phases_def)
      done
    done
qed

end
