(* ===== verification/Credential_Over.thy ===== *)
theory Credential_Over
  imports Credential_Safety
begin

lemma spec_weaken: "spec anything m Q anything \<Longrightarrow> spec P m Q anything"
  by (rule spec_pre [where P = anything]) simp_all

lemma spec_reported_return: "spec (reported (Some s)) (returnP s) over_wiped anything"
  by (rule spec_return) (simp add: reported_def)

lemma spec_save_live: "\<not> rotation_over s \<Longrightarrow> spec anything (thenP m (returnP s)) over_wiped anything"
  by (rule spec_any_then, rule spec_live)

lemma spec_prepare: "spec (reported current) (prepare_credential rt policy r m active b current) over_wiped anything"
  unfolding prepare_credential_def
  by (cases current; simp only: option.case)
    (auto intro!: spec_if spec_failed spec_reported_return spec_weaken [OF spec_any_bind] spec_any_bind spec_save_live
      simp: Let_def rotation_over_def)

lemma spec_stage: "spec (reported current) (stage_credential rt policy r m active b current) over_wiped anything"
proof -
  have ack: "spec anything (acknowledgeStageP rt policy m s) over_wiped anything" for s
    unfolding acknowledgeStageP_def
    by (rule spec_any_try, rule spec_failed)
      (auto intro!: spec_if spec_failed spec_any_bind spec_any_then spec_live simp: Let_def rotation_over_def split: prod.split)
  show ?thesis
    unfolding stage_credential_def
    apply (rule spec_bind [where R = "\<lambda>a w. case a of None \<Rightarrow> True | Some s \<Rightarrow> over_wiped s w"])
     apply (rule spec_result)
      apply (auto simp: stage_entry_def reported_def split: option.splits if_splits) [2]
    subgoal for a
      by (cases a) (auto intro!: spec_return spec_if spec_failed spec_any_bind ack)
    done
qed

lemma spec_proof: "spec (reported current) (markProofReady rt m current gid) over_wiped anything"
  unfolding markProofReady_def
  by (cases current; simp only: option.case)
    (auto intro!: spec_if spec_failed spec_reported_return spec_weaken [OF spec_any_try] spec_any_then spec_live
      simp: Let_def rotation_over_def split: prod.split)

lemma spec_activate: "spec (reported current) (activateCredential rt policy m current) over_wiped anything"
  unfolding activateCredential_def
  by (cases current; simp only: option.case)
    (auto intro!: spec_if spec_failed spec_reported_return spec_weaken [OF spec_any_try] spec_any_try spec_any_bind
      spec_wipe_return spec_any_then [of "thenP m n" for m n] spec_any_then [of "tryP m n q" for m n q] simp: Let_def split: prod.split)

lemma spec_cancel: "spec (reported current) (cancel_credential rt policy m current) over_wiped anything"
proof -
  have gone: "spec (reported (Some s)) (thenP removeState (returnP t)) over_wiped anything"
    if "rs_Phase s = PhaseCancelReady" for s t
    by (rule spec_pre [where P = wiped], rule spec_wiped_then)
      (use that in \<open>auto intro!: frame spec_return simp: reported_def over_wiped_def rotation_over_def\<close>)
  show ?thesis
    unfolding cancel_credential_def Let_def
    by (cases current; simp only: option.case)
      (auto intro!: spec_if spec_failed spec_reported_return gone spec_weaken [OF spec_any_bind]
      spec_any_then [OF spec_wipe_return] split: if_split)
qed

lemma spec_finalize: "spec (reported current) (finalize_credential rt policy m current) over_wiped anything"
proof -
  have "spec wiped (bindP (activeDigestP rt gid d msg) (\<lambda>_. bindP identityCleanupComplete (\<lambda>c.
    if \<not> c then failP e else thenP removeState (returnP s)))) over_wiped anything" for gid d msg e s
    by (auto intro!: spec_wiped_bind spec_wiped_then frame spec_if spec_failed spec_return simp: over_wiped_def)
  then have "spec (reported (Some s)) (bindP (activeDigestP rt gid d msg) (\<lambda>_. bindP identityCleanupComplete (\<lambda>c.
    if \<not> c then failP e else thenP removeState (returnP s)))) over_wiped anything" if "rotation_over s" for gid d msg e s
    by (rule spec_pre) (use that in \<open>simp add: reported_def over_wiped_def\<close>)
  then show ?thesis
    unfolding finalize_credential_def
    by (cases current) (auto intro!: spec_if spec_failed simp: rotation_over_def)
qed

lemma spec_dispatch: "spec (reported status) (credential_dispatch rt policy r m active b status) over_wiped anything"
  unfolding credential_dispatch_def
  by (intro spec_if spec_prepare spec_stage spec_proof spec_activate spec_cancel spec_finalize spec_failed)

section \<open>The handler\<close>

definition answered :: "credential_response \<Rightarrow> rc_world \<Rightarrow> bool" where
  "answered a w = (case a of CredentialFailure _ \<Rightarrow> True | CredentialStatus s \<Rightarrow> over_wiped s w)"

lemma spec_refused: "spec P (returnP (CredentialFailure c)) answered anything"
  by (rule spec_return) (simp add: answered_def)

lemma spec_response: "spec (over_wiped s) (returnP (runtimeCredentialResponse s)) answered anything"
  by (rule spec_return) (simp add: answered_def runtimeCredentialResponse_def)

lemma reported_frame: "preserves (\<lambda>w. (rc_staged w, rc_wiping w)) m \<Longrightarrow> spec (reported st) m (\<lambda>_. reported st) anything"
  by (rule frame_spec) (auto simp: reported_def over_wiped_def wiped_def split: option.splits)

lemma spec_mutation: "spec (reported st) (credential_mutation rt policy r st) answered anything"
proof -
  have layout: "spec (over_wiped s) (thenP validateIdentityLayout (returnP s)) over_wiped anything" for s
    by (rule spec_then [where R = "over_wiped s"], rule frame_spec [where f = "\<lambda>w. (rc_staged w, rc_wiping w)"])
      (auto intro!: frame spec_return simp: over_wiped_def wiped_def)
  have act: "spec (reported st) (tryP (bindP (credential_dispatch rt policy r m active b st)
      (\<lambda>s. thenP validateIdentityLayout (returnP s)))
    (\<lambda>err. returnP (CredentialFailure (credential_failure_code rt err))) (\<lambda>s. returnP (runtimeCredentialResponse s)))
    answered anything" for m active b
    by (rule spec_try [OF spec_bind [OF spec_dispatch layout]]) (auto intro!: spec_refused spec_response)
  have load: "spec (reported st) (tryP (loadIdentity rt Active gid) (\<lambda>_. returnP (CredentialFailure c)) k) answered anything"
    if "\<And>x. spec (reported st) (k x) answered anything" for gid c k
    by (rule spec_try [OF reported_frame]) (auto intro!: frame spec_refused that)
  show ?thesis
    unfolding credential_mutation_def Let_def
    by (cases "cq_RuntimeCredential r"; simp only: option.case)
      (auto intro!: spec_refused spec_if load act simp del: de_Morgan_disj split: prod.split)
qed

lemma spec_handle: "spec never_cancelled (handleLocalExecutorRuntimeCredential rt policy r) answered anything"
proof -
  have status: "spec (reported st) (case st of None \<Rightarrow> returnP (CredentialFailure c) | Some s \<Rightarrow>
     if rs_ServiceID s \<noteq> cq_ServiceID r then returnP (CredentialFailure c') else returnP (runtimeCredentialResponse s))
     answered anything" for st c c'
    by (auto intro!: spec_refused spec_if spec_pre [OF spec_response] simp: reported_def split: option.split)
  have "spec never_cancelled validateIdentityLayout (\<lambda>_. never_cancelled) anything"
    by (rule frame_spec [where f = rc_state]) (auto intro!: frame simp: never_cancelled_def script_free_def)
  note layout = spec_try [OF this, where X = anything and h = "\<lambda>_. returnP (CredentialFailure c)" for c]
  note load = spec_try [OF spec_loadAndReconcileStatus, where X = anything and h = "\<lambda>_. returnP (CredentialFailure c)" for c]
  show ?thesis
    unfolding handleLocalExecutorRuntimeCredential_def
    by (intro spec_if spec_refused layout load status spec_mutation TrueI)
qed

section \<open>Nothing is recorded as cancelled\<close>

lemma keeps_never: "preserves rc_state m \<Longrightarrow> keeps never_cancelled m"
  by (rule preserves_keeps) (auto simp: never_cancelled_def)

lemma keeps_save: "rs_Phase s \<noteq> PhaseCancelled \<Longrightarrow> keeps never_cancelled (saveStatus s)"
proof (rule keepsI)
  fix w assume "rs_Phase s \<noteq> PhaseCancelled" "never_cancelled w"
  then show "never_cancelled (snd (saveStatus s w))"
    using credential_record.save_file [of s w] by (auto simp: never_cancelled_def holds_def)
qed

lemma keeps_remove: "keeps never_cancelled removeState"
  unfolding removeState_def
  by (intro keep keeps_if keeps_effect) (auto simp: lookupP_def syscallP_def never_cancelled_def put_status_def holds_def
      intro!: keep keeps_observe)

lemma state_script_free [simp]: "script_free rc_state"
  by (simp add: script_free_def)

lemma state_frames [simp]:
  "preserves rc_state validateIdentityLayout" "preserves rc_state (loadIdentity rt slot gid)" "preserves rc_state loadStatus"
  "preserves rc_state (statP f)" "preserves rc_state identityCleanupComplete" "preserves rc_state (activeDigestP rt gid d msg)"
  "preserves rc_state (stagedAlreadyP rt gid b)" "preserves rc_state currentTime" "preserves rc_state (pastExpiry s)"
  "preserves rc_state (writeIdentityAtomic slot b gid x)" "preserves rc_state (panelP c)" "preserves rc_state (wipeAndRemoveIdentity gid d)"
  by (auto intro!: frame) (cases slot; simp)

lemmas never_keeps = keeps_never [OF state_frames(1)] keeps_never [OF state_frames(2)] keeps_never [OF state_frames(3)]
  keeps_never [OF state_frames(4)] keeps_never [OF state_frames(5)] keeps_never [OF state_frames(6)]
  keeps_never [OF state_frames(7)] keeps_never [OF state_frames(8)] keeps_never [OF state_frames(9)]
  keeps_never [OF state_frames(10)] keeps_never [OF state_frames(11)] keeps_never [OF state_frames(12)]
  keeps_save keeps_remove

lemma keeps_reconcile: "keeps never_cancelled (loadAndReconcileStatus rt gid)"
proof -
  have expire: "keeps never_cancelled (expireStaged gid s ex)" for s ex
    unfolding expireStaged_def Let_def by (intro keep keeps_if never_keeps) (simp add: expired_status_def)
  have fin: "keeps never_cancelled (reconcile_finished rt gid s d msg)" for s d msg
    unfolding reconcile_finished_def by (intro keep never_keeps)
  have orphan: "keeps never_cancelled (cleanupExpiredOrphanedStagedIdentity rt gid)"
    unfolding cleanupExpiredOrphanedStagedIdentity_def by (intro keep keeps_if never_keeps)
  have bc: "keeps never_cancelled (bindClaimPreparedStagedIdentity rt s gid u)" for s u
    unfolding bindClaimPreparedStagedIdentity_def Let_def by (intro keep keeps_if never_keeps) simp
  have bs: "keeps never_cancelled (bindStageBoundInstalledIdentity rt s gid u)" for s u
    unfolding bindStageBoundInstalledIdentity_def Let_def by (intro keep keeps_if never_keeps) simp
  have "keeps never_cancelled (reconcile_claim_prepared rt gid s)" "keeps never_cancelled (reconcile_stage_bound rt gid s)"
    "keeps never_cancelled (reconcile_staged rt gid s)" "keeps never_cancelled (reconcile_local_staged rt gid s)" for s
    unfolding reconcile_claim_prepared_def reconcile_stage_bound_def reconcile_staged_def reconcile_local_staged_def Let_def
    by (intro keep keeps_if never_keeps expire bc bs; simp add: activated_status_def)+
  then show ?thesis
    unfolding loadAndReconcileStatus_def by (intro keep keeps_if never_keeps orphan fin)
qed

lemma keeps_dispatch: "keeps never_cancelled (credential_dispatch rt policy r m active b st)"
proof -
  have "keeps never_cancelled (prepare_credential rt policy r m active b st)"
    unfolding prepare_credential_def Let_def by (intro keep keeps_if never_keeps) simp
  moreover have "keeps never_cancelled (bindStageP rt policy r m active b d t st)" for d t
    unfolding bindStageP_def Let_def by (intro keep keeps_if never_keeps) (simp_all add: unprepared_stage_status_def)
  then have "keeps never_cancelled (installStagedP rt policy r m active b sb st)" for sb
    unfolding installStagedP_def Let_def by (intro keep keeps_if never_keeps) simp_all
  moreover have "keeps never_cancelled (acknowledgeStageP rt policy m s)" for s
    unfolding acknowledgeStageP_def Let_def by (intro keep keeps_if never_keeps) simp
  ultimately have st: "keeps never_cancelled (prepare_credential rt policy r m active b st)"
    "keeps never_cancelled (stage_credential rt policy r m active b st)"
    unfolding stage_credential_def by (auto intro!: keep keeps_if)
  have "keeps never_cancelled (markProofReady rt m st gid)" for gid
    unfolding markProofReady_def Let_def by (intro keep keeps_if never_keeps) simp
  moreover have "keeps never_cancelled (activateCredential rt policy m st)"
    unfolding activateCredential_def Let_def by (intro keep keeps_if never_keeps) (simp add: activated_status_def)
  moreover have "keeps never_cancelled (cancel_credential rt policy m st)"
    unfolding cancel_credential_def Let_def by (intro keep keeps_if never_keeps) (simp add: cancel_ready_status_def)
  moreover have "keeps never_cancelled (finalize_credential rt policy m st)"
    unfolding finalize_credential_def by (intro keep keeps_if never_keeps)
  ultimately show ?thesis
    unfolding credential_dispatch_def by (intro keep keeps_if st)
qed

lemma keeps_handle: "keeps never_cancelled (handleLocalExecutorRuntimeCredential rt policy r)"
  unfolding handleLocalExecutorRuntimeCredential_def credential_mutation_def Let_def
  by (intro keep keeps_if never_keeps keeps_reconcile keeps_dispatch)

end
