(* ===== verification/Credential_Active.thy ===== *)
theory Credential_Active
  imports Credential_Over
begin

text \<open>
  The active identity of the host agent: only the activation replaces it, by the staged bytes,
  and only after the panel has answered that the rotation is activated.
\<close>

section \<open>What a load and a call to the panel establish\<close>

lemma spec_loadIdentity:
  assumes closed: "\<And>w fs. P w \<Longrightarrow> P (w\<lparr>script := fs\<rparr>)"
    and bad: "\<And>e. spec P (h e) Q X" and error: "\<And>w. P w \<Longrightarrow> X w"
    and ok: "\<And>c f. decodeManagedBootstrapConfig (cr_net rt) (cr_yaml rt) (id_bytes f) = Inr c \<Longrightarrow>
       spec (\<lambda>w. P w \<and> slot_get slot w = Some f) (k (c, id_bytes f, id_mtime f)) Q X"
  shows "spec P (tryP (loadIdentity rt slot gid) h k) Q X"
proof -
  let ?R = "\<lambda>(c, b, t) w. P w \<and> (\<exists>f. slot_get slot w = Some f \<and> b = id_bytes f \<and> t = id_mtime f \<and>
     decodeManagedBootstrapConfig (cr_net rt) (cr_yaml rt) (id_bytes f) = Inr c)"
  have sf: "script_free (slot_get slot)"
    by (cases slot) (auto simp: script_free_def)
  have dir: "spec P (validateIdentityDirectory gid) (\<lambda>_. P) P"
    unfolding validateIdentityDirectory_def Let_def
    by (rule spec_lookup) (auto intro!: spec_fail spec_if spec_return closed simp: script_free_def split: prod.split)
  have read: "spec (\<lambda>w. P w \<and> slot_get slot w = Some f) (tryP syscallP (\<lambda>_. failP e1) (\<lambda>_.
      if id_bytes f = [] \<or> b then failP e2 else bindP (resultP (decodeManagedBootstrapConfig (cr_net rt) (cr_yaml rt) (id_bytes f)))
        (\<lambda>identity. returnP (identity, id_bytes f, id_mtime f)))) ?R P" for f e1 e2 b
    apply (rule spec_try [where R = "\<lambda>_ w. P w \<and> slot_get slot w = Some f" and Y = P])
       apply (unfold syscallP_def, rule spec_observe) [1]
          apply (use closed sf in \<open>auto simp: script_free_def\<close>) [4]
      apply (rule spec_fail, simp)
     apply (rule spec_if, rule spec_fail, simp)
     apply (rule spec_bind [where R = "\<lambda>c w. (P w \<and> slot_get slot w = Some f) \<and>
        decodeManagedBootstrapConfig (cr_net rt) (cr_yaml rt) (id_bytes f) = Inr c"])
      apply (rule spec_result; auto)
     apply (rule spec_return, auto)
    done
  have opened: "spec P (bindP (openP (slot_get slot)) g) ?R P"
    if "\<And>f. spec (\<lambda>w. P w \<and> slot_get slot w = Some f) (g f) ?R P" for g
    apply (rule spec_bind [where R = "\<lambda>f w. P w \<and> slot_get slot w = Some f"])
     apply (unfold openP_def mapErrP_def)
     apply (rule spec_lookup)
    using closed sf by (auto intro!: spec_return spec_fail that)
  have "spec P (loadIdentity rt slot gid) ?R P"
    unfolding loadIdentity_def Let_def
    apply (rule spec_then [OF dir])
    apply (rule spec_lookup)
         apply (use closed sf in auto) [3]
    subgoal for info
      apply (rule spec_pre [where P = P])
       apply (rule spec_if, rule spec_fail, simp)
       apply (rule opened, rule read, simp)
      done
    by (rule spec_fail, simp)+
  moreover have "spec (?R x) (k x) Q X" for x
    unfolding spec_def
  proof (intro allI impI)
    fix w assume "?R x w"
    then obtain c f where "x = (c, id_bytes f, id_mtime f)" "P w" "slot_get slot w = Some f"
      "decodeManagedBootstrapConfig (cr_net rt) (cr_yaml rt) (id_bytes f) = Inr c"
      by (cases x) auto
    then show "case k x w of (Ok y, w') \<Rightarrow> Q y w' | (Err e, w') \<Rightarrow> X w' | (Crash, w') \<Rightarrow> X w'"
      using ok [unfolded spec_def, rule_format, of f c w] by simp
  qed
  ultimately show ?thesis
    by (rule spec_try [OF _ bad]) (rule error)
qed

lemma spec_panel:
  assumes closed: "\<And>w fs. P w \<Longrightarrow> P (w\<lparr>script := fs\<rparr>)" "\<And>w p c. P w \<Longrightarrow> P (w\<lparr>rc_panel := p, rc_calls := c\<rparr>)"
    and error: "\<And>w. P w \<Longrightarrow> X w"
    and ok: "\<And>rotation. spec (\<lambda>w. P w \<and> (\<exists>pre. rc_calls w = pre @ [(call, Inr rotation)])) (k rotation) Q X"
  shows "spec P (bindP (panelP call) k) Q X"
proof -
  let ?R = "\<lambda>rotation w. P w \<and> (\<exists>pre. rc_calls w = pre @ [(call, Inr rotation)])"
  have sys: "spec P syscallP (\<lambda>_. P) X"
    unfolding syscallP_def by (rule spec_observe) (use closed error in auto)
  have "spec P (\<lambda>w. case rc_panel w of [] \<Rightarrow> (Err OSFailure, w)
      | answer # rest \<Rightarrow> ((case answer of Inl e \<Rightarrow> Err e | Inr rotation \<Rightarrow> Ok rotation),
           w\<lparr>rc_panel := rest, rc_calls := rc_calls w @ [(call, answer)]\<rparr>)) ?R X"
    using closed(2) error by (auto simp: spec_def split: list.splits sum.splits)
  then have "spec P (panelP call) ?R X"
    unfolding panelP_def by (rule spec_then [OF sys])
  then show ?thesis
    by (rule spec_bind) (rule ok)
qed

section \<open>The active identity\<close>

text \<open>
  \<open>untouched\<close>: the active identity is the one at the start and nothing new is staged.
  \<open>replaced\<close>: it has the bytes staged at the start, whose token the panel has just activated.
\<close>

definition untouched :: "rc_world \<Rightarrow> rc_world \<Rightarrow> bool" where
  "untouched w0 w \<longleftrightarrow> rc_active w = rc_active w0 \<and> (rc_staged w = rc_staged w0 \<or> rc_staged w = None)"

definition replaced :: "credential_runtime \<Rightarrow> rc_world \<Rightarrow> rc_world \<Rightarrow> bool" where
  "replaced rt w0 w \<longleftrightarrow> (\<exists>f f' c rotation revision pre.
     rc_staged w0 = Some f \<and> rc_active w = Some f' \<and> id_bytes f' = id_bytes f \<and>
     decodeManagedBootstrapConfig (cr_net rt) (cr_yaml rt) (id_bytes f) = Inr c \<and>
     rc_calls w = pre @ [(ActivateToken (ro_ID rotation) revision (cf_RuntimeToken c), Inr rotation)] \<and>
     ro_Status rotation = ''activated'')"

definition active_safe :: "credential_runtime \<Rightarrow> rc_world \<Rightarrow> rc_world \<Rightarrow> bool" where
  "active_safe rt w0 w \<longleftrightarrow> rc_active w = rc_active w0 \<or> replaced rt w0 w"

lemma untouched_safe: "untouched w0 w \<Longrightarrow> active_safe rt w0 w"
  by (simp add: untouched_def active_safe_def)

lemma untouched_script [simp]: "untouched w0 (w\<lparr>script := fs\<rparr>) = untouched w0 w"
  "untouched w0 (w\<lparr>rc_panel := p, rc_calls := c\<rparr>) = untouched w0 w"
  by (simp_all add: untouched_def)

lemma keeps_untouched: "preserves (\<lambda>w. (rc_active w, rc_staged w)) m \<Longrightarrow> keeps (untouched w0) m"
  by (rule preserves_keeps) (auto simp: untouched_def)

lemma slots2_script [simp]: "script_free (\<lambda>w. (rc_active w, rc_staged w))" "script_free (\<lambda>w. (rc_active w, rc_calls w))"
  "script_free rc_active"
  by (simp_all add: script_free_def)

lemma active_frames [simp]:
  "preserves (\<lambda>w. (rc_active w, rc_staged w)) validateIdentityLayout"
  "preserves (\<lambda>w. (rc_active w, rc_staged w)) (loadIdentity rt slot gid)"
  "preserves (\<lambda>w. (rc_active w, rc_staged w)) loadStatus"
  "preserves (\<lambda>w. (rc_active w, rc_staged w)) (statP f)"
  "preserves (\<lambda>w. (rc_active w, rc_staged w)) identityCleanupComplete"
  "preserves (\<lambda>w. (rc_active w, rc_staged w)) (activeDigestP rt gid d msg)"
  "preserves (\<lambda>w. (rc_active w, rc_staged w)) currentTime"
  "preserves (\<lambda>w. (rc_active w, rc_staged w)) (pastExpiry s)"
  "preserves (\<lambda>w. (rc_active w, rc_staged w)) (saveStatus s)"
  "preserves (\<lambda>w. (rc_active w, rc_staged w)) (wipeQuarantined gid info)"
  by (auto intro!: frame)

lemma keeps_wipe: "keeps (untouched w0) (wipeAndRemoveIdentity gid d)"
proof -
  have effect: "keeps (untouched w0) (effectP quarantine)"
    by (rule keeps_effect) (auto simp: untouched_def quarantine_def)
  have sys: "keeps (untouched w0) syscallP" "keeps (untouched w0) (openP f)" "keeps (untouched w0) (lookupP g)"
    if "script_free f" "script_free g" for f and g :: "rc_world \<Rightarrow> identity_file option"
    by (auto intro!: keeps_untouched frame)
  have "keeps (untouched w0) (quarantineStaged gid d info)" for info
    unfolding quarantineStaged_def
    by (intro keep keeps_if effect; (rule sys)?) (auto simp: script_free_def)
  then show ?thesis
    unfolding wipeAndRemoveIdentity_def
    by (auto intro!: keep keeps_if keeps_untouched [OF active_frames(4)] keeps_untouched [OF active_frames(10)]
        split: sum.split)
qed

lemmas untouched_keeps = keeps_wipe keeps_untouched [OF active_frames(1)] keeps_untouched [OF active_frames(2)]
  keeps_untouched [OF active_frames(3)] keeps_untouched [OF active_frames(4)] keeps_untouched [OF active_frames(5)]
  keeps_untouched [OF active_frames(6)] keeps_untouched [OF active_frames(7)] keeps_untouched [OF active_frames(8)]
  keeps_untouched [OF active_frames(9)]

lemma keeps_untouched_reconcile: "keeps (untouched w0) (loadAndReconcileStatus rt gid)"
proof -
  have expire: "keeps (untouched w0) (expireStaged gid s ex)" for s ex
    unfolding expireStaged_def Let_def by (intro keep keeps_if untouched_keeps)
  have fin: "keeps (untouched w0) (reconcile_finished rt gid s d msg)" for s d msg
    unfolding reconcile_finished_def by (intro keep untouched_keeps)
  have orphan: "keeps (untouched w0) (cleanupExpiredOrphanedStagedIdentity rt gid)"
    unfolding cleanupExpiredOrphanedStagedIdentity_def by (intro keep keeps_if untouched_keeps)
  have bc: "keeps (untouched w0) (bindClaimPreparedStagedIdentity rt s gid u)" for s u
    unfolding bindClaimPreparedStagedIdentity_def Let_def by (intro keep keeps_if untouched_keeps)
  have bs: "keeps (untouched w0) (bindStageBoundInstalledIdentity rt s gid u)" for s u
    unfolding bindStageBoundInstalledIdentity_def Let_def by (intro keep keeps_if untouched_keeps)
  have "keeps (untouched w0) (reconcile_claim_prepared rt gid s)" "keeps (untouched w0) (reconcile_stage_bound rt gid s)"
    "keeps (untouched w0) (reconcile_staged rt gid s)" "keeps (untouched w0) (reconcile_local_staged rt gid s)" for s
    unfolding reconcile_claim_prepared_def reconcile_stage_bound_def reconcile_staged_def reconcile_local_staged_def Let_def
    by (intro keep keeps_if untouched_keeps expire bc bs)+
  then show ?thesis
    unfolding loadAndReconcileStatus_def by (intro keep keeps_if untouched_keeps orphan fin)
qed

lemma active_safe_script [simp]: "active_safe rt w0 (w\<lparr>script := fs\<rparr>) = active_safe rt w0 w"
  by (simp add: active_safe_def replaced_def)

lemma keeps_safe: "preserves (\<lambda>w. (rc_active w, rc_calls w)) m \<Longrightarrow> keeps (active_safe rt w0) m"
  by (rule preserves_keeps, assumption, unfold active_safe_def replaced_def prod.inject, elim conjE, simp only:)

text \<open>The write under the active name; before its rename the active identity is the old one.\<close>

lemma spec_write_active:
  assumes "\<And>w fs. P w \<Longrightarrow> P (w\<lparr>script := fs\<rparr>)" "\<And>w. P w \<Longrightarrow> X w" "\<And>w fs. X w \<Longrightarrow> X (w\<lparr>script := fs\<rparr>)"
    "\<And>w. P w \<Longrightarrow> X (w\<lparr>rc_active := Some (new_identity gid b (rc_stamp w))\<rparr>)"
  shows "spec P (writeIdentityAtomic Active b gid replace) (\<lambda>_. X) X"
proof -
  have dir: "spec P (validateIdentityDirectory gid) (\<lambda>_. P) X"
    unfolding validateIdentityDirectory_def Let_def
    by (rule spec_lookup) (use assms in \<open>auto intro!: spec_fail spec_if spec_return simp: script_free_def split: prod.split\<close>)
  have dest: "spec P (tryP (lookupP (slot_get Active)) (\<lambda>err. if errors_Is err NotExist then returnP () else failP e1)
    (\<lambda>f. if c then failP e2 else if g f then failP e3 else returnP ())) (\<lambda>_. P) X" for e1 e2 e3 c g
    by (rule spec_lookup) (use assms in \<open>auto intro!: spec_fail spec_if spec_return simp: script_free_def\<close>)
  have sys: "spec P (mapErrP h syscallP) (\<lambda>_. P) X" for h
    unfolding syscallP_def by (rule spec_mapErr, rule spec_observe) (use assms in auto)
  have put: "spec P (mapErrP h (effectP (\<lambda>w. slot_put Active (new_identity gid b (rc_stamp w)) w))) (\<lambda>_. X) X" for h
    by (rule spec_mapErr, rule spec_effect) (use assms in auto)
  have last: "spec X syscallP (\<lambda>_. X) X"
    unfolding syscallP_def by (rule spec_observe) (use assms in auto)
  show ?thesis
    unfolding writeIdentityAtomic_def
    by (rule spec_then [OF dir], rule spec_if, rule spec_fail, use assms in simp,
        rule spec_then [OF dest], rule spec_then [OF sys], rule spec_then [OF dir], rule spec_then [OF put last])
qed

lemma spec_activation: "spec (untouched w0) (activateCredential rt policy m current) (\<lambda>_. active_safe rt w0) (active_safe rt w0)"
proof -
  let ?S = "active_safe rt w0"
  have keep: "spec ?S m (\<lambda>_. ?S) ?S" if "preserves (\<lambda>w. (rc_active w, rc_calls w)) m" for m :: "'x rc_prog"
    using keeps_safe [OF that] by (simp add: keeps_def)
  have panel: "spec (\<lambda>w. (untouched w0 w \<and> slot_get Staged w = Some f) \<and>
      (\<exists>pre. rc_calls w = pre @ [(ActivateToken id rev (cf_RuntimeToken c), Inr rotation)]))
    (thenP (checkP (validateRuntimeCredentialPanelTransition rotation s ''activated'' n)) (thenP validateIdentityLayout
      (thenP (writeIdentityAtomic Active (id_bytes f) gid True) rest))) (\<lambda>_. ?S) ?S"
    if dec: "decodeManagedBootstrapConfig (cr_net rt) (cr_yaml rt) (id_bytes f) = Inr c"
      and id: "id = rs_RotationID s" and rest: "preserves (\<lambda>w. (rc_active w, rc_calls w)) rest"
    for f id rev c rotation s n gid and rest :: "RuntimeCredentialStatus rc_prog"
  proof -
    let ?P = "\<lambda>w. (untouched w0 w \<and> slot_get Staged w = Some f) \<and>
      (\<exists>pre. rc_calls w = pre @ [(ActivateToken id rev (cf_RuntimeToken c), Inr rotation)])"
    let ?A = "ro_Status rotation = ''activated'' \<and> ro_ID rotation = id"
    have layout: "spec ?P validateIdentityLayout (\<lambda>_. ?P) ?S"
      by (rule frame_spec [where f = "\<lambda>w. (rc_active w, rc_staged w, rc_calls w)"])
        (auto intro!: frame untouched_safe simp: script_free_def untouched_def)
    have install: "spec ?P (writeIdentityAtomic Active (id_bytes f) gid True) (\<lambda>_. ?S) ?S" if "?A"
    proof (rule spec_write_active)
      fix w assume "?P w"
      with that dec show "?S (w\<lparr>rc_active := Some (new_identity gid (id_bytes f) (rc_stamp w))\<rparr>)"
        by (auto simp: active_safe_def replaced_def untouched_def new_identity_def)
    qed (auto intro: untouched_safe simp: untouched_def)
    have "spec ?P (checkP (validateRuntimeCredentialPanelTransition rotation s ''activated'' n)) (\<lambda>_ w. ?P w \<and> ?A) ?S"
      by (rule spec_check) (auto intro: untouched_safe simp: validateRuntimeCredentialPanelTransition_def id split: if_splits)
    then show ?thesis
      by (rule spec_then) (rule spec_pure, rule spec_then [OF layout], rule spec_then [OF install keep [OF rest]])
  qed
  show ?thesis
    unfolding activateCredential_def Let_def
    apply (cases current; simp only: option.case)
     apply (rule spec_fail, simp add: untouched_safe)
    apply (rule spec_if, rule spec_return, simp add: untouched_safe)
    apply (rule spec_if, rule spec_fail, simp add: untouched_safe)
    apply (rule spec_loadIdentity)
       apply (simp_all add: untouched_safe) [2]
      apply (rule spec_fail, simp add: untouched_safe)
     apply (simp add: untouched_safe)
    apply (simp only: prod.case)
    apply (rule spec_if, rule spec_fail, simp add: untouched_safe)
    apply (rule spec_panel)
       apply simp
      apply simp
     apply (simp add: untouched_safe)
    apply (rule panel)
      apply assumption
     apply (rule refl)
    apply (auto intro!: frame split: prod.split)
    done
qed

lemma other_operations_active:
  "preserves rc_active (prepare_credential rt policy r m active b st)"
  "preserves rc_active (stage_credential rt policy r m active b st)"
  "preserves rc_active (markProofReady rt m st gid)"
  "preserves rc_active (cancel_credential rt policy m st)"
  "preserves rc_active (finalize_credential rt policy m st)"
proof -
  have put: "preserves rc_active (writeIdentityAtomic Staged x gid y)" for x gid y
    by (intro frame) simp_all
  have bind: "preserves rc_active (bindStageP rt policy r m active b d t st)" for d t
    unfolding bindStageP_def Let_def by (auto intro!: frame)
  have "preserves rc_active (installStagedP rt policy r m active b sb st)" for sb
    unfolding installStagedP_def Let_def by (auto intro!: frame put bind split: prod.split)
  moreover have "preserves rc_active (acknowledgeStageP rt policy m s)" for s
    unfolding acknowledgeStageP_def Let_def by (auto intro!: frame split: prod.split)
  ultimately show "preserves rc_active (stage_credential rt policy r m active b st)"
    unfolding stage_credential_def by (auto intro!: frame split: option.split)
  show "preserves rc_active (prepare_credential rt policy r m active b st)"
    unfolding prepare_credential_def Let_def by (auto intro!: frame)
  show "preserves rc_active (markProofReady rt m st gid)"
    unfolding markProofReady_def Let_def by (auto intro!: frame split: prod.split)
  show "preserves rc_active (cancel_credential rt policy m st)"
    unfolding cancel_credential_def Let_def by (auto intro!: frame)
  show "preserves rc_active (finalize_credential rt policy m st)"
    unfolding finalize_credential_def by (auto intro!: frame)
qed

lemma spec_untouched_other:
  "preserves rc_active m \<Longrightarrow> spec (untouched w0) m (\<lambda>_. active_safe rt w0) (active_safe rt w0)"
  by (rule spec_conseq [OF frame_spec [where f = rc_active and P = "\<lambda>w. rc_active w = rc_active w0"
        and X = "\<lambda>w. rc_active w = rc_active w0"]])
    (auto simp: active_safe_def untouched_def)

lemma spec_dispatch_active:
  "spec (untouched w0) (credential_dispatch rt policy r m active b st) (\<lambda>_. active_safe rt w0) (active_safe rt w0)"
  unfolding credential_dispatch_def
  by (intro spec_if spec_activation spec_untouched_other other_operations_active frame)

lemma spec_handle_active:
  "spec (untouched w0) (handleLocalExecutorRuntimeCredential rt policy r) (\<lambda>_. active_safe rt w0) (active_safe rt w0)"
proof -
  let ?S = "active_safe rt w0"
  have ret: "spec (untouched w0) (returnP c) (\<lambda>_. ?S) ?S" for c :: credential_response
    by (rule spec_return) (rule untouched_safe)
  have try_keep: "spec (untouched w0) (tryP m (\<lambda>_. returnP c) k) (\<lambda>_. ?S) ?S"
    if "keeps (untouched w0) m" "\<And>x. spec (untouched w0) (k x) (\<lambda>_. ?S) ?S"
    for c :: credential_response and m and k :: "'x \<Rightarrow> _"
    using that by (auto intro!: spec_try [OF keeps_spec] ret untouched_safe)
  have layout: "spec ?S (thenP validateIdentityLayout (returnP s)) (\<lambda>_. ?S) ?S" for s :: RuntimeCredentialStatus
    by (rule keeps_spec, rule keeps_safe) (auto intro!: frame)
  have done_ops: "spec (untouched w0) (tryP (bindP (credential_dispatch rt policy r m active b st)
      (\<lambda>s. thenP validateIdentityLayout (returnP s))) (\<lambda>err. returnP (f err)) (\<lambda>s. returnP (g s))) (\<lambda>_. ?S) ?S"
    for m active b st and f g :: "_ \<Rightarrow> credential_response"
    by (rule spec_try [OF spec_bind [OF spec_dispatch_active layout]]) (auto intro!: spec_return)
  have mutation: "spec (untouched w0) (credential_mutation rt policy r st) (\<lambda>_. ?S) ?S" for st
    unfolding credential_mutation_def Let_def
    by (cases "cq_RuntimeCredential r"; simp only: option.case)
      (auto intro!: ret spec_if try_keep untouched_keeps done_ops simp del: de_Morgan_disj split: prod.split)
  show ?thesis
    unfolding handleLocalExecutorRuntimeCredential_def
    by (intro spec_if ret try_keep untouched_keeps keeps_untouched_reconcile mutation)
      (auto intro!: ret split: option.split)
qed

text \<open>
  C12: Whatever a runtime-credential request asks for and whatever goes wrong while it is handled,
  the active identity of the host agent is left as it was, or it now has exactly the bytes that
  were staged and the last thing the panel answered was that the rotation with the token of those
  bytes is activated. The host never loses a credential the panel accepts.
\<close>

theorem active_identity_safe:
  "let w' = snd (handleLocalExecutorRuntimeCredential rt policy r w) in
   rc_active w' = rc_active w \<or>
    (\<exists>f f' c rotation revision pre. rc_staged w = Some f \<and> rc_active w' = Some f' \<and> id_bytes f' = id_bytes f \<and>
       decodeManagedBootstrapConfig (cr_net rt) (cr_yaml rt) (id_bytes f) = Inr c \<and>
       rc_calls w' = pre @ [(ActivateToken (ro_ID rotation) revision (cf_RuntimeToken c), Inr rotation)] \<and>
       ro_Status rotation = ''activated'')"
proof -
  let ?w' = "snd (handleLocalExecutorRuntimeCredential rt policy r w)"
  have "untouched w w"
    by (simp add: untouched_def)
  with spec_handle_active [of w rt policy r] have "active_safe rt w ?w'"
    unfolding spec_def by (fastforce split: prod.splits outcome.splits)
  then show ?thesis
    unfolding active_safe_def replaced_def Let_def .
qed

end
