(* ===== verification/Credential_Stale.thy ===== *)
theory Credential_Stale
  imports Credential_Active
begin

text \<open>
  What the reconciliation returns for a claim whose lifetime is over, and the concrete runs that
  show the hypotheses of the theorems on the rotation can hold.
\<close>

section \<open>An expired claim\<close>

lemma spec_expire_late:
  assumes "\<not> time_Before t (rs_StagedExpiresAt s)"
  shows "spec (\<lambda>w. rc_times w = t # ts) (expireStaged gid s ex)
    (\<lambda>_ w. holds (expired_status s) (rc_state w)) anything"
proof -
  have clock: "spec (\<lambda>w. rc_times w = t # ts) (pastExpiry s) (\<lambda>late _. late) anything"
    using assms by (simp add: spec_def pastExpiry_def bindP_def currentTime_def returnP_def time_Before_def time_UTC_def)
  have save: "spec anything (saveStatus s') (\<lambda>_ w. holds s' (rc_state w)) anything" for s'
    unfolding spec_def using credential_record.save_durable [of s']
    by (auto split: prod.splits outcome.splits) (metis fst_conv snd_conv)
  have wipe: "spec (\<lambda>w. holds s' (rc_state w)) (thenP (if ex then wipeAndRemoveIdentity gid d else returnP ()) (returnP x))
    (\<lambda>_ w. holds s' (rc_state w)) anything" for s' d and x :: RuntimeCredentialStatus
    by (rule frame_spec [where f = rc_state]) (auto intro!: frame)
  show ?thesis
    unfolding expireStaged_def Let_def
    by (rule spec_bind [OF clock], rule spec_fact, rule spec_if, blast, rule spec_then [OF save wipe])
qed

lemma spec_stale:
  assumes bind: "spec (\<lambda>w. rc_times w = t # ts) m (\<lambda>(inner, ex) w. rc_times w = t # ts \<and>
      rs_StagedExpiresAt inner = rs_StagedExpiresAt s) anything"
    and "\<not> time_Before t (rs_StagedExpiresAt s)"
  shows "spec (\<lambda>w. rc_times w = t # ts) (bindP m (\<lambda>(inner, ex). bindP (expireStaged gid inner ex) (\<lambda>_. returnP s)))
    (\<lambda>s' w. s' = s \<and> (\<exists>x. holds x (rc_state w) \<and> rs_Phase x = PhaseExpired)) anything"
proof (rule spec_bind [OF bind])
  fix x
  show "spec (case x of (inner, ex) \<Rightarrow> \<lambda>w. rc_times w = t # ts \<and> rs_StagedExpiresAt inner = rs_StagedExpiresAt s)
     (case x of (inner, ex) \<Rightarrow> bindP (expireStaged gid inner ex) (\<lambda>_. returnP s))
     (\<lambda>s' w. s' = s \<and> (\<exists>x. holds x (rc_state w) \<and> rs_Phase x = PhaseExpired)) anything"
    apply (cases x; simp only: prod.case)
    apply (rule spec_pure)
    apply (rule spec_bind [OF spec_expire_late])
     apply (use assms(2) in simp)
    apply (rule spec_return)
    apply (auto simp: expired_status_def)
    done
qed

lemma spec_bind_times:
  "spec (\<lambda>w. rc_times w = t # ts) (bindClaimPreparedStagedIdentity rt s gid u) (\<lambda>(inner, ex) w. rc_times w = t # ts \<and>
      rs_StagedExpiresAt inner = rs_StagedExpiresAt s) anything"
  "spec (\<lambda>w. rc_times w = t # ts) (bindStageBoundInstalledIdentity rt s gid u) (\<lambda>(inner, ex) w. rc_times w = t # ts \<and>
      rs_StagedExpiresAt inner = rs_StagedExpiresAt s) anything"
proof -
  let ?P = "\<lambda>w. rc_times w = t # ts"
  let ?Q = "\<lambda>(inner, ex) w. rc_times w = t # ts \<and> rs_StagedExpiresAt inner = rs_StagedExpiresAt s"
  have sf: "script_free rc_times"
    by (simp add: script_free_def)
  have keep: "spec ?P m (\<lambda>_. ?P) anything" if "preserves rc_times m" for m :: "'x rc_prog"
    by (rule frame_spec [OF that]) auto
  have stat: "spec ?P (bindP (statP f) k) ?Q anything" if "\<And>x. spec ?P (k x) ?Q anything" for f k
    by (rule spec_bind [OF keep that]) (intro frame sf)
  have load: "spec ?P (tryP (loadIdentity rt slot gid) (\<lambda>_. failP e) k) ?Q anything"
    if "\<And>x. spec ?P (k x) ?Q anything" for slot e k
    by (rule spec_try [OF keep spec_failed that]) (auto intro!: frame sf)
  have save: "spec ?P (thenP (saveStatus s') (returnP (s', True))) ?Q anything"
    if "rs_StagedExpiresAt s' = rs_StagedExpiresAt s" for s'
    by (rule spec_then [OF keep]) (use that in \<open>auto intro!: frame sf spec_return simp: put_status_def\<close>)
  show "spec ?P (bindClaimPreparedStagedIdentity rt s gid u) ?Q anything"
    "spec ?P (bindStageBoundInstalledIdentity rt s gid u) ?Q anything"
    unfolding bindClaimPreparedStagedIdentity_def bindStageBoundInstalledIdentity_def Let_def
    by (auto intro!: spec_if spec_failed stat load save split: prod.split) (auto intro!: spec_return)
qed

lemma spec_reconcile_late:
  assumes "\<not> time_Before t (rs_StagedExpiresAt s)"
  shows "spec (\<lambda>w. rc_times w = t # ts) (reconcile_claim_prepared rt gid s)
      (\<lambda>s' w. s' = s \<and> (\<exists>x. holds x (rc_state w) \<and> rs_Phase x = PhaseExpired)) anything"
    and "spec (\<lambda>w. rc_times w = t # ts) (reconcile_stage_bound rt gid s)
      (\<lambda>s' w. s' = s \<and> (\<exists>x. holds x (rc_state w) \<and> rs_Phase x = PhaseExpired)) anything"
proof -
  have sf: "script_free rc_times"
    by (simp add: script_free_def)
  have keep: "spec (\<lambda>w. rc_times w = t # ts) m (\<lambda>_ w. rc_times w = t # ts) anything" if "preserves rc_times m" for m :: "'x rc_prog"
    by (rule frame_spec [OF that]) auto
  note late = spec_stale [OF spec_bind_times(1) assms] spec_stale [OF spec_bind_times(2) assms]
  show "spec (\<lambda>w. rc_times w = t # ts) (reconcile_claim_prepared rt gid s)
      (\<lambda>s' w. s' = s \<and> (\<exists>x. holds x (rc_state w) \<and> rs_Phase x = PhaseExpired)) anything"
    unfolding reconcile_claim_prepared_def
    by (rule spec_bind [OF keep], (intro frame sf), rule spec_bind [OF keep], (intro frame sf))
      (intro spec_if spec_failed late)
  show "spec (\<lambda>w. rc_times w = t # ts) (reconcile_stage_bound rt gid s)
      (\<lambda>s' w. s' = s \<and> (\<exists>x. holds x (rc_state w) \<and> rs_Phase x = PhaseExpired)) anything"
    unfolding reconcile_stage_bound_def
    by (rule spec_bind [OF keep], (intro frame sf), rule late)
qed

text \<open>
  C14: A reconciliation that finds a claim that was prepared or bound but whose lifetime is over
  writes the tombstone \<open>expired\<close> to the state file and returns the claim as it was before, still
  prepared or bound: the case clauses of the source assign the new status to a variable of their
  own. The operation of the same request then continues from a claim the state file calls expired.
\<close>

theorem expired_claim_returned_live:
  assumes "rc_state w = DiskFile meta (Decodes s)" "rs_Phase s \<in> {PhaseClaimPrepared, PhaseStageBound}"
    "rc_times w = t # ts" "\<not> time_Before t (rs_StagedExpiresAt s)"
    "loadAndReconcileStatus rt gid w = (Ok r, w')"
  shows "r = Some s \<and> (\<exists>x. holds x (rc_state w') \<and> rs_Phase x = PhaseExpired)"
proof -
  obtain loaded v where load: "loadStatus w = (loaded, v)"
    by fastforce
  with assms(5) obtain l where l: "loaded = Ok l"
    by (cases loaded) (auto simp: loadAndReconcileStatus_def bindP_def)
  have "tells (Some l) (rc_state w)"
    using load_status_run [of w] load l by auto
  then have ls: "l = Some s"
    using assms(1) by (auto simp: holds_def split: option.splits)
  have times: "rc_times v = t # ts"
    using preservesD [OF rc_read_frames(5), of rc_times w] load assms(3)
    by (simp add: script_free_def)
  let ?m = "if rs_Phase s = PhaseClaimPrepared then reconcile_claim_prepared rt gid s else reconcile_stage_bound rt gid s"
  have spec: "spec (\<lambda>w. rc_times w = t # ts) ?m (\<lambda>s' w. s' = s \<and> (\<exists>x. holds x (rc_state w) \<and> rs_Phase x = PhaseExpired)) anything"
    by (intro spec_if spec_reconcile_late assms(4))
  have "bindP ?m (\<lambda>s'. returnP (Some s')) v = (Ok r, w')"
    using assms(2,5) load l ls by (auto simp: loadAndReconcileStatus_def bindP_def)
  then obtain s' where "?m v = (Ok s', w')" "r = Some s'"
    by (auto simp: bindP_def returnP_def split: prod.splits outcome.splits)
  with specD_Ok [OF spec times] show ?thesis
    by blast
qed

section \<open>A host\<close>

definition sample_identity :: string where
  "sample_identity = ''identity-v1''"

definition sample_yaml :: yamllib where
  "sample_yaml = \<lparr>yaml_decode = (\<lambda>d. if d = sample_identity then Some (DocumentNode [MappingNode False
       [ScalarNode ''!!str'' ''panel_url'', ScalarNode ''!!str'' ''https://panel.example'',
        ScalarNode ''!!str'' ''node_id'', ScalarNode ''!!str'' ''host-1'',
        ScalarNode ''!!str'' ''runtime_token'', ScalarNode ''!!str'' ''worker-1'',
        ScalarNode ''!!str'' ''service_name'', ScalarNode ''!!str'' ''worker'']], False) else None),
     yaml_Marshal = (\<lambda>_. None)\<rparr>"

definition sample_credential_runtime :: credential_runtime where
  "sample_credential_runtime = \<lparr>cr_identityDir = HostAgentIdentityDir, cr_activeIdentity = HostAgentIdentityPath,
     cr_stagedIdentity = HostAgentStagedIdentityPath, cr_wipingIdentity = HostAgentWipingIdentityPath,
     cr_statePath = RuntimeCredentialStatePath, cr_executorVersion = ''v1.2.0'', cr_build_version = ''v1.2.0'',
     cr_net = sample_net, cr_yaml = sample_yaml, cr_is_panel_error = (\<lambda>_. False)\<rparr>"

definition sample_claim :: RuntimeCredentialStatus where
  "sample_claim = \<lparr>rs_SchemaVersion = 2, rs_Phase = PhaseClaimPrepared, rs_RotationID = ''host-1'',
     rs_ServiceID = ''host-1'', rs_ExecutionHostID = ''host-1'', rs_PreviousTokenID = ''host-1'',
     rs_StagedTokenID = ''worker-1'', rs_RotationRevision = 1, rs_OwnershipEpoch = 1, rs_SourcePolicyRevision = 3,
     rs_ProjectionRevision = 4, rs_LocalExecutorPolicyRevision = 5,
     rs_StagedIdentitySHA256 = runtimeCredentialDigest [],
     rs_PreviousIdentitySHA256 = runtimeCredentialDigest sample_identity, rs_ActiveIdentitySHA256 = [],
     rs_LocalExecutorPolicySHA256 = runtimeCredentialDigest [], rs_ExecutorVersion = ''v1.2.0'',
     rs_ExecutorProtocolVersion = 2, rs_MutationProtocolVersion = 2, rs_LocalStageReceiptID = [],
     rs_StagedExpiresAt = \<lparr>instant = 1000, zone = None\<rparr>,
     rs_previousRuntimeTokenSHA256 = runtimeCredentialTokenDigest ''worker-1'', rs_stagedRuntimeTokenSHA256 = [],
     rs_activeRuntimeTokenSHA256 = [], rs_serviceName = ''worker''\<rparr>"

definition sample_credential_world :: "RuntimeCredentialStatus \<Rightarrow> rc_world" where
  "sample_credential_world s = \<lparr>script = [], rc_state = DiskFile (private_file 900) (Decodes s),
     rc_state_dir = Some (dir_meta 448), rc_dir = Some (dir_meta 488, 990), rc_parents = [Some (dir_meta 493)],
     rc_active = Some (new_identity 990 sample_identity zero_time), rc_staged = None, rc_wiping = None,
     rc_times = [\<lparr>instant = 2000, zone = None\<rparr>], rc_stamp = zero_time, rc_panel = [], rc_calls = []\<rparr>"

lemma digest_shape [simp]: "MatchString digestPattern (runtimeCredentialDigest x)" "runtimeCredentialDigest x \<noteq> []"
  by (simp_all add: runtimeCredentialDigest_def) (simp add: sha256_digest_def)

lemma sample_host [simp]: "validExecutionHostID ''host-1''" "MatchString versionPattern ''v1.2.0''"
  by (simp_all add: validExecutionHostID_def is_alnum_def match_eval enumerate_eq_zip)

lemma sample_claim_valid: "status_valid sample_claim" "status_valid (expired_status sample_claim)"
  by (simp_all add: status_valid_def RuntimeCredentialStatus_Validate_def credential_binding_invalid_def
      credential_phase_check_def validateRootTokenBindings_def sample_claim_def expired_status_def
      runtimeCredentialTokenDigest_def IsZero_def)

lemma sample_decodes: "decodeManagedBootstrapConfig sample_net sample_yaml sample_identity =
  Inr \<lparr>cf_PanelURL = ''https://panel.example'', cf_NodeID = ''host-1'', cf_RuntimeToken = ''worker-1'',
    cf_ServiceName = ''worker'', cf_configFields = rev identity_field_names\<rparr>"
proof -
  have "TrimSpace sample_identity = sample_identity"
    by (simp add: sample_identity_def TrimSpace_graphic graphic_eval)
  then show ?thesis
    by (simp add: decodeManagedBootstrapConfig_def sample_yaml_def empty_config_def configMaxBytes_def
        Config_Validate_def validatePanelURL_def sample_net_def identity_field_names_def)
      (simp add: sample_identity_def)
qed

subsection \<open>Runs without faults\<close>

definition good_dir :: "int \<Rightarrow> rc_world \<Rightarrow> bool" where
  "good_dir gid w \<longleftrightarrow> script w = [] \<and> rc_dir w = Some (dir_meta 488, gid) \<and> rc_parents w = [Some (dir_meta 493)] \<and>
     rc_state_dir w = Some (dir_meta 448)"

lemma calm_dir [calm]: "good_dir gid w \<Longrightarrow> validateIdentityDirectory gid w = (Ok (), w)"
  by (simp add: good_dir_def validateIdentityDirectory_def calm dir_meta_def Let_def)

lemma calm_load_identity:
  assumes "good_dir gid w" "slot_get slot w = Some (new_identity gid b t)" "b \<noteq> []" "int (length b) \<le> configMaxBytes"
    "decodeManagedBootstrapConfig (cr_net rt) (cr_yaml rt) b = Inr c"
  shows "loadIdentity rt slot gid w = (Ok (c, b, t), w)"
  using assms calm_dir [OF assms(1)]
  by (simp add: good_dir_def loadIdentity_def openP_def calm identity_regular_def identity_owned_def new_identity_def
      regular_meta_def resultP_def Let_def)

lemma calm_layout:
  assumes "good_dir gid w" "rc_active w = Some (new_identity gid b t)"
  shows "validateIdentityLayout w = (Ok (), w)"
proof -
  have "and (488 :: nat) 18 = 0" "and (493 :: nat) 18 = 0"
    by code_simp+
  with assms show ?thesis
    by (simp add: good_dir_def validateIdentityLayout_def layout_parent_def calm dir_meta_def safe_parent_def
        new_identity_def regular_meta_def Let_def)
qed

lemma calm_save_status:
  assumes "good_dir gid w" "status_valid s" "credential_payload s = Some d" "d \<noteq> []"
    "int (length d) + 1 \<le> runtimeCredentialStateMaxBytes"
  shows "saveStatus s w = (Ok (), put_status (DiskFile (private_file (int (length d) + 1)) (Decodes s)) w)"
  using assms by (simp add: good_dir_def saveStatus_def calm dir_meta_def status_valid_def put_status_def)

lemma calm_load_status:
  assumes "script w = []" "rc_state w = DiskFile meta (Decodes s)" "status_sealed meta" "status_valid s"
  shows "loadStatus w = (Ok (Some s), w)"
  using assms by (simp add: loadStatus_def calm status_sealed_def status_valid_def)

lemma calm_stat: "script w = [] \<Longrightarrow> statP f w = (Ok (case f w of None \<Rightarrow> Inl NotExist | Some x \<Rightarrow> Inr x), w)"
  by (simp add: statP_def calm split: option.split)

lemma sample_names: "json_escape ''schema_version'' = ''schema_version''" "json_escape ''phase'' = ''phase''" "json_escape
    ''rotation_id'' = ''rotation_id''" "json_escape ''service_id'' = ''service_id''" "json_escape
    ''execution_host_id'' = ''execution_host_id''" "json_escape ''previous_token_id'' = ''previous_token_id''"
    "json_escape ''staged_token_id'' = ''staged_token_id''" "json_escape ''rotation_revision'' =
    ''rotation_revision''" "json_escape ''ownership_epoch'' = ''ownership_epoch''" "json_escape
    ''source_policy_revision'' = ''source_policy_revision''" "json_escape ''projection_revision'' =
    ''projection_revision''" "json_escape ''local_executor_policy_revision'' = ''local_executor_policy_revision''"
    "json_escape ''staged_identity_sha256'' = ''staged_identity_sha256''" "json_escape
    ''previous_identity_sha256'' = ''previous_identity_sha256''" "json_escape ''active_identity_sha256'' =
    ''active_identity_sha256''" "json_escape ''local_executor_policy_sha256'' = ''local_executor_policy_sha256''"
    "json_escape ''executor_version'' = ''executor_version''" "json_escape ''executor_protocol_version'' =
    ''executor_protocol_version''" "json_escape ''mutation_protocol_version'' = ''mutation_protocol_version''"
    "json_escape ''local_stage_receipt_id'' = ''local_stage_receipt_id''" "json_escape ''staged_expires_at'' =
    ''staged_expires_at''" "json_escape ''previous_runtime_token_sha256'' = ''previous_runtime_token_sha256''"
    "json_escape ''staged_runtime_token_sha256'' = ''staged_runtime_token_sha256''" "json_escape
    ''active_runtime_token_sha256'' = ''active_runtime_token_sha256''" "json_escape ''service_name'' =
    ''service_name''" "json_escape ''expired'' = ''expired''" "json_escape ''host-1'' = ''host-1''" "json_escape
    ''worker-1'' = ''worker-1''" "json_escape ''worker'' = ''worker''" "json_escape ''v1.2.0'' = ''v1.2.0''"
    "json_escape (rfc3339 1 1 1 0 1000 0) = ''0001-01-01T00:00:00.000001Z''"
    "int_string 1 = ''1''" "int_string 2 = ''2''" "int_string 3 = ''3''" "int_string 4 = ''4''" "int_string 5 = ''5''"
  by code_simp+

lemma digest_text_length: "json_escape (runtimeCredentialDigest x) = runtimeCredentialDigest x"
  "length (runtimeCredentialDigest x) = 71"
  by (simp_all add: runtimeCredentialDigest_def digest_text)

lemma sample_expired_payload:
  "\<exists>d. credential_payload (expired_status sample_claim) = Some d \<and> d \<noteq> [] \<and>
     int (length d) + 1 \<le> runtimeCredentialStateMaxBytes"
proof -
  have "civil_date 0 = (1, 1, 1)"
    by code_simp
  then have "time_json \<lparr>instant = 1000, zone = None\<rparr> = Some (JStr (rfc3339 1 1 1 0 1000 0))"
    by (simp add: time_json_def time_Second_def)
  then show ?thesis
    by (simp add: credential_payload_def expired_status_def sample_claim_def time_field_def str_opt_def json_quote_def
        runtimeCredentialTokenDigest_def sample_names digest_text_length runtimeCredentialStateMaxBytes_def)
qed

lemma sample_good: "good_dir 990 (sample_credential_world s)" "good_dir 990 (put_status f (sample_credential_world s))"
  by (simp_all add: good_dir_def sample_credential_world_def put_status_def)

lemma sample_length: "sample_identity \<noteq> []" "int (length sample_identity) \<le> configMaxBytes"
  by (simp_all add: sample_identity_def configMaxBytes_def)

lemma sample_load_identity:
  "loadIdentity sample_credential_runtime Active 990 (sample_credential_world s) =
     (Ok (\<lparr>cf_PanelURL = ''https://panel.example'', cf_NodeID = ''host-1'', cf_RuntimeToken = ''worker-1'',
       cf_ServiceName = ''worker'', cf_configFields = rev identity_field_names\<rparr>, sample_identity, zero_time),
      sample_credential_world s)"
  by (rule calm_load_identity [OF sample_good(1) _ sample_length])
    (simp_all add: sample_credential_world_def sample_credential_runtime_def sample_decodes)

lemma sample_load_status: "status_valid s \<Longrightarrow> loadStatus (sample_credential_world s) = (Ok (Some s), sample_credential_world s)"
  by (rule calm_load_status [where meta = "private_file 900"])
    (simp_all add: sample_credential_world_def status_sealed_def state_secure_def private_file_def runtimeCredentialStateMaxBytes_def)

lemma sample_reconcile:
  "\<exists>w'. loadAndReconcileStatus sample_credential_runtime 990 (sample_credential_world sample_claim) = (Ok (Some sample_claim), w')"
proof -
  let ?w = "sample_credential_world sample_claim"
  obtain d where d: "credential_payload (expired_status sample_claim) = Some d" "d \<noteq> []"
    "int (length d) + 1 \<le> runtimeCredentialStateMaxBytes"
    using sample_expired_payload by blast
  have good: "good_dir 990 (?w\<lparr>rc_times := []\<rparr>)"
    using sample_good(1) [of sample_claim] by (simp add: good_dir_def)
  note save = calm_save_status [OF good sample_claim_valid(2) d]
  have phase: "rs_Phase sample_claim = PhaseClaimPrepared" "rs_PreviousIdentitySHA256 sample_claim = runtimeCredentialDigest sample_identity"
    "rs_StagedExpiresAt sample_claim = \<lparr>instant = 1000, zone = None\<rparr>"
    by (simp_all add: sample_claim_def)
  have w: "script ?w = []" "rc_wiping ?w = None" "rc_staged ?w = None" "rc_times ?w = [\<lparr>instant = 2000, zone = None\<rparr>]"
    by (simp_all add: sample_credential_world_def)
  have "activeDigestP sample_credential_runtime 990 (runtimeCredentialDigest sample_identity) msg ?w = (Ok
     \<lparr>cf_PanelURL = ''https://panel.example'', cf_NodeID = ''host-1'', cf_RuntimeToken = ''worker-1'',
       cf_ServiceName = ''worker'', cf_configFields = rev identity_field_names\<rparr>, ?w)" for msg
    by (simp add: activeDigestP_def tryP_def sample_load_identity returnP_def)
  moreover have "bindClaimPreparedStagedIdentity sample_credential_runtime sample_claim 990 u ?w = (Ok (sample_claim, False), ?w)" for u
    by (simp add: bindClaimPreparedStagedIdentity_def phase bindP_def calm_stat w returnP_def)
  moreover have "\<exists>w'. expireStaged 990 sample_claim False ?w = (Ok (expired_status sample_claim), w')"
    by (simp add: expireStaged_def pastExpiry_def currentTime_def bindP_def w returnP_def phase time_Before_def time_UTC_def
        thenP_def save Let_def)
  ultimately have "\<exists>w'. reconcile_claim_prepared sample_credential_runtime 990 sample_claim ?w = (Ok sample_claim, w')"
    by (auto simp: reconcile_claim_prepared_def phase bindP_def calm_stat w returnP_def)
  then show ?thesis
    by (auto simp: loadAndReconcileStatus_def bindP_def sample_load_status [OF sample_claim_valid(1)] phase returnP_def)
qed

theorem expired_claim_returned_live_witness:
  "\<exists>w'. loadAndReconcileStatus sample_credential_runtime 990 (sample_credential_world sample_claim) = (Ok (Some sample_claim), w') \<and>
     (\<exists>x. holds x (rc_state w') \<and> rs_Phase x = PhaseExpired)"
proof -
  obtain w' where run: "loadAndReconcileStatus sample_credential_runtime 990 (sample_credential_world sample_claim) = (Ok (Some sample_claim), w')"
    using sample_reconcile by blast
  have "rc_state (sample_credential_world sample_claim) = DiskFile (private_file 900) (Decodes sample_claim)"
    "rs_Phase sample_claim \<in> {PhaseClaimPrepared, PhaseStageBound}"
    "rc_times (sample_credential_world sample_claim) = [\<lparr>instant = 2000, zone = None\<rparr>]"
    "\<not> time_Before \<lparr>instant = 2000, zone = None\<rparr> (rs_StagedExpiresAt sample_claim)"
    by (simp_all add: sample_credential_world_def sample_claim_def time_Before_def)
  from expired_claim_returned_live [OF this run] run show ?thesis
    by blast
qed

definition sample_status_request :: credential_request where
  "sample_status_request = \<lparr>cq_Version = 2, cq_Operation = ''runtime_credential_status'', cq_ServiceID = ''host-1'',
     cq_RuntimeCredential = None, cq_SourcePolicyRevision = 0, cq_OwnershipEpoch = 0, cq_OwnershipPolicyRevision = 0,
     cq_ExecutorPolicyRevision = 0, cq_foreign_fields = False\<rparr>"

lemma sample_request_ok: "credential_request_Validate sample_status_request = None"
  "HasPrefix (cq_Operation sample_status_request) ''runtime_credential_''"
  by (simp_all add: credential_request_Validate_def sample_status_request_def HasPrefix_def)

lemma sample_paths_ok: "validatePaths sample_credential_runtime = None"
  by code_simp

lemma sample_handles:
  "handleLocalExecutorRuntimeCredential sample_credential_runtime sample_policy sample_status_request
     (sample_credential_world (expired_status sample_claim)) =
   (Ok (CredentialStatus (expired_status sample_claim)), sample_credential_world (expired_status sample_claim))"
proof -
  let ?s = "expired_status sample_claim"
  let ?w = "sample_credential_world ?s"
  have w: "script ?w = []" "rc_wiping ?w = None" "rc_staged ?w = None"
    by (simp_all add: sample_credential_world_def)
  have s: "rs_Phase ?s = PhaseExpired" "rs_PreviousIdentitySHA256 ?s = runtimeCredentialDigest sample_identity"
    "rs_ServiceID ?s = ''host-1''" "RuntimeCredentialStatus_Validate ?s = None"
    using sample_claim_valid(2) by (simp_all add: expired_status_def sample_claim_def status_valid_def)
  have policy: "policy_mutates sample_net sample_policy" "po_AgentGID sample_policy = 990"
    using sample_policy_valid by (simp_all add: policy_mutates_def) (simp_all add: sample_policy_def)
  have layout: "validateIdentityLayout ?w = (Ok (), ?w)"
    by (rule calm_layout [OF sample_good(1), where b = sample_identity]) (simp add: sample_credential_world_def)
  have "wipeAndRemoveIdentity 990 d ?w = (Ok (), ?w)" for d
    by (simp add: wipeAndRemoveIdentity_def bindP_def calm_stat w returnP_def)
  then have "reconcile_finished sample_credential_runtime 990 ?s (runtimeCredentialDigest sample_identity) msg ?w = (Ok ?s, ?w)" for msg
    by (simp add: reconcile_finished_def activeDigestP_def tryP_def sample_load_identity returnP_def bindP_def thenP_def)
  then have "loadAndReconcileStatus sample_credential_runtime 990 ?w = (Ok (Some ?s), ?w)"
    by (simp add: loadAndReconcileStatus_def bindP_def sample_load_status [OF sample_claim_valid(2)] s returnP_def)
  then show ?thesis
    using sample_request_ok sample_paths_ok policy
    by (simp add: handleLocalExecutorRuntimeCredential_def sample_status_request_def sample_credential_runtime_def
        tryP_def layout s returnP_def runtimeCredentialResponse_def)
qed

text \<open>
  C13: A runtime-credential request that is answered with a rotation that is over (activated,
  cancelled or about to be acknowledged as cancelled, expired, or recovered by hand) is answered
  only when neither the staged identity nor a quarantined copy of it is left on the disk, whatever
  happened before. The handler never records a rotation as cancelled, so the hypothesis on the
  state file holds from then on.
\<close>

theorem rotation_over_leaves_no_secret:
  assumes "never_cancelled w" "handleLocalExecutorRuntimeCredential rt policy r w = (res, w')"
  shows "never_cancelled w' \<and>
    (\<forall>s. res = Ok (CredentialStatus s) \<longrightarrow> rotation_over s \<longrightarrow> rc_staged w' = None \<and> rc_wiping w' = None)"
proof (intro conjI allI impI)
  show "never_cancelled w'"
    using keepsD [OF keeps_handle assms(1), of rt policy r] assms(2) by simp
  fix s assume "res = Ok (CredentialStatus s)" "rotation_over s"
  then have "wiped w'"
    using specD_Ok [OF spec_handle assms(1), of rt policy r "CredentialStatus s" w'] assms(2)
    by (simp add: answered_def over_wiped_def)
  then show "rc_staged w' = None" "rc_wiping w' = None"
    by (simp_all add: wiped_def)
qed

theorem rotation_over_leaves_no_secret_witness:
  "rotation_over (expired_status sample_claim) \<and>
   handleLocalExecutorRuntimeCredential sample_credential_runtime sample_policy sample_status_request
     (sample_credential_world (expired_status sample_claim)) =
   (Ok (CredentialStatus (expired_status sample_claim)), sample_credential_world (expired_status sample_claim)) \<and>
   rc_staged (sample_credential_world (expired_status sample_claim)) = None"
proof -
  have "never_cancelled (sample_credential_world (expired_status sample_claim))"
    by (simp add: never_cancelled_def sample_credential_world_def holds_def expired_status_def)
  from rotation_over_leaves_no_secret [OF this sample_handles] show ?thesis
    using sample_handles by (simp add: rotation_over_def expired_status_def)
qed

section \<open>The overwrite\<close>

lemma overwrite_all:
  "script w = [] \<Longrightarrow> rc_wiping w = Some f \<Longrightarrow> off + n = length (id_bytes f) \<Longrightarrow>
     overwriteP off n w = (Ok (), if n = 0 then w else on_wiping (\<lambda>b. take off b @ replicate n (CHR 0x00)) w)"
proof (induction off n arbitrary: w f rule: overwriteP.induct)
  case (1 off n)
  show ?case
  proof (cases "n = 0")
    case True
    then show ?thesis
      by (simp add: overwriteP.simps returnP_def)
  next
    case False
    let ?c = "min n 32768" and ?w = "on_wiping (zero_range off (min n 32768)) w"
    have n: "off + ?c + (n - ?c) = off + n"
      by simp
    let ?b = "zero_range off ?c (id_bytes f)"
    have f: "rc_wiping ?w = Some (f\<lparr>id_bytes := ?b, id_meta := (id_meta f)\<lparr>size_bytes := int (length ?b)\<rparr>\<rparr>)" "script ?w = []"
      "length ?b = length (id_bytes f)"
      using "1.prems" by (auto simp: on_wiping_def zero_range_def)
    have "overwriteP (off + ?c) (n - ?c) ?w =
      (Ok (), if n - ?c = 0 then ?w else on_wiping (\<lambda>b. take (off + ?c) b @ replicate (n - ?c) (CHR 0x00)) ?w)"
      by (rule "1.IH" [OF False refl f(2,1)]) (use "1.prems"(3) f(3) n in simp)
    moreover have "overwriteP off n w = overwriteP (off + ?c) (n - ?c) ?w"
      using False "1.prems"(1) by (subst overwriteP.simps) (simp add: Let_def calm)
    moreover have "(if n - ?c = 0 then ?w else on_wiping (\<lambda>b. take (off + ?c) b @ replicate (n - ?c) (CHR 0x00)) ?w) =
      on_wiping (\<lambda>b. take off b @ replicate n (CHR 0x00)) w"
      using "1.prems" f(3)
      by (auto simp: on_wiping_def zero_range_def min_def replicate_add [symmetric])
    ultimately show ?thesis
      using False by simp
  qed
qed

text \<open>
  C15: The loop that wipes the quarantined identity ends for every size, and in a run without
  faults every byte of the file has been overwritten when it does.
\<close>

theorem overwrite_terminates_zeroed:
  assumes "script w = []" "rc_wiping w = Some f"
  shows "\<exists>w'. overwriteP 0 (length (id_bytes f)) w = (Ok (), w') \<and>
    (\<exists>f'. rc_wiping w' = Some f' \<and> id_bytes f' = replicate (length (id_bytes f)) (CHR 0x00))"
  using overwrite_all [OF assms, of 0 "length (id_bytes f)"] assms
  by (cases "id_bytes f") (auto simp: on_wiping_def)

theorem overwrite_terminates_zeroed_witness:
  "\<exists>w'. overwriteP 0 (length sample_identity)
      ((sample_credential_world sample_claim)\<lparr>rc_wiping := Some (new_identity 990 sample_identity zero_time)\<rparr>) = (Ok (), w') \<and>
    (\<exists>f'. rc_wiping w' = Some f' \<and> id_bytes f' = replicate (length sample_identity) (CHR 0x00))"
  using overwrite_terminates_zeroed [of
      "(sample_credential_world sample_claim)\<lparr>rc_wiping := Some (new_identity 990 sample_identity zero_time)\<rparr>"
      "new_identity 990 sample_identity zero_time"]
  by (simp add: sample_credential_world_def new_identity_def)

end
