(* ===== verification/Spec2Isabelle.thy ===== *)
theory Spec2Isabelle
  imports SelfUpdate_Authority Journal_Validity Credential_Stale
begin

text \<open>
  \<^bold>\<open>A verification development for the Autostream updater\<close>, the Go program under \<open>src/\<close> that
  keeps the services of a host up to date.

  \<^bold>\<open>The program.\<close> Two processes run on a host. The host agent
  (\<open>cmd/autostream-updater-agent\<close>, unprivileged) polls a control panel, claims update jobs, keeps
  them in a journal and reports their progress. The local executor
  (\<open>cmd/autostream-local-executor\<close>, root) is asked by the agent over a socket and changes the
  host: it stages and activates releases of the updater itself, rotates the agent's credential,
  installs releases of services and moves their ports. A watchdog started by a timer rolls an
  update of the updater back when nobody confirms it. Almost all of the code is the package
  \<open>internal/hostruntime\<close>; the file names below are in that directory. The executor decides by a
  root-owned policy file, and every record it or the agent keeps is a private file that is
  replaced by a rename, so that the program can be stopped anywhere.

  \<^bold>\<open>The common part.\<close> \<open>Go_Prelude\<close>: errors, \<open>int64\<close> with its wrap-around, times, strings.
  \<open>World\<close>: programs over an explicit world. A world has a fault script with one entry per call to
  the operating system; the entry says that the call succeeds, fails, takes effect but fails, or
  that the process dies before or after it. A crash is the death of the process: what it wrote
  stays; the loss of writes that have not reached the disk when the power fails is not part of the
  world. Theorems that do not fix the script hold for every failure and every such crash; a theorem
  about a run without faults fixes it to be empty. The theory
  has the rules for postconditions (\<open>spec\<close>), invariants (\<open>keeps\<close>) and frames (\<open>preserves\<close>) that the
  component proofs are made of. \<open>Durable\<close>: the locale \<open>durable_record\<close>, the contract of a record in
  one private file (a load reports what the file holds, a save leaves the old file or the new
  record). It is interpreted for the state and the grant of the self-update (\<open>SelfUpdate_Safety\<close>)
  and for the status of the credential (\<open>Credential_Safety\<close>). \<open>Patterns\<close>: the regular expressions
  of the source and their matcher. \<open>Encoding\<close>: SHA-256, \<open>json.Marshal\<close> and times in JSON.
  \<open>Paths\<close>: \<open>filepath.Clean\<close> and the path and address predicates.

  \<^bold>\<open>Versions.\<close> \<open>Semver\<close> (\<open>semver.go\<close>): the comparison of versions is the precedence of semantic
  versioning, a version that parses prints back to itself. The printer is a specification function;
  the source only parses.

  \<^bold>\<open>The policy of the executor.\<close> \<open>Executor_Policy\<close> (\<open>local_executor_policy.go\<close>, \<open>target.go\<close>,
  \<open>systemd_profiles.go\<close>): targets, profiles, validation, the digest of a policy. A validated policy
  gives no service more authority than its compiled profile.

  \<^bold>\<open>The self-update.\<close> \<open>SelfUpdate_State\<close> (\<open>host_self_update_state.go\<close>): the pure state machine
  with stage, activation, commit and rollback, its invariant, its phase graph and the refinement
  of an atomic update. \<open>SelfUpdate_Grant\<close> (\<open>host_self_update_grant*.go\<close>): the grants of the panel;
  their plan digest binds operation, release and fence. \<open>SelfUpdate_Disk\<close>
  (\<open>host_self_update_slot_*.go\<close>, \<open>host_self_update_preparation.go\<close>): the two records, the slots
  directory and the \<open>current\<close> link as the state \<open>su_world\<close>. \<open>SelfUpdate_Executor\<close>
  (\<open>host_self_update_staging.go\<close>, \<open>host_self_update_activation.go\<close>, \<open>host_self_update_health.go\<close>,
  \<open>host_self_update_executor.go\<close>): the operations and the handler of requests.
  \<open>SelfUpdate_Watchdog\<close> (\<open>host_self_update_watchdog.go\<close>): the timer. \<open>SelfUpdate_Safety\<close> and
  \<open>SelfUpdate_Crash\<close>: under any faults and crashes, over any sequence of requests and timers, the
  healthy slot is kept and \<open>current\<close> is that slot or a pending one under a durable fence.
  \<open>SelfUpdate_Authority\<close>: a stage request leaves an update under way only with a durable record
  of its grant that holds a valid receipt of the panel.

  \<^bold>\<open>Jobs, claims and the journal of the agent.\<close> \<open>Host_Policy\<close> (\<open>host_pull_panel.go\<close>,
  \<open>runtime_token_rotation_protocol.go\<close>): the policy the panel sends and its validation. \<open>Jobs\<close>
  (\<open>panel.go\<close>, \<open>mutation_protocol.go\<close>, \<open>systemd_port_reconfigure.go\<close>, \<open>stage_failure.go\<close>): jobs,
  reports and plans. \<open>Claims\<close> (\<open>host_pull_claim_validation.go\<close>, \<open>software_claim_*.go\<close>,
  \<open>systemd_port_result.go\<close>): the validation of a claimed job and of results. \<open>Port_Projection\<close>
  (\<open>agent_port_policy.go\<close>, \<open>port_policy_transition.go\<close>): the port policy of the agent. \<open>Journal\<close>
  (\<open>journal.go\<close>, \<open>software_journal_binding.go\<close>): the journal in memory and on the disk, one
  program per method, and the fence of a clear. \<open>Claim_Recovery\<close> (\<open>software_journal_binding.go\<close>,
  \<open>software_claim_recovery*.go\<close>): the two methods that put a recovered claim into the journal, with
  the request, proof and intent they check; the clock, the verdict on the state directory and the
  durable intent they read are arguments. \<open>Port_Execution\<close> (\<open>host_pull_port_execution.go\<close>): how
  the agent builds the plan of a port change and recovers it into the journal. \<open>Journal_Safety\<close>,
  \<open>Journal_Crash\<close>: every method that changes the journal is one atomic change of the durable data
  or changes nothing, an interrupted clear is completed or undone by the next start, and the case in
  which it is not. \<open>Journal_Reports\<close>: reports are acknowledged in the order they were queued, with
  consecutive 64-bit sequence numbers between two leases. \<open>Journal_Credentials\<close>: no token of a job
  reaches the disk. \<open>Journal_Validity\<close>: every method, called as the agent calls it, keeps the
  journal valid in memory and in the file, and so does the recovery of a port plan.

  \<^bold>\<open>The credential of the agent.\<close> \<open>Identity_Config\<close> (\<open>identity_config.go\<close>): the identity file.
  \<open>Credential_Status\<close> (\<open>runtime_token_rotation_protocol.go\<close>): the status of a rotation and its
  validation. \<open>Runtime_Credential\<close> (\<open>runtime_token_rotation_state.go\<close>, \<open>_identity.go\<close>, \<open>_cleanup.go\<close>,
  \<open>_binding.go\<close>, \<open>_reconciliation.go\<close>, \<open>_expiry.go\<close>): the files, the wipe and the reconciliation over
  the state \<open>rc_world\<close>. \<open>Credential_Operations\<close> (\<open>_staging.go\<close>, \<open>_transition.go\<close>, \<open>_executor.go\<close>,
  \<open>_emergency_recovery.go\<close>): the operations, the handler and the recovery by hand.
  \<open>Credential_Safety\<close>, \<open>Credential_Over\<close>: a rotation is reported as over only when neither the
  staged identity file nor a quarantined copy of it is left. \<open>Credential_Active\<close>: the active identity changes only to the staged
  bytes the panel has activated. \<open>Credential_Stale\<close>: a claim whose lifetime is over is recorded as
  expired and returned as live, and the wipe overwrites every byte.

  \<^bold>\<open>Parameters.\<close> Code that is not in the repository is a parameter: the URL and address parsers
  (\<open>netlib\<close>), the YAML package (\<open>yamllib\<close>), the package \<open>contracts\<close> with the JSON value of the journal
  (\<open>externals\<close>, \<open>journal_env\<close>), the download of a release and the output of a binary
  (\<open>hostSelfUpdateExecutorRuntime\<close>). Answers of the panel, of the socket and of the clock are lists
  in the world. What the theorems need of a parameter is a hypothesis, and the witness of the
  theorem gives an instance.

  \<^bold>\<open>Bounds.\<close> No model uses fuel: loops are structural or have a termination proof. The probes of the
  executor's health are bounded by the constants of the source, the wipe by the size of the file.
  Revisions are \<open>int\<close> with the wrap-around of \<open>int64\<close> written out where the source adds to them;
  sequence numbers are 64-bit words.

  \<^bold>\<open>Assumptions of the models.\<close> The executor holds the host lifecycle lock, so no other process
  changes its files between two calls; a file replaced through a temporary file and a rename
  changes in one step, and the temporary file itself is not in the world, so a leftover of an
  interrupted write (for the identity, \<open>.identity.runtime-*\<close> with the credential in it) is not
  seen by the theorems; strings are valid UTF-8 where they pass through JSON. Permissions are the
  ones of the production runtime on Linux; the hooks the tests use are not modelled.

  \<^bold>\<open>Not modelled.\<close> Network, process, archive and terminal code: the HTTP clients
  (\<open>internal/controlplane\<close>, \<open>v2_panel.go\<close>, \<open>runtime_token_rotation_panel.go\<close>), the socket client
  and server, downloads and extraction (\<open>artifact.go\<close>, \<open>host_self_update_artifact.go\<close>,
  \<open>bootstrap_provenance.go\<close>), probes over \<open>/proc\<close>, cgroups, systemd and Docker
  (\<open>local_executor_probe.go\<close>, \<open>local_executor_verify*.go\<close>), locks and process groups, the commands,
  the installers and the CI scripts: what they do is decided by the systems they call. The executor's
  changes to services (\<open>executor_*.go\<close>, \<open>systemd_release_*.go\<close>, \<open>docker_release_*.go\<close>,
  \<open>systemd_port_*.go\<close>, \<open>docker_port_*.go\<close>), the agent's side of the credential rotation, the control
  loop beyond the port plan, the recovery of software claims outside the journal, the configuration of an agent and the manual upgrade have
  contracts of their own that are not covered here; their data types and validation are, where the
  journal or the claims use them.
\<close>

end
